(* ===== verification/Prelude.thy ===== *)
theory Prelude
  imports
    Complex_Main
    "HOL-Library.Sorting_Algorithms"
    "HOL-Library.List_Lexorder"
    "HOL-Library.Char_ord"
    "HOL-Library.AList"
begin

text \<open>
  Shared vocabulary of the development: the parts of the JavaScript run time that the modelled
  TypeScript relies on, the generic lemmas about them, and the locales that several components
  instantiate.

  \<^item> Strings are sequences of code units, modelled by \<^typ>\<open>string\<close>; the default
    \<^verbatim>\<open>Array.prototype.sort\<close> on strings compares code units, which is the
    lexicographic order of \<^verbatim>\<open>List_Lexorder\<close> over \<^verbatim>\<open>Char_ord\<close>.
  \<^item> \<^verbatim>\<open>String.prototype.localeCompare\<close> depends on the host's collation tables.
    ECMA-262 only promises a consistent comparator, so the definitions that use it take a
    value of type \<^typ>\<open>string comparator\<close> (a comparator with exactly those laws) as an argument.
  \<^item> A \<^verbatim>\<open>Set\<close> is a duplicate-free list in insertion order, a \<^verbatim>\<open>Map\<close> is an association
    list in insertion order updated by \<^const>\<open>AList.update\<close>.
  \<^item> Numbers that the source treats as integers (counters, sequence numbers, milliseconds) are
    \<^typ>\<open>int\<close> or \<^typ>\<open>nat\<close>; values that may be fractional are \<^typ>\<open>rat\<close>. The IEEE specials only
    matter where the source tests for them; there \<open>js_number\<close> is used.
\<close>

named_theorems severity_facts \<open>the severities a check of the policy gate can report\<close>
named_theorems conflict_free_facts \<open>checks of the policy gate that never report a conflict\<close>

section \<open>JavaScript numbers\<close>

datatype js_number = Fin rat | PosInfinity | NegInfinity | NaN

text \<open>\<^verbatim>\<open>Number.isInteger\<close> on a finite number, in executable form.\<close>

definition rat_integral :: "rat \<Rightarrow> bool" where
  "rat_integral q \<longleftrightarrow> of_int \<lfloor>q\<rfloor> = q"

lemma rat_integral_iff [simp]: "rat_integral q \<longleftrightarrow> q \<in> \<int>"
  unfolding rat_integral_def by (metis Ints_of_int Ints_cases floor_of_int)

fun isFinite :: "js_number \<Rightarrow> bool" where
  "isFinite (Fin _) = True"
| "isFinite _ = False"

fun isInteger :: "js_number \<Rightarrow> bool" where
  "isInteger (Fin q) = rat_integral q"
| "isInteger _ = False"

text \<open>Comparison with a finite constant; every comparison with \<^const>\<open>NaN\<close> is false.\<close>

fun js_less :: "js_number \<Rightarrow> rat \<Rightarrow> bool" where
  "js_less (Fin q) r = (q < r)"
| "js_less NegInfinity _ = True"
| "js_less _ _ = False"

fun js_greater :: "js_number \<Rightarrow> rat \<Rightarrow> bool" where
  "js_greater (Fin q) r = (q > r)"
| "js_greater PosInfinity _ = True"
| "js_greater _ _ = False"

text \<open>\<^verbatim>\<open>Math.round(x * 1e6) / 1e6\<close>; \<^verbatim>\<open>Math.round\<close> rounds halves up.\<close>

definition js_round6 :: "rat \<Rightarrow> rat" where
  "js_round6 x = of_int \<lfloor>x * 1000000 + 1 / 2\<rfloor> / 1000000"

lemma js_round6_bounds: "0 \<le> x \<Longrightarrow> x \<le> 1 \<Longrightarrow> 0 \<le> js_round6 x \<and> js_round6 x \<le> 1"
proof -
  assume x: "0 \<le> x" "x \<le> 1"
  have "\<lfloor>x * 1000000 + 1 / 2\<rfloor> \<le> 1000000" using x by (simp add: floor_le_iff)
  moreover have "0 \<le> \<lfloor>x * 1000000 + 1 / 2\<rfloor>" using x by simp
  ultimately show ?thesis by (simp add: js_round6_def field_simps)
qed

section \<open>Strings\<close>

text \<open>The white space of \<^verbatim>\<open>String.prototype.trim\<close> within the modelled code units.\<close>

definition js_space :: "char \<Rightarrow> bool" where
  "js_space c \<longleftrightarrow> (of_char c :: nat) \<in> {9, 10, 11, 12, 13, 32, 160}"

definition js_trim :: "string \<Rightarrow> string" where
  "js_trim s = rev (dropWhile js_space (rev (dropWhile js_space s)))"

text \<open>\<^verbatim>\<open>xs.join(sep)\<close>\<close>

fun js_join :: "string \<Rightarrow> string list \<Rightarrow> string" where
  "js_join sep [] = []"
| "js_join sep [x] = x"
| "js_join sep (x # y # ys) = x @ sep @ js_join sep (y # ys)"

text \<open>\<^verbatim>\<open>String(n)\<close> of a non-negative integer.\<close>

fun js_string_of_nat :: "nat \<Rightarrow> string" where
  "js_string_of_nat n =
     (if n < 10 then [char_of (48 + n)] else js_string_of_nat (n div 10) @ [char_of (48 + n mod 10)])"

declare js_string_of_nat.simps [simp del]

definition js_string_of_int :: "int \<Rightarrow> string" where
  "js_string_of_int i = (if i < 0 then CHR ''-'' # js_string_of_nat (nat (- i)) else js_string_of_nat (nat i))"

text \<open>\<^verbatim>\<open>x.toFixed(d)\<close>: the nearest multiple, the larger one on a tie, of the absolute value.\<close>

definition toFixed :: "nat \<Rightarrow> rat \<Rightarrow> string" where
  "toFixed d x =
     (let digits = js_string_of_nat (nat \<lfloor>\<bar>x\<bar> * 10 ^ d + 1 / 2\<rfloor>);
          padded = replicate (Suc d - length digits) (CHR ''0'') @ digits;
          k = length padded - d
      in (if x < 0 then ''-'' else []) @ take k padded @ (if d = 0 then [] else CHR ''.'' # drop k padded))"

text \<open>\<^verbatim>\<open>s.toLowerCase()\<close> within the modelled code units.\<close>

definition js_lower_char :: "char \<Rightarrow> char" where
  "js_lower_char c =
     (let n = of_char c :: nat
      in if (65 \<le> n \<and> n \<le> 90) \<or> (192 \<le> n \<and> n \<le> 222 \<and> n \<noteq> 215) then char_of (n + 32) else c)"

definition js_lower :: "string \<Rightarrow> string" where
  "js_lower s = map js_lower_char s"

text \<open>The word characters of a regular expression, \<^verbatim>\<open>\w\<close>.\<close>

definition word_char :: "char \<Rightarrow> bool" where
  "word_char c \<longleftrightarrow> c \<in> set ''abcdefghijklmnopqrstuvwxyzABCDEFGHIJKLMNOPQRSTUVWXYZ0123456789_''"

lemma dropWhile_shorter [termination_simp]: "length (dropWhile P xs) < Suc (length xs)"
  by (simp add: length_dropWhile_le le_imp_less_Suc)

text \<open>\<^verbatim>\<open>s.replace(/\s+/g, " ")\<close>\<close>

fun collapse_spaces :: "string \<Rightarrow> string" where
  "collapse_spaces [] = []"
| "collapse_spaces (c # cs) =
     (if js_space c then CHR '' '' # collapse_spaces (dropWhile js_space cs) else c # collapse_spaces cs)"

definition strip_prefix :: "string \<Rightarrow> string \<Rightarrow> string option" where
  "strip_prefix p s = (if take (length p) s = p then Some (drop (length p) s) else None)"

fun any_suffix :: "(string \<Rightarrow> bool) \<Rightarrow> string \<Rightarrow> bool" where
  "any_suffix P [] = P []"
| "any_suffix P (c # s) = (P (c # s) \<or> any_suffix P s)"

text \<open>\<^verbatim>\<open>s.includes(p)\<close>\<close>

definition js_includes :: "string \<Rightarrow> string \<Rightarrow> bool" where
  "js_includes p s = any_suffix (\<lambda>t. strip_prefix p t \<noteq> None) s"

definition quoted :: "string \<Rightarrow> string" where
  "quoted s = [CHR 0x22] @ s @ [CHR 0x22]"

lemma js_trim_Nil [simp]: "js_trim [] = []"
  by (simp add: js_trim_def)

lemma js_trim_eq_Nil_iff: "js_trim s = [] \<longleftrightarrow> (\<forall>c\<in>set s. js_space c)"
  by (simp add: js_trim_def dropWhile_eq_Nil_conv) (metis set_dropWhileD dropWhile_eq_Nil_conv list.set_intros(1) hd_dropWhile list.exhaust_sel)

section \<open>Sets and maps in insertion order\<close>

definition set_add :: "'a \<Rightarrow> 'a list \<Rightarrow> 'a list" where
  "set_add x s = (if x \<in> set s then s else s @ [x])"

definition js_set :: "'a list \<Rightarrow> 'a list" where
  "js_set xs = fold set_add xs []"

lemma set_set_add [simp]: "set (set_add x s) = insert x (set s)"
  by (auto simp: set_add_def)

lemma distinct_set_add [simp]: "distinct (set_add x s) = distinct s"
  by (auto simp: set_add_def)

lemma set_fold_set_add [simp]: "set (fold set_add xs s) = set xs \<union> set s"
  by (induction xs arbitrary: s) auto

lemma distinct_fold_set_add [simp]: "distinct (fold set_add xs s) = distinct s"
  by (induction xs arbitrary: s) auto

lemma set_js_set [simp]: "set (js_set xs) = set xs"
  by (simp add: js_set_def)

lemma distinct_js_set [simp]: "distinct (js_set xs)"
  by (simp add: js_set_def)

lemma map_of_AList_update [simp]: "map_of (AList.update k v al) = (map_of al)(k \<mapsto> v)"
  by (simp add: AList.update_conv')

lemma set_update_subset: "set (AList.update k v al) \<subseteq> insert (k, v) (set al)"
  by (induction al) auto

section \<open>Sorting\<close>

text \<open>\<^verbatim>\<open>xs.sort()\<close> on strings, by code units.\<close>

definition js_sort :: "string list \<Rightarrow> string list" where
  "js_sort xs = sort_key (\<lambda>x. x) xs"

lemma set_js_sort [simp]: "set (js_sort xs) = set xs"
  by (simp add: js_sort_def)

lemma distinct_js_sort [simp]: "distinct (js_sort xs) = distinct xs"
  by (simp add: js_sort_def)

lemma mset_js_sort [simp]: "mset (js_sort xs) = mset xs"
  by (simp add: js_sort_def)

lemma js_sort_unique:
  "set xs = set ys \<Longrightarrow> distinct xs \<Longrightarrow> distinct ys \<Longrightarrow> js_sort xs = js_sort ys"
  unfolding js_sort_def by (rule sorted_distinct_set_unique) simp_all

lemma js_sort_idem [simp]: "js_sort (js_sort xs) = js_sort xs"
  by (simp add: js_sort_def sort_key_id_if_sorted)

text \<open>\<^verbatim>\<open>[...xs].sort((a, b) => a.key.localeCompare(b.key))\<close>\<close>

definition sort_by :: "string comparator \<Rightarrow> ('a \<Rightarrow> string) \<Rightarrow> 'a list \<Rightarrow> 'a list" where
  "sort_by lc f xs = Sorting_Algorithms.sort (key f lc) xs"

lemma mset_sort_by [simp]: "mset (sort_by lc f xs) = mset xs"
  by (simp add: sort_by_def)

lemma set_sort_by [simp]: "set (sort_by lc f xs) = set xs"
  by (simp add: sort_by_def)

lemma length_sort_by [simp]: "length (sort_by lc f xs) = length xs"
  by (simp add: sort_by_def)

lemma sort_by_Nil [simp]: "sort_by lc f [] = []"
  by (simp add: sort_by_def)

lemma distinct_map_sort_by [simp]: "distinct (map g (sort_by lc f xs)) = distinct (map g xs)"
  by (metis mset_map mset_sort_by mset_eq_imp_distinct_iff)

lemma length_filter_sort_by [simp]:
  "length (filter P (sort_by lc f xs)) = length (filter P xs)"
  by (metis mset_filter mset_sort_by size_mset)

text \<open>Sorting a list that is already in order leaves it alone.\<close>

lemma sort_by_idem [simp]: "sort_by lc f (sort_by lc f xs) = sort_by lc f xs"
  unfolding sort_by_def by (rule Sorting_Algorithms.sort_eqI) simp_all

section \<open>Machines that keep an invariant\<close>

text \<open>
  A component with state is a step function over its events. The locale states the contract
  every stateful component of the development discharges: one step keeps the invariant.
\<close>

locale invariant_machine =
  fixes step :: "'s \<Rightarrow> 'e \<Rightarrow> 's"
    and inv :: "'s \<Rightarrow> bool"
  assumes step_inv: "inv s \<Longrightarrow> inv (step s e)"
begin

lemma run_inv: "inv s \<Longrightarrow> inv (foldl step s es)"
  by (induction es arbitrary: s) (simp_all add: step_inv)

lemma run_prefix_inv: "inv s \<Longrightarrow> inv (foldl step s (take n es))"
  by (rule run_inv)

end

text \<open>A machine in which every step leads to a state that extends the previous one.\<close>

locale monotone_machine = invariant_machine step inv
  for step :: "'s \<Rightarrow> 'e \<Rightarrow> 's" and inv :: "'s \<Rightarrow> bool" +
  fixes extends :: "'s \<Rightarrow> 's \<Rightarrow> bool"
  assumes extends_refl: "inv s \<Longrightarrow> extends s s"
    and extends_trans: "extends s t \<Longrightarrow> extends t u \<Longrightarrow> extends s u"
    and step_extends: "inv s \<Longrightarrow> extends s (step s e)"
begin

lemma run_extends: "inv s \<Longrightarrow> extends s (foldl step s es)"
proof (induction es arbitrary: s)
  case (Cons e es)
  have "extends s (foldl step (step s e) es)"
    by (rule extends_trans [OF step_extends [OF Cons.prems] Cons.IH [OF step_inv [OF Cons.prems]]])
  then show ?case by simp
qed (simp add: extends_refl)

end

text \<open>A machine that implements a simpler one through an abstraction function.\<close>

locale refining_machine = invariant_machine step inv
  for step :: "'s \<Rightarrow> 'e \<Rightarrow> 's" and inv :: "'s \<Rightarrow> bool" +
  fixes abs :: "'s \<Rightarrow> 'a"
    and spec_step :: "'a \<Rightarrow> 'e \<Rightarrow> 'a"
  assumes simulates: "inv s \<Longrightarrow> abs (step s e) = spec_step (abs s) e"
begin

lemma run_refines: "inv s \<Longrightarrow> abs (foldl step s es) = foldl spec_step (abs s) es"
  by (induction es arbitrary: s) (simp_all add: simulates step_inv)

end

text \<open>A region of states that can only be entered through a gate.\<close>

locale gated_region =
  fixes step :: "'s \<Rightarrow> 'e \<Rightarrow> 's"
    and region :: "'s \<Rightarrow> bool"
    and gate :: "'s \<Rightarrow> bool"
  assumes enter: "\<not> region s \<Longrightarrow> region (step s e) \<Longrightarrow> gate s"
begin

lemma run_enter:
  "\<not> region s \<Longrightarrow> region (foldl step s es) \<Longrightarrow>
     \<exists>n < length es. gate (foldl step s (take n es))"
proof (induction es rule: rev_induct)
  case (snoc e es)
  show ?case
  proof (cases "region (foldl step s es)")
    case True
    with snoc obtain n where "n < length es" "gate (foldl step s (take n es))" by blast
    then show ?thesis by (intro exI [of _ n]) auto
  next
    case False
    with snoc.prems(2) have "gate (foldl step s es)" using enter by simp
    then show ?thesis by (intro exI [of _ "length es"]) simp
  qed
qed simp

end

section \<open>Keyed files\<close>

text \<open>
  What a client may rely on when it reads and writes one file per key: a well-formed value that was
  written is read back, and writing under one key leaves the files of the other keys alone.
\<close>

locale keyed_file =
  fixes put :: "'k \<Rightarrow> 'v \<Rightarrow> 'fs \<Rightarrow> 'fs"
    and fetch :: "'k \<Rightarrow> 'fs \<Rightarrow> 'e + 'v option"
    and ok :: "'k \<Rightarrow> 'v \<Rightarrow> bool"
  assumes read_write: "ok k v \<Longrightarrow> fetch k (put k v fs) = Inr (Some v)"
    and read_write_other: "k \<noteq> k' \<Longrightarrow> fetch k' (put k v fs) = fetch k' fs"
begin

lemma read_write_eq:
  "ok k v \<Longrightarrow> fetch k' (put k v fs) = (if k' = k then Inr (Some v) else fetch k' fs)"
  by (simp add: read_write read_write_other)

text \<open>After a sequence of well-formed writes a key holds the last value written under it.\<close>

lemma read_after_writes:
  assumes "\<forall>(k, v)\<in>set ws. ok k v"
  shows "fetch k (foldl (\<lambda>fs (k, v). put k v fs) fs ws) =
    (case map_of (rev ws) k of None \<Rightarrow> fetch k fs | Some v \<Rightarrow> Inr (Some v))"
  using assms
proof (induction ws rule: rev_induct)
  case (snoc w ws)
  then show ?case by (cases w) (auto simp: read_write_eq)
qed simp

end

end
