(* ===== verification/ReviewMachine.thy ===== *)
theory ReviewMachine
  imports Prelude
begin

text \<open>
  The review-gate vocabulary of \<^verbatim>\<open>packages/contracts/src/index.ts\<close> and the pure review-gate
  state machine of \<^verbatim>\<open>packages/review/src/review-state-machine.ts\<close>.

  Review states, event kinds and enforcement reasons are closed sets that the persisted-file
  validators check, so they are datatypes. Policy decisions, risk categories and visual outcomes
  are only checked to be strings when they are read back, so they stay strings, as at run time.
\<close>

section \<open>Contract vocabulary\<close>

datatype ReviewState =
    St_generated | St_needs_review | St_pending_secondary_approval | St_approved
  | St_rejected | St_edited | St_exported | St_transferred

datatype ReviewEventKind =
    Ev_generated | Ev_review_started | Ev_approved | Ev_primary_approved | Ev_secondary_approved
  | Ev_rejected | Ev_edited | Ev_exported | Ev_transferred | Ev_note

definition ALLOWED_REVIEW_STATES :: "ReviewState list" where
  "ALLOWED_REVIEW_STATES =
     [St_generated, St_needs_review, St_pending_secondary_approval, St_approved,
      St_rejected, St_edited, St_exported, St_transferred]"

definition ALLOWED_REVIEW_EVENT_KINDS :: "ReviewEventKind list" where
  "ALLOWED_REVIEW_EVENT_KINDS =
     [Ev_generated, Ev_review_started, Ev_approved, Ev_primary_approved, Ev_secondary_approved,
      Ev_rejected, Ev_edited, Ev_exported, Ev_transferred, Ev_note]"

fun state_str :: "ReviewState \<Rightarrow> string" where
  "state_str St_generated = ''generated''"
| "state_str St_needs_review = ''needs_review''"
| "state_str St_pending_secondary_approval = ''pending_secondary_approval''"
| "state_str St_approved = ''approved''"
| "state_str St_rejected = ''rejected''"
| "state_str St_edited = ''edited''"
| "state_str St_exported = ''exported''"
| "state_str St_transferred = ''transferred''"

fun kind_str :: "ReviewEventKind \<Rightarrow> string" where
  "kind_str Ev_generated = ''generated''"
| "kind_str Ev_review_started = ''review_started''"
| "kind_str Ev_approved = ''approved''"
| "kind_str Ev_primary_approved = ''primary_approved''"
| "kind_str Ev_secondary_approved = ''secondary_approved''"
| "kind_str Ev_rejected = ''rejected''"
| "kind_str Ev_edited = ''edited''"
| "kind_str Ev_exported = ''exported''"
| "kind_str Ev_transferred = ''transferred''"
| "kind_str Ev_note = ''note''"

text \<open>\<^verbatim>\<open>new Set(ALLOWED_...).has(s)\<close> followed by the cast to the enumeration type.\<close>

definition state_of_str :: "string \<Rightarrow> ReviewState option" where
  "state_of_str s = List.find (\<lambda>x. state_str x = s) ALLOWED_REVIEW_STATES"

definition kind_of_str :: "string \<Rightarrow> ReviewEventKind option" where
  "kind_of_str s = List.find (\<lambda>x. kind_str x = s) ALLOWED_REVIEW_EVENT_KINDS"

lemma state_of_str_str [simp]: "state_of_str (state_str s) = Some s"
  by (cases s) (simp_all add: state_of_str_def ALLOWED_REVIEW_STATES_def)

lemma kind_of_str_str [simp]: "kind_of_str (kind_str k) = Some k"
  by (cases k) (simp_all add: kind_of_str_def ALLOWED_REVIEW_EVENT_KINDS_def)

lemma state_of_str_SomeD: "state_of_str s = Some st \<Longrightarrow> s = state_str st"
  by (auto simp: state_of_str_def find_Some_iff)

lemma kind_of_str_SomeD: "kind_of_str s = Some k \<Longrightarrow> s = kind_str k"
  by (auto simp: kind_of_str_def find_Some_iff)

lemma state_str_inject [simp]: "state_str a = state_str b \<longleftrightarrow> a = b"
  by (metis option.inject state_of_str_str)

lemma kind_str_inject [simp]: "kind_str a = kind_str b \<longleftrightarrow> a = b"
  by (metis option.inject kind_of_str_str)

type_synonym TestCasePolicyDecision = string

section \<open>The transition table\<close>

datatype ReviewTransitionRefusalCode =
  Transition_not_allowed | Policy_blocks_approval | Policy_requires_review

fun TRANSITIONS :: "ReviewEventKind \<Rightarrow> ReviewState \<Rightarrow> ReviewState option" where
  "TRANSITIONS Ev_generated from =
     (case from of St_generated \<Rightarrow> Some St_generated | _ \<Rightarrow> None)"
| "TRANSITIONS Ev_review_started from =
     (case from of
        St_generated \<Rightarrow> Some St_needs_review
      | St_needs_review \<Rightarrow> Some St_needs_review
      | St_approved \<Rightarrow> Some St_needs_review
      | St_edited \<Rightarrow> Some St_needs_review
      | St_pending_secondary_approval \<Rightarrow> Some St_needs_review
      | _ \<Rightarrow> None)"
| "TRANSITIONS Ev_approved from =
     (case from of
        St_generated \<Rightarrow> Some St_approved
      | St_needs_review \<Rightarrow> Some St_approved
      | St_edited \<Rightarrow> Some St_approved
      | _ \<Rightarrow> None)"
| "TRANSITIONS Ev_primary_approved from =
     (case from of
        St_needs_review \<Rightarrow> Some St_pending_secondary_approval
      | St_edited \<Rightarrow> Some St_pending_secondary_approval
      | _ \<Rightarrow> None)"
| "TRANSITIONS Ev_secondary_approved from =
     (case from of St_pending_secondary_approval \<Rightarrow> Some St_approved | _ \<Rightarrow> None)"
| "TRANSITIONS Ev_rejected from =
     (case from of
        St_generated \<Rightarrow> Some St_rejected
      | St_needs_review \<Rightarrow> Some St_rejected
      | St_edited \<Rightarrow> Some St_rejected
      | St_pending_secondary_approval \<Rightarrow> Some St_rejected
      | _ \<Rightarrow> None)"
| "TRANSITIONS Ev_edited from =
     (case from of
        St_needs_review \<Rightarrow> Some St_edited
      | St_edited \<Rightarrow> Some St_edited
      | St_approved \<Rightarrow> Some St_edited
      | St_pending_secondary_approval \<Rightarrow> Some St_edited
      | _ \<Rightarrow> None)"
| "TRANSITIONS Ev_exported from =
     (case from of St_approved \<Rightarrow> Some St_exported | _ \<Rightarrow> None)"
| "TRANSITIONS Ev_transferred from =
     (case from of St_exported \<Rightarrow> Some St_transferred | _ \<Rightarrow> None)"
| "TRANSITIONS Ev_note from = Some from"

definition transitionReviewState ::
  "ReviewState \<Rightarrow> ReviewEventKind \<Rightarrow> TestCasePolicyDecision option \<Rightarrow>
     ReviewTransitionRefusalCode + ReviewState" where
  "transitionReviewState from kind policyDecision =
     (case TRANSITIONS kind from of
        None \<Rightarrow> Inl Transition_not_allowed
      | Some to \<Rightarrow>
          if (kind = Ev_approved \<or> kind = Ev_primary_approved \<or> kind = Ev_secondary_approved)
             \<and> policyDecision = Some ''blocked''
          then Inl Policy_blocks_approval
          else if kind = Ev_approved \<and> policyDecision = Some ''needs_review'' \<and> from = St_generated
          then Inl Policy_requires_review
          else Inr to)"

definition seedReviewStateFromPolicy :: "TestCasePolicyDecision \<Rightarrow> ReviewState" where
  "seedReviewStateFromPolicy decision =
     (if decision = ''approved'' then St_approved else St_needs_review)"

text \<open>\<^verbatim>\<open>Object.keys(TRANSITIONS)\<close> enumerates the kinds in the order of the literal.\<close>

definition TRANSITION_KINDS :: "ReviewEventKind list" where
  "TRANSITION_KINDS =
     [Ev_generated, Ev_review_started, Ev_approved, Ev_primary_approved, Ev_secondary_approved,
      Ev_rejected, Ev_edited, Ev_exported, Ev_transferred, Ev_note]"

definition legalEventKindsFrom :: "ReviewState \<Rightarrow> ReviewEventKind list" where
  "legalEventKindsFrom from = filter (\<lambda>kind. TRANSITIONS kind from \<noteq> None) TRANSITION_KINDS"

definition isTerminalReviewState :: "ReviewState \<Rightarrow> bool" where
  "isTerminalReviewState state \<longleftrightarrow> state = St_rejected \<or> state = St_transferred"

section \<open>Facts about the machine\<close>

abbreviation approval_kind :: "ReviewEventKind \<Rightarrow> bool" where
  "approval_kind k \<equiv> k = Ev_approved \<or> k = Ev_primary_approved \<or> k = Ev_secondary_approved"

lemma transition_Inr_iff:
  "transitionReviewState from kind d = Inr to \<longleftrightarrow>
     TRANSITIONS kind from = Some to
     \<and> \<not> (approval_kind kind \<and> d = Some ''blocked'')
     \<and> \<not> (kind = Ev_approved \<and> d = Some ''needs_review'' \<and> from = St_generated)"
  by (auto simp: transitionReviewState_def split: option.splits if_splits)

lemma transition_not_blocked:
  "\<lbrakk> transitionReviewState from kind d = Inr to; approval_kind kind \<rbrakk> \<Longrightarrow> d \<noteq> Some ''blocked''"
  by (auto simp: transition_Inr_iff)

lemma TRANSITIONS_into_approved:
  "TRANSITIONS k from = Some St_approved \<longleftrightarrow>
     k = Ev_approved \<and> from \<in> {St_generated, St_needs_review, St_edited}
     \<or> k = Ev_secondary_approved \<and> from = St_pending_secondary_approval
     \<or> k = Ev_note \<and> from = St_approved"
  by (cases k; cases "from") simp_all

lemma TRANSITIONS_into_pending:
  "TRANSITIONS k from = Some St_pending_secondary_approval \<longleftrightarrow>
     k = Ev_primary_approved \<and> from \<in> {St_needs_review, St_edited}
     \<or> k = Ev_note \<and> from = St_pending_secondary_approval"
  by (cases k; cases "from") simp_all

lemma TRANSITIONS_into_exported:
  "TRANSITIONS k from = Some St_exported \<longleftrightarrow>
     k = Ev_exported \<and> from = St_approved \<or> k = Ev_note \<and> from = St_exported"
  by (cases k; cases "from") simp_all

lemma TRANSITIONS_into_transferred:
  "TRANSITIONS k from = Some St_transferred \<longleftrightarrow>
     k = Ev_transferred \<and> from = St_exported \<or> k = Ev_note \<and> from = St_transferred"
  by (cases k; cases "from") simp_all

lemma TRANSITIONS_from_terminal:
  "isTerminalReviewState from \<Longrightarrow> TRANSITIONS k from = (if k = Ev_note then Some from else None)"
  by (cases k) (auto simp: isTerminalReviewState_def)

lemma set_TRANSITION_KINDS [simp]: "set TRANSITION_KINDS = UNIV"
proof -
  have "k \<in> set TRANSITION_KINDS" for k
    by (cases k) (simp_all add: TRANSITION_KINDS_def)
  then show ?thesis by auto
qed

lemma legal_iff_transition:
  "k \<in> set (legalEventKindsFrom from) \<longleftrightarrow> (\<exists>d to. transitionReviewState from k d = Inr to)"
  by (auto simp: legalEventKindsFrom_def transition_Inr_iff intro: exI [of _ None])

text \<open>A run of the machine folds the successful events; a refused event leaves the state alone.\<close>

definition review_step ::
  "ReviewState \<Rightarrow> ReviewEventKind \<times> TestCasePolicyDecision option \<Rightarrow> ReviewState" where
  "review_step s e =
     (case transitionReviewState s (fst e) (snd e) of Inl _ \<Rightarrow> s | Inr to \<Rightarrow> to)"

lemma review_step_terminal: "isTerminalReviewState s \<Longrightarrow> review_step s e = s"
  by (auto simp: review_step_def transition_Inr_iff TRANSITIONS_from_terminal
      split: sum.splits if_splits)

interpretation review_terminal: invariant_machine review_step "\<lambda>s. s = t \<and> isTerminalReviewState t"
  for t
  by unfold_locales (auto simp: review_step_terminal)

text \<open>Once a case is exported only the transfer and notes remain.\<close>

abbreviation post_export :: "ReviewState \<Rightarrow> bool" where
  "post_export s \<equiv> s = St_exported \<or> s = St_transferred"

interpretation review_exported: invariant_machine review_step post_export
proof unfold_locales
  fix s e
  assume "post_export s"
  then show "post_export (review_step s e)"
    by (cases "fst e") (auto simp: review_step_def transition_Inr_iff split: sum.splits)
qed

lemma review_step_exports:
  "\<not> post_export s \<Longrightarrow> post_export (review_step s e) \<Longrightarrow> s = St_approved"
  by (auto simp: review_step_def transition_Inr_iff TRANSITIONS_into_exported
      TRANSITIONS_into_transferred split: sum.splits)

interpretation review_export_gate: gated_region review_step post_export "\<lambda>s. s = St_approved"
  by unfold_locales (rule review_step_exports)

lemma review_step_approves:
  "s \<noteq> St_approved \<Longrightarrow> review_step s e = St_approved \<Longrightarrow>
     approval_kind (fst e) \<and> snd e \<noteq> Some ''blocked''"
  by (auto simp: review_step_def transition_Inr_iff TRANSITIONS_into_approved split: sum.splits)

interpretation blocked_machine: invariant_machine
  "\<lambda>s k. review_step s (k, Some ''blocked'')" "\<lambda>s. s \<noteq> St_approved \<and> \<not> post_export s"
proof unfold_locales
  fix s k
  assume "s \<noteq> St_approved \<and> \<not> post_export s"
  then show "review_step s (k, Some ''blocked'') \<noteq> St_approved
      \<and> \<not> post_export (review_step s (k, Some ''blocked''))"
    using review_step_approves [of s "(k, Some ''blocked'')"]
      review_step_exports [of s "(k, Some ''blocked'')"] by auto
qed

section \<open>Properties\<close>

text \<open>
  a case reaches \<open>exported\<close> or \<open>transferred\<close> only through \<open>approved\<close>: if a run of the machine
  from a state outside that region ends inside it, a proper prefix of the run ends in \<open>approved\<close>.
\<close>

theorem export_only_after_approval:
  assumes "\<not> post_export s" and "post_export (foldl review_step s es)"
  shows "\<exists>n < length es. foldl review_step s (take n es) = St_approved"
  using assms by (rule review_export_gate.run_enter)

theorem export_only_after_approval_witness:
  "\<exists>n < 3. foldl review_step St_needs_review
      (take n [(Ev_approved, None), (Ev_note, None), (Ev_exported, None)]) = St_approved"
  using export_only_after_approval
    [of St_needs_review "[(Ev_approved, None), (Ev_note, None), (Ev_exported, None)]"]
  by (simp add: review_step_def transitionReviewState_def numeral_3_eq_3)

text \<open>
  terminal states are absorbing: from \<open>rejected\<close> or \<open>transferred\<close> no sequence of events, whatever
  the policy decisions attached to them, moves the case to another state, and exactly the \<open>note\<close>
  event is legal there; every other state has an event that leaves it.
\<close>

theorem terminal_states_absorbing:
  "if isTerminalReviewState s
   then foldl review_step s es = s \<and> legalEventKindsFrom s = [Ev_note]
   else \<exists>e. review_step s e \<noteq> s"
proof (cases "isTerminalReviewState s")
  case True
  then have "foldl review_step s es = s"
    using review_terminal.run_inv [of s s es] by simp
  moreover from True have "legalEventKindsFrom s = [Ev_note]"
    by (simp add: legalEventKindsFrom_def TRANSITION_KINDS_def TRANSITIONS_from_terminal)
  ultimately show ?thesis using True by simp
next
  case False
  let ?k = "case s of St_approved \<Rightarrow> Ev_exported | St_exported \<Rightarrow> Ev_transferred | _ \<Rightarrow> Ev_rejected"
  from False have "review_step s (?k, None) \<noteq> s"
    by (cases s) (simp_all add: isTerminalReviewState_def review_step_def transitionReviewState_def)
  with False show ?thesis by auto
qed

text \<open>
  a case the policy blocks is never approved: while the decision attached to the case is
  \<open>blocked\<close>, no sequence of events takes it from a state in which it is not yet approved,
  exported or transferred into one of these states.
\<close>

theorem blocked_case_never_approved:
  assumes "s \<notin> {St_approved, St_exported, St_transferred}"
  shows "foldl (\<lambda>s k. review_step s (k, Some ''blocked'')) s ks
           \<notin> {St_approved, St_exported, St_transferred}"
  using blocked_machine.run_inv [of s ks] assms by simp

theorem blocked_case_never_approved_witness:
  "foldl (\<lambda>s k. review_step s (k, Some ''blocked'')) St_needs_review
      [Ev_primary_approved, Ev_edited, Ev_approved, Ev_exported]
     \<notin> {St_approved, St_exported, St_transferred}"
  by (rule blocked_case_never_approved) simp

end
