(* ===== verification/TestCaseData.thy ===== *)
theory TestCaseData
  imports Prelude
begin

text \<open>
  Generated test cases and coverage plans, as \<^verbatim>\<open>packages/contracts/src/index.ts\<close> declares them: the
  fields that the gates of this development read.
\<close>

record GeneratedTestCaseStep =
  st_index :: int
  st_action :: string
  st_data :: "string option"
  st_expected :: "string option"
  st_fieldLifecycleTransitionId :: "string option"

record GeneratedTestCaseQualitySignals =
  qs_coveredFieldIds :: "string list"
  qs_coveredActionIds :: "string list"
  qs_coveredValidationIds :: "string list"
  qs_coveredNavigationIds :: "string list"
  qs_coveredRequirementIds :: "string list option"
  qs_confidence :: rat
  qs_ambiguity :: "string option"  \<comment> \<open>the reason of the note\<close>

record GeneratedTestCase =
  tc_id :: string
  tc_title :: string
  tc_objective :: string
  tc_type :: string
  tc_riskCategory :: string
  tc_technique :: string
  tc_steps :: "GeneratedTestCaseStep list"
  tc_expectedResults :: "string list"
  tc_figmaTraceRefs :: "string list"  \<comment> \<open>the \<^verbatim>\<open>screenId\<close> of each trace reference\<close>
  tc_assumptions :: "string list"
  tc_openQuestions :: "string list"
  tc_exportable :: bool  \<comment> \<open>\<^verbatim>\<open>qcMappingPreview.exportable\<close>\<close>
  tc_blockingReasons :: "string list option"  \<comment> \<open>\<^verbatim>\<open>qcMappingPreview.blockingReasons\<close>\<close>
  tc_qualitySignals :: GeneratedTestCaseQualitySignals

section \<open>Coverage plans\<close>

record CoveragePlanTechniqueQuota =
  cq_technique :: string
  cq_minCount :: int

record CoveragePlanPerScreen =
  cs_screenId :: string
  cs_techniqueQuotas :: "CoveragePlanTechniqueQuota list"

record CoveragePlanPerElement =
  ce_screenId :: string
  ce_elementId :: string
  ce_mustHaveCase :: bool
  ce_riskClass :: string

record CoveragePlan =
  cp_jobId :: string
  cp_perScreen :: "CoveragePlanPerScreen list"
  cp_perElement :: "CoveragePlanPerElement list"

text \<open>A case with no steps, used as a concrete input.\<close>

definition sample_case :: GeneratedTestCase where
  "sample_case = \<lparr> tc_id = ''tc'', tc_title = ''t'', tc_objective = ''o'', tc_type = ''functional'',
     tc_riskCategory = ''high'', tc_technique = ''use_case'', tc_steps = [], tc_expectedResults = [],
     tc_figmaTraceRefs = [], tc_assumptions = [], tc_openQuestions = [], tc_exportable = True,
     tc_blockingReasons = None,
     tc_qualitySignals = \<lparr> qs_coveredFieldIds = [], qs_coveredActionIds = [], qs_coveredValidationIds = [],
       qs_coveredNavigationIds = [], qs_coveredRequirementIds = None, qs_confidence = 1, qs_ambiguity = None \<rparr> \<rparr>"

end
