(* ===== verification/FourEyes.thy ===== *)
theory FourEyes
  imports ReviewMachine TestCaseData
begin

text \<open>
  The four-eyes review policy of \<^verbatim>\<open>packages/review/src/four-eyes-policy.ts\<close>: resolving and
  validating the operator's configuration, and deciding for one test case whether two distinct
  principals have to approve it.
\<close>

section \<open>Contract data\<close>

datatype FourEyesEnforcementReason =
    Risk_category | Visual_low_confidence | Visual_fallback_used | Visual_possible_pii
  | Visual_prompt_injection | Visual_metadata_conflict | Multi_source_conflict_present

definition ALLOWED_FOUR_EYES_ENFORCEMENT_REASONS :: "FourEyesEnforcementReason list" where
  "ALLOWED_FOUR_EYES_ENFORCEMENT_REASONS =
     [Risk_category, Visual_low_confidence, Visual_fallback_used, Visual_possible_pii,
      Visual_prompt_injection, Visual_metadata_conflict, Multi_source_conflict_present]"

fun reason_str :: "FourEyesEnforcementReason \<Rightarrow> string" where
  "reason_str Risk_category = ''risk_category''"
| "reason_str Visual_low_confidence = ''visual_low_confidence''"
| "reason_str Visual_fallback_used = ''visual_fallback_used''"
| "reason_str Visual_possible_pii = ''visual_possible_pii''"
| "reason_str Visual_prompt_injection = ''visual_prompt_injection''"
| "reason_str Visual_metadata_conflict = ''visual_metadata_conflict''"
| "reason_str Multi_source_conflict_present = ''multi_source_conflict_present''"

definition reason_of_str :: "string \<Rightarrow> FourEyesEnforcementReason option" where
  "reason_of_str s = List.find (\<lambda>r. reason_str r = s) ALLOWED_FOUR_EYES_ENFORCEMENT_REASONS"

definition isFourEyesEnforcementReason :: "string \<Rightarrow> bool" where
  "isFourEyesEnforcementReason s \<longleftrightarrow> s \<in> set (map reason_str ALLOWED_FOUR_EYES_ENFORCEMENT_REASONS)"

definition ALLOWED_VISUAL_SIDECAR_VALIDATION_OUTCOMES :: "string list" where
  "ALLOWED_VISUAL_SIDECAR_VALIDATION_OUTCOMES =
     [''ok'', ''schema_invalid'', ''low_confidence'', ''fallback_used'', ''possible_pii'',
      ''prompt_injection_like_text'', ''conflicts_with_figma_metadata'', ''primary_unavailable'']"

definition ALLOWED_RISK_CATEGORIES :: "string list" where
  "ALLOWED_RISK_CATEGORIES =
     [''low'', ''medium'', ''high'', ''regulated_data'', ''financial_transaction'']"

definition DEFAULT_FOUR_EYES_REQUIRED_RISK_CATEGORIES :: "string list" where
  "DEFAULT_FOUR_EYES_REQUIRED_RISK_CATEGORIES =
     [''financial_transaction'', ''regulated_data'', ''high'']"

definition DEFAULT_FOUR_EYES_VISUAL_SIDECAR_TRIGGERS :: "string list" where
  "DEFAULT_FOUR_EYES_VISUAL_SIDECAR_TRIGGERS =
     [''low_confidence'', ''fallback_used'', ''possible_pii'', ''prompt_injection_like_text'',
      ''conflicts_with_figma_metadata'']"

record FourEyesPolicy =
  requiredRiskCategories :: "string list"
  visualSidecarTriggerOutcomes :: "string list"

text \<open>The parts of a visual-sidecar record that the evaluators read.\<close>

record VisualSidecarValidationRecord =
  vr_screenId :: string
  vr_deployment :: string
  vr_outcomes :: "string list"

record VisualSidecarValidationReport =
  vr_blocked :: bool
  vr_records :: "VisualSidecarValidationRecord list"

section \<open>Resolving and validating the operator configuration\<close>

definition VISUAL_OUTCOME_TO_REASON :: "string \<Rightarrow> FourEyesEnforcementReason option" where
  "VISUAL_OUTCOME_TO_REASON s =
     (if s = ''low_confidence'' then Some Visual_low_confidence
      else if s = ''fallback_used'' then Some Visual_fallback_used
      else if s = ''possible_pii'' then Some Visual_possible_pii
      else if s = ''prompt_injection_like_text'' then Some Visual_prompt_injection
      else if s = ''conflicts_with_figma_metadata'' then Some Visual_metadata_conflict
      else None)"

definition dedupeAndSort :: "string list \<Rightarrow> string list" where
  "dedupeAndSort values = js_sort (js_set values)"

definition EU_BANKING_DEFAULT_FOUR_EYES_POLICY :: FourEyesPolicy where
  "EU_BANKING_DEFAULT_FOUR_EYES_POLICY =
     \<lparr> requiredRiskCategories = js_sort DEFAULT_FOUR_EYES_REQUIRED_RISK_CATEGORIES,
       visualSidecarTriggerOutcomes = js_sort DEFAULT_FOUR_EYES_VISUAL_SIDECAR_TRIGGERS \<rparr>"

definition cloneFourEyesPolicy :: "FourEyesPolicy \<Rightarrow> FourEyesPolicy" where
  "cloneFourEyesPolicy policy =
     \<lparr> requiredRiskCategories = dedupeAndSort (requiredRiskCategories policy),
       visualSidecarTriggerOutcomes = dedupeAndSort (visualSidecarTriggerOutcomes policy) \<rparr>"

text \<open>
  \<^const>\<open>None\<close>: the property is absent; \<open>Some None\<close>: it is present with the value
  \<^verbatim>\<open>undefined\<close>; \<open>Some (Some xs)\<close>: it is an array.
\<close>

record ResolveFourEyesPolicyInput =
  fourEyesRequiredRiskCategories :: "string list option option"
  fourEyesVisualSidecarTriggerOutcomes :: "string list option option"

definition configured :: "string list option option \<Rightarrow> string list \<Rightarrow> string list" where
  "configured prop fallback =
     (case prop of None \<Rightarrow> fallback | Some None \<Rightarrow> [] | Some (Some xs) \<Rightarrow> xs)"

definition configured_risk :: "ResolveFourEyesPolicyInput option \<Rightarrow> string list" where
  "configured_risk i =
     configured (Option.bind i fourEyesRequiredRiskCategories) DEFAULT_FOUR_EYES_REQUIRED_RISK_CATEGORIES"

definition configured_visual :: "ResolveFourEyesPolicyInput option \<Rightarrow> string list" where
  "configured_visual i =
     configured (Option.bind i fourEyesVisualSidecarTriggerOutcomes) DEFAULT_FOUR_EYES_VISUAL_SIDECAR_TRIGGERS"

definition resolveFourEyesPolicy :: "ResolveFourEyesPolicyInput option \<Rightarrow> FourEyesPolicy" where
  "resolveFourEyesPolicy input =
     (let rawRisk = configured (Option.bind input fourEyesRequiredRiskCategories)
                      DEFAULT_FOUR_EYES_REQUIRED_RISK_CATEGORIES;
          rawVisual = configured (Option.bind input fourEyesVisualSidecarTriggerOutcomes)
                      DEFAULT_FOUR_EYES_VISUAL_SIDECAR_TRIGGERS;
          filteredRisk = filter (\<lambda>r. r \<in> set ALLOWED_RISK_CATEGORIES) rawRisk;
          filteredVisual = filter (\<lambda>v. v \<in> set ALLOWED_VISUAL_SIDECAR_VALIDATION_OUTCOMES) rawVisual
      in \<lparr> requiredRiskCategories = dedupeAndSort filteredRisk,
           visualSidecarTriggerOutcomes = dedupeAndSort filteredVisual \<rparr>)"

datatype FourEyesPolicyIssueCode = Unknown_risk_category | Unknown_visual_sidecar_outcome

record FourEyesPolicyValidationIssue =
  fi_path :: string
  fi_code :: FourEyesPolicyIssueCode
  fi_message :: string

definition unknown_issues ::
  "string \<Rightarrow> FourEyesPolicyIssueCode \<Rightarrow> string \<Rightarrow> string list \<Rightarrow> string list
     \<Rightarrow> FourEyesPolicyValidationIssue list" where
  "unknown_issues path code what allowed xs =
     [\<lparr> fi_path = path @ ''['' @ js_string_of_nat i @ '']'', fi_code = code,
        fi_message = what @ '' \"'' @ x @ ''\".'' \<rparr>.
       (i, x) \<leftarrow> enumerate 0 xs, x \<notin> set allowed]"

definition validateFourEyesPolicy ::
  "ResolveFourEyesPolicyInput option \<Rightarrow> bool \<times> FourEyesPolicyValidationIssue list" where
  "validateFourEyesPolicy input =
     (let risk = configured (Option.bind input fourEyesRequiredRiskCategories) [];
          visual = configured (Option.bind input fourEyesVisualSidecarTriggerOutcomes) [];
          issues =
            unknown_issues ''fourEyesRequiredRiskCategories'' Unknown_risk_category
              ''Unknown risk category'' ALLOWED_RISK_CATEGORIES risk
            @ unknown_issues ''fourEyesVisualSidecarTriggerOutcomes'' Unknown_visual_sidecar_outcome
              ''Unknown visual-sidecar validation outcome''
              ALLOWED_VISUAL_SIDECAR_VALIDATION_OUTCOMES visual
      in (issues = [], issues))"

section \<open>Evaluating one test case\<close>

fun visual_outcome_reasons ::
  "string list \<Rightarrow> string list \<Rightarrow> FourEyesEnforcementReason list \<Rightarrow> FourEyesEnforcementReason list" where
  "visual_outcome_reasons triggers [] reasons = reasons"
| "visual_outcome_reasons triggers (outcome # rest) reasons =
     visual_outcome_reasons triggers rest
       (if outcome \<notin> set triggers then reasons
        else case VISUAL_OUTCOME_TO_REASON outcome of
               None \<Rightarrow> reasons | Some r \<Rightarrow> set_add r reasons)"

fun visual_record_reasons ::
  "string list \<Rightarrow> string list \<Rightarrow> VisualSidecarValidationRecord list \<Rightarrow>
     FourEyesEnforcementReason list \<Rightarrow> FourEyesEnforcementReason list" where
  "visual_record_reasons screenIds triggers [] reasons = reasons"
| "visual_record_reasons screenIds triggers (r # rs) reasons =
     visual_record_reasons screenIds triggers rs
       (if vr_screenId r \<notin> set screenIds then reasons
        else visual_outcome_reasons triggers (vr_outcomes r) reasons)"

definition collectVisualReasonsForCase ::
  "GeneratedTestCase \<Rightarrow> string list \<Rightarrow> VisualSidecarValidationReport option
     \<Rightarrow> FourEyesEnforcementReason list" where
  "collectVisualReasonsForCase testCase triggers visualReport =
     (case visualReport of
        None \<Rightarrow> []
      | Some report \<Rightarrow>
          if triggers = [] then []
          else if tc_figmaTraceRefs testCase = [] then []
          else visual_record_reasons (tc_figmaTraceRefs testCase) triggers (vr_records report) [])"

definition sorted_reasons :: "FourEyesEnforcementReason list \<Rightarrow> FourEyesEnforcementReason list" where
  "sorted_reasons reasons = sort_key reason_str reasons"

definition evaluateFourEyesEnforcement ::
  "GeneratedTestCase \<Rightarrow> FourEyesPolicy \<Rightarrow> VisualSidecarValidationReport option
     \<Rightarrow> bool \<times> FourEyesEnforcementReason list" where
  "evaluateFourEyesEnforcement testCase policy visualReport =
     (let riskReasons =
            (if tc_riskCategory testCase \<in> set (requiredRiskCategories policy)
             then [Risk_category] else []);
          reasons = fold set_add
            (collectVisualReasonsForCase testCase (visualSidecarTriggerOutcomes policy) visualReport)
            riskReasons;
          sortedReasons = sorted_reasons reasons
      in (sortedReasons \<noteq> [], sortedReasons))"

section \<open>Lemmas\<close>

lemma reason_of_str_str [simp]: "reason_of_str (reason_str r) = Some r"
  by (cases r) (simp_all add: reason_of_str_def ALLOWED_FOUR_EYES_ENFORCEMENT_REASONS_def)

lemma reason_of_str_SomeD: "reason_of_str s = Some r \<Longrightarrow> s = reason_str r"
  by (auto simp: reason_of_str_def find_Some_iff)

lemma reason_str_inject [simp]: "reason_str a = reason_str b \<longleftrightarrow> a = b"
  by (metis option.inject reason_of_str_str)

lemma inj_reason_str: "inj_on reason_str A"
  by (simp add: inj_on_def)

lemma set_sorted_reasons [simp]: "set (sorted_reasons rs) = set rs"
  by (simp add: sorted_reasons_def)

lemma distinct_sorted_reasons [simp]: "distinct (sorted_reasons rs) = distinct rs"
  by (simp add: sorted_reasons_def)

lemma sorted_reasons_eq_Nil [simp]: "sorted_reasons rs = [] \<longleftrightarrow> rs = []"
  by (metis set_empty set_sorted_reasons)

text \<open>A sorted duplicate-free list of reasons is determined by its set.\<close>

lemma sorted_reasons_unique:
  assumes "set xs = set ys" "distinct xs" "distinct ys"
  shows "sorted_reasons xs = sorted_reasons ys"
proof -
  have "map reason_str (sorted_reasons xs) = map reason_str (sorted_reasons ys)"
    by (rule sorted_distinct_set_unique)
      (use assms in \<open>simp_all add: sorted_reasons_def distinct_map inj_reason_str\<close>)
  then show ?thesis by (simp add: inj_map_eq_map inj_reason_str)
qed

lemma set_dedupeAndSort [simp]: "set (dedupeAndSort xs) = set xs"
  by (simp add: dedupeAndSort_def)

lemma dedupeAndSort_unique: "set xs = set ys \<Longrightarrow> dedupeAndSort xs = dedupeAndSort ys"
  unfolding dedupeAndSort_def by (rule js_sort_unique) simp_all

lemma dedupeAndSort_idem [simp]: "dedupeAndSort (dedupeAndSort xs) = dedupeAndSort xs"
  by (rule dedupeAndSort_unique) simp

lemma dedupeAndSort_eq_Nil [simp]: "dedupeAndSort xs = [] \<longleftrightarrow> xs = []"
  by (metis set_dedupeAndSort set_empty)

lemma set_visual_outcome_reasons:
  "set (visual_outcome_reasons triggers outs acc) =
     set acc \<union> {r. \<exists>out \<in> set outs. out \<in> set triggers \<and> VISUAL_OUTCOME_TO_REASON out = Some r}"
  by (induction outs arbitrary: acc) (auto split: option.splits)

lemma distinct_visual_outcome_reasons [simp]:
  "distinct (visual_outcome_reasons triggers outs acc) = distinct acc"
  by (induction outs arbitrary: acc) (auto split: option.splits)

lemma set_visual_record_reasons:
  "set (visual_record_reasons ids triggers rs acc) =
     set acc \<union> {r. \<exists>rec \<in> set rs. vr_screenId rec \<in> set ids \<and>
        (\<exists>out \<in> set (vr_outcomes rec). out \<in> set triggers \<and> VISUAL_OUTCOME_TO_REASON out = Some r)}"
  by (induction rs arbitrary: acc)
    (auto simp: set_visual_outcome_reasons)

lemma distinct_visual_record_reasons [simp]:
  "distinct (visual_record_reasons ids triggers rs acc) = distinct acc"
  by (induction rs arbitrary: acc) auto

definition visual_reason_set ::
  "GeneratedTestCase \<Rightarrow> string set \<Rightarrow> VisualSidecarValidationReport option
     \<Rightarrow> FourEyesEnforcementReason set" where
  "visual_reason_set tc triggers report =
     {r. \<exists>rep rec out. report = Some rep \<and> rec \<in> set (vr_records rep)
        \<and> vr_screenId rec \<in> set (tc_figmaTraceRefs tc) \<and> out \<in> set (vr_outcomes rec)
        \<and> out \<in> triggers \<and> VISUAL_OUTCOME_TO_REASON out = Some r}"

lemma set_collectVisualReasons:
  "set (collectVisualReasonsForCase tc triggers report) = visual_reason_set tc (set triggers) report"
  by (auto simp: collectVisualReasonsForCase_def visual_reason_set_def set_visual_record_reasons
      split: option.splits)

lemma distinct_evaluate [simp]: "distinct (snd (evaluateFourEyesEnforcement tc p report))"
  by (simp add: evaluateFourEyesEnforcement_def Let_def)

lemma set_evaluate:
  "set (snd (evaluateFourEyesEnforcement tc p report)) =
     (if tc_riskCategory tc \<in> set (requiredRiskCategories p) then {Risk_category} else {})
     \<union> visual_reason_set tc (set (visualSidecarTriggerOutcomes p)) report"
  by (auto simp: evaluateFourEyesEnforcement_def Let_def set_collectVisualReasons)

lemma evaluate_sorted:
  "snd (evaluateFourEyesEnforcement tc p report) =
     sorted_reasons (snd (evaluateFourEyesEnforcement tc p report))"
  by (simp add: evaluateFourEyesEnforcement_def Let_def sorted_reasons_def sort_key_id_if_sorted)

lemma fst_evaluate:
  "fst (evaluateFourEyesEnforcement tc p report) \<longleftrightarrow>
     snd (evaluateFourEyesEnforcement tc p report) \<noteq> []"
  by (simp add: evaluateFourEyesEnforcement_def Let_def)

lemma concat_enumerate_Nil_iff:
  "concat (map (\<lambda>(i, x). if P x then [f i x] else []) (enumerate n xs)) = [] \<longleftrightarrow>
     (\<forall>x\<in>set xs. \<not> P x)"
  by (induction xs arbitrary: n) auto

lemma unknown_issues_Nil_iff:
  "unknown_issues path code what allowed xs = [] \<longleftrightarrow> set xs \<subseteq> set allowed"
  unfolding unknown_issues_def by (subst concat_enumerate_Nil_iff) auto

lemma defaults_allowed:
  "set DEFAULT_FOUR_EYES_REQUIRED_RISK_CATEGORIES \<subseteq> set ALLOWED_RISK_CATEGORIES"
  "set DEFAULT_FOUR_EYES_VISUAL_SIDECAR_TRIGGERS \<subseteq> set ALLOWED_VISUAL_SIDECAR_VALIDATION_OUTCOMES"
  by (simp_all add: DEFAULT_FOUR_EYES_REQUIRED_RISK_CATEGORIES_def ALLOWED_RISK_CATEGORIES_def
      DEFAULT_FOUR_EYES_VISUAL_SIDECAR_TRIGGERS_def ALLOWED_VISUAL_SIDECAR_VALIDATION_OUTCOMES_def)

lemma configured_subset_iff:
  "set fallback \<subseteq> A \<Longrightarrow> set (configured prop fallback) \<subseteq> A \<longleftrightarrow> set (configured prop []) \<subseteq> A"
  by (auto simp: configured_def split: option.splits)

section \<open>Properties\<close>

text \<open>
  the evaluator enforces four eyes exactly when it should: a case is enforced iff its risk
  category is required or a record of a screen the case refers to carries a trigger outcome that
  has a reason; the reported reasons are exactly those, sorted by name, without duplicates.
\<close>

theorem four_eyes_enforcement_exact:
  "evaluateFourEyesEnforcement tc p report = (enforced, reasons) \<longleftrightarrow>
     set reasons = (if tc_riskCategory tc \<in> set (requiredRiskCategories p) then {Risk_category} else {})
       \<union> visual_reason_set tc (set (visualSidecarTriggerOutcomes p)) report
     \<and> distinct reasons \<and> sorted_reasons reasons = reasons
     \<and> (enforced \<longleftrightarrow> tc_riskCategory tc \<in> set (requiredRiskCategories p)
         \<or> (\<exists>r. r \<in> visual_reason_set tc (set (visualSidecarTriggerOutcomes p)) report))"
    (is "?L \<longleftrightarrow> ?R")
proof
  assume ?L
  then have e: "reasons = snd (evaluateFourEyesEnforcement tc p report)"
      "enforced = fst (evaluateFourEyesEnforcement tc p report)" by auto
  from set_evaluate [of tc p report] evaluate_sorted [of tc p report] show ?R
    unfolding e fst_evaluate by (auto simp flip: set_empty)
next
  assume R: ?R
  then have "reasons = snd (evaluateFourEyesEnforcement tc p report)"
    using sorted_reasons_unique [of reasons "snd (evaluateFourEyesEnforcement tc p report)"]
      evaluate_sorted [of tc p report] set_evaluate [of tc p report]
    by simp
  moreover from R have "enforced \<longleftrightarrow> reasons \<noteq> []"
    by (auto simp flip: set_empty)
  ultimately show ?L by (simp add: fst_evaluate prod_eq_iff)
qed

text \<open>
  cloning a policy (which the store does before persisting it) normalises its lists without
  changing any decision: the clone is a fixed point of cloning and every test case evaluates to the
  same enforcement and reasons under the clone as under the original.
\<close>

theorem clone_preserves_enforcement:
  "cloneFourEyesPolicy (cloneFourEyesPolicy p) = cloneFourEyesPolicy p
   \<and> evaluateFourEyesEnforcement tc (cloneFourEyesPolicy p) report
     = evaluateFourEyesEnforcement tc p report"
proof
  show "cloneFourEyesPolicy (cloneFourEyesPolicy p) = cloneFourEyesPolicy p"
    by (simp add: cloneFourEyesPolicy_def)
  have "sorted_reasons (snd (evaluateFourEyesEnforcement tc (cloneFourEyesPolicy p) report))
      = sorted_reasons (snd (evaluateFourEyesEnforcement tc p report))"
    by (rule sorted_reasons_unique) (simp_all add: set_evaluate cloneFourEyesPolicy_def)
  then have "snd (evaluateFourEyesEnforcement tc (cloneFourEyesPolicy p) report)
      = snd (evaluateFourEyesEnforcement tc p report)"
    by (simp only: evaluate_sorted [symmetric])
  then show "evaluateFourEyesEnforcement tc (cloneFourEyesPolicy p) report
     = evaluateFourEyesEnforcement tc p report"
    by (simp add: fst_evaluate prod_eq_iff)
qed

text \<open>
  validation and resolution of the operator configuration agree: validation reports no issue
  exactly when resolution keeps every configured (or, for an absent property, default) value, and
  the resolved policy always lists allowed values only, sorted and without duplicates.
\<close>

theorem validate_agrees_with_resolve:
  "(fst (validateFourEyesPolicy input) \<longleftrightarrow>
       set (requiredRiskCategories (resolveFourEyesPolicy input)) = set (configured_risk input)
       \<and> set (visualSidecarTriggerOutcomes (resolveFourEyesPolicy input)) = set (configured_visual input))
     \<and> set (requiredRiskCategories (resolveFourEyesPolicy input)) \<subseteq> set ALLOWED_RISK_CATEGORIES
     \<and> set (visualSidecarTriggerOutcomes (resolveFourEyesPolicy input))
         \<subseteq> set ALLOWED_VISUAL_SIDECAR_VALIDATION_OUTCOMES
     \<and> cloneFourEyesPolicy (resolveFourEyesPolicy input) = resolveFourEyesPolicy input"
proof -
  have "fst (validateFourEyesPolicy input) \<longleftrightarrow>
      set (configured_risk input) \<subseteq> set ALLOWED_RISK_CATEGORIES
      \<and> set (configured_visual input) \<subseteq> set ALLOWED_VISUAL_SIDECAR_VALIDATION_OUTCOMES"
    unfolding configured_risk_def configured_visual_def configured_subset_iff [OF defaults_allowed(1)]
      configured_subset_iff [OF defaults_allowed(2)]
    by (simp add: validateFourEyesPolicy_def Let_def unknown_issues_Nil_iff)
  then show ?thesis
    by (auto simp: resolveFourEyesPolicy_def Let_def configured_risk_def configured_visual_def cloneFourEyesPolicy_def)
qed

end
