(* ===== verification/Json.thy ===== *)
theory Json
  imports Prelude
begin

text \<open>
  JSON values and the key-sorting normalisation behind \<^verbatim>\<open>canonicalJson\<close>
  (\<^verbatim>\<open>packages/security/src/content-hash.ts\<close>). \<^verbatim>\<open>JSON.stringify\<close> and
  \<^verbatim>\<open>JSON.parse\<close> are inverse to each other on these values, so a file's text is represented by
  the value it parses to, and the comparison of two canonical texts by the comparison of the
  normalised values.
\<close>

datatype json =
    JNull
  | JBool bool
  | JNum rat
  | JStr string
  | JArr "json list"
  | JObj "(string \<times> json) list"

text \<open>\<^verbatim>\<open>value["k"]\<close> on an object; \<^const>\<open>None\<close> is \<^verbatim>\<open>undefined\<close>.\<close>

fun jget :: "json \<Rightarrow> string \<Rightarrow> json option" where
  "jget (JObj kvs) k = map_of kvs k"
| "jget _ _ = None"

fun isRecord :: "json \<Rightarrow> bool" where
  "isRecord (JObj _) = True"
| "isRecord _ = False"

text \<open>\<^verbatim>\<open>typeof value["k"] === "string"\<close> and its kin.\<close>

fun is_str :: "json option \<Rightarrow> bool" where
  "is_str (Some (JStr _)) = True"
| "is_str _ = False"

fun is_num :: "json option \<Rightarrow> bool" where
  "is_num (Some (JNum _)) = True"
| "is_num _ = False"

fun is_int :: "json option \<Rightarrow> bool" where
  "is_int (Some (JNum q)) = rat_integral q"
| "is_int _ = False"

fun is_bool :: "json option \<Rightarrow> bool" where
  "is_bool (Some (JBool _)) = True"
| "is_bool _ = False"

fun every :: "(json \<Rightarrow> bool) \<Rightarrow> json option \<Rightarrow> bool" where
  "every P (Some (JArr xs)) = list_all P xs"
| "every P _ = False"

definition optional :: "(json option \<Rightarrow> bool) \<Rightarrow> json option \<Rightarrow> bool" where
  "optional P v \<longleftrightarrow> v = None \<or> P v"

lemma optional_simps [simp]:
  "optional P None" "optional P (Some v) \<longleftrightarrow> P (Some v)"
  by (simp_all add: optional_def)

text \<open>Projections used after a validator has accepted the value.\<close>

fun un_str :: "json option \<Rightarrow> string" where
  "un_str (Some (JStr s)) = s"
| "un_str _ = ''''"

fun un_num :: "json option \<Rightarrow> rat" where
  "un_num (Some (JNum q)) = q"
| "un_num _ = 0"

fun un_bool :: "json option \<Rightarrow> bool" where
  "un_bool (Some (JBool b)) = b"
| "un_bool _ = False"

fun un_arr :: "json option \<Rightarrow> json list" where
  "un_arr (Some (JArr xs)) = xs"
| "un_arr _ = []"

fun un_obj :: "json option \<Rightarrow> (string \<times> json) list" where
  "un_obj (Some (JObj kvs)) = kvs"
| "un_obj _ = []"

definition un_opt :: "(json option \<Rightarrow> 'a) \<Rightarrow> json option \<Rightarrow> 'a option" where
  "un_opt f v = (case v of None \<Rightarrow> None | Some _ \<Rightarrow> Some (f v))"

lemma un_opt_simps [simp]: "un_opt f None = None" "un_opt f (Some v) = Some (f (Some v))"
  by (simp_all add: un_opt_def)

text \<open>\<^verbatim>\<open>...(x !== undefined ? { k: x } : {})\<close>\<close>

definition opt_field :: "string \<Rightarrow> ('a \<Rightarrow> json) \<Rightarrow> 'a option \<Rightarrow> (string \<times> json) list" where
  "opt_field k f x = (case x of None \<Rightarrow> [] | Some v \<Rightarrow> [(k, f v)])"

lemma map_of_opt_field [simp]:
  "map_of (opt_field k f x) k' = (if k' = k then map_option f x else None)"
  by (cases x) (simp_all add: opt_field_def)

lemma map_of_opt_field_append [simp]:
  "map_of (opt_field k f x @ ys) k' =
     (if k' = k then (case x of None \<Rightarrow> map_of ys k' | Some v \<Rightarrow> Some (f v)) else map_of ys k')"
  by (cases x) (simp_all add: opt_field_def)

section \<open>Key sorting\<close>

primrec sortValue :: "json \<Rightarrow> json" where
  "sortValue JNull = JNull"
| "sortValue (JBool b) = JBool b"
| "sortValue (JNum q) = JNum q"
| "sortValue (JStr s) = JStr s"
| "sortValue (JArr xs) = JArr (map sortValue xs)"
| "sortValue (JObj kvs) = JObj (sort_key fst (map (map_prod id sortValue) kvs))"

lemma map_of_filter_key: "map_of (filter (\<lambda>p. fst p = k) xs) k = map_of xs k"
  by (induction xs) auto

lemma map_of_sort_key_fst: "map_of (sort_key fst kvs) k = map_of kvs k"
proof -
  have "map_of (sort_key fst kvs) k = map_of (filter (\<lambda>p. fst p = k) (sort_key fst kvs)) k"
    by (rule map_of_filter_key [symmetric])
  also have "\<dots> = map_of (filter (\<lambda>p. fst p = k) kvs) k"
    by (simp only: sort_key_stable)
  also have "\<dots> = map_of kvs k"
    by (rule map_of_filter_key)
  finally show ?thesis .
qed

lemma map_of_map_snd: "map_of (map (map_prod id f) kvs) k = map_option f (map_of kvs k)"
  by (induction kvs) auto

lemma jget_sortValue [simp]: "jget (sortValue v) k = map_option sortValue (jget v k)"
  by (cases v) (simp_all add: map_of_sort_key_fst map_of_map_snd)


declare sortValue.simps(6) [simp del]

lemma map_fst_map_prod [simp]: "map fst (map (map_prod id f) kvs) = map fst kvs"
  by (induction kvs) auto

text \<open>Sorting by key is unique when the keys are distinct.\<close>

lemma sort_key_fst_unique:
  assumes "mset xs = mset ys" "distinct (map fst xs)"
  shows "sort_key fst xs = sort_key fst ys"
proof -
  have "mset (map fst xs) = mset (map fst ys)"
    using assms(1) by simp
  then have d: "distinct (map fst ys)"
    using assms(2) mset_eq_imp_distinct_iff by blast
  from assms(1) have "set xs = set ys" by (rule mset_eq_setD)
  then show ?thesis
    by (intro map_sorted_distinct_set_unique [where f = fst])
      (use d assms(2) in \<open>simp_all add: distinct_map\<close>)
qed

lemma sort_key_fst_map_snd:
  "sort_key fst (map (map_prod id f) xs) = map (map_prod id f) (sort_key fst xs)"
proof (induction xs)
  case (Cons x xs)
  have "insort_key fst (map_prod id f x) (map (map_prod id f) ys) = map (map_prod id f) (insort_key fst x ys)"
    for ys by (induction ys) auto
  with Cons show ?case by (simp add: id_def)
qed simp

lemma sortValue_idem: "sortValue (sortValue v) = sortValue v"
proof (induction v)
  case (JObj kvs)
  have "map (map_prod id sortValue) (map (map_prod id sortValue) kvs) = map (map_prod id sortValue) kvs"
    using JObj by (auto simp: map_prod_def snds.simps)
  then have "sort_key fst (map (map_prod id sortValue) (sort_key fst (map (map_prod id sortValue) kvs)))
      = sort_key fst (map (map_prod id sortValue) kvs)"
    by (simp only: sort_key_fst_map_snd [symmetric]) (simp add: sort_key_id_if_sorted)
  then show ?case by (simp add: sortValue.simps(6))
qed simp_all

section \<open>Properties\<close>

text \<open>
  the normal form behind the canonical serialisation does not depend on the order in which an
  object's members were written, is a fixed point of normalisation, and keeps every member: reading
  a key of the normalised value gives the normalised member.
\<close>

theorem canonical_form_order_independent:
  assumes "mset kvs = mset kvs'" and "distinct (map fst kvs)"
  shows "sortValue (JObj kvs) = sortValue (JObj kvs')
     \<and> sortValue (sortValue (JObj kvs)) = sortValue (JObj kvs)
     \<and> jget (sortValue (JObj kvs')) k = map_option sortValue (jget (JObj kvs) k)"
proof -
  have "sort_key fst (map (map_prod id sortValue) kvs) = sort_key fst (map (map_prod id sortValue) kvs')"
    by (rule sort_key_fst_unique) (use assms in \<open>simp_all del: map_map\<close>)
  then have "sortValue (JObj kvs) = sortValue (JObj kvs')" by (simp add: sortValue.simps(6))
  then show ?thesis by (metis jget_sortValue sortValue_idem)
qed

theorem canonical_form_order_independent_witness:
  "sortValue (JObj [(''b'', JNull), (''a'', JBool True)])
     = sortValue (JObj [(''a'', JBool True), (''b'', JNull)])
   \<and> sortValue (sortValue (JObj [(''b'', JNull), (''a'', JBool True)]))
     = sortValue (JObj [(''b'', JNull), (''a'', JBool True)])
   \<and> jget (sortValue (JObj [(''a'', JBool True), (''b'', JNull)])) ''a''
     = map_option sortValue (jget (JObj [(''b'', JNull), (''a'', JBool True)]) ''a'')"
  by (rule canonical_form_order_independent) simp_all

end
