(* ===== verification/ReviewPersistence.thy ===== *)
theory ReviewPersistence
  imports FourEyes Json
begin

text \<open>
  The persisted artifacts of the review gate (\<^verbatim>\<open>review-events.json\<close> and
  \<^verbatim>\<open>review-state.json\<close>): the contract records, their JSON form, and the validators of
  \<^verbatim>\<open>packages/production-runner/src/review-store.ts\<close> that guard every read. A validated JSON
  value is cast to the record type in the source; the decoders make this cast explicit.
\<close>

section \<open>Contract records\<close>

definition REVIEW_GATE_SCHEMA_VERSION :: string where
  "REVIEW_GATE_SCHEMA_VERSION = ''1.0.0''"

definition TEST_INTELLIGENCE_CONTRACT_VERSION :: string where
  "TEST_INTELLIGENCE_CONTRACT_VERSION = ''1.39.0''"

datatype meta_value = MStr string | MNum rat | MBool bool | MNull

type_synonym metadata = "(string \<times> meta_value) list"

record ReviewEvent =
  ev_id :: string
  ev_jobId :: string
  ev_testCaseId :: "string option"
  ev_kind :: ReviewEventKind
  ev_at :: string
  ev_actor :: "string option"
  ev_note :: "string option"
  ev_fromState :: "ReviewState option"
  ev_toState :: "ReviewState option"
  ev_sequence :: nat
  ev_metadata :: "metadata option"

record ReviewSnapshot =
  rs_testCaseId :: string
  rs_state :: ReviewState
  rs_policyDecision :: TestCasePolicyDecision
  rs_lastEventId :: string
  rs_lastEventAt :: string
  rs_fourEyesEnforced :: bool
  rs_approvers :: "string list"
  rs_fourEyesReasons :: "FourEyesEnforcementReason list option"
  rs_primaryReviewer :: "string option"
  rs_primaryApprovalAt :: "string option"
  rs_secondaryReviewer :: "string option"
  rs_secondaryApprovalAt :: "string option"
  rs_lastEditor :: "string option"

record ReviewGateSnapshot =
  gs_jobId :: string
  gs_generatedAt :: string
  gs_perTestCase :: "ReviewSnapshot list"
  gs_approvedCount :: rat
  gs_needsReviewCount :: rat
  gs_rejectedCount :: rat
  gs_pendingSecondaryApprovalCount :: "rat option"
  gs_fourEyesPolicy :: "FourEyesPolicy option"

record PersistedReviewEventsEnvelope =
  pe_jobId :: string
  pe_events :: "ReviewEvent list"
  pe_nextSequence :: nat

section \<open>JSON form\<close>

text \<open>
  An object's member order is not observable in the store, so metadata objects are kept in key
  order; \<open>meta_norm\<close> puts caller-supplied metadata into this form.
\<close>

definition meta_norm :: "metadata \<Rightarrow> metadata" where
  "meta_norm m = sort_key fst m"

fun enc_meta_value :: "meta_value \<Rightarrow> json" where
  "enc_meta_value (MStr s) = JStr s"
| "enc_meta_value (MNum q) = JNum q"
| "enc_meta_value (MBool b) = JBool b"
| "enc_meta_value MNull = JNull"

definition enc_metadata :: "metadata \<Rightarrow> json" where
  "enc_metadata m = JObj (map (map_prod id enc_meta_value) m)"

definition enc_versions :: "(string \<times> json) list" where
  "enc_versions =
     [(''schemaVersion'', JStr REVIEW_GATE_SCHEMA_VERSION),
      (''contractVersion'', JStr TEST_INTELLIGENCE_CONTRACT_VERSION)]"

definition enc_strs :: "string list \<Rightarrow> json" where
  "enc_strs xs = JArr (map JStr xs)"

definition enc_event :: "ReviewEvent \<Rightarrow> json" where
  "enc_event e = JObj (enc_versions @
     [(''id'', JStr (ev_id e)), (''jobId'', JStr (ev_jobId e))]
     @ opt_field ''testCaseId'' JStr (ev_testCaseId e)
     @ [(''kind'', JStr (kind_str (ev_kind e))), (''at'', JStr (ev_at e))]
     @ opt_field ''actor'' JStr (ev_actor e)
     @ opt_field ''note'' JStr (ev_note e)
     @ opt_field ''fromState'' (JStr \<circ> state_str) (ev_fromState e)
     @ opt_field ''toState'' (JStr \<circ> state_str) (ev_toState e)
     @ [(''sequence'', JNum (of_nat (ev_sequence e)))]
     @ opt_field ''metadata'' enc_metadata (ev_metadata e))"

definition enc_snapshot_entry :: "ReviewSnapshot \<Rightarrow> json" where
  "enc_snapshot_entry r = JObj (
     [(''testCaseId'', JStr (rs_testCaseId r)), (''state'', JStr (state_str (rs_state r))),
      (''policyDecision'', JStr (rs_policyDecision r)), (''lastEventId'', JStr (rs_lastEventId r)),
      (''lastEventAt'', JStr (rs_lastEventAt r)),
      (''fourEyesEnforced'', JBool (rs_fourEyesEnforced r)),
      (''approvers'', enc_strs (rs_approvers r))]
     @ opt_field ''fourEyesReasons'' (enc_strs \<circ> map reason_str) (rs_fourEyesReasons r)
     @ opt_field ''primaryReviewer'' JStr (rs_primaryReviewer r)
     @ opt_field ''primaryApprovalAt'' JStr (rs_primaryApprovalAt r)
     @ opt_field ''secondaryReviewer'' JStr (rs_secondaryReviewer r)
     @ opt_field ''secondaryApprovalAt'' JStr (rs_secondaryApprovalAt r)
     @ opt_field ''lastEditor'' JStr (rs_lastEditor r))"

definition enc_policy :: "FourEyesPolicy \<Rightarrow> json" where
  "enc_policy p = JObj
     [(''requiredRiskCategories'', enc_strs (requiredRiskCategories p)),
      (''visualSidecarTriggerOutcomes'', enc_strs (visualSidecarTriggerOutcomes p))]"

definition enc_gate_snapshot :: "ReviewGateSnapshot \<Rightarrow> json" where
  "enc_gate_snapshot g = JObj (enc_versions @
     [(''jobId'', JStr (gs_jobId g)), (''generatedAt'', JStr (gs_generatedAt g)),
      (''perTestCase'', JArr (map enc_snapshot_entry (gs_perTestCase g))),
      (''approvedCount'', JNum (gs_approvedCount g)),
      (''needsReviewCount'', JNum (gs_needsReviewCount g)),
      (''rejectedCount'', JNum (gs_rejectedCount g))]
     @ opt_field ''pendingSecondaryApprovalCount'' JNum (gs_pendingSecondaryApprovalCount g)
     @ opt_field ''fourEyesPolicy'' enc_policy (gs_fourEyesPolicy g))"

definition enc_envelope :: "PersistedReviewEventsEnvelope \<Rightarrow> json" where
  "enc_envelope p = JObj (enc_versions @
     [(''jobId'', JStr (pe_jobId p)),
      (''events'', JArr (map enc_event (pe_events p))),
      (''nextSequence'', JNum (of_nat (pe_nextSequence p)))])"

section \<open>Validators\<close>

fun is_flat :: "json \<Rightarrow> bool" where
  "is_flat (JArr _) = False"
| "is_flat (JObj _) = False"
| "is_flat _ = True"

definition isFlatMetadata :: "json \<Rightarrow> bool" where
  "isFlatMetadata v \<longleftrightarrow> isRecord v \<and> list_all (is_flat \<circ> snd) (un_obj (Some v))"

definition versions_ok :: "json \<Rightarrow> bool" where
  "versions_ok v \<longleftrightarrow> jget v ''schemaVersion'' = Some (JStr REVIEW_GATE_SCHEMA_VERSION)
     \<and> jget v ''contractVersion'' = Some (JStr TEST_INTELLIGENCE_CONTRACT_VERSION)"

definition is_state :: "json option \<Rightarrow> bool" where
  "is_state v \<longleftrightarrow> is_str v \<and> state_of_str (un_str v) \<noteq> None"

definition isReviewEvent :: "json \<Rightarrow> bool" where
  "isReviewEvent v \<longleftrightarrow>
     isRecord v
     \<and> versions_ok v
     \<and> is_str (jget v ''id'') \<and> is_str (jget v ''jobId'') \<and> is_str (jget v ''at'')
     \<and> is_int (jget v ''sequence'') \<and> \<not> un_num (jget v ''sequence'') < 1
     \<and> is_str (jget v ''kind'') \<and> kind_of_str (un_str (jget v ''kind'')) \<noteq> None
     \<and> optional is_str (jget v ''testCaseId'')
     \<and> optional is_str (jget v ''actor'')
     \<and> optional is_str (jget v ''note'')
     \<and> optional is_state (jget v ''fromState'')
     \<and> optional is_state (jget v ''toState'')
     \<and> optional (isFlatMetadata \<circ> the) (jget v ''metadata'')"

definition isReviewSnapshotEntry :: "json \<Rightarrow> bool" where
  "isReviewSnapshotEntry v \<longleftrightarrow>
     isRecord v
     \<and> is_str (jget v ''testCaseId'') \<and> is_state (jget v ''state'')
     \<and> is_str (jget v ''policyDecision'') \<and> is_str (jget v ''lastEventId'')
     \<and> is_str (jget v ''lastEventAt'') \<and> is_bool (jget v ''fourEyesEnforced'')
     \<and> every (is_str \<circ> Some) (jget v ''approvers'')
     \<and> optional (every (\<lambda>r. is_str (Some r) \<and> reason_of_str (un_str (Some r)) \<noteq> None))
         (jget v ''fourEyesReasons'')
     \<and> list_all (\<lambda>k. optional is_str (jget v k))
         [''primaryReviewer'', ''primaryApprovalAt'', ''secondaryReviewer'', ''secondaryApprovalAt'',
          ''lastEditor'']"

definition isFourEyesPolicy :: "json \<Rightarrow> bool" where
  "isFourEyesPolicy v \<longleftrightarrow> isRecord v
     \<and> every (is_str \<circ> Some) (jget v ''requiredRiskCategories'')
     \<and> every (is_str \<circ> Some) (jget v ''visualSidecarTriggerOutcomes'')"

definition isReviewGateSnapshot :: "json \<Rightarrow> bool" where
  "isReviewGateSnapshot v \<longleftrightarrow>
     isRecord v \<and> versions_ok v
     \<and> is_str (jget v ''jobId'') \<and> is_str (jget v ''generatedAt'')
     \<and> is_num (jget v ''approvedCount'') \<and> is_num (jget v ''needsReviewCount'')
     \<and> is_num (jget v ''rejectedCount'')
     \<and> every isReviewSnapshotEntry (jget v ''perTestCase'')
     \<and> optional is_int (jget v ''pendingSecondaryApprovalCount'')
     \<and> optional (isFourEyesPolicy \<circ> the) (jget v ''fourEyesPolicy'')"

definition isPersistedEnvelope :: "json \<Rightarrow> bool" where
  "isPersistedEnvelope v \<longleftrightarrow>
     isRecord v \<and> versions_ok v
     \<and> is_str (jget v ''jobId'')
     \<and> every isReviewEvent (jget v ''events'')
     \<and> is_int (jget v ''nextSequence'') \<and> un_num (jget v ''nextSequence'') \<ge> 1"

section \<open>Decoders\<close>

fun dec_meta_value :: "json \<Rightarrow> meta_value" where
  "dec_meta_value (JStr s) = MStr s"
| "dec_meta_value (JNum q) = MNum q"
| "dec_meta_value (JBool b) = MBool b"
| "dec_meta_value _ = MNull"

definition dec_metadata :: "json option \<Rightarrow> metadata" where
  "dec_metadata v = map (map_prod id dec_meta_value) (un_obj v)"

definition dec_strs :: "json option \<Rightarrow> string list" where
  "dec_strs v = map (un_str \<circ> Some) (un_arr v)"

definition dec_state :: "json option \<Rightarrow> ReviewState" where
  "dec_state v = the (state_of_str (un_str v))"

definition dec_nat :: "json option \<Rightarrow> nat" where
  "dec_nat v = nat \<lfloor>un_num v\<rfloor>"

definition dec_event :: "json \<Rightarrow> ReviewEvent" where
  "dec_event v = \<lparr>
     ev_id = un_str (jget v ''id''), ev_jobId = un_str (jget v ''jobId''),
     ev_testCaseId = un_opt un_str (jget v ''testCaseId''),
     ev_kind = the (kind_of_str (un_str (jget v ''kind''))),
     ev_at = un_str (jget v ''at''),
     ev_actor = un_opt un_str (jget v ''actor''),
     ev_note = un_opt un_str (jget v ''note''),
     ev_fromState = un_opt dec_state (jget v ''fromState''),
     ev_toState = un_opt dec_state (jget v ''toState''),
     ev_sequence = dec_nat (jget v ''sequence''),
     ev_metadata = un_opt dec_metadata (jget v ''metadata'') \<rparr>"

definition dec_snapshot_entry :: "json \<Rightarrow> ReviewSnapshot" where
  "dec_snapshot_entry v = \<lparr>
     rs_testCaseId = un_str (jget v ''testCaseId''),
     rs_state = dec_state (jget v ''state''),
     rs_policyDecision = un_str (jget v ''policyDecision''),
     rs_lastEventId = un_str (jget v ''lastEventId''),
     rs_lastEventAt = un_str (jget v ''lastEventAt''),
     rs_fourEyesEnforced = un_bool (jget v ''fourEyesEnforced''),
     rs_approvers = dec_strs (jget v ''approvers''),
     rs_fourEyesReasons = map_option (map (the \<circ> reason_of_str))
       (un_opt dec_strs (jget v ''fourEyesReasons'')),
     rs_primaryReviewer = un_opt un_str (jget v ''primaryReviewer''),
     rs_primaryApprovalAt = un_opt un_str (jget v ''primaryApprovalAt''),
     rs_secondaryReviewer = un_opt un_str (jget v ''secondaryReviewer''),
     rs_secondaryApprovalAt = un_opt un_str (jget v ''secondaryApprovalAt''),
     rs_lastEditor = un_opt un_str (jget v ''lastEditor'') \<rparr>"

definition dec_policy :: "json option \<Rightarrow> FourEyesPolicy" where
  "dec_policy v = (case v of None \<Rightarrow> \<lparr> requiredRiskCategories = [], visualSidecarTriggerOutcomes = [] \<rparr>
     | Some p \<Rightarrow> \<lparr> requiredRiskCategories = dec_strs (jget p ''requiredRiskCategories''),
         visualSidecarTriggerOutcomes = dec_strs (jget p ''visualSidecarTriggerOutcomes'') \<rparr>)"

definition dec_gate_snapshot :: "json \<Rightarrow> ReviewGateSnapshot" where
  "dec_gate_snapshot v = \<lparr>
     gs_jobId = un_str (jget v ''jobId''), gs_generatedAt = un_str (jget v ''generatedAt''),
     gs_perTestCase = map dec_snapshot_entry (un_arr (jget v ''perTestCase'')),
     gs_approvedCount = un_num (jget v ''approvedCount''),
     gs_needsReviewCount = un_num (jget v ''needsReviewCount''),
     gs_rejectedCount = un_num (jget v ''rejectedCount''),
     gs_pendingSecondaryApprovalCount = un_opt un_num (jget v ''pendingSecondaryApprovalCount''),
     gs_fourEyesPolicy = un_opt dec_policy (jget v ''fourEyesPolicy'') \<rparr>"

definition dec_envelope :: "json \<Rightarrow> PersistedReviewEventsEnvelope" where
  "dec_envelope v = \<lparr>
     pe_jobId = un_str (jget v ''jobId''),
     pe_events = map dec_event (un_arr (jget v ''events'')),
     pe_nextSequence = dec_nat (jget v ''nextSequence'') \<rparr>"

section \<open>Round trips\<close>

text \<open>What a value must satisfy for its file to be readable again.\<close>

definition event_ok :: "ReviewEvent \<Rightarrow> bool" where
  "event_ok e \<longleftrightarrow> 1 \<le> ev_sequence e
     \<and> (\<forall>m. ev_metadata e = Some m \<longrightarrow> meta_norm m = m)"

definition gate_snapshot_ok :: "ReviewGateSnapshot \<Rightarrow> bool" where
  "gate_snapshot_ok g \<longleftrightarrow> (\<forall>c. gs_pendingSecondaryApprovalCount g = Some c \<longrightarrow> c \<in> \<int>)"

definition envelope_ok :: "PersistedReviewEventsEnvelope \<Rightarrow> bool" where
  "envelope_ok p \<longleftrightarrow> 1 \<le> pe_nextSequence p \<and> (\<forall>e\<in>set (pe_events p). event_ok e)"

lemma meta_norm_idem [simp]: "meta_norm (meta_norm m) = meta_norm m"
  by (simp add: meta_norm_def sort_key_id_if_sorted)

lemma sortValue_enc_meta_value [simp]: "sortValue (enc_meta_value v) = enc_meta_value v"
  by (cases v) simp_all

lemma is_flat_enc_meta_value [simp]: "is_flat (enc_meta_value v)"
  by (cases v) simp_all

lemma dec_enc_meta_value [simp]: "dec_meta_value (enc_meta_value v) = v"
  by (cases v) simp_all

lemma sortValue_enc_metadata [simp]:
  "meta_norm m = m \<Longrightarrow> sortValue (enc_metadata m) = enc_metadata m"
proof -
  assume "meta_norm m = m"
  then have "sort_key fst m = m" by (simp add: meta_norm_def)
  moreover have "map (map_prod id sortValue) (map (map_prod id enc_meta_value) m)
      = map (map_prod id enc_meta_value) m"
    by (auto simp: map_prod_def)
  ultimately show ?thesis
    by (simp only: enc_metadata_def sortValue.simps(6) sort_key_fst_map_snd)
qed

lemma dec_enc_metadata [simp]: "dec_metadata (Some (enc_metadata m)) = m"
  by (simp add: dec_metadata_def enc_metadata_def map_idI map_prod_def split: prod.splits)

lemma isFlatMetadata_enc [simp]: "isFlatMetadata (enc_metadata m)"
  by (auto simp: isFlatMetadata_def enc_metadata_def list_all_iff)

lemma optional_map_option [simp]: "optional P (map_option f x) \<longleftrightarrow> (\<forall>y. x = Some y \<longrightarrow> P (Some (f y)))"
  by (cases x) simp_all

lemma un_opt_map_option [simp]: "un_opt g (map_option f x) = map_option (\<lambda>y. g (Some (f y))) x"
  by (cases x) simp_all

lemma sortValue_enc_strs [simp]: "sortValue (enc_strs xs) = enc_strs xs"
  by (simp add: enc_strs_def)

lemma dec_enc_strs [simp]: "dec_strs (Some (enc_strs xs)) = xs"
  by (simp add: dec_strs_def enc_strs_def comp_def)

lemma every_enc_strs [simp]:
  "every P (Some (enc_strs xs)) \<longleftrightarrow> list_all (P \<circ> JStr) xs"
  by (simp add: enc_strs_def list.pred_map)

lemma is_state_enc [simp]: "is_state (Some (JStr (state_str s)))"
  by (simp add: is_state_def)

lemma dec_state_enc [simp]: "dec_state (Some (JStr (state_str s))) = s"
  by (simp add: dec_state_def)

lemma dec_nat_of_nat [simp]: "dec_nat (Some (JNum (of_nat n))) = n"
  by (simp add: dec_nat_def)

lemma isRecord_sortValue [simp]: "isRecord (sortValue v) = isRecord v"
  by (cases v) (simp_all add: sortValue.simps(6))

lemma map_of_enc_versions_append [simp]:
  "map_of (enc_versions @ kvs) k =
     (if k = ''schemaVersion'' then Some (JStr REVIEW_GATE_SCHEMA_VERSION)
      else if k = ''contractVersion'' then Some (JStr TEST_INTELLIGENCE_CONTRACT_VERSION)
      else map_of kvs k)"
  by (simp add: enc_versions_def)

lemma versions_ok_sortValue [simp]: "versions_ok (sortValue (JObj (enc_versions @ kvs)))"
  by (simp add: versions_ok_def del: map_of_append)

lemma case_option_Some_eq [simp]:
  "(case x of None \<Rightarrow> None | Some v \<Rightarrow> Some (f v)) = map_option f x"
  by (cases x) simp_all

text \<open>Looking up a literal key in an encoded object decides every key comparison on the way.\<close>

lemmas codec_simps = option.map_comp comp_def option.map_ident

lemma isReviewEvent_enc:
  "event_ok e \<Longrightarrow> isReviewEvent (sortValue (enc_event e))"
  unfolding enc_event_def isReviewEvent_def
  by (auto simp: event_ok_def simp del: map_of_append cong: option.case_cong)

lemma map_option_id_on: "(\<And>y. x = Some y \<Longrightarrow> f y = y) \<Longrightarrow> map_option f x = x"
  by (cases x) simp_all

lemma dec_enc_event: "event_ok e \<Longrightarrow> dec_event (sortValue (enc_event e)) = e"
  unfolding enc_event_def dec_event_def
  by (cases e) (auto simp: event_ok_def codec_simps intro!: map_option_id_on
      simp del: map_of_append cong: option.case_cong)

lemma isReviewSnapshotEntry_enc [simp]: "isReviewSnapshotEntry (sortValue (enc_snapshot_entry r))"
  unfolding enc_snapshot_entry_def isReviewSnapshotEntry_def
  by (auto simp: list.pred_map list_all_iff comp_def simp del: map_of_append cong: option.case_cong)

lemma dec_enc_snapshot_entry [simp]: "dec_snapshot_entry (sortValue (enc_snapshot_entry r)) = r"
  unfolding enc_snapshot_entry_def dec_snapshot_entry_def
  by (cases r) (auto simp: codec_simps intro!: map_option_id_on
      simp del: map_of_append cong: option.case_cong)

lemma isFourEyesPolicy_enc [simp]: "isFourEyesPolicy (sortValue (enc_policy p))"
  by (simp add: enc_policy_def isFourEyesPolicy_def list_all_iff)

lemma dec_enc_policy [simp]: "dec_policy (Some (sortValue (enc_policy p))) = p"
  by (simp add: enc_policy_def dec_policy_def)

lemma isReviewGateSnapshot_enc:
  "gate_snapshot_ok g \<Longrightarrow> isReviewGateSnapshot (sortValue (enc_gate_snapshot g))"
  unfolding enc_gate_snapshot_def isReviewGateSnapshot_def
  by (auto simp: gate_snapshot_ok_def list_all_iff simp del: map_of_append cong: option.case_cong)

lemma dec_enc_gate_snapshot: "dec_gate_snapshot (sortValue (enc_gate_snapshot g)) = g"
  unfolding enc_gate_snapshot_def dec_gate_snapshot_def
  by (cases g) (auto simp: codec_simps intro!: map_option_id_on map_idI
      simp del: map_of_append cong: option.case_cong)

lemma isPersistedEnvelope_enc:
  "envelope_ok p \<Longrightarrow> isPersistedEnvelope (sortValue (enc_envelope p))"
  unfolding enc_envelope_def isPersistedEnvelope_def
  by (auto simp: envelope_ok_def list_all_iff isReviewEvent_enc simp del: map_of_append)

lemma dec_enc_envelope: "envelope_ok p \<Longrightarrow> dec_envelope (sortValue (enc_envelope p)) = p"
  unfolding enc_envelope_def dec_envelope_def
  by (cases p) (auto simp: envelope_ok_def dec_enc_event intro!: map_idI simp del: map_of_append)

end
