(* ===== verification/PolicyConflicts.thy ===== *)
theory PolicyConflicts
  imports ReviewMachine
begin

text \<open>
  Policy reports and the pruning of resolved multi-source conflicts: the functions of
  \<^verbatim>\<open>packages/production-runner/src/policy-gate.ts\<close> and
  \<^verbatim>\<open>packages/multi-source/src/inspector-multisource.ts\<close> that turn a policy report into the
  conflict-aware report the review store works with.
\<close>

section \<open>Contract records\<close>

datatype Severity = Sev_error | Sev_warning | Sev_info

record TestCasePolicyViolation =
  pv_rule :: string
  pv_outcome :: string
  pv_severity :: Severity
  pv_reason :: string
  pv_path :: "string option"

record TestCasePolicyDecisionRecord =
  pd_testCaseId :: string
  pd_decision :: TestCasePolicyDecision
  pd_violations :: "TestCasePolicyViolation list"

datatype FaithfulnessEvaluationMode = Per_step | Case_level_fallback | Missing

record FaithfulnessEvaluationSummary =
  fe_mode :: FaithfulnessEvaluationMode
  fe_requirePerStepFaithfulness :: bool
  fe_reason :: string
  fe_stepVerdictCount :: nat

record TestCasePolicyReport =
  pr_generatedAt :: string
  pr_jobId :: string
  pr_policyProfileId :: string
  pr_policyProfileVersion :: string
  pr_totalTestCases :: nat
  pr_approvedCount :: nat
  pr_blockedCount :: nat
  pr_needsReviewCount :: nat
  pr_blocked :: bool
  pr_decisions :: "TestCasePolicyDecisionRecord list"
  pr_jobLevelViolations :: "TestCasePolicyViolation list"
  pr_faithfulnessEvaluation :: "FaithfulnessEvaluationSummary option"

datatype ConflictResolution = Auto_priority | Deferred_to_reviewer | Kept_both | Unresolved

record MultiSourceConflict =
  mc_conflictId :: string
  mc_kind :: string
  mc_participatingSourceIds :: "string list"
  mc_normalizedValues :: "string list"
  mc_resolution :: ConflictResolution
  mc_affectedElementIds :: "string list option"
  mc_affectedScreenIds :: "string list option"

record InspectorConflictDecisionSnapshot =
  cd_lastEventAt :: string
  cd_actor :: string

section \<open>Decisions and severities\<close>

definition decisionRank :: "TestCasePolicyDecision \<Rightarrow> nat option" where
  "decisionRank d = map_of [(''approved'', 0), (''needs_review'', 1), (''blocked'', 2)] d"

text \<open>A comparison with the rank of an unknown decision (\<^verbatim>\<open>undefined\<close>) is false.\<close>

definition escalate :: "TestCasePolicyDecision \<Rightarrow> TestCasePolicyDecision \<Rightarrow> TestCasePolicyDecision" where
  "escalate current candidate =
     (case (decisionRank candidate, decisionRank current) of
        (Some c, Some d) \<Rightarrow> if c > d then candidate else current
      | _ \<Rightarrow> current)"

fun severityToDecision :: "Severity \<Rightarrow> TestCasePolicyDecision" where
  "severityToDecision Sev_error = ''blocked''"
| "severityToDecision Sev_warning = ''needs_review''"
| "severityToDecision Sev_info = ''approved''"

definition decision_of_violations :: "TestCasePolicyViolation list \<Rightarrow> TestCasePolicyDecision" where
  "decision_of_violations vs =
     foldl (\<lambda>d v. escalate d (severityToDecision (pv_severity v))) ''approved'' vs"

section \<open>Reading conflict ids back from a violation's reason\<close>

definition strip_suffix :: "string \<Rightarrow> string \<Rightarrow> string option" where
  "strip_suffix p s = map_option rev (strip_prefix (rev p) (rev s))"

text \<open>\<^verbatim>\<open>(?<ids>.+)\<close>: at least one character, none of them a line terminator.\<close>

definition newline_free :: "string \<Rightarrow> bool" where
  "newline_free s \<longleftrightarrow> list_all (\<lambda>c. c \<noteq> CHR 0x0A \<and> c \<noteq> CHR 0x0D) s"

definition dot_plus :: "string \<Rightarrow> string option" where
  "dot_plus s = (if s \<noteq> [] \<and> newline_free s then Some s else None)"

abbreviation case_prefix :: string where
  "case_prefix \<equiv> ''multi-source conflict(s) ''"
abbreviation case_prefix1 :: string where
  "case_prefix1 \<equiv> ''multi-source conflict ''"
abbreviation case_suffix :: string where
  "case_suffix \<equiv> '' affect this case''"
abbreviation job_prefix :: string where
  "job_prefix \<equiv> ''multi-source conflict artifact present: ''"

definition MULTI_SOURCE_CONFLICT_CASE_REASON_RE :: "string \<Rightarrow> string option" where
  "MULTI_SOURCE_CONFLICT_CASE_REASON_RE reason =
     (case strip_prefix case_prefix reason of
        Some rest \<Rightarrow> Option.bind (strip_suffix case_suffix rest) dot_plus
      | None \<Rightarrow>
          Option.bind (Option.bind (strip_prefix case_prefix1 reason) (strip_suffix case_suffix))
            dot_plus)"

definition MULTI_SOURCE_CONFLICT_JOB_REASON_RE :: "string \<Rightarrow> string option" where
  "MULTI_SOURCE_CONFLICT_JOB_REASON_RE reason = Option.bind (strip_prefix job_prefix reason) dot_plus"

text \<open>\<^verbatim>\<open>s.split(c)\<close> for a one-character separator.\<close>

fun js_split :: "char \<Rightarrow> string \<Rightarrow> string list" where
  "js_split c [] = [[]]"
| "js_split c (x # xs) =
     (if x = c then [] # js_split c xs
      else case js_split c xs of [] \<Rightarrow> [[x]] | y # ys \<Rightarrow> (x # y) # ys)"

definition parseMultiSourceConflictIds :: "string \<Rightarrow> string list option" where
  "parseMultiSourceConflictIds reason =
     (case (case MULTI_SOURCE_CONFLICT_CASE_REASON_RE reason of
              Some ids \<Rightarrow> Some ids | None \<Rightarrow> MULTI_SOURCE_CONFLICT_JOB_REASON_RE reason) of
        None \<Rightarrow> None
      | Some ids \<Rightarrow>
          let values = filter (\<lambda>e. e \<noteq> []) (map js_trim (js_split (CHR '','') ids))
          in if values \<noteq> [] then Some values else None)"

section \<open>Pruning\<close>

datatype violation_kind = Case_violation | Job_violation

definition rewrittenReason :: "violation_kind \<Rightarrow> string list \<Rightarrow> string" where
  "rewrittenReason kind ids =
     (if kind = Case_violation
      then case_prefix @ js_join '', '' ids @ case_suffix
      else job_prefix @ js_join '', '' ids)"

fun rewriteViolations ::
  "(string \<Rightarrow> bool) \<Rightarrow> violation_kind \<Rightarrow> TestCasePolicyViolation list \<Rightarrow> TestCasePolicyViolation list" where
  "rewriteViolations isConflictResolved kind [] = []"
| "rewriteViolations isConflictResolved kind (violation # rest) =
     (if pv_outcome violation \<noteq> ''multi_source_conflict_present''
      then violation # rewriteViolations isConflictResolved kind rest
      else case parseMultiSourceConflictIds (pv_reason violation) of
        None \<Rightarrow> violation # rewriteViolations isConflictResolved kind rest
      | Some conflictIds \<Rightarrow>
          let unresolved = filter (\<lambda>c. \<not> isConflictResolved c) conflictIds
          in if unresolved = [] then rewriteViolations isConflictResolved kind rest
             else violation \<lparr> pv_reason := rewrittenReason kind unresolved \<rparr>
                    # rewriteViolations isConflictResolved kind rest)"

definition prune_decision ::
  "(string \<Rightarrow> bool) \<Rightarrow> TestCasePolicyDecisionRecord \<Rightarrow> TestCasePolicyDecisionRecord" where
  "prune_decision isConflictResolved d =
     (let violations = rewriteViolations isConflictResolved Case_violation (pd_violations d)
      in d \<lparr> pd_decision := decision_of_violations violations, pd_violations := violations \<rparr>)"

definition pruneResolvedMultiSourceConflictViolations ::
  "(string \<Rightarrow> bool) \<Rightarrow> TestCasePolicyReport \<Rightarrow> TestCasePolicyReport" where
  "pruneResolvedMultiSourceConflictViolations isConflictResolved report =
     (let decisions = map (prune_decision isConflictResolved) (pr_decisions report);
          jobLevel = rewriteViolations isConflictResolved Job_violation (pr_jobLevelViolations report)
      in report \<lparr>
           pr_approvedCount := length (filter (\<lambda>d. pd_decision d = ''approved'') decisions),
           pr_blockedCount := length (filter (\<lambda>d. pd_decision d = ''blocked'') decisions),
           pr_needsReviewCount :=
             length (filter (\<lambda>d. pd_decision d \<noteq> ''approved'' \<and> pd_decision d \<noteq> ''blocked'') decisions),
           pr_blocked := (\<exists>d\<in>set decisions. pd_decision d = ''blocked'')
             \<or> (\<exists>v\<in>set jobLevel. pv_severity v = Sev_error),
           pr_decisions := decisions,
           pr_jobLevelViolations := jobLevel \<rparr>)"

section \<open>Which conflicts are resolved\<close>

definition effectively_resolved ::
  "(string \<rightharpoonup> InspectorConflictDecisionSnapshot) \<Rightarrow> MultiSourceConflict \<Rightarrow> bool" where
  "effectively_resolved decisions conflict \<longleftrightarrow>
     decisions (mc_conflictId conflict) \<noteq> None
     \<or> (mc_resolution conflict \<noteq> Unresolved \<and> mc_resolution conflict \<noteq> Deferred_to_reviewer)"

text \<open>The ids in the two result lists; the report is \<^const>\<open>None\<close> when there is no readable file.\<close>

definition projectInspectorConflictStates ::
  "MultiSourceConflict list option \<Rightarrow> (string \<rightharpoonup> InspectorConflictDecisionSnapshot) \<Rightarrow>
     string list \<times> string list" where
  "projectInspectorConflictStates report decisions =
     (let conflicts = (case report of None \<Rightarrow> [] | Some cs \<Rightarrow> cs)
      in (map mc_conflictId (filter (effectively_resolved decisions) conflicts),
          map mc_conflictId (filter (\<lambda>c. \<not> effectively_resolved decisions c) conflicts)))"

definition readConflictAwarePolicy ::
  "MultiSourceConflict list option \<Rightarrow> (string \<rightharpoonup> InspectorConflictDecisionSnapshot) \<Rightarrow>
     TestCasePolicyReport \<Rightarrow> TestCasePolicyReport" where
  "readConflictAwarePolicy report decisions policy =
     (case report of
        None \<Rightarrow> policy
      | Some _ \<Rightarrow>
          let resolved = fst (projectInspectorConflictStates report decisions)
          in pruneResolvedMultiSourceConflictViolations (\<lambda>c. c \<in> set resolved) policy)"

section \<open>Lemmas\<close>

lemma decisionRank_simps [simp]:
  "decisionRank ''approved'' = Some 0" "decisionRank ''needs_review'' = Some 1"
  "decisionRank ''blocked'' = Some 2"
  by (simp_all add: decisionRank_def)

text \<open>The decision folds to the strongest severity present.\<close>

definition strongest :: "Severity set \<Rightarrow> TestCasePolicyDecision" where
  "strongest S = (if Sev_error \<in> S then ''blocked'' else if Sev_warning \<in> S then ''needs_review''
     else ''approved'')"

lemma fold_escalate:
  "foldl (\<lambda>d v. escalate d (severityToDecision (pv_severity v))) (strongest S) vs
     = strongest (S \<union> pv_severity ` set vs)"
proof (induction vs arbitrary: S)
  case (Cons v vs)
  have "escalate (strongest S) (severityToDecision (pv_severity v)) = strongest (insert (pv_severity v) S)"
    by (cases "pv_severity v") (auto simp: strongest_def escalate_def)
  with Cons.IH [of "insert (pv_severity v) S"] show ?case by simp
qed simp

lemma decision_of_violations_eq: "decision_of_violations vs = strongest (pv_severity ` set vs)"
  using fold_escalate [of "{}" vs] by (simp add: decision_of_violations_def strongest_def)

lemma strip_prefix_append [simp]: "strip_prefix p (p @ s) = Some s"
  by (simp add: strip_prefix_def)

lemma strip_suffix_append [simp]: "strip_suffix p (s @ p) = Some s"
  by (simp add: strip_suffix_def)

lemma js_split_append:
  "c \<notin> set x \<Longrightarrow> js_split c (x @ c # ys) = x # js_split c ys"
  by (induction x) auto

lemma js_split_none: "c \<notin> set x \<Longrightarrow> js_split c x = [x]"
  by (induction x) auto

text \<open>Conflict ids as the reconciliation engine makes them: lower-case SHA-256 hex digests.\<close>

definition hex_chars :: string where
  "hex_chars = ''0123456789abcdef''"

definition id_ok :: "string \<Rightarrow> bool" where
  "id_ok s \<longleftrightarrow> length s = 64 \<and> list_all (\<lambda>c. List.member hex_chars c) s"

lemma hex_char_facts:
  assumes "c \<in> set hex_chars"
  shows "c \<noteq> CHR '',''" "\<not> js_space c" "c \<noteq> CHR ''s''" "c \<noteq> CHR 0x0A" "c \<noteq> CHR 0x0D"
  using assms by (auto simp: hex_chars_def js_space_def)

lemma id_okD:
  assumes "id_ok s"
  shows "s \<noteq> []" "CHR '','' \<notin> set s" "\<forall>c\<in>set s. \<not> js_space c" "CHR ''s'' \<notin> set s"
    "newline_free s" "length s = 64"
proof -
  have all: "\<forall>c\<in>set s. c \<in> set hex_chars" and len: "length s = 64"
    using assms by (simp_all add: id_ok_def list_all_iff)
  show "length s = 64" by (rule len)
  show "s \<noteq> []" by (metis len list.size(3) zero_neq_numeral)
  show "CHR '','' \<notin> set s" using all hex_char_facts(1) by blast
  show "\<forall>c\<in>set s. \<not> js_space c" using all hex_char_facts(2) by blast
  show "CHR ''s'' \<notin> set s" using all hex_char_facts(3) by blast
  show "newline_free s"
    unfolding newline_free_def list_all_iff using all hex_char_facts(4,5) by blast
qed

lemma newline_free_append [simp]: "newline_free (a @ b) \<longleftrightarrow> newline_free a \<and> newline_free b"
  by (simp add: newline_free_def)

lemma newline_free_sep [simp]: "newline_free '', ''" "newline_free []"
  by (simp_all add: newline_free_def)

lemma js_trim_id [simp]: "(\<forall>c\<in>set s. \<not> js_space c) \<Longrightarrow> js_trim s = s"
proof -
  assume a: "\<forall>c\<in>set s. \<not> js_space c"
  have "dropWhile js_space s = s" using a by (cases s) auto
  moreover have "dropWhile js_space (rev s) = rev s" using a by (cases s rule: rev_cases) auto
  ultimately show ?thesis by (simp add: js_trim_def)
qed

lemma js_trim_space [simp]: "js_trim (CHR '' '' # s) = js_trim s"
  by (simp add: js_trim_def js_space_def)

lemma split_join_ids:
  "ids \<noteq> [] \<Longrightarrow> \<forall>i\<in>set ids. id_ok i \<Longrightarrow>
     map js_trim (js_split (CHR '','') (js_join '', '' ids)) = ids"
proof (induction ids rule: induct_list012)
  case (2 x)
  then have "id_ok x" by simp
  from id_okD(2,3) [OF this] show ?case by (simp add: js_split_none)
next
  case (3 x y zs)
  then have x: "id_ok x" by simp
  obtain h t where ht: "js_split (CHR '','') (js_join '', '' (y # zs)) = h # t"
    using 3 by (cases "js_split (CHR '','') (js_join '', '' (y # zs))") auto
  moreover have "map js_trim (h # t) = y # zs" using 3 ht by simp
  ultimately show ?case using id_okD(2,3) [OF x] by (simp add: js_split_append)
qed simp

lemma join_newline_free:
  "\<forall>i\<in>set ids. id_ok i \<Longrightarrow> newline_free (js_join '', '' ids)"
proof (induction ids rule: induct_list012)
  case (3 x y zs)
  then have "newline_free x" "newline_free (js_join '', '' (y # zs))"
    by (simp_all add: id_okD(5))
  then show ?case
    using newline_free_append [of x "'', '' @ js_join '', '' (y # zs)"]
      newline_free_append [of "'', ''" "js_join '', '' (y # zs)"] by simp
qed (simp_all add: id_okD(5))

lemma join_ends_with_last: "ids \<noteq> [] \<Longrightarrow> \<exists>pre. js_join sep ids = pre @ last ids"
proof (induction ids rule: induct_list012)
  case (3 x y zs)
  then obtain pre where "js_join sep (y # zs) = pre @ last (y # zs)" by auto
  then show ?case by (intro exI [of _ "x @ sep @ pre"]) simp
qed auto

lemma dot_plus_join:
  assumes "ids \<noteq> []" "\<forall>i\<in>set ids. id_ok i"
  shows "dot_plus (js_join '', '' ids) = Some (js_join '', '' ids)"
proof -
  obtain pre where "js_join '', '' ids = pre @ last ids"
    using join_ends_with_last assms(1) by blast
  moreover have "last ids \<noteq> []" using assms id_okD(1) by auto
  ultimately show ?thesis using join_newline_free [OF assms(2)] by (simp add: dot_plus_def)
qed

lemma case_suffix_not_after_id:
  assumes "id_ok i"
  shows "strip_suffix case_suffix (pre @ i) = None"
proof (rule ccontr)
  assume "\<not> ?thesis"
  then have "take (length (rev case_suffix)) (rev i @ rev pre) = rev case_suffix"
    by (auto simp: strip_suffix_def strip_prefix_def split: if_splits)
  moreover have "take (length (rev case_suffix)) (rev i @ rev pre) = take (length (rev case_suffix)) (rev i)"
    using id_okD(6) [OF assms] by simp
  ultimately have "take (length (rev case_suffix)) (rev i) = rev case_suffix"
    by (simp only:)
  moreover have "CHR ''s'' \<in> set (rev case_suffix)" by simp
  ultimately have "CHR ''s'' \<in> set i"
    by (metis in_set_takeD set_rev)
  with id_okD(4) [OF assms] show False by simp
qed

text \<open>The ids a rewritten reason was made from are read back from it.\<close>

lemma parse_rewrittenReason:
  assumes "ids \<noteq> []" "\<forall>i\<in>set ids. id_ok i"
  shows "parseMultiSourceConflictIds (rewrittenReason kind ids) = Some ids"
proof -
  let ?j = "js_join '', '' ids"
  have vals: "filter (\<lambda>e. e \<noteq> []) (map js_trim (js_split (CHR '','') ?j)) = ids"
    using split_join_ids [OF assms] assms(2) id_okD(1) by (auto simp: filter_id_conv)
  have "(case MULTI_SOURCE_CONFLICT_CASE_REASON_RE (rewrittenReason kind ids) of
      Some i \<Rightarrow> Some i | None \<Rightarrow> MULTI_SOURCE_CONFLICT_JOB_REASON_RE (rewrittenReason kind ids)) = Some ?j"
  proof (cases kind)
    case Case_violation
    then show ?thesis
      using dot_plus_join [OF assms] strip_prefix_append [of case_prefix "?j @ case_suffix"]
        strip_suffix_append [of case_suffix ?j]
      by (simp add: MULTI_SOURCE_CONFLICT_CASE_REASON_RE_def rewrittenReason_def)
  next
    case Job_violation
    obtain pre where pre: "?j = pre @ last ids" using join_ends_with_last assms(1) by blast
    have "strip_suffix case_suffix ((''artifact present: '' @ pre) @ last ids) = None"
      by (rule case_suffix_not_after_id) (use assms in auto)
    then have "strip_suffix case_suffix (''artifact present: '' @ ?j) = None"
      by (simp add: pre)
    then show ?thesis
      using Job_violation dot_plus_join [OF assms] strip_prefix_append [of job_prefix ?j]
      by (simp add: MULTI_SOURCE_CONFLICT_CASE_REASON_RE_def MULTI_SOURCE_CONFLICT_JOB_REASON_RE_def
          rewrittenReason_def strip_prefix_def)
  qed
  then show ?thesis
    using assms(1) vals by (simp add: parseMultiSourceConflictIds_def Let_def)
qed

text \<open>A violation survives pruning when it names no conflict or an unresolved one.\<close>

definition violation_open :: "(string \<Rightarrow> bool) \<Rightarrow> TestCasePolicyViolation \<Rightarrow> bool" where
  "violation_open R v \<longleftrightarrow> pv_outcome v \<noteq> ''multi_source_conflict_present''
     \<or> (case parseMultiSourceConflictIds (pv_reason v) of
          None \<Rightarrow> True | Some ids \<Rightarrow> \<exists>i\<in>set ids. \<not> R i)"

lemma severities_rewriteViolations:
  "pv_severity ` set (rewriteViolations R kind vs) = pv_severity ` {v \<in> set vs. violation_open R v}"
proof (induction vs)
  case (Cons v vs)
  have *: "pv_severity ` {x \<in> set (v # vs). violation_open R x} =
      (if violation_open R v then {pv_severity v} else {}) \<union> pv_severity ` {x \<in> set vs. violation_open R x}"
    by auto
  show ?case
    unfolding * by (auto simp: Cons.IH violation_open_def Let_def filter_empty_conv split: option.splits)
qed simp

definition violation_ids_ok :: "TestCasePolicyViolation \<Rightarrow> bool" where
  "violation_ids_ok v \<longleftrightarrow>
     (case parseMultiSourceConflictIds (pv_reason v) of
        None \<Rightarrow> True | Some ids \<Rightarrow> list_all id_ok ids)"

lemma rewriteViolations_compose:
  "\<forall>v\<in>set vs. violation_ids_ok v \<Longrightarrow>
     rewriteViolations R2 kind (rewriteViolations R1 kind vs)
       = rewriteViolations (\<lambda>c. R1 c \<or> R2 c) kind vs"
proof (induction vs)
  case (Cons v vs)
  then have IH: "rewriteViolations R2 kind (rewriteViolations R1 kind vs)
       = rewriteViolations (\<lambda>c. R1 c \<or> R2 c) kind vs" by simp
  show ?case
  proof (cases "pv_outcome v = ''multi_source_conflict_present''")
    case False
    then show ?thesis by (simp add: IH)
  next
    case conflict: True
    show ?thesis
    proof (cases "parseMultiSourceConflictIds (pv_reason v)")
      case None
      with conflict show ?thesis by (simp add: IH)
    next
      case (Some ids)
      let ?u = "filter (\<lambda>c. \<not> R1 c) ids"
      have "parseMultiSourceConflictIds (rewrittenReason kind ?u) = Some ?u" if "?u \<noteq> []"
        by (rule parse_rewrittenReason [OF that])
          (use Cons.prems Some in \<open>auto simp: violation_ids_ok_def list_all_iff\<close>)
      moreover have "filter (\<lambda>c. \<not> R1 c \<and> \<not> R2 c) ids = []" if "?u = []"
        using that by (auto simp: filter_empty_conv)
      ultimately show ?thesis
        using conflict Some by (cases "?u = []") (simp_all add: Let_def IH)
    qed
  qed
qed simp

section \<open>Properties\<close>

text \<open>
  the decision of a pruned row is exactly the strongest severity among the violations that
  stay open, where a violation stays open unless it is a multi-source conflict all of whose parsed
  conflict ids are resolved; so resolving conflicts can never unblock a case that another
  error-level violation blocks.
\<close>

theorem pruned_decision_exact:
  "pd_decision (prune_decision R d) = strongest (pv_severity ` {v \<in> set (pd_violations d). violation_open R v})
   \<and> ((\<exists>v\<in>set (pd_violations d). pv_severity v = Sev_error
         \<and> pv_outcome v \<noteq> ''multi_source_conflict_present'') \<longrightarrow>
       pd_decision (prune_decision R d) = ''blocked'')"
proof -
  have eq: "pd_decision (prune_decision R d) =
      strongest (pv_severity ` {v \<in> set (pd_violations d). violation_open R v})"
    by (simp add: prune_decision_def Let_def decision_of_violations_eq severities_rewriteViolations)
  moreover have "strongest (pv_severity ` {v \<in> set (pd_violations d). violation_open R v}) = ''blocked''"
    if "v \<in> set (pd_violations d)" "pv_severity v = Sev_error"
      "pv_outcome v \<noteq> ''multi_source_conflict_present''" for v
  proof -
    have "v \<in> {v \<in> set (pd_violations d). violation_open R v}"
      using that by (simp add: violation_open_def)
    then have "Sev_error \<in> pv_severity ` {v \<in> set (pd_violations d). violation_open R v}"
      using that(2) by (metis image_eqI)
    then show ?thesis by (simp add: strongest_def)
  qed
  ultimately show ?thesis by auto
qed

theorem pruned_decision_exact_witness:
  "pd_decision (prune_decision (\<lambda>_. True)
     \<lparr> pd_testCaseId = ''tc'', pd_decision = ''blocked'',
       pd_violations = [\<lparr> pv_rule = ''r'', pv_outcome = ''pii_in_test_data'', pv_severity = Sev_error,
         pv_reason = ''x'', pv_path = None \<rparr>] \<rparr>) = ''blocked''"
  by (rule mp [OF conjunct2 [OF pruned_decision_exact]]) simp

text \<open>
  pruning composes: resolving a first set of conflicts and then a second set gives the same
  report as resolving both at once (in particular pruning twice with the same set changes nothing),
  because the rewritten reason texts parse back to exactly the conflict ids that remain.
\<close>

theorem prune_composes:
  assumes "list_all (\<lambda>d. list_all violation_ids_ok (pd_violations d)) (pr_decisions report)"
    and "list_all violation_ids_ok (pr_jobLevelViolations report)"
  shows "pruneResolvedMultiSourceConflictViolations R2
       (pruneResolvedMultiSourceConflictViolations R1 report)
     = pruneResolvedMultiSourceConflictViolations (\<lambda>c. R1 c \<or> R2 c) report"
proof -
  have dec: "map (prune_decision R2) (map (prune_decision R1) (pr_decisions report))
      = map (prune_decision (\<lambda>c. R1 c \<or> R2 c)) (pr_decisions report)"
    using assms(1)
    by (auto simp: list_all_iff prune_decision_def Let_def rewriteViolations_compose)
  have job: "rewriteViolations R2 Job_violation (rewriteViolations R1 Job_violation (pr_jobLevelViolations report))
      = rewriteViolations (\<lambda>c. R1 c \<or> R2 c) Job_violation (pr_jobLevelViolations report)"
    by (rule rewriteViolations_compose) (use assms(2) in \<open>simp add: list_all_iff\<close>)
  from dec job show ?thesis
    by (simp add: pruneResolvedMultiSourceConflictViolations_def Let_def del: map_map)
qed

definition sample_id :: "char \<Rightarrow> string" where
  "sample_id c = replicate 64 c"

definition sample_report :: TestCasePolicyReport where
  "sample_report = \<lparr> pr_generatedAt = ''t'', pr_jobId = ''job'', pr_policyProfileId = ''p'',
     pr_policyProfileVersion = ''1'', pr_totalTestCases = 1, pr_approvedCount = 0, pr_blockedCount = 0,
     pr_needsReviewCount = 1, pr_blocked = False,
     pr_decisions = [\<lparr> pd_testCaseId = ''tc'', pd_decision = ''needs_review'',
       pd_violations = [\<lparr> pv_rule = ''r'', pv_outcome = ''multi_source_conflict_present'',
         pv_severity = Sev_warning,
         pv_reason = rewrittenReason Case_violation [sample_id CHR ''a'', sample_id CHR ''b''],
         pv_path = None \<rparr>] \<rparr>],
     pr_jobLevelViolations = [], pr_faithfulnessEvaluation = None \<rparr>"

lemma sample_id_ok: "c \<in> set hex_chars \<Longrightarrow> id_ok (sample_id c)"
  by (auto simp: id_ok_def sample_id_def list_all_iff)

theorem prune_composes_witness:
  "pruneResolvedMultiSourceConflictViolations (\<lambda>c. c = sample_id CHR ''b'')
     (pruneResolvedMultiSourceConflictViolations (\<lambda>c. c = sample_id CHR ''a'') sample_report)
   = pruneResolvedMultiSourceConflictViolations
       (\<lambda>c. c = sample_id CHR ''a'' \<or> c = sample_id CHR ''b'') sample_report"
proof (rule prune_composes)
  have ok: "\<forall>i\<in>set [sample_id CHR ''a'', sample_id CHR ''b'']. id_ok i"
    by (simp add: sample_id_ok hex_chars_def)
  then show "list_all (\<lambda>d. list_all violation_ids_ok (pd_violations d)) (pr_decisions sample_report)"
    using parse_rewrittenReason [OF _ ok] by (simp add: sample_report_def violation_ids_ok_def)
qed (simp add: sample_report_def)

end
