(* ===== verification/ReviewStore.thy ===== *)
theory ReviewStore
  imports ReviewPersistence PolicyConflicts
begin

text \<open>
  The persistent review store of \<^verbatim>\<open>packages/production-runner/src/review-store.ts\<close>.

  The store's state is the pair of files it keeps per job. A file holds either text that is not
  JSON or the JSON value it parses to; reading validates the value and raises otherwise, exactly
  as \<^verbatim>\<open>readEnvelope\<close> and \<^verbatim>\<open>readSnapshotInternal\<close> do. Every operation runs under the job's
  lock, so an operation is one step on the files of its job; its two writes are taken apart, with their
  failures, in the theory \<^verbatim>\<open>ReviewStoreWrites\<close>. The files are indexed by the job id. Values that come from outside
  (\<^verbatim>\<open>randomUUID()\<close>, the reconciliation report and the conflict decisions on disk) are arguments.
\<close>

section \<open>Files\<close>

datatype review_file = NotJson | JsonFile json

record review_fs =
  eventsFile :: "string \<rightharpoonup> review_file"
  snapshotFile :: "string \<rightharpoonup> review_file"

datatype store_error =
    Events_not_valid_JSON | Events_not_valid_envelope | Events_jobId_mismatch
  | State_not_valid_JSON | State_not_valid_snapshot

definition writeEvents :: "string \<Rightarrow> PersistedReviewEventsEnvelope \<Rightarrow> review_fs \<Rightarrow> review_fs" where
  "writeEvents jobId env fs =
     fs \<lparr> eventsFile := (eventsFile fs)(jobId \<mapsto> JsonFile (sortValue (enc_envelope env))) \<rparr>"

definition writeSnapshot :: "string \<Rightarrow> ReviewGateSnapshot \<Rightarrow> review_fs \<Rightarrow> review_fs" where
  "writeSnapshot jobId snap fs =
     fs \<lparr> snapshotFile := (snapshotFile fs)(jobId \<mapsto> JsonFile (sortValue (enc_gate_snapshot snap))) \<rparr>"

definition readEnvelope ::
  "string \<Rightarrow> review_fs \<Rightarrow> store_error + PersistedReviewEventsEnvelope option" where
  "readEnvelope jobId fs =
     (case eventsFile fs jobId of
        None \<Rightarrow> Inr None
      | Some NotJson \<Rightarrow> Inl Events_not_valid_JSON
      | Some (JsonFile parsed) \<Rightarrow>
          if \<not> isPersistedEnvelope parsed then Inl Events_not_valid_envelope
          else if pe_jobId (dec_envelope parsed) \<noteq> jobId then Inl Events_jobId_mismatch
          else Inr (Some (dec_envelope parsed)))"

definition readSnapshotInternal ::
  "string \<Rightarrow> review_fs \<Rightarrow> store_error + ReviewGateSnapshot option" where
  "readSnapshotInternal jobId fs =
     (case snapshotFile fs jobId of
        None \<Rightarrow> Inr None
      | Some NotJson \<Rightarrow> Inl State_not_valid_JSON
      | Some (JsonFile parsed) \<Rightarrow>
          if \<not> isReviewGateSnapshot parsed then Inl State_not_valid_snapshot
          else Inr (Some (dec_gate_snapshot parsed)))"

definition listEvents :: "string \<Rightarrow> review_fs \<Rightarrow> store_error + ReviewEvent list" where
  "listEvents jobId fs =
     (case readEnvelope jobId fs of
        Inl err \<Rightarrow> Inl err
      | Inr None \<Rightarrow> Inr []
      | Inr (Some env) \<Rightarrow> Inr (pe_events env))"

definition readSnapshot :: "string \<Rightarrow> review_fs \<Rightarrow> store_error + ReviewGateSnapshot option" where
  "readSnapshot jobId fs = readSnapshotInternal jobId fs"

section \<open>Counts and ordering\<close>

record SnapshotCounts =
  sc_approvedCount :: nat
  sc_needsReviewCount :: nat
  sc_rejectedCount :: nat
  sc_pendingSecondaryApprovalCount :: nat

fun count_entry :: "SnapshotCounts \<Rightarrow> ReviewState \<Rightarrow> SnapshotCounts" where
  "count_entry c st =
     (if st = St_approved \<or> st = St_exported \<or> st = St_transferred
      then c \<lparr> sc_approvedCount := Suc (sc_approvedCount c) \<rparr>
      else if st = St_needs_review \<or> st = St_edited
      then c \<lparr> sc_needsReviewCount := Suc (sc_needsReviewCount c) \<rparr>
      else if st = St_pending_secondary_approval
      then c \<lparr> sc_pendingSecondaryApprovalCount := Suc (sc_pendingSecondaryApprovalCount c) \<rparr>
      else if st = St_rejected
      then c \<lparr> sc_rejectedCount := Suc (sc_rejectedCount c) \<rparr>
      else c)"

definition computeCounts :: "ReviewSnapshot list \<Rightarrow> SnapshotCounts" where
  "computeCounts perTestCase =
     foldl (\<lambda>c r. count_entry c (rs_state r))
       \<lparr> sc_approvedCount = 0, sc_needsReviewCount = 0, sc_rejectedCount = 0,
         sc_pendingSecondaryApprovalCount = 0 \<rparr> perTestCase"

definition sortSnapshotEntries :: "string comparator \<Rightarrow> ReviewSnapshot list \<Rightarrow> ReviewSnapshot list" where
  "sortSnapshotEntries lc entries = sort_by lc rs_testCaseId entries"

definition reviewSnapshotsEqual :: "ReviewSnapshot \<Rightarrow> ReviewSnapshot \<Rightarrow> bool" where
  "reviewSnapshotsEqual left right \<longleftrightarrow>
     sortValue (enc_snapshot_entry left) = sortValue (enc_snapshot_entry right)"

text \<open>\<^verbatim>\<open>{ ...snapshot, perTestCase: sorted, ...counts }\<close>\<close>

definition with_entries :: "string comparator \<Rightarrow> ReviewSnapshot list \<Rightarrow> ReviewGateSnapshot \<Rightarrow> ReviewGateSnapshot" where
  "with_entries lc entries snap =
     (let sorted = sortSnapshotEntries lc entries; counts = computeCounts sorted
      in snap \<lparr> gs_perTestCase := sorted,
           gs_approvedCount := of_nat (sc_approvedCount counts),
           gs_needsReviewCount := of_nat (sc_needsReviewCount counts),
           gs_rejectedCount := of_nat (sc_rejectedCount counts),
           gs_pendingSecondaryApprovalCount :=
             Some (of_nat (sc_pendingSecondaryApprovalCount counts)) \<rparr>)"

section \<open>Seeding\<close>

record SeedSnapshotInput =
  si_jobId :: string
  si_generatedAt :: string
  si_testCases :: "GeneratedTestCase list"
  si_policy :: TestCasePolicyReport
  si_fourEyesPolicy :: "FourEyesPolicy option"
  si_visualReport :: "VisualSidecarValidationReport option"

definition has_outcome :: "string \<Rightarrow> TestCasePolicyDecisionRecord \<Rightarrow> bool" where
  "has_outcome out d \<longleftrightarrow> (\<exists>v\<in>set (pd_violations d). pv_outcome v = out)"

text \<open>\<^verbatim>\<open>decisions.set(...)\<close> in report order: a later row for the same case wins.\<close>

definition decision_of :: "TestCasePolicyReport \<Rightarrow> string \<Rightarrow> TestCasePolicyDecision option" where
  "decision_of policy tcId = map_of (rev (map (\<lambda>d. (pd_testCaseId d, pd_decision d)) (pr_decisions policy))) tcId"

definition escalated :: "string \<Rightarrow> TestCasePolicyReport \<Rightarrow> string \<Rightarrow> bool" where
  "escalated out policy tcId \<longleftrightarrow>
     (\<exists>d\<in>set (pr_decisions policy). pd_testCaseId d = tcId \<and> has_outcome out d)"

definition seed_reasons ::
  "SeedSnapshotInput \<Rightarrow> TestCasePolicyReport \<Rightarrow> GeneratedTestCase \<Rightarrow> FourEyesEnforcementReason list" where
  "seed_reasons input policy tc =
     (let reasons0 = (case si_fourEyesPolicy input of
            None \<Rightarrow> []
          | Some p \<Rightarrow> snd (evaluateFourEyesEnforcement tc p (si_visualReport input)));
          reasons1 = (case si_fourEyesPolicy input of
            None \<Rightarrow> reasons0
          | Some p \<Rightarrow>
              if escalated ''custom_context_risk_escalation'' policy (tc_id tc)
                 \<and> ''regulated_data'' \<in> set (requiredRiskCategories p)
              then set_add Risk_category reasons0 else reasons0);
          reasons2 = (if escalated ''multi_source_conflict_present'' policy (tc_id tc)
            then set_add Multi_source_conflict_present reasons1 else reasons1)
      in sorted_reasons reasons2)"

definition seed_decision :: "TestCasePolicyReport \<Rightarrow> GeneratedTestCase \<Rightarrow> TestCasePolicyDecision" where
  "seed_decision policy tc = (case decision_of policy (tc_id tc) of None \<Rightarrow> ''needs_review'' | Some d \<Rightarrow> d)"

definition seed_entry ::
  "SeedSnapshotInput \<Rightarrow> TestCasePolicyReport \<Rightarrow> string \<Rightarrow> GeneratedTestCase \<Rightarrow> ReviewSnapshot" where
  "seed_entry input policy eventId tc =
     (let reasons = seed_reasons input policy tc; decision = seed_decision policy tc
      in \<lparr> rs_testCaseId = tc_id tc, rs_state = seedReviewStateFromPolicy decision,
           rs_policyDecision = decision, rs_lastEventId = eventId,
           rs_lastEventAt = si_generatedAt input, rs_fourEyesEnforced = (reasons \<noteq> []),
           rs_approvers = [], rs_fourEyesReasons = (if reasons \<noteq> [] then Some reasons else None),
           rs_primaryReviewer = None, rs_primaryApprovalAt = None,
           rs_secondaryReviewer = None, rs_secondaryApprovalAt = None, rs_lastEditor = None \<rparr>)"

definition seed_event ::
  "SeedSnapshotInput \<Rightarrow> TestCasePolicyReport \<Rightarrow> string \<Rightarrow> nat \<Rightarrow> GeneratedTestCase \<Rightarrow> ReviewEvent" where
  "seed_event input policy eventId sequence tc =
     (let decision = seed_decision policy tc
      in \<lparr> ev_id = eventId, ev_jobId = si_jobId input, ev_testCaseId = Some (tc_id tc),
           ev_kind = Ev_generated, ev_at = si_generatedAt input, ev_actor = None, ev_note = None,
           ev_fromState = Some St_generated,
           ev_toState = Some (seedReviewStateFromPolicy decision), ev_sequence = sequence,
           ev_metadata = Some [(''policyDecision'', MStr decision)] \<rparr>)"

text \<open>
  \<open>uuid i\<close> is the \<open>i\<close>-th identifier drawn by this call. \<open>conflicts\<close> and \<open>decisions\<close> are what
  \<^verbatim>\<open>readConflictAwarePolicy\<close> finds on disk.
\<close>

definition seedSnapshot ::
  "string comparator \<Rightarrow> (nat \<Rightarrow> string) \<Rightarrow> MultiSourceConflict list option \<Rightarrow>
   (string \<rightharpoonup> InspectorConflictDecisionSnapshot) \<Rightarrow> SeedSnapshotInput \<Rightarrow> review_fs \<Rightarrow>
     store_error + (ReviewGateSnapshot \<times> review_fs)" where
  "seedSnapshot lc uuid conflicts decisions input fs =
     (case readSnapshotInternal (si_jobId input) fs of
        Inl err \<Rightarrow> Inl err
      | Inr (Some existing) \<Rightarrow> Inr (existing, fs)
      | Inr None \<Rightarrow>
          let policy = readConflictAwarePolicy conflicts decisions (si_policy input);
              tcs = enumerate 0 (si_testCases input);
              events = map (\<lambda>(i, tc). seed_event input policy (uuid i) (Suc i) tc) tcs;
              entries = map (\<lambda>(i, tc). seed_entry input policy (uuid i) tc) tcs;
              snapshot = with_entries lc entries
                \<lparr> gs_jobId = si_jobId input, gs_generatedAt = si_generatedAt input,
                  gs_perTestCase = [], gs_approvedCount = 0, gs_needsReviewCount = 0,
                  gs_rejectedCount = 0, gs_pendingSecondaryApprovalCount = None,
                  gs_fourEyesPolicy = map_option cloneFourEyesPolicy (si_fourEyesPolicy input) \<rparr>;
              envelope = \<lparr> pe_jobId = si_jobId input, pe_events = events,
                pe_nextSequence = Suc (length tcs) \<rparr>
          in Inr (snapshot, writeSnapshot (si_jobId input) snapshot
                     (writeEvents (si_jobId input) envelope fs)))"

section \<open>Recording a transition\<close>

definition NOTE_MAX_LENGTH :: nat where "NOTE_MAX_LENGTH = 1024"

definition ACTOR_MAX_LENGTH :: nat where "ACTOR_MAX_LENGTH = 256"

record RecordTransitionInput =
  ti_jobId :: string
  ti_testCaseId :: "string option"
  ti_kind :: string
  ti_at :: string
  ti_actor :: "string option"
  ti_note :: "string option"
  ti_metadata :: "metadata option"

datatype FourEyesRefusalCode =
    Four_eyes_actor_required | Self_approval_refused | Duplicate_principal_refused
  | Primary_approval_required | Four_eyes_not_required

datatype RecordRefusal =
    Snapshot_missing | Test_case_unknown | Test_case_id_required | Note_too_long | Actor_too_long
  | Kind_unknown | Transition_refused ReviewTransitionRefusalCode
  | Four_eyes_refused FourEyesRefusalCode

definition resolveEventKind :: "ReviewEventKind \<Rightarrow> ReviewSnapshot option \<Rightarrow> ReviewEventKind" where
  "resolveEventKind inbound entry =
     (case entry of
        None \<Rightarrow> inbound
      | Some e \<Rightarrow>
          if inbound \<noteq> Ev_approved then inbound
          else if \<not> rs_fourEyesEnforced e then Ev_approved
          else if rs_state e = St_needs_review \<or> rs_state e = St_edited \<or> rs_state e = St_generated
          then Ev_primary_approved
          else if rs_state e = St_pending_secondary_approval then Ev_secondary_approved
          else Ev_approved)"

definition applyFourEyesRefusals ::
  "string option \<Rightarrow> ReviewEventKind \<Rightarrow> ReviewSnapshot option \<Rightarrow> FourEyesRefusalCode option" where
  "applyFourEyesRefusals actor resolvedKind entry =
     (case entry of
        None \<Rightarrow> None
      | Some e \<Rightarrow>
          if (resolvedKind = Ev_primary_approved \<or> resolvedKind = Ev_secondary_approved)
             \<and> \<not> rs_fourEyesEnforced e
          then Some Four_eyes_not_required
          else if (resolvedKind = Ev_primary_approved \<or> resolvedKind = Ev_secondary_approved)
             \<and> (actor = None \<or> actor = Some [])
          then Some Four_eyes_actor_required
          else if resolvedKind = Ev_primary_approved
             \<and> rs_lastEditor e \<noteq> None \<and> rs_lastEditor e = actor
          then Some Self_approval_refused
          else if resolvedKind = Ev_primary_approved \<and> the actor \<in> set (rs_approvers e)
          then Some Duplicate_principal_refused
          else if resolvedKind = Ev_secondary_approved
             \<and> rs_state e \<noteq> St_pending_secondary_approval
          then Some Primary_approval_required
          else if resolvedKind = Ev_secondary_approved
             \<and> rs_primaryReviewer e \<noteq> None \<and> rs_primaryReviewer e = actor
          then Some Self_approval_refused
          else if resolvedKind = Ev_secondary_approved \<and> the actor \<in> set (rs_approvers e)
          then Some Duplicate_principal_refused
          else if resolvedKind = Ev_secondary_approved
             \<and> rs_lastEditor e \<noteq> None \<and> rs_lastEditor e = actor
          then Some Self_approval_refused
          else None)"

definition clear_approvals :: "ReviewSnapshot \<Rightarrow> ReviewSnapshot" where
  "clear_approvals r = r \<lparr> rs_primaryReviewer := None, rs_primaryApprovalAt := None,
     rs_secondaryReviewer := None, rs_secondaryApprovalAt := None, rs_approvers := [] \<rparr>"

definition applyEntryEffects ::
  "ReviewSnapshot \<Rightarrow> ReviewState \<Rightarrow> string \<Rightarrow> string \<Rightarrow> string option \<Rightarrow> ReviewEventKind \<Rightarrow> ReviewSnapshot" where
  "applyEntryEffects entry toState eventId eventAt actor kind =
     (let approvers =
            (case actor of
               Some a \<Rightarrow>
                 if (kind = Ev_approved \<or> kind = Ev_primary_approved \<or> kind = Ev_secondary_approved)
                    \<and> a \<notin> set (rs_approvers entry)
                 then js_sort (rs_approvers entry @ [a]) else rs_approvers entry
             | None \<Rightarrow> rs_approvers entry);
          u0 = entry \<lparr> rs_state := toState, rs_lastEventId := eventId, rs_lastEventAt := eventAt,
                 rs_approvers := approvers \<rparr>;
          u1 = (if kind = Ev_primary_approved \<and> actor \<noteq> None
                then u0 \<lparr> rs_primaryReviewer := actor, rs_primaryApprovalAt := Some eventAt \<rparr> else u0);
          u2 = (if kind = Ev_secondary_approved \<and> actor \<noteq> None
                then u1 \<lparr> rs_secondaryReviewer := actor, rs_secondaryApprovalAt := Some eventAt \<rparr> else u1);
          u3 = (if kind = Ev_edited then clear_approvals (u2 \<lparr> rs_lastEditor := actor \<rparr>) else u2)
      in if kind = Ev_review_started
            \<and> (rs_state entry = St_approved \<or> rs_state entry = St_pending_secondary_approval
               \<or> rs_state entry = St_edited)
         then clear_approvals u3 else u3)"

definition touch_entry :: "string \<Rightarrow> string \<Rightarrow> ReviewSnapshot \<Rightarrow> ReviewSnapshot" where
  "touch_entry eventId eventAt entry = entry \<lparr> rs_lastEventId := eventId, rs_lastEventAt := eventAt \<rparr>"

definition replace_entry :: "ReviewSnapshot \<Rightarrow> ReviewSnapshot list \<Rightarrow> ReviewSnapshot list" where
  "replace_entry updated entries =
     map (\<lambda>e. if rs_testCaseId e = rs_testCaseId updated then updated else e) entries"

text \<open>The entry an event is about: \<open>Inr None\<close> for a job-level note.\<close>

definition find_entry ::
  "ReviewEventKind \<Rightarrow> string option \<Rightarrow> ReviewSnapshot list \<Rightarrow> RecordRefusal + ReviewSnapshot option" where
  "find_entry kind tcId entries =
     (case tcId of
        None \<Rightarrow> if kind = Ev_note then Inr None else Inl Test_case_id_required
      | Some i \<Rightarrow>
          (case List.find (\<lambda>e. rs_testCaseId e = i) entries of
             None \<Rightarrow> Inl Test_case_unknown
           | Some e \<Rightarrow> Inr (Some e)))"

definition build_event ::
  "RecordTransitionInput \<Rightarrow> string \<Rightarrow> ReviewEventKind \<Rightarrow> ReviewState \<Rightarrow> ReviewState \<Rightarrow> nat \<Rightarrow> ReviewEvent" where
  "build_event input eventId kind fromState toState sequence =
     \<lparr> ev_id = eventId, ev_jobId = ti_jobId input, ev_testCaseId = ti_testCaseId input,
       ev_kind = kind, ev_at = ti_at input, ev_actor = ti_actor input, ev_note = ti_note input,
       ev_fromState = Some fromState, ev_toState = Some toState, ev_sequence = sequence,
       ev_metadata = map_option meta_norm (ti_metadata input) \<rparr>"

definition append_event :: "ReviewEvent \<Rightarrow> PersistedReviewEventsEnvelope \<Rightarrow> PersistedReviewEventsEnvelope" where
  "append_event ev env =
     env \<lparr> pe_events := pe_events env @ [ev], pe_nextSequence := Suc (pe_nextSequence env) \<rparr>"

text \<open>
  The decision part of \<^verbatim>\<open>recordTransition\<close>: which event is appended and what becomes of the
  entries, given the envelope and the snapshot read from disk.
\<close>

definition decide_transition ::
  "string \<Rightarrow> RecordTransitionInput \<Rightarrow> ReviewEventKind \<Rightarrow> nat \<Rightarrow> ReviewSnapshot list \<Rightarrow>
     RecordRefusal + (ReviewEvent \<times> ReviewSnapshot list)" where
  "decide_transition eventId input kind sequence entries =
     (case find_entry kind (ti_testCaseId input) entries of
        Inl code \<Rightarrow> Inl code
      | Inr entry \<Rightarrow>
          let fromState = (case entry of None \<Rightarrow> St_generated | Some e \<Rightarrow> rs_state e);
              resolvedKind = resolveEventKind kind entry
          in (case applyFourEyesRefusals (ti_actor input) resolvedKind entry of
                Some code \<Rightarrow> Inl (Four_eyes_refused code)
              | None \<Rightarrow>
                  (case transitionReviewState fromState resolvedKind (map_option rs_policyDecision entry) of
                     Inl code \<Rightarrow> Inl (Transition_refused code)
                   | Inr toState \<Rightarrow>
                       Inr (build_event input eventId resolvedKind fromState toState sequence,
                            case entry of
                              None \<Rightarrow> entries
                            | Some e \<Rightarrow>
                                replace_entry
                                  (if resolvedKind \<noteq> Ev_note
                                   then applyEntryEffects e toState eventId (ti_at input)
                                          (ti_actor input) resolvedKind
                                   else touch_entry eventId (ti_at input) e)
                                  entries))))"

definition recordTransition ::
  "string comparator \<Rightarrow> string \<Rightarrow> RecordTransitionInput \<Rightarrow> review_fs \<Rightarrow>
     store_error + ((RecordRefusal + (ReviewEvent \<times> ReviewGateSnapshot)) \<times> review_fs)" where
  "recordTransition lc eventId input fs =
     (if (case ti_note input of None \<Rightarrow> False | Some n \<Rightarrow> length n > NOTE_MAX_LENGTH)
      then Inr (Inl Note_too_long, fs)
      else if (case ti_actor input of None \<Rightarrow> False | Some a \<Rightarrow> length a > ACTOR_MAX_LENGTH)
      then Inr (Inl Actor_too_long, fs)
      else case kind_of_str (ti_kind input) of
        None \<Rightarrow> Inr (Inl Kind_unknown, fs)
      | Some kind \<Rightarrow>
          (case readEnvelope (ti_jobId input) fs of
             Inl err \<Rightarrow> Inl err
           | Inr env' \<Rightarrow>
               (case readSnapshotInternal (ti_jobId input) fs of
                  Inl err \<Rightarrow> Inl err
                | Inr snap' \<Rightarrow>
                    (case (env', snap') of
                       (Some env, Some snap) \<Rightarrow>
                         (case decide_transition eventId input kind (pe_nextSequence env)
                                 (gs_perTestCase snap) of
                            Inl code \<Rightarrow> Inr (Inl code, fs)
                          | Inr (ev, nextEntries) \<Rightarrow>
                              let newSnapshot = with_entries lc nextEntries snap
                              in Inr (Inr (ev, newSnapshot),
                                   writeSnapshot (ti_jobId input) newSnapshot
                                     (writeEvents (ti_jobId input) (append_event ev env) fs)))
                     | _ \<Rightarrow> Inr (Inl Snapshot_missing, fs)))))"

section \<open>Refreshing the policy decisions\<close>

record RefreshPolicyDecisionsInput =
  ri_jobId :: string
  ri_at :: string
  ri_policy :: TestCasePolicyReport

datatype RefreshRefusal =
  Refresh_snapshot_missing | Policy_report_job_mismatch | Policy_report_test_case_mismatch

text \<open>The loop over the report's rows: every row must be about a known case and no case may have two.\<close>

fun collect_decisions ::
  "string list \<Rightarrow> TestCasePolicyDecisionRecord list \<Rightarrow> (string \<times> TestCasePolicyDecision) list \<Rightarrow>
     (string \<times> TestCasePolicyDecision) list option" where
  "collect_decisions known [] acc = Some acc"
| "collect_decisions known (d # ds) acc =
     (if pd_testCaseId d \<notin> set known \<or> map_of acc (pd_testCaseId d) \<noteq> None then None
      else collect_decisions known ds (AList.update (pd_testCaseId d) (pd_decision d) acc))"

definition refreshed_entry ::
  "TestCasePolicyReport \<Rightarrow> TestCasePolicyDecision \<Rightarrow> ReviewSnapshot \<Rightarrow> ReviewSnapshot" where
  "refreshed_entry policy nextDecision entry =
     (let reasons0 = removeAll Multi_source_conflict_present
            (js_set (case rs_fourEyesReasons entry of None \<Rightarrow> [] | Some rs \<Rightarrow> rs));
          reasons1 = (if escalated ''multi_source_conflict_present'' policy (rs_testCaseId entry)
            then set_add Multi_source_conflict_present reasons0 else reasons0);
          sortedReasons = sorted_reasons reasons1
      in entry \<lparr> rs_policyDecision := nextDecision,
           rs_fourEyesEnforced := (sortedReasons \<noteq> []),
           rs_fourEyesReasons := (if sortedReasons \<noteq> [] then Some sortedReasons else None) \<rparr>)"

definition changed_entries ::
  "TestCasePolicyReport \<Rightarrow> (string \<times> TestCasePolicyDecision) list \<Rightarrow> ReviewSnapshot list \<Rightarrow> ReviewSnapshot list" where
  "changed_entries policy decisions entries =
     concat (map (\<lambda>entry.
       case map_of decisions (rs_testCaseId entry) of
         None \<Rightarrow> []
       | Some d \<Rightarrow>
           let next = refreshed_entry policy d entry
           in if \<not> reviewSnapshotsEqual entry next then [next] else []) entries)"

definition settle_entry :: "string \<Rightarrow> string \<Rightarrow> ReviewSnapshot \<Rightarrow> ReviewSnapshot" where
  "settle_entry eventId eventAt changed =
     (let next = touch_entry eventId eventAt changed
      in if rs_policyDecision next = ''blocked''
            \<and> (rs_state next = St_approved \<or> rs_state next = St_pending_secondary_approval
               \<or> rs_state next = St_edited)
         then clear_approvals (next \<lparr> rs_state := St_needs_review \<rparr>)
         else next)"

text \<open>\<^verbatim>\<open>new Map(changedEntries.map(...))\<close>: the last entry for an id wins.\<close>

definition settle_entries ::
  "string \<Rightarrow> string \<Rightarrow> ReviewSnapshot list \<Rightarrow> ReviewSnapshot list \<Rightarrow> ReviewSnapshot list" where
  "settle_entries eventId eventAt changed entries =
     map (\<lambda>entry. case map_of (rev (map (\<lambda>e. (rs_testCaseId e, e)) changed)) (rs_testCaseId entry) of
            None \<Rightarrow> entry
          | Some c \<Rightarrow> settle_entry eventId eventAt c) entries"

definition refresh_event ::
  "RefreshPolicyDecisionsInput \<Rightarrow> string \<Rightarrow> TestCasePolicyReport \<Rightarrow> nat \<Rightarrow> nat \<Rightarrow> ReviewEvent" where
  "refresh_event input eventId policy changedCount sequence =
     \<lparr> ev_id = eventId, ev_jobId = ri_jobId input, ev_testCaseId = None, ev_kind = Ev_note,
       ev_at = ri_at input, ev_actor = None,
       ev_note = Some ''Policy decisions refreshed from override-aware policy report.'',
       ev_fromState = None, ev_toState = None, ev_sequence = sequence,
       ev_metadata = Some (meta_norm
         [(''policyDecisionRefresh'', MStr ''semantic_content_overrides''),
          (''changedCount'', MNum (of_nat changedCount)),
          (''policyProfileId'', MStr (pr_policyProfileId policy)),
          (''policyProfileVersion'', MStr (pr_policyProfileVersion policy))]) \<rparr>"

text \<open>A successful refresh returns the snapshot, the number of changed cases and the appended event.\<close>

definition refreshPolicyDecisions ::
  "string comparator \<Rightarrow> string \<Rightarrow> MultiSourceConflict list option \<Rightarrow>
   (string \<rightharpoonup> InspectorConflictDecisionSnapshot) \<Rightarrow> RefreshPolicyDecisionsInput \<Rightarrow> review_fs \<Rightarrow>
     store_error + ((RefreshRefusal + (ReviewGateSnapshot \<times> nat \<times> ReviewEvent option)) \<times> review_fs)" where
  "refreshPolicyDecisions lc eventId conflicts decisions input fs =
     (case readEnvelope (ri_jobId input) fs of
        Inl err \<Rightarrow> Inl err
      | Inr env' \<Rightarrow>
          (case readSnapshotInternal (ri_jobId input) fs of
             Inl err \<Rightarrow> Inl err
           | Inr snap' \<Rightarrow>
               (case (env', snap') of
                  (Some env, Some snap) \<Rightarrow>
                    let policy = readConflictAwarePolicy conflicts decisions (ri_policy input)
                    in if pr_jobId policy \<noteq> ri_jobId input
                       then Inr (Inl Policy_report_job_mismatch, fs)
                       else if pr_totalTestCases policy \<noteq> length (gs_perTestCase snap)
                       then Inr (Inl Policy_report_test_case_mismatch, fs)
                       else (case collect_decisions (map rs_testCaseId (gs_perTestCase snap))
                                    (pr_decisions policy) [] of
                               None \<Rightarrow> Inr (Inl Policy_report_test_case_mismatch, fs)
                             | Some ds \<Rightarrow>
                                 let changed = changed_entries policy ds (gs_perTestCase snap)
                                 in if changed = [] then Inr (Inr (snap, 0, None), fs)
                                    else
                                      let ev = refresh_event input eventId policy (length changed)
                                                 (pe_nextSequence env);
                                          next = with_entries lc
                                            (settle_entries eventId (ri_at input) changed
                                               (gs_perTestCase snap)) snap
                                      in Inr (Inr (next, length changed, Some ev),
                                           writeSnapshot (ri_jobId input) next
                                             (writeEvents (ri_jobId input) (append_event ev env) fs)))
                | _ \<Rightarrow> Inr (Inl Refresh_snapshot_missing, fs))))"

end
