(* ===== verification/ReviewStoreInv.thy ===== *)
theory ReviewStoreInv
  imports ReviewStore
begin

text \<open>
  The invariant of the review store and its preservation by every operation: the event log is
  gap-free, the stored counts agree with the stored entries, and the approval fields of every entry
  tell the truth about the log.
\<close>

section \<open>Files\<close>

interpretation events_file: keyed_file writeEvents readEnvelope
  "\<lambda>j env. envelope_ok env \<and> pe_jobId env = j"
  by unfold_locales
    (auto simp: writeEvents_def readEnvelope_def isPersistedEnvelope_enc dec_enc_envelope)

interpretation snapshot_file: keyed_file writeSnapshot readSnapshotInternal
  "\<lambda>j snap. gate_snapshot_ok snap"
  by unfold_locales
    (auto simp: writeSnapshot_def readSnapshotInternal_def isReviewGateSnapshot_enc
      dec_enc_gate_snapshot)

lemma readEnvelope_writeSnapshot [simp]:
  "readEnvelope j (writeSnapshot k snap fs) = readEnvelope j fs"
  by (simp add: readEnvelope_def writeSnapshot_def)

lemma readSnapshot_writeEvents [simp]:
  "readSnapshotInternal j (writeEvents k env fs) = readSnapshotInternal j fs"
  by (simp add: readSnapshotInternal_def writeEvents_def)

section \<open>Counts\<close>

abbreviation state_count :: "(ReviewState \<Rightarrow> bool) \<Rightarrow> ReviewSnapshot list \<Rightarrow> nat" where
  "state_count P rs \<equiv> length (filter (\<lambda>r. P (rs_state r)) rs)"

lemma foldl_count_entry:
  "foldl (\<lambda>c r. count_entry c (rs_state r)) c rs =
     c \<lparr> sc_approvedCount := sc_approvedCount c
            + state_count (\<lambda>s. s = St_approved \<or> s = St_exported \<or> s = St_transferred) rs,
         sc_needsReviewCount := sc_needsReviewCount c
            + state_count (\<lambda>s. s = St_needs_review \<or> s = St_edited) rs,
         sc_rejectedCount := sc_rejectedCount c + state_count (\<lambda>s. s = St_rejected) rs,
         sc_pendingSecondaryApprovalCount := sc_pendingSecondaryApprovalCount c
            + state_count (\<lambda>s. s = St_pending_secondary_approval) rs \<rparr>"
  by (induction rs arbitrary: c) auto

lemma computeCounts_eq:
  "computeCounts rs = \<lparr>
     sc_approvedCount = state_count (\<lambda>s. s = St_approved \<or> s = St_exported \<or> s = St_transferred) rs,
     sc_needsReviewCount = state_count (\<lambda>s. s = St_needs_review \<or> s = St_edited) rs,
     sc_rejectedCount = state_count (\<lambda>s. s = St_rejected) rs,
     sc_pendingSecondaryApprovalCount = state_count (\<lambda>s. s = St_pending_secondary_approval) rs \<rparr>"
  by (simp add: computeCounts_def foldl_count_entry del: count_entry.simps)

lemma gate_snapshot_ok_with_entries [simp]: "gate_snapshot_ok (with_entries lc es snap)"
  by (simp add: gate_snapshot_ok_def with_entries_def Let_def)

lemma entries_with_entries [simp]: "gs_perTestCase (with_entries lc es snap) = sort_by lc rs_testCaseId es"
  by (simp add: with_entries_def Let_def sortSnapshotEntries_def)

lemma with_entries_idem [simp]:
  "with_entries lc (sort_by lc rs_testCaseId es) (with_entries lc es snap) = with_entries lc es snap"
  by (simp add: with_entries_def Let_def sortSnapshotEntries_def)

section \<open>The invariant\<close>

definition no_approvals :: "ReviewSnapshot \<Rightarrow> bool" where
  "no_approvals r \<longleftrightarrow> rs_approvers r = [] \<and> rs_primaryReviewer r = None \<and> rs_primaryApprovalAt r = None
     \<and> rs_secondaryReviewer r = None \<and> rs_secondaryApprovalAt r = None"

definition primary_only :: "ReviewSnapshot \<Rightarrow> bool" where
  "primary_only r \<longleftrightarrow> (\<exists>p. rs_primaryReviewer r = Some p \<and> rs_primaryApprovalAt r \<noteq> None
     \<and> rs_approvers r = [p] \<and> rs_lastEditor r \<noteq> Some p
     \<and> rs_secondaryReviewer r = None \<and> rs_secondaryApprovalAt r = None)"

definition two_principals :: "ReviewSnapshot \<Rightarrow> bool" where
  "two_principals r \<longleftrightarrow> (\<exists>p s. rs_primaryReviewer r = Some p \<and> rs_secondaryReviewer r = Some s
     \<and> p \<noteq> s \<and> rs_primaryApprovalAt r \<noteq> None \<and> rs_secondaryApprovalAt r \<noteq> None
     \<and> set (rs_approvers r) = {p, s} \<and> rs_lastEditor r \<noteq> Some p \<and> rs_lastEditor r \<noteq> Some s)"

definition single_approval :: "ReviewSnapshot \<Rightarrow> bool" where
  "single_approval r \<longleftrightarrow> length (rs_approvers r) \<le> 1 \<and> rs_primaryReviewer r = None
     \<and> rs_primaryApprovalAt r = None \<and> rs_secondaryReviewer r = None \<and> rs_secondaryApprovalAt r = None"

definition principals_inv :: "ReviewSnapshot \<Rightarrow> bool" where
  "principals_inv r \<longleftrightarrow>
     (case rs_state r of
        St_pending_secondary_approval \<Rightarrow> primary_only r
      | St_rejected \<Rightarrow> no_approvals r \<or> primary_only r
      | St_approved \<Rightarrow> single_approval r \<or> two_principals r
      | St_exported \<Rightarrow> single_approval r \<or> two_principals r
      | St_transferred \<Rightarrow> single_approval r \<or> two_principals r
      | _ \<Rightarrow> no_approvals r)"

definition reasons_inv :: "ReviewSnapshot \<Rightarrow> bool" where
  "reasons_inv r \<longleftrightarrow>
     (if rs_fourEyesEnforced r
      then \<exists>rs. rs_fourEyesReasons r = Some rs \<and> rs \<noteq> [] \<and> distinct rs \<and> sorted_reasons rs = rs
      else rs_fourEyesReasons r = None)"

definition approval_logged ::
  "ReviewEvent list \<Rightarrow> ReviewEventKind \<Rightarrow> string \<Rightarrow> string \<Rightarrow> string \<Rightarrow> bool" where
  "approval_logged evs kind tcId actor ts \<longleftrightarrow>
     (\<exists>e\<in>set evs. ev_kind e = kind \<and> ev_testCaseId e = Some tcId \<and> ev_actor e = Some actor \<and> ev_at e = ts)"

definition logged_inv :: "ReviewEvent list \<Rightarrow> ReviewSnapshot \<Rightarrow> bool" where
  "logged_inv evs r \<longleftrightarrow>
     (\<forall>p ts. rs_primaryReviewer r = Some p \<longrightarrow> rs_primaryApprovalAt r = Some ts \<longrightarrow>
        approval_logged evs Ev_primary_approved (rs_testCaseId r) p ts)
     \<and> (\<forall>s ts. rs_secondaryReviewer r = Some s \<longrightarrow> rs_secondaryApprovalAt r = Some ts \<longrightarrow>
        approval_logged evs Ev_secondary_approved (rs_testCaseId r) s ts)"

definition entry_inv :: "ReviewEvent list \<Rightarrow> ReviewSnapshot \<Rightarrow> bool" where
  "entry_inv evs r \<longleftrightarrow> principals_inv r \<and> reasons_inv r \<and> logged_inv evs r"

definition log_inv :: "PersistedReviewEventsEnvelope \<Rightarrow> bool" where
  "log_inv env \<longleftrightarrow> map ev_sequence (pe_events env) = [1..<pe_nextSequence env]
     \<and> (\<forall>e\<in>set (pe_events env). ev_jobId e = pe_jobId env)"

definition job_inv ::
  "string comparator \<Rightarrow> string \<Rightarrow> PersistedReviewEventsEnvelope \<Rightarrow> ReviewGateSnapshot \<Rightarrow> bool" where
  "job_inv lc j env snap \<longleftrightarrow>
     envelope_ok env \<and> pe_jobId env = j \<and> gate_snapshot_ok snap \<and> log_inv env
     \<and> with_entries lc (gs_perTestCase snap) snap = snap
     \<and> (\<forall>r\<in>set (gs_perTestCase snap). entry_inv (pe_events env) r)"

definition store_inv :: "string comparator \<Rightarrow> review_fs \<Rightarrow> bool" where
  "store_inv lc fs \<longleftrightarrow> (\<forall>j.
     (readEnvelope j fs = Inr None \<and> readSnapshotInternal j fs = Inr None)
     \<or> (\<exists>env snap. readEnvelope j fs = Inr (Some env) \<and> readSnapshotInternal j fs = Inr (Some snap)
          \<and> job_inv lc j env snap))"

lemma store_inv_write:
  assumes "store_inv lc fs" "job_inv lc j env snap"
  shows "store_inv lc (writeSnapshot j snap (writeEvents j env fs))"
proof -
  from assms(2) have ok: "envelope_ok env \<and> pe_jobId env = j" "gate_snapshot_ok snap"
    by (simp_all add: job_inv_def)
  show ?thesis
    unfolding store_inv_def
  proof
    fix k
    from assms(1) have "(readEnvelope k fs = Inr None \<and> readSnapshotInternal k fs = Inr None)
     \<or> (\<exists>env snap. readEnvelope k fs = Inr (Some env) \<and> readSnapshotInternal k fs = Inr (Some snap)
          \<and> job_inv lc k env snap)"
      by (simp add: store_inv_def)
    with assms(2) show "(readEnvelope k (writeSnapshot j snap (writeEvents j env fs)) = Inr None
       \<and> readSnapshotInternal k (writeSnapshot j snap (writeEvents j env fs)) = Inr None)
     \<or> (\<exists>env' snap'. readEnvelope k (writeSnapshot j snap (writeEvents j env fs)) = Inr (Some env')
         \<and> readSnapshotInternal k (writeSnapshot j snap (writeEvents j env fs)) = Inr (Some snap')
         \<and> job_inv lc k env' snap')"
      by (simp add: events_file.read_write_eq [OF ok(1)] snapshot_file.read_write_eq [OF ok(2)])
  qed
qed

lemma store_inv_cases:
  assumes "store_inv lc fs"
  obtains (absent) "readEnvelope j fs = Inr None" "readSnapshotInternal j fs = Inr None"
  | (present) env snap where "readEnvelope j fs = Inr (Some env)"
      "readSnapshotInternal j fs = Inr (Some snap)" "job_inv lc j env snap"
  using assms unfolding store_inv_def by blast

section \<open>Appending to the log\<close>

lemma approval_logged_append: "approval_logged evs k i a t \<Longrightarrow> approval_logged (evs @ new) k i a t"
  by (auto simp: approval_logged_def)

lemma entry_inv_append: "entry_inv evs r \<Longrightarrow> entry_inv (evs @ new) r"
  by (auto simp: entry_inv_def logged_inv_def approval_logged_append)

lemma log_inv_append:
  assumes "log_inv env" "envelope_ok env" "ev_sequence ev = pe_nextSequence env"
    "ev_jobId ev = pe_jobId env"
  shows "log_inv (append_event ev env)"
proof -
  have "1 \<le> pe_nextSequence env" using assms(2) by (simp add: envelope_ok_def)
  with assms show ?thesis by (auto simp: log_inv_def append_event_def)
qed

lemma envelope_ok_append:
  "envelope_ok env \<Longrightarrow> event_ok ev \<Longrightarrow> envelope_ok (append_event ev env)"
  by (auto simp: envelope_ok_def append_event_def)

lemma job_inv_append:
  assumes "job_inv lc j env snap" "event_ok ev" "ev_sequence ev = pe_nextSequence env"
    "ev_jobId ev = j" "\<forall>r\<in>set es. entry_inv (pe_events env @ [ev]) r"
  shows "job_inv lc j (append_event ev env) (with_entries lc es snap)"
  using assms unfolding job_inv_def
  by (auto simp: envelope_ok_append log_inv_append) (simp_all add: append_event_def)

section \<open>Effects of one transition\<close>

lemma clear_approvals_simps [simp]:
  "no_approvals (clear_approvals r)" "rs_state (clear_approvals r) = rs_state r"
  "rs_fourEyesEnforced (clear_approvals r) = rs_fourEyesEnforced r"
  "rs_fourEyesReasons (clear_approvals r) = rs_fourEyesReasons r"
  "rs_testCaseId (clear_approvals r) = rs_testCaseId r"
  "rs_primaryReviewer (clear_approvals r) = None" "rs_secondaryReviewer (clear_approvals r) = None"
  by (simp_all add: clear_approvals_def no_approvals_def)

lemma applyEntryEffects_frame [simp]:
  "rs_testCaseId (applyEntryEffects e st i t a k) = rs_testCaseId e"
  "rs_state (applyEntryEffects e st i t a k) = st"
  "rs_fourEyesEnforced (applyEntryEffects e st i t a k) = rs_fourEyesEnforced e"
  "rs_fourEyesReasons (applyEntryEffects e st i t a k) = rs_fourEyesReasons e"
  by (simp_all add: applyEntryEffects_def Let_def)

lemma reasons_inv_effects [simp]: "reasons_inv (applyEntryEffects e st i t a k) = reasons_inv e"
  by (simp add: reasons_inv_def)

lemma js_sort_singleton [simp]: "js_sort [x] = [x]"
  by (simp add: js_sort_def)

text \<open>What the four-eyes refusals let through.\<close>

lemma primary_refusals_None:
  assumes "applyFourEyesRefusals a Ev_primary_approved (Some e) = None"
  obtains x where "a = Some x" "x \<noteq> []" "rs_fourEyesEnforced e" "rs_lastEditor e \<noteq> Some x"
    "x \<notin> set (rs_approvers e)"
  using assms by (cases a) (auto simp: applyFourEyesRefusals_def split: if_splits)

lemma secondary_refusals_None:
  assumes "applyFourEyesRefusals a Ev_secondary_approved (Some e) = None"
  obtains x where "a = Some x" "x \<noteq> []" "rs_fourEyesEnforced e" "rs_lastEditor e \<noteq> Some x"
    "x \<notin> set (rs_approvers e)" "rs_primaryReviewer e \<noteq> Some x"
    "rs_state e = St_pending_secondary_approval"
  using assms by (cases a) (auto simp: applyFourEyesRefusals_def split: if_splits)

lemma effects_edited: "no_approvals (applyEntryEffects e st i t a Ev_edited)"
  by (simp add: applyEntryEffects_def Let_def)

lemma effects_review_started:
  "no_approvals (applyEntryEffects e st i t a Ev_review_started) \<longleftrightarrow>
     rs_state e \<in> {St_approved, St_pending_secondary_approval, St_edited} \<or> no_approvals e"
  by (auto simp: applyEntryEffects_def Let_def no_approvals_def clear_approvals_def split: option.splits)

lemma effects_neutral:
  assumes "k = Ev_generated \<or> k = Ev_rejected \<or> k = Ev_exported \<or> k = Ev_transferred"
  shows "no_approvals (applyEntryEffects e st i t a k) = no_approvals e"
    "primary_only (applyEntryEffects e st i t a k) = primary_only e"
    "single_approval (applyEntryEffects e st i t a k) = single_approval e"
    "two_principals (applyEntryEffects e st i t a k) = two_principals e"
  using assms
  by (auto simp: applyEntryEffects_def Let_def no_approvals_def primary_only_def single_approval_def
      two_principals_def split: option.splits)

lemma effects_approved:
  "no_approvals e \<Longrightarrow> single_approval (applyEntryEffects e st i t a Ev_approved)"
  by (auto simp: applyEntryEffects_def Let_def no_approvals_def single_approval_def split: option.splits)

lemma effects_primary:
  assumes "no_approvals e" "applyFourEyesRefusals a Ev_primary_approved (Some e) = None"
  shows "primary_only (applyEntryEffects e st i t a Ev_primary_approved)"
  using assms(2)
  by (rule primary_refusals_None)
    (use assms(1) in \<open>auto simp: applyEntryEffects_def Let_def no_approvals_def primary_only_def\<close>)

lemma effects_secondary:
  assumes "primary_only e" "applyFourEyesRefusals a Ev_secondary_approved (Some e) = None"
  shows "two_principals (applyEntryEffects e st i t a Ev_secondary_approved)"
  using assms(2)
  by (rule secondary_refusals_None)
    (use assms(1) in \<open>auto simp: applyEntryEffects_def Let_def primary_only_def two_principals_def\<close>)

lemmas effects_simps = effects_edited effects_review_started effects_neutral effects_approved
  effects_primary effects_secondary

lemma effects_principals:
  assumes "principals_inv e" "applyFourEyesRefusals a k (Some e) = None"
    "TRANSITIONS k (rs_state e) = Some st" "k \<noteq> Ev_note"
  shows "principals_inv (applyEntryEffects e st i t a k)"
  using assms
  by (cases k; cases "rs_state e") (simp_all add: principals_inv_def effects_simps)

lemma effects_logged:
  assumes "logged_inv evs e" "ev_kind ev = k" "ev_testCaseId ev = Some (rs_testCaseId e)"
    "ev_actor ev = a" "ev_at ev = t"
  shows "logged_inv (evs @ [ev]) (applyEntryEffects e st i t a k)"
  using assms
  by (auto simp: logged_inv_def applyEntryEffects_def Let_def approval_logged_def split: if_splits)

text \<open>The approval predicates only look at the approval fields.\<close>

lemma approval_frame [simp]:
  "no_approvals (r\<lparr>rs_state := x0\<rparr>) = no_approvals r"
  "no_approvals (r\<lparr>rs_lastEventId := x1\<rparr>) = no_approvals r"
  "no_approvals (r\<lparr>rs_lastEventAt := x2\<rparr>) = no_approvals r"
  "no_approvals (r\<lparr>rs_policyDecision := x3\<rparr>) = no_approvals r"
  "no_approvals (r\<lparr>rs_fourEyesEnforced := x4\<rparr>) = no_approvals r"
  "no_approvals (r\<lparr>rs_fourEyesReasons := x5\<rparr>) = no_approvals r"
  "primary_only (r\<lparr>rs_state := x0\<rparr>) = primary_only r"
  "primary_only (r\<lparr>rs_lastEventId := x1\<rparr>) = primary_only r"
  "primary_only (r\<lparr>rs_lastEventAt := x2\<rparr>) = primary_only r"
  "primary_only (r\<lparr>rs_policyDecision := x3\<rparr>) = primary_only r"
  "primary_only (r\<lparr>rs_fourEyesEnforced := x4\<rparr>) = primary_only r"
  "primary_only (r\<lparr>rs_fourEyesReasons := x5\<rparr>) = primary_only r"
  "single_approval (r\<lparr>rs_state := x0\<rparr>) = single_approval r"
  "single_approval (r\<lparr>rs_lastEventId := x1\<rparr>) = single_approval r"
  "single_approval (r\<lparr>rs_lastEventAt := x2\<rparr>) = single_approval r"
  "single_approval (r\<lparr>rs_policyDecision := x3\<rparr>) = single_approval r"
  "single_approval (r\<lparr>rs_fourEyesEnforced := x4\<rparr>) = single_approval r"
  "single_approval (r\<lparr>rs_fourEyesReasons := x5\<rparr>) = single_approval r"
  "two_principals (r\<lparr>rs_state := x0\<rparr>) = two_principals r"
  "two_principals (r\<lparr>rs_lastEventId := x1\<rparr>) = two_principals r"
  "two_principals (r\<lparr>rs_lastEventAt := x2\<rparr>) = two_principals r"
  "two_principals (r\<lparr>rs_policyDecision := x3\<rparr>) = two_principals r"
  "two_principals (r\<lparr>rs_fourEyesEnforced := x4\<rparr>) = two_principals r"
  "two_principals (r\<lparr>rs_fourEyesReasons := x5\<rparr>) = two_principals r"
  by (simp_all add: no_approvals_def primary_only_def single_approval_def two_principals_def)

lemma touch_entry_inv [simp]: "entry_inv evs (touch_entry i t e) = entry_inv evs e"
  by (cases "rs_state e") (simp_all add: entry_inv_def touch_entry_def principals_inv_def reasons_inv_def logged_inv_def)

lemma replace_entry_inv:
  assumes "\<forall>r\<in>set es. entry_inv evs r" "entry_inv evs u"
  shows "\<forall>r\<in>set (replace_entry u es). entry_inv evs r"
  using assms by (auto simp: replace_entry_def)

lemma find_entry_Some:
  assumes "find_entry k tcId es = Inr (Some e)"
  shows "e \<in> set es" "tcId = Some (rs_testCaseId e)"
  using assms by (auto simp: find_entry_def find_Some_iff split: option.splits if_splits)

lemma decide_transition_inv:
  assumes "decide_transition eid input kind sq es = Inr (ev, es')"
    "\<forall>r\<in>set es. entry_inv evs r"
  shows "\<forall>r\<in>set es'. entry_inv (evs @ [ev]) r"
proof -
  from assms(1) obtain entry where entry: "find_entry kind (ti_testCaseId input) es = Inr entry"
    by (auto simp: decide_transition_def split: sum.splits)
  have old: "\<forall>r\<in>set es. entry_inv (evs @ [ev]) r"
    using assms(2) entry_inv_append by blast
  show ?thesis
  proof (cases entry)
    case None
    with assms(1) entry old show ?thesis
      by (auto simp: decide_transition_def Let_def split: sum.splits option.splits)
  next
    case (Some e)
    let ?k = "resolveEventKind kind (Some e)"
    from find_entry_Some [of kind "ti_testCaseId input" es e] entry Some
    have e: "e \<in> set es" "ti_testCaseId input = Some (rs_testCaseId e)" by simp_all
    from assms(1) entry Some obtain st where st:
        "applyFourEyesRefusals (ti_actor input) ?k (Some e) = None"
        "TRANSITIONS ?k (rs_state e) = Some st"
        "ev = build_event input eid ?k (rs_state e) st sq"
        "es' = replace_entry (if ?k \<noteq> Ev_note
            then applyEntryEffects e st eid (ti_at input) (ti_actor input) ?k
            else touch_entry eid (ti_at input) e) es"
      by (auto simp: decide_transition_def Let_def transition_Inr_iff split: sum.splits option.splits)
    have "entry_inv (evs @ [ev]) (applyEntryEffects e st eid (ti_at input) (ti_actor input) ?k)"
      if "?k \<noteq> Ev_note"
      unfolding entry_inv_def
    proof (intro conjI)
      have inv: "principals_inv e" "reasons_inv e" "logged_inv evs e"
        using assms(2) e(1) by (auto simp: entry_inv_def)
      show "principals_inv (applyEntryEffects e st eid (ti_at input) (ti_actor input) ?k)"
        using effects_principals [OF inv(1) st(1,2) that] .
      show "reasons_inv (applyEntryEffects e st eid (ti_at input) (ti_actor input) ?k)"
        using inv(2) by simp
      show "logged_inv (evs @ [ev]) (applyEntryEffects e st eid (ti_at input) (ti_actor input) ?k)"
        by (rule effects_logged [OF inv(3)]) (simp_all add: st(3) build_event_def e(2))
    qed
    with old e(1) show ?thesis unfolding st(4)
      by (intro replace_entry_inv) auto
  qed
qed

end
