(* ===== verification/ReviewStoreRuns.thy ===== *)
theory ReviewStoreRuns
  imports ReviewStoreInv
begin

text \<open>
  Every operation of the review store keeps its invariant, so every store that a sequence of
  operations builds from nothing satisfies it. The properties of the store are read off it: no
  operation can fail on a store the module itself wrote, the log is gap-free and append-only,
  refusals write nothing, and an approval that four-eyes review gated has two distinct principals
  in the log.
\<close>

section \<open>Seeding and refreshing keep the invariant\<close>

lemma sorted_reasons_idem [simp]: "sorted_reasons (sorted_reasons rs) = sorted_reasons rs"
  by (simp add: sorted_reasons_def sort_key_id_if_sorted)

lemma distinct_seed_reasons [simp]: "distinct (seed_reasons input policy tc)"
  by (simp add: seed_reasons_def Let_def distinct_evaluate split: option.splits)

lemma sorted_seed_reasons [simp]:
  "sorted_reasons (seed_reasons input policy tc) = seed_reasons input policy tc"
  by (simp add: seed_reasons_def Let_def)

lemma seed_entry_inv: "entry_inv evs (seed_entry input policy i tc)"
  by (simp add: entry_inv_def seed_entry_def Let_def principals_inv_def reasons_inv_def logged_inv_def
      seedReviewStateFromPolicy_def no_approvals_def single_approval_def)

lemma refreshed_entry_inv: "entry_inv evs e \<Longrightarrow> entry_inv evs (refreshed_entry policy d e)"
  by (cases "rs_state e")
    (simp_all add: entry_inv_def refreshed_entry_def Let_def principals_inv_def reasons_inv_def
      logged_inv_def distinct_removeAll)

lemma settle_entry_inv: "entry_inv evs e \<Longrightarrow> entry_inv evs (settle_entry i t e)"
  by (auto simp: settle_entry_def Let_def entry_inv_def touch_entry_def principals_inv_def
      reasons_inv_def logged_inv_def split: ReviewState.splits)

lemma changed_entries_inv:
  assumes "\<forall>r\<in>set es. entry_inv evs r"
  shows "\<forall>r\<in>set (changed_entries policy ds es). entry_inv evs r"
  using assms refreshed_entry_inv
  by (fastforce simp: changed_entries_def Let_def split: option.splits if_splits)

lemma settle_entries_inv:
  assumes "\<forall>r\<in>set es. entry_inv evs r" "\<forall>r\<in>set changed. entry_inv evs r"
  shows "\<forall>r\<in>set (settle_entries i t changed es). entry_inv evs r"
proof
  fix r assume "r \<in> set (settle_entries i t changed es)"
  then obtain e where e: "e \<in> set es"
    "r = (case map_of (rev (map (\<lambda>e. (rs_testCaseId e, e)) changed)) (rs_testCaseId e) of
            None \<Rightarrow> e | Some c \<Rightarrow> settle_entry i t c)"
    by (auto simp: settle_entries_def)
  then show "entry_inv evs r"
    using assms by (auto split: option.splits dest!: map_of_SomeD intro: settle_entry_inv)
qed

lemma seed_job_inv:
  "job_inv lc (si_jobId input)
    \<lparr> pe_jobId = si_jobId input,
      pe_events = map (\<lambda>(i, tc). seed_event input policy (uuid i) (Suc i) tc) (enumerate 0 cases),
      pe_nextSequence = Suc (length cases) \<rparr>
    (with_entries lc (map (\<lambda>(i, tc). seed_entry input policy (uuid i) tc) (enumerate 0 cases)) g)"
proof -
  have seqs: "map (\<lambda>(i, tc). Suc i) (enumerate 0 cases) = [1..<Suc (length cases)]"
    by (rule nth_equalityI) (simp_all add: nth_enumerate_eq del: upt_Suc)
  have "map ev_sequence (map (\<lambda>(i, tc). seed_event input policy (uuid i) (Suc i) tc)
      (enumerate 0 cases)) = map (\<lambda>(i, tc). Suc i) (enumerate 0 cases)"
    by (simp add: seed_event_def Let_def split_def comp_def)
  then show ?thesis
    by (auto simp: job_inv_def log_inv_def envelope_ok_def event_ok_def seqs seed_event_def Let_def
        meta_norm_def seed_entry_inv simp del: upt_Suc)
qed

lemma seedSnapshot_inv:
  assumes "store_inv lc fs" "seedSnapshot lc uuid conflicts decisions input fs = Inr (snap, fs')"
  shows "store_inv lc fs'"
proof (rule store_inv_cases [OF assms(1), of "si_jobId input"], goal_cases)
  case 1
  then show ?thesis
    using assms(2) store_inv_write [OF assms(1) seed_job_inv]
    by (auto simp: seedSnapshot_def Let_def)
next
  case (2 env snap')
  then show ?thesis using assms by (simp add: seedSnapshot_def)
qed

lemma decide_transition_event:
  assumes "decide_transition eid input kind sq es = Inr (ev, es')"
  obtains k f to where "ev = build_event input eid k f to sq"
  using assms
  by (auto simp: decide_transition_def Let_def split: sum.splits option.splits)

lemma event_ok_build [simp]: "event_ok (build_event input eid k f to sq) \<longleftrightarrow> 1 \<le> sq"
  by (auto simp: event_ok_def build_event_def)

lemma event_ok_refresh [simp]: "event_ok (refresh_event input eid policy n sq) \<longleftrightarrow> 1 \<le> sq"
  by (auto simp: event_ok_def refresh_event_def)

section \<open>Outcomes of the operations on a well-formed store\<close>

text \<open>
  On a store that satisfies the invariant a transition is either refused, and nothing is written,
  or accepted, and the job's two files hold the extended log and the new snapshot.
\<close>

lemma recordTransition_cases:
  assumes "store_inv lc fs"
  obtains (refused) code where "recordTransition lc eid input fs = Inr (Inl code, fs)"
  | (accepted) kind env snap ev es where
      "kind_of_str (ti_kind input) = Some kind"
      "readEnvelope (ti_jobId input) fs = Inr (Some env)"
      "readSnapshotInternal (ti_jobId input) fs = Inr (Some snap)"
      "job_inv lc (ti_jobId input) env snap"
      "decide_transition eid input kind (pe_nextSequence env) (gs_perTestCase snap) = Inr (ev, es)"
      "job_inv lc (ti_jobId input) (append_event ev env) (with_entries lc es snap)"
      "recordTransition lc eid input fs = Inr (Inr (ev, with_entries lc es snap),
         writeSnapshot (ti_jobId input) (with_entries lc es snap)
           (writeEvents (ti_jobId input) (append_event ev env) fs))"
proof (rule store_inv_cases [OF assms, of "ti_jobId input"], goal_cases)
  case 1
  then have "\<exists>code. recordTransition lc eid input fs = Inr (Inl code, fs)"
    by (auto simp: recordTransition_def split: option.splits)
  then show ?thesis using refused by blast
next
  case (2 env snap)
  show ?thesis
  proof (cases "\<exists>code. recordTransition lc eid input fs = Inr (Inl code, fs)")
    case True
    then show ?thesis using refused by blast
  next
    case False
    with 2 obtain kind ev es where dec: "kind_of_str (ti_kind input) = Some kind"
        "decide_transition eid input kind (pe_nextSequence env) (gs_perTestCase snap) = Inr (ev, es)"
        "recordTransition lc eid input fs = Inr (Inr (ev, with_entries lc es snap),
           writeSnapshot (ti_jobId input) (with_entries lc es snap)
             (writeEvents (ti_jobId input) (append_event ev env) fs))"
      by (auto simp: recordTransition_def Let_def split: option.splits sum.splits if_splits)
    have "event_ok ev \<and> ev_sequence ev = pe_nextSequence env \<and> ev_jobId ev = ti_jobId input"
      using 2(5) by (rule_tac decide_transition_event [OF dec(2)])
        (auto simp: job_inv_def envelope_ok_def, auto simp: build_event_def)
    moreover have "\<forall>r\<in>set es. entry_inv (pe_events env @ [ev]) r"
      by (rule decide_transition_inv [OF dec(2)]) (use 2(5) in \<open>simp add: job_inv_def\<close>)
    ultimately have "job_inv lc (ti_jobId input) (append_event ev env) (with_entries lc es snap)"
      using job_inv_append [OF 2(5)] by blast
    then show ?thesis using accepted 2 dec by blast
  qed
qed

lemma refreshPolicyDecisions_cases:
  assumes "store_inv lc fs"
  obtains (kept) res where "refreshPolicyDecisions lc eid conflicts decisions input fs = Inr (res, fs)"
  | (written) env snap ev es n where
      "readEnvelope (ri_jobId input) fs = Inr (Some env)"
      "job_inv lc (ri_jobId input) (append_event ev env) (with_entries lc es snap)"
      "refreshPolicyDecisions lc eid conflicts decisions input fs =
         Inr (Inr (with_entries lc es snap, n, Some ev),
         writeSnapshot (ri_jobId input) (with_entries lc es snap)
           (writeEvents (ri_jobId input) (append_event ev env) fs))"
proof (rule store_inv_cases [OF assms, of "ri_jobId input"], goal_cases)
  case 1
  then show ?thesis by (intro kept [of "Inl Refresh_snapshot_missing"]) (simp add: refreshPolicyDecisions_def)
next
  case (2 env snap)
  show ?thesis
  proof (cases "\<exists>res. refreshPolicyDecisions lc eid conflicts decisions input fs = Inr (res, fs)")
    case True
    then show ?thesis using kept by blast
  next
    case False
    let ?policy = "readConflictAwarePolicy conflicts decisions (ri_policy input)"
    from False 2 obtain ds where ds:
        "refreshPolicyDecisions lc eid conflicts decisions input fs =
          (let changed = changed_entries ?policy ds (gs_perTestCase snap);
               ev = refresh_event input eid ?policy (length changed) (pe_nextSequence env);
               next = with_entries lc (settle_entries eid (ri_at input) changed (gs_perTestCase snap)) snap
           in Inr (Inr (next, length changed, Some ev),
                writeSnapshot (ri_jobId input) next
                  (writeEvents (ri_jobId input) (append_event ev env) fs)))"
      by (auto simp: refreshPolicyDecisions_def Let_def split: option.splits if_splits)
    let ?changed = "changed_entries ?policy ds (gs_perTestCase snap)"
    let ?ev = "refresh_event input eid ?policy (length ?changed) (pe_nextSequence env)"
    have inv: "\<forall>r\<in>set (gs_perTestCase snap). entry_inv (pe_events env @ [?ev]) r"
      using 2(5) entry_inv_append by (auto simp: job_inv_def)
    have "job_inv lc (ri_jobId input) (append_event ?ev env)
        (with_entries lc (settle_entries eid (ri_at input) ?changed (gs_perTestCase snap)) snap)"
      by (rule job_inv_append [OF 2(5)])
        (use 2(5) settle_entries_inv [OF inv changed_entries_inv [OF inv]] in
          \<open>auto simp: job_inv_def envelope_ok_def, auto simp: refresh_event_def\<close>)
    then show ?thesis using written 2 ds by (simp add: Let_def)
  qed
qed

section \<open>The store as a machine\<close>

text \<open>
  The operations that change files, with everything they take from outside: the identifiers they
  draw, the conflict report and the conflict decisions found on disk, and the caller's input. An
  operation that raises leaves the files as they are.
\<close>

datatype store_op =
    Op_seed "nat \<Rightarrow> string" "MultiSourceConflict list option"
      "string \<rightharpoonup> InspectorConflictDecisionSnapshot" SeedSnapshotInput
  | Op_record string RecordTransitionInput
  | Op_refresh string "MultiSourceConflict list option"
      "string \<rightharpoonup> InspectorConflictDecisionSnapshot" RefreshPolicyDecisionsInput

definition files_after :: "review_fs \<Rightarrow> store_error + ('r \<times> review_fs) \<Rightarrow> review_fs" where
  "files_after fs res = (case res of Inl _ \<Rightarrow> fs | Inr (_, fs') \<Rightarrow> fs')"

fun store_step :: "string comparator \<Rightarrow> review_fs \<Rightarrow> store_op \<Rightarrow> review_fs" where
  "store_step lc fs (Op_seed uuid conflicts decisions input) =
     files_after fs (seedSnapshot lc uuid conflicts decisions input fs)"
| "store_step lc fs (Op_record eid input) = files_after fs (recordTransition lc eid input fs)"
| "store_step lc fs (Op_refresh eid conflicts decisions input) =
     files_after fs (refreshPolicyDecisions lc eid conflicts decisions input fs)"

definition empty_fs :: review_fs where
  "empty_fs = \<lparr> eventsFile = (\<lambda>_. None), snapshotFile = (\<lambda>_. None) \<rparr>"

abbreviation store_run :: "string comparator \<Rightarrow> store_op list \<Rightarrow> review_fs" where
  "store_run lc ops \<equiv> foldl (store_step lc) empty_fs ops"

lemma store_inv_empty: "store_inv lc empty_fs"
  by (simp add: store_inv_def empty_fs_def readEnvelope_def readSnapshotInternal_def)

lemma files_after_simps [simp]:
  "files_after fs (Inl e) = fs" "files_after fs (Inr (r, fs')) = fs'"
  by (simp_all add: files_after_def)

lemma seedSnapshot_total:
  assumes "store_inv lc fs"
  shows "\<exists>snap fs'. seedSnapshot lc uuid conflicts decisions input fs = Inr (snap, fs')"
  by (rule store_inv_cases [OF assms, of "si_jobId input"]) (auto simp: seedSnapshot_def Let_def)

lemma store_step_inv: "store_inv lc fs \<Longrightarrow> store_inv lc (store_step lc fs op)"
proof (cases op, goal_cases)
  case (1 uuid conflicts decisions input)
  with seedSnapshot_total [OF 1(1), of uuid conflicts decisions input] seedSnapshot_inv
  show ?case by fastforce
next
  case (2 eid input)
  show ?case
    by (rule recordTransition_cases [OF 2(1), of eid input])
      (use 2 in \<open>auto intro: store_inv_write\<close>)
next
  case (3 eid conflicts decisions input)
  show ?case
    by (rule refreshPolicyDecisions_cases [OF 3(1), of eid conflicts decisions input])
      (use 3 in \<open>auto intro: store_inv_write\<close>)
qed

text \<open>\<open>log_extends j fs fs'\<close>: the log of job \<open>j\<close> in \<open>fs'\<close> continues the one in \<open>fs\<close>.\<close>

definition log_extends :: "string \<Rightarrow> review_fs \<Rightarrow> review_fs \<Rightarrow> bool" where
  "log_extends j fs fs' \<longleftrightarrow>
     (\<exists>evs new. listEvents j fs = Inr evs \<and> listEvents j fs' = Inr (evs @ new))"

lemma listEvents_write:
  assumes "job_inv lc k env snap"
  shows "listEvents j (writeSnapshot k snap (writeEvents k env fs)) =
    (if j = k then Inr (pe_events env) else listEvents j fs)"
proof -
  have "envelope_ok env \<and> pe_jobId env = k" using assms by (simp add: job_inv_def)
  then show ?thesis by (simp add: listEvents_def events_file.read_write_eq)
qed

lemma listEvents_inv: "store_inv lc fs \<Longrightarrow> \<exists>evs. listEvents j fs = Inr evs"
  by (erule store_inv_cases [of _ _ j]) (auto simp: listEvents_def)

lemma log_extends_refl: "store_inv lc fs \<Longrightarrow> log_extends j fs fs"
  by (drule listEvents_inv [of _ _ j]) (auto simp: log_extends_def)

lemma log_extends_write:
  assumes "store_inv lc fs" "job_inv lc k env snap"
    "listEvents k fs = Inr old" "pe_events env = old @ new"
  shows "log_extends j fs (writeSnapshot k snap (writeEvents k env fs))"
  using listEvents_inv [OF assms(1), of j] assms(3,4)
  by (auto simp: log_extends_def listEvents_write [OF assms(2)])

lemma log_extends_append:
  assumes "store_inv lc fs" "readEnvelope k fs = Inr (Some env)"
    "job_inv lc k (append_event ev env) snap"
  shows "log_extends j fs (writeSnapshot k snap (writeEvents k (append_event ev env) fs))"
  by (rule log_extends_write [OF assms(1,3), of "pe_events env" "[ev]"])
    (simp_all add: listEvents_def assms(2) append_event_def)

lemma seedSnapshot_log_extends:
  assumes "store_inv lc fs" "seedSnapshot lc uuid conflicts decisions input fs = Inr (snap, fs')"
  shows "log_extends j fs fs'"
proof (rule store_inv_cases [OF assms(1), of "si_jobId input"], goal_cases)
  case 1
  then have "listEvents (si_jobId input) fs = Inr []" by (simp add: listEvents_def)
  from log_extends_write [OF assms(1) seed_job_inv this] show ?thesis
    using assms(2) 1 by (auto simp: seedSnapshot_def Let_def)
next
  case (2 env snap')
  then show ?thesis using assms by (auto simp: seedSnapshot_def intro: log_extends_refl)
qed

lemma store_step_log_extends:
  assumes "store_inv lc fs" shows "log_extends j fs (store_step lc fs op)"
proof (cases op)
  case (Op_seed uuid conflicts decisions input)
  with seedSnapshot_total [OF assms, of uuid conflicts decisions input]
    seedSnapshot_log_extends [OF assms] show ?thesis by fastforce
next
  case (Op_record eid input)
  show ?thesis
    by (rule recordTransition_cases [OF assms, of eid input])
      (use Op_record assms in \<open>auto intro: log_extends_append log_extends_refl\<close>)
next
  case (Op_refresh eid conflicts decisions input)
  show ?thesis
    by (rule refreshPolicyDecisions_cases [OF assms, of eid conflicts decisions input])
      (use Op_refresh assms in \<open>auto intro: log_extends_append log_extends_refl\<close>)
qed

interpretation store: monotone_machine "store_step lc" "store_inv lc" "log_extends j" for lc j
proof unfold_locales
  show "log_extends j s u" if "log_extends j s t" "log_extends j t u" for s t u
    using that by (auto simp: log_extends_def)
qed (simp_all add: store_step_inv log_extends_refl store_step_log_extends)

lemma store_run_inv: "store_inv lc (store_run lc ops)"
  by (rule store.run_inv) (rule store_inv_empty)

lemma readSnapshot_write:
  assumes "job_inv lc k env snap"
  shows "readSnapshot j (writeSnapshot k snap fs) = (if j = k then Inr (Some snap) else readSnapshot j fs)"
  using assms by (simp add: readSnapshot_def job_inv_def snapshot_file.read_write_eq)

lemma readSnapshot_events_written [simp]: "readSnapshot j (writeEvents k env fs) = readSnapshot j fs"
  by (simp add: readSnapshot_def)

section \<open>A concrete run\<close>

text \<open>
  One job with one high-risk case under four-eyes review, approved first by one reviewer and then by
  another; the comparator that identifies all strings is a legal collation.
\<close>

definition sample_policy :: TestCasePolicyReport where
  "sample_policy = \<lparr> pr_generatedAt = ''t0'', pr_jobId = ''job'', pr_policyProfileId = ''p'',
     pr_policyProfileVersion = ''1'', pr_totalTestCases = 1, pr_approvedCount = 0, pr_blockedCount = 0,
     pr_needsReviewCount = 1, pr_blocked = False,
     pr_decisions = [\<lparr> pd_testCaseId = ''tc'', pd_decision = ''needs_review'', pd_violations = [] \<rparr>],
     pr_jobLevelViolations = [], pr_faithfulnessEvaluation = None \<rparr>"

definition sample_seed :: SeedSnapshotInput where
  "sample_seed = \<lparr> si_jobId = ''job'', si_generatedAt = ''t0'',
     si_testCases = [sample_case],
     si_policy = sample_policy,
     si_fourEyesPolicy = Some \<lparr> requiredRiskCategories = [''high''], visualSidecarTriggerOutcomes = [] \<rparr>,
     si_visualReport = None \<rparr>"

definition sample_approval :: "string \<Rightarrow> string \<Rightarrow> RecordTransitionInput" where
  "sample_approval actor ts = \<lparr> ti_jobId = ''job'', ti_testCaseId = Some ''tc'', ti_kind = ''approved'',
     ti_at = ts, ti_actor = Some actor, ti_note = None, ti_metadata = None \<rparr>"

definition sample_ops :: "store_op list" where
  "sample_ops = [Op_seed (\<lambda>i. ''e0'') None (\<lambda>_. None) sample_seed,
     Op_record ''e1'' (sample_approval ''alice'' ''t1'')]"

lemma sample_run_accepts:
  "case recordTransition flat ''e2'' (sample_approval ''bob'' ''t2'') (store_run flat sample_ops) of
     Inr (Inr (ev, snap), fs') \<Rightarrow> ev_toState ev = Some St_approved \<and> ev_fromState ev \<noteq> Some St_approved
       \<and> ev_testCaseId ev = Some ''tc'' \<and> map rs_testCaseId (gs_perTestCase snap) = [''tc'']
       \<and> map rs_fourEyesEnforced (gs_perTestCase snap) = [True]
   | _ \<Rightarrow> False"
  by code_simp

section \<open>Properties\<close>

text \<open>
  C24: No operation of the review store raises on files the store itself wrote: after any sequence of
  operations, in any order and on any jobs, reading the log, reading the snapshot, seeding, recording
  a transition and refreshing the policy decisions all return.
\<close>

theorem store_operations_never_raise:
  fixes lc ops
  shows "(\<exists>evs. listEvents j (store_run lc ops) = Inr evs)
     \<and> (\<exists>snap. readSnapshot j (store_run lc ops) = Inr snap)
     \<and> (\<exists>res. seedSnapshot lc uuid conflicts decisions seed_input (store_run lc ops) = Inr res)
     \<and> (\<exists>res. recordTransition lc eid input (store_run lc ops) = Inr res)
     \<and> (\<exists>res. refreshPolicyDecisions lc eid conflicts decisions refresh_input (store_run lc ops) = Inr res)"
proof -
  have inv: "store_inv lc (store_run lc ops)" by (rule store_run_inv)
  have "\<exists>snap. readSnapshot j (store_run lc ops) = Inr snap"
    by (rule store_inv_cases [OF inv, of j]) (auto simp: readSnapshot_def)
  moreover have "\<exists>res. recordTransition lc eid input (store_run lc ops) = Inr res"
    by (rule recordTransition_cases [OF inv]) blast+
  moreover have
    "\<exists>res. refreshPolicyDecisions lc eid conflicts decisions refresh_input (store_run lc ops) = Inr res"
    by (rule refreshPolicyDecisions_cases [OF inv]) blast+
  ultimately show ?thesis
    using listEvents_inv [OF inv] seedSnapshot_total [OF inv] by blast
qed

text \<open>
  C25: The event log of a job is gap-free and append-only: at every moment the sequence numbers of the
  listed events are 1, 2, 3, ... without a hole, every event carries the job's identifier, and whatever
  operations run later (on this job or on others) only append to it.
\<close>

theorem event_log_gap_free_append_only:
  "\<exists>evs new. listEvents j (store_run lc ops) = Inr evs
     \<and> map ev_sequence evs = [1..<Suc (length evs)]
     \<and> list_all (\<lambda>e. ev_jobId e = j) evs
     \<and> listEvents j (store_run lc (ops @ later)) = Inr (evs @ new)"
proof -
  have inv: "store_inv lc (store_run lc ops)" by (rule store_run_inv)
  obtain evs new where ev: "listEvents j (store_run lc ops) = Inr evs"
      "listEvents j (store_run lc (ops @ later)) = Inr (evs @ new)"
    using store.run_extends [OF inv, of j later] by (auto simp: log_extends_def)
  have "map ev_sequence evs = [1..<Suc (length evs)] \<and> (\<forall>e\<in>set evs. ev_jobId e = j)"
  proof (rule store_inv_cases [OF inv, of j], goal_cases)
    case 1 with ev show ?case by (simp add: listEvents_def)
  next
    case (2 env snap)
    with ev have "evs = pe_events env" by (simp add: listEvents_def)
    with 2 have *: "map ev_sequence evs = [1..<pe_nextSequence env]" "1 \<le> pe_nextSequence env"
        "\<forall>e\<in>set evs. ev_jobId e = j"
      by (auto simp: job_inv_def log_inv_def envelope_ok_def)
    from *(1,2) have "pe_nextSequence env = Suc (length evs)"
      by (metis length_map length_upt le_add_diff_inverse plus_1_eq_Suc)
    with * show ?case by simp
  qed
  with ev show ?thesis by (auto simp: list_all_iff)
qed

text \<open>
  The counters of the review gate are never stale: in every snapshot read from the store the
  approved, needs-review, rejected and pending-secondary counts are the numbers of stored entries in
  those states, and the entries are in the canonical order.
\<close>

theorem snapshot_counts_agree:
  "(case readSnapshot j (store_run lc ops) of
      Inr (Some snap) \<Rightarrow>
        gs_approvedCount snap = of_nat (length (filter
          (\<lambda>r. rs_state r \<in> {St_approved, St_exported, St_transferred}) (gs_perTestCase snap)))
        \<and> gs_needsReviewCount snap = of_nat (length (filter
          (\<lambda>r. rs_state r \<in> {St_needs_review, St_edited}) (gs_perTestCase snap)))
        \<and> gs_rejectedCount snap = of_nat (length (filter
          (\<lambda>r. rs_state r = St_rejected) (gs_perTestCase snap)))
        \<and> gs_pendingSecondaryApprovalCount snap = Some (of_nat (length (filter
          (\<lambda>r. rs_state r = St_pending_secondary_approval) (gs_perTestCase snap))))
        \<and> sortSnapshotEntries lc (gs_perTestCase snap) = gs_perTestCase snap
    | Inr None \<Rightarrow> True
    | Inl _ \<Rightarrow> False)"
proof (rule store_inv_cases [OF store_run_inv [of lc ops], of j], goal_cases)
  case 1 then show ?case by (simp add: readSnapshot_def)
next
  case (2 env snap)
  from 2(3) have eq: "with_entries lc (gs_perTestCase snap) snap = snap" by (simp add: job_inv_def)
  have srt: "sort_by lc rs_testCaseId (gs_perTestCase snap) = gs_perTestCase snap"
    using arg_cong [OF eq, of gs_perTestCase] by simp
  show ?case
    using 2(2) arg_cong [OF eq, of gs_approvedCount] arg_cong [OF eq, of gs_needsReviewCount]
      arg_cong [OF eq, of gs_rejectedCount] arg_cong [OF eq, of gs_pendingSecondaryApprovalCount]
    by (simp add: readSnapshot_def with_entries_def sortSnapshotEntries_def Let_def computeCounts_eq srt)
qed

text \<open>What is known of the entry that a recorded event moved into \<open>approved\<close>.\<close>

lemma enforced_approval_is_secondary:
  assumes "applyFourEyesRefusals a k (Some e) = None" "k = resolveEventKind kind (Some e)"
    "TRANSITIONS k (rs_state e) = Some St_approved" "rs_state e \<noteq> St_approved" "rs_fourEyesEnforced e"
  shows "k = Ev_secondary_approved" "rs_state e = St_pending_secondary_approval"
proof -
  from assms(2-5) have "k \<noteq> Ev_approved"
    by (cases "rs_state e") (auto simp: resolveEventKind_def split: if_splits)
  with assms(3,4) show "k = Ev_secondary_approved" "rs_state e = St_pending_secondary_approval"
    by (cases k; cases "rs_state e"; simp)+
qed

lemma decide_enforced_approval:
  assumes "decide_transition eid input kind sq es = Inr (ev, es')"
    "ev_toState ev = Some St_approved" "ev_fromState ev \<noteq> Some St_approved"
    "r \<in> set es'" "ev_testCaseId ev = Some (rs_testCaseId r)" "rs_fourEyesEnforced r"
    "\<forall>r\<in>set es. principals_inv r"
  shows "two_principals r"
proof -
  obtain entry where entry: "find_entry kind (ti_testCaseId input) es = Inr entry"
    using assms(1) by (auto simp: decide_transition_def split: sum.splits)
  have id: "ti_testCaseId input = Some (rs_testCaseId r)"
    using assms(1,5) by (rule_tac decide_transition_event [OF assms(1)]) (simp add: build_event_def)
  with entry obtain e where e: "entry = Some e"
    by (cases "List.find (\<lambda>e. rs_testCaseId e = rs_testCaseId r) es") (auto simp: find_entry_def)
  let ?k = "resolveEventKind kind (Some e)"
  from find_entry_Some [of kind "ti_testCaseId input" es e] entry e
  have mem: "e \<in> set es" "rs_testCaseId e = rs_testCaseId r" using id by simp_all
  from assms(1) entry e obtain st where st:
      "applyFourEyesRefusals (ti_actor input) ?k (Some e) = None"
      "TRANSITIONS ?k (rs_state e) = Some st"
      "ev = build_event input eid ?k (rs_state e) st sq"
      "es' = replace_entry (if ?k \<noteq> Ev_note
          then applyEntryEffects e st eid (ti_at input) (ti_actor input) ?k
          else touch_entry eid (ti_at input) e) es"
    by (auto simp: decide_transition_def Let_def transition_Inr_iff split: sum.splits option.splits)
  have "st = St_approved" "rs_state e \<noteq> St_approved"
    using assms(2,3) by (simp_all add: st(3) build_event_def)
  then have k: "?k \<noteq> Ev_note" using st(2) by auto
  with st(4) assms(4) mem have r: "r = applyEntryEffects e st eid (ti_at input) (ti_actor input) ?k"
    by (auto simp: replace_entry_def)
  with assms(6) have "rs_fourEyesEnforced e" by simp
  with enforced_approval_is_secondary [OF st(1) refl] st(2) \<open>st = St_approved\<close> \<open>rs_state e \<noteq> St_approved\<close>
  have sec: "?k = Ev_secondary_approved" "rs_state e = St_pending_secondary_approval" by simp_all
  with assms(7) mem(1) have "primary_only e" by (fastforce simp: principals_inv_def)
  with effects_secondary [of e "ti_actor input"] st(1) sec r show ?thesis by simp
qed

text \<open>
  C2: Four-eyes integrity of the review store: whenever recording a transition moves a case for which
  four-eyes review is enforced into \<open>approved\<close>, the stored entry names a primary and a secondary
  reviewer, they are different principals, neither of them is the last editor, and both approvals are
  in the job's event log.
\<close>

theorem four_eyes_approval_has_two_principals:
  assumes "recordTransition lc eid input (store_run lc ops) = Inr (Inr (ev, snap), fs')"
    and "ev_toState ev = Some St_approved" and "ev_fromState ev \<noteq> Some St_approved"
    and "r \<in> set (gs_perTestCase snap)" and "ev_testCaseId ev = Some (rs_testCaseId r)"
    and "rs_fourEyesEnforced r"
  shows "\<exists>p s tp ts evs. rs_primaryReviewer r = Some p \<and> rs_secondaryReviewer r = Some s \<and> p \<noteq> s
     \<and> rs_lastEditor r \<notin> {Some p, Some s}
     \<and> listEvents (ti_jobId input) fs' = Inr evs
     \<and> approval_logged evs Ev_primary_approved (rs_testCaseId r) p tp
     \<and> approval_logged evs Ev_secondary_approved (rs_testCaseId r) s ts"
proof (rule recordTransition_cases [OF store_run_inv [of lc ops], of eid input], goal_cases)
  case 1 with assms(1) show ?case by simp
next
  case (2 kind env snap' ev' es)
  with assms(1) have eq: "ev' = ev" "snap = with_entries lc es snap'"
    "listEvents (ti_jobId input) fs' = Inr (pe_events (append_event ev env))"
    by (auto simp: listEvents_write)
  have old: "\<forall>r\<in>set (gs_perTestCase snap'). principals_inv r"
    using 2(4) by (simp add: job_inv_def entry_inv_def)
  have "two_principals r"
    by (rule decide_enforced_approval [OF 2(5)]) (use assms eq old in simp_all)
  moreover have "logged_inv (pe_events (append_event ev env)) r"
    using 2(6) assms(4) eq by (simp add: job_inv_def entry_inv_def)
  ultimately show ?case
    using eq(3) unfolding two_principals_def logged_inv_def by (metis insertE option.exhaust singletonD)
qed

theorem four_eyes_approval_has_two_principals_witness:
  "\<exists>ev snap fs' r p s. recordTransition flat ''e2'' (sample_approval ''bob'' ''t2'')
       (store_run flat sample_ops) = Inr (Inr (ev, snap), fs')
     \<and> r \<in> set (gs_perTestCase snap) \<and> rs_fourEyesEnforced r
     \<and> rs_primaryReviewer r = Some p \<and> rs_secondaryReviewer r = Some s \<and> p \<noteq> s"
proof -
  obtain ev snap fs' where run: "recordTransition flat ''e2'' (sample_approval ''bob'' ''t2'')
      (store_run flat sample_ops) = Inr (Inr (ev, snap), fs')"
    and ev: "ev_toState ev = Some St_approved" "ev_fromState ev \<noteq> Some St_approved"
      "ev_testCaseId ev = Some ''tc''"
    and tc: "map rs_testCaseId (gs_perTestCase snap) = [''tc'']"
      "map rs_fourEyesEnforced (gs_perTestCase snap) = [True]"
    using sample_run_accepts by (auto split: sum.splits prod.splits)
  from tc obtain r where r: "gs_perTestCase snap = [r]" "rs_testCaseId r = ''tc''" "rs_fourEyesEnforced r"
    by (auto simp: map_eq_Cons_conv)
  with four_eyes_approval_has_two_principals [OF run ev(1,2), of r] ev(3) run show ?thesis by auto
qed

end
