(* ===== verification/SemanticOverrides.thy ===== *)
theory SemanticOverrides
  imports ReviewStoreRuns
begin

text \<open>
  Reviewer overrides of semantic-content findings, the second half of
  \<^verbatim>\<open>packages/security/src/semantic-content-sanitization.ts\<close>: signing an override, recording it
  as a note in the review store, reading the active overrides back from the event log, verifying
  them against the validation report, and deciding whether the report still blocks.

  The parts of the run time that are not TypeScript code of the repository are the fields of
  \<open>host\<close>: \<open>hmacSha256Hex key v\<close> is the hexadecimal HMAC-SHA-256 under \<open>key\<close> of the text of the
  JSON value \<open>v\<close>, \<open>dateParse\<close> is \<^verbatim>\<open>Date.parse\<close> and \<open>dateNow\<close> the wall clock. The nested
  \<^verbatim>\<open>Map\<close>s are maps: their consumers only use \<^verbatim>\<open>get\<close>, so the iteration order that the source
  establishes by sorting is not represented.
\<close>

section \<open>Data\<close>

record host =
  hmacSha256Hex :: "string \<Rightarrow> json \<Rightarrow> string"
  dateParse :: "string \<Rightarrow> js_number"
  dateNow :: rat

record OverrideAuthorityProvider =
  au_hmacSecret :: string  \<comment> \<open>the value the configured string or function resolves to\<close>
  au_keyId :: "string option"
  au_now :: "rat option"

record SemanticContentOverrideEntry =
  oe_category :: string
  oe_justification :: string
  oe_actor :: string
  oe_signedAt :: string
  oe_digest :: string
  oe_keyId :: "string option"
  oe_expiresAt :: "string option"
  oe_verifiedSignature :: bool

type_synonym SemanticContentOverrideMap = "string \<rightharpoonup> (string \<rightharpoonup> SemanticContentOverrideEntry)"

record TestCaseValidationIssue =
  vi_testCaseId :: "string option"
  vi_path :: string
  vi_code :: string
  vi_severity :: string
  vi_message :: string

record TestCaseValidationReport =
  tv_jobId :: string
  tv_blocked :: bool
  tv_issues :: "TestCaseValidationIssue list"

definition SEMANTIC_SUSPICION_CATEGORIES :: "string list" where
  "SEMANTIC_SUSPICION_CATEGORIES =
     [''shell_metacharacters'', ''command_substitution'', ''jndi_log4shell'',
      ''encoded_payload_base64'', ''encoded_payload_hex'', ''script_tag'', ''html_event_handler'',
      ''dangerous_url_scheme'']"

definition isSemanticSuspicionCategory :: "string \<Rightarrow> bool" where
  "isSemanticSuspicionCategory s \<longleftrightarrow> List.member SEMANTIC_SUSPICION_CATEGORIES s"

definition MAX_JUSTIFICATION_LENGTH :: nat where "MAX_JUSTIFICATION_LENGTH = 512"

datatype override_error = Authority_secret_empty

section \<open>Matching findings and overrides\<close>

definition categoryFromValidationMessage :: "string \<Rightarrow> string option" where
  "categoryFromValidationMessage message =
     (let category = takeWhile (\<lambda>c. c \<noteq> CHR '':'') message
      in if category = message \<or> category = [] then None
         else if isSemanticSuspicionCategory category then Some category else None)"

definition issueHasSemanticContentOverride ::
  "TestCaseValidationIssue \<Rightarrow> SemanticContentOverrideMap \<Rightarrow> bool" where
  "issueHasSemanticContentOverride issue overrides =
     (case vi_testCaseId issue of
        None \<Rightarrow> False
      | Some tc \<Rightarrow>
          (case overrides tc of
             None \<Rightarrow> False
           | Some paths \<Rightarrow>
               (case paths (vi_path issue) of
                  None \<Rightarrow> False
                | Some entry \<Rightarrow>
                    (case categoryFromValidationMessage (vi_message issue) of
                       None \<Rightarrow> False
                     | Some category \<Rightarrow> oe_category entry = category))))"

section \<open>Signatures\<close>

definition resolveOverrideAuthoritySecret ::
  "OverrideAuthorityProvider \<Rightarrow> override_error + string" where
  "resolveOverrideAuthoritySecret provider =
     (if au_hmacSecret provider = [] then Inl Authority_secret_empty else Inr (au_hmacSecret provider))"

text \<open>
  The JSON value whose canonical text is signed: \<open>jobId\<close>, \<open>testCaseId\<close> and \<open>path\<close> say where the
  override applies, the rest is what the reviewer stated.
\<close>

definition buildOverrideSignaturePayload ::
  "string \<Rightarrow> string \<Rightarrow> string \<Rightarrow> string \<Rightarrow> string \<Rightarrow> string \<Rightarrow> string \<Rightarrow> string option \<Rightarrow> json" where
  "buildOverrideSignaturePayload jobId testCaseId path category justification actor signedAt expiresAt =
     sortValue (JObj [(''overrideKind'', JStr ''semantic_suspicious_content''), (''jobId'', JStr jobId),
       (''testCaseId'', JStr testCaseId), (''path'', JStr path), (''category'', JStr category),
       (''justification'', JStr justification), (''actor'', JStr actor), (''signedAt'', JStr signedAt),
       (''expiresAt'', case expiresAt of None \<Rightarrow> JNull | Some t \<Rightarrow> JStr t)])"

definition signOverrideSignaturePayload ::
  "host \<Rightarrow> json \<Rightarrow> OverrideAuthorityProvider \<Rightarrow> override_error + string" where
  "signOverrideSignaturePayload h payload authority =
     (case resolveOverrideAuthoritySecret authority of
        Inl err \<Rightarrow> Inl err
      | Inr secret \<Rightarrow> Inr (hmacSha256Hex h secret payload))"

text \<open>\<^verbatim>\<open>HMAC_DIGEST_RE\<close>: 64 lower-case hexadecimal digits.\<close>

definition hmac_digest :: "string \<Rightarrow> bool" where
  "hmac_digest s \<longleftrightarrow> length s = 64 \<and> list_all (\<lambda>c. List.member hex_chars c) s"

definition signaturesMatch :: "string \<Rightarrow> string \<Rightarrow> bool" where
  "signaturesMatch expected candidate \<longleftrightarrow>
     hmac_digest expected \<and> hmac_digest candidate \<and> expected = candidate"

definition buildOverrideEntryReason :: "host \<Rightarrow> SemanticContentOverrideEntry \<Rightarrow> string option" where
  "buildOverrideEntryReason h entry =
     (if oe_actor entry = [] then Some ''override entry is missing actor''
      else if oe_signedAt entry = [] then Some ''override entry is missing signedAt''
      else if js_trim (oe_justification entry) = [] then Some ''override entry is missing justification''
      else if \<not> isSemanticSuspicionCategory (oe_category entry)
      then Some ''override entry has unknown category''
      else if \<not> hmac_digest (oe_digest entry) then Some ''override entry is missing signature''
      else if \<not> oe_verifiedSignature entry
      then Some ''override entry is missing verifiedSignature audit stamp''
      else case oe_expiresAt entry of
        None \<Rightarrow> None
      | Some t \<Rightarrow> if \<not> isFinite (dateParse h t) then Some ''override entry has invalid expiresAt'' else None)"

definition clock :: "host \<Rightarrow> OverrideAuthorityProvider \<Rightarrow> rat" where
  "clock h authority = (case au_now authority of None \<Rightarrow> dateNow h | Some t \<Rightarrow> t)"

definition expired :: "host \<Rightarrow> OverrideAuthorityProvider \<Rightarrow> SemanticContentOverrideEntry \<Rightarrow> bool" where
  "expired h authority entry =
     (case oe_expiresAt entry of
        None \<Rightarrow> False
      | Some t \<Rightarrow> (case dateParse h t of Fin ms \<Rightarrow> ms \<le> clock h authority | NegInfinity \<Rightarrow> True | _ \<Rightarrow> False))"

text \<open>\<open>Inr None\<close> is the accepting answer, \<open>Inr (Some reason)\<close> a rejection.\<close>

definition verifyOverrideEntry ::
  "host \<Rightarrow> string \<Rightarrow> string \<Rightarrow> string \<Rightarrow> SemanticContentOverrideEntry \<Rightarrow>
     OverrideAuthorityProvider option \<Rightarrow> override_error + string option" where
  "verifyOverrideEntry h jobId testCaseId path entry authority' =
     (case buildOverrideEntryReason h entry of
        Some reason \<Rightarrow> Inr (Some reason)
      | None \<Rightarrow>
          (case authority' of
             None \<Rightarrow> Inr (Some ''override authority provider missing'')
           | Some authority \<Rightarrow>
               if expired h authority entry then Inr (Some ''override entry has expired'')
               else (case signOverrideSignaturePayload h
                            (buildOverrideSignaturePayload jobId testCaseId path (oe_category entry)
                               (oe_justification entry) (oe_actor entry) (oe_signedAt entry)
                               (oe_expiresAt entry)) authority of
                       Inl err \<Rightarrow> Inl err
                     | Inr expected \<Rightarrow>
                         Inr (if signaturesMatch expected (oe_digest entry) then None
                              else Some ''override signature failed verification''))))"

section \<open>Recording an override\<close>

record SemanticContentOverrideInput =
  oi_jobId :: string
  oi_testCaseId :: string
  oi_path :: string
  oi_category :: string
  oi_actor :: string
  oi_justification :: string
  oi_at :: string
  oi_expiresAt :: "string option"
  oi_authority :: OverrideAuthorityProvider

definition createSignedSemanticContentOverrideEntry ::
  "host \<Rightarrow> SemanticContentOverrideInput \<Rightarrow> override_error + SemanticContentOverrideEntry" where
  "createSignedSemanticContentOverrideEntry h input =
     (case signOverrideSignaturePayload h
             (buildOverrideSignaturePayload (oi_jobId input) (oi_testCaseId input) (oi_path input)
                (oi_category input) (oi_justification input) (oi_actor input) (oi_at input)
                (oi_expiresAt input)) (oi_authority input) of
        Inl err \<Rightarrow> Inl err
      | Inr digest \<Rightarrow>
          Inr \<lparr> oe_category = oi_category input, oe_justification = oi_justification input,
                oe_actor = oi_actor input, oe_signedAt = oi_at input, oe_digest = digest,
                oe_keyId = au_keyId (oi_authority input), oe_expiresAt = oi_expiresAt input,
                oe_verifiedSignature = True \<rparr>)"

datatype OverrideRefusal =
    Test_case_id_missing | Path_required | Actor_required | Justification_required
  | Justification_too_long | Category_unknown

definition override_metadata :: "string \<Rightarrow> SemanticContentOverrideEntry \<Rightarrow> metadata" where
  "override_metadata path entry =
     [(''overrideKind'', MStr ''semantic_suspicious_content''), (''overridePath'', MStr path),
      (''overrideCategory'', MStr (oe_category entry)),
      (''overrideJustification'', MStr (oe_justification entry)),
      (''overrideSignedAt'', MStr (oe_signedAt entry)),
      (''overrideSignature'', MStr (oe_digest entry)),
      (''verifiedSignature'', MBool (oe_verifiedSignature entry))]
     @ (case oe_keyId entry of None \<Rightarrow> [] | Some k \<Rightarrow> [(''overrideSignatureKeyId'', MStr k)])
     @ (case oe_expiresAt entry of None \<Rightarrow> [] | Some t \<Rightarrow> [(''overrideExpiresAt'', MStr t)])"

definition override_transition ::
  "SemanticContentOverrideInput \<Rightarrow> SemanticContentOverrideEntry \<Rightarrow> RecordTransitionInput" where
  "override_transition input entry =
     \<lparr> ti_jobId = oi_jobId input, ti_testCaseId = Some (oi_testCaseId input), ti_kind = ''note'',
       ti_at = oi_at input, ti_actor = Some (oi_actor input), ti_note = Some (oi_justification input),
       ti_metadata = Some (override_metadata (oi_path input) entry) \<rparr>"

definition overrideRefusal :: "SemanticContentOverrideInput \<Rightarrow> OverrideRefusal option" where
  "overrideRefusal input =
     (if oi_testCaseId input = [] then Some Test_case_id_missing
      else if oi_path input = [] then Some Path_required
      else if oi_actor input = [] then Some Actor_required
      else if js_trim (oi_justification input) = [] then Some Justification_required
      else if length (oi_justification input) > MAX_JUSTIFICATION_LENGTH then Some Justification_too_long
      else if \<not> isSemanticSuspicionCategory (oi_category input) then Some Category_unknown
      else None)"

text \<open>
  The store argument of the source is an interface; \<open>record_op\<close> is the \<^verbatim>\<open>recordTransition\<close> of
  the store that is passed, already applied to the state it works on.
\<close>

definition recordSemanticContentOverride ::
  "host \<Rightarrow> (RecordTransitionInput \<Rightarrow> 'r) \<Rightarrow> SemanticContentOverrideInput \<Rightarrow>
     override_error + (OverrideRefusal + 'r)" where
  "recordSemanticContentOverride h record_op input =
     (case overrideRefusal input of
        Some code \<Rightarrow> Inr (Inl code)
      | None \<Rightarrow>
          (case createSignedSemanticContentOverrideEntry h input of
             Inl err \<Rightarrow> Inl err
           | Inr entry \<Rightarrow> Inr (Inr (record_op (override_transition input entry)))))"

section \<open>Reading the active overrides from the log\<close>

definition meta_string :: "metadata \<Rightarrow> string \<Rightarrow> string option" where
  "meta_string m k = (case map_of m k of Some (MStr s) \<Rightarrow> Some s | _ \<Rightarrow> None)"

definition isSemanticContentOverrideEvent :: "ReviewEvent \<Rightarrow> bool" where
  "isSemanticContentOverrideEvent ev \<longleftrightarrow>
     ev_kind ev = Ev_note \<and> ev_testCaseId ev \<noteq> None
     \<and> (case ev_metadata ev of
          None \<Rightarrow> False
        | Some m \<Rightarrow> meta_string m ''overrideKind'' = Some ''semantic_suspicious_content''
            \<and> (case meta_string m ''overridePath'' of None \<Rightarrow> False | Some p \<Rightarrow> p \<noteq> []))"

definition or_empty :: "string option \<Rightarrow> string" where
  "or_empty x = (case x of None \<Rightarrow> [] | Some s \<Rightarrow> s)"

text \<open>The body of the loop: the override an event carries, if it carries one.\<close>

definition override_of_event ::
  "ReviewEvent \<Rightarrow> (string \<times> string \<times> SemanticContentOverrideEntry) option" where
  "override_of_event ev =
     (if \<not> isSemanticContentOverrideEvent ev then None
      else let m = the (ev_metadata ev) in
        (case meta_string m ''overrideCategory'' of
           None \<Rightarrow> None
         | Some category \<Rightarrow>
             if \<not> isSemanticSuspicionCategory category then None
             else (case meta_string m ''overrideJustification'' of
                     None \<Rightarrow> None
                   | Some justification \<Rightarrow>
                       Some (the (ev_testCaseId ev), the (meta_string m ''overridePath''),
                         \<lparr> oe_category = category, oe_justification = justification,
                           oe_actor = or_empty (ev_actor ev),
                           oe_signedAt = or_empty (meta_string m ''overrideSignedAt''),
                           oe_digest = or_empty (meta_string m ''overrideSignature''),
                           oe_keyId = meta_string m ''overrideSignatureKeyId'',
                           oe_expiresAt = meta_string m ''overrideExpiresAt'',
                           oe_verifiedSignature = (map_of m ''verifiedSignature'' = Some (MBool True)) \<rparr>))))"

definition override_key :: "string \<Rightarrow> string \<Rightarrow> string" where
  "override_key testCaseId path = testCaseId @ [CHR 0x00] @ path"

definition note_override ::
  "(string \<times> string \<times> string \<times> SemanticContentOverrideEntry) list \<Rightarrow> ReviewEvent \<Rightarrow>
   (string \<times> string \<times> string \<times> SemanticContentOverrideEntry) list" where
  "note_override latest ev =
     (case override_of_event ev of
        None \<Rightarrow> latest
      | Some (tc, path, entry) \<Rightarrow> AList.update (override_key tc path) (tc, path, entry) latest)"

definition latestByKey :: "ReviewEvent list \<Rightarrow> (string \<times> string \<times> string \<times> SemanticContentOverrideEntry) list" where
  "latestByKey evs = foldl note_override [] evs"

definition extractSemanticContentOverrides :: "ReviewEvent list \<Rightarrow> SemanticContentOverrideMap" where
  "extractSemanticContentOverrides evs =
     (\<lambda>tc. let rows = filter (\<lambda>(_, tc', _, _). tc' = tc) (latestByKey evs)
           in if rows = [] then None else Some (map_of (map (\<lambda>(_, _, path, entry). (path, entry)) rows)))"

section \<open>Verifying the overrides against a report\<close>

definition set_path :: "string \<Rightarrow> string \<Rightarrow> 'v \<Rightarrow> (string \<rightharpoonup> (string \<rightharpoonup> 'v)) \<Rightarrow> (string \<rightharpoonup> (string \<rightharpoonup> 'v))" where
  "set_path testCaseId path v target =
     target(testCaseId \<mapsto> (case target testCaseId of None \<Rightarrow> [path \<mapsto> v] | Some paths \<Rightarrow> paths(path \<mapsto> v)))"

text \<open>The override an issue is matched with: same case, same path, same category.\<close>

definition matched_override ::
  "SemanticContentOverrideMap \<Rightarrow> TestCaseValidationIssue \<Rightarrow> (string \<times> SemanticContentOverrideEntry) option" where
  "matched_override overrides issue =
     (if vi_code issue \<noteq> ''semantic_suspicious_content'' then None
      else case vi_testCaseId issue of
        None \<Rightarrow> None
      | Some tc \<Rightarrow>
          (case overrides tc of
             None \<Rightarrow> None
           | Some paths \<Rightarrow>
               (case paths (vi_path issue) of
                  None \<Rightarrow> None
                | Some entry \<Rightarrow>
                    if categoryFromValidationMessage (vi_message issue) = Some (oe_category entry)
                    then Some (tc, entry) else None)))"

fun partition_issues ::
  "host \<Rightarrow> string \<Rightarrow> SemanticContentOverrideMap \<Rightarrow> OverrideAuthorityProvider option \<Rightarrow>
   TestCaseValidationIssue list \<Rightarrow> SemanticContentOverrideMap \<Rightarrow> (string \<rightharpoonup> (string \<rightharpoonup> string)) \<Rightarrow>
     override_error + (SemanticContentOverrideMap \<times> (string \<rightharpoonup> (string \<rightharpoonup> string)))" where
  "partition_issues h jobId overrides authority [] allowed invalid = Inr (allowed, invalid)"
| "partition_issues h jobId overrides authority (issue # issues) allowed invalid =
     (case matched_override overrides issue of
        None \<Rightarrow> partition_issues h jobId overrides authority issues allowed invalid
      | Some (tc, entry) \<Rightarrow>
          (case verifyOverrideEntry h jobId tc (vi_path issue) entry authority of
             Inl err \<Rightarrow> Inl err
           | Inr (Some reason) \<Rightarrow>
               partition_issues h jobId overrides authority issues allowed
                 (set_path tc (vi_path issue) reason invalid)
           | Inr None \<Rightarrow>
               partition_issues h jobId overrides authority issues
                 (set_path tc (vi_path issue) entry allowed) invalid))"

definition partitionSemanticContentOverridesForValidation ::
  "host \<Rightarrow> TestCaseValidationReport \<Rightarrow> SemanticContentOverrideMap \<Rightarrow> OverrideAuthorityProvider option \<Rightarrow>
     override_error + (SemanticContentOverrideMap \<times> (string \<rightharpoonup> (string \<rightharpoonup> string)))" where
  "partitionSemanticContentOverridesForValidation h validation overrides authority =
     partition_issues h (tv_jobId validation) overrides authority (tv_issues validation)
       (\<lambda>_. None) (\<lambda>_. None)"

definition filterSemanticContentOverridesForValidation ::
  "host \<Rightarrow> TestCaseValidationReport \<Rightarrow> SemanticContentOverrideMap \<Rightarrow>
     override_error + SemanticContentOverrideMap" where
  "filterSemanticContentOverridesForValidation h validation overrides =
     map_sum id fst (partitionSemanticContentOverridesForValidation h validation overrides None)"

definition effectiveSemanticContentBlock ::
  "TestCaseValidationReport \<Rightarrow> SemanticContentOverrideMap \<Rightarrow> bool" where
  "effectiveSemanticContentBlock validation overrides \<longleftrightarrow>
     (\<exists>issue\<in>set (tv_issues validation).
        vi_severity issue = ''error''
        \<and> (vi_code issue \<noteq> ''semantic_suspicious_content''
           \<or> \<not> issueHasSemanticContentOverride issue overrides))"

section \<open>What verification accepts\<close>

lemma lookup_set_path [simp]:
  "Option.bind (set_path tc p v t tc') (\<lambda>ps. ps p') =
     (if tc' = tc \<and> p' = p then Some v else Option.bind (t tc') (\<lambda>ps. ps p'))"
  by (auto simp: set_path_def split: option.splits)

abbreviation lookup2 :: "(string \<rightharpoonup> (string \<rightharpoonup> 'v)) \<Rightarrow> string \<Rightarrow> string \<Rightarrow> 'v option" where
  "lookup2 m tc p \<equiv> Option.bind (m tc) (\<lambda>ps. ps p)"

lemma verify_accepts_iff:
  "verifyOverrideEntry h jobId tc path entry authority' = Inr None \<longleftrightarrow>
     (\<exists>authority. authority' = Some authority \<and> buildOverrideEntryReason h entry = None
       \<and> \<not> expired h authority entry \<and> au_hmacSecret authority \<noteq> []
       \<and> oe_digest entry = hmacSha256Hex h (au_hmacSecret authority)
           (buildOverrideSignaturePayload jobId tc path (oe_category entry) (oe_justification entry)
              (oe_actor entry) (oe_signedAt entry) (oe_expiresAt entry)))"
  by (auto simp: verifyOverrideEntry_def signOverrideSignaturePayload_def signaturesMatch_def
      resolveOverrideAuthoritySecret_def buildOverrideEntryReason_def split: option.splits if_splits)

lemma matched_override_Some:
  "matched_override overrides issue = Some (tc, entry) \<longleftrightarrow>
     vi_code issue = ''semantic_suspicious_content'' \<and> vi_testCaseId issue = Some tc
     \<and> lookup2 overrides tc (vi_path issue) = Some entry
     \<and> categoryFromValidationMessage (vi_message issue) = Some (oe_category entry)"
  by (auto simp: matched_override_def split: option.splits)

text \<open>Every allowed entry is the caller's entry for that case and path, and it verified.\<close>

definition only_verified ::
  "host \<Rightarrow> string \<Rightarrow> SemanticContentOverrideMap \<Rightarrow> OverrideAuthorityProvider option \<Rightarrow>
   SemanticContentOverrideMap \<Rightarrow> bool" where
  "only_verified h jobId overrides authority allowed \<longleftrightarrow> (\<forall>tc p entry. lookup2 allowed tc p = Some entry \<longrightarrow>
     lookup2 overrides tc p = Some entry \<and> verifyOverrideEntry h jobId tc p entry authority = Inr None)"

lemma only_verified_set_path:
  assumes "only_verified h jobId overrides authority allowed"
    "verifyOverrideEntry h jobId tc p entry authority = Inr None" "lookup2 overrides tc p = Some entry"
  shows "only_verified h jobId overrides authority (set_path tc p entry allowed)"
  using assms unfolding only_verified_def lookup_set_path by (metis option.inject)

lemma partition_issues_sound:
  assumes "partition_issues h jobId overrides authority issues allowed invalid = Inr (valid, invalid')"
    "only_verified h jobId overrides authority allowed"
  shows "only_verified h jobId overrides authority valid"
  using assms
proof (induction issues arbitrary: allowed invalid)
  case (Cons issue issues)
  show ?case
  proof (cases "matched_override overrides issue")
    case None
    with Cons show ?thesis by simp
  next
    case (Some m)
    obtain tc e where m: "m = (tc, e)" by (cases m)
    have "only_verified h jobId overrides authority (set_path tc (vi_path issue) e allowed)"
      if "verifyOverrideEntry h jobId tc (vi_path issue) e authority = Inr None"
      using only_verified_set_path [OF Cons.prems(2) that] Some m by (simp add: matched_override_Some)
    with Cons Some m show ?thesis by (auto split: sum.splits option.splits simp del: lookup_set_path)
  qed
qed simp

lemma partition_issues_keeps:
  assumes "partition_issues h jobId overrides authority issues allowed invalid = Inr (valid, invalid')"
    "lookup2 allowed tc p = Some entry" "lookup2 overrides tc p = Some entry"
  shows "lookup2 valid tc p = Some entry"
  using assms
proof (induction issues arbitrary: allowed invalid)
  case (Cons issue issues)
  show ?case
  proof (cases "matched_override overrides issue")
    case None
    with Cons show ?thesis by simp
  next
    case (Some m)
    obtain tc' e where m: "m = (tc', e)" by (cases m)
    have "lookup2 (set_path tc' (vi_path issue) e allowed) tc p = Some entry"
      using Cons.prems(2,3) Some m by (auto simp: matched_override_Some)
    with Cons Some m show ?thesis by (auto split: sum.splits option.splits simp del: lookup_set_path)
  qed
qed simp

lemma partition_issues_complete:
  assumes "partition_issues h jobId overrides authority issues allowed invalid = Inr (valid, invalid')"
    "issue \<in> set issues" "matched_override overrides issue = Some (tc, entry)"
    "verifyOverrideEntry h jobId tc (vi_path issue) entry authority = Inr None"
  shows "lookup2 valid tc (vi_path issue) = Some entry"
  using assms
proof (induction issues arbitrary: allowed invalid)
  case (Cons i issues)
  show ?case
  proof (cases "i = issue")
    case True
    with Cons.prems have "partition_issues h jobId overrides authority issues
        (set_path tc (vi_path issue) entry allowed) invalid = Inr (valid, invalid')" by simp
    then show ?thesis
      using partition_issues_keeps Cons.prems(3) by (simp add: matched_override_Some)
  next
    case False
    with Cons show ?thesis by (auto split: sum.splits option.splits)
  qed
qed simp

lemma issueHas_iff_matched:
  "vi_code issue = ''semantic_suspicious_content'' \<Longrightarrow>
   issueHasSemanticContentOverride issue overrides \<longleftrightarrow> (\<exists>tc e. matched_override overrides issue = Some (tc, e))"
  by (auto simp: issueHasSemanticContentOverride_def matched_override_def split: option.splits)

lemma matched_valid_iff:
  assumes "partitionSemanticContentOverridesForValidation h validation overrides authority = Inr (valid, invalid)"
    "issue \<in> set (tv_issues validation)"
  shows "matched_override valid issue = Some (tc, entry) \<longleftrightarrow>
    matched_override overrides issue = Some (tc, entry)
    \<and> verifyOverrideEntry h (tv_jobId validation) tc (vi_path issue) entry authority = Inr None"
proof -
  note part = assms(1) [unfolded partitionSemanticContentOverridesForValidation_def]
  have "only_verified h (tv_jobId validation) overrides authority valid"
    by (rule partition_issues_sound [OF part]) (simp add: only_verified_def)
  moreover note partition_issues_complete [OF part assms(2)]
  ultimately show ?thesis unfolding matched_override_Some only_verified_def by blast
qed

section \<open>From the log back to the override\<close>

definition rows_ok :: "(string \<times> string \<times> string \<times> SemanticContentOverrideEntry) list \<Rightarrow> bool" where
  "rows_ok rows \<longleftrightarrow> distinct (map fst rows) \<and> (\<forall>(k, tc, p, e)\<in>set rows. k = override_key tc p)"

lemma rows_ok_note: "rows_ok rows \<Longrightarrow> rows_ok (note_override rows ev)"
  unfolding rows_ok_def note_override_def
  by (auto split: option.splits simp: distinct_update dest!: set_update_subset [THEN subsetD])

lemma rows_ok_latestByKey: "rows_ok (latestByKey evs)"
  unfolding latestByKey_def
  by (induction evs rule: rev_induct) (simp_all add: rows_ok_note, simp add: rows_ok_def)

lemma rows_ok_key: "rows_ok rows \<Longrightarrow> (k, tc, p, e) \<in> set rows \<Longrightarrow> k = override_key tc p"
  by (auto simp: rows_ok_def)

lemma extract_row:
  assumes "(k, tc, p, e) \<in> set (latestByKey evs)"
  shows "lookup2 (extractSemanticContentOverrides evs) tc p = Some e"
proof -
  let ?rows = "filter (\<lambda>(_, tc', _, _). tc' = tc) (latestByKey evs)"
  have ok: "rows_ok (latestByKey evs)" by (rule rows_ok_latestByKey)
  have "inj_on (\<lambda>(_, _, p, _). p) (set ?rows)"
  proof (rule inj_onI, clarsimp)
    fix k1 p1 e1 k2 e2
    assume mem: "(k1, tc, p1, e1) \<in> set (latestByKey evs)" "(k2, tc, p1, e2) \<in> set (latestByKey evs)"
    then have k: "k1 = k2" using rows_ok_key [OF ok] by metis
    with ok mem have "(tc, p1, e1) = (tc, p1, e2)"
      unfolding rows_ok_def by (intro eq_key_imp_eq_value) simp_all
    with k show "k1 = k2 \<and> e1 = e2" by simp
  qed
  moreover have "distinct ?rows" using ok by (simp add: rows_ok_def distinct_map)
  ultimately have "distinct (map fst (map (\<lambda>(_, _, p, e). (p, e)) ?rows))"
    by (simp add: distinct_map comp_def split_def)
  moreover have "(p, e) \<in> set (map (\<lambda>(_, _, p, e). (p, e)) ?rows)" using assms by force
  ultimately have "map_of (map (\<lambda>(_, _, p, e). (p, e)) ?rows) p = Some e"
    by (simp add: map_of_is_SomeI del: set_map map_map)
  moreover have "?rows \<noteq> []" using assms by (auto simp: filter_empty_conv)
  ultimately show ?thesis by (simp add: extractSemanticContentOverrides_def Let_def)
qed

lemma extract_last:
  assumes "override_of_event ev = Some (tc, p, e)"
  shows "lookup2 (extractSemanticContentOverrides (evs @ [ev])) tc p = Some e"
proof (rule extract_row)
  have "map_of (latestByKey (evs @ [ev])) (override_key tc p) = Some (tc, p, e)"
    by (simp add: latestByKey_def note_override_def assms)
  then show "(override_key tc p, tc, p, e) \<in> set (latestByKey (evs @ [ev]))"
    by (rule map_of_SomeD)
qed

lemma map_of_meta_norm: "distinct (map fst m) \<Longrightarrow> map_of (meta_norm m) = map_of m"
  unfolding meta_norm_def by (rule map_of_inject_set [THEN iffD2]) (simp_all add: distinct_map inj_on_def)

lemma meta_norm_override_metadata [simp]:
  "map_of (meta_norm (override_metadata path e)) = map_of (override_metadata path e)"
  by (rule map_of_meta_norm) (simp add: override_metadata_def split: option.splits)

lemma override_metadata_lookup [simp]:
  "meta_string (meta_norm (override_metadata path e)) ''overrideKind'' = Some ''semantic_suspicious_content''"
  "meta_string (meta_norm (override_metadata path e)) ''overridePath'' = Some path"
  "meta_string (meta_norm (override_metadata path e)) ''overrideCategory'' = Some (oe_category e)"
  "meta_string (meta_norm (override_metadata path e)) ''overrideJustification'' = Some (oe_justification e)"
  "meta_string (meta_norm (override_metadata path e)) ''overrideSignedAt'' = Some (oe_signedAt e)"
  "meta_string (meta_norm (override_metadata path e)) ''overrideSignature'' = Some (oe_digest e)"
  "meta_string (meta_norm (override_metadata path e)) ''overrideSignatureKeyId'' = oe_keyId e"
  "meta_string (meta_norm (override_metadata path e)) ''overrideExpiresAt'' = oe_expiresAt e"
  "map_of (override_metadata path e) ''verifiedSignature'' = Some (MBool (oe_verifiedSignature e))"
  by (simp_all add: meta_string_def, simp_all add: override_metadata_def split: option.splits)

lemma override_of_recorded:
  assumes "overrideRefusal input = None" "createSignedSemanticContentOverrideEntry h input = Inr e"
  shows "override_of_event (build_event (override_transition input e) eid Ev_note f t sq)
    = Some (oi_testCaseId input, oi_path input, e)"
proof -
  have "isSemanticSuspicionCategory (oi_category input)" "oi_path input \<noteq> []"
    using assms(1) by (auto simp: overrideRefusal_def split: if_splits)
  moreover have "oe_category e = oi_category input" "oe_actor e = oi_actor input" "oe_verifiedSignature e"
    using assms(2) by (auto simp: createSignedSemanticContentOverrideEntry_def split: sum.splits)
  ultimately show ?thesis
    by (simp add: override_of_event_def isSemanticContentOverrideEvent_def build_event_def
        override_transition_def or_empty_def Let_def)
qed

lemma note_recorded:
  assumes "store_inv lc fs" "ti_kind input = ''note''"
    "recordTransition lc eid input fs = Inr (Inr (ev, snap), fs')"
  obtains evs f t sq where "ev = build_event input eid Ev_note f t sq"
    "listEvents (ti_jobId input) fs' = Inr (evs @ [ev])"
proof (rule recordTransition_cases [OF assms(1), of eid input], goal_cases)
  case (1 code) then show ?case using assms(3) by simp
next
  case (2 kind env snap0 ev0 es)
  have "kind = Ev_note" using 2(2) assms(2) by (simp add: kind_of_str_def ALLOWED_REVIEW_EVENT_KINDS_def)
  then have "resolveEventKind kind e = Ev_note" for e
    by (simp add: resolveEventKind_def split: option.splits)
  with 2 assms(3) show ?case
    by (auto simp: decide_transition_def Let_def listEvents_write append_event_def
        split: sum.splits option.splits)
qed

lemma verify_without_authority: "\<exists>reason. verifyOverrideEntry h jobId tc p entry None = Inr (Some reason)"
  by (simp add: verifyOverrideEntry_def split: option.splits)

lemma partition_without_authority:
  "\<exists>invalid'. partition_issues h jobId overrides None issues allowed invalid = Inr (allowed, invalid')"
proof (induction issues arbitrary: invalid)
  case (Cons issue issues)
  show ?case
  proof (cases "matched_override overrides issue")
    case (Some m)
    obtain tc e where "m = (tc, e)" by (cases m)
    with Some Cons verify_without_authority [of h jobId tc "vi_path issue" e] show ?thesis by auto
  qed (use Cons in simp)
qed simp

lemma created_entry_verifies:
  assumes "overrideRefusal input = None" "createSignedSemanticContentOverrideEntry h input = Inr entry"
    "oi_at input \<noteq> []" "\<And>payload. hmac_digest (hmacSha256Hex h (au_hmacSecret (oi_authority input)) payload)"
    "\<And>t. oi_expiresAt input = Some t \<Longrightarrow> \<exists>ms. dateParse h t = Fin ms \<and> clock h (oi_authority input) < ms"
  shows "verifyOverrideEntry h (oi_jobId input) (oi_testCaseId input) (oi_path input) entry
    (Some (oi_authority input)) = Inr None"
  using assms(1,2,3,5) assms(4)
  by (auto simp: verify_accepts_iff createSignedSemanticContentOverrideEntry_def overrideRefusal_def
      signOverrideSignaturePayload_def resolveOverrideAuthoritySecret_def buildOverrideEntryReason_def
      expired_def split: if_splits option.splits js_number.splits)

lemma payload_fields:
  "jget (buildOverrideSignaturePayload j tc p c ju a s e) ''jobId'' = Some (JStr j)"
  "jget (buildOverrideSignaturePayload j tc p c ju a s e) ''testCaseId'' = Some (JStr tc)"
  "jget (buildOverrideSignaturePayload j tc p c ju a s e) ''path'' = Some (JStr p)"
  by (simp_all add: buildOverrideSignaturePayload_def)

section \<open>A concrete authority\<close>

text \<open>A host whose digests tell two paths apart, and an override of a finding of the sample job.\<close>

definition sample_host :: host where
  "sample_host = \<lparr> hmacSha256Hex = (\<lambda>_ v. if jget v ''path'' = Some (JStr ''$.steps[0]'')
       then replicate 64 CHR ''a'' else replicate 64 CHR ''b''),
     dateParse = (\<lambda>_. Fin 10), dateNow = 5 \<rparr>"

definition sample_override :: SemanticContentOverrideInput where
  "sample_override = \<lparr> oi_jobId = ''job'', oi_testCaseId = ''tc'', oi_path = ''$.steps[0]'',
     oi_category = ''script_tag'', oi_actor = ''carol'', oi_justification = ''reviewed'', oi_at = ''t3'',
     oi_expiresAt = Some ''t9'',
     oi_authority = \<lparr> au_hmacSecret = ''secret'', au_keyId = None, au_now = None \<rparr> \<rparr>"

definition sample_override_entry :: SemanticContentOverrideEntry where
  "sample_override_entry = \<lparr> oe_category = ''script_tag'', oe_justification = ''reviewed'',
     oe_actor = ''carol'', oe_signedAt = ''t3'', oe_digest = replicate 64 CHR ''a'', oe_keyId = None,
     oe_expiresAt = Some ''t9'', oe_verifiedSignature = True \<rparr>"

definition sample_validation :: TestCaseValidationReport where
  "sample_validation = \<lparr> tv_jobId = ''job'', tv_blocked = True,
     tv_issues = [\<lparr> vi_testCaseId = Some ''tc'', vi_path = ''$.steps[0]'',
       vi_code = ''semantic_suspicious_content'', vi_severity = ''error'',
       vi_message = ''script_tag: contains <script> tag shape'' \<rparr>] \<rparr>"

lemma sample_digest: "hmac_digest (hmacSha256Hex sample_host secret payload)"
  by (simp add: sample_host_def hmac_digest_def list_all_iff hex_chars_def)

lemma sample_override_created:
  "createSignedSemanticContentOverrideEntry sample_host sample_override = Inr sample_override_entry"
  by code_simp

lemma sample_override_verifies:
  "verifyOverrideEntry sample_host ''job'' ''tc'' ''$.steps[0]'' sample_override_entry
     (Some (oi_authority sample_override)) = Inr None"
  by code_simp

lemma sample_override_recorded:
  "case recordSemanticContentOverride sample_host
       (\<lambda>t. recordTransition flat ''e2'' t (store_run flat sample_ops)) sample_override of
     Inr (Inr (Inr (Inr _, _))) \<Rightarrow> True | _ \<Rightarrow> False"
  by code_simp

section \<open>Properties\<close>

text \<open>
  C22: The effective block flag after overrides is exact: a validation report stops blocking precisely
  when every error-severity issue is a semantic-content finding for which the caller supplied an
  override of the same case, path and category that is structurally complete, not expired, and whose
  digest is the authority's HMAC over a payload naming exactly this job, case, path, category,
  justification, actor, signing time and expiry.
\<close>

theorem effective_block_exact:
  assumes "partitionSemanticContentOverridesForValidation h validation overrides (Some authority)
     = Inr (valid, invalid)"
  shows "\<not> effectiveSemanticContentBlock validation valid \<longleftrightarrow>
    list_all (\<lambda>issue. vi_severity issue \<noteq> ''error'' \<or>
      (\<exists>tc paths entry. vi_code issue = ''semantic_suspicious_content'' \<and> vi_testCaseId issue = Some tc
         \<and> overrides tc = Some paths \<and> paths (vi_path issue) = Some entry
         \<and> categoryFromValidationMessage (vi_message issue) = Some (oe_category entry)
         \<and> buildOverrideEntryReason h entry = None \<and> \<not> expired h authority entry
         \<and> au_hmacSecret authority \<noteq> []
         \<and> oe_digest entry = hmacSha256Hex h (au_hmacSecret authority)
             (buildOverrideSignaturePayload (tv_jobId validation) tc (vi_path issue)
                (oe_category entry) (oe_justification entry) (oe_actor entry) (oe_signedAt entry)
                (oe_expiresAt entry)))) (tv_issues validation)"
proof -
  have "\<not> effectiveSemanticContentBlock validation valid \<longleftrightarrow>
    list_all (\<lambda>issue. vi_severity issue \<noteq> ''error'' \<or>
      vi_code issue = ''semantic_suspicious_content'' \<and> (\<exists>tc e. matched_override valid issue = Some (tc, e)))
      (tv_issues validation)"
    unfolding effectiveSemanticContentBlock_def list_all_iff using issueHas_iff_matched by blast
  also have "\<dots> = list_all (\<lambda>issue. vi_severity issue \<noteq> ''error'' \<or>
      vi_code issue = ''semantic_suspicious_content'' \<and> (\<exists>tc e. matched_override overrides issue = Some (tc, e)
       \<and> verifyOverrideEntry h (tv_jobId validation) tc (vi_path issue) e (Some authority) = Inr None))
      (tv_issues validation)"
    by (rule list.pred_cong [OF refl]) (simp add: matched_valid_iff [OF assms])
  finally show ?thesis
    unfolding verify_accepts_iff matched_override_Some bind_eq_Some_conv by (auto simp: list_all_iff)
qed


theorem effective_block_exact_witness:
  "\<exists>valid invalid. partitionSemanticContentOverridesForValidation sample_host sample_validation
       [''tc'' \<mapsto> [''$.steps[0]'' \<mapsto> sample_override_entry]] (Some (oi_authority sample_override))
       = Inr (valid, invalid)
     \<and> \<not> effectiveSemanticContentBlock sample_validation valid"
proof -
  let ?o = "[''tc'' \<mapsto> [''$.steps[0]'' \<mapsto> sample_override_entry]]"
  let ?i = "hd (tv_issues sample_validation)"
  have cat: "categoryFromValidationMessage (vi_message ?i) = Some (oe_category sample_override_entry)"
    by code_simp
  have "matched_override ?o ?i = Some (''tc'', sample_override_entry)"
    using cat by (simp add: matched_override_Some sample_validation_def)
  then have part: "partitionSemanticContentOverridesForValidation sample_host sample_validation ?o
      (Some (oi_authority sample_override))
      = Inr (set_path ''tc'' ''$.steps[0]'' sample_override_entry (\<lambda>_. None), \<lambda>_. None)"
    by (simp add: partitionSemanticContentOverridesForValidation_def sample_validation_def
        sample_override_verifies)
  have "\<not> effectiveSemanticContentBlock sample_validation
      (set_path ''tc'' ''$.steps[0]'' sample_override_entry (\<lambda>_. None))"
    unfolding effective_block_exact [OF part]
    using sample_override_verifies cat by (simp add: sample_validation_def verify_accepts_iff)
  with part show ?thesis by blast
qed

text \<open>
  C23: An override that a reviewer records takes effect: if recording it through the review store is
  accepted on a reachable store, then the overrides extracted from the job's log afterwards hold, for
  that case and path, an entry that verifies under the same authority. The authority's digests are
  64 hexadecimal digits, as those of HMAC-SHA-256 are, the timestamp is not empty and the expiry, if
  one is given, is a date in the future.
\<close>

theorem recorded_override_is_honoured:
  assumes "recordSemanticContentOverride h (\<lambda>t. recordTransition lc eid t (store_run lc ops)) input
      = Inr (Inr (Inr (Inr (ev, snap), fs')))"
    and "oi_at input \<noteq> []"
    and "\<And>payload. hmac_digest (hmacSha256Hex h (au_hmacSecret (oi_authority input)) payload)"
    and "\<And>t. oi_expiresAt input = Some t \<Longrightarrow> \<exists>ms. dateParse h t = Fin ms \<and> clock h (oi_authority input) < ms"
  shows "\<exists>evs paths entry. listEvents (oi_jobId input) fs' = Inr evs
     \<and> extractSemanticContentOverrides evs (oi_testCaseId input) = Some paths
     \<and> paths (oi_path input) = Some entry
     \<and> oe_category entry = oi_category input \<and> oe_actor entry = oi_actor input
     \<and> verifyOverrideEntry h (oi_jobId input) (oi_testCaseId input) (oi_path input) entry
         (Some (oi_authority input)) = Inr None"
proof -
  obtain entry where entry: "overrideRefusal input = None"
      "createSignedSemanticContentOverrideEntry h input = Inr entry"
      "recordTransition lc eid (override_transition input entry) (store_run lc ops)
         = Inr (Inr (ev, snap), fs')"
    using assms(1) by (auto simp: recordSemanticContentOverride_def split: option.splits sum.splits)
  have is_note: "ti_kind (override_transition input entry) = ''note''" by (simp add: override_transition_def)
  obtain evs f t sq where ev: "ev = build_event (override_transition input entry) eid Ev_note f t sq"
      "listEvents (ti_jobId (override_transition input entry)) fs' = Inr (evs @ [ev])"
    using note_recorded [OF store_run_inv is_note entry(3)] .
  have "lookup2 (extractSemanticContentOverrides (evs @ [ev])) (oi_testCaseId input) (oi_path input) = Some entry"
    by (rule extract_last) (simp add: ev(1) override_of_recorded [OF entry(1,2)])
  moreover have "oe_category entry = oi_category input" "oe_actor entry = oi_actor input"
    using entry(2) by (auto simp: createSignedSemanticContentOverrideEntry_def split: sum.splits)
  moreover note created_entry_verifies [OF entry(1,2) assms(2,3,4)]
  ultimately show ?thesis
    using ev(2) by (auto simp: override_transition_def bind_eq_Some_conv)
qed

theorem recorded_override_is_honoured_witness:
  "\<exists>fs' evs paths entry. listEvents ''job'' fs' = Inr evs
     \<and> extractSemanticContentOverrides evs ''tc'' = Some paths \<and> paths ''$.steps[0]'' = Some entry
     \<and> verifyOverrideEntry sample_host ''job'' ''tc'' ''$.steps[0]'' entry
         (Some (oi_authority sample_override)) = Inr None"
proof -
  obtain ev snap fs' where run: "recordSemanticContentOverride sample_host
      (\<lambda>t. recordTransition flat ''e2'' t (store_run flat sample_ops)) sample_override
      = Inr (Inr (Inr (Inr (ev, snap), fs')))"
    using sample_override_recorded by (auto split: sum.splits prod.splits)
  have "\<exists>ms. dateParse sample_host t = Fin ms \<and> clock sample_host (oi_authority sample_override) < ms" for t
    by (simp add: sample_host_def sample_override_def clock_def)
  from recorded_override_is_honoured [OF run _ sample_digest this] show ?thesis
    by (auto simp: sample_override_def)
qed

text \<open>
  A signed override cannot be moved: if an entry signed for one job, case and path verifies, under
  an authority with the same secret, for a job, case and path, then these are the ones it was signed
  for, or two different payloads with the same HMAC have been found.
\<close>

theorem signed_override_not_transferable:
  assumes "createSignedSemanticContentOverrideEntry h input = Inr entry"
    and "verifyOverrideEntry h jobId tc path entry (Some authority) = Inr None"
    and "au_hmacSecret authority = au_hmacSecret (oi_authority input)"
  shows "(jobId = oi_jobId input \<and> tc = oi_testCaseId input \<and> path = oi_path input)
     \<or> (\<exists>x y. x \<noteq> y \<and> hmacSha256Hex h (au_hmacSecret authority) x = hmacSha256Hex h (au_hmacSecret authority) y)"
proof -
  let ?p = "\<lambda>j t p. buildOverrideSignaturePayload j t p (oi_category input) (oi_justification input)
     (oi_actor input) (oi_at input) (oi_expiresAt input)"
  have "hmacSha256Hex h (au_hmacSecret authority) (?p jobId tc path)
      = hmacSha256Hex h (au_hmacSecret authority) (?p (oi_jobId input) (oi_testCaseId input) (oi_path input))"
    using assms by (auto simp: verify_accepts_iff createSignedSemanticContentOverrideEntry_def
        signOverrideSignaturePayload_def resolveOverrideAuthoritySecret_def split: if_splits)
  moreover have "jobId = oi_jobId input \<and> tc = oi_testCaseId input \<and> path = oi_path input"
    if "?p jobId tc path = ?p (oi_jobId input) (oi_testCaseId input) (oi_path input)"
    using payload_fields [of jobId tc path] payload_fields [of "oi_jobId input"] that by (metis json.inject(3) option.inject)
  ultimately show ?thesis by metis
qed

theorem signed_override_not_transferable_witness:
  "(''job'' = oi_jobId sample_override \<and> ''tc'' = oi_testCaseId sample_override
      \<and> ''$.steps[0]'' = oi_path sample_override)
   \<or> (\<exists>x y. x \<noteq> y \<and> hmacSha256Hex sample_host ''secret'' x = hmacSha256Hex sample_host ''secret'' y)"
  using signed_override_not_transferable [OF sample_override_created sample_override_verifies refl]
  by (simp add: sample_override_def)

text \<open>
  Without an authority nothing is honoured: the filter that does not take an authority returns an
  empty override map whatever the report and the overrides are.
\<close>

theorem filter_without_authority_is_empty:
  "filterSemanticContentOverridesForValidation h validation overrides = Inr (\<lambda>_. None)"
  using partition_without_authority [of h "tv_jobId validation" overrides "tv_issues validation"
      "\<lambda>_. None" "\<lambda>_. None"]
  by (auto simp: filterSemanticContentOverridesForValidation_def
      partitionSemanticContentOverridesForValidation_def)

end
