(* ===== verification/ExportGate.thy ===== *)
theory ExportGate
  imports SemanticOverrides
begin

text \<open>
  The export gate of \<^verbatim>\<open>packages/production-runner/src/export-pipeline.ts\<close>: the refusal codes that
  stop an export, the selection of the exported cases and the stamping of the review snapshot. The
  QC mapping preview that \<^verbatim>\<open>runExportPipeline\<close> computes first is an argument here, and the rendering
  of the selected cases to JSON, CSV, ALM-XML and XLSX bytes is not represented.
\<close>

section \<open>Data\<close>

datatype ExportRefusalCode =
    No_approved_test_cases | Unapproved_test_cases_present | Policy_blocked_cases_present
  | Schema_invalid_cases_present | Visual_sidecar_blocked | Review_state_inconsistent

fun refusal_str :: "ExportRefusalCode \<Rightarrow> string" where
  "refusal_str No_approved_test_cases = ''no_approved_test_cases''"
| "refusal_str Unapproved_test_cases_present = ''unapproved_test_cases_present''"
| "refusal_str Policy_blocked_cases_present = ''policy_blocked_cases_present''"
| "refusal_str Schema_invalid_cases_present = ''schema_invalid_cases_present''"
| "refusal_str Visual_sidecar_blocked = ''visual_sidecar_blocked''"
| "refusal_str Review_state_inconsistent = ''review_state_inconsistent''"

record QcMappingPreviewEntry =
  qp_testCaseId :: string
  qp_exportable :: bool
  qp_blockingReasons :: "string list"

record RunExportPipelineInput =
  xi_jobId :: string
  xi_generatedAt :: string
  xi_testCases :: "GeneratedTestCase list"
  xi_validation :: TestCaseValidationReport
  xi_policy :: TestCasePolicyReport
  xi_visual :: "VisualSidecarValidationReport option"
  xi_reviewSnapshot :: ReviewGateSnapshot
  xi_semanticContentOverrides :: "SemanticContentOverrideMap option"
  xi_overrideAuthorityProvider :: "OverrideAuthorityProvider option"

record ExportPipelineArtifacts =
  xa_exportedTestCases :: "GeneratedTestCase list"
  xa_reviewSnapshot :: ReviewGateSnapshot
  xa_preview :: "QcMappingPreviewEntry list"
  xa_exportedTestCaseCount :: nat
  xa_finalExportDecision :: string
  xa_refused :: bool
  xa_refusalCodes :: "ExportRefusalCode list"

section \<open>Refusals\<close>

abbreviation released :: "ReviewState \<Rightarrow> bool" where
  "released st \<equiv> st = St_approved \<or> st = St_exported \<or> st = St_transferred"

definition validationBlocked :: "host \<Rightarrow> RunExportPipelineInput \<Rightarrow> override_error + bool" where
  "validationBlocked h input =
     (case xi_semanticContentOverrides input of
        None \<Rightarrow> Inr (tv_blocked (xi_validation input))
      | Some overrides \<Rightarrow>
          (case partitionSemanticContentOverridesForValidation h (xi_validation input) overrides
                  (xi_overrideAuthorityProvider input) of
             Inl err \<Rightarrow> Inl err
           | Inr (valid, _) \<Rightarrow> Inr (effectiveSemanticContentBlock (xi_validation input) valid)))"

text \<open>\<^verbatim>\<open>new Map(perTestCase.map(...))\<close>: the last entry for an id wins.\<close>

definition reviewById :: "ReviewGateSnapshot \<Rightarrow> string \<Rightarrow> ReviewSnapshot option" where
  "reviewById snap tcId = map_of (rev (map (\<lambda>e. (rs_testCaseId e, e)) (gs_perTestCase snap))) tcId"

definition fourEyesApprovalInconsistent :: "ReviewSnapshot \<Rightarrow> bool" where
  "fourEyesApprovalInconsistent e \<longleftrightarrow>
     rs_primaryReviewer e = None \<or> rs_secondaryReviewer e = None
     \<or> rs_primaryReviewer e = rs_secondaryReviewer e
     \<or> rs_primaryApprovalAt e = None \<or> rs_secondaryApprovalAt e = None
     \<or> \<not> List.member (rs_approvers e) (the (rs_primaryReviewer e))
     \<or> \<not> List.member (rs_approvers e) (the (rs_secondaryReviewer e))"

record gate_flags =
  unapprovedNonRejectedPresent :: bool
  unknownReviewState :: bool
  inconsistentFourEyesApproval :: bool

definition check_case :: "ReviewGateSnapshot \<Rightarrow> gate_flags \<Rightarrow> GeneratedTestCase \<Rightarrow> gate_flags" where
  "check_case snap flags tc =
     (case reviewById snap (tc_id tc) of
        None \<Rightarrow> flags \<lparr> unknownReviewState := True \<rparr>
      | Some e \<Rightarrow>
          let flags1 = (if \<not> released (rs_state e) \<and> rs_state e \<noteq> St_rejected
                        then flags \<lparr> unapprovedNonRejectedPresent := True \<rparr> else flags)
          in if rs_fourEyesEnforced e \<and> released (rs_state e) \<and> fourEyesApprovalInconsistent e
             then flags1 \<lparr> inconsistentFourEyesApproval := True \<rparr> else flags1)"

definition gate_check :: "RunExportPipelineInput \<Rightarrow> gate_flags" where
  "gate_check input =
     foldl (check_case (xi_reviewSnapshot input))
       \<lparr> unapprovedNonRejectedPresent = False, unknownReviewState = False,
         inconsistentFourEyesApproval = False \<rparr> (xi_testCases input)"

definition code_if :: "bool \<Rightarrow> ExportRefusalCode \<Rightarrow> ExportRefusalCode list" where
  "code_if b c = (if b then [c] else [])"

definition detectRefusalCodes :: "host \<Rightarrow> RunExportPipelineInput \<Rightarrow> override_error + ExportRefusalCode list" where
  "detectRefusalCodes h input =
     (case validationBlocked h input of
        Inl err \<Rightarrow> Inl err
      | Inr blocked \<Rightarrow>
          let flags = gate_check input
          in Inr (sort_key refusal_str
               (code_if blocked Schema_invalid_cases_present
                @ code_if (pr_blocked (xi_policy input)) Policy_blocked_cases_present
                @ code_if (case xi_visual input of None \<Rightarrow> False | Some v \<Rightarrow> vr_blocked v)
                    Visual_sidecar_blocked
                @ code_if (gs_approvedCount (xi_reviewSnapshot input) = 0) No_approved_test_cases
                @ code_if (unapprovedNonRejectedPresent flags) Unapproved_test_cases_present
                @ code_if (unknownReviewState flags \<or> inconsistentFourEyesApproval flags)
                    Review_state_inconsistent)))"

section \<open>The exported cases and the stamped snapshot\<close>

definition previewById :: "QcMappingPreviewEntry list \<Rightarrow> string \<Rightarrow> QcMappingPreviewEntry option" where
  "previewById preview tcId = map_of (rev (map (\<lambda>e. (qp_testCaseId e, e)) preview)) tcId"

definition merge_preview :: "QcMappingPreviewEntry option \<Rightarrow> GeneratedTestCase \<Rightarrow> GeneratedTestCase" where
  "merge_preview entry tc =
     (case entry of
        None \<Rightarrow> tc
      | Some p \<Rightarrow> tc \<lparr> tc_exportable := qp_exportable p,
          tc_blockingReasons := (if qp_blockingReasons p \<noteq> [] then Some (qp_blockingReasons p)
                                 else tc_blockingReasons tc) \<rparr>)"

definition exportableIds :: "ReviewGateSnapshot \<Rightarrow> string list" where
  "exportableIds snap = map rs_testCaseId (filter (\<lambda>e. released (rs_state e)) (gs_perTestCase snap))"

definition buildExportedTestCases ::
  "string comparator \<Rightarrow> GeneratedTestCase list \<Rightarrow> ReviewGateSnapshot \<Rightarrow> QcMappingPreviewEntry list \<Rightarrow>
     GeneratedTestCase list" where
  "buildExportedTestCases lc tcs snap preview =
     map (\<lambda>tc. merge_preview (previewById preview (tc_id tc)) tc)
       (sort_by lc tc_id (filter (\<lambda>tc. List.member (exportableIds snap) (tc_id tc)) tcs))"

definition stamp_entry :: "string list \<Rightarrow> string \<Rightarrow> ReviewSnapshot \<Rightarrow> ReviewSnapshot" where
  "stamp_entry exportedIds generatedAt e =
     (if rs_state e = St_approved \<and> List.member exportedIds (rs_testCaseId e)
      then e \<lparr> rs_state := St_exported, rs_lastEventAt := generatedAt \<rparr> else e)"

definition stampSnapshotAsExported ::
  "ReviewGateSnapshot \<Rightarrow> string list \<Rightarrow> string \<Rightarrow> ReviewGateSnapshot" where
  "stampSnapshotAsExported snap exportedIds generatedAt =
     (let next = map (stamp_entry exportedIds generatedAt) (gs_perTestCase snap);
          counts = computeCounts next
      in snap \<lparr> gs_perTestCase := next,
           gs_approvedCount := of_nat (sc_approvedCount counts),
           gs_needsReviewCount := of_nat (sc_needsReviewCount counts),
           gs_rejectedCount := of_nat (sc_rejectedCount counts),
           gs_pendingSecondaryApprovalCount :=
             Some (of_nat (sc_pendingSecondaryApprovalCount counts)) \<rparr>)"

definition runExportPipeline ::
  "string comparator \<Rightarrow> host \<Rightarrow> QcMappingPreviewEntry list \<Rightarrow> RunExportPipelineInput \<Rightarrow>
     override_error + ExportPipelineArtifacts" where
  "runExportPipeline lc h preview input =
     (case detectRefusalCodes h input of
        Inl err \<Rightarrow> Inl err
      | Inr codes \<Rightarrow>
          if codes \<noteq> []
          then Inr \<lparr> xa_exportedTestCases = [], xa_reviewSnapshot = xi_reviewSnapshot input,
                 xa_preview = preview, xa_exportedTestCaseCount = 0,
                 xa_finalExportDecision = ''refused'', xa_refused = True, xa_refusalCodes = codes \<rparr>
          else let exported = buildExportedTestCases lc (xi_testCases input) (xi_reviewSnapshot input) preview;
                   exportedIds = map tc_id exported
               in Inr \<lparr> xa_exportedTestCases = exported,
                    xa_reviewSnapshot = stampSnapshotAsExported (xi_reviewSnapshot input) exportedIds
                      (xi_generatedAt input),
                    xa_preview = filter (\<lambda>e. List.member exportedIds (qp_testCaseId e)) preview,
                    xa_exportedTestCaseCount = length exported,
                    xa_finalExportDecision = ''approved_for_export'', xa_refused = False,
                    xa_refusalCodes = [] \<rparr>)"

section \<open>What the gate checks\<close>

lemma gate_check_flags:
  "unapprovedNonRejectedPresent (gate_check input) \<longleftrightarrow> (\<exists>tc\<in>set (xi_testCases input). \<exists>e.
      reviewById (xi_reviewSnapshot input) (tc_id tc) = Some e
      \<and> \<not> released (rs_state e) \<and> rs_state e \<noteq> St_rejected)"
  "unknownReviewState (gate_check input) \<longleftrightarrow> (\<exists>tc\<in>set (xi_testCases input).
      reviewById (xi_reviewSnapshot input) (tc_id tc) = None)"
  "inconsistentFourEyesApproval (gate_check input) \<longleftrightarrow> (\<exists>tc\<in>set (xi_testCases input). \<exists>e.
      reviewById (xi_reviewSnapshot input) (tc_id tc) = Some e
      \<and> rs_fourEyesEnforced e \<and> released (rs_state e) \<and> fourEyesApprovalInconsistent e)"
proof -
  let ?s = "xi_reviewSnapshot input"
  have "foldl (check_case ?s) f tcs = \<lparr>
     unapprovedNonRejectedPresent = (unapprovedNonRejectedPresent f \<or> (\<exists>tc\<in>set tcs. \<exists>e.
        reviewById ?s (tc_id tc) = Some e \<and> \<not> released (rs_state e) \<and> rs_state e \<noteq> St_rejected)),
     unknownReviewState = (unknownReviewState f \<or> (\<exists>tc\<in>set tcs. reviewById ?s (tc_id tc) = None)),
     inconsistentFourEyesApproval = (inconsistentFourEyesApproval f \<or> (\<exists>tc\<in>set tcs. \<exists>e.
        reviewById ?s (tc_id tc) = Some e
        \<and> rs_fourEyesEnforced e \<and> released (rs_state e) \<and> fourEyesApprovalInconsistent e)) \<rparr>" for f tcs
  proof (induction tcs arbitrary: f)
    case (Cons tc tcs)
    show ?case
      unfolding foldl_Cons Cons.IH
      by (cases "reviewById ?s (tc_id tc)") (auto simp: check_case_def Let_def)
  qed simp
  from this [of _ "xi_testCases input"] show
    "unapprovedNonRejectedPresent (gate_check input) \<longleftrightarrow> (\<exists>tc\<in>set (xi_testCases input). \<exists>e.
      reviewById (xi_reviewSnapshot input) (tc_id tc) = Some e
      \<and> \<not> released (rs_state e) \<and> rs_state e \<noteq> St_rejected)"
    "unknownReviewState (gate_check input) \<longleftrightarrow> (\<exists>tc\<in>set (xi_testCases input).
      reviewById (xi_reviewSnapshot input) (tc_id tc) = None)"
    "inconsistentFourEyesApproval (gate_check input) \<longleftrightarrow> (\<exists>tc\<in>set (xi_testCases input). \<exists>e.
      reviewById (xi_reviewSnapshot input) (tc_id tc) = Some e
      \<and> rs_fourEyesEnforced e \<and> released (rs_state e) \<and> fourEyesApprovalInconsistent e)"
    unfolding gate_check_def by simp_all
qed

lemma code_if_Nil [simp]: "code_if b c = [] \<longleftrightarrow> \<not> b"
  by (simp add: code_if_def)

lemma sort_key_Nil_iff [simp]: "sort_key f xs = [] \<longleftrightarrow> xs = []"
proof -
  have "length (sort_key f xs) = length xs" by simp
  then show ?thesis by (metis length_0_conv)
qed

text \<open>A case the gate lets pass.\<close>

definition case_clear :: "ReviewGateSnapshot \<Rightarrow> GeneratedTestCase \<Rightarrow> bool" where
  "case_clear snap tc \<longleftrightarrow> (\<exists>e. reviewById snap (tc_id tc) = Some e
     \<and> (rs_state e = St_rejected \<or> released (rs_state e)
          \<and> (if rs_fourEyesEnforced e then \<not> fourEyesApprovalInconsistent e else True)))"

lemma gate_check_clear:
  "(\<not> unapprovedNonRejectedPresent (gate_check input) \<and> \<not> unknownReviewState (gate_check input)
     \<and> \<not> inconsistentFourEyesApproval (gate_check input)) \<longleftrightarrow>
   (\<forall>tc\<in>set (xi_testCases input). case_clear (xi_reviewSnapshot input) tc)"
  unfolding gate_check_flags case_clear_def by (auto split: if_splits) (metis not_Some_eq)+

lemma not_refused:
  assumes "detectRefusalCodes h input = Inr []"
  shows "\<forall>tc\<in>set (xi_testCases input). case_clear (xi_reviewSnapshot input) tc"
    and "gs_approvedCount (xi_reviewSnapshot input) \<noteq> 0" and "\<not> pr_blocked (xi_policy input)"
    and "validationBlocked h input = Inr False"
proof -
  have "(\<not> unapprovedNonRejectedPresent (gate_check input) \<and> \<not> unknownReviewState (gate_check input)
     \<and> \<not> inconsistentFourEyesApproval (gate_check input))
     \<and> gs_approvedCount (xi_reviewSnapshot input) \<noteq> 0 \<and> \<not> pr_blocked (xi_policy input)
     \<and> validationBlocked h input = Inr False"
    using assms by (auto simp: detectRefusalCodes_def Let_def split: sum.splits)
  then show "\<forall>tc\<in>set (xi_testCases input). case_clear (xi_reviewSnapshot input) tc"
    "gs_approvedCount (xi_reviewSnapshot input) \<noteq> 0" "\<not> pr_blocked (xi_policy input)"
    "validationBlocked h input = Inr False"
    unfolding gate_check_clear by simp_all
qed

lemma reviewById_SomeD:
  "reviewById snap i = Some e \<Longrightarrow> e \<in> set (gs_perTestCase snap) \<and> rs_testCaseId e = i"
  unfolding reviewById_def by (auto dest!: map_of_SomeD)

lemma reviewById_distinct:
  assumes "distinct (map rs_testCaseId (gs_perTestCase snap))" "e \<in> set (gs_perTestCase snap)"
  shows "reviewById snap (rs_testCaseId e) = Some e"
proof -
  have "distinct (map fst (rev (map (\<lambda>e. (rs_testCaseId e, e)) (gs_perTestCase snap))))"
    using assms(1) by (simp add: rev_map [symmetric] comp_def)
  then show ?thesis unfolding reviewById_def by (rule map_of_is_SomeI) (use assms(2) in simp)
qed

lemma count_stamped [simp]:
  "count_entry c (rs_state (stamp_entry ids ts e)) = count_entry c (rs_state e)"
  by (simp add: stamp_entry_def)

lemma merge_preview_id [simp]: "tc_id (merge_preview p tc) = tc_id tc"
  by (simp add: merge_preview_def split: option.splits)

lemma exported_from_list:
  assumes "tc \<in> set (buildExportedTestCases lc tcs snap preview)"
  obtains tc0 e where "tc0 \<in> set tcs" "tc_id tc0 = tc_id tc" "e \<in> set (gs_perTestCase snap)"
    "rs_testCaseId e = tc_id tc" "released (rs_state e)"
  using assms by (auto simp: buildExportedTestCases_def exportableIds_def)

section \<open>A concrete export\<close>

text \<open>The sample job after its second approval, exported with no validation findings.\<close>

definition sample_approved_ops :: "store_op list" where
  "sample_approved_ops = sample_ops @ [Op_record ''e2'' (sample_approval ''bob'' ''t2'')]"

definition sample_export :: "ReviewGateSnapshot \<Rightarrow> RunExportPipelineInput" where
  "sample_export snap = \<lparr> xi_jobId = ''job'', xi_generatedAt = ''t4'',
     xi_testCases = si_testCases sample_seed,
     xi_validation = \<lparr> tv_jobId = ''job'', tv_blocked = False, tv_issues = [] \<rparr>,
     xi_policy = sample_policy, xi_visual = None, xi_reviewSnapshot = snap,
     xi_semanticContentOverrides = None, xi_overrideAuthorityProvider = None \<rparr>"

lemma sample_export_accepted:
  "case readSnapshot ''job'' (store_run flat sample_approved_ops) of
     Inr (Some snap) \<Rightarrow> distinct (map rs_testCaseId (gs_perTestCase snap))
       \<and> map rs_fourEyesEnforced (gs_perTestCase snap) = [True]
       \<and> (case runExportPipeline flat sample_host [] (sample_export snap) of
            Inr out \<Rightarrow> map tc_id (xa_exportedTestCases out) = [''tc''] | _ \<Rightarrow> False)
   | _ \<Rightarrow> False"
  by code_simp

section \<open>Properties\<close>

text \<open>
  C27: The export gate refuses exactly when it should: no refusal code is raised if and only if the
  validation report does not block after overrides, neither the policy report nor the visual sidecar
  blocks, at least one case is approved, and every generated case has a review entry that is rejected,
  or is approved, exported or transferred and, under four-eyes review, names two different reviewers
  with approval times who both appear among the approvers.
\<close>

theorem export_gate_exact:
  "detectRefusalCodes h input = Inr [] \<longleftrightarrow>
     validationBlocked h input = Inr False \<and> \<not> pr_blocked (xi_policy input)
     \<and> (case xi_visual input of None \<Rightarrow> True | Some v \<Rightarrow> \<not> vr_blocked v)
     \<and> gs_approvedCount (xi_reviewSnapshot input) \<noteq> 0
     \<and> list_all (\<lambda>tc. case reviewById (xi_reviewSnapshot input) (tc_id tc) of
          None \<Rightarrow> False
        | Some e \<Rightarrow> rs_state e = St_rejected \<or>
            rs_state e \<in> {St_approved, St_exported, St_transferred}
            \<and> (if rs_fourEyesEnforced e
               then \<exists>p s tp ts. rs_primaryReviewer e = Some p \<and> rs_secondaryReviewer e = Some s \<and> p \<noteq> s
                      \<and> rs_primaryApprovalAt e = Some tp \<and> rs_secondaryApprovalAt e = Some ts
                      \<and> {p, s} \<subseteq> set (rs_approvers e)
               else True)) (xi_testCases input)"
proof -
  have clear: "case_clear (xi_reviewSnapshot input) tc \<longleftrightarrow>
      (case reviewById (xi_reviewSnapshot input) (tc_id tc) of
          None \<Rightarrow> False
        | Some e \<Rightarrow> rs_state e = St_rejected \<or>
            rs_state e \<in> {St_approved, St_exported, St_transferred}
            \<and> (if rs_fourEyesEnforced e
               then \<exists>p s tp ts. rs_primaryReviewer e = Some p \<and> rs_secondaryReviewer e = Some s \<and> p \<noteq> s
                      \<and> rs_primaryApprovalAt e = Some tp \<and> rs_secondaryApprovalAt e = Some ts
                      \<and> {p, s} \<subseteq> set (rs_approvers e)
               else True))" for tc
    by (auto simp: case_clear_def fourEyesApprovalInconsistent_def split: option.splits)
  show ?thesis
    unfolding list_all_iff clear [symmetric] gate_check_clear [symmetric]
    by (auto simp: detectRefusalCodes_def Let_def split: sum.splits option.splits)
qed

text \<open>
  C1: Nothing leaves the system without four-eyes evidence: when the pipeline exports from a snapshot
  that the review store holds and in which case ids are unique, every exported case has a review entry
  that is approved, exported or transferred, and if four-eyes review is enforced for it, two different
  principals approved it and the job's event log contains the primary approval event of the one and
  the secondary approval event of the other.
\<close>

theorem export_requires_logged_four_eyes:
  assumes "readSnapshot j (store_run lc ops) = Inr (Some (xi_reviewSnapshot input))"
    and "distinct (map rs_testCaseId (gs_perTestCase (xi_reviewSnapshot input)))"
    and "runExportPipeline lc h preview input = Inr out"
    and "tc \<in> set (xa_exportedTestCases out)"
  shows "\<exists>e evs. e \<in> set (gs_perTestCase (xi_reviewSnapshot input)) \<and> rs_testCaseId e = tc_id tc
     \<and> rs_state e \<in> {St_approved, St_exported, St_transferred}
     \<and> listEvents j (store_run lc ops) = Inr evs
     \<and> (if rs_fourEyesEnforced e
        then \<exists>p s tp ts. p \<noteq> s \<and> {p, s} \<subseteq> set (rs_approvers e)
           \<and> approval_logged evs Ev_primary_approved (tc_id tc) p tp
           \<and> approval_logged evs Ev_secondary_approved (tc_id tc) s ts
        else True)"
proof -
  let ?snap = "xi_reviewSnapshot input"
  have gate: "detectRefusalCodes h input = Inr []"
    and tc: "tc \<in> set (buildExportedTestCases lc (xi_testCases input) ?snap preview)"
    using assms(3,4) by (auto simp: runExportPipeline_def Let_def split: sum.splits if_splits)
  from tc obtain tc0 e where e: "tc0 \<in> set (xi_testCases input)" "tc_id tc0 = tc_id tc"
      "e \<in> set (gs_perTestCase ?snap)" "rs_testCaseId e = tc_id tc" "released (rs_state e)"
    by (rule exported_from_list)
  have "reviewById ?snap (tc_id tc0) = Some e"
    using reviewById_distinct [OF assms(2) e(3)] e(2,4) by simp
  with not_refused(1) [OF gate] e have four: "\<not> fourEyesApprovalInconsistent e" if "rs_fourEyesEnforced e"
    using that by (auto simp: case_clear_def)
  show ?thesis
  proof (rule store_inv_cases [OF store_run_inv [of lc ops], of j], goal_cases)
    case 1 with assms(1) show ?case by (simp add: readSnapshot_def)
  next
    case (2 env snap)
    have evs: "listEvents j (store_run lc ops) = Inr (pe_events env)" using 2 by (simp add: listEvents_def)
    have "logged_inv (pe_events env) e"
      using 2 e(3) assms(1) by (simp add: readSnapshot_def job_inv_def entry_inv_def)
    with four e(4) have "\<exists>p s tp ts. p \<noteq> s \<and> {p, s} \<subseteq> set (rs_approvers e)
        \<and> approval_logged (pe_events env) Ev_primary_approved (tc_id tc) p tp
        \<and> approval_logged (pe_events env) Ev_secondary_approved (tc_id tc) s ts" if "rs_fourEyesEnforced e"
      using that unfolding logged_inv_def fourEyesApprovalInconsistent_def by auto blast
    with evs e show ?case by auto
  qed
qed

theorem export_requires_logged_four_eyes_witness:
  "\<exists>snap e evs p s tp ts. readSnapshot ''job'' (store_run flat sample_approved_ops) = Inr (Some snap)
     \<and> e \<in> set (gs_perTestCase snap) \<and> listEvents ''job'' (store_run flat sample_approved_ops) = Inr evs
     \<and> p \<noteq> s \<and> approval_logged evs Ev_primary_approved ''tc'' p tp
     \<and> approval_logged evs Ev_secondary_approved ''tc'' s ts"
proof -
  obtain snap out where run: "readSnapshot ''job'' (store_run flat sample_approved_ops) = Inr (Some snap)"
      "distinct (map rs_testCaseId (gs_perTestCase snap))"
      "runExportPipeline flat sample_host [] (sample_export snap) = Inr out"
      "map tc_id (xa_exportedTestCases out) = [''tc'']"
      "map rs_fourEyesEnforced (gs_perTestCase snap) = [True]"
  proof (cases "readSnapshot ''job'' (store_run flat sample_approved_ops)")
    case (Inr r)
    with sample_export_accepted obtain snap where "r = Some snap" by (cases r) auto
    with Inr sample_export_accepted that show ?thesis
      by (cases "runExportPipeline flat sample_host [] (sample_export snap)") auto
  qed (use sample_export_accepted in simp)
  then obtain tc where tc: "xa_exportedTestCases out = [tc]" "tc_id tc = ''tc''" by auto
  have snap: "xi_reviewSnapshot (sample_export snap) = snap" by (simp add: sample_export_def)
  from run(5) have "\<forall>e\<in>set (gs_perTestCase snap). rs_fourEyesEnforced e" by auto
  with export_requires_logged_four_eyes [of "''job''" flat sample_approved_ops "sample_export snap"
      sample_host "[]" out tc] run tc
  show ?thesis unfolding snap by fastforce
qed

text \<open>
  Stamping the snapshot follows the review state machine: every entry keeps its identity, its
  approvals and its policy decision, its state is unchanged or is the one an \<open>exported\<close> event leads to,
  and the four counters are those of the entries before the stamp, because approved and exported cases
  are counted together.
\<close>

theorem stamp_follows_state_machine:
  "list_all2 (\<lambda>e e'. rs_testCaseId e' = rs_testCaseId e \<and> rs_approvers e' = rs_approvers e
        \<and> rs_policyDecision e' = rs_policyDecision e
        \<and> (rs_state e' = rs_state e \<or> TRANSITIONS Ev_exported (rs_state e) = Some (rs_state e')))
      (gs_perTestCase snap) (gs_perTestCase (stampSnapshotAsExported snap ids ts))
   \<and> computeCounts (gs_perTestCase (stampSnapshotAsExported snap ids ts)) = computeCounts (gs_perTestCase snap)"
proof -
  have "computeCounts (map (stamp_entry ids ts) es) = computeCounts es" for es
    by (simp add: computeCounts_def foldl_map del: count_entry.simps)
  then show ?thesis
    by (simp add: stampSnapshotAsExported_def Let_def list.rel_map list_all2_same stamp_entry_def)
qed

end
