(* ===== verification/ReviewStoreWrites.thy ===== *)
theory ReviewStoreWrites
  imports ReviewStoreRuns
begin

text \<open>
  The review store when writing fails (\<^verbatim>\<open>packages/production-runner/src/review-store.ts\<close>). Every operation
  that changes a job replaces its event log and then its snapshot, by two calls of \<^verbatim>\<open>writeAtomicJson\<close>
  with nothing between them and no rollback. Each call may throw and then leaves its file as it was. The
  operations are stated here with these two steps and their failures; without a failure they are the
  operations of the theory \<^verbatim>\<open>ReviewStore\<close>. What survives every failure is that the log is never behind
  the snapshot.
\<close>

section \<open>Two writes, either of which may fail\<close>

datatype write_fault = No_fault | Events_write_fails | Snapshot_write_fails

datatype 'r io_result = Returned 'r | Raised store_error | Write_failed

text \<open>The last two writes of an operation and the value it returns after them.\<close>

definition persist ::
  "write_fault \<Rightarrow> string \<Rightarrow> PersistedReviewEventsEnvelope \<Rightarrow> ReviewGateSnapshot \<Rightarrow> 'r \<Rightarrow> review_fs \<Rightarrow>
     'r io_result \<times> review_fs" where
  "persist fault jobId envelope snapshot result fs =
     (if fault = Events_write_fails then (Write_failed, fs)
      else
        let logged = writeEvents jobId envelope fs
        in if fault = Snapshot_write_fails then (Write_failed, logged)
           else (Returned result, writeSnapshot jobId snapshot logged))"

definition seedSnapshot_io ::
  "string comparator \<Rightarrow> (nat \<Rightarrow> string) \<Rightarrow> MultiSourceConflict list option \<Rightarrow>
   (string \<rightharpoonup> InspectorConflictDecisionSnapshot) \<Rightarrow> SeedSnapshotInput \<Rightarrow> write_fault \<Rightarrow> review_fs \<Rightarrow>
     ReviewGateSnapshot io_result \<times> review_fs" where
  "seedSnapshot_io lc uuid conflicts decisions input fault fs =
     (case readSnapshotInternal (si_jobId input) fs of
        Inl err \<Rightarrow> (Raised err, fs)
      | Inr (Some existing) \<Rightarrow> (Returned existing, fs)
      | Inr None \<Rightarrow>
          let policy = readConflictAwarePolicy conflicts decisions (si_policy input);
              tcs = enumerate 0 (si_testCases input);
              events = map (\<lambda>(i, tc). seed_event input policy (uuid i) (Suc i) tc) tcs;
              entries = map (\<lambda>(i, tc). seed_entry input policy (uuid i) tc) tcs;
              snapshot = with_entries lc entries
                \<lparr> gs_jobId = si_jobId input, gs_generatedAt = si_generatedAt input,
                  gs_perTestCase = [], gs_approvedCount = 0, gs_needsReviewCount = 0,
                  gs_rejectedCount = 0, gs_pendingSecondaryApprovalCount = None,
                  gs_fourEyesPolicy = map_option cloneFourEyesPolicy (si_fourEyesPolicy input) \<rparr>;
              envelope = \<lparr> pe_jobId = si_jobId input, pe_events = events,
                pe_nextSequence = Suc (length tcs) \<rparr>
          in persist fault (si_jobId input) envelope snapshot snapshot fs)"

definition recordTransition_io ::
  "string comparator \<Rightarrow> string \<Rightarrow> RecordTransitionInput \<Rightarrow> write_fault \<Rightarrow> review_fs \<Rightarrow>
     (RecordRefusal + (ReviewEvent \<times> ReviewGateSnapshot)) io_result \<times> review_fs" where
  "recordTransition_io lc eventId input fault fs =
     (if (case ti_note input of None \<Rightarrow> False | Some n \<Rightarrow> length n > NOTE_MAX_LENGTH)
      then (Returned (Inl Note_too_long), fs)
      else if (case ti_actor input of None \<Rightarrow> False | Some a \<Rightarrow> length a > ACTOR_MAX_LENGTH)
      then (Returned (Inl Actor_too_long), fs)
      else case kind_of_str (ti_kind input) of
        None \<Rightarrow> (Returned (Inl Kind_unknown), fs)
      | Some kind \<Rightarrow>
          (case readEnvelope (ti_jobId input) fs of
             Inl err \<Rightarrow> (Raised err, fs)
           | Inr env' \<Rightarrow>
               (case readSnapshotInternal (ti_jobId input) fs of
                  Inl err \<Rightarrow> (Raised err, fs)
                | Inr snap' \<Rightarrow>
                    (case (env', snap') of
                       (Some env, Some snap) \<Rightarrow>
                         (case decide_transition eventId input kind (pe_nextSequence env) (gs_perTestCase snap) of
                            Inl code \<Rightarrow> (Returned (Inl code), fs)
                          | Inr (ev, nextEntries) \<Rightarrow>
                              let newSnapshot = with_entries lc nextEntries snap
                              in persist fault (ti_jobId input) (append_event ev env) newSnapshot
                                   (Inr (ev, newSnapshot)) fs)
                     | _ \<Rightarrow> (Returned (Inl Snapshot_missing), fs)))))"

definition refreshPolicyDecisions_io ::
  "string comparator \<Rightarrow> string \<Rightarrow> MultiSourceConflict list option \<Rightarrow>
   (string \<rightharpoonup> InspectorConflictDecisionSnapshot) \<Rightarrow> RefreshPolicyDecisionsInput \<Rightarrow> write_fault \<Rightarrow> review_fs \<Rightarrow>
     (RefreshRefusal + (ReviewGateSnapshot \<times> nat \<times> ReviewEvent option)) io_result \<times> review_fs" where
  "refreshPolicyDecisions_io lc eventId conflicts decisions input fault fs =
     (case readEnvelope (ri_jobId input) fs of
        Inl err \<Rightarrow> (Raised err, fs)
      | Inr env' \<Rightarrow>
          (case readSnapshotInternal (ri_jobId input) fs of
             Inl err \<Rightarrow> (Raised err, fs)
           | Inr snap' \<Rightarrow>
               (case (env', snap') of
                  (Some env, Some snap) \<Rightarrow>
                    let policy = readConflictAwarePolicy conflicts decisions (ri_policy input)
                    in if pr_jobId policy \<noteq> ri_jobId input
                       then (Returned (Inl Policy_report_job_mismatch), fs)
                       else if pr_totalTestCases policy \<noteq> length (gs_perTestCase snap)
                       then (Returned (Inl Policy_report_test_case_mismatch), fs)
                       else (case collect_decisions (map rs_testCaseId (gs_perTestCase snap))
                                    (pr_decisions policy) [] of
                               None \<Rightarrow> (Returned (Inl Policy_report_test_case_mismatch), fs)
                             | Some ds \<Rightarrow>
                                 let changed = changed_entries policy ds (gs_perTestCase snap)
                                 in if changed = [] then (Returned (Inr (snap, 0, None)), fs)
                                    else
                                      let ev = refresh_event input eventId policy (length changed) (pe_nextSequence env);
                                          next = with_entries lc
                                            (settle_entries eventId (ri_at input) changed (gs_perTestCase snap)) snap
                                      in persist fault (ri_jobId input) (append_event ev env) next
                                           (Inr (next, length changed, Some ev)) fs)
                | _ \<Rightarrow> (Returned (Inl Refresh_snapshot_missing), fs))))"

text \<open>Without a fault these are the operations of the store.\<close>

definition completed :: "review_fs \<Rightarrow> store_error + ('r \<times> review_fs) \<Rightarrow> 'r io_result \<times> review_fs" where
  "completed fs res = (case res of Inl err \<Rightarrow> (Raised err, fs) | Inr (r, fs') \<Rightarrow> (Returned r, fs'))"

lemma completed_simps [simp]:
  "completed fs (Inl err) = (Raised err, fs)" "completed fs (Inr (r, fs')) = (Returned r, fs')"
  by (simp_all add: completed_def)

lemma persist_ok [simp]:
  "persist No_fault j env snap r fs = (Returned r, writeSnapshot j snap (writeEvents j env fs))"
  by (simp add: persist_def Let_def)

lemma no_fault:
  "seedSnapshot_io lc uuid conflicts decisions seed No_fault fs =
     completed fs (seedSnapshot lc uuid conflicts decisions seed fs)"
  "recordTransition_io lc eid input No_fault fs = completed fs (recordTransition lc eid input fs)"
  "refreshPolicyDecisions_io lc eid conflicts decisions refresh No_fault fs =
     completed fs (refreshPolicyDecisions lc eid conflicts decisions refresh fs)"
  by (auto simp: seedSnapshot_io_def seedSnapshot_def recordTransition_io_def recordTransition_def
      refreshPolicyDecisions_io_def refreshPolicyDecisions_def Let_def split: sum.split option.split)

section \<open>The invariant of interrupted stores\<close>

text \<open>
  A job is absent, or its log is written and its snapshot not yet (a seeding was interrupted), or both are
  there. In the last case the log may hold more events than the snapshot reflects, never fewer.
\<close>

definition log_ok :: "string \<Rightarrow> PersistedReviewEventsEnvelope \<Rightarrow> bool" where
  "log_ok j env \<longleftrightarrow> envelope_ok env \<and> pe_jobId env = j \<and> log_inv env"

definition job_readable :: "string comparator \<Rightarrow> review_fs \<Rightarrow> string \<Rightarrow> bool" where
  "job_readable lc fs j \<longleftrightarrow>
     (readSnapshotInternal j fs = Inr None
        \<and> (readEnvelope j fs = Inr None \<or> (\<exists>env. readEnvelope j fs = Inr (Some env) \<and> log_ok j env)))
     \<or> (\<exists>env snap. readEnvelope j fs = Inr (Some env) \<and> readSnapshotInternal j fs = Inr (Some snap)
          \<and> job_inv lc j env snap)"

definition crash_inv :: "string comparator \<Rightarrow> review_fs \<Rightarrow> bool" where
  "crash_inv lc fs \<longleftrightarrow> (\<forall>j. job_readable lc fs j)"

lemma crash_inv_cases:
  assumes "crash_inv lc fs"
  obtains (absent) "readSnapshotInternal j fs = Inr None" "readEnvelope j fs = Inr None"
  | (seeding) env where "readSnapshotInternal j fs = Inr None" "readEnvelope j fs = Inr (Some env)" "log_ok j env"
  | (present) env snap where "readEnvelope j fs = Inr (Some env)"
      "readSnapshotInternal j fs = Inr (Some snap)" "job_inv lc j env snap"
  using assms unfolding crash_inv_def job_readable_def by blast

lemma job_inv_log_ok: "job_inv lc j env snap \<Longrightarrow> log_ok j env"
  by (simp add: job_inv_def log_ok_def)

text \<open>The events of a log and the snapshot of a job in a store after one or both writes.\<close>

lemma read_logged:
  assumes "log_ok j env"
  shows "readEnvelope k (writeEvents j env fs) = (if k = j then Inr (Some env) else readEnvelope k fs)"
  using assms by (simp add: events_file.read_write_eq log_ok_def)

lemma read_stored:
  assumes "job_inv lc j env snap"
  shows "readSnapshotInternal k (writeSnapshot j snap fs) = (if k = j then Inr (Some snap) else readSnapshotInternal k fs)"
  using assms by (simp add: snapshot_file.read_write_eq job_inv_def)

lemma crash_inv_write_both:
  assumes "crash_inv lc fs" "job_inv lc j env snap"
  shows "crash_inv lc (writeSnapshot j snap (writeEvents j env fs))"
  using assms(1)
  by (auto simp: crash_inv_def job_readable_def read_logged [OF job_inv_log_ok [OF assms(2)]] read_stored [OF assms(2)] assms(2))

lemma crash_inv_write_log:
  assumes "crash_inv lc fs" "log_ok j env"
    and "readSnapshotInternal j fs = Inr None \<or> (\<exists>snap. readSnapshotInternal j fs = Inr (Some snap) \<and> job_inv lc j env snap)"
  shows "crash_inv lc (writeEvents j env fs)"
  using assms(1,3) by (auto simp: crash_inv_def job_readable_def read_logged [OF assms(2)] assms(2))

text \<open>A longer log still covers the old snapshot.\<close>

lemma job_inv_log_ahead:
  assumes "job_inv lc j env snap" "event_ok ev" "ev_sequence ev = pe_nextSequence env" "ev_jobId ev = j"
  shows "job_inv lc j (append_event ev env) snap"
proof -
  have "\<forall>r\<in>set (gs_perTestCase snap). entry_inv (pe_events env @ [ev]) r"
    using assms(1) entry_inv_append by (simp add: job_inv_def)
  from job_inv_append [OF assms this] show ?thesis using assms(1) by (simp add: job_inv_def)
qed

section \<open>Every operation keeps the invariant, whatever fails\<close>

lemma crash_inv_persist:
  assumes "crash_inv lc fs" "job_inv lc j env snap"
    and "readSnapshotInternal j fs = Inr None \<or> (\<exists>old. readSnapshotInternal j fs = Inr (Some old) \<and> job_inv lc j env old)"
  shows "crash_inv lc (snd (persist fault j env snap r fs))"
  using assms crash_inv_write_both [OF assms(1,2)] crash_inv_write_log [OF assms(1) job_inv_log_ok [OF assms(2)] assms(3)]
  by (simp add: persist_def Let_def)

lemma seedSnapshot_io_inv:
  assumes "crash_inv lc fs"
  shows "crash_inv lc (snd (seedSnapshot_io lc uuid conflicts decisions input fault fs))"
proof (cases "readSnapshotInternal (si_jobId input) fs")
  case (Inr found)
  show ?thesis
  proof (cases found)
    case None
    with Inr have absent: "readSnapshotInternal (si_jobId input) fs = Inr None" by simp
    show ?thesis
      unfolding seedSnapshot_io_def absent sum.case option.case Let_def length_enumerate
      by (rule crash_inv_persist [OF assms seed_job_inv]) (simp add: absent)
  qed (simp add: seedSnapshot_io_def Inr assms)
qed (simp add: seedSnapshot_io_def assms)

lemma recordTransition_io_cases:
  assumes "crash_inv lc fs"
  obtains (refused) code where "recordTransition_io lc eid input fault fs = (Returned (Inl code), fs)"
  | (decided) env snap ev es where
      "readEnvelope (ti_jobId input) fs = Inr (Some env)"
      "readSnapshotInternal (ti_jobId input) fs = Inr (Some snap)"
      "job_inv lc (ti_jobId input) (append_event ev env) snap"
      "job_inv lc (ti_jobId input) (append_event ev env) (with_entries lc es snap)"
      "recordTransition_io lc eid input fault fs =
         persist fault (ti_jobId input) (append_event ev env) (with_entries lc es snap)
           (Inr (ev, with_entries lc es snap)) fs"
proof (cases "\<exists>code. recordTransition_io lc eid input fault fs = (Returned (Inl code), fs)")
  case True
  then show ?thesis using refused by blast
next
  case False
  show ?thesis
  proof (rule crash_inv_cases [OF assms, of "ti_jobId input"], goal_cases)
    case 1
    then show ?case using False by (auto simp: recordTransition_io_def split: option.splits if_splits)
  next
    case (2 env)
    then show ?case using False by (auto simp: recordTransition_io_def split: option.splits if_splits)
  next
    case (3 env snap)
    with False obtain kind ev es where dec:
        "decide_transition eid input kind (pe_nextSequence env) (gs_perTestCase snap) = Inr (ev, es)"
        "recordTransition_io lc eid input fault fs =
           persist fault (ti_jobId input) (append_event ev env) (with_entries lc es snap)
             (Inr (ev, with_entries lc es snap)) fs"
      by (auto simp: recordTransition_io_def Let_def split: option.splits sum.splits if_splits)
    have "event_ok ev \<and> ev_sequence ev = pe_nextSequence env \<and> ev_jobId ev = ti_jobId input"
      using 3(3) by (rule_tac decide_transition_event [OF dec(1)])
        (auto simp: job_inv_def envelope_ok_def, auto simp: build_event_def)
    then have event: "event_ok ev" "ev_sequence ev = pe_nextSequence env" "ev_jobId ev = ti_jobId input" by simp_all
    have "\<forall>r\<in>set es. entry_inv (pe_events env @ [ev]) r"
      by (rule decide_transition_inv [OF dec(1)]) (use 3(3) in \<open>simp add: job_inv_def\<close>)
    then show ?case
      using decided [OF 3(1,2) job_inv_log_ahead [OF 3(3) event] job_inv_append [OF 3(3) event] dec(2)] by blast
  qed
qed

lemma refreshPolicyDecisions_io_cases:
  assumes "crash_inv lc fs"
  obtains (kept) res where "refreshPolicyDecisions_io lc eid conflicts decisions input fault fs = (Returned res, fs)"
  | (decided) env snap ev es r where
      "readSnapshotInternal (ri_jobId input) fs = Inr (Some snap)"
      "job_inv lc (ri_jobId input) (append_event ev env) snap"
      "job_inv lc (ri_jobId input) (append_event ev env) (with_entries lc es snap)"
      "refreshPolicyDecisions_io lc eid conflicts decisions input fault fs =
         persist fault (ri_jobId input) (append_event ev env) (with_entries lc es snap) r fs"
proof (cases "\<exists>res. refreshPolicyDecisions_io lc eid conflicts decisions input fault fs = (Returned res, fs)")
  case True
  then show ?thesis using kept by blast
next
  case False
  show ?thesis
  proof (rule crash_inv_cases [OF assms, of "ri_jobId input"], goal_cases)
    case 1
    then show ?case using False by (auto simp: refreshPolicyDecisions_io_def)
  next
    case (2 env)
    then show ?case using False by (auto simp: refreshPolicyDecisions_io_def)
  next
    case (3 env snap)
    let ?policy = "readConflictAwarePolicy conflicts decisions (ri_policy input)"
    from False 3 obtain ds where ds:
        "refreshPolicyDecisions_io lc eid conflicts decisions input fault fs =
          (let changed = changed_entries ?policy ds (gs_perTestCase snap);
               ev = refresh_event input eid ?policy (length changed) (pe_nextSequence env);
               next = with_entries lc (settle_entries eid (ri_at input) changed (gs_perTestCase snap)) snap
           in persist fault (ri_jobId input) (append_event ev env) next (Inr (next, length changed, Some ev)) fs)"
      by (auto simp: refreshPolicyDecisions_io_def Let_def split: option.splits if_splits)
    let ?changed = "changed_entries ?policy ds (gs_perTestCase snap)"
    let ?ev = "refresh_event input eid ?policy (length ?changed) (pe_nextSequence env)"
    have event: "event_ok ?ev" "ev_sequence ?ev = pe_nextSequence env" "ev_jobId ?ev = ri_jobId input"
      using 3(3) by (auto simp: job_inv_def envelope_ok_def, auto simp: refresh_event_def)
    have inv: "\<forall>r\<in>set (gs_perTestCase snap). entry_inv (pe_events env @ [?ev]) r"
      using 3(3) entry_inv_append by (auto simp: job_inv_def)
    show ?case
      using decided [OF 3(2) job_inv_log_ahead [OF 3(3) event]
          job_inv_append [OF 3(3) event settle_entries_inv [OF inv changed_entries_inv [OF inv]]]] ds
      by (simp add: Let_def)
  qed
qed

section \<open>Stores after operations that may fail\<close>

text \<open>An operation with the failure it meets, and the files it leaves behind.\<close>

fun io_step :: "string comparator \<Rightarrow> review_fs \<Rightarrow> store_op \<times> write_fault \<Rightarrow> review_fs" where
  "io_step lc fs (Op_seed uuid conflicts decisions input, fault) =
     snd (seedSnapshot_io lc uuid conflicts decisions input fault fs)"
| "io_step lc fs (Op_record eid input, fault) = snd (recordTransition_io lc eid input fault fs)"
| "io_step lc fs (Op_refresh eid conflicts decisions input, fault) =
     snd (refreshPolicyDecisions_io lc eid conflicts decisions input fault fs)"

definition io_run :: "string comparator \<Rightarrow> (store_op \<times> write_fault) list \<Rightarrow> review_fs" where
  "io_run lc ops = foldl (io_step lc) empty_fs ops"

lemma completed_files: "snd (completed fs res) = files_after fs res"
  by (simp add: completed_def files_after_def split: sum.split prod.split)

text \<open>Where nothing fails the stores are those of the fault-free operations.\<close>

lemma io_run_no_fault: "io_run lc (map (\<lambda>op. (op, No_fault)) ops) = store_run lc ops"
proof -
  have "io_step lc fs (op, No_fault) = store_step lc fs op" for fs op
    by (cases op) (simp_all add: no_fault completed_files)
  then show ?thesis by (simp add: io_run_def foldl_map)
qed

lemma io_step_inv:
  assumes "crash_inv lc fs"
  shows "crash_inv lc (io_step lc fs op)"
proof (cases "(lc, fs, op)" rule: io_step.cases)
  case (1 lc' fs' uuid conflicts decisions input fault)
  then show ?thesis using seedSnapshot_io_inv [OF assms] by simp
next
  case (2 lc' fs' eid input fault)
  then show ?thesis
    using assms by (cases rule: recordTransition_io_cases [OF assms, of eid input fault]) (auto intro: crash_inv_persist)
next
  case (3 lc' fs' eid conflicts decisions input fault)
  then show ?thesis
    using assms by (cases rule: refreshPolicyDecisions_io_cases [OF assms, of eid conflicts decisions input fault])
      (auto intro: crash_inv_persist)
qed

interpretation io: invariant_machine "io_step lc" "crash_inv lc" for lc
  by unfold_locales (rule io_step_inv)

lemma io_run_inv: "crash_inv lc (io_run lc ops)"
  unfolding io_run_def by (rule io.run_inv)
    (simp add: crash_inv_def job_readable_def empty_fs_def readEnvelope_def readSnapshotInternal_def)

lemma log_gap_free:
  assumes "log_ok j env"
  shows "map ev_sequence (pe_events env) = [1..<Suc (length (pe_events env))]"
proof -
  from assms have "map ev_sequence (pe_events env) = [1..<pe_nextSequence env]" "1 \<le> pe_nextSequence env"
    by (simp_all add: log_ok_def log_inv_def envelope_ok_def)
  then show ?thesis by (metis length_map length_upt le_add_diff_inverse plus_1_eq_Suc)
qed

lemma listEvents_logged:
  "log_ok k env \<Longrightarrow> listEvents j (writeEvents k env fs) = (if j = k then Inr (pe_events env) else listEvents j fs)"
  by (simp add: listEvents_def read_logged)

lemma listEvents_snapshot [simp]: "listEvents j (writeSnapshot k snap fs) = listEvents j fs"
  by (simp add: listEvents_def)

text \<open>The log of job \<open>j\<close> has one more event; other jobs are as they were.\<close>

definition event_appended :: "string \<Rightarrow> ReviewEvent \<Rightarrow> review_fs \<Rightarrow> review_fs \<Rightarrow> bool" where
  "event_appended j ev fs fs' \<longleftrightarrow> (\<exists>evs. listEvents j fs = Inr evs \<and> listEvents j fs' = Inr (evs @ [ev]))"

definition others_kept :: "string \<Rightarrow> review_fs \<Rightarrow> review_fs \<Rightarrow> bool" where
  "others_kept j fs fs' \<longleftrightarrow>
     (\<forall>i. i = j \<or> listEvents i fs' = listEvents i fs \<and> readSnapshot i fs' = readSnapshot i fs)"

text \<open>
  C26: The log is written ahead of the snapshot. After any sequence of operations on the store, each of which may
  have lost either of its two writes, every job is still readable, its log has no gap, and every entry of
  its snapshot satisfies the four-eyes invariant with every approval it names in the log; so no failure
  leaves an approval without its event. Recording a transition then either refuses and writes nothing, or
  meets no failure, appends exactly the event it returns and stores the snapshot it returns, or throws: if
  the first write failed nothing has changed, if the second failed one event is in the log that the
  unchanged snapshot does not reflect, so the pair of writes is not atomic. Other jobs never change.
\<close>

theorem log_is_never_behind_snapshot:
  "let fs = io_run lc ops; j = ti_jobId input in
   (case (listEvents k fs, readSnapshot k fs) of
      (Inr evs, Inr stored) \<Rightarrow>
        map ev_sequence evs = [1..<Suc (length evs)]
        \<and> (case stored of None \<Rightarrow> True | Some snap \<Rightarrow> list_all (entry_inv evs) (gs_perTestCase snap))
    | _ \<Rightarrow> False)
   \<and> (case recordTransition_io lc eid input fault fs of
        (Raised err, fs') \<Rightarrow> False
      | (Returned (Inl code), fs') \<Rightarrow> fs' = fs
      | (Returned (Inr (ev, snap)), fs') \<Rightarrow>
          fault = No_fault \<and> event_appended j ev fs fs' \<and> readSnapshot j fs' = Inr (Some snap) \<and> others_kept j fs fs'
      | (Write_failed, fs') \<Rightarrow>
          if fault = Events_write_fails then fs' = fs
          else fault = Snapshot_write_fails \<and> (\<exists>ev. event_appended j ev fs fs')
            \<and> readSnapshot j fs' = readSnapshot j fs \<and> others_kept j fs fs')"
proof -
  let ?fs = "io_run lc ops" and ?j = "ti_jobId input"
  have "case (listEvents k ?fs, readSnapshot k ?fs) of
      (Inr evs, Inr stored) \<Rightarrow>
        map ev_sequence evs = [1..<Suc (length evs)]
        \<and> (case stored of None \<Rightarrow> True | Some snap \<Rightarrow> list_all (entry_inv evs) (gs_perTestCase snap))
    | _ \<Rightarrow> False"
  proof (rule crash_inv_cases [OF io_run_inv [of lc ops], of k], goal_cases)
    case 1
    then show ?case by (simp add: listEvents_def readSnapshot_def)
  next
    case (2 env)
    then show ?case using log_gap_free by (simp add: listEvents_def readSnapshot_def)
  next
    case (3 env snap)
    then have "list_all (entry_inv (pe_events env)) (gs_perTestCase snap)" by (simp add: job_inv_def list_all_iff)
    then show ?case using 3 log_gap_free [OF job_inv_log_ok [OF 3(3)]] by (simp add: listEvents_def readSnapshot_def)
  qed
  moreover have "case recordTransition_io lc eid input fault ?fs of
        (Raised err, fs') \<Rightarrow> False
      | (Returned (Inl code), fs') \<Rightarrow> fs' = ?fs
      | (Returned (Inr (ev, snap)), fs') \<Rightarrow>
          fault = No_fault \<and> event_appended ?j ev ?fs fs' \<and> readSnapshot ?j fs' = Inr (Some snap) \<and> others_kept ?j ?fs fs'
      | (Write_failed, fs') \<Rightarrow>
          if fault = Events_write_fails then fs' = ?fs
          else fault = Snapshot_write_fails \<and> (\<exists>ev. event_appended ?j ev ?fs fs')
            \<and> readSnapshot ?j fs' = readSnapshot ?j ?fs \<and> others_kept ?j ?fs fs'"
  proof (rule recordTransition_io_cases [OF io_run_inv [of lc ops], of eid input fault], goal_cases)
    case (2 env snap ev es)
    let ?logged = "writeEvents ?j (append_event ev env) ?fs"
    have "event_appended ?j ev ?fs ?logged" "others_kept ?j ?fs ?logged"
      using 2(1) listEvents_logged [OF job_inv_log_ok [OF 2(3)]]
      by (simp_all add: event_appended_def others_kept_def, simp add: listEvents_def append_event_def)
    then show ?case
      unfolding 2(5) using readSnapshot_write [OF 2(4)]
      by (cases fault) (auto simp: persist_def Let_def event_appended_def others_kept_def)
  qed simp
  ultimately show ?thesis by (simp add: Let_def)
qed

end
