(* ===== verification/CircuitBreaker.thy ===== *)
theory CircuitBreaker
  imports Prelude
begin

text \<open>
  The circuit breaker of \<^verbatim>\<open>packages/model-gateway/src/llm-circuit-breaker.ts\<close>.

  The closure's \<^verbatim>\<open>current\<close> is the record \<open>InternalState\<close>. Every operation reads the clock at most
  once, so it takes one reading \<open>now\<close>; the transition events passed to \<^verbatim>\<open>onStateTransition\<close> are
  returned in order. The compare-and-swap loops are recursive functions into \<^verbatim>\<open>option\<close>: a call
  that never commits has the value \<^const>\<open>None\<close>, and it is proved that every call returns.
  Millisecond values are exact rationals.
\<close>

section \<open>Data\<close>

datatype LlmCircuitState = Closed | Open | Half_open

datatype LlmCircuitTransitionTrigger =
    Failure_threshold_reached | Reset_timeout_elapsed | Probe_failed | Probe_succeeded
  | Non_transient_outcome

record LlmCircuitSnapshot =
  sn_state :: LlmCircuitState
  sn_consecutiveFailures :: int
  sn_failureThreshold :: int
  sn_resetTimeoutMs :: rat
  sn_nextProbeAt :: "rat option"
  sn_probeInFlight :: bool

record LlmCircuitDecision =
  allowRequest :: bool
  cd_snapshot :: LlmCircuitSnapshot

record LlmCircuitTransitionEvent =
  te_fromState :: LlmCircuitState
  te_toState :: LlmCircuitState
  te_trigger :: LlmCircuitTransitionTrigger
  te_atMs :: rat
  te_snapshot :: LlmCircuitSnapshot

record LlmCircuitPersistentState =
  ps_state :: LlmCircuitState
  ps_consecutiveFailures :: int
  ps_openedAtMs :: "rat option"

record InternalState =
  is_state :: LlmCircuitState
  is_consecutiveFailures :: int
  is_openedAt :: "rat option"
  is_probeInFlight :: bool
  is_version :: nat

record breaker_config =
  failureThreshold :: int
  resetTimeoutMs :: rat

datatype breaker_error = Failure_threshold_invalid | Reset_timeout_invalid

section \<open>Construction\<close>

text \<open>\<open>threshold\<close> and \<open>timeout\<close> are unchecked numbers of the caller.\<close>

definition createLlmCircuitBreaker ::
  "js_number \<Rightarrow> js_number \<Rightarrow> LlmCircuitPersistentState option \<Rightarrow>
     breaker_error + (breaker_config \<times> InternalState)" where
  "createLlmCircuitBreaker threshold timeout initialState =
     (if \<not> isInteger threshold \<or> js_less threshold 1 then Inl Failure_threshold_invalid
      else if \<not> isFinite timeout \<or> js_less timeout 0 then Inl Reset_timeout_invalid
      else case (threshold, timeout) of
        (Fin t, Fin r) \<Rightarrow>
          Inr (\<lparr> failureThreshold = \<lfloor>t\<rfloor>, resetTimeoutMs = r \<rparr>,
            (case initialState of
               None \<Rightarrow> \<lparr> is_state = Closed, is_consecutiveFailures = 0, is_openedAt = None,
                        is_probeInFlight = False, is_version = 0 \<rparr>
             | Some p \<Rightarrow> \<lparr> is_state = ps_state p,
                        is_consecutiveFailures = max 0 (ps_consecutiveFailures p),
                        is_openedAt = ps_openedAtMs p, is_probeInFlight = False, is_version = 0 \<rparr>))
      | _ \<Rightarrow> Inl Reset_timeout_invalid)"

definition toNextProbeAt :: "breaker_config \<Rightarrow> InternalState \<Rightarrow> rat option" where
  "toNextProbeAt cfg s = map_option (\<lambda>t. t + resetTimeoutMs cfg) (is_openedAt s)"

definition toSnapshot :: "breaker_config \<Rightarrow> InternalState \<Rightarrow> LlmCircuitSnapshot" where
  "toSnapshot cfg s =
     \<lparr> sn_state = is_state s, sn_consecutiveFailures = is_consecutiveFailures s,
       sn_failureThreshold = failureThreshold cfg, sn_resetTimeoutMs = resetTimeoutMs cfg,
       sn_nextProbeAt = toNextProbeAt cfg s, sn_probeInFlight = is_probeInFlight s \<rparr>"

section \<open>Transitions\<close>

text \<open>
  \<open>next\<close> carries the new fields, its version is ignored. The result says whether the transition
  committed, and gives the snapshot, the new state and the events handed to the callback.
\<close>

definition transitionTo ::
  "breaker_config \<Rightarrow> nat \<Rightarrow> InternalState \<Rightarrow> rat \<Rightarrow> LlmCircuitTransitionTrigger option \<Rightarrow> InternalState \<Rightarrow>
     bool \<times> LlmCircuitSnapshot \<times> InternalState \<times> LlmCircuitTransitionEvent list" where
  "transitionTo cfg expectedVersion next now trigger current =
     (if is_version current \<noteq> expectedVersion then (False, toSnapshot cfg current, current, [])
      else if \<not> (is_state current \<noteq> is_state next
                 \<or> is_consecutiveFailures current \<noteq> is_consecutiveFailures next
                 \<or> is_openedAt current \<noteq> is_openedAt next
                 \<or> is_probeInFlight current \<noteq> is_probeInFlight next)
      then (True, toSnapshot cfg current, current, [])
      else
        let current' = next \<lparr> is_version := Suc (is_version current) \<rparr>;
            snapshot = toSnapshot cfg current'
        in (True, snapshot, current',
            (case trigger of
               Some tr \<Rightarrow>
                 if is_state current \<noteq> is_state current'
                 then [\<lparr> te_fromState = is_state current, te_toState = is_state current',
                         te_trigger = tr, te_atMs = now, te_snapshot = snapshot \<rparr>]
                 else []
             | None \<Rightarrow> [])))"

abbreviation closed_state :: InternalState where
  "closed_state \<equiv> \<lparr> is_state = Closed, is_consecutiveFailures = 0, is_openedAt = None,
     is_probeInFlight = False, is_version = 0 \<rparr>"

partial_function (option) reset ::
  "breaker_config \<Rightarrow> (InternalState \<Rightarrow> LlmCircuitTransitionTrigger) \<Rightarrow> rat \<Rightarrow> InternalState \<Rightarrow>
     (LlmCircuitSnapshot \<times> InternalState \<times> LlmCircuitTransitionEvent list) option" where
  "reset cfg resolveTrigger now observed =
     (case transitionTo cfg (is_version observed) closed_state now (Some (resolveTrigger observed)) observed of
        (committed, snapshot, current, evs) \<Rightarrow>
          if committed then Some (snapshot, current, evs)
          else reset cfg resolveTrigger now current)"

text \<open>\<open>acc\<close> collects the events emitted by earlier rounds of the loop.\<close>

partial_function (option) beforeRequest_loop ::
  "breaker_config \<Rightarrow> rat \<Rightarrow> InternalState \<Rightarrow> LlmCircuitTransitionEvent list \<Rightarrow>
     (LlmCircuitDecision \<times> InternalState \<times> LlmCircuitTransitionEvent list) option" where
  "beforeRequest_loop cfg now observed acc =
     (if is_state observed = Open then
        (if (case toNextProbeAt cfg observed of None \<Rightarrow> False | Some t \<Rightarrow> now \<ge> t)
         then (case transitionTo cfg (is_version observed)
                      (observed \<lparr> is_state := Half_open, is_probeInFlight := False \<rparr>) now
                      (Some Reset_timeout_elapsed) observed of
                 (committed, snapshot, current, evs) \<Rightarrow> beforeRequest_loop cfg now current (acc @ evs))
         else Some (\<lparr> allowRequest = False, cd_snapshot = toSnapshot cfg observed \<rparr>, observed, acc))
      else if is_state observed = Half_open then
        (if is_probeInFlight observed
         then Some (\<lparr> allowRequest = False, cd_snapshot = toSnapshot cfg observed \<rparr>, observed, acc)
         else (case transitionTo cfg (is_version observed) (observed \<lparr> is_probeInFlight := True \<rparr>) now
                      None observed of
                 (committed, snapshot, current, evs) \<Rightarrow>
                   if \<not> committed then beforeRequest_loop cfg now current (acc @ evs)
                   else Some (\<lparr> allowRequest = True, cd_snapshot = snapshot \<rparr>, current, acc @ evs)))
      else Some (\<lparr> allowRequest = True, cd_snapshot = toSnapshot cfg observed \<rparr>, observed, acc))"

definition beforeRequest ::
  "breaker_config \<Rightarrow> rat \<Rightarrow> InternalState \<Rightarrow>
     (LlmCircuitDecision \<times> InternalState \<times> LlmCircuitTransitionEvent list) option" where
  "beforeRequest cfg now current = beforeRequest_loop cfg now current []"

definition recordSuccess ::
  "breaker_config \<Rightarrow> rat \<Rightarrow> InternalState \<Rightarrow>
     (LlmCircuitSnapshot \<times> InternalState \<times> LlmCircuitTransitionEvent list) option" where
  "recordSuccess cfg now current =
     reset cfg (\<lambda>observed. if is_state observed = Half_open then Probe_succeeded else Non_transient_outcome)
       now current"

definition recordNonTransientOutcome ::
  "breaker_config \<Rightarrow> rat \<Rightarrow> InternalState \<Rightarrow>
     (LlmCircuitSnapshot \<times> InternalState \<times> LlmCircuitTransitionEvent list) option" where
  "recordNonTransientOutcome cfg now current = reset cfg (\<lambda>_. Non_transient_outcome) now current"

partial_function (option) recordTransientFailure ::
  "breaker_config \<Rightarrow> rat \<Rightarrow> InternalState \<Rightarrow>
     (LlmCircuitSnapshot \<times> InternalState \<times> LlmCircuitTransitionEvent list) option" where
  "recordTransientFailure cfg now observed =
     (let failures = is_consecutiveFailures observed + 1;
          opened = \<lparr> is_state = Open, is_consecutiveFailures = failures, is_openedAt = Some now,
                     is_probeInFlight = False, is_version = 0 \<rparr>;
          (nxt, trigger) =
            (if is_state observed = Half_open then (opened, Some Probe_failed)
             else if failures \<ge> failureThreshold cfg then (opened, Some Failure_threshold_reached)
             else (observed \<lparr> is_consecutiveFailures := failures, is_probeInFlight := False \<rparr>, None))
      in (case transitionTo cfg (is_version observed) nxt now trigger observed of
            (committed, snapshot, current, evs) \<Rightarrow>
              if committed then Some (snapshot, current, evs)
              else recordTransientFailure cfg now current))"

definition getSnapshot :: "breaker_config \<Rightarrow> InternalState \<Rightarrow> LlmCircuitSnapshot" where
  "getSnapshot cfg current = toSnapshot cfg current"

definition toLlmCircuitPersistentState :: "LlmCircuitSnapshot \<Rightarrow> LlmCircuitPersistentState" where
  "toLlmCircuitPersistentState snap =
     \<lparr> ps_state = sn_state snap, ps_consecutiveFailures = sn_consecutiveFailures snap,
       ps_openedAtMs = map_option (\<lambda>t. t - sn_resetTimeoutMs snap) (sn_nextProbeAt snap) \<rparr>"

section \<open>Every call returns: closed forms\<close>

lemma case_transition_commits:
  "(case transitionTo cfg (is_version s) n now tr s of
      (committed, snapshot, current, evs) \<Rightarrow> if committed then f snapshot current evs else g snapshot current evs) =
   (case transitionTo cfg (is_version s) n now tr s of (_, snapshot, current, evs) \<Rightarrow> f snapshot current evs)"
  by (simp add: transitionTo_def Let_def)

lemma reset_eq:
  "reset cfg f now s =
     (case transitionTo cfg (is_version s) closed_state now (Some (f s)) s of
        (_, snapshot, current, evs) \<Rightarrow> Some (snapshot, current, evs))"
  by (subst reset.simps) (rule case_transition_commits)

lemma recordTransientFailure_eq:
  "recordTransientFailure cfg now s =
     (let opened = \<lparr> is_state = Open, is_consecutiveFailures = is_consecutiveFailures s + 1,
                     is_openedAt = Some now, is_probeInFlight = False, is_version = 0 \<rparr>;
          (nxt, trigger) =
            (if is_state s = Half_open then (opened, Some Probe_failed)
             else if is_consecutiveFailures s + 1 \<ge> failureThreshold cfg
             then (opened, Some Failure_threshold_reached)
             else (s \<lparr> is_consecutiveFailures := is_consecutiveFailures s + 1, is_probeInFlight := False \<rparr>, None))
      in (case transitionTo cfg (is_version s) nxt now trigger s of
            (_, snapshot, current, evs) \<Rightarrow> Some (snapshot, current, evs)))"
  by (subst recordTransientFailure.simps) (simp only: case_transition_commits Let_def)

lemma loop_Closed [simp]:
  "is_state s = Closed \<Longrightarrow> beforeRequest_loop cfg now s acc =
     Some (\<lparr> allowRequest = True, cd_snapshot = toSnapshot cfg s \<rparr>, s, acc)"
  by (subst beforeRequest_loop.simps) simp

lemma loop_Half_open [simp]:
  "is_state s = Half_open \<Longrightarrow> beforeRequest_loop cfg now s acc =
     (let s' = (if is_probeInFlight s then s
                else s \<lparr> is_probeInFlight := True, is_version := Suc (is_version s) \<rparr>)
      in Some (\<lparr> allowRequest = (\<not> is_probeInFlight s), cd_snapshot = toSnapshot cfg s' \<rparr>, s', acc))"
  by (subst beforeRequest_loop.simps) (simp add: transitionTo_def Let_def)

lemma loop_Open [simp]:
  "is_state s = Open \<Longrightarrow> beforeRequest_loop cfg now s acc =
     (if (case toNextProbeAt cfg s of None \<Rightarrow> False | Some t \<Rightarrow> now \<ge> t)
      then let h = s \<lparr> is_state := Half_open, is_probeInFlight := False, is_version := Suc (is_version s) \<rparr>
           in beforeRequest_loop cfg now h (acc @
                [\<lparr> te_fromState = Open, te_toState = Half_open, te_trigger = Reset_timeout_elapsed,
                   te_atMs = now, te_snapshot = toSnapshot cfg h \<rparr>])
      else Some (\<lparr> allowRequest = False, cd_snapshot = toSnapshot cfg s \<rparr>, s, acc))"
  by (subst beforeRequest_loop.simps) (simp add: transitionTo_def Let_def del: loop_Half_open)

section \<open>The breaker as a machine\<close>

datatype breaker_op = Before_request rat | Success rat | Transient_failure rat | Non_transient rat

fun breaker_result ::
  "breaker_config \<Rightarrow> InternalState \<Rightarrow> breaker_op \<Rightarrow> (InternalState \<times> LlmCircuitTransitionEvent list) option" where
  "breaker_result cfg s (Before_request now) = map_option snd (beforeRequest cfg now s)"
| "breaker_result cfg s (Success now) = map_option snd (recordSuccess cfg now s)"
| "breaker_result cfg s (Transient_failure now) = map_option snd (recordTransientFailure cfg now s)"
| "breaker_result cfg s (Non_transient now) = map_option snd (recordNonTransientOutcome cfg now s)"

definition breaker_step :: "breaker_config \<Rightarrow> InternalState \<Rightarrow> breaker_op \<Rightarrow> InternalState" where
  "breaker_step cfg s op = (case breaker_result cfg s op of None \<Rightarrow> s | Some (s', _) \<Rightarrow> s')"

definition breaker_wf :: "InternalState \<Rightarrow> bool" where
  "breaker_wf s \<longleftrightarrow> 0 \<le> is_consecutiveFailures s
     \<and> (is_state s = Closed \<longrightarrow> is_openedAt s = None) \<and> (is_state s \<noteq> Closed \<longrightarrow> is_openedAt s \<noteq> None)
     \<and> (is_probeInFlight s \<longrightarrow> is_state s = Half_open)"

text \<open>
  The specification: a three-state automaton with a failure counter and the time the circuit was
  opened, without versions, snapshots or retries.
\<close>

datatype circuit_spec = SClosed int | SOpen int rat | SHalf int rat bool

fun spec_step :: "breaker_config \<Rightarrow> circuit_spec \<Rightarrow> breaker_op \<Rightarrow> circuit_spec" where
  "spec_step cfg (SClosed n) (Before_request now) = SClosed n"
| "spec_step cfg (SOpen n t) (Before_request now) =
     (if now \<ge> t + resetTimeoutMs cfg then SHalf n t True else SOpen n t)"
| "spec_step cfg (SHalf n t p) (Before_request now) = SHalf n t True"
| "spec_step cfg (SClosed n) (Transient_failure now) =
     (if n + 1 \<ge> failureThreshold cfg then SOpen (n + 1) now else SClosed (n + 1))"
| "spec_step cfg (SOpen n t) (Transient_failure now) =
     (if n + 1 \<ge> failureThreshold cfg then SOpen (n + 1) now else SOpen (n + 1) t)"
| "spec_step cfg (SHalf n t p) (Transient_failure now) = SOpen (n + 1) now"
| "spec_step cfg s (Success now) = SClosed 0"
| "spec_step cfg s (Non_transient now) = SClosed 0"

fun spec_allows :: "breaker_config \<Rightarrow> circuit_spec \<Rightarrow> rat \<Rightarrow> bool" where
  "spec_allows cfg (SClosed n) now = True"
| "spec_allows cfg (SOpen n t) now = (now \<ge> t + resetTimeoutMs cfg)"
| "spec_allows cfg (SHalf n t p) now = (\<not> p)"

definition spec_of :: "InternalState \<Rightarrow> circuit_spec" where
  "spec_of s = (case is_state s of
     Closed \<Rightarrow> SClosed (is_consecutiveFailures s)
   | Open \<Rightarrow> SOpen (is_consecutiveFailures s) (the (is_openedAt s))
   | Half_open \<Rightarrow> SHalf (is_consecutiveFailures s) (the (is_openedAt s)) (is_probeInFlight s))"

lemmas breaker_op_defs = beforeRequest_def recordSuccess_def recordNonTransientOutcome_def reset_eq
  recordTransientFailure_eq transitionTo_def Let_def

lemma breaker_returns: "breaker_result cfg s op \<noteq> None"
proof (cases op)
  case (Before_request now)
  then show ?thesis by (cases "is_state s") (simp_all add: beforeRequest_def Let_def)
qed (simp_all add: breaker_op_defs split: prod.splits if_splits)

lemma breaker_step_wf: "breaker_wf s \<Longrightarrow> breaker_wf (breaker_step cfg s op)"
  by (cases op; cases "is_state s")
    (auto simp: breaker_step_def breaker_wf_def breaker_op_defs)

lemma breaker_simulates:
  assumes "breaker_wf s"
  shows "spec_of (breaker_step cfg s op) = spec_step cfg (spec_of s) op"
  using assms
  by (cases op; cases "is_state s")
    (auto simp: breaker_step_def breaker_wf_def breaker_op_defs spec_of_def toNextProbeAt_def)

lemma breaker_step_version: "is_version s \<le> is_version (breaker_step cfg s op)"
  by (cases op; cases "is_state s") (auto simp: breaker_step_def breaker_op_defs)

interpretation breaker: refining_machine "breaker_step cfg" breaker_wf spec_of "spec_step cfg" for cfg
  by unfold_locales (simp_all add: breaker_step_wf breaker_simulates)

interpretation breaker_version: monotone_machine "breaker_step cfg" breaker_wf
  "\<lambda>s t. is_version s \<le> is_version t" for cfg
  by unfold_locales (simp_all add: breaker_step_wf breaker_step_version)

abbreviation breaker_run :: "breaker_config \<Rightarrow> breaker_op list \<Rightarrow> InternalState" where
  "breaker_run cfg ops \<equiv> foldl (breaker_step cfg) closed_state ops"

lemma breaker_run_wf: "breaker_wf (breaker_run cfg ops)"
  by (rule breaker.run_inv) (simp add: breaker_wf_def)

lemma beforeRequest_spec:
  assumes "breaker_wf s"
  shows "\<exists>d evs. beforeRequest cfg now s = Some (d, breaker_step cfg s (Before_request now), evs)
    \<and> allowRequest d = spec_allows cfg (spec_of s) now"
  using assms
  by (cases "is_state s")
    (auto simp: breaker_wf_def breaker_step_def beforeRequest_def spec_of_def toNextProbeAt_def Let_def)

text \<open>The decisions of a burst of requests with no outcome recorded in between.\<close>

fun admissions :: "breaker_config \<Rightarrow> InternalState \<Rightarrow> rat list \<Rightarrow> bool list" where
  "admissions cfg s [] = []"
| "admissions cfg s (now # nows) =
     (case beforeRequest cfg now s of
        None \<Rightarrow> []
      | Some (d, s', _) \<Rightarrow> allowRequest d # admissions cfg s' nows)"

fun spec_admissions :: "breaker_config \<Rightarrow> circuit_spec \<Rightarrow> rat list \<Rightarrow> bool list" where
  "spec_admissions cfg s [] = []"
| "spec_admissions cfg s (now # nows) =
     spec_allows cfg s now # spec_admissions cfg (spec_step cfg s (Before_request now)) nows"

lemma admissions_spec: "breaker_wf s \<Longrightarrow> admissions cfg s nows = spec_admissions cfg (spec_of s) nows"
proof (induction nows arbitrary: s)
  case (Cons now nows)
  from beforeRequest_spec [OF Cons.prems, of cfg now] obtain d evs where
    "beforeRequest cfg now s = Some (d, breaker_step cfg s (Before_request now), evs)"
    "allowRequest d = spec_allows cfg (spec_of s) now" by blast
  with Cons show ?case by (simp add: breaker_step_wf breaker_simulates)
qed simp

lemma spec_admissions_probing [simp]: "filter (\<lambda>b. b) (spec_admissions cfg (SHalf n t True) nows) = []"
  by (induction nows) simp_all

lemma spec_admissions_Closed [simp]: "spec_admissions cfg (SClosed n) nows = map (\<lambda>_. True) nows"
  by (induction nows) simp_all

lemma spec_admissions_Half: "length (filter (\<lambda>b. b) (spec_admissions cfg (SHalf n t p) nows)) \<le> 1"
  by (cases nows) simp_all

lemma spec_admissions_Open: "length (filter (\<lambda>b. b) (spec_admissions cfg (SOpen n t) nows)) \<le> 1"
proof (induction nows)
  case (Cons now nows)
  then show ?case by (cases "now \<ge> t + resetTimeoutMs cfg") simp_all
qed simp

section \<open>Events\<close>

text \<open>All events of a run, in the order the callback receives them.\<close>

fun run_events :: "breaker_config \<Rightarrow> InternalState \<Rightarrow> breaker_op list \<Rightarrow> LlmCircuitTransitionEvent list" where
  "run_events cfg s [] = []"
| "run_events cfg s (op # ops) =
     (case breaker_result cfg s op of
        None \<Rightarrow> []
      | Some (s', evs) \<Rightarrow> evs @ run_events cfg s' ops)"

fun event_chain :: "LlmCircuitState \<Rightarrow> LlmCircuitTransitionEvent list \<Rightarrow> LlmCircuitState \<Rightarrow> bool" where
  "event_chain st [] st' = (st = st')"
| "event_chain st (e # es) st' = (te_fromState e = st \<and> te_toState e \<noteq> st \<and> event_chain (te_toState e) es st')"

lemma event_chain_append: "event_chain a xs b \<Longrightarrow> event_chain b ys c \<Longrightarrow> event_chain a (xs @ ys) c"
  by (induction xs arbitrary: a) auto

lemma result_chain: "breaker_result cfg s op = Some (s', evs) \<Longrightarrow> event_chain (is_state s) evs (is_state s')"
  by (cases op; cases "is_state s") (auto simp: breaker_op_defs split: if_splits)

lemma run_events_chain: "event_chain (is_state s) (run_events cfg s ops) (is_state (foldl (breaker_step cfg) s ops))"
proof (induction ops arbitrary: s)
  case (Cons op ops)
  obtain s' evs where r: "breaker_result cfg s op = Some (s', evs)"
    using breaker_returns [of cfg s op] by auto
  with event_chain_append [OF result_chain [OF r] Cons.IH [of s']] show ?case
    by (simp add: breaker_step_def)
qed simp

section \<open>Properties\<close>

text \<open>
  C29: The circuit breaker refines its three-state automaton: after any sequence of requests and
  recorded outcomes at any times, the versioned compare-and-swap implementation is in the state the
  plain automaton is in, the next request returns a decision, and that decision is the automaton's.
\<close>

theorem breaker_refines_automaton:
  "spec_of (breaker_run cfg ops) = foldl (spec_step cfg) (SClosed 0) ops
   \<and> (\<exists>d s' evs. beforeRequest cfg now (breaker_run cfg ops) = Some (d, s', evs)
        \<and> allowRequest d = spec_allows cfg (foldl (spec_step cfg) (SClosed 0) ops) now)"
proof -
  have "spec_of (breaker_run cfg ops) = foldl (spec_step cfg) (SClosed 0) ops"
    using breaker.run_refines [of closed_state cfg ops] by (simp add: breaker_wf_def spec_of_def)
  with beforeRequest_spec [OF breaker_run_wf [of cfg ops], of cfg now] show ?thesis by metis
qed

text \<open>
  Half-open admits a single probe: as long as the circuit is not closed, at most one of any number
  of requests that arrive, at any times, without an outcome being recorded in between is admitted;
  a closed circuit admits them all.
\<close>

theorem single_probe_admitted:
  "if is_state (breaker_run cfg ops) = Closed
   then admissions cfg (breaker_run cfg ops) nows = map (\<lambda>_. True) nows
   else length (filter (\<lambda>b. b) (admissions cfg (breaker_run cfg ops) nows)) \<le> 1"
  using spec_admissions_Half spec_admissions_Open
  by (cases "is_state (breaker_run cfg ops)")
    (simp_all add: admissions_spec [OF breaker_run_wf] spec_of_def)

text \<open>
  A fresh breaker trips exactly at its threshold: after a series of transient failures it is open,
  since the time of the last one, if and only if at least the threshold many were recorded, and
  otherwise it is closed and has counted them all; an open breaker admits a request exactly when the
  reset timeout has elapsed since then.
\<close>

theorem breaker_trips_at_threshold:
  assumes "createLlmCircuitBreaker threshold timeout None = Inr (cfg, s)"
  shows "if failureThreshold cfg \<le> int (length ts)
     then spec_of (foldl (breaker_step cfg) s (map Transient_failure ts)) = SOpen (int (length ts)) (last ts)
          \<and> (\<forall>now. map allowRequest (map fst (case beforeRequest cfg now
                 (foldl (breaker_step cfg) s (map Transient_failure ts)) of None \<Rightarrow> [] | Some r \<Rightarrow> [r]))
               = [now \<ge> last ts + resetTimeoutMs cfg])
     else spec_of (foldl (breaker_step cfg) s (map Transient_failure ts)) = SClosed (int (length ts))"
proof -
  have cfg: "1 \<le> failureThreshold cfg" "s = closed_state"
    using assms by (auto simp: createLlmCircuitBreaker_def le_floor_iff split: if_splits js_number.splits)
  let ?run = "foldl (breaker_step cfg) closed_state (map Transient_failure ts)"
  have "foldl (spec_step cfg) (SClosed 0) (map Transient_failure ts) =
      (if failureThreshold cfg \<le> int (length ts) then SOpen (int (length ts)) (last ts)
       else SClosed (int (length ts)))"
    using cfg(1) by (induction ts rule: rev_induct) (auto simp: algebra_simps)
  then have run: "spec_of ?run = (if failureThreshold cfg \<le> int (length ts)
      then SOpen (int (length ts)) (last ts) else SClosed (int (length ts)))"
    using breaker.run_refines [of closed_state cfg "map Transient_failure ts"]
    by (simp add: breaker_wf_def spec_of_def)
  moreover have "map allowRequest (map fst (case beforeRequest cfg now ?run of None \<Rightarrow> [] | Some r \<Rightarrow> [r]))
      = [spec_allows cfg (spec_of ?run) now]" for now
    using beforeRequest_spec [OF breaker_run_wf [of cfg "map Transient_failure ts"], of cfg now] by auto
  ultimately show ?thesis unfolding cfg(2) by simp
qed

theorem breaker_trips_at_threshold_witness:
  "spec_of (foldl (breaker_step \<lparr> failureThreshold = 2, resetTimeoutMs = 10 \<rparr>) closed_state
     (map Transient_failure [5, 7])) = SOpen 2 7"
proof -
  have "createLlmCircuitBreaker (Fin 2) (Fin 10) None
      = Inr (\<lparr> failureThreshold = 2, resetTimeoutMs = 10 \<rparr>, closed_state)"
    by (simp add: createLlmCircuitBreaker_def)
  from breaker_trips_at_threshold [OF this, of "[5, 7]"] show ?thesis by simp
qed

text \<open>
  Persisting and restoring the breaker keeps its state: a breaker created from the persistent form
  of a snapshot taken at any point of a run has the same automaton state, except that a probe that was
  in flight is forgotten.
\<close>

theorem breaker_persist_roundtrip:
  assumes "1 \<le> failureThreshold cfg" and "0 \<le> resetTimeoutMs cfg"
  shows "createLlmCircuitBreaker (Fin (of_int (failureThreshold cfg))) (Fin (resetTimeoutMs cfg))
     (Some (toLlmCircuitPersistentState (getSnapshot cfg (breaker_run cfg ops))))
   = Inr (cfg, (breaker_run cfg ops) \<lparr> is_probeInFlight := False, is_version := 0 \<rparr>)"
proof -
  have "0 \<le> is_consecutiveFailures (breaker_run cfg ops)"
    using breaker_run_wf [of cfg ops] by (simp add: breaker_wf_def)
  moreover have "map_option ((\<lambda>t. t - r) \<circ> (\<lambda>t. t + r)) x = x" for r :: rat and x
    by (cases x) simp_all
  ultimately show ?thesis
    using assms by (cases cfg)
      (simp add: createLlmCircuitBreaker_def toLlmCircuitPersistentState_def getSnapshot_def
        toSnapshot_def toNextProbeAt_def option.map_comp max_def)
qed

theorem breaker_persist_roundtrip_witness:
  "createLlmCircuitBreaker (Fin 1) (Fin 10)
     (Some (toLlmCircuitPersistentState (getSnapshot \<lparr> failureThreshold = 1, resetTimeoutMs = 10 \<rparr>
        (breaker_run \<lparr> failureThreshold = 1, resetTimeoutMs = 10 \<rparr> [Transient_failure 3]))))
   = Inr (\<lparr> failureThreshold = 1, resetTimeoutMs = 10 \<rparr>,
        (breaker_run \<lparr> failureThreshold = 1, resetTimeoutMs = 10 \<rparr> [Transient_failure 3])
          \<lparr> is_probeInFlight := False, is_version := 0 \<rparr>)"
  using breaker_persist_roundtrip [of "\<lparr> failureThreshold = 1, resetTimeoutMs = 10 \<rparr>" "[Transient_failure 3]"]
  by simp

text \<open>
  The transition events tell the whole story: over any run the events handed to the callback form a
  chain of proper state changes that starts in \<open>closed\<close>, each event leaving the state the previous one
  entered, and ends in the state the breaker is in.
\<close>

theorem breaker_events_form_chain:
  "event_chain Closed (run_events cfg closed_state ops) (is_state (breaker_run cfg ops))"
  using run_events_chain [of closed_state cfg ops] by simp

end
