(* ===== verification/RateLimiter.thy ===== *)
theory RateLimiter
  imports Prelude
begin

text \<open>
  The fixed-window rate limiter of the standalone server
  (\<^verbatim>\<open>packages/server/src/rate-limit.ts\<close> and \<^verbatim>\<open>rate-limit-store.ts\<close>). The store is a map from
  bucket keys to buckets; \<open>check\<close> returns the decision and the updated store. Clock values are exact
  rationals in milliseconds.
\<close>

section \<open>Data and operations\<close>

definition RATE_LIMIT_WINDOW_MS :: rat where "RATE_LIMIT_WINDOW_MS = 60000"

record RateLimitBucket =
  bk_count :: int
  bk_windowStartedAtMs :: rat

type_synonym RateLimitStore = "string \<rightharpoonup> RateLimitBucket"

datatype RateLimitDecision =
    Allowed int rat  \<comment> \<open>\<open>remaining\<close> and \<open>resetAtMs\<close>\<close>
  | Denied int rat  \<comment> \<open>\<open>retryAfterSeconds\<close> and \<open>resetAtMs\<close>\<close>

datatype rate_limiter_error = Requests_per_minute_invalid

definition createRateLimiter :: "js_number \<Rightarrow> rate_limiter_error + int" where
  "createRateLimiter requestsPerMinute =
     (if \<not> isFinite requestsPerMinute \<or> js_less requestsPerMinute 1 then Inl Requests_per_minute_invalid
      else case requestsPerMinute of Fin q \<Rightarrow> Inr \<lfloor>q\<rfloor> | _ \<Rightarrow> Inl Requests_per_minute_invalid)"

definition bucketKey :: "string \<Rightarrow> string \<Rightarrow> string" where
  "bucketKey clientKey routeKey = clientKey @ [CHR 0x00] @ routeKey"

definition check ::
  "int \<Rightarrow> string \<Rightarrow> string \<Rightarrow> rat \<Rightarrow> RateLimitStore \<Rightarrow> RateLimitDecision \<times> RateLimitStore" where
  "check limit clientKey routeKey nowMs store =
     (let key = bucketKey clientKey routeKey;
          fresh = (Allowed (limit - 1) (nowMs + RATE_LIMIT_WINDOW_MS),
                   store(key \<mapsto> \<lparr> bk_count = 1, bk_windowStartedAtMs = nowMs \<rparr>))
      in case store key of
           None \<Rightarrow> fresh
         | Some existing \<Rightarrow>
             if nowMs - bk_windowStartedAtMs existing \<ge> RATE_LIMIT_WINDOW_MS then fresh
             else let resetAtMs = bk_windowStartedAtMs existing + RATE_LIMIT_WINDOW_MS
                  in if bk_count existing \<ge> limit
                     then (Denied (max 1 \<lceil>(resetAtMs - nowMs) / 1000\<rceil>) resetAtMs, store)
                     else let existing' = existing \<lparr> bk_count := bk_count existing + 1 \<rparr>
                          in (Allowed (max 0 (limit - bk_count existing')) resetAtMs,
                              store(key \<mapsto> existing')))"

definition reset :: "RateLimitStore \<Rightarrow> RateLimitStore" where
  "reset store = (\<lambda>_. None)"

section \<open>Runs\<close>

record request =
  rq_clientKey :: string
  rq_routeKey :: string
  rq_nowMs :: rat

abbreviation rq_key :: "request \<Rightarrow> string" where
  "rq_key r \<equiv> bucketKey (rq_clientKey r) (rq_routeKey r)"

definition limiter_step :: "int \<Rightarrow> RateLimitStore \<Rightarrow> request \<Rightarrow> RateLimitStore" where
  "limiter_step limit store r = snd (check limit (rq_clientKey r) (rq_routeKey r) (rq_nowMs r) store)"

definition admits :: "int \<Rightarrow> RateLimitStore \<Rightarrow> request \<Rightarrow> bool" where
  "admits limit store r =
     (case fst (check limit (rq_clientKey r) (rq_routeKey r) (rq_nowMs r) store) of
        Allowed _ _ \<Rightarrow> True | Denied _ _ \<Rightarrow> False)"

text \<open>The requests of a run that are let through.\<close>

fun accepted :: "int \<Rightarrow> RateLimitStore \<Rightarrow> request list \<Rightarrow> request list" where
  "accepted limit store [] = []"
| "accepted limit store (r # rs) =
     (if admits limit store r then [r] else []) @ accepted limit (limiter_step limit store r) rs"

definition buckets_ok :: "int \<Rightarrow> RateLimitStore \<Rightarrow> bool" where
  "buckets_ok limit store \<longleftrightarrow> (\<forall>k b. store k = Some b \<longrightarrow> 1 \<le> bk_count b \<and> bk_count b \<le> limit)"

lemma createRateLimiter_limit: "createRateLimiter q = Inr limit \<Longrightarrow> 1 \<le> limit"
  by (auto simp: createRateLimiter_def le_floor_iff split: if_splits js_number.splits)

lemma limiter_step_ok: "1 \<le> limit \<Longrightarrow> buckets_ok limit store \<Longrightarrow> buckets_ok limit (limiter_step limit store r)"
  by (fastforce simp: buckets_ok_def limiter_step_def check_def Let_def split: option.splits)

lemma limiter_step_other: "k \<noteq> rq_key r \<Longrightarrow> limiter_step limit store r k = store k"
  by (auto simp: limiter_step_def check_def Let_def split: option.splits)

interpretation limiter: invariant_machine "limiter_step limit" "\<lambda>store. 1 \<le> limit \<and> buckets_ok limit store"
  for limit
  by unfold_locales (simp add: limiter_step_ok)

text \<open>
  How many requests of key \<open>k\<close> can still be admitted before \<open>a + W\<close> when no request arrives before
  \<open>a\<close> any more: the rest of the current window, and one more window if the current one began before \<open>a\<close>.
\<close>

definition window_cap :: "int \<Rightarrow> rat \<Rightarrow> RateLimitBucket option \<Rightarrow> int" where
  "window_cap limit a b =
     (case b of
        None \<Rightarrow> limit
      | Some b \<Rightarrow> if bk_windowStartedAtMs b \<ge> a then limit - bk_count b else 2 * limit - bk_count b)"

lemma window_cap_nonneg: "1 \<le> limit \<Longrightarrow> buckets_ok limit store \<Longrightarrow> 0 \<le> window_cap limit a (store k)"
  by (fastforce simp: window_cap_def buckets_ok_def split: option.splits)

lemma window_cap_le: "1 \<le> limit \<Longrightarrow> buckets_ok limit store \<Longrightarrow> window_cap limit a (store k) \<le> 2 * limit"
  by (fastforce simp: window_cap_def buckets_ok_def split: option.splits)

lemma window_cap_step:
  assumes "1 \<le> limit" "buckets_ok limit store" "a \<le> rq_nowMs r" "rq_nowMs r < a + RATE_LIMIT_WINDOW_MS"
  shows "(if admits limit store r then 1 else 0) + window_cap limit a (limiter_step limit store r (rq_key r))
    \<le> window_cap limit a (store (rq_key r))"
proof (cases "store (rq_key r)")
  case (Some b)
  then have "1 \<le> bk_count b" "bk_count b \<le> limit" using assms(2) by (auto simp: buckets_ok_def)
  with Some assms show ?thesis
    by (auto simp: window_cap_def admits_def limiter_step_def check_def Let_def)
qed (use assms in \<open>simp add: window_cap_def admits_def limiter_step_def check_def Let_def\<close>)

lemma accepted_subset: "set (accepted limit store rs) \<subseteq> set rs"
  by (induction rs arbitrary: store) auto

abbreviation in_window :: "string \<Rightarrow> rat \<Rightarrow> request \<Rightarrow> bool" where
  "in_window k a r \<equiv> rq_key r = k \<and> a \<le> rq_nowMs r \<and> rq_nowMs r < a + RATE_LIMIT_WINDOW_MS"

lemma accepted_after:
  assumes "1 \<le> limit" "buckets_ok limit store" "sorted_wrt (\<le>) (map rq_nowMs rs)" "\<forall>r\<in>set rs. a \<le> rq_nowMs r"
  shows "int (length (filter (in_window k a) (accepted limit store rs))) \<le> window_cap limit a (store k)"
  using assms(2-4)
proof (induction rs arbitrary: store)
  case Nil
  then show ?case using window_cap_nonneg [OF assms(1)] by simp
next
  case (Cons r rs)
  let ?st = "limiter_step limit store r"
  have ih: "int (length (filter (in_window k a) (accepted limit ?st rs))) \<le> window_cap limit a (?st k)"
    using Cons by (intro Cons.IH) (simp_all add: limiter_step_ok assms(1))
  show ?case
  proof (cases "rq_nowMs r < a + RATE_LIMIT_WINDOW_MS")
    case True
    show ?thesis
    proof (cases "rq_key r = k")
      case True
      with window_cap_step [OF assms(1) Cons.prems(1), of a r] Cons.prems(3) ih
        \<open>rq_nowMs r < a + RATE_LIMIT_WINDOW_MS\<close> show ?thesis by (auto split: if_splits)
    next
      case False
      with ih limiter_step_other [of k r limit store] show ?thesis by auto
    qed
  next
    case False
    then have "\<forall>x\<in>set (r # rs). \<not> rq_nowMs x < a + RATE_LIMIT_WINDOW_MS"
      using Cons.prems(2) by force
    then have "filter (in_window k a) (accepted limit store (r # rs)) = []"
      using accepted_subset [of limit store "r # rs"] unfolding filter_empty_conv by blast
    then show ?thesis using window_cap_nonneg [OF assms(1) Cons.prems(1), of a k] by simp
  qed
qed

lemma accepted_append:
  "accepted limit store (xs @ ys) = accepted limit store xs @ accepted limit (foldl (limiter_step limit) store xs) ys"
  by (induction xs arbitrary: store) auto

abbreviation limiter_run :: "int \<Rightarrow> request list \<Rightarrow> RateLimitStore" where
  "limiter_run limit rs \<equiv> foldl (limiter_step limit) (\<lambda>_. None) rs"

lemma limiter_run_ok: "1 \<le> limit \<Longrightarrow> buckets_ok limit (limiter_run limit rs)"
  using limiter.run_inv [of limit "\<lambda>_. None" rs] by (simp add: buckets_ok_def)

lemma check_sound:
  assumes lim: "1 \<le> limit" and ok: "buckets_ok limit store"
  shows "case fst (check limit client route now store) of
      Allowed remaining resetAt \<Rightarrow> 0 \<le> remaining \<and> remaining \<le> limit - 1 \<and> now < resetAt
    | Denied retryAfter resetAt \<Rightarrow> 1 \<le> retryAfter \<and> now < resetAt
        \<and> (\<exists>remaining resetAt'. fst (check limit client route (now + of_int retryAfter * 1000) store)
             = Allowed remaining resetAt')"
proof -
  let ?k = "bucketKey client route"
  show ?thesis
  proof (cases "store ?k")
    case None
    then show ?thesis using lim by (simp add: check_def RATE_LIMIT_WINDOW_MS_def)
  next
    case (Some b)
    have b: "1 \<le> bk_count b" "bk_count b \<le> limit"
      using ok Some by (auto simp: buckets_ok_def)
    let ?wait = "(bk_windowStartedAtMs b + RATE_LIMIT_WINDOW_MS - now) / 1000"
    have wait: "of_int (max 1 \<lceil>?wait\<rceil>) * 1000 \<ge> bk_windowStartedAtMs b + RATE_LIMIT_WINDOW_MS - now"
    proof -
      have "?wait \<le> of_int (max 1 \<lceil>?wait\<rceil>)"
        by (meson le_of_int_ceiling max.cobounded2 of_int_le_iff order_trans)
      then show ?thesis by (simp add: field_simps)
    qed
    show ?thesis
    proof (cases "now - bk_windowStartedAtMs b \<ge> RATE_LIMIT_WINDOW_MS")
      case True
      then show ?thesis using Some lim by (simp add: check_def RATE_LIMIT_WINDOW_MS_def)
    next
      case False
      then show ?thesis
        using Some b wait
        by (simp add: check_def Let_def algebra_simps) (metis diff_add_cancel)
    qed
  qed
qed

section \<open>Properties\<close>

text \<open>
  C30: The rate limit holds over every interval, not only within the limiter's own windows: when clock
  readings do not go backwards, a client and route get at most twice the configured number of requests
  through in any stretch of one window length, whatever other clients do in between.
\<close>

theorem rate_limit_any_interval:
  assumes "createRateLimiter requestsPerMinute = Inr limit"
    and "sorted_wrt (\<le>) (map rq_nowMs rs)"
  shows "int (length (filter (\<lambda>r. rq_key r = bucketKey client route \<and> a \<le> rq_nowMs r
      \<and> rq_nowMs r < a + RATE_LIMIT_WINDOW_MS) (accepted limit (\<lambda>_. None) rs))) \<le> 2 * limit"
proof -
  have lim: "1 \<le> limit" by (rule createRateLimiter_limit [OF assms(1)])
  let ?early = "takeWhile (\<lambda>r. rq_nowMs r < a) rs" and ?late = "dropWhile (\<lambda>r. rq_nowMs r < a) rs"
  let ?k = "bucketKey client route"
  have srt: "sorted_wrt (\<le>) (map rq_nowMs ?late)"
    using assms(2) by (metis map_append sorted_wrt_append takeWhile_dropWhile_id)
  have "\<forall>r\<in>set ?late. a \<le> rq_nowMs r"
  proof (cases ?late)
    case Nil
    show ?thesis unfolding Nil by simp
  next
    case (Cons x xs)
    then have "\<not> rq_nowMs x < a" by (metis hd_dropWhile list.sel(1) list.simps(3))
    with srt Cons show ?thesis by force
  qed
  then have "int (length (filter (in_window ?k a) (accepted limit (limiter_run limit ?early) ?late)))
      \<le> window_cap limit a (limiter_run limit ?early ?k)"
    by (intro accepted_after limiter_run_ok lim srt)
  moreover have "filter (in_window ?k a) (accepted limit (\<lambda>_. None) ?early) = []"
    using accepted_subset [of limit "\<lambda>_. None" ?early] set_takeWhileD
    unfolding filter_empty_conv by (metis leD subsetD)
  moreover have "accepted limit (\<lambda>_. None) rs =
      accepted limit (\<lambda>_. None) ?early @ accepted limit (limiter_run limit ?early) ?late"
    using accepted_append [of limit "\<lambda>_. None" ?early ?late] by simp
  ultimately show ?thesis
    using window_cap_le [OF lim limiter_run_ok [OF lim], of a ?early ?k] by simp
qed

theorem rate_limit_any_interval_witness:
  "int (length (filter (\<lambda>r. rq_key r = bucketKey ''c'' ''r'' \<and> 1 \<le> rq_nowMs r
      \<and> rq_nowMs r < 1 + RATE_LIMIT_WINDOW_MS) (accepted 1 (\<lambda>_. None)
        [\<lparr> rq_clientKey = ''c'', rq_routeKey = ''r'', rq_nowMs = 0 \<rparr>,
         \<lparr> rq_clientKey = ''c'', rq_routeKey = ''r'', rq_nowMs = 60000 \<rparr>]))) \<le> 2 * 1"
  by (rule rate_limit_any_interval [of "Fin 1"]) (simp_all add: createRateLimiter_def)

text \<open>
  C31: Decisions are sound and live: on every store the limiter builds, an admitted request reports a
  number of remaining requests between 0 and the limit minus one and a reset time in the future, a
  denied one a positive waiting time, and a client that waits this long (without anyone else using its
  bucket meanwhile) is admitted.
\<close>

theorem rate_limit_decision_sound:
  assumes "createRateLimiter requestsPerMinute = Inr limit"
  shows "case fst (check limit client route now (limiter_run limit rs)) of
      Allowed remaining resetAt \<Rightarrow> 0 \<le> remaining \<and> remaining \<le> limit - 1 \<and> now < resetAt
    | Denied retryAfter resetAt \<Rightarrow> 1 \<le> retryAfter \<and> now < resetAt
        \<and> (\<exists>remaining resetAt'. fst (check limit client route (now + of_int retryAfter * 1000)
             (limiter_run limit rs)) = Allowed remaining resetAt')"
  by (intro check_sound limiter_run_ok createRateLimiter_limit [OF assms])

theorem rate_limit_decision_sound_witness:
  "case fst (check 1 ''c'' ''r'' 5 (limiter_run 1
        [\<lparr> rq_clientKey = ''c'', rq_routeKey = ''r'', rq_nowMs = 0 \<rparr>])) of
      Allowed remaining resetAt \<Rightarrow> 0 \<le> remaining \<and> remaining \<le> 1 - 1 \<and> 5 < resetAt
    | Denied retryAfter resetAt \<Rightarrow> 1 \<le> retryAfter \<and> 5 < resetAt
        \<and> (\<exists>remaining resetAt'. fst (check 1 ''c'' ''r'' (5 + of_int retryAfter * 1000) (limiter_run 1
             [\<lparr> rq_clientKey = ''c'', rq_routeKey = ''r'', rq_nowMs = 0 \<rparr>])) = Allowed remaining resetAt')"
  by (rule rate_limit_decision_sound [of "Fin 1"]) (simp add: createRateLimiter_def)

end
