(* ===== verification/WorkflowMachine.thy ===== *)
theory WorkflowMachine
  imports Prelude
begin

text \<open>
  Workflow state machines (\<^verbatim>\<open>packages/core-engine/src/workflow-state-machine.ts\<close>): construction and
  validation, derivation from a workflow topology, the lookup index, the breadth-first search for a
  bridging path, and the registry. Every \<^verbatim>\<open>throw\<close> is a value of \<open>sm_error\<close>.
\<close>

section \<open>Data\<close>

record WorkflowStateMachineState =
  ws_stateId :: string
  ws_label :: "string option"
  ws_entry :: "bool option"
  ws_terminal :: "bool option"

record WorkflowStateMachineTransition =
  wt_transitionId :: string
  wt_from :: string
  wt_to :: string
  wt_guard :: string
  wt_action :: string
  wt_label :: "string option"

datatype WorkflowStateMachineProvenance = Manual | Workflow_topology | Manual_override

record WorkflowStateMachine =
  wm_id :: string
  wm_label :: string
  wm_states :: "WorkflowStateMachineState list"
  wm_transitions :: "WorkflowStateMachineTransition list"
  wm_provenance :: WorkflowStateMachineProvenance

datatype sm_error =
    Id_empty | Label_empty | No_states | State_id_empty | Duplicate_state string | No_entry_state
  | Transition_id_empty | Duplicate_transition string | Unknown_source string string
  | Unknown_target string string | Registry_already_has string

section \<open>Construction\<close>

text \<open>The loop over the states; \<open>seen\<close> is the set of ids collected so far.\<close>

fun check_states :: "WorkflowStateMachineState list \<Rightarrow> string list \<Rightarrow> sm_error + string list" where
  "check_states [] seen = Inr seen"
| "check_states (s # ss) seen =
     (if js_trim (ws_stateId s) = [] then Inl State_id_empty
      else if ws_stateId s \<in> set seen then Inl (Duplicate_state (ws_stateId s))
      else check_states ss (seen @ [ws_stateId s]))"

fun check_transitions ::
  "string list \<Rightarrow> WorkflowStateMachineTransition list \<Rightarrow> string list \<Rightarrow> sm_error option" where
  "check_transitions stateIds [] seen = None"
| "check_transitions stateIds (t # ts) seen =
     (if js_trim (wt_transitionId t) = [] then Some Transition_id_empty
      else if wt_transitionId t \<in> set seen then Some (Duplicate_transition (wt_transitionId t))
      else if wt_from t \<notin> set stateIds then Some (Unknown_source (wt_transitionId t) (wt_from t))
      else if wt_to t \<notin> set stateIds then Some (Unknown_target (wt_transitionId t) (wt_to t))
      else check_transitions stateIds ts (seen @ [wt_transitionId t]))"

definition createWorkflowStateMachine ::
  "string comparator \<Rightarrow> string \<Rightarrow> string \<Rightarrow> WorkflowStateMachineState list \<Rightarrow>
   WorkflowStateMachineTransition list \<Rightarrow> WorkflowStateMachineProvenance option \<Rightarrow>
     sm_error + WorkflowStateMachine" where
  "createWorkflowStateMachine lc mid label states transitions provenance =
     (if js_trim mid = [] then Inl Id_empty
      else if js_trim label = [] then Inl Label_empty
      else if states = [] then Inl No_states
      else case check_states states [] of
        Inl err \<Rightarrow> Inl err
      | Inr stateIds \<Rightarrow>
          if length (filter (\<lambda>s. ws_entry s = Some True) states) = 0 then Inl No_entry_state
          else (case check_transitions stateIds transitions [] of
                  Some err \<Rightarrow> Inl err
                | None \<Rightarrow>
                    Inr \<lparr> wm_id = mid, wm_label = label,
                          wm_states = sort_by lc ws_stateId states,
                          wm_transitions = sort_by lc wt_transitionId transitions,
                          wm_provenance = (case provenance of None \<Rightarrow> Manual | Some p \<Rightarrow> p) \<rparr>))"

section \<open>From a workflow topology\<close>

record WorkflowTopologyState =
  ts_stateId :: string
  ts_screenId :: string
  ts_label :: string
  ts_sourceRefs :: "string list"

record WorkflowTopologyTransition =
  tt_transitionId :: string
  tt_from :: string
  tt_to :: string
  tt_guard :: string
  tt_actions :: "string list"

text \<open>The parts of a topology the builder reads; its actions and field lifecycles play no role here.\<close>

record WorkflowTopology =
  wtp_jobId :: string
  wtp_states :: "WorkflowTopologyState list"
  wtp_transitions :: "WorkflowTopologyTransition list"
  wtp_entryStates :: "string list"
  wtp_exitStates :: "string list"

definition promote_entry ::
  "string comparator \<Rightarrow> WorkflowStateMachineState list \<Rightarrow> WorkflowStateMachineState list" where
  "promote_entry lc states =
     (if (\<exists>s\<in>set states. ws_entry s = Some True) \<or> states = [] then states
      else let promotedId = ws_stateId (hd (sort_by lc ws_stateId states))
           in map (\<lambda>s. if ws_stateId s = promotedId then s \<lparr> ws_entry := Some True \<rparr> else s) states)"

definition topology_states ::
  "WorkflowTopology \<Rightarrow> string list option \<Rightarrow> WorkflowStateMachineState list" where
  "topology_states topology stateFilter =
     map (\<lambda>s. \<lparr> ws_stateId = ts_stateId s, ws_label = Some (ts_label s),
                 ws_entry = Some (ts_stateId s \<in> set (wtp_entryStates topology)),
                 ws_terminal = Some (ts_stateId s \<in> set (wtp_exitStates topology)) \<rparr>)
       (filter (\<lambda>s. case stateFilter of None \<Rightarrow> True | Some f \<Rightarrow> ts_stateId s \<in> set f) (wtp_states topology))"

definition topology_transitions ::
  "WorkflowTopology \<Rightarrow> string list option \<Rightarrow> WorkflowStateMachineTransition list" where
  "topology_transitions topology stateFilter =
     map (\<lambda>t. \<lparr> wt_transitionId = tt_transitionId t, wt_from = tt_from t, wt_to = tt_to t,
                 wt_guard = tt_guard t, wt_action = js_join '';'' (tt_actions t), wt_label = None \<rparr>)
       (filter (\<lambda>t. case stateFilter of None \<Rightarrow> True
                    | Some f \<Rightarrow> tt_from t \<in> set f \<and> tt_to t \<in> set f) (wtp_transitions topology))"

definition buildStateMachineFromWorkflowTopology ::
  "string comparator \<Rightarrow> string \<Rightarrow> string \<Rightarrow> WorkflowTopology \<Rightarrow> string list option \<Rightarrow>
     sm_error + WorkflowStateMachine" where
  "buildStateMachineFromWorkflowTopology lc mid label topology stateFilter =
     createWorkflowStateMachine lc mid label
       (promote_entry lc (topology_states topology stateFilter))
       (topology_transitions topology stateFilter) (Some Workflow_topology)"

section \<open>Index\<close>

text \<open>
  The three maps of the index. A bucket that was never created reads as the empty list, as
  \<^verbatim>\<open>outgoingByState.get(current) ?? []\<close> does.
\<close>

record WorkflowStateMachineIndex =
  ix_stateMachine :: WorkflowStateMachine
  statesById :: "string \<rightharpoonup> WorkflowStateMachineState"
  transitionsById :: "string \<rightharpoonup> WorkflowStateMachineTransition"
  outgoingByState :: "string \<Rightarrow> WorkflowStateMachineTransition list"

definition indexWorkflowStateMachine ::
  "string comparator \<Rightarrow> WorkflowStateMachine \<Rightarrow> WorkflowStateMachineIndex" where
  "indexWorkflowStateMachine lc m =
     \<lparr> ix_stateMachine = m,
       statesById = map_of (rev (map (\<lambda>s. (ws_stateId s, s)) (wm_states m))),
       transitionsById = map_of (rev (map (\<lambda>t. (wt_transitionId t, t)) (wm_transitions m))),
       outgoingByState = (\<lambda>s. sort_by lc wt_transitionId (filter (\<lambda>t. wt_from t = s) (wm_transitions m))) \<rparr>"

section \<open>Breadth-first search\<close>

datatype transition_path = Same_state | Transition_path "string list" | No_path

record bfs_state =
  visited :: "string list"
  predecessor :: "string \<rightharpoonup> (string \<times> string)"  \<comment> \<open>state and transition it was reached from\<close>
  queue :: "string list"

text \<open>The loop over the outgoing transitions of \<open>current\<close>; \<^const>\<open>True\<close> when the target was reached.\<close>

fun visit_outgoing ::
  "string \<Rightarrow> string \<Rightarrow> WorkflowStateMachineTransition list \<Rightarrow> bfs_state \<Rightarrow> bool \<times> bfs_state" where
  "visit_outgoing toState current [] b = (False, b)"
| "visit_outgoing toState current (t # ts) b =
     (if wt_to t \<in> set (visited b) then visit_outgoing toState current ts b
      else let b' = b \<lparr> visited := wt_to t # visited b,
                        predecessor := (predecessor b)(wt_to t \<mapsto> (current, wt_transitionId t)) \<rparr>
           in if wt_to t = toState then (True, b')
              else visit_outgoing toState current ts (b' \<lparr> queue := queue b' @ [wt_to t] \<rparr>))"

text \<open>The walk back over the predecessors.\<close>

partial_function (option) path_back ::
  "(string \<rightharpoonup> (string \<times> string)) \<Rightarrow> string \<Rightarrow> string \<Rightarrow> string list \<Rightarrow> string list option" where
  "path_back pred fromState cursor path =
     (if cursor = fromState then Some path
      else case pred cursor of
        None \<Rightarrow> Some path
      | Some (prev, t) \<Rightarrow> path_back pred fromState prev (t # path))"

partial_function (option) bfs_loop ::
  "(string \<Rightarrow> WorkflowStateMachineTransition list) \<Rightarrow> string \<Rightarrow> string \<Rightarrow> bfs_state \<Rightarrow> transition_path option" where
  "bfs_loop outgoing fromState toState b =
     (case queue b of
        [] \<Rightarrow> Some No_path
      | current # rest \<Rightarrow>
          (case visit_outgoing toState current (outgoing current) (b \<lparr> queue := rest \<rparr>) of
             (found, b') \<Rightarrow>
               if found
               then Option.bind (path_back (predecessor b') fromState toState [])
                      (\<lambda>path. Some (Transition_path path))
               else bfs_loop outgoing fromState toState b'))"

definition findShortestTransitionPath ::
  "WorkflowStateMachineIndex \<Rightarrow> string \<Rightarrow> string \<Rightarrow> transition_path option" where
  "findShortestTransitionPath index fromState toState =
     (if statesById index fromState = None \<or> statesById index toState = None then Some No_path
      else if fromState = toState then Some Same_state
      else bfs_loop (outgoingByState index) fromState toState
             \<lparr> visited = [fromState], predecessor = (\<lambda>_. None), queue = [fromState] \<rparr>)"

section \<open>Registry\<close>

text \<open>A \<^verbatim>\<open>Map\<close> from ids to machines in insertion order.\<close>

type_synonym registry = "(string \<times> WorkflowStateMachine) list"

definition registry_register :: "WorkflowStateMachine \<Rightarrow> registry \<Rightarrow> sm_error + registry" where
  "registry_register m r =
     (if map_of r (wm_id m) \<noteq> None then Inl (Registry_already_has (wm_id m))
      else Inr (AList.update (wm_id m) m r))"

definition registry_override :: "WorkflowStateMachine \<Rightarrow> registry \<Rightarrow> registry" where
  "registry_override m r =
     (let stamped = (if wm_provenance m = Manual then m else m \<lparr> wm_provenance := Manual_override \<rparr>)
      in AList.update (wm_id stamped) stamped r)"

definition registry_has :: "string \<Rightarrow> registry \<Rightarrow> bool" where
  "registry_has i r \<longleftrightarrow> map_of r i \<noteq> None"

definition registry_get :: "string \<Rightarrow> registry \<Rightarrow> WorkflowStateMachine option" where
  "registry_get i r = map_of r i"

definition registry_list :: "string comparator \<Rightarrow> registry \<Rightarrow> WorkflowStateMachine list" where
  "registry_list lc r = sort_by lc wm_id (map snd r)"

end
