(* ===== verification/WorkflowSearch.thy ===== *)
theory WorkflowSearch
  imports WorkflowMachine
begin

text \<open>
  Correctness of the breadth-first search: it always returns, the path it reports is a walk of the
  state machine from the one state to the other, no walk is shorter, and it reports that there is no
  path only if there is none.
\<close>

section \<open>Walks\<close>

fun walk ::
  "(string \<Rightarrow> WorkflowStateMachineTransition list) \<Rightarrow> string \<Rightarrow> string list \<Rightarrow> string \<Rightarrow> bool" where
  "walk outs u [] v = (u = v)"
| "walk outs u (t # ts) v = (\<exists>e\<in>set (outs u). wt_transitionId e = t \<and> walk outs (wt_to e) ts v)"

lemma walk_snoc:
  "walk outs u (ts @ [t]) v \<longleftrightarrow>
     (\<exists>w. walk outs u ts w \<and> (\<exists>e\<in>set (outs w). wt_transitionId e = t \<and> wt_to e = v))"
  by (induction ts arbitrary: u) auto

section \<open>The invariant of the search\<close>

text \<open>
  \<open>P v\<close> is the path on which the search reached \<open>v\<close>. Outside of the queue and of the pending edges
  every edge of a reached state leads to a reached state at most one step further away.
\<close>

definition paths_ok ::
  "(string \<Rightarrow> WorkflowStateMachineTransition list) \<Rightarrow> string \<Rightarrow> (string \<rightharpoonup> string list) \<Rightarrow> bfs_state \<Rightarrow> bool" where
  "paths_ok outs src P b \<longleftrightarrow>
     P src = Some [] \<and> dom P = set (visited b)
     \<and> (\<forall>v p. P v = Some p \<longrightarrow> walk outs src p v)
     \<and> (\<forall>v p. P v = Some p \<longrightarrow> v \<noteq> src \<longrightarrow>
          (\<exists>u t q. predecessor b v = Some (u, t) \<and> P u = Some q \<and> p = q @ [t]))"

definition edges_done ::
  "(string \<Rightarrow> WorkflowStateMachineTransition list) \<Rightarrow> (string \<rightharpoonup> string list) \<Rightarrow> string set \<Rightarrow>
   (string \<times> WorkflowStateMachineTransition) set \<Rightarrow> bool" where
  "edges_done outs P waiting pend \<longleftrightarrow>
     (\<forall>u e p. P u = Some p \<longrightarrow> u \<notin> waiting \<longrightarrow> e \<in> set (outs u) \<longrightarrow> (u, e) \<notin> pend \<longrightarrow>
        (\<exists>q. P (wt_to e) = Some q \<and> length q \<le> Suc (length p)))"

text \<open>The queue is ordered by distance and spans at most two levels, \<open>lo\<close> and the next.\<close>

definition queue_ok :: "(string \<rightharpoonup> string list) \<Rightarrow> nat \<Rightarrow> string list \<Rightarrow> bool" where
  "queue_ok P lo q \<longleftrightarrow> set q \<subseteq> dom P \<and> sorted_wrt (\<le>) (map (\<lambda>v. length (the (P v))) q)
     \<and> (\<forall>v\<in>set q. lo \<le> length (the (P v))) \<and> (\<forall>p\<in>ran P. length p \<le> Suc lo)"

lemma walk_reached_or_waiting:
  assumes "walk outs src ts w" "P src = Some []" "edges_done outs P waiting {}"
  shows "(\<exists>p. P w = Some p \<and> length p \<le> length ts) \<or> (\<exists>x p. x \<in> waiting \<and> P x = Some p \<and> length p < length ts)"
  using assms(1)
proof (induction ts arbitrary: w rule: rev_induct)
  case Nil
  then show ?case using assms(2) by simp
next
  case (snoc t ts)
  then obtain v e where v: "walk outs src ts v" "e \<in> set (outs v)" "wt_to e = w" by (auto simp: walk_snoc)
  from snoc.IH [OF v(1)] show ?case
  proof (elim disjE exE conjE)
    fix p assume p: "P v = Some p" "length p \<le> length ts"
    show ?thesis
    proof (cases "v \<in> waiting")
      case True
      with p show ?thesis by auto
    next
      case False
      with assms(3) p v obtain q where "P w = Some q" "length q \<le> Suc (length p)"
        unfolding edges_done_def by (metis empty_iff)
      with p(2) show ?thesis by auto
    qed
  next
    fix x p assume "x \<in> waiting" "P x = Some p" "length p < length ts"
    then show ?thesis by auto
  qed
qed

lemma path_back_reached:
  assumes "paths_ok outs src P b" "P v = Some p"
  shows "path_back (predecessor b) src v acc = Some (p @ acc)"
  using assms(2)
proof (induction "length p" arbitrary: v p acc rule: less_induct)
  case less
  show ?case
  proof (cases "v = src")
    case True
    with less.prems assms(1) show ?thesis by (subst path_back.simps) (simp add: paths_ok_def)
  next
    case False
    with less.prems assms(1) obtain u t q where "predecessor b v = Some (u, t)" "P u = Some q" "p = q @ [t]"
      unfolding paths_ok_def by blast
    with less.hyps [of q u "t # acc"] False show ?thesis by (subst path_back.simps) simp
  qed
qed

section \<open>One state expanded\<close>

lemma paths_ok_reach:
  assumes "paths_ok outs src P b" "P cur = Some pc" "e \<in> set (outs cur)" "wt_to e \<notin> set (visited b)"
  shows "paths_ok outs src (P(wt_to e \<mapsto> pc @ [wt_transitionId e]))
    (b \<lparr> visited := wt_to e # visited b,
         predecessor := (predecessor b)(wt_to e \<mapsto> (cur, wt_transitionId e)) \<rparr>)"
proof -
  have new: "P (wt_to e) = None" "wt_to e \<noteq> src" "cur \<noteq> wt_to e"
    using assms by (auto simp: paths_ok_def)
  have old: "\<exists>u t q. predecessor b v = Some (u, t) \<and> P u = Some q \<and> p = q @ [t] \<and> u \<noteq> wt_to e"
    if "P v = Some p" "v \<noteq> src" for v p
    using that assms(1) new(1) unfolding paths_ok_def by (metis option.simps(3))
  have "walk outs src (pc @ [wt_transitionId e]) (wt_to e)"
    using assms by (auto simp: walk_snoc paths_ok_def)
  moreover have "\<exists>u t q. ((predecessor b)(wt_to e \<mapsto> (cur, wt_transitionId e))) v = Some (u, t)
      \<and> (P(wt_to e \<mapsto> pc @ [wt_transitionId e])) u = Some q \<and> p = q @ [t]"
    if "(P(wt_to e \<mapsto> pc @ [wt_transitionId e])) v = Some p" "v \<noteq> src" for v p
  proof (cases "v = wt_to e")
    case True
    with that new assms(2) show ?thesis by auto
  next
    case False
    with that old [of v p] show ?thesis by auto
  qed
  ultimately show ?thesis using assms(1) new unfolding paths_ok_def by auto
qed

lemma queue_ok_upd:
  assumes "queue_ok P lo q" "P v = None" "length p = Suc lo"
  shows "queue_ok (P(v \<mapsto> p)) lo q" "queue_ok (P(v \<mapsto> p)) lo (q @ [v])"
proof -
  have "v \<notin> set q" using assms by (auto simp: queue_ok_def)
  then have eq: "map (\<lambda>x. length (the ((P(v \<mapsto> p)) x))) q = map (\<lambda>x. length (the (P x))) q" by auto
  have up: "\<forall>p'\<in>ran (P(v \<mapsto> p)). length p' \<le> Suc lo"
    using assms by (auto simp: queue_ok_def)
  have top: "\<forall>x\<in>set q. length (the (P x)) \<le> Suc lo"
    using assms(1) unfolding queue_ok_def by (metis domD option.sel ranI subsetD)
  show "queue_ok (P(v \<mapsto> p)) lo q"
    using assms(1) up \<open>v \<notin> set q\<close> unfolding queue_ok_def eq by auto
  show "queue_ok (P(v \<mapsto> p)) lo (q @ [v])"
    using assms up top \<open>v \<notin> set q\<close> unfolding queue_ok_def map_append eq by (auto simp: sorted_wrt_append)
qed

lemma edges_done_reach:
  assumes "edges_done outs P waiting pend" "P v = None"
  shows "edges_done outs (P(v \<mapsto> p)) (insert v waiting) pend"
  using assms unfolding edges_done_def by (metis fun_upd_apply insertCI option.simps(3))

lemma visit_outgoing_spec:
  assumes "visit_outgoing tgt cur es b = (found, b')" "set es \<subseteq> set (outs cur)"
    "paths_ok outs src P b" "P cur = Some pc" "tgt \<notin> set (visited b)"
    "edges_done outs P (insert cur (set (queue b))) {}"
    "\<forall>e\<in>set (outs cur) - set es. \<exists>q. P (wt_to e) = Some q \<and> length q \<le> Suc (length pc)"
    "queue_ok P (length pc) (queue b)" "finite T" "\<forall>u. \<forall>e\<in>set (outs u). wt_to e \<in> T"
  shows "\<exists>P'. paths_ok outs src P' b' \<and>
    (if found
     then \<exists>t. P' tgt = Some (pc @ [t]) \<and> (\<forall>ts. walk outs src ts tgt \<longrightarrow> length pc < length ts)
     else tgt \<notin> set (visited b') \<and> edges_done outs P' (set (queue b')) {}
       \<and> queue_ok P' (length pc) (queue b')
       \<and> card (T - set (visited b')) + length (queue b') \<le> card (T - set (visited b)) + length (queue b))"
  using assms(1-8)
proof (induction es arbitrary: b P)
  case Nil
  have "edges_done outs P (set (queue b')) {}"
    using Nil.prems unfolding edges_done_def by (auto) (metis option.inject)
  with Nil.prems show ?case by (intro exI [of _ P]) auto
next
  case (Cons e es)
  have e: "e \<in> set (outs cur)" using Cons.prems(2) by simp
  show ?case
  proof (cases "wt_to e \<in> set (visited b)")
    case True
    then obtain q where q: "P (wt_to e) = Some q"
      using Cons.prems(3) unfolding paths_ok_def by (metis domD)
    then have "length q \<le> Suc (length pc)" using Cons.prems(8) by (auto simp: queue_ok_def ran_def)
    with q Cons.prems(7) have "\<forall>e\<in>set (outs cur) - set es. \<exists>q. P (wt_to e) = Some q \<and> length q \<le> Suc (length pc)"
      by auto
    with True Cons.prems show ?thesis by (intro Cons.IH) auto
  next
    case False
    let ?v = "wt_to e"
    let ?P = "P(?v \<mapsto> pc @ [wt_transitionId e])"
    let ?b = "b \<lparr> visited := ?v # visited b,
                  predecessor := (predecessor b)(?v \<mapsto> (cur, wt_transitionId e)) \<rparr>"
    have none: "P ?v = None" using False Cons.prems(3) by (auto simp: paths_ok_def)
    have ok: "paths_ok outs src ?P ?b" by (rule paths_ok_reach [OF Cons.prems(3,4) e False])
    show ?thesis
    proof (cases "?v = tgt")
      case True
      have "length pc < length ts" if "walk outs src ts tgt" for ts
      proof -
        have "P tgt = None" using none True by simp
        with walk_reached_or_waiting [OF that _ Cons.prems(6)] Cons.prems(3) obtain x p where
          "x \<in> insert cur (set (queue b))" "P x = Some p" "length p < length ts"
          by (auto simp: paths_ok_def)
        with Cons.prems(4,8) show ?thesis by (auto simp: queue_ok_def)
      qed
      moreover have res: "found" "b' = ?b" using True False Cons.prems(1) by (auto simp: Let_def)
      moreover have "?P tgt = Some (pc @ [wt_transitionId e])" using True by simp
      ultimately have "paths_ok outs src ?P b' \<and> (\<exists>t. ?P tgt = Some (pc @ [t])
          \<and> (\<forall>ts. walk outs src ts tgt \<longrightarrow> length pc < length ts))" using ok by blast
      then show ?thesis using res(1) by (simp only: if_True) blast
    next
      case ne: False
      let ?b' = "?b \<lparr> queue := queue b @ [?v] \<rparr>"
      have "visit_outgoing tgt cur es ?b' = (found, b')"
        using Cons.prems(1) False ne by (simp add: Let_def)
      moreover have "paths_ok outs src ?P ?b'" using ok by (simp add: paths_ok_def)
      moreover have "edges_done outs ?P (insert cur (set (queue ?b'))) {}"
        using edges_done_reach [OF Cons.prems(6) none] by (simp add: insert_commute)
      moreover have "queue_ok ?P (length pc) (queue ?b')"
        using queue_ok_upd(2) [OF Cons.prems(8) none] by simp
      moreover have size: "card (T - set (visited ?b')) + length (queue ?b') = card (T - set (visited b)) + length (queue b)"
      proof -
        have "?v \<in> T - set (visited b)" using False assms(10) e by auto
        moreover have "T - set (visited ?b') = (T - set (visited b)) - {?v}" by auto
        ultimately show ?thesis
          using card_Suc_Diff1 [of "T - set (visited b)" ?v] assms(9) by simp
      qed
      moreover have "\<forall>e\<in>set (outs cur) - set es. \<exists>q. ?P (wt_to e) = Some q \<and> length q \<le> Suc (length pc)"
        using Cons.prems(7) by auto
      moreover have "?P cur = Some pc" using Cons.prems(4) none by auto
      moreover have "set es \<subseteq> set (outs cur)" "tgt \<notin> set (visited ?b')" using Cons.prems(2,5) ne by auto
      ultimately show ?thesis using Cons.IH [of ?b' ?P] unfolding size by blast
    qed
  qed
qed

section \<open>The whole search\<close>

lemma bfs_loop_spec:
  assumes "paths_ok outs src P b" "edges_done outs P (set (queue b)) {}" "tgt \<notin> set (visited b)"
    "queue b = [] \<or> queue_ok P (length (the (P (hd (queue b))))) (queue b)"
    "finite T" "\<forall>u. \<forall>e\<in>set (outs u). wt_to e \<in> T"
  shows "\<exists>r. bfs_loop outs src tgt b = Some r \<and> (case r of
      Transition_path ts \<Rightarrow> ts \<noteq> [] \<and> walk outs src ts tgt \<and> (\<forall>ts'. walk outs src ts' tgt \<longrightarrow> length ts \<le> length ts')
    | No_path \<Rightarrow> \<not> (\<exists>ts. walk outs src ts tgt)
    | Same_state \<Rightarrow> False)"
  using assms(1-4)
proof (induction "card (T - set (visited b)) + length (queue b)" arbitrary: b P rule: less_induct)
  case less
  show ?case
  proof (cases "queue b")
    case Nil
    have "\<not> (\<exists>ts. walk outs src ts tgt)"
      using walk_reached_or_waiting [of outs src _ tgt P "{}"] less.prems Nil
      by (auto simp: paths_ok_def)
    with Nil show ?thesis by (subst bfs_loop.simps) simp
  next
    case (Cons cur rest)
    let ?b = "b \<lparr> queue := rest \<rparr>"
    from less.prems(4) Cons obtain pc where pc: "P cur = Some pc" and q: "queue_ok P (length pc) (cur # rest)"
      by (auto simp: queue_ok_def)
    obtain found b' where v: "visit_outgoing tgt cur (outs cur) ?b = (found, b')" by fastforce
    have "\<exists>P'. paths_ok outs src P' b' \<and>
      (if found
       then \<exists>t. P' tgt = Some (pc @ [t]) \<and> (\<forall>ts. walk outs src ts tgt \<longrightarrow> length pc < length ts)
       else tgt \<notin> set (visited b') \<and> edges_done outs P' (set (queue b')) {}
         \<and> queue_ok P' (length pc) (queue b')
         \<and> card (T - set (visited b')) + length (queue b') \<le> card (T - set (visited ?b)) + length (queue ?b))"
      using less.prems Cons pc q assms(5,6)
      by (intro visit_outgoing_spec [OF v]) (auto simp: paths_ok_def queue_ok_def)
    then obtain P' where P': "paths_ok outs src P' b'" and
      found: "found \<Longrightarrow> \<exists>t. P' tgt = Some (pc @ [t]) \<and> (\<forall>ts. walk outs src ts tgt \<longrightarrow> length pc < length ts)" and
      more: "\<not> found \<Longrightarrow> tgt \<notin> set (visited b') \<and> edges_done outs P' (set (queue b')) {}
         \<and> queue_ok P' (length pc) (queue b')
         \<and> card (T - set (visited b')) + length (queue b') < card (T - set (visited b)) + length (queue b)"
      using Cons by (auto split: if_splits)
    have step: "bfs_loop outs src tgt b =
        (if found then Option.bind (path_back (predecessor b') src tgt []) (\<lambda>path. Some (Transition_path path))
         else bfs_loop outs src tgt b')"
      by (subst bfs_loop.simps) (simp add: Cons v)
    show ?thesis
    proof (cases found)
      case True
      then obtain t where "P' tgt = Some (pc @ [t])" "\<forall>ts. walk outs src ts tgt \<longrightarrow> length pc < length ts"
        using found by blast
      with path_back_reached [OF P'] P' True step show ?thesis by (auto simp: paths_ok_def Suc_le_eq)
    next
      case False
      have "queue b' = [] \<or> queue_ok P' (length (the (P' (hd (queue b'))))) (queue b')"
      proof (cases "queue b'")
        case (Cons x xs)
        then show ?thesis using more [OF False] by (auto simp: queue_ok_def)
      qed simp
      with less.hyps [of b' P'] more [OF False] P' step False show ?thesis by simp
    qed
  qed
qed

definition connected :: "string comparator \<Rightarrow> WorkflowStateMachine \<Rightarrow> string \<Rightarrow> string \<Rightarrow> bool" where
  "connected lc m c d \<longleftrightarrow> {c, d} \<subseteq> set (map ws_stateId (wm_states m))
     \<and> (\<exists>ts. walk (outgoingByState (indexWorkflowStateMachine lc m)) c ts d)"

lemma statesById_None:
  "statesById (indexWorkflowStateMachine lc m) s = None \<longleftrightarrow> s \<notin> set (map ws_stateId (wm_states m))"
  by (simp add: indexWorkflowStateMachine_def map_of_eq_None_iff comp_def image_image)

lemma search_between:
  assumes "{c, d} \<subseteq> set (map ws_stateId (wm_states m))" "c \<noteq> d"
  obtains (path) ts where "findShortestTransitionPath (indexWorkflowStateMachine lc m) c d = Some (Transition_path ts)"
      "walk (outgoingByState (indexWorkflowStateMachine lc m)) c ts d"
      "\<And>ts'. walk (outgoingByState (indexWorkflowStateMachine lc m)) c ts' d \<Longrightarrow> length ts \<le> length ts'"
  | (none) "findShortestTransitionPath (indexWorkflowStateMachine lc m) c d = Some No_path"
      "\<And>ts. \<not> walk (outgoingByState (indexWorkflowStateMachine lc m)) c ts d"
proof -
  let ?ix = "indexWorkflowStateMachine lc m"
  let ?b = "\<lparr> visited = [c], predecessor = (\<lambda>_. None), queue = [c] \<rparr>"
  have "\<exists>r. bfs_loop (outgoingByState ?ix) c d ?b = Some r \<and> (case r of
      Transition_path ts \<Rightarrow> ts \<noteq> [] \<and> walk (outgoingByState ?ix) c ts d
        \<and> (\<forall>ts'. walk (outgoingByState ?ix) c ts' d \<longrightarrow> length ts \<le> length ts')
    | No_path \<Rightarrow> \<not> (\<exists>ts. walk (outgoingByState ?ix) c ts d)
    | Same_state \<Rightarrow> False)"
    by (rule bfs_loop_spec [of _ _ "[c \<mapsto> []]" _ _ "set (map wt_to (wm_transitions m))"])
      (use assms(2) in \<open>auto simp: paths_ok_def edges_done_def queue_ok_def indexWorkflowStateMachine_def\<close>)
  then obtain r where r: "bfs_loop (outgoingByState ?ix) c d ?b = Some r" and
    spec: "case r of
      Transition_path ts \<Rightarrow> ts \<noteq> [] \<and> walk (outgoingByState ?ix) c ts d
        \<and> (\<forall>ts'. walk (outgoingByState ?ix) c ts' d \<longrightarrow> length ts \<le> length ts')
    | No_path \<Rightarrow> \<not> (\<exists>ts. walk (outgoingByState ?ix) c ts d)
    | Same_state \<Rightarrow> False" by blast
  have "findShortestTransitionPath ?ix c d = Some r"
    using assms r by (simp add: findShortestTransitionPath_def statesById_None)
  with spec path none show ?thesis by (cases r) simp_all
qed

lemma search_unknown:
  "\<not> {c, d} \<subseteq> set (map ws_stateId (wm_states m)) \<Longrightarrow>
     findShortestTransitionPath (indexWorkflowStateMachine lc m) c d = Some No_path"
  by (auto simp: findShortestTransitionPath_def statesById_None)

text \<open>The two answers for different states.\<close>

lemma search_gap:
  assumes "c \<noteq> d"
  obtains (path) ts where "findShortestTransitionPath (indexWorkflowStateMachine lc m) c d = Some (Transition_path ts)"
      "connected lc m c d"
  | (none) "findShortestTransitionPath (indexWorkflowStateMachine lc m) c d = Some No_path" "\<not> connected lc m c d"
proof (cases "{c, d} \<subseteq> set (map ws_stateId (wm_states m))")
  case True
  show ?thesis
    by (rule search_between [OF True assms, of lc]) (use True path none in \<open>auto simp: connected_def\<close>)
next
  case False
  then show ?thesis using none [OF search_unknown [OF False]] unfolding connected_def by blast
qed

section \<open>Properties\<close>

text \<open>
  C28: The bridging-path search is correct and always returns: between two states of the machine it
  answers that they are the same state exactly when they are, otherwise it gives a walk from the first
  to the second that no walk undercuts in length, or says there is none, and then there is none; for
  a state the machine does not have it says there is none.
\<close>

theorem shortest_path_correct:
  "\<exists>r. findShortestTransitionPath (indexWorkflowStateMachine lc m) fromState toState = Some r \<and>
     (if {fromState, toState} \<subseteq> set (map ws_stateId (wm_states m))
      then (case r of
          Same_state \<Rightarrow> fromState = toState
        | Transition_path ts \<Rightarrow> fromState \<noteq> toState
            \<and> walk (outgoingByState (indexWorkflowStateMachine lc m)) fromState ts toState
            \<and> \<not> (\<exists>ts'. walk (outgoingByState (indexWorkflowStateMachine lc m)) fromState ts' toState
                   \<and> length ts' < length ts)
        | No_path \<Rightarrow> fromState \<noteq> toState
            \<and> \<not> (\<exists>ts. walk (outgoingByState (indexWorkflowStateMachine lc m)) fromState ts toState))
      else r = No_path)"
proof (cases "{fromState, toState} \<subseteq> set (map ws_stateId (wm_states m))")
  case True
  show ?thesis
  proof (cases "fromState = toState")
    case same: True
    then show ?thesis using True by (simp add: findShortestTransitionPath_def statesById_None)
  next
    case False
    show ?thesis
      by (rule search_between [OF True False, of lc]) (use True False in \<open>force simp: not_less\<close>)+
  qed
next
  case False
  show ?thesis unfolding if_not_P [OF False] using search_unknown [OF False] by blast
qed

end
