(* ===== verification/WorkflowValidator.thy ===== *)
theory WorkflowValidator
  imports WorkflowSearch
begin

text \<open>
  The workflow gate (\<^verbatim>\<open>packages/core-engine/src/workflow-state-machine-validator.ts\<close>): checking the
  step claims of one test case against a state machine, and the report over all cases of a run. The
  human-readable \<^verbatim>\<open>message\<close> of an issue is left out; ratios are exact rationals before rounding.
\<close>

section \<open>Data\<close>

record WorkflowStateMachineStepClaim =
  sc_stepIndex :: int
  sc_transitionId :: string

record WorkflowStateMachineCaseClaims =
  cc_testCaseId :: string
  cc_stateMachineId :: string
  cc_steps :: "WorkflowStateMachineStepClaim list"
  cc_requireTerminalExit :: "bool option"

datatype WorkflowStateMachineSeverity = Issue_error | Issue_warning

datatype WorkflowStateMachineIssueCode =
    Transition_unknown | Step_indices_out_of_order | Duplicate_step_index | First_step_not_from_entry
  | Consecutive_states_unreachable | Missing_intermediate_step | Last_state_not_terminal
  | Case_state_machine_unknown

fun issue_code_str :: "WorkflowStateMachineIssueCode \<Rightarrow> string" where
  "issue_code_str Transition_unknown = ''transition_unknown''"
| "issue_code_str Step_indices_out_of_order = ''step_indices_out_of_order''"
| "issue_code_str Duplicate_step_index = ''duplicate_step_index''"
| "issue_code_str First_step_not_from_entry = ''first_step_not_from_entry''"
| "issue_code_str Consecutive_states_unreachable = ''consecutive_states_unreachable''"
| "issue_code_str Missing_intermediate_step = ''missing_intermediate_step''"
| "issue_code_str Last_state_not_terminal = ''last_state_not_terminal''"
| "issue_code_str Case_state_machine_unknown = ''case_state_machine_unknown''"

record WorkflowStateMachineIssue =
  wi_code :: WorkflowStateMachineIssueCode
  wi_severity :: WorkflowStateMachineSeverity
  wi_testCaseId :: string
  wi_stateMachineId :: string
  wi_stepIndex :: "int option"
  wi_statePath :: "string list"
  wi_transitionPath :: "string list"

record WorkflowStateMachineCaseRow =
  cr_testCaseId :: string
  cr_stateMachineId :: string
  cr_unmatched :: bool
  cr_clean :: bool
  cr_blocked :: bool
  cr_issues :: "WorkflowStateMachineIssue list"
  cr_transitionIdsExercised :: "string list"
  cr_statePath :: "string list"

record WorkflowStateMachineCoverageRow =
  cv_stateMachineId :: string
  cv_exercisedTransitionIds :: "string list"
  cv_unexercisedTransitionIds :: "string list"
  cv_totalTransitions :: nat
  cv_coverageRatio :: rat

record WorkflowStateMachineReport =
  rp_jobId :: string
  rp_generatedAt :: string
  rp_perCase :: "WorkflowStateMachineCaseRow list"
  rp_perStateMachine :: "WorkflowStateMachineCoverageRow list"
  rp_issues :: "WorkflowStateMachineIssue list"
  rp_blocked :: bool
  rp_totalCases :: nat
  rp_unmatchedCases :: nat
  rp_cleanCases :: nat
  rp_totalStateMachines :: nat

section \<open>One test case\<close>

definition mk_issue ::
  "WorkflowStateMachineIssueCode \<Rightarrow> WorkflowStateMachineSeverity \<Rightarrow> string \<Rightarrow> string \<Rightarrow> int option \<Rightarrow>
   string list \<Rightarrow> string list \<Rightarrow> WorkflowStateMachineIssue" where
  "mk_issue code severity tc sm idx path ts =
     \<lparr> wi_code = code, wi_severity = severity, wi_testCaseId = tc, wi_stateMachineId = sm,
       wi_stepIndex = idx, wi_statePath = path, wi_transitionPath = ts \<rparr>"

text \<open>The up-front loop over the step indices.\<close>

fun order_issues ::
  "string \<Rightarrow> string \<Rightarrow> WorkflowStateMachineStepClaim list \<Rightarrow> int list \<Rightarrow> int \<Rightarrow> WorkflowStateMachineIssue list" where
  "order_issues tc sm [] seen lastIndex = []"
| "order_issues tc sm (s # ss) seen lastIndex =
     (if sc_stepIndex s \<in> set seen
      then [mk_issue Duplicate_step_index Issue_error tc sm (Some (sc_stepIndex s)) [] []]
      else if sc_stepIndex s \<le> lastIndex
      then [mk_issue Step_indices_out_of_order Issue_error tc sm (Some (sc_stepIndex s)) [] []]
      else [])
     @ order_issues tc sm ss (set_add (sc_stepIndex s) seen) (sc_stepIndex s)"

definition gap_issue ::
  "WorkflowStateMachineIndex \<Rightarrow> string \<Rightarrow> string \<Rightarrow> int \<Rightarrow> string \<Rightarrow> string \<Rightarrow> WorkflowStateMachineIssue list" where
  "gap_issue ix tc sm idx cursorState from =
     (case findShortestTransitionPath ix cursorState from of
        Some No_path \<Rightarrow>
          [mk_issue Consecutive_states_unreachable Issue_error tc sm (Some idx) [cursorState, from] []]
      | Some (Transition_path ts) \<Rightarrow>
          [mk_issue Missing_intermediate_step Issue_warning tc sm (Some idx) [cursorState, from] ts]
      | _ \<Rightarrow> [])"

definition is_entry :: "WorkflowStateMachineIndex \<Rightarrow> string \<Rightarrow> bool" where
  "is_entry ix s = (case statesById ix s of None \<Rightarrow> False | Some st \<Rightarrow> ws_entry st = Some True)"

definition is_terminal :: "WorkflowStateMachineIndex \<Rightarrow> string \<Rightarrow> bool" where
  "is_terminal ix s = (case statesById ix s of None \<Rightarrow> False | Some st \<Rightarrow> ws_terminal st = Some True)"

text \<open>
  The walk over the ordered steps: the issues found, the transitions exercised, the states traversed
  and the final cursor.
\<close>

fun walk_steps ::
  "WorkflowStateMachineIndex \<Rightarrow> string \<Rightarrow> string \<Rightarrow> string option \<Rightarrow> bool \<Rightarrow>
   WorkflowStateMachineStepClaim list \<Rightarrow>
     WorkflowStateMachineIssue list \<times> string list \<times> string list \<times> string option" where
  "walk_steps ix tc sm cursorState firstStepHandled [] = ([], [], [], cursorState)"
| "walk_steps ix tc sm cursorState firstStepHandled (s # ss) =
     (case transitionsById ix (sc_transitionId s) of
        None \<Rightarrow>
          (case walk_steps ix tc sm None True ss of
             (issues, exercised, path, final) \<Rightarrow>
               (mk_issue Transition_unknown Issue_error tc sm (Some (sc_stepIndex s)) [] [sc_transitionId s]
                  # issues, exercised, path, final))
      | Some t \<Rightarrow>
          (case walk_steps ix tc sm (Some (wt_to t)) True ss of
             (issues, exercised, path, final) \<Rightarrow>
               ((if \<not> firstStepHandled
                 then (if is_entry ix (wt_from t) then []
                       else [mk_issue First_step_not_from_entry Issue_error tc sm (Some (sc_stepIndex s))
                               [wt_from t] [wt_transitionId t]])
                 else (case cursorState of
                         None \<Rightarrow> []
                       | Some c \<Rightarrow>
                           if c \<noteq> wt_from t then gap_issue ix tc sm (sc_stepIndex s) c (wt_from t) else []))
                @ issues,
                wt_transitionId t # exercised,
                (if \<not> firstStepHandled then [wt_from t] else []) @ [wt_to t] @ path,
                final)))"

definition terminal_issue ::
  "WorkflowStateMachineIndex \<Rightarrow> string \<Rightarrow> string \<Rightarrow> bool option \<Rightarrow> WorkflowStateMachineStepClaim list \<Rightarrow>
   string option \<Rightarrow> WorkflowStateMachineIssue list" where
  "terminal_issue ix tc sm requireTerminalExit orderedSteps final =
     (case final of
        None \<Rightarrow> []
      | Some c \<Rightarrow>
          if requireTerminalExit = Some True \<and> \<not> is_terminal ix c
          then [mk_issue Last_state_not_terminal Issue_error tc sm
                  (if orderedSteps = [] then None else Some (sc_stepIndex (last orderedSteps))) [c] []]
          else [])"

definition issue_index :: "WorkflowStateMachineIssue \<Rightarrow> int" where
  "issue_index i = (case wi_stepIndex i of None \<Rightarrow> -1 | Some n \<Rightarrow> n)"

definition sort_issues :: "string comparator \<Rightarrow> WorkflowStateMachineIssue list \<Rightarrow> WorkflowStateMachineIssue list" where
  "sort_issues lc issues = sort_key issue_index (sort_by lc (issue_code_str \<circ> wi_code) issues)"

definition validateStepSequenceAgainstStateMachine ::
  "string comparator \<Rightarrow> WorkflowStateMachineIndex \<Rightarrow> string \<Rightarrow> WorkflowStateMachineStepClaim list \<Rightarrow>
   bool option \<Rightarrow> WorkflowStateMachineCaseRow" where
  "validateStepSequenceAgainstStateMachine lc ix tc steps requireTerminalExit =
     (let sm = wm_id (ix_stateMachine ix);
          ordering = order_issues tc sm steps [] 0;
          orderedSteps = sort_key sc_stepIndex steps;
          (walked, exercised, path, final) =
            (if ordering = [] \<and> steps \<noteq> [] then walk_steps ix tc sm None False orderedSteps
             else ([], [], [], None));
          ending = (if ordering = [] \<and> steps \<noteq> []
            then terminal_issue ix tc sm requireTerminalExit orderedSteps final else []);
          issues = sort_issues lc (ordering @ walked @ ending)
      in \<lparr> cr_testCaseId = tc, cr_stateMachineId = sm, cr_unmatched = False,
           cr_clean = (issues = []), cr_blocked = (\<exists>i\<in>set issues. wi_severity i = Issue_error),
           cr_issues = issues, cr_transitionIdsExercised = exercised, cr_statePath = path \<rparr>)"

section \<open>The gate\<close>

definition unmatched_row :: "WorkflowStateMachineCaseClaims \<Rightarrow> WorkflowStateMachineCaseRow" where
  "unmatched_row c =
     \<lparr> cr_testCaseId = cc_testCaseId c, cr_stateMachineId = cc_stateMachineId c, cr_unmatched = True,
       cr_clean = True, cr_blocked = False,
       cr_issues = [mk_issue Case_state_machine_unknown Issue_warning (cc_testCaseId c)
                      (cc_stateMachineId c) None [] []],
       cr_transitionIdsExercised = [], cr_statePath = [] \<rparr>"

definition case_row ::
  "string comparator \<Rightarrow> registry \<Rightarrow> WorkflowStateMachineCaseClaims \<Rightarrow> WorkflowStateMachineCaseRow" where
  "case_row lc registry c =
     (case registry_get (cc_stateMachineId c) registry of
        None \<Rightarrow> unmatched_row c
      | Some m \<Rightarrow> validateStepSequenceAgainstStateMachine lc (indexWorkflowStateMachine lc m)
                    (cc_testCaseId c) (cc_steps c) (cc_requireTerminalExit c))"

text \<open>
  \<^verbatim>\<open>exercisedByMachine.get(machineId)\<close>: the transitions of all cases that were validated against
  the machine with this id.
\<close>

definition exercised_by ::
  "string comparator \<Rightarrow> registry \<Rightarrow> WorkflowStateMachineCaseClaims list \<Rightarrow> string \<Rightarrow> string list" where
  "exercised_by lc registry claims mid =
     js_set (concat (map (\<lambda>c.
       case registry_get (cc_stateMachineId c) registry of
         None \<Rightarrow> []
       | Some m \<Rightarrow> if wm_id m = mid then cr_transitionIdsExercised (case_row lc registry c) else []) claims))"

definition coverage_row ::
  "string comparator \<Rightarrow> string list \<Rightarrow> WorkflowStateMachine \<Rightarrow> WorkflowStateMachineCoverageRow" where
  "coverage_row lc exercised m =
     (let total = length (wm_transitions m); exercisedSorted = sort_by lc (\<lambda>x. x) exercised
      in \<lparr> cv_stateMachineId = wm_id m, cv_exercisedTransitionIds = exercisedSorted,
           cv_unexercisedTransitionIds = sort_by lc (\<lambda>x. x)
             (filter (\<lambda>i. i \<notin> set exercised) (map wt_transitionId (wm_transitions m))),
           cv_totalTransitions = total,
           cv_coverageRatio = (if total = 0 then 1
             else js_round6 (of_nat (length exercisedSorted) / of_nat total)) \<rparr>)"

definition evaluateWorkflowStateMachineGate ::
  "string comparator \<Rightarrow> string \<Rightarrow> string \<Rightarrow> registry \<Rightarrow> WorkflowStateMachineCaseClaims list \<Rightarrow>
     WorkflowStateMachineReport" where
  "evaluateWorkflowStateMachineGate lc jobId generatedAt registry claims =
     (let perCase = sort_by lc cr_testCaseId (sort_by lc cr_stateMachineId (map (case_row lc registry) claims));
          perStateMachine = sort_by lc cv_stateMachineId
            (map (\<lambda>m. coverage_row lc (exercised_by lc registry claims (wm_id m)) m) (registry_list lc registry));
          issues = sort_by lc wi_testCaseId (sort_issues lc (concat (map cr_issues perCase)))
      in \<lparr> rp_jobId = jobId, rp_generatedAt = generatedAt, rp_perCase = perCase,
           rp_perStateMachine = perStateMachine, rp_issues = issues,
           rp_blocked = (\<exists>i\<in>set issues. wi_severity i = Issue_error),
           rp_totalCases = length perCase,
           rp_unmatchedCases = length (filter cr_unmatched perCase),
           rp_cleanCases = length (filter cr_clean perCase),
           rp_totalStateMachines = length (registry_list lc registry) \<rparr>)"

section \<open>What a clean and an unblocked row mean\<close>

lemma order_issues_Nil:
  assumes "\<forall>i\<in>set seen. i \<le> l"
  shows "order_issues tc sm steps seen l = [] \<longleftrightarrow> sorted_wrt (<) (l # map sc_stepIndex steps)"
  using assms
proof (induction steps arbitrary: seen l)
  case (Cons s ss)
  show ?case
  proof (cases "sc_stepIndex s \<le> l")
    case True
    then show ?thesis by auto
  next
    case False
    then have "sc_stepIndex s \<notin> set seen" "\<forall>i\<in>set (set_add (sc_stepIndex s) seen). i \<le> sc_stepIndex s"
      using Cons.prems by force+
    with Cons.IH [OF this(2)] False show ?thesis by auto (meson less_trans not_le)
  qed
qed simp

lemma order_issues_errors: "i \<in> set (order_issues tc sm steps seen l) \<Longrightarrow> wi_severity i = Issue_error"
  by (induction steps arbitrary: seen l) (auto simp: mk_issue_def split: if_splits)

text \<open>\<open>chain R c ts\<close>: starting at state \<open>c\<close>, \<open>R\<close> leads from where one transition ends to where the next begins.\<close>

fun chain :: "(string \<Rightarrow> string \<Rightarrow> bool) \<Rightarrow> string \<Rightarrow> WorkflowStateMachineTransition list \<Rightarrow> bool" where
  "chain R c [] = True"
| "chain R c (t # ts) = (R c (wt_from t) \<and> chain R (wt_to t) ts)"

abbreviation claimed ::
  "WorkflowStateMachineIndex \<Rightarrow> WorkflowStateMachineStepClaim list \<Rightarrow> WorkflowStateMachineTransition list \<Rightarrow> bool" where
  "claimed ix steps ts \<equiv> map (\<lambda>s. transitionsById ix (sc_transitionId s)) steps = map Some ts"

text \<open>
  Both notions of a good walk, no issue at all and no error, have the same shape: \<open>ok\<close> judges a list
  of issues and \<open>R\<close> the gap between two transitions.
\<close>

locale walk_judgement =
  fixes ix :: WorkflowStateMachineIndex
    and ok :: "WorkflowStateMachineIssue list \<Rightarrow> bool"
    and R :: "string \<Rightarrow> string \<Rightarrow> bool"
  assumes ok_append: "ok (xs @ ys) \<longleftrightarrow> ok xs \<and> ok ys"
    and ok_Nil: "ok []"
    and ok_error: "wi_severity i = Issue_error \<Longrightarrow> \<not> ok [i]"
    and ok_gap: "ok (if c \<noteq> d then gap_issue ix tc sm n c d else []) \<longleftrightarrow> R c d"
begin

lemma ok_Cons_error: "wi_severity i = Issue_error \<Longrightarrow> \<not> ok (i # is)"
  using ok_append [of "[i]" "is"] ok_error by simp

lemma walk_from:
  "ok (fst (walk_steps ix tc sm (Some c) True steps)) \<longleftrightarrow> (\<exists>ts. claimed ix steps ts \<and> chain R c ts)"
proof (induction steps arbitrary: c)
  case (Cons s ss)
  show ?case
  proof (cases "transitionsById ix (sc_transitionId s)")
    case None
    then show ?thesis by (auto simp: ok_append ok_Nil ok_Cons_error mk_issue_def split: prod.splits)
  next
    case (Some t)
    have "ok (fst (walk_steps ix tc sm (Some c) True (s # ss))) \<longleftrightarrow>
        R c (wt_from t) \<and> ok (fst (walk_steps ix tc sm (Some (wt_to t)) True ss))"
      using ok_gap [of c "wt_from t" tc sm "sc_stepIndex s"] Some
      by (cases "c = wt_from t") (auto simp: ok_append ok_Nil split: prod.splits)
    also have "\<dots> \<longleftrightarrow> (\<exists>ts. claimed ix (s # ss) ts \<and> chain R c ts)"
      unfolding Cons.IH using Some by (auto simp: map_eq_Cons_conv) (metis chain.simps(2) list.simps(9))
    finally show ?thesis .
  qed
qed (simp add: ok_Nil)

lemma walk_all:
  assumes "steps \<noteq> []"
  shows "ok (fst (walk_steps ix tc sm None False steps)) \<longleftrightarrow>
    (\<exists>t ts. claimed ix steps (t # ts) \<and> is_entry ix (wt_from t) \<and> chain R (wt_to t) ts)"
proof (cases steps)
  case (Cons s ss)
  show ?thesis
  proof (cases "transitionsById ix (sc_transitionId s)")
    case None
    then show ?thesis unfolding Cons by (auto simp: ok_append ok_Nil ok_Cons_error mk_issue_def split: prod.splits)
  next
    case (Some t)
    have "ok (fst (walk_steps ix tc sm None False (s # ss))) \<longleftrightarrow>
        is_entry ix (wt_from t) \<and> ok (fst (walk_steps ix tc sm (Some (wt_to t)) True ss))"
      using Some by (auto simp: ok_append ok_Nil ok_Cons_error mk_issue_def split: prod.splits)
    then show ?thesis unfolding Cons walk_from using Some by auto
  qed
qed (use assms in simp)

end

lemma walk_final:
  "claimed ix steps ts \<Longrightarrow> snd (snd (snd (walk_steps ix tc sm c h steps))) =
     (if ts = [] then c else Some (wt_to (last ts)))"
proof (induction steps arbitrary: ts c h)
  case (Cons s ss)
  then obtain t ts' where t: "ts = t # ts'" "transitionsById ix (sc_transitionId s) = Some t" "claimed ix ss ts'"
    by (auto simp: map_eq_Cons_conv)
  with Cons.IH [OF t(3), of "Some (wt_to t)" True] show ?case by (auto split: prod.splits)
qed simp

lemma gap_issue_nonempty: "c \<noteq> d \<Longrightarrow> gap_issue (indexWorkflowStateMachine lc m) tc sm n c d \<noteq> []"
  by (rule search_gap [of c d lc m]) (simp_all add: gap_issue_def)

interpretation clean_walk: walk_judgement "indexWorkflowStateMachine lc m" "\<lambda>is. is = []" "(=)" for lc m
  by unfold_locales (simp_all add: gap_issue_nonempty)

text \<open>A gap can be bridged when the two states are the same or the machine has a walk between them.\<close>

definition bridgeable :: "string comparator \<Rightarrow> WorkflowStateMachine \<Rightarrow> string \<Rightarrow> string \<Rightarrow> bool" where
  "bridgeable lc m c d \<longleftrightarrow> c = d \<or> connected lc m c d"

definition no_errors :: "WorkflowStateMachineIssue list \<Rightarrow> bool" where
  "no_errors is \<longleftrightarrow> list_all (\<lambda>i. wi_severity i \<noteq> Issue_error) is"

lemma no_errors_gap:
  assumes "c \<noteq> d"
  shows "no_errors (gap_issue (indexWorkflowStateMachine lc m) tc sm n c d) \<longleftrightarrow> connected lc m c d"
  by (rule search_gap [OF assms, of lc m]) (simp_all add: gap_issue_def mk_issue_def no_errors_def)

interpretation unblocked_walk: walk_judgement "indexWorkflowStateMachine lc m" no_errors "bridgeable lc m" for lc m
  by unfold_locales (simp_all add: no_errors_gap bridgeable_def, simp_all add: no_errors_def)

lemma set_sort_issues [simp]: "set (sort_issues lc xs) = set xs"
  by (simp add: sort_issues_def)

lemma sort_issues_Nil [simp]: "sort_issues lc xs = [] \<longleftrightarrow> xs = []"
  by (metis set_empty set_sort_issues)

lemma sort_key_increasing: "sorted_wrt (<) (map f xs) \<Longrightarrow> sort_key f xs = xs" for f :: "'a \<Rightarrow> int"
  by (rule sort_key_id_if_sorted, rule sorted_wrt_mono_rel [of _ "(<)"]) simp_all

lemma terminal_issue_errors:
  "i \<in> set (terminal_issue ix tc sm req steps final) \<Longrightarrow> wi_severity i = Issue_error"
  by (auto simp: terminal_issue_def mk_issue_def split: option.splits if_splits)

text \<open>A judgement that does not depend on the order of the issues judges a whole row.\<close>

locale row_judgement = walk_judgement ix ok R
  for ix :: WorkflowStateMachineIndex and ok :: "WorkflowStateMachineIssue list \<Rightarrow> bool"
    and R :: "string \<Rightarrow> string \<Rightarrow> bool" +
  fixes lc :: "string comparator"
  assumes ok_sort: "ok (sort_issues lc xs) \<longleftrightarrow> ok xs"
begin

lemma ok_only_errors: "\<forall>i\<in>set xs. wi_severity i = Issue_error \<Longrightarrow> ok xs \<longleftrightarrow> xs = []"
  by (cases xs) (auto simp: ok_Nil ok_Cons_error)

lemma row_ok:
  "ok (cr_issues (validateStepSequenceAgainstStateMachine lc ix tc steps req)) \<longleftrightarrow>
     sorted_wrt (<) (0 # map sc_stepIndex steps)
     \<and> (if steps = [] then True
        else \<exists>t ts. claimed ix steps (t # ts) \<and> is_entry ix (wt_from t) \<and> chain R (wt_to t) ts
          \<and> (if req = Some True then is_terminal ix (wt_to (last (t # ts))) else True))"
    (is "?ok \<longleftrightarrow> ?inc \<and> ?rest")
proof -
  let ?sm = "wm_id (ix_stateMachine ix)"
  have ord: "order_issues tc ?sm steps [] 0 = [] \<longleftrightarrow> ?inc" by (rule order_issues_Nil) simp
  have ord_ok: "ok (order_issues tc ?sm steps [] 0) \<longleftrightarrow> order_issues tc ?sm steps [] 0 = []"
    by (rule ok_only_errors) (simp add: order_issues_errors)
  consider (empty) "steps = []" | (disorder) "\<not> ?inc" | (walk) "?inc" "steps \<noteq> []" by blast
  then show ?thesis
  proof cases
    case empty
    then show ?thesis by (simp add: validateStepSequenceAgainstStateMachine_def Let_def ok_sort ok_Nil)
  next
    case disorder
    then have "order_issues tc ?sm steps [] 0 \<noteq> []" unfolding ord .
    then have "?ok \<longleftrightarrow> ok (order_issues tc ?sm steps [] 0)"
      by (simp add: validateStepSequenceAgainstStateMachine_def Let_def ok_sort)
    with disorder ord ord_ok show ?thesis by blast
  next
    case walk
    have srt: "sort_key sc_stepIndex steps = steps" using walk(1) by (intro sort_key_increasing) simp
    obtain walked exercised path final where
      w: "walk_steps ix tc ?sm None False steps = (walked, exercised, path, final)" by (cases "walk_steps ix tc ?sm None False steps") auto
    have ord0: "order_issues tc ?sm steps [] 0 = []" by (rule iffD2 [OF ord walk(1)])
    have "cr_issues (validateStepSequenceAgainstStateMachine lc ix tc steps req)
        = sort_issues lc (walked @ terminal_issue ix tc ?sm req steps final)"
      using walk(2) by (simp add: validateStepSequenceAgainstStateMachine_def Let_def ord0 srt w)
    then have "?ok \<longleftrightarrow> ok walked \<and> terminal_issue ix tc ?sm req steps final = []"
      using ok_only_errors [of "terminal_issue ix tc ?sm req steps final"]
      by (simp add: ok_sort ok_append terminal_issue_errors)
    moreover have "ok walked \<longleftrightarrow> (\<exists>t ts. claimed ix steps (t # ts) \<and> is_entry ix (wt_from t) \<and> chain R (wt_to t) ts)"
      using walk_all [OF walk(2), of tc ?sm] w by simp
    moreover have "final = Some (wt_to (last (t # ts)))" if "claimed ix steps (t # ts)" for t ts
      using walk_final [OF that, of tc ?sm None False] w by simp
    moreover have "terminal_issue ix tc ?sm req steps (Some c) = [] \<longleftrightarrow> (if req = Some True then is_terminal ix c else True)" for c
      by (simp add: terminal_issue_def)
    ultimately show ?thesis using walk by metis
  qed
qed

end

interpretation clean_row: row_judgement "indexWorkflowStateMachine lc m" "\<lambda>is. is = []" "(=)" lc for lc m
  by unfold_locales simp

interpretation unblocked_row: row_judgement "indexWorkflowStateMachine lc m" no_errors "bridgeable lc m" lc for lc m
  by unfold_locales (simp add: no_errors_def list_all_iff)

lemma row_flags:
  "cr_clean (validateStepSequenceAgainstStateMachine lc ix tc steps req) \<longleftrightarrow>
     cr_issues (validateStepSequenceAgainstStateMachine lc ix tc steps req) = []"
  "cr_blocked (validateStepSequenceAgainstStateMachine lc ix tc steps req) \<longleftrightarrow>
     \<not> no_errors (cr_issues (validateStepSequenceAgainstStateMachine lc ix tc steps req))"
  by (auto simp: validateStepSequenceAgainstStateMachine_def Let_def no_errors_def list_all_iff split: prod.splits)

section \<open>Properties\<close>

text \<open>
  A test case is reported clean exactly when its steps are a walk of the state machine: the step
  indices are positive and strictly increasing, every step names a transition of the machine, the
  first one leaves an entry state, each further one starts where the previous one ended, and, when a
  terminal exit is required, the last one ends in a terminal state.
\<close>

theorem clean_case_is_a_walk:
  "cr_clean (validateStepSequenceAgainstStateMachine lc (indexWorkflowStateMachine lc m) tc steps req) \<longleftrightarrow>
     sorted_wrt (<) (0 # map sc_stepIndex steps)
     \<and> (if steps = [] then True
        else \<exists>t ts. map (\<lambda>s. transitionsById (indexWorkflowStateMachine lc m) (sc_transitionId s)) steps
              = map Some (t # ts)
          \<and> is_entry (indexWorkflowStateMachine lc m) (wt_from t) \<and> chain (=) (wt_to t) ts
          \<and> (if req = Some True then is_terminal (indexWorkflowStateMachine lc m) (wt_to (last (t # ts))) else True))"
  unfolding row_flags by (rule clean_row.row_ok)

text \<open>
  A test case blocks the run exactly when it cannot be completed to a walk: it passes if and only
  if the step indices are positive and strictly increasing, all transitions are known, the first one
  leaves an entry state, a required terminal exit is reached, and every gap between two consecutive
  steps can be closed by some sequence of transitions of the machine.
\<close>

theorem unblocked_case_is_completable:
  "\<not> cr_blocked (validateStepSequenceAgainstStateMachine lc (indexWorkflowStateMachine lc m) tc steps req) \<longleftrightarrow>
     sorted_wrt (<) (0 # map sc_stepIndex steps)
     \<and> (if steps = [] then True
        else \<exists>t ts. map (\<lambda>s. transitionsById (indexWorkflowStateMachine lc m) (sc_transitionId s)) steps
              = map Some (t # ts)
          \<and> is_entry (indexWorkflowStateMachine lc m) (wt_from t)
          \<and> chain (\<lambda>c d. c = d \<or> {c, d} \<subseteq> set (map ws_stateId (wm_states m))
              \<and> (\<exists>path. walk (outgoingByState (indexWorkflowStateMachine lc m)) c path d)) (wt_to t) ts
          \<and> (if req = Some True then is_terminal (indexWorkflowStateMachine lc m) (wt_to (last (t # ts))) else True))"
  unfolding row_flags not_not
  by (rule unblocked_row.row_ok [unfolded bridgeable_def [abs_def] connected_def [abs_def]])

end
