(* ===== verification/WorkflowGate.thy ===== *)
theory WorkflowGate
  imports WorkflowValidator
begin

text \<open>
  What the constructor and the topology builder of \<^verbatim>\<open>workflow-state-machine.ts\<close> accept, the registry
  under every sequence of registrations and overrides, and the report of
  \<^verbatim>\<open>evaluateWorkflowStateMachineGate\<close> over such a registry.
\<close>

section \<open>Construction\<close>

definition states_ok :: "WorkflowStateMachineState list \<Rightarrow> bool" where
  "states_ok states \<longleftrightarrow> list_all (\<lambda>s. js_trim (ws_stateId s) \<noteq> []) states \<and> distinct (map ws_stateId states)"

definition transitions_ok :: "string list \<Rightarrow> WorkflowStateMachineTransition list \<Rightarrow> bool" where
  "transitions_ok stateIds ts \<longleftrightarrow> list_all (\<lambda>t. js_trim (wt_transitionId t) \<noteq> []) ts
     \<and> distinct (map wt_transitionId ts)
     \<and> list_all (\<lambda>t. wt_from t \<in> set stateIds \<and> wt_to t \<in> set stateIds) ts"

lemma check_states_Inr:
  "check_states ss seen = Inr r \<longleftrightarrow> r = seen @ map ws_stateId ss \<and> states_ok ss
     \<and> set (map ws_stateId ss) \<inter> set seen = {}"
proof (induction ss seen rule: check_states.induct)
  case (2 s ss seen)
  then show ?case by (cases "js_trim (ws_stateId s) = [] \<or> ws_stateId s \<in> set seen") (auto simp: states_ok_def)
qed (auto simp: states_ok_def)

lemma check_transitions_None:
  "check_transitions ids ts seen = None \<longleftrightarrow> transitions_ok ids ts \<and> set (map wt_transitionId ts) \<inter> set seen = {}"
proof (induction ids ts seen rule: check_transitions.induct)
  case (2 ids t ts seen)
  show ?case
  proof (cases "js_trim (wt_transitionId t) = [] \<or> wt_transitionId t \<in> set seen \<or> wt_from t \<notin> set ids \<or> wt_to t \<notin> set ids")
    case True
    then show ?thesis by (auto simp: transitions_ok_def)
  next
    case False
    with 2 show ?thesis by (auto simp: transitions_ok_def)
  qed
qed (simp add: transitions_ok_def)

lemma create_Inr:
  "createWorkflowStateMachine lc mid label states ts prov = Inr m \<longleftrightarrow>
     js_trim mid \<noteq> [] \<and> js_trim label \<noteq> [] \<and> states \<noteq> [] \<and> states_ok states
     \<and> (\<exists>s\<in>set states. ws_entry s = Some True) \<and> transitions_ok (map ws_stateId states) ts
     \<and> m = \<lparr> wm_id = mid, wm_label = label, wm_states = sort_by lc ws_stateId states,
             wm_transitions = sort_by lc wt_transitionId ts,
             wm_provenance = (case prov of None \<Rightarrow> Manual | Some p \<Rightarrow> p) \<rparr>"
proof (cases "check_states states []")
  case (Inl err)
  then have "\<not> states_ok states" using check_states_Inr [of states "[]"] by auto
  with Inl show ?thesis by (auto simp: createWorkflowStateMachine_def)
next
  case (Inr ids)
  then have ids: "ids = map ws_stateId states" "states_ok states" by (simp_all add: check_states_Inr)
  show ?thesis
    using check_transitions_None [of ids ts "[]"] Inr ids
    by (auto simp: createWorkflowStateMachine_def filter_empty_conv split: option.splits)
qed

lemma promote_entry_ids [simp]: "map ws_stateId (promote_entry lc states) = map ws_stateId states"
  by (simp add: promote_entry_def Let_def)

lemma promote_entry_entry:
  assumes "states \<noteq> []"
  shows "\<exists>s\<in>set (promote_entry lc states). ws_entry s = Some True"
proof (cases "\<exists>s\<in>set states. ws_entry s = Some True")
  case False
  let ?h = "hd (sort_by lc ws_stateId states)"
  have "sort_by lc ws_stateId states \<noteq> []" using assms by (metis length_0_conv length_sort_by)
  then have "?h \<in> set states" using hd_in_set set_sort_by by metis
  then have "?h \<lparr> ws_entry := Some True \<rparr> \<in> set (promote_entry lc states)"
    using False assms by (auto simp: promote_entry_def Let_def image_iff)
  then show ?thesis by force
qed (simp add: promote_entry_def)

lemma states_ok_promote [simp]: "states_ok (promote_entry lc states) = states_ok states"
proof -
  have "states_ok xs \<longleftrightarrow> list_all (\<lambda>i. js_trim i \<noteq> []) (map ws_stateId xs) \<and> distinct (map ws_stateId xs)" for xs
    by (simp add: states_ok_def list_all_iff)
  then show ?thesis by (simp only: promote_entry_ids)
qed

section \<open>Coverage\<close>

datatype registry_op = Register WorkflowStateMachine | Override WorkflowStateMachine

fun registry_step :: "registry \<Rightarrow> registry_op \<Rightarrow> registry" where
  "registry_step r (Register m) = (case registry_register m r of Inl _ \<Rightarrow> r | Inr r' \<Rightarrow> r')"
| "registry_step r (Override m) = registry_override m r"

definition registry_ok :: "registry \<Rightarrow> bool" where
  "registry_ok r \<longleftrightarrow> distinct (map fst r) \<and> (\<forall>k m. map_of r k = Some m \<longrightarrow> wm_id m = k)"

lemma registry_ok_update: "registry_ok r \<Longrightarrow> registry_ok (AList.update (wm_id m) m r)"
  unfolding registry_ok_def update_conv' by (simp add: AList.distinct_update)

interpretation registry: invariant_machine registry_step registry_ok
proof
  fix r op assume "registry_ok r"
  then show "registry_ok (registry_step r op)"
    by (cases op) (simp_all add: registry_ok_update registry_register_def registry_override_def Let_def)
qed

lemma walk_steps_exercised:
  "set (fst (snd (walk_steps (indexWorkflowStateMachine lc m) tc sm c h steps))) \<subseteq> set (map wt_transitionId (wm_transitions m))"
proof (induction steps arbitrary: c h)
  case (Cons s ss)
  show ?case
  proof (cases "transitionsById (indexWorkflowStateMachine lc m) (sc_transitionId s)")
    case None
    with Cons [of None True] show ?thesis by (auto split: prod.splits)
  next
    case (Some t)
    then have "t \<in> set (wm_transitions m)"
      by (auto simp: indexWorkflowStateMachine_def dest!: map_of_SomeD)
    with Some Cons [of "Some (wt_to t)" True] show ?thesis by (fastforce split: prod.splits)
  qed
qed simp

lemma row_exercised:
  "set (cr_transitionIdsExercised (validateStepSequenceAgainstStateMachine lc (indexWorkflowStateMachine lc m) tc steps req))
     \<subseteq> set (map wt_transitionId (wm_transitions m))"
proof -
  have sm: "wm_id (ix_stateMachine (indexWorkflowStateMachine lc m)) = wm_id m"
    by (simp add: indexWorkflowStateMachine_def)
  obtain a e p f where w: "walk_steps (indexWorkflowStateMachine lc m) tc (wm_id m) None False
      (sort_key sc_stepIndex steps) = (a, e, p, f)" by (cases rule: prod_cases4)
  then have "set e \<subseteq> set (map wt_transitionId (wm_transitions m))"
    using walk_steps_exercised [of lc m tc "wm_id m" None False "sort_key sc_stepIndex steps"] by simp
  then show ?thesis
    by (cases "order_issues tc (wm_id m) steps [] 0 = [] \<and> steps \<noteq> []")
       (simp_all add: validateStepSequenceAgainstStateMachine_def Let_def sm w)
qed

lemma registry_get_id: "registry_ok r \<Longrightarrow> registry_get k r = Some m \<Longrightarrow> wm_id m = k"
  unfolding registry_ok_def registry_get_def by blast

lemma exercised_by_eq:
  assumes r: "registry_ok r" and get: "registry_get mid r = Some m"
  shows "set (exercised_by lc r claims mid) =
    (\<Union>c\<in>{c\<in>set claims. cc_stateMachineId c = mid}. set (cr_transitionIdsExercised (case_row lc r c)))"
proof -
  have "set (case registry_get (cc_stateMachineId c) r of None \<Rightarrow> []
      | Some m \<Rightarrow> if wm_id m = mid then cr_transitionIdsExercised (case_row lc r c) else [])
    = (if cc_stateMachineId c = mid then set (cr_transitionIdsExercised (case_row lc r c)) else {})" for c
    using get registry_get_id [OF r, of "cc_stateMachineId c"] by (cases "registry_get (cc_stateMachineId c) r") auto
  then show ?thesis unfolding exercised_by_def set_js_set set_concat set_map image_image by auto
qed

lemma exercised_by_subset:
  assumes "registry_ok r" "registry_get mid r = Some m"
  shows "set (exercised_by lc r claims mid) \<subseteq> set (map wt_transitionId (wm_transitions m))"
  unfolding exercised_by_eq [OF assms]
  using row_exercised [of lc m] assms(2) by (fastforce simp: case_row_def)

abbreviation registry_run :: "registry_op list \<Rightarrow> registry" where
  "registry_run ops \<equiv> foldl registry_step [] ops"

lemma registry_run_ok: "registry_ok (registry_run ops)"
  by (rule registry.run_inv) (simp add: registry_ok_def)

lemma registry_get_listed:
  assumes "registry_ok r" "m \<in> set (registry_list lc r)"
  shows "registry_get (wm_id m) r = Some m"
proof -
  obtain k where k: "(k, m) \<in> set r" using assms(2) by (auto simp: registry_list_def)
  then have "map_of r k = Some m" using assms(1) by (simp add: registry_ok_def)
  moreover from this have "wm_id m = k" using assms(1) unfolding registry_ok_def by blast
  ultimately show ?thesis by (simp add: registry_get_def)
qed

lemma coverage_row_partition:
  assumes "set ex \<subseteq> set (map wt_transitionId (wm_transitions m))" "distinct ex"
  shows "set (cv_exercisedTransitionIds (coverage_row lc ex m)) = set ex"
    and "set (cv_unexercisedTransitionIds (coverage_row lc ex m)) = set (map wt_transitionId (wm_transitions m)) - set ex"
    and "0 \<le> cv_coverageRatio (coverage_row lc ex m) \<and> cv_coverageRatio (coverage_row lc ex m) \<le> 1"
proof -
  show "set (cv_exercisedTransitionIds (coverage_row lc ex m)) = set ex"
    and "set (cv_unexercisedTransitionIds (coverage_row lc ex m)) = set (map wt_transitionId (wm_transitions m)) - set ex"
    by (auto simp: coverage_row_def Let_def)
  have "length ex \<le> card (set (map wt_transitionId (wm_transitions m)))"
    using assms by (metis List.finite_set card_mono distinct_card)
  then have "length ex \<le> length (wm_transitions m)" using card_length le_trans length_map by metis
  then show "0 \<le> cv_coverageRatio (coverage_row lc ex m) \<and> cv_coverageRatio (coverage_row lc ex m) \<le> 1"
    using js_round6_bounds [of "of_nat (length ex) / of_nat (length (wm_transitions m))"]
    by (simp add: coverage_row_def Let_def)
qed

lemma case_row_blocked:
  "(\<exists>i\<in>set (cr_issues (case_row lc r c)). wi_severity i = Issue_error) \<longleftrightarrow> cr_blocked (case_row lc r c)"
  by (simp add: case_row_def unmatched_row_def mk_issue_def validateStepSequenceAgainstStateMachine_def Let_def
      split: option.split prod.split)

lemma case_row_unmatched: "cr_unmatched (case_row lc r c) \<longleftrightarrow> registry_get (cc_stateMachineId c) r = None"
  by (simp add: case_row_def unmatched_row_def validateStepSequenceAgainstStateMachine_def Let_def
      split: option.split prod.split)

lemma coverage_row_id: "cv_stateMachineId (coverage_row lc ex m) = wm_id m"
  by (simp add: coverage_row_def Let_def)

lemma build_Inr:
  "buildStateMachineFromWorkflowTopology lc mid label topology f = Inr m \<longleftrightarrow>
     js_trim mid \<noteq> [] \<and> js_trim label \<noteq> [] \<and> topology_states topology f \<noteq> []
     \<and> states_ok (topology_states topology f)
     \<and> transitions_ok (map ws_stateId (topology_states topology f)) (topology_transitions topology f)
     \<and> m = \<lparr> wm_id = mid, wm_label = label,
             wm_states = sort_by lc ws_stateId (promote_entry lc (topology_states topology f)),
             wm_transitions = sort_by lc wt_transitionId (topology_transitions topology f),
             wm_provenance = Workflow_topology \<rparr>"
proof -
  have "promote_entry lc xs = [] \<longleftrightarrow> xs = []" for xs by (simp add: promote_entry_def Let_def)
  then show ?thesis
    using promote_entry_entry [of "topology_states topology f" lc]
    by (auto simp: buildStateMachineFromWorkflowTopology_def create_Inr)
qed

lemma create_entry:
  assumes "\<exists>s\<in>set states. ws_entry s = Some True"
  shows "createWorkflowStateMachine lc mid label states ts prov \<noteq> Inl No_entry_state"
proof -
  have ne: "check_states ss seen \<noteq> Inl No_entry_state" for ss seen
    by (induction ss seen rule: check_states.induct) simp_all
  have nt: "check_transitions ids ts seen \<noteq> Some No_entry_state" for ids ts seen
    by (induction ids ts seen rule: check_transitions.induct) simp_all
  have len: "length (filter (\<lambda>s. ws_entry s = Some True) states) \<noteq> 0" using assms by (simp add: filter_empty_conv)
  show ?thesis
  proof (cases "check_states states []")
    case (Inl err)
    then show ?thesis using ne [of states "[]"] by (simp add: createWorkflowStateMachine_def)
  next
    case (Inr ids)
    then show ?thesis using nt [of ids ts "[]"] len
      by (simp only: createWorkflowStateMachine_def sum.case if_False) (auto split: option.split)
  qed
qed

lemma build_entry: "buildStateMachineFromWorkflowTopology lc mid label topology f \<noteq> Inl No_entry_state"
proof (cases "topology_states topology f = []")
  case True
  then show ?thesis
    by (simp add: buildStateMachineFromWorkflowTopology_def createWorkflowStateMachine_def promote_entry_def)
next
  case False
  then show ?thesis
    by (simp add: buildStateMachineFromWorkflowTopology_def create_entry promote_entry_entry)
qed

section \<open>Properties\<close>

text \<open>
  A workflow topology is turned into a state machine exactly when its id and label are not blank,
  the filter leaves at least one state, and the remaining states and transitions are well-formed; no
  topology is refused for lack of an entry state. The machine has the same states and transitions, its
  state ids are unique, every transition joins two of its states and some state is an entry state.
\<close>

theorem topology_machine_well_formed:
  "(case buildStateMachineFromWorkflowTopology lc mid label topology stateFilter of
      Inl err \<Rightarrow> err \<noteq> No_entry_state
        \<and> \<not> (js_trim mid \<noteq> [] \<and> js_trim label \<noteq> [] \<and> topology_states topology stateFilter \<noteq> []
             \<and> states_ok (topology_states topology stateFilter)
             \<and> transitions_ok (map ws_stateId (topology_states topology stateFilter)) (topology_transitions topology stateFilter))
    | Inr m \<Rightarrow>
        mset (map ws_stateId (wm_states m)) = mset (map ws_stateId (topology_states topology stateFilter))
        \<and> mset (wm_transitions m) = mset (topology_transitions topology stateFilter)
        \<and> distinct (map ws_stateId (wm_states m)) \<and> distinct (map wt_transitionId (wm_transitions m))
        \<and> list_all (\<lambda>t. wt_from t \<in> set (map ws_stateId (wm_states m))
                       \<and> wt_to t \<in> set (map ws_stateId (wm_states m))) (wm_transitions m)
        \<and> list_ex (\<lambda>s. ws_entry s = Some True) (wm_states m))"
proof (cases "buildStateMachineFromWorkflowTopology lc mid label topology stateFilter")
  case (Inl err)
  then have "buildStateMachineFromWorkflowTopology lc mid label topology stateFilter \<noteq> Inr m" for m by simp
  then show ?thesis using Inl build_entry [of lc mid label topology stateFilter]
    unfolding build_Inr by auto
next
  case (Inr m)
  then have m: "topology_states topology stateFilter \<noteq> []" "states_ok (topology_states topology stateFilter)"
      "transitions_ok (map ws_stateId (topology_states topology stateFilter)) (topology_transitions topology stateFilter)"
      "wm_states m = sort_by lc ws_stateId (promote_entry lc (topology_states topology stateFilter))"
      "wm_transitions m = sort_by lc wt_transitionId (topology_transitions topology stateFilter)"
    by (simp_all add: build_Inr)
  have ids: "mset (map ws_stateId (wm_states m)) = mset (map ws_stateId (topology_states topology stateFilter))"
    unfolding m mset_map mset_sort_by by (simp only: promote_entry_ids flip: mset_map)
  note set_ids = arg_cong [OF ids, of set_mset, unfolded set_mset_mset]
  show ?thesis
    using m(2,3) promote_entry_entry [OF m(1), of lc] ids mset_eq_imp_distinct_iff [OF ids]
    unfolding Inr sum.case set_ids
    by (auto simp: m(4,5) states_ok_def transitions_ok_def list_all_iff list_ex_iff)
qed

text \<open>
  Over every registry built by registrations and overrides, the run is blocked exactly when some
  case that names a registered machine is blocked by it; a case naming an unknown machine never
  blocks the run and is the only kind counted as unmatched; every case gets one row.
\<close>

theorem gate_blocks_on_blocked_cases:
  "(rp_blocked (evaluateWorkflowStateMachineGate lc jobId generatedAt (registry_run ops) claims) \<longleftrightarrow>
     (\<exists>c\<in>set claims. \<exists>m. registry_get (cc_stateMachineId c) (registry_run ops) = Some m
        \<and> cr_blocked (validateStepSequenceAgainstStateMachine lc (indexWorkflowStateMachine lc m)
              (cc_testCaseId c) (cc_steps c) (cc_requireTerminalExit c))))
   \<and> rp_totalCases (evaluateWorkflowStateMachineGate lc jobId generatedAt (registry_run ops) claims) = length claims
   \<and> rp_unmatchedCases (evaluateWorkflowStateMachineGate lc jobId generatedAt (registry_run ops) claims)
       = length (filter (\<lambda>c. \<not> registry_has (cc_stateMachineId c) (registry_run ops)) claims)"
proof -
  have "rp_blocked (evaluateWorkflowStateMachineGate lc jobId generatedAt (registry_run ops) claims)
      \<longleftrightarrow> (\<exists>c\<in>set claims. cr_blocked (case_row lc (registry_run ops) c))"
    by (simp add: evaluateWorkflowStateMachineGate_def Let_def bex_UN case_row_blocked)
  moreover have "cr_blocked (case_row lc (registry_run ops) c) \<longleftrightarrow>
      (\<exists>m. registry_get (cc_stateMachineId c) (registry_run ops) = Some m
        \<and> cr_blocked (validateStepSequenceAgainstStateMachine lc (indexWorkflowStateMachine lc m)
              (cc_testCaseId c) (cc_steps c) (cc_requireTerminalExit c)))" for c
    by (simp add: case_row_def unmatched_row_def split: option.split)
  ultimately show ?thesis
    by (simp add: evaluateWorkflowStateMachineGate_def Let_def filter_map o_def registry_has_def
        registry_get_def case_row_unmatched)
qed

text \<open>
  Over every registry built by registrations and overrides, each coverage row of the report splits
  the transitions of its machine into the exercised and the unexercised ones, an exercised transition
  was exercised by a case naming that machine, and the coverage ratio lies between 0 and 1.
\<close>

theorem gate_coverage_partition:
  "list_all (\<lambda>v. \<exists>m. registry_get (cv_stateMachineId v) (registry_run ops) = Some m
      \<and> set (cv_exercisedTransitionIds v) \<union> set (cv_unexercisedTransitionIds v) = set (map wt_transitionId (wm_transitions m))
      \<and> set (cv_exercisedTransitionIds v) \<inter> set (cv_unexercisedTransitionIds v) = {}
      \<and> set (cv_exercisedTransitionIds v) =
          (\<Union>c\<in>{c\<in>set claims. cc_stateMachineId c = cv_stateMachineId v}. set (cr_transitionIdsExercised (case_row lc (registry_run ops) c)))
      \<and> 0 \<le> cv_coverageRatio v \<and> cv_coverageRatio v \<le> 1)
    (rp_perStateMachine (evaluateWorkflowStateMachineGate lc jobId generatedAt (registry_run ops) claims))"
proof -
  let ?r = "registry_run ops"
  have "\<exists>m'. registry_get (wm_id m) ?r = Some m'
      \<and> set (cv_exercisedTransitionIds v) \<union> set (cv_unexercisedTransitionIds v) = set (map wt_transitionId (wm_transitions m'))
      \<and> set (cv_exercisedTransitionIds v) \<inter> set (cv_unexercisedTransitionIds v) = {}
      \<and> set (cv_exercisedTransitionIds v) =
          (\<Union>c\<in>{c\<in>set claims. cc_stateMachineId c = wm_id m}. set (cr_transitionIdsExercised (case_row lc ?r c)))
      \<and> 0 \<le> cv_coverageRatio v \<and> cv_coverageRatio v \<le> 1"
    if m: "m \<in> set (registry_list lc ?r)" and v: "v = coverage_row lc (exercised_by lc ?r claims (wm_id m)) m" for m v
  proof -
    have get: "registry_get (wm_id m) ?r = Some m" by (rule registry_get_listed [OF registry_run_ok m])
    have sub: "set (exercised_by lc ?r claims (wm_id m)) \<subseteq> set (map wt_transitionId (wm_transitions m))"
      by (rule exercised_by_subset [OF registry_run_ok get])
    have d: "distinct (exercised_by lc ?r claims (wm_id m))" by (simp add: exercised_by_def)
    show ?thesis
      using get sub coverage_row_partition [OF sub d, of lc] exercised_by_eq [OF registry_run_ok get, of lc claims]
      unfolding v by blast
  qed
  then show ?thesis
    by (simp add: evaluateWorkflowStateMachineGate_def Let_def list_all_iff coverage_row_id)
qed

end
