(* ===== verification/PolicyRisk.thy ===== *)
theory PolicyRisk
  imports FourEyes PolicyConflicts
begin

text \<open>
  Risk classification in the policy gate (\<^verbatim>\<open>packages/production-runner/src/policy-gate.ts\<close>): the intent
  model, the profile, and the functions that derive a review-only risk category for a case or a job.
\<close>

section \<open>Intent and profile\<close>

record PiiIndicator =
  pi_id :: string
  pi_kind :: string
  pi_screenId :: "string option"

record DetectedField =
  df_id :: string
  df_screenId :: string
  df_label :: string
  df_type :: string

record DetectedValidation =
  dv_id :: string
  dv_screenId :: string
  dv_rule :: string
  dv_targetFieldId :: "string option"

text \<open>The parts of the intent IR the gate reads.\<close>

record BusinessTestIntentIr =
  bi_detectedFields :: "DetectedField list"
  bi_detectedValidations :: "DetectedValidation list"
  bi_risks :: "string list"
  bi_piiIndicators :: "PiiIndicator list"
  bi_multiSourceConflicts :: "MultiSourceConflict list option"

datatype JudgeRefusalPolicy = Fail_open | Fail_closed | Judge_needs_review

record JudgeRefusalPolicyConfig =
  jr_faithfulness :: JudgeRefusalPolicy
  jr_a11y :: JudgeRefusalPolicy

record ComplianceRiskOverride =
  co_screenId :: "string option"
  co_riskCategory :: string
  co_rationale :: "string option"

record CustomContextPolicySignal =
  cx_sourceId :: string
  cx_entryId :: string
  cx_attributeKey :: string
  cx_attributeValue :: string
  cx_riskCategory :: string
  cx_reason :: string
  cx_contentHash :: string

section \<open>Screens of a case\<close>

definition collectCaseScreenIds :: "GeneratedTestCase \<Rightarrow> string list" where
  "collectCaseScreenIds testCase = js_set (filter (\<lambda>s. s \<noteq> []) (tc_figmaTraceRefs testCase))"

definition formatScreenList :: "string list \<Rightarrow> string" where
  "formatScreenList screenIds =
     (if screenIds = [] then ''<none>'' else js_join '', '' (map quoted (js_sort screenIds)))"

section \<open>Deriving a risk\<close>

text \<open>\<^verbatim>\<open>personal.?data\<close>; a dot matches any code unit but a line terminator.\<close>

definition personal_data :: "string \<Rightarrow> bool" where
  "personal_data s = any_suffix (\<lambda>t. case strip_prefix ''personal'' t of
       None \<Rightarrow> False
     | Some rest \<Rightarrow> strip_prefix ''data'' rest \<noteq> None
         \<or> (case rest of [] \<Rightarrow> False
            | c # rest' \<Rightarrow> c \<noteq> CHR 0x0A \<and> c \<noteq> CHR 0x0D \<and> strip_prefix ''data'' rest' \<noteq> None)) s"

definition regulated_text :: "string \<Rightarrow> bool" where
  "regulated_text risk \<longleftrightarrow> js_includes ''regulated'' risk \<or> js_includes ''pii'' risk \<or> personal_data risk"

definition financial_text :: "string \<Rightarrow> bool" where
  "financial_text risk \<longleftrightarrow> js_includes ''financial'' risk \<or> js_includes ''payment'' risk
     \<or> js_includes ''iban'' risk \<or> js_includes ''transaction'' risk"

definition findIntentReviewRiskForIndicators ::
  "BusinessTestIntentIr \<Rightarrow> string list \<Rightarrow> (PiiIndicator \<Rightarrow> bool) \<Rightarrow> string option" where
  "findIntentReviewRiskForIndicators intent reviewOnly piiApplies =
     (let normalizedRisks = map js_lower (bi_risks intent)
      in case find (\<lambda>category. category \<in> set normalizedRisks) reviewOnly of
           Some category \<Rightarrow> Some category
         | None \<Rightarrow>
             if list_ex piiApplies (bi_piiIndicators intent) \<and> ''regulated_data'' \<in> set reviewOnly
             then Some ''regulated_data''
             else if list_ex regulated_text normalizedRisks \<and> ''regulated_data'' \<in> set reviewOnly
             then Some ''regulated_data''
             else if list_ex financial_text normalizedRisks \<and> ''financial_transaction'' \<in> set reviewOnly
             then Some ''financial_transaction''
             else None)"

definition resolveComplianceRiskOverride ::
  "string list \<Rightarrow> ComplianceRiskOverride list option \<Rightarrow> string list \<Rightarrow> string option" where
  "resolveComplianceRiskOverride caseScreenIds overrides reviewOnly =
     (case overrides of
        None \<Rightarrow> None
      | Some os \<Rightarrow>
          let matching = filter (\<lambda>c. case co_screenId c of None \<Rightarrow> True | Some s \<Rightarrow> s \<in> set caseScreenIds) os
          in find (\<lambda>category. category \<in> set (map co_riskCategory matching)) reviewOnly)"

definition resolveJobWideComplianceRiskOverride ::
  "ComplianceRiskOverride list option \<Rightarrow> string list \<Rightarrow> string option" where
  "resolveJobWideComplianceRiskOverride overrides reviewOnly =
     (case overrides of
        None \<Rightarrow> None
      | Some os \<Rightarrow> find (\<lambda>category. category \<in> set (map co_riskCategory os)) reviewOnly)"

definition deriveScreenIntentRisk ::
  "BusinessTestIntentIr \<Rightarrow> GeneratedTestCase \<Rightarrow> string list \<Rightarrow> ComplianceRiskOverride list option \<Rightarrow> string option" where
  "deriveScreenIntentRisk intent testCase reviewOnly complianceOverrides =
     (let caseScreenIds = collectCaseScreenIds testCase
      in case findIntentReviewRiskForIndicators intent reviewOnly
                (\<lambda>i. case pi_screenId i of None \<Rightarrow> True | Some s \<Rightarrow> s \<in> set caseScreenIds) of
           Some r \<Rightarrow> Some r
         | None \<Rightarrow> resolveComplianceRiskOverride caseScreenIds complianceOverrides reviewOnly)"

definition findIntentReviewRisk ::
  "BusinessTestIntentIr \<Rightarrow> string list \<Rightarrow> ComplianceRiskOverride list option \<Rightarrow> string option" where
  "findIntentReviewRisk intent reviewOnly complianceOverrides =
     (case findIntentReviewRiskForIndicators intent reviewOnly (\<lambda>_. True) of
        Some r \<Rightarrow> Some r
      | None \<Rightarrow> resolveJobWideComplianceRiskOverride complianceOverrides reviewOnly)"

definition findCustomContextReviewRisk :: "CustomContextPolicySignal list \<Rightarrow> string list \<Rightarrow> string option" where
  "findCustomContextReviewRisk signals reviewOnly =
     map_option cx_riskCategory (find (\<lambda>s. cx_riskCategory s \<in> set reviewOnly) signals)"

definition covered_ids :: "GeneratedTestCase \<Rightarrow> string list" where
  "covered_ids testCase =
     (let q = tc_qualitySignals testCase
      in qs_coveredFieldIds q @ qs_coveredActionIds q @ qs_coveredValidationIds q @ qs_coveredNavigationIds q)"

definition conflict_affects :: "GeneratedTestCase \<Rightarrow> MultiSourceConflict \<Rightarrow> bool" where
  "conflict_affects testCase conflict \<longleftrightarrow>
     (case mc_affectedElementIds conflict of None \<Rightarrow> False
      | Some ids \<Rightarrow> list_ex (\<lambda>i. i \<in> set (covered_ids testCase)) ids)
     \<or> (case mc_affectedScreenIds conflict of None \<Rightarrow> False
        | Some ids \<Rightarrow> list_ex (\<lambda>i. i \<in> set (collectCaseScreenIds testCase)) ids)
     \<or> (mc_affectedElementIds conflict = None \<and> mc_affectedScreenIds conflict = None)"

definition collectMultiSourceConflictIds :: "BusinessTestIntentIr \<Rightarrow> GeneratedTestCase \<Rightarrow> string list" where
  "collectMultiSourceConflictIds intent testCase =
     (case bi_multiSourceConflicts intent of
        None \<Rightarrow> []
      | Some conflicts \<Rightarrow> js_sort (map mc_conflictId (filter (conflict_affects testCase) conflicts)))"

section \<open>Lemmas\<close>

lemma find_mem: "find P xs = Some x \<Longrightarrow> x \<in> set xs \<and> P x"
  by (metis find_Some_iff nth_mem)

lemma intent_risk_review_only:
  "findIntentReviewRiskForIndicators intent ro P = Some r \<Longrightarrow> r \<in> set ro"
  by (auto simp: findIntentReviewRiskForIndicators_def Let_def dest: find_mem split: option.split_asm if_split_asm)

lemma compliance_risk_review_only:
  "resolveComplianceRiskOverride ids os ro = Some r \<Longrightarrow> r \<in> set ro"
  by (auto simp: resolveComplianceRiskOverride_def Let_def dest: find_mem split: option.split_asm)

lemma screen_risk_review_only: "deriveScreenIntentRisk intent tc ro os = Some r \<Longrightarrow> r \<in> set ro"
  by (auto simp: deriveScreenIntentRisk_def Let_def dest: intent_risk_review_only compliance_risk_review_only
      split: option.split_asm)

lemma intent_risk_mono:
  assumes "findIntentReviewRiskForIndicators intent ro P \<noteq> None" "\<And>i. P i \<Longrightarrow> Q i"
  shows "findIntentReviewRiskForIndicators intent ro Q \<noteq> None"
proof (cases "find (\<lambda>c. c \<in> set (map js_lower (bi_risks intent))) ro")
  case None
  have "list_ex P (bi_piiIndicators intent) \<Longrightarrow> list_ex Q (bi_piiIndicators intent)"
    using assms(2) by (auto simp: list_ex_iff)
  with None assms(1) show ?thesis
    by (simp add: findIntentReviewRiskForIndicators_def Let_def del: set_map split: if_split_asm)
qed (simp add: findIntentReviewRiskForIndicators_def Let_def del: set_map)

lemma compliance_override_mono:
  "resolveComplianceRiskOverride ids os ro \<noteq> None \<Longrightarrow> resolveJobWideComplianceRiskOverride os ro \<noteq> None"
  by (cases os) (auto simp: resolveComplianceRiskOverride_def resolveJobWideComplianceRiskOverride_def Let_def find_None_iff)

text \<open>A risk derived for the screens of one case is also derived for the job.\<close>

lemma screen_risk_implies_job_risk:
  assumes "deriveScreenIntentRisk intent tc ro os \<noteq> None"
  shows "findIntentReviewRisk intent ro os \<noteq> None"
proof (cases "findIntentReviewRiskForIndicators intent ro (\<lambda>_. True)")
  case None
  have "findIntentReviewRiskForIndicators intent ro P = None" for P
    using intent_risk_mono [of intent ro P "\<lambda>_. True"] None by blast
  then have "deriveScreenIntentRisk intent tc ro os = resolveComplianceRiskOverride (collectCaseScreenIds tc) os ro"
    unfolding deriveScreenIntentRisk_def Let_def by (simp only: option.case)
  moreover have "findIntentReviewRisk intent ro os = resolveJobWideComplianceRiskOverride os ro"
    unfolding findIntentReviewRisk_def None by simp
  ultimately show ?thesis using assms compliance_override_mono by simp
qed (simp add: findIntentReviewRisk_def)

end
