(* ===== verification/TechniqueQuota.thy ===== *)
theory TechniqueQuota
  imports TestCaseData
begin

text \<open>
  The technique-quota gate (\<^verbatim>\<open>packages/model-gateway/src/technique-quota.ts\<close>) and the p0 coverage check
  (\<^verbatim>\<open>packages/production-runner/src/p0-risk-coverage.ts\<close>). The contract types make \<^verbatim>\<open>safeArray\<close> the
  identity. Tier multipliers are exact rationals.
\<close>

section \<open>Tier-elastic quotas\<close>

datatype TechniqueCoverageMinimumMode = Tier_elastic | Fixed

record TechniqueCoverageMinimumTier =
  ti_minFieldCount :: int
  ti_multiplier :: rat
  ti_floor :: int
  ti_label :: string

datatype TechniqueCoverageMinimumPolicy =
    Fixed_policy
  | Tier_elastic_policy "TechniqueCoverageMinimumTier list option"

definition TIER_ELASTIC_EP_TIERS :: "TechniqueCoverageMinimumTier list" where
  "TIER_ELASTIC_EP_TIERS =
     [\<lparr> ti_minFieldCount = 0, ti_multiplier = 2, ti_floor = 4, ti_label = ''fields<=4: max(4, 2*fields)'' \<rparr>,
      \<lparr> ti_minFieldCount = 5, ti_multiplier = 5 / 4, ti_floor = 0, ti_label = ''fields=5-8: ceil(1.25*fields)'' \<rparr>,
      \<lparr> ti_minFieldCount = 9, ti_multiplier = 9 / 10, ti_floor = 0, ti_label = ''fields=9-19: ceil(0.9*fields)'' \<rparr>,
      \<lparr> ti_minFieldCount = 20, ti_multiplier = 17 / 20, ti_floor = 0, ti_label = ''fields=20-29: ceil(0.85*fields)'' \<rparr>,
      \<lparr> ti_minFieldCount = 30, ti_multiplier = 3 / 4, ti_floor = 0, ti_label = ''fields>=30: ceil(0.75*fields)'' \<rparr>]"

definition resolveTechniqueCoverageMinimumMode ::
  "TechniqueCoverageMinimumPolicy option \<Rightarrow> TechniqueCoverageMinimumMode" where
  "resolveTechniqueCoverageMinimumMode policy =
     (case policy of Some Fixed_policy \<Rightarrow> Fixed | _ \<Rightarrow> Tier_elastic)"

definition resolveTechniqueCoverageMinimumTiers ::
  "TechniqueCoverageMinimumPolicy option \<Rightarrow> TechniqueCoverageMinimumTier list" where
  "resolveTechniqueCoverageMinimumTiers policy =
     (case policy of Some (Tier_elastic_policy (Some tiers)) \<Rightarrow> tiers | _ \<Rightarrow> TIER_ELASTIC_EP_TIERS)"

record tier_quota =
  tq_quota :: int
  tq_formula :: string
  tq_formulaTier :: string
  tq_formulaMultiplier :: "rat option"

definition safeCount :: "js_number \<Rightarrow> int" where
  "safeCount fieldCount = (case fieldCount of Fin q \<Rightarrow> if q > 0 then \<lfloor>q\<rfloor> else 0 | _ \<Rightarrow> 0)"

text \<open>The loop over the tiers; it stops at the first tier that starts above the field count.\<close>

fun select_tier ::
  "int \<Rightarrow> TechniqueCoverageMinimumTier \<Rightarrow> TechniqueCoverageMinimumTier list \<Rightarrow> TechniqueCoverageMinimumTier" where
  "select_tier n selected [] = selected"
| "select_tier n selected (t # ts) = (if n \<ge> ti_minFieldCount t then select_tier n t ts else selected)"

definition computeTierElasticEquivalencePartitioningQuota ::
  "js_number \<Rightarrow> TechniqueCoverageMinimumTier list \<Rightarrow> tier_quota" where
  "computeTierElasticEquivalencePartitioningQuota fieldCount tiers =
     (let n = safeCount fieldCount;
          safeTiers = (if tiers \<noteq> [] then tiers else TIER_ELASTIC_EP_TIERS);
          fallbackTier = hd safeTiers
      in if n = 0
         then \<lparr> tq_quota = 0, tq_formula = ''tier-elastic:'' @ ti_label fallbackTier,
                tq_formulaTier = ti_label fallbackTier, tq_formulaMultiplier = Some (ti_multiplier fallbackTier) \<rparr>
         else let selectedTier = select_tier n fallbackTier safeTiers;
                  candidate = \<lceil>ti_multiplier selectedTier * of_int n\<rceil>
              in \<lparr> tq_quota = max (ti_floor selectedTier) candidate,
                   tq_formula = ''tier-elastic:'' @ ti_label selectedTier,
                   tq_formulaTier = ti_label selectedTier,
                   tq_formulaMultiplier = Some (ti_multiplier selectedTier) \<rparr>)"

definition computeTierElasticUseCaseQuota :: "js_number \<Rightarrow> tier_quota" where
  "computeTierElasticUseCaseQuota fieldCount =
     (let n = safeCount fieldCount
      in if n = 0
         then \<lparr> tq_quota = 0, tq_formula = ''tier-elastic-use-case:fields=0'',
                tq_formulaTier = ''fields=0: no field-driven use-case floor'', tq_formulaMultiplier = None \<rparr>
         else \<lparr> tq_quota = max 4 n, tq_formula = ''tier-elastic-use-case:max(4, fields)'',
                tq_formulaTier = ''fields>=1: max(4, fields)'', tq_formulaMultiplier = Some 1 \<rparr>)"

section \<open>Resolving the planner's quotas\<close>

text \<open>A \<^verbatim>\<open>Map\<close> from screens to the elements seen on them.\<close>

definition add_target ::
  "(string \<times> string list) list \<Rightarrow> CoveragePlanPerElement \<Rightarrow> (string \<times> string list) list" where
  "add_target targets entry =
     (if ce_screenId entry = [] then targets
      else AList.update (ce_screenId entry)
             (set_add (ce_elementId entry) (case map_of targets (ce_screenId entry) of None \<Rightarrow> [] | Some ids \<Rightarrow> ids))
             targets)"

definition buildPerScreenFieldTargets :: "CoveragePlan option \<Rightarrow> (string \<times> string list) list" where
  "buildPerScreenFieldTargets coveragePlan =
     (case coveragePlan of None \<Rightarrow> [] | Some plan \<Rightarrow> foldl add_target [] (cp_perElement plan))"

definition buildPerScreenFieldCounts :: "CoveragePlan option \<Rightarrow> (string \<times> nat) list" where
  "buildPerScreenFieldCounts coveragePlan =
     map (\<lambda>(screenId, ids). (screenId, length ids)) (buildPerScreenFieldTargets coveragePlan)"

record ResolvedQuota =
  rq_screenId :: string
  rq_technique :: string
  rq_fieldCount :: nat
  rq_requiredCount :: int
  rq_formula :: string
  rq_formulaTier :: string
  rq_formulaMultiplier :: "rat option"

abbreviation FIXED_FORMULA_LABEL :: string where "FIXED_FORMULA_LABEL \<equiv> ''fixed:planner-quota''"
abbreviation FIXED_FORMULA_TIER :: string where "FIXED_FORMULA_TIER \<equiv> ''planner-quota''"

definition relaxed_quota :: "string \<Rightarrow> nat \<Rightarrow> CoveragePlanTechniqueQuota \<Rightarrow> tier_quota \<Rightarrow> ResolvedQuota" where
  "relaxed_quota screenId fieldCount quota tier =
     (let effective = min (cq_minCount quota) (tq_quota tier)
      in \<lparr> rq_screenId = screenId, rq_technique = cq_technique quota, rq_fieldCount = fieldCount,
           rq_requiredCount = effective,
           rq_formula = (if effective = tq_quota tier then tq_formula tier else FIXED_FORMULA_LABEL),
           rq_formulaTier = tq_formulaTier tier, rq_formulaMultiplier = tq_formulaMultiplier tier \<rparr>)"

definition resolve_quota ::
  "TechniqueCoverageMinimumMode \<Rightarrow> TechniqueCoverageMinimumTier list \<Rightarrow> string \<Rightarrow> nat \<Rightarrow>
   CoveragePlanTechniqueQuota \<Rightarrow> ResolvedQuota" where
  "resolve_quota mode tiers screenId fieldCount quota =
     (if mode = Tier_elastic \<and> cq_technique quota = ''equivalence_partitioning''
      then relaxed_quota screenId fieldCount quota
             (computeTierElasticEquivalencePartitioningQuota (Fin (of_nat fieldCount)) tiers)
      else if mode = Tier_elastic \<and> cq_technique quota = ''use_case''
      then relaxed_quota screenId fieldCount quota (computeTierElasticUseCaseQuota (Fin (of_nat fieldCount)))
      else \<lparr> rq_screenId = screenId, rq_technique = cq_technique quota, rq_fieldCount = fieldCount,
             rq_requiredCount = cq_minCount quota, rq_formula = FIXED_FORMULA_LABEL,
             rq_formulaTier = FIXED_FORMULA_TIER, rq_formulaMultiplier = None \<rparr>)"

definition resolveTechniqueQuotas ::
  "string comparator \<Rightarrow> CoveragePlan option \<Rightarrow> TechniqueCoverageMinimumPolicy option \<Rightarrow> ResolvedQuota list" where
  "resolveTechniqueQuotas lc coveragePlan policy =
     (case coveragePlan of
        None \<Rightarrow> []
      | Some plan \<Rightarrow>
          let mode = resolveTechniqueCoverageMinimumMode policy;
              tiers = resolveTechniqueCoverageMinimumTiers policy;
              fieldCounts = buildPerScreenFieldCounts coveragePlan;
              resolved = concat (map (\<lambda>screen.
                let fieldCount = (case map_of fieldCounts (cs_screenId screen) of None \<Rightarrow> 0 | Some n \<Rightarrow> n)
                in map (resolve_quota mode tiers (cs_screenId screen) fieldCount)
                     (filter (\<lambda>q. \<not> cq_minCount q \<le> 0) (cs_techniqueQuotas screen))) (cp_perScreen plan))
          in sort_by lc rq_screenId (sort_by lc rq_technique (sort_key rq_requiredCount resolved)))"

section \<open>Counting cases\<close>

definition countAnchored :: "GeneratedTestCase list \<Rightarrow> string \<Rightarrow> string \<Rightarrow> nat" where
  "countAnchored cases screenId technique =
     length (filter (\<lambda>tc. tc_technique tc = technique \<and> screenId \<in> set (tc_figmaTraceRefs tc)) cases)"

definition countAnchoredCoveredFieldTargets ::
  "GeneratedTestCase list \<Rightarrow> string \<Rightarrow> string option \<Rightarrow> string list \<Rightarrow> nat" where
  "countAnchoredCoveredFieldTargets cases screenId technique targets =
     (if targets = [] then 0
      else let anchored = filter (\<lambda>tc. (case technique of None \<Rightarrow> True | Some t \<Rightarrow> tc_technique tc = t)
                                        \<and> screenId \<in> set (tc_figmaTraceRefs tc)) cases;
               covered = js_set (filter (\<lambda>f. f \<in> set targets)
                 (concat (map (\<lambda>tc. qs_coveredFieldIds (tc_qualitySignals tc)) anchored)))
           in if covered = [] \<and> length targets = 1
              then (if list_ex (\<lambda>tc. qs_coveredFieldIds (tc_qualitySignals tc) \<noteq> []) anchored then 1 else 0)
              else length covered)"

record TechniqueQuotaDeficit =
  td_screenId :: string
  td_technique :: string
  td_minCount :: int
  td_actual :: nat
  td_missing :: int

definition field_targets :: "CoveragePlan option \<Rightarrow> string \<Rightarrow> string list" where
  "field_targets coveragePlan screenId =
     (case map_of (buildPerScreenFieldTargets coveragePlan) screenId of None \<Rightarrow> [] | Some ids \<Rightarrow> ids)"

definition quota_deficit ::
  "GeneratedTestCase list \<Rightarrow> CoveragePlan option \<Rightarrow> ResolvedQuota \<Rightarrow> TechniqueQuotaDeficit list" where
  "quota_deficit cases coveragePlan quota =
     (if rq_requiredCount quota \<le> 0 then []
      else let actual = countAnchored cases (rq_screenId quota) (rq_technique quota)
           in if rq_technique quota = ''equivalence_partitioning''
                 \<and> countAnchoredCoveredFieldTargets cases (rq_screenId quota) None
                     (field_targets coveragePlan (rq_screenId quota)) \<ge> rq_fieldCount quota
                 \<and> rq_fieldCount quota > 0
              then []
              else if int actual \<ge> rq_requiredCount quota then []
              else [\<lparr> td_screenId = rq_screenId quota, td_technique = rq_technique quota,
                      td_minCount = rq_requiredCount quota, td_actual = actual,
                      td_missing = rq_requiredCount quota - int actual \<rparr>])"

definition collectTechniqueQuotaDeficits ::
  "string comparator \<Rightarrow> GeneratedTestCase list \<Rightarrow> CoveragePlan option \<Rightarrow>
   TechniqueCoverageMinimumPolicy option \<Rightarrow> TechniqueQuotaDeficit list" where
  "collectTechniqueQuotaDeficits lc cases coveragePlan policy =
     (case coveragePlan of
        None \<Rightarrow> []
      | Some _ \<Rightarrow> concat (map (quota_deficit cases coveragePlan) (resolveTechniqueQuotas lc coveragePlan policy)))"

section \<open>The report\<close>

record TechniqueQuotaReportEntry =
  te_screenId :: string
  te_technique :: string
  te_fieldCount :: nat
  te_requiredCount :: int
  te_actualCount :: nat
  te_formula :: string
  te_formulaTier :: string
  te_formulaMultiplier :: "rat option"
  te_mode :: TechniqueCoverageMinimumMode
  te_pass :: bool  \<comment> \<open>\<^verbatim>\<open>status\<close> is \<^verbatim>\<open>pass\<close>, not \<^verbatim>\<open>deficit\<close>\<close>

record TechniqueQuotaReport =
  qr_generatedAt :: string
  qr_jobId :: string
  qr_policyProfileId :: string
  qr_mode :: TechniqueCoverageMinimumMode
  qr_screenCount :: nat
  qr_entryCount :: nat
  qr_passCount :: nat
  qr_deficitCount :: nat
  qr_entries :: "TechniqueQuotaReportEntry list"

definition quota_entry ::
  "GeneratedTestCase list \<Rightarrow> CoveragePlan \<Rightarrow> TechniqueCoverageMinimumMode \<Rightarrow> ResolvedQuota \<Rightarrow>
   TechniqueQuotaReportEntry" where
  "quota_entry cases plan mode quota =
     (let actualCount = countAnchored cases (rq_screenId quota) (rq_technique quota);
          coveredFieldCount = (if rq_technique quota = ''equivalence_partitioning''
            then countAnchoredCoveredFieldTargets cases (rq_screenId quota) None
                   (field_targets (Some plan) (rq_screenId quota)) else 0)
      in \<lparr> te_screenId = rq_screenId quota, te_technique = rq_technique quota,
           te_fieldCount = rq_fieldCount quota, te_requiredCount = rq_requiredCount quota,
           te_actualCount = actualCount, te_formula = rq_formula quota, te_formulaTier = rq_formulaTier quota,
           te_formulaMultiplier = rq_formulaMultiplier quota, te_mode = mode,
           te_pass = (int actualCount \<ge> rq_requiredCount quota
             \<or> (rq_technique quota = ''equivalence_partitioning'' \<and> rq_fieldCount quota > 0
                 \<and> coveredFieldCount \<ge> rq_fieldCount quota)) \<rparr>)"

definition buildTechniqueQuotaReport ::
  "string comparator \<Rightarrow> string \<Rightarrow> string \<Rightarrow> string \<Rightarrow> GeneratedTestCase list \<Rightarrow> CoveragePlan \<Rightarrow>
   TechniqueCoverageMinimumPolicy option \<Rightarrow> TechniqueQuotaReport" where
  "buildTechniqueQuotaReport lc generatedAt jobId policyProfileId cases plan policy =
     (let mode = resolveTechniqueCoverageMinimumMode policy;
          resolved = resolveTechniqueQuotas lc (Some plan) policy;
          entries = map (quota_entry cases plan mode) resolved
      in \<lparr> qr_generatedAt = generatedAt, qr_jobId = jobId, qr_policyProfileId = policyProfileId,
           qr_mode = mode, qr_screenCount = length (js_set (map rq_screenId resolved)),
           qr_entryCount = length entries, qr_passCount = length (filter te_pass entries),
           qr_deficitCount = length (filter (\<lambda>e. \<not> te_pass e) entries), qr_entries = entries \<rparr>)"

section \<open>Uncovered p0 elements\<close>

definition P0_RISK_CLASSES :: "string list" where
  "P0_RISK_CLASSES = [''regulated_data'', ''financial_transaction'']"

record UncoveredP0Element =
  ue_screenId :: string
  ue_elementId :: string
  ue_riskClass :: string

definition isP0Element :: "CoveragePlanPerElement \<Rightarrow> bool" where
  "isP0Element e \<longleftrightarrow> ce_riskClass e \<in> set P0_RISK_CLASSES"

definition collectCoveredElementIds :: "GeneratedTestCase list \<Rightarrow> string list" where
  "collectCoveredElementIds cases =
     js_set (concat (map (\<lambda>tc. qs_coveredFieldIds (tc_qualitySignals tc)
                               @ qs_coveredActionIds (tc_qualitySignals tc)) cases))"

definition collectUncoveredP0Elements ::
  "string comparator \<Rightarrow> GeneratedTestCase list \<Rightarrow> CoveragePlan option \<Rightarrow> UncoveredP0Element list" where
  "collectUncoveredP0Elements lc cases coveragePlan =
     (case coveragePlan of
        None \<Rightarrow> []
      | Some plan \<Rightarrow>
          let p0Elements = filter isP0Element (cp_perElement plan)
          in if p0Elements = [] then []
             else let covered = collectCoveredElementIds cases;
                      uncovered = map (\<lambda>e. \<lparr> ue_screenId = ce_screenId e, ue_elementId = ce_elementId e,
                          ue_riskClass = ce_riskClass e \<rparr>)
                        (filter (\<lambda>e. ce_elementId e \<notin> set covered) p0Elements)
                  in sort_by lc ue_screenId (sort_by lc ue_elementId uncovered))"

section \<open>Lemmas\<close>

lemma resolved_quota_origin:
  assumes "q \<in> set (resolveTechniqueQuotas lc (Some plan) policy)"
  shows "\<exists>screen\<in>set (cp_perScreen plan). \<exists>quota\<in>set (cs_techniqueQuotas screen).
      rq_screenId q = cs_screenId screen \<and> rq_technique q = cq_technique quota
      \<and> rq_requiredCount q \<le> cq_minCount quota"
proof -
  have "rq_screenId (resolve_quota m ts s n quota) = s \<and> rq_technique (resolve_quota m ts s n quota) = cq_technique quota
     \<and> rq_requiredCount (resolve_quota m ts s n quota) \<le> cq_minCount quota" for m ts s n quota
    by (simp add: resolve_quota_def relaxed_quota_def Let_def)
  then show ?thesis using assms
    unfolding resolveTechniqueQuotas_def by (fastforce simp: Let_def)
qed

lemma select_tier_mem: "select_tier n s ts \<in> insert s (set ts)"
  by (induction n s ts rule: select_tier.induct) auto

lemma default_tier_bounds:
  "t \<in> set TIER_ELASTIC_EP_TIERS \<Longrightarrow> 3 / 4 \<le> ti_multiplier t \<and> ti_multiplier t \<le> 2 \<and> ti_floor t \<le> 4"
  by (auto simp: TIER_ELASTIC_EP_TIERS_def)

lemma elastic_quota_bounds:
  assumes n: "0 < n"
  shows "of_int n * 3 / 4 \<le> (of_int (tq_quota (computeTierElasticEquivalencePartitioningQuota (Fin (of_int n)) [])) :: rat)"
    and "tq_quota (computeTierElasticEquivalencePartitioningQuota (Fin (of_int n)) []) \<le> max 4 (2 * n)"
proof -
  define t where "t = select_tier n (hd TIER_ELASTIC_EP_TIERS) TIER_ELASTIC_EP_TIERS"
  have "TIER_ELASTIC_EP_TIERS \<noteq> []" by (simp add: TIER_ELASTIC_EP_TIERS_def)
  then have "t \<in> set TIER_ELASTIC_EP_TIERS"
    using select_tier_mem [of n "hd TIER_ELASTIC_EP_TIERS" TIER_ELASTIC_EP_TIERS] by (auto simp: t_def)
  then have t: "3 / 4 \<le> ti_multiplier t" "ti_multiplier t \<le> 2" "ti_floor t \<le> 4"
    using default_tier_bounds by blast+
  have q: "tq_quota (computeTierElasticEquivalencePartitioningQuota (Fin (of_int n)) [])
      = max (ti_floor t) \<lceil>ti_multiplier t * of_int n\<rceil>"
    using n by (simp add: computeTierElasticEquivalencePartitioningQuota_def Let_def safeCount_def t_def)
  have "3 / 4 * of_int n \<le> ti_multiplier t * of_int n" using n t(1) by (simp add: mult_right_mono)
  then have "3 / 4 * of_int n \<le> (of_int \<lceil>ti_multiplier t * of_int n\<rceil> :: rat)"
    using le_of_int_ceiling order_trans by blast
  moreover have "ti_multiplier t * of_int n \<le> of_int (2 * n)"
    using n t(2) mult_right_mono [of "ti_multiplier t" 2 "of_int n"] by simp
  then have "\<lceil>ti_multiplier t * of_int n\<rceil> \<le> 2 * n" by (simp only: ceiling_le_iff)
  ultimately show "of_int n * 3 / 4 \<le> (of_int (tq_quota (computeTierElasticEquivalencePartitioningQuota (Fin (of_int n)) [])) :: rat)"
    and "tq_quota (computeTierElasticEquivalencePartitioningQuota (Fin (of_int n)) []) \<le> max 4 (2 * n)"
    using t(3) max.mono [of "ti_floor t" 4] unfolding q by (simp_all only: of_int_max)
qed

lemma uncovered_p0_iff:
  "collectUncoveredP0Elements lc cases (Some plan) = [] \<longleftrightarrow>
     (\<forall>e\<in>set (cp_perElement plan). isP0Element e \<longrightarrow>
        (\<exists>tc\<in>set cases. ce_elementId e \<in> set (qs_coveredFieldIds (tc_qualitySignals tc))
           \<or> ce_elementId e \<in> set (qs_coveredActionIds (tc_qualitySignals tc))))"
proof -
  have "sort_by lc f xs = [] \<longleftrightarrow> xs = []" for f and xs :: "UncoveredP0Element list"
    by (metis length_0_conv length_sort_by)
  then show ?thesis
    by (auto simp: collectUncoveredP0Elements_def collectCoveredElementIds_def Let_def filter_empty_conv)
qed

section \<open>Properties\<close>

text \<open>
  C33: The deficits the policy gate blocks on are exactly the failing rows of the persisted quota
  report, row by row and in the same order, although the two are computed by different loops; and
  the pass and deficit counters add up to the number of rows.
\<close>

theorem deficits_agree_with_report:
  "map (\<lambda>d. (td_screenId d, td_technique d, td_minCount d, td_actual d))
     (collectTechniqueQuotaDeficits lc cases (Some plan) policy)
   = map (\<lambda>e. (te_screenId e, te_technique e, te_requiredCount e, te_actualCount e))
      (filter (\<lambda>e. \<not> te_pass e) (qr_entries (buildTechniqueQuotaReport lc generatedAt jobId profile cases plan policy)))
   \<and> qr_passCount (buildTechniqueQuotaReport lc generatedAt jobId profile cases plan policy)
      + qr_deficitCount (buildTechniqueQuotaReport lc generatedAt jobId profile cases plan policy)
      = qr_entryCount (buildTechniqueQuotaReport lc generatedAt jobId profile cases plan policy)"
proof -
  have "map (\<lambda>d. (td_screenId d, td_technique d, td_minCount d, td_actual d)) (concat (map (quota_deficit cases (Some plan)) qs))
    = map (\<lambda>e. (te_screenId e, te_technique e, te_requiredCount e, te_actualCount e))
      (filter (\<lambda>e. \<not> te_pass e) (map (quota_entry cases plan m) qs))" for qs m
    by (induction qs) (auto simp: quota_deficit_def quota_entry_def Let_def)
  moreover have "length (filter P xs) + length (filter (\<lambda>e. \<not> P e) xs) = length xs" for P and xs :: "TechniqueQuotaReportEntry list"
    by (rule sum_length_filter_compl)
  ultimately show ?thesis
    by (simp only: collectTechniqueQuotaDeficits_def buildTechniqueQuotaReport_def Let_def option.case
        TechniqueQuotaReport.select_convs simp_thms)
qed

text \<open>
  Whatever the policy, a resolved quota never asks for more cases than the planner published for
  that screen and technique; and with the default tiers an elastic equivalence-partitioning quota for
  a screen with a positive number of fields lies between three quarters of the field count and the
  larger of four and twice the field count.
\<close>

theorem elastic_quota_only_relaxes:
  "list_all (\<lambda>q. list_ex (\<lambda>screen. list_ex (\<lambda>quota.
        rq_screenId q = cs_screenId screen \<and> rq_technique q = cq_technique quota
        \<and> rq_requiredCount q \<le> cq_minCount quota) (cs_techniqueQuotas screen)) (cp_perScreen plan))
     (resolveTechniqueQuotas lc (Some plan) policy)
   \<and> of_nat (Suc n) * 3 / 4 \<le> (of_int (tq_quota (computeTierElasticEquivalencePartitioningQuota (Fin (of_nat (Suc n))) [])) :: rat)
   \<and> tq_quota (computeTierElasticEquivalencePartitioningQuota (Fin (of_nat (Suc n))) []) \<le> max 4 (2 * int (Suc n))"
  using resolved_quota_origin [of _ lc plan policy] elastic_quota_bounds [of "int (Suc n)"]
  by (simp add: list_all_iff list_ex_iff del: of_nat_Suc)

end
