(* ===== verification/JudgeData.thy ===== *)
theory JudgeData
  imports TestCaseData
begin

text \<open>
  What the judges hand to the gates (\<^verbatim>\<open>packages/contracts/src/index.ts\<close>): verdict labels, findings and
  repair instructions, and the length limits of \<^verbatim>\<open>packages/model-gateway/src/judge-limits.ts\<close>.
\<close>

section \<open>Verdicts and findings\<close>

datatype LogicJudgeVerdictLabel = V_accept | V_repair | V_reject

definition ALLOWED_LOGIC_JUDGE_VERDICTS :: "LogicJudgeVerdictLabel list" where
  "ALLOWED_LOGIC_JUDGE_VERDICTS = [V_accept, V_repair, V_reject]"

definition JOB_LEVEL_TEST_CASE_ID :: string where
  "JOB_LEVEL_TEST_CASE_ID = ''$job''"

record JudgeFinding =
  jf_scope :: string
  jf_testCaseId :: string
  jf_code :: string
  jf_severity :: string
  jf_message :: string

record RepairInstruction =
  ri_testCaseId :: string
  ri_path :: string
  ri_instruction :: string
  ri_instructionTruncated :: "bool option"
  ri_kind :: "string option"
  ri_message :: "string option"

text \<open>The fields of a logic-judge verdict that the consensus reads.\<close>

record JudgeVerdict =
  jv_verdict :: LogicJudgeVerdictLabel
  jv_findings :: "JudgeFinding list"
  jv_repairInstructions :: "RepairInstruction list"
  jv_truncatedInstructionCount :: "int option"

record HallucinationFinding =
  hf_testCaseId :: string
  hf_stepIndex :: "int option"
  hf_message :: string

record VisualMismatch =
  vm_testCaseId :: string
  vm_stepIndex :: "int option"
  vm_expectedLabel :: string
  vm_visibleLabel :: string
  vm_message :: string

record A11yFinding =
  af_criterionId :: string
  af_testCaseId :: string
  af_code :: string
  af_severity :: string
  af_message :: string

section \<open>Length limits\<close>

record TruncationResult =
  tr_value :: string
  tr_truncated :: bool

definition path_limit :: nat where "path_limit = 160"  \<comment> \<open>\<^verbatim>\<open>INSTRUCTION_LENGTH_LIMITS.path\<close>\<close>
definition message_limit :: nat where "message_limit = 240"
definition instruction_limit :: nat where "instruction_limit = 240"

definition truncateWithEllipsis :: "string \<Rightarrow> nat \<Rightarrow> TruncationResult" where
  "truncateWithEllipsis v maxLength =
     (if length v \<le> maxLength then \<lparr> tr_value = v, tr_truncated = False \<rparr>
      else \<lparr> tr_value = take (maxLength - 3) v @ ''...'', tr_truncated = True \<rparr>)"

definition truncateInstructionWithAudit :: "string \<Rightarrow> TruncationResult" where
  "truncateInstructionWithAudit v = truncateWithEllipsis v instruction_limit"

definition countTruncatedInstructions :: "RepairInstruction list \<Rightarrow> int" where
  "countTruncatedInstructions is = of_nat (length (filter (\<lambda>i. ri_instructionTruncated i = Some True) is))"

lemma truncate_length: "3 \<le> n \<Longrightarrow> length (tr_value (truncateWithEllipsis v n)) \<le> n"
  by (auto simp: truncateWithEllipsis_def)

lemma truncate_short [simp]: "length v \<le> n \<Longrightarrow> tr_value (truncateWithEllipsis v n) = v"
  by (simp add: truncateWithEllipsis_def)

section \<open>Maps that keep the first entry of a key\<close>

definition keep_first :: "('a \<Rightarrow> string) \<Rightarrow> 'a list \<Rightarrow> 'a list" where
  "keep_first k xs = foldl (\<lambda>acc x. if k x \<in> set (map k acc) then acc else acc @ [x]) [] xs"

lemma keep_first_acc:
  "let r = foldl (\<lambda>acc x. if k x \<in> set (map k acc) then acc else acc @ [x]) acc xs
   in set r \<subseteq> set acc \<union> set xs \<and> k ` set r = k ` set acc \<union> k ` set xs
      \<and> distinct (map k r) = distinct (map k acc)"
proof (induction xs arbitrary: acc)
  case (Cons x xs)
  show ?case
    using Cons.IH [of "if k x \<in> set (map k acc) then acc else acc @ [x]"] by (auto simp: Let_def image_iff split: if_splits)
qed simp

lemma keep_first_subset: "set (keep_first k xs) \<subseteq> set xs"
  and keep_first_keys: "k ` set (keep_first k xs) = k ` set xs"
  and keep_first_distinct: "distinct (map k (keep_first k xs))"
  using keep_first_acc [of k "[]" xs] by (simp_all add: keep_first_def Let_def)

end
