(* ===== verification/FaithfulnessTier.thy ===== *)
theory FaithfulnessTier
  imports JudgeData
begin

text \<open>
  The faithfulness-tier report (\<^verbatim>\<open>packages/quality/src/faithfulness-tier-report.ts\<close>): classifying the
  steps of the generated cases, resolving the judge's verdict per step, and the aggregate score the
  policy gate compares with its threshold.
\<close>

section \<open>Data\<close>

datatype FaithfulnessStepVerdictLabel = Match | Evidence_partial | Mismatch

datatype FaithfulnessTierLabel = Concrete_data | Label_only | State_transition

record FaithfulnessStepVerdict =
  sv_testCaseId :: string
  sv_stepIndex :: int
  sv_verdict :: FaithfulnessStepVerdictLabel
  sv_message :: string

record FaithfulnessVerdictRefusal =
  fr_code :: string
  fr_message :: string

text \<open>The fields of a verdict that the report, the gate and the consensus read.\<close>

record FaithfulnessVerdict =
  fv_generatedAt :: string
  fv_jobId :: string
  fv_score :: rat
  fv_verdict :: LogicJudgeVerdictLabel  \<comment> \<open>the same three labels\<close>
  fv_hallucinations :: "HallucinationFinding list"
  fv_mismatches :: "VisualMismatch list"
  fv_stepVerdicts :: "FaithfulnessStepVerdict list option"
  fv_refusal :: "FaithfulnessVerdictRefusal option"

record FaithfulnessTierReportEntry =
  fte_testCaseId :: string
  fte_stepIndex :: int
  fte_tier :: FaithfulnessTierLabel
  fte_tierReason :: string
  fte_verdict :: FaithfulnessStepVerdictLabel
  fte_score :: rat
  fte_passesThreshold :: bool
  fte_message :: "string option"

record FaithfulnessTierReport =
  ftr_generatedAt :: string
  ftr_jobId :: string
  ftr_aggregateScore :: rat
  ftr_aggregateThreshold :: rat
  ftr_aggregatePasses :: bool
  ftr_stepCount :: nat
  ftr_matchCount :: nat
  ftr_evidencePartialCount :: nat
  ftr_mismatchCount :: nat
  ftr_entries :: "FaithfulnessTierReportEntry list"
  ftr_partialMajorityCaseIds :: "string list"

datatype tier_report_error = Refused_verdict string

section \<open>Tiers and scores\<close>

definition DEFAULT_FAITHFULNESS_TIER_AGGREGATE_THRESHOLD :: rat where
  "DEFAULT_FAITHFULNESS_TIER_AGGREGATE_THRESHOLD = 4 / 5"

definition FAITHFULNESS_PARTIAL_MAJORITY_FRACTION :: rat where
  "FAITHFULNESS_PARTIAL_MAJORITY_FRACTION = 3 / 5"

fun scoreFaithfulnessStepVerdict :: "FaithfulnessStepVerdictLabel \<Rightarrow> rat" where
  "scoreFaithfulnessStepVerdict Match = 1"
| "scoreFaithfulnessStepVerdict Evidence_partial = 17 / 20"
| "scoreFaithfulnessStepVerdict Mismatch = 0"

fun FAITHFULNESS_TIER_STEP_THRESHOLDS :: "FaithfulnessTierLabel \<Rightarrow> FaithfulnessStepVerdictLabel \<Rightarrow> rat" where
  "FAITHFULNESS_TIER_STEP_THRESHOLDS Concrete_data Match = 19 / 20"
| "FAITHFULNESS_TIER_STEP_THRESHOLDS Concrete_data Evidence_partial = 4 / 5"
| "FAITHFULNESS_TIER_STEP_THRESHOLDS Concrete_data Mismatch = 4 / 5"
| "FAITHFULNESS_TIER_STEP_THRESHOLDS Label_only Match = 19 / 20"
| "FAITHFULNESS_TIER_STEP_THRESHOLDS Label_only Evidence_partial = 17 / 20"
| "FAITHFULNESS_TIER_STEP_THRESHOLDS Label_only Mismatch = 17 / 20"
| "FAITHFULNESS_TIER_STEP_THRESHOLDS State_transition Match = 19 / 20"
| "FAITHFULNESS_TIER_STEP_THRESHOLDS State_transition Evidence_partial = 13 / 20"
| "FAITHFULNESS_TIER_STEP_THRESHOLDS State_transition Mismatch = 13 / 20"

definition has_digit :: "string \<Rightarrow> bool" where
  "has_digit s = list_ex (\<lambda>c. c \<in> set ''0123456789'') s"

definition classifyFaithfulnessStepTier ::
  "GeneratedTestCaseStep \<Rightarrow> string option \<Rightarrow> FaithfulnessTierLabel \<times> string" where
  "classifyFaithfulnessStepTier step technique =
     (let data = (case st_data step of None \<Rightarrow> [] | Some d \<Rightarrow> js_trim d);
          expected = (case st_expected step of None \<Rightarrow> [] | Some e \<Rightarrow> js_trim e)
      in if data \<noteq> [] \<and> has_digit data then (Concrete_data, ''step.data carries a numeric value'')
         else if expected \<noteq> [] \<and> has_digit expected then (Concrete_data, ''step.expected carries a numeric value'')
         else if length data \<ge> 4 then (Concrete_data, ''step.data carries a non-trivial payload'')
         else if technique = Some ''state_transition''
         then (State_transition, ''step belongs to a state_transition technique case and asserts no concrete data'')
         else (Label_only, ''step has no concrete input or expected data''))"

definition stepPassesTierThreshold :: "FaithfulnessTierLabel \<Rightarrow> FaithfulnessStepVerdictLabel \<Rightarrow> bool" where
  "stepPassesTierThreshold tier verdict \<longleftrightarrow>
     scoreFaithfulnessStepVerdict verdict \<ge> FAITHFULNESS_TIER_STEP_THRESHOLDS tier verdict"

section \<open>The report\<close>

definition stepVerdictKey :: "string \<Rightarrow> int \<Rightarrow> string" where
  "stepVerdictKey testCaseId stepIndex = testCaseId @ [CHR 0x00] @ js_string_of_int stepIndex"

definition orderCases :: "string comparator \<Rightarrow> GeneratedTestCase list \<Rightarrow> GeneratedTestCase list" where
  "orderCases lc cases = sort_by lc tc_id cases"

definition stepVerdictByKey :: "FaithfulnessVerdict \<Rightarrow> string \<rightharpoonup> FaithfulnessStepVerdict" where
  "stepVerdictByKey verdict =
     map_of (rev (map (\<lambda>sv. (stepVerdictKey (sv_testCaseId sv) (sv_stepIndex sv), sv))
       (case fv_stepVerdicts verdict of None \<Rightarrow> [] | Some svs \<Rightarrow> svs)))"

definition tier_entry :: "FaithfulnessVerdict \<Rightarrow> GeneratedTestCase \<Rightarrow> GeneratedTestCaseStep \<Rightarrow> FaithfulnessTierReportEntry" where
  "tier_entry judged testCase step =
     (let tierInfo = classifyFaithfulnessStepTier step (Some (tc_technique testCase));
          found = stepVerdictByKey judged (stepVerdictKey (tc_id testCase) (st_index step));
          verdict = (case found of None \<Rightarrow> Match | Some sv \<Rightarrow> sv_verdict sv)
      in \<lparr> fte_testCaseId = tc_id testCase, fte_stepIndex = st_index step, fte_tier = fst tierInfo,
           fte_tierReason = snd tierInfo, fte_verdict = verdict,
           fte_score = js_round6 (scoreFaithfulnessStepVerdict verdict),
           fte_passesThreshold = stepPassesTierThreshold (fst tierInfo) verdict,
           fte_message = map_option sv_message found \<rparr>)"

definition case_entries :: "FaithfulnessVerdict \<Rightarrow> GeneratedTestCase \<Rightarrow> FaithfulnessTierReportEntry list" where
  "case_entries judged testCase = map (tier_entry judged testCase) (tc_steps testCase)"

definition partial_majority :: "FaithfulnessVerdict \<Rightarrow> GeneratedTestCase \<Rightarrow> bool" where
  "partial_majority judged testCase \<longleftrightarrow>
     (let es = case_entries judged testCase
      in length es > 0
         \<and> of_nat (length (filter (\<lambda>e. fte_verdict e = Evidence_partial) es)) / of_nat (length es)
             \<ge> FAITHFULNESS_PARTIAL_MAJORITY_FRACTION)"

definition verdict_count :: "FaithfulnessStepVerdictLabel \<Rightarrow> FaithfulnessTierReportEntry list \<Rightarrow> nat" where
  "verdict_count v es = length (filter (\<lambda>e. fte_verdict e = v) es)"

definition buildFaithfulnessTierReport ::
  "string comparator \<Rightarrow> string \<Rightarrow> string \<Rightarrow> FaithfulnessVerdict \<Rightarrow> GeneratedTestCase list \<Rightarrow> rat option \<Rightarrow>
     tier_report_error + FaithfulnessTierReport" where
  "buildFaithfulnessTierReport lc generatedAt jobId judged cases aggregateThreshold' =
     (case fv_refusal judged of
        Some refusal \<Rightarrow> Inl (Refused_verdict (fr_code refusal))
      | None \<Rightarrow>
          let ordered = orderCases lc cases;
              entries = concat (map (case_entries judged) ordered);
              aggregateThreshold = (case aggregateThreshold' of
                None \<Rightarrow> DEFAULT_FAITHFULNESS_TIER_AGGREGATE_THRESHOLD | Some t \<Rightarrow> t);
              stepCount = length entries;
              aggregateScore = (if stepCount = 0 then 0
                else js_round6 (sum_list (map fte_score entries) / of_nat stepCount))
          in Inr \<lparr> ftr_generatedAt = generatedAt, ftr_jobId = jobId, ftr_aggregateScore = aggregateScore,
                   ftr_aggregateThreshold = js_round6 aggregateThreshold,
                   ftr_aggregatePasses = (stepCount > 0 \<and> aggregateScore \<ge> aggregateThreshold),
                   ftr_stepCount = stepCount, ftr_matchCount = verdict_count Match entries,
                   ftr_evidencePartialCount = verdict_count Evidence_partial entries,
                   ftr_mismatchCount = verdict_count Mismatch entries, ftr_entries = entries,
                   ftr_partialMajorityCaseIds = sort_by lc (\<lambda>x. x)
                     (map tc_id (filter (partial_majority judged) ordered)) \<rparr>)"

section \<open>Lemmas\<close>

lemma passes_iff_not_mismatch: "stepPassesTierThreshold tier verdict \<longleftrightarrow> verdict \<noteq> Mismatch"
  by (cases tier; cases verdict) (simp_all add: stepPassesTierThreshold_def)

lemma entry_score: "fte_score (tier_entry judged tc step) = scoreFaithfulnessStepVerdict (fte_verdict (tier_entry judged tc step))"
proof -
  have "js_round6 (scoreFaithfulnessStepVerdict v) = scoreFaithfulnessStepVerdict v" for v
    by (cases v) (simp_all add: js_round6_def floor_eq_iff)
  then show ?thesis by (simp add: tier_entry_def Let_def)
qed

lemma sum_scores:
  assumes "\<And>e. e \<in> set es \<Longrightarrow> fte_score e = scoreFaithfulnessStepVerdict (fte_verdict e)"
  shows "sum_list (map fte_score es) = of_nat (verdict_count Match es) + 17 / 20 * of_nat (verdict_count Evidence_partial es)"
    and "verdict_count Match es + verdict_count Evidence_partial es + verdict_count Mismatch es = length es"
proof -
  show "sum_list (map fte_score es) = of_nat (verdict_count Match es) + 17 / 20 * of_nat (verdict_count Evidence_partial es)"
    using assms
  proof (induction es)
    case (Cons e es)
    then show ?case by (cases "fte_verdict e") (simp_all add: verdict_count_def algebra_simps)
  qed (simp add: verdict_count_def)
  show "verdict_count Match es + verdict_count Evidence_partial es + verdict_count Mismatch es = length es"
  proof (induction es)
    case (Cons e es)
    then show ?case by (cases "fte_verdict e") (simp_all add: verdict_count_def)
  qed (simp add: verdict_count_def)
qed

lemma entry_scores:
  "e \<in> set (concat (map (case_entries judged) cs)) \<Longrightarrow> fte_score e = scoreFaithfulnessStepVerdict (fte_verdict e)"
  by (auto simp: case_entries_def entry_score)

section \<open>Properties\<close>

text \<open>
  A tier report is built exactly for verdicts without a refusal. Its three verdict counters add up
  to the number of steps of all cases, its aggregate score is the rounded mean of 1 per match and 0.85
  per partial evidence, lies between 0 and 1, and a step passes its tier threshold exactly when its
  verdict is not a mismatch, whatever its tier.
\<close>

theorem tier_report_sound:
  "(case buildFaithfulnessTierReport lc generatedAt jobId judged cases threshold of
      Inl err \<Rightarrow> fv_refusal judged \<noteq> None
    | Inr r \<Rightarrow>
        fv_refusal judged = None
        \<and> ftr_matchCount r + ftr_evidencePartialCount r + ftr_mismatchCount r = sum_list (map (length \<circ> tc_steps) cases)
        \<and> ftr_stepCount r = sum_list (map (length \<circ> tc_steps) cases)
        \<and> ftr_aggregateScore r = (if ftr_stepCount r = 0 then 0 else
             js_round6 ((of_nat (ftr_matchCount r) + 17 / 20 * of_nat (ftr_evidencePartialCount r)) / of_nat (ftr_stepCount r)))
        \<and> 0 \<le> ftr_aggregateScore r \<and> ftr_aggregateScore r \<le> 1
        \<and> list_all (\<lambda>e. fte_passesThreshold e \<longleftrightarrow> fte_verdict e \<noteq> Mismatch) (ftr_entries r))"
proof (cases "fv_refusal judged")
  case (Some refusal)
  then show ?thesis by (simp add: buildFaithfulnessTierReport_def)
next
  case None
  define es where "es = concat (map (case_entries judged) (orderCases lc cases))"
  let ?m = "verdict_count Match es" and ?p = "verdict_count Evidence_partial es"
  have sums: "sum_list (map fte_score es) = of_nat ?m + 17 / 20 * of_nat ?p"
      "?m + ?p + verdict_count Mismatch es = length es"
    using sum_scores [of es] entry_scores unfolding es_def by blast+
  have "mset (map (length \<circ> tc_steps) (orderCases lc cases)) = mset (map (length \<circ> tc_steps) cases)"
    unfolding mset_map orderCases_def mset_sort_by ..
  then have "sum_list (map (length \<circ> tc_steps) (orderCases lc cases)) = sum_list (map (length \<circ> tc_steps) cases)"
    by (metis sum_mset_sum_list)
  then have len: "length es = sum_list (map (length \<circ> tc_steps) cases)"
    by (simp add: es_def length_concat case_entries_def o_def)
  have passes: "list_all (\<lambda>e. fte_passesThreshold e \<longleftrightarrow> fte_verdict e \<noteq> Mismatch) es"
    by (auto simp: es_def list_all_iff case_entries_def tier_entry_def Let_def passes_iff_not_mismatch)
  have "0 \<le> js_round6 ((of_nat ?m + 17 / 20 * of_nat ?p) / of_nat (length es))
      \<and> js_round6 ((of_nat ?m + 17 / 20 * of_nat ?p) / of_nat (length es)) \<le> 1" if "length es \<noteq> 0"
  proof (rule js_round6_bounds)
    have "(of_nat ?m + 17 / 20 * of_nat ?p :: rat) \<le> of_nat (?m + ?p)" by simp
    also have "\<dots> \<le> of_nat (length es)" using sums(2) by (metis le_add1 of_nat_le_iff)
    finally show "(of_nat ?m + 17 / 20 * of_nat ?p) / of_nat (length es) \<le> (1 :: rat)"
      using that by (simp add: field_simps)
  qed simp
  with None show ?thesis
    using sums passes unfolding len [symmetric]
    by (simp add: buildFaithfulnessTierReport_def Let_def flip: es_def del: concat_eq_Nil_conv length_greater_0_conv)
qed

end
