(* ===== verification/CoverageDrift.thy ===== *)
theory CoverageDrift
  imports PolicyConflicts
begin

text \<open>
  Coverage-baseline drift (\<^verbatim>\<open>packages/quality/src/coverage-baseline-drift.ts\<close>): comparing the coverage
  ratios of a run with a pinned baseline and the violation the policy gate reports. The arrows of the
  reason text stand as their UTF-8 bytes.
\<close>

datatype CoverageBaselineAxis = FieldCoverage | ActionCoverage | ValidationCoverage | NavigationCoverage

fun axis_str :: "CoverageBaselineAxis \<Rightarrow> string" where
  "axis_str FieldCoverage = ''fieldCoverage''"
| "axis_str ActionCoverage = ''actionCoverage''"
| "axis_str ValidationCoverage = ''validationCoverage''"
| "axis_str NavigationCoverage = ''navigationCoverage''"

definition COVERAGE_BASELINE_AXES :: "CoverageBaselineAxis list" where
  "COVERAGE_BASELINE_AXES = [FieldCoverage, ActionCoverage, ValidationCoverage, NavigationCoverage]"

definition COVERAGE_BASELINE_DRIFT_THRESHOLD :: rat where
  "COVERAGE_BASELINE_DRIFT_THRESHOLD = 1 / 10"

type_synonym CoverageBaselineRatios = "CoverageBaselineAxis \<Rightarrow> rat"

record CoverageBaselineDriftFinding =
  bf_axis :: CoverageBaselineAxis
  bf_baseline :: rat
  bf_candidate :: rat
  bf_absoluteDelta :: rat
  bf_relativeDelta :: "rat option"
  bf_threshold :: rat

record CoverageBaselineDriftEvaluation =
  be_tenantId :: string
  be_archetype :: string
  be_policyProfileId :: string
  be_threshold :: rat
  be_seeded :: bool
  be_exceeded :: bool
  be_findings :: "CoverageBaselineDriftFinding list"

datatype drift_error = Threshold_invalid

record EvaluateCoverageBaselineDriftInput =
  di_tenantId :: string
  di_archetype :: string
  di_policyProfileId :: string
  di_baseline :: "CoverageBaselineRatios option"  \<comment> \<open>the ratios of the baseline record\<close>
  di_candidateRatios :: CoverageBaselineRatios
  di_threshold :: "js_number option"

definition drift_finding ::
  "rat \<Rightarrow> CoverageBaselineRatios \<Rightarrow> CoverageBaselineRatios \<Rightarrow> CoverageBaselineAxis \<Rightarrow> CoverageBaselineDriftFinding list" where
  "drift_finding threshold baseline candidate axis =
     (let absoluteDelta = js_round6 (candidate axis - baseline axis)
      in if \<bar>absoluteDelta\<bar> \<le> threshold then []
         else [\<lparr> bf_axis = axis, bf_baseline = baseline axis, bf_candidate = candidate axis,
                 bf_absoluteDelta = absoluteDelta,
                 bf_relativeDelta = (if baseline axis = 0 then None
                   else Some (js_round6 (\<bar>absoluteDelta\<bar> / \<bar>baseline axis\<bar>))),
                 bf_threshold = threshold \<rparr>])"

definition evaluateCoverageBaselineDrift ::
  "EvaluateCoverageBaselineDriftInput \<Rightarrow> drift_error + CoverageBaselineDriftEvaluation" where
  "evaluateCoverageBaselineDrift input =
     (case (case di_threshold input of None \<Rightarrow> Fin COVERAGE_BASELINE_DRIFT_THRESHOLD | Some t \<Rightarrow> t) of
        Fin threshold \<Rightarrow>
          if threshold < 0 then Inl Threshold_invalid
          else let findings = (case di_baseline input of None \<Rightarrow> []
                 | Some baseline \<Rightarrow>
                     concat (map (drift_finding threshold baseline (di_candidateRatios input)) COVERAGE_BASELINE_AXES))
               in Inr \<lparr> be_tenantId = di_tenantId input, be_archetype = di_archetype input,
                        be_policyProfileId = di_policyProfileId input, be_threshold = threshold,
                        be_seeded = (di_baseline input = None), be_exceeded = (findings \<noteq> []),
                        be_findings = findings \<rparr>
      | _ \<Rightarrow> Inl Threshold_invalid)"

definition strip_zeros :: "string \<Rightarrow> string" where
  "strip_zeros s = rev (dropWhile (\<lambda>c. c = CHR ''0'') (rev s))"

definition strip_dot :: "string \<Rightarrow> string" where
  "strip_dot s = (if s \<noteq> [] \<and> last s = CHR ''.'' then butlast s else s)"

definition formatRatio :: "rat \<Rightarrow> string" where
  "formatRatio value =
     (if rat_integral value then js_string_of_int \<lfloor>value\<rfloor> else strip_dot (strip_zeros (toFixed 6 value)))"

definition formatPercent :: "rat \<Rightarrow> string" where
  "formatPercent value = toFixed 1 (value * 100) @ ''%''"

definition format_finding :: "CoverageBaselineDriftFinding \<Rightarrow> string" where
  "format_finding f =
     (let direction = (if bf_absoluteDelta f \<ge> 0 then [CHR 0xE2, CHR 0x86, CHR 0x91] else [CHR 0xE2, CHR 0x86, CHR 0x93]);
          relative = (case bf_relativeDelta f of None \<Rightarrow> ''n/a'' | Some r \<Rightarrow> formatPercent r)
      in axis_str (bf_axis f) @ '': '' @ formatRatio (bf_baseline f) @ '' '' @ [CHR 0xE2, CHR 0x86, CHR 0x92] @ '' ''
         @ formatRatio (bf_candidate f) @ '' ('' @ direction @ formatRatio \<bar>bf_absoluteDelta f\<bar> @ '' abs, ''
         @ relative @ '' rel)'')"

definition formatCoverageDriftReason :: "string comparator \<Rightarrow> CoverageBaselineDriftEvaluation \<Rightarrow> string" where
  "formatCoverageDriftReason lc evaluation =
     ''coverage drift exceeded '' @ formatPercent (be_threshold evaluation) @ '' threshold for archetype ''
     @ quoted (be_archetype evaluation) @ '' under profile '' @ quoted (be_policyProfileId evaluation)
     @ '' (tenant '' @ quoted (be_tenantId evaluation) @ ''): ''
     @ js_join ''; '' (map format_finding (sort_by lc (axis_str \<circ> bf_axis) (be_findings evaluation)))"

definition buildCoverageDriftPolicyViolation ::
  "string comparator \<Rightarrow> CoverageBaselineDriftEvaluation \<Rightarrow> TestCasePolicyViolation option" where
  "buildCoverageDriftPolicyViolation lc evaluation =
     (if \<not> be_exceeded evaluation then None
      else Some \<lparr> pv_rule = ''policy:coverage-drift-exceeded'', pv_outcome = ''coverage_drift_exceeded'',
                  pv_severity = Sev_warning, pv_reason = formatCoverageDriftReason lc evaluation,
                  pv_path = None \<rparr>)"

end
