(* ===== verification/PolicyInputs.thy ===== *)
theory PolicyInputs
  imports SemanticOverrides PolicyRisk TechniqueQuota FaithfulnessTier CoverageDrift
begin

text \<open>
  Inputs of the policy gate (\<^verbatim>\<open>packages/production-runner/src/policy-gate.ts\<close>) and its self-contained
  checks: accessibility criteria, refusals of the sidecar and the judges, model bindings, untrusted
  content. Parameters are the host's collation, the Unicode normalisation of accessibility texts and
  the text form of fractional numbers.
\<close>

section \<open>Input\<close>

record text_host =
  normalizeDashes :: "string \<Rightarrow> string"  \<comment> \<open>\<^verbatim>\<open>NFKC\<close>, then dash punctuation replaced by a hyphen\<close>
  numberString :: "rat \<Rightarrow> string"  \<comment> \<open>a number in a template literal\<close>

record TestCasePolicyProfile =
  pp_id :: string
  pp_version :: string
  pp_description :: string
  reviewOnlyRiskCategories :: "string list"
  strictRiskCategories :: "string list"
  requireAccessibilityCaseWhenFormPresent :: bool
  requireNegativeOrValidationForValidationRules :: bool
  requireBoundaryCaseForRequiredFields :: bool
  minConfidence :: rat
  maxOpenQuestionsPerCase :: rat
  maxAssumptionsPerCase :: rat
  judgeRefusalPolicy :: "JudgeRefusalPolicyConfig option"
  enforceRiskTagDowngradeDetection :: "bool option"
  requirePerStepFaithfulness :: "bool option"
  techniqueCoverageMinimum :: "TechniqueCoverageMinimumPolicy option"

record TestCaseDuplicatePair =
  dp_leftTestCaseId :: string
  dp_rightTestCaseId :: string
  dp_similarity :: rat

text \<open>The two parts of a coverage report the gate reads.\<close>

record TestCaseCoverageReport =
  cr_acceptanceUncoveredIds :: "string list option"  \<comment> \<open>\<^verbatim>\<open>acceptanceCriteriaCoverage?.uncoveredIds\<close>\<close>
  cr_duplicatePairs :: "TestCaseDuplicatePair list"

datatype A11yCriterionVerdictLabel = Covered_passes | Covered_weakly | Not_covered

fun a11y_label_str :: "A11yCriterionVerdictLabel \<Rightarrow> string" where
  "a11y_label_str Covered_passes = ''covered_passes''"
| "a11y_label_str Covered_weakly = ''covered_weakly''"
| "a11y_label_str Not_covered = ''not_covered''"

record A11yCriterionVerdict =
  ac_criterionId :: string
  ac_screenId :: string
  ac_screenName :: string
  ac_pillarId :: string
  ac_successCriterion :: string
  ac_verdict :: A11yCriterionVerdictLabel
  ac_rationale :: string

record A11yVerdict =
  av_verdict :: LogicJudgeVerdictLabel  \<comment> \<open>accept or repair\<close>
  av_criteria :: "A11yCriterionVerdict list"
  av_findings :: "A11yFinding list"
  av_repairInstructions :: "RepairInstruction list"
  av_truncatedInstructionCount :: "int option"
  av_refusal :: "FaithfulnessVerdictRefusal option"

record ActiveModelBinding =
  mb_providerId :: string
  mb_modelId :: string
  mb_inferenceProfileId :: "string option"
  mb_ictRegisterRef :: "string option"

record UntrustedContentNormalizationReport =
  uc_outcome :: string
  uc_needsReviewReasons :: "(string \<times> nat) list"  \<comment> \<open>carrier and count\<close>

datatype PolicyOverrideSeverity = To_error | To_warning

record PolicyOverride =
  po_ruleId :: string
  po_severity :: PolicyOverrideSeverity
  po_threshold :: "rat option"

record VisualSidecarRefusal =
  sr_failureClass :: string
  sr_failureMessage :: string

record EvaluatePolicyGateInput =
  gi_jobId :: string
  gi_generatedAt :: string
  gi_testCases :: "GeneratedTestCase list"  \<comment> \<open>\<^verbatim>\<open>list.testCases\<close>\<close>
  gi_intent :: BusinessTestIntentIr
  gi_profile :: TestCasePolicyProfile
  gi_validation :: TestCaseValidationReport
  gi_coverage :: TestCaseCoverageReport
  gi_coveragePlan :: "CoveragePlan option"
  gi_visual :: "VisualSidecarValidationReport option"
  gi_a11yVerdict :: "A11yVerdict option"
  gi_policyOverrides :: "PolicyOverride list option"
  gi_faithfulnessVerdict :: "FaithfulnessVerdict option"
  gi_semanticContentOverrides :: "SemanticContentOverrideMap option"
  gi_overrideAuthorityProvider :: "OverrideAuthorityProvider option"
  gi_customContextPolicySignals :: "CustomContextPolicySignal list option"
  gi_visualSidecarRefusal :: "VisualSidecarRefusal option"
  gi_visualVerificationRequired :: "bool option"
  gi_untrustedContentReport :: "UntrustedContentNormalizationReport option"
  gi_activeModelBindings :: "ActiveModelBinding list option"
  gi_coverageBaselineDrift :: "CoverageBaselineDriftEvaluation option"
  gi_complianceOverrides :: "ComplianceRiskOverride list option"

definition violation :: "string \<Rightarrow> string \<Rightarrow> Severity \<Rightarrow> string \<Rightarrow> TestCasePolicyViolation" where
  "violation rule outcome severity reason =
     \<lparr> pv_rule = rule, pv_outcome = outcome, pv_severity = severity, pv_reason = reason, pv_path = None \<rparr>"

section \<open>Accessibility criteria\<close>

text \<open>
  A search for \<^verbatim>\<open>\b\<close>, one of the given matchers, \<^verbatim>\<open>\b\<close>, where a match starts and ends with a word
  character; a matcher returns the rest of the text. The flag says whether the previous code unit is
  a word character.
\<close>

fun bounded_match :: "(string \<Rightarrow> string option) list \<Rightarrow> bool \<Rightarrow> string \<Rightarrow> bool" where
  "bounded_match ms prev [] = False"
| "bounded_match ms prev (c # s) =
     ((\<not> prev \<and> list_ex (\<lambda>m. case m (c # s) of None \<Rightarrow> False
                              | Some rest \<Rightarrow> rest = [] \<or> \<not> word_char (hd rest)) ms)
      \<or> bounded_match ms (word_char c) s)"

definition screen_reader_match :: "string \<Rightarrow> string option" where
  "screen_reader_match s =
     Option.bind (strip_prefix ''screen'' s) (\<lambda>rest.
       case dropWhile js_space rest of
         [] \<Rightarrow> None
       | c # rest' \<Rightarrow> if c = CHR ''-'' then strip_prefix ''reader'' (dropWhile js_space rest') else None)"

definition FORM_SCREEN_A11Y_REQUIRED_CRITERIA :: "string list" where
  "FORM_SCREEN_A11Y_REQUIRED_CRITERIA = [''keyboard-nav'', ''focus-order'', ''screen-reader'']"

text \<open>The patterns of a criterion; optional groups are written out as alternatives.\<close>

definition FORM_SCREEN_A11Y_CRITERION_PATTERNS :: "string \<Rightarrow> (string \<Rightarrow> string option) list" where
  "FORM_SCREEN_A11Y_CRITERION_PATTERNS criterion =
     (if criterion = ''keyboard-nav''
      then map strip_prefix [''keyboard'', ''tastatur'', ''tabbing'', ''tabbed'', ''tab'', ''tab order'']
      else if criterion = ''focus-order''
      then map strip_prefix [''focus order'', ''focus-order'', ''fokusreihenfolge'', ''visible focus'',
             ''sichtbare fokusanzeige'', ''sichtbaren fokusanzeige'', ''sichtbarer fokusanzeige'', ''sichtbar fokusanzeige'',
             ''sichtbare fokus'', ''sichtbaren fokus'', ''sichtbarer fokus'', ''sichtbar fokus'',
             ''focus indicator'', ''focus state'']
      else if criterion = ''screen-reader''
      then screen_reader_match #
           map strip_prefix [''screen reader'', ''screen-reader'', ''bildschirmleser'', ''aria-live'',
             ''announcement'', ''announcements'', ''announces'', ''announced'', ''announce'',
             ''angek'' @ [CHR 0xFC] @ ''ndigt'', ''assistive technology'', ''assistive tech'']
      else [])"

definition normalizeA11yCaseText :: "text_host \<Rightarrow> string \<Rightarrow> string" where
  "normalizeA11yCaseText th value = js_lower (normalizeDashes th value)"

definition summarizeA11yCaseText :: "text_host \<Rightarrow> GeneratedTestCase \<Rightarrow> string" where
  "summarizeA11yCaseText th testCase =
     normalizeA11yCaseText th (js_join [CHR 0x0A]
       ([tc_title testCase, tc_objective testCase] @ tc_expectedResults testCase
        @ concat (map (\<lambda>step. case st_expected step of None \<Rightarrow> [st_action step]
                                | Some e \<Rightarrow> [st_action step, e]) (tc_steps testCase))))"

definition listCoveredFormScreenA11yCriteria :: "text_host \<Rightarrow> GeneratedTestCase \<Rightarrow> string list" where
  "listCoveredFormScreenA11yCriteria th testCase =
     (if tc_type testCase \<noteq> ''accessibility'' then []
      else let text = summarizeA11yCaseText th testCase
           in filter (\<lambda>criterion. bounded_match (FORM_SCREEN_A11Y_CRITERION_PATTERNS criterion) False text)
                FORM_SCREEN_A11Y_REQUIRED_CRITERIA)"

definition collectCoveredFormScreenA11yCriteria ::
  "text_host \<Rightarrow> GeneratedTestCase list \<Rightarrow> string \<Rightarrow> string list" where
  "collectCoveredFormScreenA11yCriteria th cases screenId =
     js_sort (js_set (concat (map (listCoveredFormScreenA11yCriteria th)
       (filter (\<lambda>tc. tc_type tc = ''accessibility'' \<and> screenId \<in> set (tc_figmaTraceRefs tc)) cases))))"

definition sortedUnique :: "string list \<Rightarrow> string list" where
  "sortedUnique values = js_sort (js_set values)"

definition collectFormScreenIds :: "BusinessTestIntentIr \<Rightarrow> string list" where
  "collectFormScreenIds intent = sortedUnique (map df_screenId (bi_detectedFields intent))"

definition evaluateA11yJudgeVerdict :: "string list \<Rightarrow> A11yVerdict option \<Rightarrow> TestCasePolicyViolation list" where
  "evaluateA11yJudgeVerdict formScreenIds verdict =
     (case verdict of
        None \<Rightarrow> []
      | Some v \<Rightarrow>
          if av_refusal v \<noteq> None then []
          else map (\<lambda>c. violation ''policy:form-screen-needs-accessibility-case''
                   (if ac_verdict c = Not_covered then ''a11y_criterion_not_covered'' else ''a11y_criterion_covered_weakly'')
                   (if ac_verdict c = Not_covered then Sev_error else Sev_warning)
                   (''screen '' @ quoted (ac_screenId c) @ '' ('' @ ac_screenName c @ '') '' @ ac_successCriterion c
                    @ '' is '' @ a11y_label_str (ac_verdict c) @ ''; '' @ ac_pillarId c @ '': '' @ ac_rationale c))
                 (filter (\<lambda>c. ac_screenId c \<in> set formScreenIds \<and> ac_verdict c \<noteq> Covered_passes) (av_criteria v)))"

section \<open>Refusals of sidecars and judges\<close>

definition resolveVisualSidecarRefusalViolation :: "VisualSidecarRefusal \<Rightarrow> TestCasePolicyViolation" where
  "resolveVisualSidecarRefusalViolation refusal =
     (let reason = ''visual sidecar refused: '' @ sr_failureClass refusal @ '': '' @ sr_failureMessage refusal
      in if sr_failureClass refusal = ''both_sidecars_failed''
         then violation ''policy:visual-sidecar:both_failed'' ''visual_sidecar_both_failed'' Sev_error reason
         else violation ''policy:visual-sidecar-refused'' ''visual_sidecar_failure'' Sev_warning reason)"

datatype judge = Faithfulness_judge | A11y_judge

fun judge_str :: "judge \<Rightarrow> string" where
  "judge_str Faithfulness_judge = ''faithfulness''"
| "judge_str A11y_judge = ''a11y''"

definition resolveJudgeRefusalPolicy :: "TestCasePolicyProfile \<Rightarrow> judge \<Rightarrow> JudgeRefusalPolicy" where
  "resolveJudgeRefusalPolicy profile j =
     (case judgeRefusalPolicy profile of
        None \<Rightarrow> Fail_open
      | Some cfg \<Rightarrow> (case j of Faithfulness_judge \<Rightarrow> jr_faithfulness cfg | A11y_judge \<Rightarrow> jr_a11y cfg))"

fun judgeRefusalPolicyToSeverity :: "JudgeRefusalPolicy \<Rightarrow> Severity" where
  "judgeRefusalPolicyToSeverity Fail_closed = Sev_error"
| "judgeRefusalPolicyToSeverity Judge_needs_review = Sev_warning"
| "judgeRefusalPolicyToSeverity Fail_open = Sev_info"

fun refusal_policy_str :: "JudgeRefusalPolicy \<Rightarrow> string" where
  "refusal_policy_str Fail_open = ''fail_open''"
| "refusal_policy_str Fail_closed = ''fail_closed''"
| "refusal_policy_str Judge_needs_review = ''needs_review''"

definition judge_violation ::
  "TestCasePolicyProfile \<Rightarrow> judge \<Rightarrow> FaithfulnessVerdictRefusal \<Rightarrow> TestCasePolicyViolation" where
  "judge_violation profile j refusal =
     (let policy = resolveJudgeRefusalPolicy profile j
      in \<lparr> pv_rule = ''policy:judge_refused'', pv_outcome = ''judge_refused'',
           pv_severity = judgeRefusalPolicyToSeverity policy,
           pv_reason = judge_str j @ '' judge refused under '' @ refusal_policy_str policy @ '': ''
             @ fr_code refusal @ '': '' @ fr_message refusal,
           pv_path = Some (''$.'' @ judge_str j @ ''Verdict.refusal'') \<rparr>)"

text \<open>The job-level and the case-level violations.\<close>

definition buildJudgeRefusalViolations ::
  "TestCasePolicyProfile \<Rightarrow> FaithfulnessVerdict option \<Rightarrow> A11yVerdict option \<Rightarrow>
     TestCasePolicyViolation list \<times> TestCasePolicyViolation list" where
  "buildJudgeRefusalViolations profile faithfulnessVerdict a11yVerdict =
     (let refusals = (case Option.bind faithfulnessVerdict fv_refusal of
                        None \<Rightarrow> [] | Some r \<Rightarrow> [(Faithfulness_judge, r)])
                     @ (case Option.bind a11yVerdict av_refusal of None \<Rightarrow> [] | Some r \<Rightarrow> [(A11y_judge, r)])
      in (map (\<lambda>(j, r). judge_violation profile j r) refusals,
          map (\<lambda>(j, r). judge_violation profile j r)
            (filter (\<lambda>(j, r). resolveJudgeRefusalPolicy profile j = Judge_needs_review) refusals)))"

definition EU_BANKING_DEFAULT_POLICY_PROFILE_ID :: string where
  "EU_BANKING_DEFAULT_POLICY_PROFILE_ID = ''eu-banking-default''"

definition formatModelBindingIdentity :: "ActiveModelBinding \<Rightarrow> string" where
  "formatModelBindingIdentity b =
     mb_providerId b @ ''/'' @ mb_modelId b @ (case mb_inferenceProfileId b of None \<Rightarrow> [] | Some i \<Rightarrow> ''@'' @ i)"

definition evaluateActiveModelBindings ::
  "TestCasePolicyProfile \<Rightarrow> ActiveModelBinding list option \<Rightarrow> TestCasePolicyViolation list" where
  "evaluateActiveModelBindings profile bindings =
     (if pp_id profile \<noteq> EU_BANKING_DEFAULT_POLICY_PROFILE_ID then []
      else case bindings of
        None \<Rightarrow> []
      | Some bs \<Rightarrow>
          let missing = filter (\<lambda>b. mb_ictRegisterRef b = None) bs
          in if missing = [] then []
             else [violation ''policy:ict-register-ref-required'' ''ict_register_ref_required'' Sev_error
                     (''refusal code ict_register_ref_required: active model binding(s) ''
                      @ js_join '', '' (map formatModelBindingIdentity missing)
                      @ '' missing ictRegisterRef under profile '' @ quoted (pp_id profile))])"

definition summarizeUntrustedContentNeedsReview ::
  "string comparator \<Rightarrow> UntrustedContentNormalizationReport \<Rightarrow> string" where
  "summarizeUntrustedContentNeedsReview lc report =
     ''untrusted-content normalization flagged critical carriers before prompt compilation: ''
     @ js_join '', '' (sort_by lc (\<lambda>x. x)
         (map (\<lambda>(carrier, count). carrier @ ''('' @ js_string_of_nat count @ '')'') (uc_needsReviewReasons report)))"

definition untrusted_violation ::
  "string comparator \<Rightarrow> UntrustedContentNormalizationReport option \<Rightarrow> TestCasePolicyViolation list" where
  "untrusted_violation lc report =
     (case report of
        None \<Rightarrow> []
      | Some r \<Rightarrow>
          if uc_outcome r = ''needs_review''
          then [violation ''policy:untrusted-content-normalization'' ''ambiguity_review_required'' Sev_warning
                  (summarizeUntrustedContentNeedsReview lc r)]
          else [])"

end
