(* ===== verification/PolicyGate.thy ===== *)
theory PolicyGate
  imports PolicyInputs
begin

text \<open>
  The policy gate (\<^verbatim>\<open>evaluatePolicyGate\<close> of \<^verbatim>\<open>packages/production-runner/src/policy-gate.ts\<close>): the
  violations and the decision of each generated case, the violations of the job, the operator's
  severity overrides, and the report.
\<close>

section \<open>Validation issues\<close>

definition VALIDATION_ISSUE_TO_OUTCOME :: "string \<rightharpoonup> string" where
  "VALIDATION_ISSUE_TO_OUTCOME = map_of
     [(''schema_invalid'', ''schema_invalid''), (''missing_trace'', ''missing_trace''),
      (''trace_screen_unknown'', ''missing_trace''), (''missing_expected_results'', ''missing_expected_results''),
      (''test_data_pii_detected'', ''pii_in_test_data''), (''preconditions_pii_detected'', ''pii_in_test_data''),
      (''expected_results_pii_detected'', ''pii_in_test_data''), (''test_data_unredacted_value'', ''pii_in_test_data''),
      (''qc_mapping_blocking_reasons_missing'', ''qc_mapping_not_exportable''),
      (''qc_mapping_exportable_inconsistent'', ''qc_mapping_not_exportable''),
      (''duplicate_test_case_id'', ''duplicate_test_case''),
      (''ambiguity_without_review_state'', ''ambiguity_review_required''),
      (''open_questions_excessive'', ''open_questions_review_required''),
      (''assumptions_excessive'', ''open_questions_review_required''),
      (''semantic_suspicious_content'', ''semantic_suspicious_content''),
      (''unsupported_unresolved_validation_detail'', ''open_questions_review_required''),
      (''needs_open_question_clarification'', ''open_questions_review_required'')]"

text \<open>\<^verbatim>\<open>validationByCase.get(id) ?? []\<close>\<close>

definition indexValidationByTestCase :: "TestCaseValidationReport \<Rightarrow> string \<Rightarrow> TestCaseValidationIssue list" where
  "indexValidationByTestCase report testCaseId = filter (\<lambda>i. vi_testCaseId i = Some testCaseId) (tv_issues report)"

definition severity_of_str :: "string \<Rightarrow> Severity" where
  "severity_of_str s = (if s = ''error'' then Sev_error else if s = ''warning'' then Sev_warning else Sev_info)"

definition violationFromIssue :: "TestCaseValidationIssue \<Rightarrow> bool \<Rightarrow> TestCasePolicyViolation option" where
  "violationFromIssue issue overridden =
     (case VALIDATION_ISSUE_TO_OUTCOME (vi_code issue) of
        None \<Rightarrow> None
      | Some outcome \<Rightarrow>
          let baseRule = ''validation:'' @ vi_code issue
          in Some \<lparr> pv_rule = (if overridden then baseRule @ '':overridden'' else baseRule), pv_outcome = outcome,
                    pv_severity = (if overridden then Sev_warning else severity_of_str (vi_severity issue)),
                    pv_reason = (if overridden then vi_message issue @ '' (reviewer override active)'' else vi_message issue),
                    pv_path = Some (vi_path issue) \<rparr>)"

definition isSemanticOverrideActive ::
  "TestCaseValidationIssue \<Rightarrow> SemanticContentOverrideMap option \<Rightarrow> bool" where
  "isSemanticOverrideActive issue overrides \<longleftrightarrow>
     (case overrides of
        None \<Rightarrow> False
      | Some os \<Rightarrow>
          vi_code issue = ''semantic_suspicious_content''
          \<and> (case vi_testCaseId issue of
               None \<Rightarrow> False
             | Some i \<Rightarrow> (case os i of None \<Rightarrow> False | Some paths \<Rightarrow> paths (vi_path issue) \<noteq> None)))"

definition invalidSemanticOverrideReason ::
  "TestCaseValidationIssue \<Rightarrow> (string \<rightharpoonup> (string \<rightharpoonup> string)) option \<Rightarrow> string option" where
  "invalidSemanticOverrideReason issue invalidOverrides =
     (if vi_code issue \<noteq> ''semantic_suspicious_content'' then None
      else case vi_testCaseId issue of
        None \<Rightarrow> None
      | Some i \<Rightarrow> (case invalidOverrides of
                     None \<Rightarrow> None
                   | Some m \<Rightarrow> Option.bind (m i) (\<lambda>ps. ps (vi_path issue))))"

section \<open>One case\<close>

text \<open>The running decision and the violations collected so far.\<close>

type_synonym case_acc = "TestCasePolicyDecision \<times> TestCasePolicyViolation list"

definition push :: "TestCasePolicyDecision \<Rightarrow> TestCasePolicyViolation \<Rightarrow> case_acc \<Rightarrow> case_acc" where
  "push candidate v acc = (escalate (fst acc) candidate, snd acc @ [v])"

definition push_severity :: "TestCasePolicyViolation \<Rightarrow> case_acc \<Rightarrow> case_acc" where
  "push_severity v acc = push (severityToDecision (pv_severity v)) v acc"

definition override_invalid_violation :: "TestCaseValidationIssue \<Rightarrow> string \<Rightarrow> TestCasePolicyViolation" where
  "override_invalid_violation issue reason =
     \<lparr> pv_rule = ''policy:override_invalid'', pv_outcome = ''semantic_suspicious_content'', pv_severity = Sev_error,
       pv_reason = ''semantic content override rejected: '' @ reason, pv_path = Some (vi_path issue) \<rparr>"

definition case_issue ::
  "SemanticContentOverrideMap option \<Rightarrow> (string \<rightharpoonup> (string \<rightharpoonup> string)) option \<Rightarrow>
   TestCaseValidationIssue \<Rightarrow> case_acc \<Rightarrow> case_acc" where
  "case_issue overrides invalidOverrides issue acc =
     (let acc1 = (case invalidSemanticOverrideReason issue invalidOverrides of
                    None \<Rightarrow> acc
                  | Some reason \<Rightarrow> push ''blocked'' (override_invalid_violation issue reason) acc)
      in case violationFromIssue issue (isSemanticOverrideActive issue overrides) of
           None \<Rightarrow> acc1
         | Some v \<Rightarrow> push_severity v acc1)"

definition case_evidence ::
  "string comparator \<Rightarrow> VisualSidecarRefusal option \<Rightarrow> bool \<Rightarrow> UntrustedContentNormalizationReport option \<Rightarrow>
   TestCasePolicyViolation list \<Rightarrow> case_acc \<Rightarrow> case_acc" where
  "case_evidence lc visualSidecarRefusal visualVerificationRequired untrustedContentReport judgeRefusalViolations acc =
     (let acc1 = (case visualSidecarRefusal of
                    None \<Rightarrow> acc
                  | Some r \<Rightarrow> if visualVerificationRequired
                      then push_severity (resolveVisualSidecarRefusalViolation r) acc else acc);
          acc2 = fold (push ''needs_review'') (untrusted_violation lc untrustedContentReport) acc1
      in fold push_severity judgeRefusalViolations acc2)"

definition partial_majority_violation :: TestCasePolicyViolation where
  "partial_majority_violation =
     violation ''policy:cross-modal-faithfulness-partial-majority'' ''cross_modal_faithfulness_partial_majority'' Sev_warning
       (''evidence_partial is the majority verdict on this case (>= '' @ js_string_of_nat 60
        @ '' % of step verdicts); case still ships, reviewers should confirm the partial-evidence steps'')"

definition case_faithfulness ::
  "TestCasePolicyViolation option \<Rightarrow> string list \<Rightarrow> GeneratedTestCase \<Rightarrow> case_acc \<Rightarrow> case_acc" where
  "case_faithfulness faithfulnessViolation partialMajorityCaseIds testCase acc =
     (let acc1 = (case faithfulnessViolation of None \<Rightarrow> acc | Some v \<Rightarrow> push_severity v acc)
      in if tc_id testCase \<in> set partialMajorityCaseIds then push_severity partial_majority_violation acc1 else acc1)"

abbreviation enforces_downgrade :: "TestCasePolicyProfile \<Rightarrow> bool" where
  "enforces_downgrade profile \<equiv>
     (case enforceRiskTagDowngradeDetection profile of None \<Rightarrow> True | Some b \<Rightarrow> b)"

definition case_risk ::
  "GeneratedTestCase \<Rightarrow> BusinessTestIntentIr \<Rightarrow> TestCasePolicyProfile \<Rightarrow> CustomContextPolicySignal list \<Rightarrow>
   ComplianceRiskOverride list option \<Rightarrow> case_acc \<Rightarrow> case_acc" where
  "case_risk testCase intent profile signals complianceOverrides acc =
     (let reviewOnly = reviewOnlyRiskCategories profile;
          intentReviewRisk = findIntentReviewRisk intent reviewOnly complianceOverrides;
          customContextReviewRisk = findCustomContextReviewRisk signals reviewOnly;
          caseCarriesReviewRisk = (tc_riskCategory testCase \<in> set reviewOnly);
          caseConflictIds = collectMultiSourceConflictIds intent testCase;
          acc1 = (if enforces_downgrade profile \<and> \<not> caseCarriesReviewRisk
            then case deriveScreenIntentRisk intent testCase reviewOnly complianceOverrides of
                   None \<Rightarrow> acc
                 | Some screenIntentRisk \<Rightarrow>
                     push ''needs_review'' (violation ''policy:risk-tag-downgrade-detected'' ''risk_tag_downgrade_detected''
                       Sev_warning (''case-level riskCategory '' @ quoted (tc_riskCategory testCase)
                         @ '' is below intent-derived classification '' @ quoted screenIntentRisk @ '' for screen(s) ''
                         @ formatScreenList (collectCaseScreenIds testCase) @ ''; treating as needs_review'')) acc
            else acc);
          acc2 = (if caseConflictIds \<noteq> []
            then push ''needs_review'' (violation ''policy:multi-source-conflict-present'' ''multi_source_conflict_present''
                   Sev_warning (''multi-source conflict(s) '' @ js_join '', '' caseConflictIds @ '' affect this case'')) acc1
            else acc1);
          riskCategory = (if caseCarriesReviewRisk then Some (tc_riskCategory testCase)
            else case customContextReviewRisk of Some r \<Rightarrow> Some r | None \<Rightarrow> intentReviewRisk);
          acc3 = (case riskCategory of
            None \<Rightarrow> acc2
          | Some r \<Rightarrow> push ''needs_review'' (violation ''policy:regulated-risk-requires-review''
              ''regulated_risk_review_required'' Sev_warning (''risk category '' @ quoted r
                @ '' requires manual review under profile '' @ quoted (pp_id profile))) acc2)
      in fold (\<lambda>signal. push ''needs_review'' (violation ''policy:custom-context-risk-escalation''
             ''custom_context_risk_escalation'' Sev_warning (cx_reason signal)))
           (filter (\<lambda>s. cx_riskCategory s \<in> set reviewOnly) signals) acc3)"

definition case_quality ::
  "text_host \<Rightarrow> GeneratedTestCase \<Rightarrow> TestCasePolicyProfile \<Rightarrow> case_acc \<Rightarrow> case_acc" where
  "case_quality th testCase profile acc =
     (let q = tc_qualitySignals testCase;
          acc1 = (case qs_ambiguity q of
            None \<Rightarrow> acc
          | Some reason \<Rightarrow> push ''needs_review'' (violation ''policy:ambiguity-requires-review''
              ''ambiguity_review_required'' Sev_warning (''case carries ambiguity note: '' @ reason)) acc);
          acc2 = (if qs_confidence q < minConfidence profile \<and> qs_confidence q \<ge> 0
            then push ''needs_review'' (violation ''policy:low-confidence-requires-review''
                   ''low_confidence_review_required'' Sev_warning (''confidence '' @ numberString th (qs_confidence q)
                     @ '' is below profile minimum '' @ numberString th (minConfidence profile))) acc1
            else acc1);
          acc3 = (if \<not> tc_exportable testCase
            then push ''blocked'' (violation ''policy:qc-mapping-must-be-exportable'' ''qc_mapping_not_exportable''
                   Sev_error ''qcMappingPreview.exportable=false; case cannot reach export'') acc2
            else acc2);
          acc4 = (if of_nat (length (tc_openQuestions testCase)) > maxOpenQuestionsPerCase profile
            then push ''needs_review'' (violation ''policy:open-questions-soft-cap'' ''open_questions_review_required''
                   Sev_warning (''openQuestions length '' @ js_string_of_nat (length (tc_openQuestions testCase))
                     @ '' exceeds profile cap '' @ numberString th (maxOpenQuestionsPerCase profile))) acc3
            else acc3)
      in if of_nat (length (tc_assumptions testCase)) > maxAssumptionsPerCase profile
         then push ''needs_review'' (violation ''policy:assumptions-soft-cap'' ''open_questions_review_required''
                Sev_warning (''assumptions length '' @ js_string_of_nat (length (tc_assumptions testCase))
                  @ '' exceeds profile cap '' @ numberString th (maxAssumptionsPerCase profile))) acc4
         else acc4)"

definition evaluateCase ::
  "string comparator \<Rightarrow> text_host \<Rightarrow> GeneratedTestCase \<Rightarrow> BusinessTestIntentIr \<Rightarrow> TestCasePolicyProfile \<Rightarrow>
   TestCaseValidationIssue list \<Rightarrow> SemanticContentOverrideMap option \<Rightarrow> (string \<rightharpoonup> (string \<rightharpoonup> string)) option \<Rightarrow>
   CustomContextPolicySignal list \<Rightarrow> VisualSidecarRefusal option \<Rightarrow> bool \<Rightarrow>
   UntrustedContentNormalizationReport option \<Rightarrow> TestCasePolicyViolation list \<Rightarrow> TestCasePolicyViolation option \<Rightarrow>
   string list \<Rightarrow> ComplianceRiskOverride list option \<Rightarrow> TestCasePolicyDecisionRecord" where
  "evaluateCase lc th testCase intent profile caseIssues overrides invalidOverrides signals visualSidecarRefusal
     visualVerificationRequired untrustedContentReport judgeRefusalViolations faithfulnessViolation
     partialMajorityCaseIds complianceOverrides =
     (let acc = case_quality th testCase profile
                  (case_risk testCase intent profile signals complianceOverrides
                    (case_faithfulness faithfulnessViolation partialMajorityCaseIds testCase
                      (fold (case_issue overrides invalidOverrides) caseIssues
                        (case_evidence lc visualSidecarRefusal visualVerificationRequired untrustedContentReport
                          judgeRefusalViolations (''approved'', [])))))
      in \<lparr> pd_testCaseId = tc_id testCase, pd_decision = fst acc, pd_violations = snd acc \<rparr>)"

section \<open>The job\<close>

text \<open>The severity and outcome of a visual-sidecar outcome; \<^const>\<open>None\<close> for \<^verbatim>\<open>ok\<close>.\<close>

definition mapVisualOutcome :: "string \<rightharpoonup> (string \<times> Severity)" where
  "mapVisualOutcome = map_of
     [(''schema_invalid'', ''visual_sidecar_failure'', Sev_error),
      (''conflicts_with_figma_metadata'', ''visual_sidecar_failure'', Sev_error),
      (''fallback_used'', ''visual_sidecar_fallback_used_succeeded'', Sev_info),
      (''primary_unavailable'', ''visual_sidecar_fallback_used_succeeded'', Sev_info),
      (''low_confidence'', ''visual_sidecar_low_confidence'', Sev_warning),
      (''possible_pii'', ''visual_sidecar_possible_pii'', Sev_error),
      (''prompt_injection_like_text'', ''visual_sidecar_prompt_injection_text'', Sev_error)]"

definition job_coverage ::
  "string comparator \<Rightarrow> GeneratedTestCase list \<Rightarrow> TestCaseCoverageReport \<Rightarrow> TestCasePolicyProfile \<Rightarrow>
   CoveragePlan option \<Rightarrow> TestCasePolicyViolation list" where
  "job_coverage lc cases coverage profile coveragePlan =
     map (\<lambda>d. violation ''policy:technique-coverage-minimum'' ''technique_quota_breach'' Sev_error
            (''screen '' @ quoted (td_screenId d) @ '' requires at least '' @ js_string_of_int (td_minCount d) @ '' ''
             @ quoted (td_technique d) @ '' case(s) but only '' @ js_string_of_nat (td_actual d)
             @ '' are anchored to that screen''))
       (collectTechniqueQuotaDeficits lc cases coveragePlan (techniqueCoverageMinimum profile))
     @ map (\<lambda>u. violation ''policy:p0-risk-element-uncovered'' ''p0_risk_element_uncovered'' Sev_error
            (''p0 risk-class element '' @ quoted (ue_elementId u) @ '' (riskClass '' @ quoted (ue_riskClass u)
             @ '') on screen '' @ quoted (ue_screenId u)
             @ '' has no covering test case in qualitySignals.coveredFieldIds or coveredActionIds''))
       (collectUncoveredP0Elements lc cases coveragePlan)
     @ (case cr_acceptanceUncoveredIds coverage of
          None \<Rightarrow> []
        | Some ids \<Rightarrow>
            if ids = [] then []
            else [violation ''policy:acceptance-criteria-coverage'' ''acceptance_criterion_uncovered'' Sev_error
                    (js_string_of_nat (length ids) @ '' acceptance criterion/criteria have no covering test case: ''
                     @ js_join '', '' ids)])"

definition rule_covered :: "GeneratedTestCase list \<Rightarrow> DetectedValidation \<Rightarrow> string \<Rightarrow> bool" where
  "rule_covered cases rule targetFieldId =
     list_ex (\<lambda>tc. (tc_type tc = ''negative'' \<or> tc_type tc = ''validation'')
        \<and> (dv_id rule \<in> set (qs_coveredValidationIds (tc_qualitySignals tc))
            \<or> targetFieldId \<in> set (qs_coveredFieldIds (tc_qualitySignals tc)))) cases"

definition job_validation_rules ::
  "GeneratedTestCase list \<Rightarrow> BusinessTestIntentIr \<Rightarrow> TestCasePolicyViolation list" where
  "job_validation_rules cases intent =
     concat (map (\<lambda>rule. case dv_targetFieldId rule of
         None \<Rightarrow> []
       | Some f \<Rightarrow>
           if rule_covered cases rule f then []
           else [violation ''policy:required-field-needs-negative-or-validation''
                   ''missing_negative_or_validation_for_required_field'' Sev_error
                   (''validation rule '' @ quoted (dv_id rule) @ '' (field '' @ f
                    @ '') has no covering negative/validation test case'')])
       (bi_detectedValidations intent))"

definition fieldIdsWithRequiredRules :: "BusinessTestIntentIr \<Rightarrow> string list" where
  "fieldIdsWithRequiredRules intent =
     js_set (List.map_filter (\<lambda>v. if js_includes ''required'' (js_lower (dv_rule v)) then dv_targetFieldId v else None)
       (bi_detectedValidations intent))"

definition job_boundaries :: "GeneratedTestCase list \<Rightarrow> BusinessTestIntentIr \<Rightarrow> TestCasePolicyViolation list" where
  "job_boundaries cases intent =
     map (\<lambda>f. violation ''policy:required-field-needs-boundary-case'' ''missing_boundary_case'' Sev_warning
            (''required field '' @ quoted f @ '' has no covering boundary test case''))
       (filter (\<lambda>f. \<not> list_ex (\<lambda>tc. tc_type tc = ''boundary''
                       \<and> f \<in> set (qs_coveredFieldIds (tc_qualitySignals tc))) cases)
          (fieldIdsWithRequiredRules intent))"

definition job_accessibility ::
  "text_host \<Rightarrow> GeneratedTestCase list \<Rightarrow> string list \<Rightarrow> TestCasePolicyViolation list" where
  "job_accessibility th cases formScreenIds =
     concat (map (\<lambda>screenId.
       let coveredCriteria = collectCoveredFormScreenA11yCriteria th cases screenId;
           missingCriteria = filter (\<lambda>c. c \<notin> set coveredCriteria) FORM_SCREEN_A11Y_REQUIRED_CRITERIA
       in if coveredCriteria = []
          then [violation ''policy:form-screen-needs-accessibility-case'' ''missing_accessibility_case'' Sev_error
                  (''screen '' @ quoted screenId @ '' carries form fields but has no covering accessibility test case'')]
          else if missingCriteria \<noteq> []
          then [violation ''policy:form-screen-needs-accessibility-case'' ''missing_accessibility_case'' Sev_error
                  (''screen '' @ quoted screenId @ '' carries form fields but is missing accessibility coverage for ''
                   @ js_join '', '' missingCriteria)]
          else []) formScreenIds)"

text \<open>The loop over the cases; \<open>seen\<close> holds the keys reported so far.\<close>

fun job_downgrades ::
  "BusinessTestIntentIr \<Rightarrow> TestCasePolicyProfile \<Rightarrow> ComplianceRiskOverride list option \<Rightarrow>
   (string \<times> string \<times> string) list \<Rightarrow> GeneratedTestCase list \<Rightarrow> TestCasePolicyViolation list" where
  "job_downgrades intent profile complianceOverrides seen [] = []"
| "job_downgrades intent profile complianceOverrides seen (tc # tcs) =
     (case deriveScreenIntentRisk intent tc (reviewOnlyRiskCategories profile) complianceOverrides of
        None \<Rightarrow> job_downgrades intent profile complianceOverrides seen tcs
      | Some intentRisk \<Rightarrow>
          if tc_riskCategory tc \<in> set (reviewOnlyRiskCategories profile)
             \<or> (tc_id tc, intentRisk, tc_riskCategory tc) \<in> set seen
          then job_downgrades intent profile complianceOverrides seen tcs
          else violation ''policy:risk-tag-downgrade-detected'' ''risk_tag_downgrade_detected'' Sev_warning
                 (''case '' @ quoted (tc_id tc) @ '' declared riskCategory '' @ quoted (tc_riskCategory tc)
                  @ '' but intent IR derives '' @ quoted intentRisk @ '' for screen(s) ''
                  @ formatScreenList (collectCaseScreenIds tc))
               # job_downgrades intent profile complianceOverrides
                   (set_add (tc_id tc, intentRisk, tc_riskCategory tc) seen) tcs)"

definition job_visual :: "VisualSidecarValidationReport option \<Rightarrow> TestCasePolicyViolation list" where
  "job_visual visual =
     (case visual of
        None \<Rightarrow> []
      | Some report \<Rightarrow>
          concat (map (\<lambda>record. concat (map (\<lambda>outcome.
              case mapVisualOutcome outcome of
                None \<Rightarrow> []
              | Some (mapped, severity) \<Rightarrow>
                  [violation (''policy:visual-sidecar:'' @ outcome) mapped severity
                     (''screen '' @ quoted (vr_screenId record) @ '' ('' @ vr_deployment record @ ''): '' @ outcome)])
            (vr_outcomes record))) (vr_records report)))"

definition job_conflicts :: "BusinessTestIntentIr \<Rightarrow> TestCasePolicyViolation list" where
  "job_conflicts intent =
     (let globalConflictIds = sortedUnique (map mc_conflictId
            (case bi_multiSourceConflicts intent of None \<Rightarrow> [] | Some cs \<Rightarrow> cs))
      in if globalConflictIds = [] then []
         else [violation ''policy:multi-source-conflict-present'' ''multi_source_conflict_present'' Sev_warning
                 (''multi-source conflict artifact present: '' @ js_join '', '' globalConflictIds)])"

definition evaluateJobLevel ::
  "string comparator \<Rightarrow> text_host \<Rightarrow> GeneratedTestCase list \<Rightarrow> BusinessTestIntentIr \<Rightarrow> TestCaseCoverageReport \<Rightarrow>
   TestCasePolicyProfile \<Rightarrow> CoveragePlan option \<Rightarrow> VisualSidecarValidationReport option \<Rightarrow>
   CustomContextPolicySignal list \<Rightarrow> VisualSidecarRefusal option \<Rightarrow> UntrustedContentNormalizationReport option \<Rightarrow>
   ActiveModelBinding list option \<Rightarrow> CoverageBaselineDriftEvaluation option \<Rightarrow> A11yVerdict option \<Rightarrow>
   ComplianceRiskOverride list option \<Rightarrow> TestCasePolicyViolation list" where
  "evaluateJobLevel lc th cases intent coverage profile coveragePlan visual signals visualSidecarRefusal
     untrustedContentReport activeModelBindings coverageBaselineDrift a11yVerdict complianceOverrides =
     (let formScreenIds = collectFormScreenIds intent
      in evaluateActiveModelBindings profile activeModelBindings
         @ (case Option.bind coverageBaselineDrift (buildCoverageDriftPolicyViolation lc) of None \<Rightarrow> [] | Some v \<Rightarrow> [v])
         @ job_coverage lc cases coverage profile coveragePlan
         @ (case visualSidecarRefusal of None \<Rightarrow> [] | Some r \<Rightarrow> [resolveVisualSidecarRefusalViolation r])
         @ (if requireNegativeOrValidationForValidationRules profile then job_validation_rules cases intent else [])
         @ (if requireBoundaryCaseForRequiredFields profile then job_boundaries cases intent else [])
         @ (if requireAccessibilityCaseWhenFormPresent profile then job_accessibility th cases formScreenIds else [])
         @ (if requireAccessibilityCaseWhenFormPresent profile then evaluateA11yJudgeVerdict formScreenIds a11yVerdict else [])
         @ map (\<lambda>pair. violation ''policy:duplicate-test-case'' ''duplicate_test_case'' Sev_warning
                  (''test cases '' @ quoted (dp_leftTestCaseId pair) @ '' and '' @ quoted (dp_rightTestCaseId pair)
                   @ '' share similarity '' @ numberString th (dp_similarity pair) @ ''; review for de-duplication''))
             (cr_duplicatePairs coverage)
         @ job_conflicts intent
         @ (if enforces_downgrade profile then job_downgrades intent profile complianceOverrides [] cases else [])
         @ job_visual visual
         @ map (\<lambda>signal. violation ''policy:custom-context-risk-escalation'' ''custom_context_risk_escalation'' Sev_warning
                  (cx_reason signal @ '' (source '' @ cx_sourceId signal @ '', entry '' @ cx_entryId signal @ '', hash ''
                   @ cx_contentHash signal @ '')''))
             (filter (\<lambda>s. cx_riskCategory s \<in> set (reviewOnlyRiskCategories profile)) signals)
         @ untrusted_violation lc untrustedContentReport)"

section \<open>Faithfulness\<close>

definition CROSS_MODAL_FAITHFULNESS_RULE :: string where
  "CROSS_MODAL_FAITHFULNESS_RULE = ''policy:cross-modal-faithfulness-score''"

definition CROSS_MODAL_FAITHFULNESS_MISSING_RULE :: string where
  "CROSS_MODAL_FAITHFULNESS_MISSING_RULE = ''policy:cross-modal-faithfulness:evaluation-missing''"

definition DEFAULT_CROSS_MODAL_FAITHFULNESS_THRESHOLD :: rat where
  "DEFAULT_CROSS_MODAL_FAITHFULNESS_THRESHOLD = 4 / 5"

definition CROSS_MODAL_FAITHFULNESS_GRAY_ZONE :: rat where
  "CROSS_MODAL_FAITHFULNESS_GRAY_ZONE = 1 / 20"

record FaithfulnessGateResolution =
  gr_score :: rat
  gr_tierReport :: "FaithfulnessTierReport option"
  gr_evaluation :: FaithfulnessEvaluationSummary

abbreviation evaluation_summary :: "FaithfulnessEvaluationMode \<Rightarrow> bool \<Rightarrow> string \<Rightarrow> nat \<Rightarrow> FaithfulnessEvaluationSummary" where
  "evaluation_summary mode req reason n \<equiv>
     \<lparr> fe_mode = mode, fe_requirePerStepFaithfulness = req, fe_reason = reason, fe_stepVerdictCount = n \<rparr>"

definition resolveFaithfulnessGateScore ::
  "string comparator \<Rightarrow> FaithfulnessVerdict option \<Rightarrow> GeneratedTestCase list \<Rightarrow> rat \<Rightarrow> bool \<Rightarrow>
     tier_report_error + FaithfulnessGateResolution" where
  "resolveFaithfulnessGateScore lc verdict' cases threshold req =
     (case verdict' of
        None \<Rightarrow> Inr \<lparr> gr_score = 0, gr_tierReport = None, gr_evaluation =
          evaluation_summary Missing req ''no faithfulness verdict was supplied to the policy gate'' 0 \<rparr>
      | Some verdict \<Rightarrow>
          (case fv_refusal verdict of
             Some refusal \<Rightarrow> Inr \<lparr> gr_score = 0, gr_tierReport = None, gr_evaluation =
               evaluation_summary Missing req (''faithfulness judge refused (code='' @ fr_code refusal
                 @ ''); no per-step or case-level evidence available'') 0 \<rparr>
           | None \<Rightarrow>
               (case fv_stepVerdicts verdict of
                  Some (sv # svs) \<Rightarrow>
                    (case buildFaithfulnessTierReport lc (fv_generatedAt verdict) (fv_jobId verdict) verdict cases
                            (Some threshold) of
                       Inl err \<Rightarrow> Inl err
                     | Inr tierReport \<Rightarrow> Inr \<lparr> gr_score = ftr_aggregateScore tierReport, gr_tierReport = Some tierReport,
                         gr_evaluation = evaluation_summary Per_step req
                           (''gate reasoned over '' @ js_string_of_nat (length (sv # svs))
                            @ '' per-step verdict(s); aggregate score '' @ toFixed 6 (ftr_aggregateScore tierReport))
                           (length (sv # svs)) \<rparr>)
                | _ \<Rightarrow> Inr \<lparr> gr_score = fv_score verdict, gr_tierReport = None, gr_evaluation =
                    evaluation_summary Case_level_fallback req
                      (''verdict carried no stepVerdicts; gate fell back to verdict.score '' @ toFixed 6 (fv_score verdict)) 0 \<rparr>)))"

definition fallback_violation :: "bool \<Rightarrow> string \<Rightarrow> TestCasePolicyViolation" where
  "fallback_violation req reason =
     violation ''policy:cross-modal-faithfulness:case-level-fallback'' ''cross_modal_faithfulness_case_level_fallback''
       (if req then Sev_error else Sev_warning)
       (''cross-modal faithfulness fallback: '' @ reason
        @ (if req then ''; profile requires per-step faithfulness'' else ''; profile permits case-level fallback''))"

definition score_violation :: "rat \<Rightarrow> rat \<Rightarrow> TestCasePolicyViolation list" where
  "score_violation score threshold =
     (let grayZoneFloor = max 0 (threshold - CROSS_MODAL_FAITHFULNESS_GRAY_ZONE);
          severity = (if score \<ge> grayZoneFloor then Sev_warning else Sev_error);
          band = (if severity = Sev_warning
            then ''gray zone ['' @ toFixed 2 grayZoneFloor @ '', '' @ toFixed 2 threshold @ '')''
            else ''below gray-zone floor '' @ toFixed 2 grayZoneFloor)
      in if score < threshold
         then [violation CROSS_MODAL_FAITHFULNESS_RULE ''cross_modal_faithfulness_score_below_threshold'' severity
                 (''cross-modal faithfulness score '' @ toFixed 6 score @ '' is below threshold '' @ toFixed 2 threshold
                  @ '' ('' @ band @ '')'')]
         else [])"

text \<open>The violations, the tier report and the evaluation summary.\<close>

definition buildFaithfulnessScoreViolation ::
  "string comparator \<Rightarrow> FaithfulnessVerdict option \<Rightarrow> GeneratedTestCase list \<Rightarrow> rat \<Rightarrow> bool \<Rightarrow> bool \<Rightarrow>
     tier_report_error +
       (TestCasePolicyViolation list \<times> FaithfulnessTierReport option \<times> FaithfulnessEvaluationSummary)" where
  "buildFaithfulnessScoreViolation lc verdict cases threshold req enforceMissingVerdict =
     (case resolveFaithfulnessGateScore lc verdict cases threshold req of
        Inl err \<Rightarrow> Inl err
      | Inr resolution \<Rightarrow>
          let evaluation = gr_evaluation resolution
          in Inr (if fe_mode evaluation = Missing
                  then (if verdict = None \<and> enforceMissingVerdict
                        then [violation CROSS_MODAL_FAITHFULNESS_MISSING_RULE
                                ''cross_modal_faithfulness_evaluation_missing'' Sev_error (fe_reason evaluation)]
                        else [])
                  else (if fe_mode evaluation = Case_level_fallback then [fallback_violation req (fe_reason evaluation)] else [])
                       @ score_violation (gr_score resolution) threshold,
                  gr_tierReport resolution, evaluation))"

section \<open>Overrides and the report\<close>

fun override_severity :: "PolicyOverrideSeverity \<Rightarrow> Severity" where
  "override_severity To_error = Sev_error"
| "override_severity To_warning = Sev_warning"

definition buildPolicyOverrideMap :: "PolicyOverride list option \<Rightarrow> string \<rightharpoonup> Severity" where
  "buildPolicyOverrideMap policyOverrides =
     map_of (rev (map (\<lambda>ov. (po_ruleId ov, override_severity (po_severity ov))) (case policyOverrides of None \<Rightarrow> [] | Some os \<Rightarrow> os)))"

definition resolvePolicyThresholdOverride :: "PolicyOverride list option \<Rightarrow> string \<Rightarrow> rat option" where
  "resolvePolicyThresholdOverride policyOverrides ruleId =
     Option.bind (find (\<lambda>ov. po_ruleId ov = ruleId \<and> po_threshold ov \<noteq> None)
                    (case policyOverrides of None \<Rightarrow> [] | Some os \<Rightarrow> os)) po_threshold"

definition override_violation :: "(string \<rightharpoonup> Severity) \<Rightarrow> TestCasePolicyViolation \<Rightarrow> TestCasePolicyViolation" where
  "override_violation overrideMap v =
     (if pv_rule v = ''policy:judge_refused'' \<or> pv_rule v = CROSS_MODAL_FAITHFULNESS_MISSING_RULE then v
      else case overrideMap (pv_rule v) of
        None \<Rightarrow> v
      | Some severity \<Rightarrow> if severity = pv_severity v then v else v \<lparr> pv_severity := severity \<rparr>)"

definition applyPolicyOverrideViolations ::
  "TestCasePolicyViolation list \<Rightarrow> (string \<rightharpoonup> Severity) \<Rightarrow> TestCasePolicyViolation list" where
  "applyPolicyOverrideViolations violations overrideMap = map (override_violation overrideMap) violations"

definition decisionFromViolations :: "TestCasePolicyViolation list \<Rightarrow> TestCasePolicyDecision" where
  "decisionFromViolations violations =
     foldl (\<lambda>d v. escalate d (severityToDecision (pv_severity v))) ''approved'' violations"

text \<open>The tier report published beside the gate report; callers compute it from the same inputs.\<close>

definition resolveFaithfulnessTierReport ::
  "string comparator \<Rightarrow> FaithfulnessVerdict option \<Rightarrow> GeneratedTestCase list \<Rightarrow> PolicyOverride list option \<Rightarrow>
     tier_report_error + FaithfulnessTierReport option" where
  "resolveFaithfulnessTierReport lc verdict cases policyOverrides =
     (case verdict of
        None \<Rightarrow> Inr None
      | Some v \<Rightarrow>
          if fv_refusal v \<noteq> None \<or> fv_stepVerdicts v = None \<or> fv_stepVerdicts v = Some [] then Inr None
          else let threshold = (case resolvePolicyThresholdOverride policyOverrides CROSS_MODAL_FAITHFULNESS_RULE of
                     None \<Rightarrow> DEFAULT_CROSS_MODAL_FAITHFULNESS_THRESHOLD | Some t \<Rightarrow> t)
               in map_sum id Some (buildFaithfulnessTierReport lc (fv_generatedAt v) (fv_jobId v) v cases (Some threshold)))"

datatype gate_error = Override_error override_error | Tier_error tier_report_error

definition gate_case ::
  "string comparator \<Rightarrow> text_host \<Rightarrow> EvaluatePolicyGateInput \<Rightarrow>
   (SemanticContentOverrideMap \<times> (string \<rightharpoonup> (string \<rightharpoonup> string))) option \<Rightarrow>
   TestCasePolicyViolation list \<times> FaithfulnessTierReport option \<times> FaithfulnessEvaluationSummary \<Rightarrow>
   GeneratedTestCase \<Rightarrow> TestCasePolicyDecisionRecord" where
  "gate_case lc th input assessment faithfulness tc =
     evaluateCase lc th tc (gi_intent input) (gi_profile input) (indexValidationByTestCase (gi_validation input) (tc_id tc))
       (map_option fst assessment) (map_option snd assessment)
       (case gi_customContextPolicySignals input of None \<Rightarrow> [] | Some s \<Rightarrow> s)
       (gi_visualSidecarRefusal input) (gi_visualVerificationRequired input = Some True)
       (gi_untrustedContentReport input)
       (snd (buildJudgeRefusalViolations (gi_profile input) (gi_faithfulnessVerdict input) (gi_a11yVerdict input)))
       (find (\<lambda>v. pv_outcome v = ''cross_modal_faithfulness_score_below_threshold'') (fst faithfulness))
       (case fst (snd faithfulness) of None \<Rightarrow> [] | Some r \<Rightarrow> ftr_partialMajorityCaseIds r)
       (gi_complianceOverrides input)"

definition gate_job ::
  "string comparator \<Rightarrow> text_host \<Rightarrow> EvaluatePolicyGateInput \<Rightarrow> TestCasePolicyViolation list \<Rightarrow> TestCasePolicyViolation list" where
  "gate_job lc th input faithfulnessViolations =
     evaluateJobLevel lc th (gi_testCases input) (gi_intent input) (gi_coverage input) (gi_profile input)
       (gi_coveragePlan input) (gi_visual input) (case gi_customContextPolicySignals input of None \<Rightarrow> [] | Some s \<Rightarrow> s)
       (gi_visualSidecarRefusal input) (gi_untrustedContentReport input) (gi_activeModelBindings input)
       (gi_coverageBaselineDrift input) (gi_a11yVerdict input) (gi_complianceOverrides input)
     @ fst (buildJudgeRefusalViolations (gi_profile input) (gi_faithfulnessVerdict input) (gi_a11yVerdict input))
     @ faithfulnessViolations"

definition gate_report ::
  "EvaluatePolicyGateInput \<Rightarrow> TestCasePolicyDecisionRecord list \<Rightarrow> TestCasePolicyViolation list \<Rightarrow>
   FaithfulnessEvaluationSummary \<Rightarrow> TestCasePolicyReport" where
  "gate_report input decisions jobViolations evaluation =
     (let overrideMap = buildPolicyOverrideMap (gi_policyOverrides input);
          jobLevelViolations = applyPolicyOverrideViolations jobViolations overrideMap;
          overriddenDecisions = map (\<lambda>d.
            let violations = applyPolicyOverrideViolations (pd_violations d) overrideMap
            in d \<lparr> pd_decision := decisionFromViolations violations, pd_violations := violations \<rparr>) decisions;
          count = (\<lambda>P. length (filter P overriddenDecisions))
      in \<lparr> pr_generatedAt = gi_generatedAt input, pr_jobId = gi_jobId input,
           pr_policyProfileId = pp_id (gi_profile input), pr_policyProfileVersion = pp_version (gi_profile input),
           pr_totalTestCases = length (gi_testCases input),
           pr_approvedCount = count (\<lambda>d. pd_decision d = ''approved''),
           pr_blockedCount = count (\<lambda>d. pd_decision d = ''blocked''),
           pr_needsReviewCount = count (\<lambda>d. pd_decision d \<noteq> ''approved'' \<and> pd_decision d \<noteq> ''blocked''),
           pr_blocked = (list_ex (\<lambda>d. pd_decision d = ''blocked'') overriddenDecisions
                         \<or> list_ex (\<lambda>v. pv_severity v = Sev_error) jobLevelViolations),
           pr_decisions = overriddenDecisions, pr_jobLevelViolations = jobLevelViolations,
           pr_faithfulnessEvaluation = (if gi_faithfulnessVerdict input = None \<and> gi_visual input = None
             then None else Some evaluation) \<rparr>)"

definition evaluatePolicyGate ::
  "host \<Rightarrow> string comparator \<Rightarrow> text_host \<Rightarrow> EvaluatePolicyGateInput \<Rightarrow> gate_error + TestCasePolicyReport" where
  "evaluatePolicyGate h lc th input =
     (case (case gi_semanticContentOverrides input of
              None \<Rightarrow> Inr None
            | Some os \<Rightarrow> map_sum id Some (partitionSemanticContentOverridesForValidation h (gi_validation input) os
                            (gi_overrideAuthorityProvider input))) of
        Inl err \<Rightarrow> Inl (Override_error err)
      | Inr assessment \<Rightarrow>
          let threshold = (case resolvePolicyThresholdOverride (gi_policyOverrides input) CROSS_MODAL_FAITHFULNESS_RULE of
                None \<Rightarrow> DEFAULT_CROSS_MODAL_FAITHFULNESS_THRESHOLD | Some t \<Rightarrow> t)
          in case buildFaithfulnessScoreViolation lc (gi_faithfulnessVerdict input) (gi_testCases input) threshold
                    (requirePerStepFaithfulness (gi_profile input) = Some True) (gi_visual input \<noteq> None) of
               Inl err \<Rightarrow> Inl (Tier_error err)
             | Inr faithfulness \<Rightarrow>
                 Inr (gate_report input (map (gate_case lc th input assessment faithfulness) (gi_testCases input))
                        (gate_job lc th input (fst faithfulness)) (snd (snd faithfulness))))"

end
