(* ===== verification/PolicyGateProps.thy ===== *)
theory PolicyGateProps
  imports PolicyGate
begin

text \<open>
  What the policy gate decides. The running decision of a case is the strongest severity of the
  violations pushed so far, so a case is described by the list of its violations; from there the
  conditions under which a case is blocked or approved, the effect of the operator's overrides, and
  the agreement of the gate with the later pruning of resolved conflicts.
\<close>

section \<open>A case as a list of violations\<close>

definition pushed :: "TestCasePolicyViolation list \<Rightarrow> case_acc \<Rightarrow> case_acc" where
  "pushed vs acc = (foldl (\<lambda>d v. escalate d (severityToDecision (pv_severity v))) (fst acc) vs, snd acc @ vs)"

lemma pushed_Nil: "acc = pushed [] acc"
  by (simp add: pushed_def)

lemma pushed_pushed [simp]: "pushed ws (pushed vs acc) = pushed (vs @ ws) acc"
  by (simp add: pushed_def)

lemma push_pushed: "candidate = severityToDecision (pv_severity v) \<Longrightarrow> push candidate v acc = pushed [v] acc"
  by (simp add: push_def pushed_def)

lemma push_severity_pushed: "push_severity v acc = pushed [v] acc"
  by (simp add: push_severity_def push_pushed)

lemma fold_pushed:
  assumes "\<And>x acc. x \<in> set xs \<Longrightarrow> f x acc = pushed (g x) acc"
  shows "fold f xs acc = pushed (concat (map g xs)) acc"
  using assms by (induction xs arbitrary: acc) (simp_all flip: pushed_Nil)

lemma violation_sels [simp]:
  "pv_rule (violation r oc s re) = r" "pv_outcome (violation r oc s re) = oc"
  "pv_severity (violation r oc s re) = s" "pv_reason (violation r oc s re) = re"
  by (simp_all add: violation_def)

definition opt_list :: "'a option \<Rightarrow> 'a list" where
  "opt_list x = (case x of None \<Rightarrow> [] | Some y \<Rightarrow> [y])"

definition evidence_violations ::
  "string comparator \<Rightarrow> VisualSidecarRefusal option \<Rightarrow> bool \<Rightarrow> UntrustedContentNormalizationReport option \<Rightarrow>
   TestCasePolicyViolation list \<Rightarrow> TestCasePolicyViolation list" where
  "evidence_violations lc refusal required untrusted judges =
     (if required then map resolveVisualSidecarRefusalViolation (opt_list refusal) else [])
     @ untrusted_violation lc untrusted @ judges"

definition issue_violations ::
  "SemanticContentOverrideMap option \<Rightarrow> (string \<rightharpoonup> (string \<rightharpoonup> string)) option \<Rightarrow>
   TestCaseValidationIssue \<Rightarrow> TestCasePolicyViolation list" where
  "issue_violations overrides invalid issue =
     map (override_invalid_violation issue) (opt_list (invalidSemanticOverrideReason issue invalid))
     @ opt_list (violationFromIssue issue (isSemanticOverrideActive issue overrides))"

definition faithfulness_violations ::
  "TestCasePolicyViolation option \<Rightarrow> string list \<Rightarrow> GeneratedTestCase \<Rightarrow> TestCasePolicyViolation list" where
  "faithfulness_violations v ids tc =
     opt_list v @ (if tc_id tc \<in> set ids then [partial_majority_violation] else [])"

definition downgrade_violations ::
  "GeneratedTestCase \<Rightarrow> BusinessTestIntentIr \<Rightarrow> TestCasePolicyProfile \<Rightarrow> ComplianceRiskOverride list option \<Rightarrow>
   TestCasePolicyViolation list" where
  "downgrade_violations tc intent profile compliance =
     (if enforces_downgrade profile \<and> tc_riskCategory tc \<notin> set (reviewOnlyRiskCategories profile)
      then map (\<lambda>r. violation ''policy:risk-tag-downgrade-detected'' ''risk_tag_downgrade_detected''
             Sev_warning (''case-level riskCategory '' @ quoted (tc_riskCategory tc)
               @ '' is below intent-derived classification '' @ quoted r @ '' for screen(s) ''
               @ formatScreenList (collectCaseScreenIds tc) @ ''; treating as needs_review''))
           (opt_list (deriveScreenIntentRisk intent tc (reviewOnlyRiskCategories profile) compliance))
      else [])"

definition conflict_violations :: "string list \<Rightarrow> TestCasePolicyViolation list" where
  "conflict_violations ids =
     (if ids = [] then []
      else [violation ''policy:multi-source-conflict-present'' ''multi_source_conflict_present'' Sev_warning
              (rewrittenReason Case_violation ids)])"

definition case_risk_category ::
  "GeneratedTestCase \<Rightarrow> BusinessTestIntentIr \<Rightarrow> TestCasePolicyProfile \<Rightarrow> CustomContextPolicySignal list \<Rightarrow>
   ComplianceRiskOverride list option \<Rightarrow> string option" where
  "case_risk_category tc intent profile signals compliance =
     (if tc_riskCategory tc \<in> set (reviewOnlyRiskCategories profile) then Some (tc_riskCategory tc)
      else case findCustomContextReviewRisk signals (reviewOnlyRiskCategories profile) of
             Some r \<Rightarrow> Some r
           | None \<Rightarrow> findIntentReviewRisk intent (reviewOnlyRiskCategories profile) compliance)"

definition risk_violations ::
  "GeneratedTestCase \<Rightarrow> BusinessTestIntentIr \<Rightarrow> TestCasePolicyProfile \<Rightarrow> CustomContextPolicySignal list \<Rightarrow>
   ComplianceRiskOverride list option \<Rightarrow> TestCasePolicyViolation list" where
  "risk_violations tc intent profile signals compliance =
     map (\<lambda>r. violation ''policy:regulated-risk-requires-review'' ''regulated_risk_review_required'' Sev_warning
            (''risk category '' @ quoted r @ '' requires manual review under profile '' @ quoted (pp_id profile)))
       (opt_list (case_risk_category tc intent profile signals compliance))
     @ map (\<lambda>signal. violation ''policy:custom-context-risk-escalation'' ''custom_context_risk_escalation'' Sev_warning
            (cx_reason signal))
         (filter (\<lambda>s. cx_riskCategory s \<in> set (reviewOnlyRiskCategories profile)) signals)"

lemma case_evidence_pushed:
  "case_evidence lc refusal required untrusted judges acc = pushed (evidence_violations lc refusal required untrusted judges) acc"
proof -
  have "\<And>v. v \<in> set (untrusted_violation lc untrusted) \<Longrightarrow> pv_severity v = Sev_warning"
    by (auto simp: untrusted_violation_def split: option.split_asm if_split_asm)
  then have u: "fold (push ''needs_review'') (untrusted_violation lc untrusted) acc = pushed (untrusted_violation lc untrusted) acc" for acc
    using fold_pushed [of "untrusted_violation lc untrusted" "push ''needs_review''" "\<lambda>v. [v]"] by (simp add: push_pushed)
  have j: "fold push_severity judges acc = pushed judges acc" for acc
    using fold_pushed [of judges push_severity "\<lambda>v. [v]"] by (simp add: push_severity_pushed)
  show ?thesis
    unfolding case_evidence_def Let_def u j
    by (cases refusal) (simp_all add: evidence_violations_def opt_list_def push_severity_pushed flip: pushed_Nil)
qed

lemma case_issue_pushed: "case_issue overrides invalid issue acc = pushed (issue_violations overrides invalid issue) acc"
  by (cases "invalidSemanticOverrideReason issue invalid";
      cases "violationFromIssue issue (isSemanticOverrideActive issue overrides)")
     (simp_all add: case_issue_def Let_def issue_violations_def opt_list_def push_severity_pushed
        push_pushed override_invalid_violation_def flip: pushed_Nil)

lemma case_faithfulness_pushed: "case_faithfulness v ids tc acc = pushed (faithfulness_violations v ids tc) acc"
  by (cases v) (simp_all add: case_faithfulness_def Let_def faithfulness_violations_def opt_list_def
      push_severity_pushed flip: pushed_Nil)

definition quality_violations ::
  "text_host \<Rightarrow> GeneratedTestCase \<Rightarrow> TestCasePolicyProfile \<Rightarrow> TestCasePolicyViolation list" where
  "quality_violations th tc profile =
     (let q = tc_qualitySignals tc
      in map (\<lambda>reason. violation ''policy:ambiguity-requires-review'' ''ambiguity_review_required'' Sev_warning
              (''case carries ambiguity note: '' @ reason)) (opt_list (qs_ambiguity q))
         @ (if qs_confidence q < minConfidence profile \<and> qs_confidence q \<ge> 0
            then [violation ''policy:low-confidence-requires-review'' ''low_confidence_review_required'' Sev_warning
                    (''confidence '' @ numberString th (qs_confidence q)
                     @ '' is below profile minimum '' @ numberString th (minConfidence profile))]
            else [])
         @ (if tc_exportable tc then []
            else [violation ''policy:qc-mapping-must-be-exportable'' ''qc_mapping_not_exportable''
                    Sev_error ''qcMappingPreview.exportable=false; case cannot reach export''])
         @ (if of_nat (length (tc_openQuestions tc)) > maxOpenQuestionsPerCase profile
            then [violation ''policy:open-questions-soft-cap'' ''open_questions_review_required'' Sev_warning
                    (''openQuestions length '' @ js_string_of_nat (length (tc_openQuestions tc))
                     @ '' exceeds profile cap '' @ numberString th (maxOpenQuestionsPerCase profile))]
            else [])
         @ (if of_nat (length (tc_assumptions tc)) > maxAssumptionsPerCase profile
            then [violation ''policy:assumptions-soft-cap'' ''open_questions_review_required'' Sev_warning
                    (''assumptions length '' @ js_string_of_nat (length (tc_assumptions tc))
                     @ '' exceeds profile cap '' @ numberString th (maxAssumptionsPerCase profile))]
            else []))"

lemma push_if: "(if b then push c v acc else acc) = (if b then push c v acc else pushed [] acc)"
  by (simp flip: pushed_Nil)

lemma case_quality_pushed: "case_quality th tc profile acc = pushed (quality_violations th tc profile) acc"
proof -
  have amb: "(case a of None \<Rightarrow> acc | Some r \<Rightarrow> push ''needs_review'' (violation x y Sev_warning (g r)) acc)
      = pushed (map (\<lambda>r. violation x y Sev_warning (g r)) (opt_list a)) acc" for a x y g acc
    by (cases a) (simp_all add: opt_list_def push_pushed flip: pushed_Nil)
  have warn: "(if b then push ''needs_review'' (violation x y Sev_warning r) acc else acc)
      = pushed (if b then [violation x y Sev_warning r] else []) acc" for b x y r acc
    by (simp add: push_pushed flip: pushed_Nil)
  have err: "(if \<not> b then push ''blocked'' (violation x y Sev_error r) acc else acc)
      = pushed (if b then [] else [violation x y Sev_error r]) acc" for b x y r acc
    by (simp add: push_pushed flip: pushed_Nil)
  show ?thesis
    unfolding case_quality_def Let_def amb warn err pushed_pushed quality_violations_def by (simp only: append_assoc)
qed

lemma case_risk_pushed:
  "case_risk tc intent profile signals compliance acc =
     pushed (downgrade_violations tc intent profile compliance
       @ conflict_violations (collectMultiSourceConflictIds intent tc)
       @ risk_violations tc intent profile signals compliance) acc"
proof -
  have opt: "(case a of None \<Rightarrow> acc | Some r \<Rightarrow> push ''needs_review'' (violation x y Sev_warning (g r)) acc)
      = pushed (map (\<lambda>r. violation x y Sev_warning (g r)) (opt_list a)) acc" for a x y g acc
    by (cases a) (simp_all add: opt_list_def push_pushed flip: pushed_Nil)
  have sig: "fold (\<lambda>s. push ''needs_review'' (violation x y Sev_warning (g s))) ss acc
      = pushed (map (\<lambda>s. violation x y Sev_warning (g s)) ss) acc" for x y g acc and ss :: "CustomContextPolicySignal list"
    using fold_pushed [of ss "\<lambda>s. push ''needs_review'' (violation x y Sev_warning (g s))"
        "\<lambda>s. [violation x y Sev_warning (g s)]"] by (simp add: push_pushed)
  have down: "(if b then pushed vs acc else acc) = pushed (if b then vs else []) acc" for b vs acc
    by (simp flip: pushed_Nil)
  have conf: "(if ids \<noteq> [] then push ''needs_review'' (violation ''policy:multi-source-conflict-present''
         ''multi_source_conflict_present'' Sev_warning (''multi-source conflict(s) '' @ js_join '', '' ids @ '' affect this case'')) acc
       else acc) = pushed (conflict_violations ids) acc" for ids acc
    by (simp add: push_pushed conflict_violations_def rewrittenReason_def flip: pushed_Nil)
  show ?thesis
    unfolding case_risk_def Let_def opt sig down conf pushed_pushed downgrade_violations_def risk_violations_def
      case_risk_category_def by (simp only: append_assoc)
qed

definition case_violations where
  "case_violations lc th tc intent profile issues overrides invalid signals refusal required untrusted judges fviol ids compliance =
     (evidence_violations lc refusal required untrusted judges
      @ concat (map (issue_violations overrides invalid) issues)
      @ faithfulness_violations fviol ids tc
      @ downgrade_violations tc intent profile compliance)
     @ conflict_violations (collectMultiSourceConflictIds intent tc)
     @ risk_violations tc intent profile signals compliance
     @ quality_violations th tc profile"

lemma decisionFromViolations_eq: "decisionFromViolations vs = strongest (pv_severity ` set vs)"
  unfolding decisionFromViolations_def using decision_of_violations_eq [unfolded decision_of_violations_def] .

lemma evaluateCase_eq:
  "evaluateCase lc th tc intent profile issues overrides invalid signals refusal required untrusted judges fviol ids compliance
     = (let vs = case_violations lc th tc intent profile issues overrides invalid signals refusal required untrusted judges fviol ids compliance
        in \<lparr> pd_testCaseId = tc_id tc, pd_decision = decisionFromViolations vs, pd_violations = vs \<rparr>)"
proof -
  have iss: "fold (case_issue overrides invalid) issues acc = pushed (concat (map (issue_violations overrides invalid) issues)) acc" for acc
    by (rule fold_pushed) (rule case_issue_pushed)
  show ?thesis
    unfolding evaluateCase_def case_evidence_pushed iss case_faithfulness_pushed case_risk_pushed case_quality_pushed
      pushed_pushed Let_def case_violations_def
    by (simp add: pushed_def decisionFromViolations_def)
qed

section \<open>Severities\<close>

lemma opt_list_set [simp]: "x \<in> set (opt_list a) \<longleftrightarrow> a = Some x"
  by (cases a) (auto simp: opt_list_def)

lemma strongest_blocked: "strongest S = ''blocked'' \<longleftrightarrow> Sev_error \<in> S"
  by (simp add: strongest_def)

lemma strongest_approved: "strongest S = ''approved'' \<longleftrightarrow> S \<subseteq> {Sev_info}"
  by (auto simp: strongest_def) (metis Severity.exhaust)

lemma sidecar_severity [simp]:
  "pv_severity (resolveVisualSidecarRefusalViolation r) =
     (if sr_failureClass r = ''both_sidecars_failed'' then Sev_error else Sev_warning)"
  by (simp add: resolveVisualSidecarRefusalViolation_def Let_def)

lemma sev_map [simp]: "pv_severity ` set (map (\<lambda>r. violation x y s (g r)) rs) = {t. t = s \<and> rs \<noteq> []}"
  by (cases rs) (auto simp: image_image)

lemma opt_list_Nil [simp]: "opt_list a = [] \<longleftrightarrow> a = None"
  by (simp add: opt_list_def split: option.split)

lemma sev_issue_violation:
  "pv_severity ` set (opt_list (violationFromIssue issue b)) =
     {s. (\<exists>oc. VALIDATION_ISSUE_TO_OUTCOME (vi_code issue) = Some oc)
        \<and> s = (if b then Sev_warning else severity_of_str (vi_severity issue))}"
  by (cases "VALIDATION_ISSUE_TO_OUTCOME (vi_code issue)") (auto simp: violationFromIssue_def opt_list_def Let_def)

lemma sev_evidence [severity_facts]:
  "pv_severity ` set (evidence_violations lc refusal required untrusted judges) =
     {s. required \<and> (\<exists>r. refusal = Some r \<and> s = (if sr_failureClass r = ''both_sidecars_failed'' then Sev_error else Sev_warning))}
     \<union> {s. s = Sev_warning \<and> (\<exists>r. untrusted = Some r \<and> uc_outcome r = ''needs_review'')}
     \<union> pv_severity ` set judges"
  by (cases refusal; cases untrusted) (auto simp: evidence_violations_def untrusted_violation_def opt_list_def)

lemma sev_issue [severity_facts]:
  "pv_severity ` set (issue_violations overrides invalid issue) =
     {s. s = Sev_error \<and> (\<exists>reason. invalidSemanticOverrideReason issue invalid = Some reason)}
     \<union> {s. (\<exists>oc. VALIDATION_ISSUE_TO_OUTCOME (vi_code issue) = Some oc)
          \<and> s = (if isSemanticOverrideActive issue overrides then Sev_warning else severity_of_str (vi_severity issue))}"
proof -
  have "pv_severity ` set (map (override_invalid_violation issue) (opt_list (invalidSemanticOverrideReason issue invalid))) =
      {s. s = Sev_error \<and> (\<exists>reason. invalidSemanticOverrideReason issue invalid = Some reason)}"
    by (cases "invalidSemanticOverrideReason issue invalid") (auto simp: opt_list_def override_invalid_violation_def)
  then show ?thesis unfolding issue_violations_def set_append image_Un sev_issue_violation by (rule arg_cong)
qed

lemma sev_faithfulness [severity_facts]:
  "pv_severity ` set (faithfulness_violations fviol ids tc) =
     {s. \<exists>v. fviol = Some v \<and> s = pv_severity v} \<union> {s. s = Sev_warning \<and> tc_id tc \<in> set ids}"
  by (cases fviol) (auto simp: faithfulness_violations_def opt_list_def partial_majority_violation_def)

lemma sev_downgrade [severity_facts]:
  "pv_severity ` set (downgrade_violations tc intent profile compliance) =
     {s. s = Sev_warning \<and> enforces_downgrade profile \<and> tc_riskCategory tc \<notin> set (reviewOnlyRiskCategories profile)
        \<and> deriveScreenIntentRisk intent tc (reviewOnlyRiskCategories profile) compliance \<noteq> None}"
  unfolding downgrade_violations_def if_distrib [of set] if_distrib [of "image pv_severity"] sev_map by auto

lemma sev_conflicts [severity_facts]: "pv_severity ` set (conflict_violations ids) = {s. s = Sev_warning \<and> ids \<noteq> []}"
  by (auto simp: conflict_violations_def)

lemma sev_risk [severity_facts]:
  "pv_severity ` set (risk_violations tc intent profile signals compliance) =
     {s. s = Sev_warning \<and> case_risk_category tc intent profile signals compliance \<noteq> None}"
proof -
  have "case_risk_category tc intent profile signals compliance \<noteq> None"
    if "s \<in> set signals" "cx_riskCategory s \<in> set (reviewOnlyRiskCategories profile)" for s
  proof -
    have "findCustomContextReviewRisk signals (reviewOnlyRiskCategories profile) \<noteq> None"
      using that by (auto simp: findCustomContextReviewRisk_def find_None_iff)
    then show ?thesis by (auto simp: case_risk_category_def)
  qed
  then have "{t. t = Sev_warning \<and> filter (\<lambda>s. cx_riskCategory s \<in> set (reviewOnlyRiskCategories profile)) signals \<noteq> []}
      \<subseteq> {t. t = Sev_warning \<and> case_risk_category tc intent profile signals compliance \<noteq> None}"
    by (auto simp: filter_empty_conv)
  then show ?thesis unfolding risk_violations_def set_append image_Un sev_map by auto
qed

lemma sev_quality [severity_facts]:
  "pv_severity ` set (quality_violations th tc profile) =
     {s. s = Sev_warning \<and> (qs_ambiguity (tc_qualitySignals tc) \<noteq> None
         \<or> qs_confidence (tc_qualitySignals tc) < minConfidence profile \<and> qs_confidence (tc_qualitySignals tc) \<ge> 0
         \<or> of_nat (length (tc_openQuestions tc)) > maxOpenQuestionsPerCase profile
         \<or> of_nat (length (tc_assumptions tc)) > maxAssumptionsPerCase profile)}
     \<union> {s. s = Sev_error \<and> \<not> tc_exportable tc}"
  by (cases "qs_ambiguity (tc_qualitySignals tc)")
     (auto simp: quality_violations_def Let_def opt_list_def image_Un)

lemma sev_issues [severity_facts]:
  "pv_severity ` set (concat (map (issue_violations overrides invalid) issues)) =
     (\<Union>i\<in>set issues. pv_severity ` set (issue_violations overrides invalid i))"
  by auto

lemma case_risk_category_None:
  "case_risk_category tc intent profile signals compliance = None \<longleftrightarrow>
     tc_riskCategory tc \<notin> set (reviewOnlyRiskCategories profile)
     \<and> findCustomContextReviewRisk signals (reviewOnlyRiskCategories profile) = None
     \<and> findIntentReviewRisk intent (reviewOnlyRiskCategories profile) compliance = None"
  by (simp add: case_risk_category_def split: option.split)

text \<open>The conditions, in the vocabulary of the inputs.\<close>

definition blocking_issue ::
  "SemanticContentOverrideMap option \<Rightarrow> (string \<rightharpoonup> (string \<rightharpoonup> string)) option \<Rightarrow> TestCaseValidationIssue \<Rightarrow> bool" where
  "blocking_issue overrides invalid issue \<longleftrightarrow>
     (\<exists>reason. invalidSemanticOverrideReason issue invalid = Some reason)
     \<or> ((\<exists>oc. VALIDATION_ISSUE_TO_OUTCOME (vi_code issue) = Some oc)
         \<and> \<not> isSemanticOverrideActive issue overrides \<and> vi_severity issue = ''error'')"

definition silent_issue ::
  "SemanticContentOverrideMap option \<Rightarrow> (string \<rightharpoonup> (string \<rightharpoonup> string)) option \<Rightarrow> TestCaseValidationIssue \<Rightarrow> bool" where
  "silent_issue overrides invalid issue \<longleftrightarrow>
     invalidSemanticOverrideReason issue invalid = None
     \<and> (VALIDATION_ISSUE_TO_OUTCOME (vi_code issue) = None
         \<or> (\<not> isSemanticOverrideActive issue overrides \<and> vi_severity issue \<notin> {''error'', ''warning''}))"

lemma blocking_issue_sev: "blocking_issue overrides invalid issue \<longleftrightarrow> Sev_error \<in> pv_severity ` set (issue_violations overrides invalid issue)"
  unfolding sev_issue blocking_issue_def by (auto simp: severity_of_str_def split: if_split_asm)

lemma silent_issue_sev: "silent_issue overrides invalid issue \<longleftrightarrow> pv_severity ` set (issue_violations overrides invalid issue) \<subseteq> {Sev_info}"
  unfolding sev_issue silent_issue_def by (auto simp: severity_of_str_def split: if_split_asm)

lemma case_blocked_iff:
  "Sev_error \<in> pv_severity ` set (case_violations lc th tc intent profile issues overrides invalid signals refusal
       required untrusted judges fviol ids compliance) \<longleftrightarrow>
     (required \<and> (\<exists>r. refusal = Some r \<and> sr_failureClass r = ''both_sidecars_failed''))
     \<or> (\<exists>v\<in>set judges. pv_severity v = Sev_error)
     \<or> (\<exists>i\<in>set issues. blocking_issue overrides invalid i)
     \<or> (\<exists>v. fviol = Some v \<and> pv_severity v = Sev_error)
     \<or> tc_exportable tc = False"
proof -
  have "Sev_error \<in> pv_severity ` set (evidence_violations lc refusal required untrusted judges) \<longleftrightarrow>
      (required \<and> (\<exists>r. refusal = Some r \<and> sr_failureClass r = ''both_sidecars_failed'')) \<or> (\<exists>v\<in>set judges. pv_severity v = Sev_error)"
    unfolding severity_facts by (cases refusal; cases untrusted) (auto simp: image_iff eq_commute [of Sev_error])
  moreover have "Sev_error \<in> pv_severity ` set (faithfulness_violations fviol ids tc) \<longleftrightarrow> (\<exists>v. fviol = Some v \<and> pv_severity v = Sev_error)"
    unfolding severity_facts by auto
  moreover have "Sev_error \<in> pv_severity ` set (quality_violations th tc profile) \<longleftrightarrow> tc_exportable tc = False"
    unfolding severity_facts by auto
  ultimately show ?thesis
    unfolding case_violations_def set_append image_Un Un_iff sev_issues sev_downgrade sev_conflicts sev_risk blocking_issue_sev
    by blast
qed

lemma case_approved_iff:
  "pv_severity ` set (case_violations lc th tc intent profile issues overrides invalid signals refusal
       required untrusted judges fviol ids compliance) \<subseteq> {Sev_info} \<longleftrightarrow>
     (required = False \<or> refusal = None)
     \<and> (case untrusted of None \<Rightarrow> True | Some r \<Rightarrow> uc_outcome r \<noteq> ''needs_review'')
     \<and> list_all (\<lambda>v. pv_severity v = Sev_info) judges
     \<and> list_all (silent_issue overrides invalid) issues
     \<and> (case fviol of None \<Rightarrow> True | Some v \<Rightarrow> pv_severity v = Sev_info) \<and> tc_id tc \<notin> set ids
     \<and> collectMultiSourceConflictIds intent tc = []
     \<and> case_risk_category tc intent profile signals compliance = None
     \<and> qs_ambiguity (tc_qualitySignals tc) = None
     \<and> \<not> (qs_confidence (tc_qualitySignals tc) < minConfidence profile \<and> qs_confidence (tc_qualitySignals tc) \<ge> 0)
     \<and> tc_exportable tc
     \<and> of_nat (length (tc_openQuestions tc)) \<le> maxOpenQuestionsPerCase profile
     \<and> of_nat (length (tc_assumptions tc)) \<le> maxAssumptionsPerCase profile"
proof -
  have 1: "pv_severity ` set (evidence_violations lc refusal required untrusted judges) \<subseteq> {Sev_info} \<longleftrightarrow>
      (required = False \<or> refusal = None) \<and> (case untrusted of None \<Rightarrow> True | Some r \<Rightarrow> uc_outcome r \<noteq> ''needs_review'')
      \<and> list_all (\<lambda>v. pv_severity v = Sev_info) judges"
    unfolding severity_facts by (cases refusal; cases untrusted) (auto simp: list_all_iff)
  have 2: "(\<Union>i\<in>set issues. pv_severity ` set (issue_violations overrides invalid i)) \<subseteq> {Sev_info} \<longleftrightarrow>
      list_all (silent_issue overrides invalid) issues"
    unfolding list_all_iff silent_issue_sev by blast
  have 3: "pv_severity ` set (faithfulness_violations fviol ids tc) \<subseteq> {Sev_info} \<longleftrightarrow>
      (case fviol of None \<Rightarrow> True | Some v \<Rightarrow> pv_severity v = Sev_info) \<and> tc_id tc \<notin> set ids"
    unfolding severity_facts by (cases fviol) auto
  have 4: "pv_severity ` set (downgrade_violations tc intent profile compliance) \<subseteq> {Sev_info}"
    if "case_risk_category tc intent profile signals compliance = None"
    using that screen_risk_implies_job_risk [of intent tc "reviewOnlyRiskCategories profile" compliance]
    unfolding severity_facts case_risk_category_None by auto
  have 5: "pv_severity ` set (conflict_violations xs) \<subseteq> {Sev_info} \<longleftrightarrow> xs = []" for xs
    unfolding severity_facts by auto
  have 6: "pv_severity ` set (risk_violations tc intent profile signals compliance) \<subseteq> {Sev_info} \<longleftrightarrow>
      case_risk_category tc intent profile signals compliance = None"
    unfolding severity_facts by auto
  have 7: "pv_severity ` set (quality_violations th tc profile) \<subseteq> {Sev_info} \<longleftrightarrow>
     qs_ambiguity (tc_qualitySignals tc) = None
     \<and> \<not> (qs_confidence (tc_qualitySignals tc) < minConfidence profile \<and> qs_confidence (tc_qualitySignals tc) \<ge> 0)
     \<and> tc_exportable tc
     \<and> of_nat (length (tc_openQuestions tc)) \<le> maxOpenQuestionsPerCase profile
     \<and> of_nat (length (tc_assumptions tc)) \<le> maxAssumptionsPerCase profile"
    unfolding severity_facts by auto
  show ?thesis
    unfolding case_violations_def set_append image_Un Un_subset_iff sev_issues 1 2 3 5 6 7 using 4 by blast
qed

section \<open>The whole gate\<close>

lemma gate_Inr:
  assumes "evaluatePolicyGate h lc th input = Inr r"
  obtains assessment faithfulness where
    "r = gate_report input (map (gate_case lc th input assessment faithfulness) (gi_testCases input))
           (gate_job lc th input (fst faithfulness)) (snd (snd faithfulness))"
  using assms unfolding evaluatePolicyGate_def Let_def by (auto split: sum.split_asm)

definition gate_threshold :: "EvaluatePolicyGateInput \<Rightarrow> rat" where
  "gate_threshold input = (case resolvePolicyThresholdOverride (gi_policyOverrides input) CROSS_MODAL_FAITHFULNESS_RULE of
     None \<Rightarrow> DEFAULT_CROSS_MODAL_FAITHFULNESS_THRESHOLD | Some t \<Rightarrow> t)"

lemma gate_evaluation:
  assumes "evaluatePolicyGate h lc th input = Inr r"
  obtains res where
    "resolveFaithfulnessGateScore lc (gi_faithfulnessVerdict input) (gi_testCases input) (gate_threshold input)
       (requirePerStepFaithfulness (gi_profile input) = Some True) = Inr res"
    "pr_faithfulnessEvaluation r = (if gi_faithfulnessVerdict input = None \<and> gi_visual input = None
       then None else Some (gr_evaluation res))"
proof -
  obtain f ds js where f: "buildFaithfulnessScoreViolation lc (gi_faithfulnessVerdict input) (gi_testCases input)
      (gate_threshold input) (requirePerStepFaithfulness (gi_profile input) = Some True) (gi_visual input \<noteq> None) = Inr f"
    and r: "r = gate_report input ds js (snd (snd f))"
    using assms unfolding evaluatePolicyGate_def Let_def gate_threshold_def [symmetric] by (auto split: sum.split_asm)
  obtain res where res: "resolveFaithfulnessGateScore lc (gi_faithfulnessVerdict input) (gi_testCases input)
      (gate_threshold input) (requirePerStepFaithfulness (gi_profile input) = Some True) = Inr res"
    and "snd (snd f) = gr_evaluation res"
    using f unfolding buildFaithfulnessScoreViolation_def Let_def by (auto split: sum.split_asm)
  with that [OF res] show thesis by (simp add: r gate_report_def Let_def)
qed

lemma published_per_step:
  assumes "resolveFaithfulnessGateScore lc verdict cases (gate_threshold input) req = Inr res"
  shows "resolveFaithfulnessTierReport lc verdict cases (gi_policyOverrides input) = Inr (gr_tierReport res)"
    and "gr_tierReport res = None \<longleftrightarrow> fe_mode (gr_evaluation res) \<noteq> Per_step"
    and "gr_tierReport res = Some tiers \<Longrightarrow> \<exists>v svs. verdict = Some v \<and> fv_stepVerdicts v = Some svs
      \<and> fe_stepVerdictCount (gr_evaluation res) = length svs
      \<and> fe_reason (gr_evaluation res) = ''gate reasoned over '' @ js_string_of_nat (length svs)
          @ '' per-step verdict(s); aggregate score '' @ toFixed 6 (ftr_aggregateScore tiers)"
  using assms unfolding resolveFaithfulnessGateScore_def resolveFaithfulnessTierReport_def gate_threshold_def [symmetric] Let_def
  by (auto split: option.split_asm list.split_asm sum.split_asm simp del: append.simps)

lemma no_tier_error: "buildFaithfulnessScoreViolation lc v cases t req b \<noteq> Inl err"
  by (auto simp: buildFaithfulnessScoreViolation_def resolveFaithfulnessGateScore_def buildFaithfulnessTierReport_def Let_def
      split: option.split list.split sum.split_asm)

lemma override_map_severity: "buildPolicyOverrideMap pos rule = Some s \<Longrightarrow> s \<noteq> Sev_info"
proof -
  have "override_severity x \<noteq> Sev_info" for x by (cases x) simp_all
  then show "buildPolicyOverrideMap pos rule = Some s \<Longrightarrow> s \<noteq> Sev_info"
    by (auto simp: buildPolicyOverrideMap_def eq_commute [of Sev_info] dest!: map_of_SomeD)
qed

lemma override_keeps_alarm:
  "pv_severity v \<noteq> Sev_info \<Longrightarrow> pv_severity (override_violation (buildPolicyOverrideMap pos) v) \<noteq> Sev_info"
  by (auto simp: override_violation_def dest: override_map_severity split: option.split)

lemma override_none: "override_violation (\<lambda>_. None) v = v"
  by (simp add: override_violation_def)

lemma decision_values: "decisionFromViolations vs \<in> {''approved'', ''needs_review'', ''blocked''}"
  unfolding decisionFromViolations_eq by (auto simp: strongest_def)

lemma count_three:
  "list_all (\<lambda>d. pd_decision d \<in> {''approved'', ''needs_review'', ''blocked''}) ds \<Longrightarrow>
     length (filter (\<lambda>d. pd_decision d = ''approved'') ds) + length (filter (\<lambda>d. pd_decision d = ''blocked'') ds)
       + length (filter (\<lambda>d. pd_decision d \<noteq> ''approved'' \<and> pd_decision d \<noteq> ''blocked'') ds) = length ds"
  by (induction ds) auto

section \<open>Properties\<close>

text \<open>
  C3: The decision of a case is blocked exactly when visual verification is required and both sidecars
  failed, a judge refusal handed to the case is an error, an override was rejected or an unresolved
  validation error maps to a policy outcome, the faithfulness finding is an error, or the case is not
  exportable; and it is approved exactly when every one of the gate's checks is silent.
\<close>

theorem case_decision_exact:
  "(pd_decision (evaluateCase lc th tc intent profile issues overrides invalid signals refusal required untrusted
       judges fviol ids compliance) = ''blocked'' \<longleftrightarrow>
     (required \<and> (\<exists>r. refusal = Some r \<and> sr_failureClass r = ''both_sidecars_failed''))
     \<or> (\<exists>v\<in>set judges. pv_severity v = Sev_error)
     \<or> (\<exists>i\<in>set issues. blocking_issue overrides invalid i)
     \<or> (\<exists>v. fviol = Some v \<and> pv_severity v = Sev_error)
     \<or> tc_exportable tc = False)
   \<and> (pd_decision (evaluateCase lc th tc intent profile issues overrides invalid signals refusal required untrusted
       judges fviol ids compliance) = ''approved'' \<longleftrightarrow>
     (required = False \<or> refusal = None)
     \<and> (case untrusted of None \<Rightarrow> True | Some r \<Rightarrow> uc_outcome r \<noteq> ''needs_review'')
     \<and> list_all (\<lambda>v. pv_severity v = Sev_info) judges
     \<and> list_all (silent_issue overrides invalid) issues
     \<and> (case fviol of None \<Rightarrow> True | Some v \<Rightarrow> pv_severity v = Sev_info) \<and> tc_id tc \<notin> set ids
     \<and> collectMultiSourceConflictIds intent tc = []
     \<and> tc_riskCategory tc \<notin> set (reviewOnlyRiskCategories profile)
     \<and> findCustomContextReviewRisk signals (reviewOnlyRiskCategories profile) = None
     \<and> findIntentReviewRisk intent (reviewOnlyRiskCategories profile) compliance = None
     \<and> qs_ambiguity (tc_qualitySignals tc) = None
     \<and> \<not> (qs_confidence (tc_qualitySignals tc) < minConfidence profile \<and> qs_confidence (tc_qualitySignals tc) \<ge> 0)
     \<and> tc_exportable tc
     \<and> of_nat (length (tc_openQuestions tc)) \<le> maxOpenQuestionsPerCase profile
     \<and> of_nat (length (tc_assumptions tc)) \<le> maxAssumptionsPerCase profile)"
  unfolding evaluateCase_eq Let_def TestCasePolicyDecisionRecord.select_convs decisionFromViolations_eq
    strongest_blocked strongest_approved case_blocked_iff case_approved_iff case_risk_category_None
  by (simp only: conj_assoc)

text \<open>
  C5: No configuration of severity overrides auto-approves a regulated case: in every report of the
  gate, a case whose declared risk category is review-only, or for which the intent, a compliance
  override or a custom context signal yields a review-only category, is not approved, and so the
  review it is seeded with does not start in the approved state.
\<close>

theorem regulated_case_never_auto_approved:
  "(case evaluatePolicyGate h lc th input of
      Inl err \<Rightarrow> True
    | Inr r \<Rightarrow>
        list_all2 (\<lambda>tc d. pd_testCaseId d = tc_id tc
          \<and> (if tc_riskCategory tc \<in> set (reviewOnlyRiskCategories (gi_profile input))
                \<or> (\<exists>x. findIntentReviewRisk (gi_intent input) (reviewOnlyRiskCategories (gi_profile input))
                        (gi_complianceOverrides input) = Some x)
                \<or> (\<exists>ss x. gi_customContextPolicySignals input = Some ss
                        \<and> findCustomContextReviewRisk ss (reviewOnlyRiskCategories (gi_profile input)) = Some x)
             then pd_decision d \<noteq> ''approved'' \<and> seedReviewStateFromPolicy (pd_decision d) \<noteq> St_approved
             else True))
          (gi_testCases input) (pr_decisions r))"
proof (cases "evaluatePolicyGate h lc th input")
  case (Inr r)
  obtain assessment faithfulness where r: "r = gate_report input
      (map (gate_case lc th input assessment faithfulness) (gi_testCases input))
      (gate_job lc th input (fst faithfulness)) (snd (snd faithfulness))" using gate_Inr [OF Inr] .
  let ?om = "buildPolicyOverrideMap (gi_policyOverrides input)"
  let ?sg = "case gi_customContextPolicySignals input of None \<Rightarrow> [] | Some s \<Rightarrow> s"
  have dec: "pr_decisions r = map (\<lambda>tc. let d = gate_case lc th input assessment faithfulness tc;
      vs = map (override_violation ?om) (pd_violations d)
      in d \<lparr> pd_decision := decisionFromViolations vs, pd_violations := vs \<rparr>) (gi_testCases input)"
    unfolding r gate_report_def Let_def by (simp add: applyPolicyOverrideViolations_def)
  have alarm: "decisionFromViolations (map (override_violation ?om) vs) \<noteq> ''approved''"
    if alarmed: "\<not> pv_severity ` set vs \<subseteq> {Sev_info}" for vs
  proof -
    obtain v where "v \<in> set vs" "pv_severity v \<noteq> Sev_info" using alarmed by blast
    then have "\<not> pv_severity ` set (map (override_violation ?om) vs) \<subseteq> {Sev_info}"
      using override_keeps_alarm by fastforce
    then show ?thesis unfolding decisionFromViolations_eq strongest_approved .
  qed
  have risky: "\<not> pv_severity ` set (pd_violations (gate_case lc th input assessment faithfulness tc)) \<subseteq> {Sev_info}"
    if "case_risk_category tc (gi_intent input) (gi_profile input) ?sg (gi_complianceOverrides input) \<noteq> None" for tc
    unfolding gate_case_def evaluateCase_eq Let_def TestCasePolicyDecisionRecord.select_convs case_approved_iff
    using that by blast
  have id: "pd_testCaseId (gate_case lc th input assessment faithfulness tc) = tc_id tc" for tc
    by (simp add: gate_case_def evaluateCase_eq Let_def)
  have seed: "seedReviewStateFromPolicy d \<noteq> St_approved" if "d \<noteq> ''approved''" for d
    using that by (simp add: seedReviewStateFromPolicy_def)
  show ?thesis
    unfolding Inr sum.case dec list_all2_map2 Let_def
    using alarm [OF risky] seed
    by (auto simp: list_all2_same id case_risk_category_None simp del: list.set_map)
qed simp

text \<open>
  C32: The gate raises only when signed overrides were supplied and their authority cannot be resolved.
  Otherwise the report has one decision per test case, in order, each being the strongest severity
  among its violations; the three counters add up to the number of cases, and the run is blocked
  exactly when some case is blocked or some job-level violation is an error.
\<close>

theorem gate_report_sound:
  "(case evaluatePolicyGate h lc th input of
      Inl err \<Rightarrow> (\<exists>e os. err = Override_error e \<and> gi_semanticContentOverrides input = Some os)
    | Inr r \<Rightarrow>
        map pd_testCaseId (pr_decisions r) = map tc_id (gi_testCases input)
        \<and> list_all (\<lambda>d. pd_decision d = strongest (pv_severity ` set (pd_violations d))) (pr_decisions r)
        \<and> pr_approvedCount r + pr_blockedCount r + pr_needsReviewCount r = length (gi_testCases input)
        \<and> pr_totalTestCases r = length (gi_testCases input)
        \<and> (pr_blocked r \<longleftrightarrow> (\<exists>d\<in>set (pr_decisions r). pd_decision d = ''blocked'')
              \<or> (\<exists>v\<in>set (pr_jobLevelViolations r). pv_severity v = Sev_error)))"
proof (cases "evaluatePolicyGate h lc th input")
  case (Inl err)
  then show ?thesis
    unfolding evaluatePolicyGate_def Let_def using no_tier_error
    by (auto split: option.split_asm sum.split_asm)
next
  case (Inr r)
  obtain assessment faithfulness where r: "r = gate_report input
      (map (gate_case lc th input assessment faithfulness) (gi_testCases input))
      (gate_job lc th input (fst faithfulness)) (snd (snd faithfulness))" using gate_Inr [OF Inr] .
  have id: "pd_testCaseId (gate_case lc th input assessment faithfulness tc) = tc_id tc" for tc
    by (simp add: gate_case_def evaluateCase_eq Let_def)
  have "list_all (\<lambda>d. pd_decision d = strongest (pv_severity ` set (pd_violations d))) (pr_decisions r)"
    unfolding r gate_report_def Let_def by (simp add: list_all_iff decisionFromViolations_eq)
  moreover have "length (pr_decisions r) = length (gi_testCases input)"
      "list_all (\<lambda>d. pd_decision d \<in> {''approved'', ''needs_review'', ''blocked''}) (pr_decisions r)"
    unfolding r gate_report_def Let_def using decision_values by (simp_all add: list_all_iff)
  moreover have "pr_approvedCount r + pr_blockedCount r + pr_needsReviewCount r = length (pr_decisions r)"
    using count_three [OF calculation(3)] unfolding r gate_report_def Let_def by simp
  ultimately show ?thesis
    unfolding Inr sum.case by (simp add: r gate_report_def Let_def id o_def list_ex_iff)
qed

text \<open>
  The tier report written beside the gate report is the one the gate reasoned over: whenever the
  gate returns a report, the published tier report exists exactly when the gate evaluated per step,
  and then the gate's summary counts its step verdicts and prints its aggregate score.
\<close>

theorem published_tier_report_is_the_gates:
  "\<exists>r. resolveFaithfulnessTierReport lc (gi_faithfulnessVerdict input) (gi_testCases input) (gi_policyOverrides input) = Inr r
     \<and> (case evaluatePolicyGate h lc th input of
          Inl err \<Rightarrow> True
        | Inr report \<Rightarrow>
            (case r of
               None \<Rightarrow> pr_faithfulnessEvaluation report = None
                 \<or> (\<exists>s. pr_faithfulnessEvaluation report = Some s \<and> (fe_mode s = Per_step) = False)
             | Some tiers \<Rightarrow> \<exists>s v svs. pr_faithfulnessEvaluation report = Some s \<and> fe_mode s = Per_step
                 \<and> gi_faithfulnessVerdict input = Some v \<and> fv_stepVerdicts v = Some svs \<and> fe_stepVerdictCount s = length svs
                 \<and> fe_reason s = ''gate reasoned over '' @ js_string_of_nat (length svs)
                     @ '' per-step verdict(s); aggregate score '' @ toFixed 6 (ftr_aggregateScore tiers)))"
proof -
  have "\<exists>r. resolveFaithfulnessTierReport lc (gi_faithfulnessVerdict input) (gi_testCases input) (gi_policyOverrides input) = Inr r"
    by (auto simp: resolveFaithfulnessTierReport_def buildFaithfulnessTierReport_def Let_def split: option.split)
  moreover have ?thesis if run: "evaluatePolicyGate h lc th input = Inr report" for report
  proof -
    from gate_evaluation [OF run] obtain res where
      res: "resolveFaithfulnessGateScore lc (gi_faithfulnessVerdict input) (gi_testCases input) (gate_threshold input)
         (requirePerStepFaithfulness (gi_profile input) = Some True) = Inr res"
      and ev: "pr_faithfulnessEvaluation report = (if gi_faithfulnessVerdict input = None \<and> gi_visual input = None
         then None else Some (gr_evaluation res))" .
    show ?thesis
    proof (cases "gr_tierReport res")
      case None
      then show ?thesis using published_per_step(1,2) [OF res] by (auto simp: run ev)
    next
      case (Some tiers)
      then have "fe_mode (gr_evaluation res) = Per_step" using published_per_step(2) [OF res] by simp
      moreover from published_per_step(3) [OF res Some] obtain v svs where v: "gi_faithfulnessVerdict input = Some v"
          "fv_stepVerdicts v = Some svs" "fe_stepVerdictCount (gr_evaluation res) = length svs"
          "fe_reason (gr_evaluation res) = ''gate reasoned over '' @ js_string_of_nat (length svs)
             @ '' per-step verdict(s); aggregate score '' @ toFixed 6 (ftr_aggregateScore tiers)" by blast
      moreover have "pr_faithfulnessEvaluation report = Some (gr_evaluation res)" by (simp add: ev v(1))
      ultimately show ?thesis
        unfolding published_per_step(1) [OF res] run sum.case Some
        by (intro exI [of _ "Some tiers"] conjI [OF refl]) (simp only: option.case, blast)
    qed
  qed
  ultimately show ?thesis by (cases "evaluatePolicyGate h lc th input") auto
qed

end
