(* ===== verification/PolicyPruning.thy ===== *)
theory PolicyPruning
  imports PolicyGateProps
begin

text \<open>
  The policy gate and the later pruning of its report by the reviewers' conflict decisions agree:
  pruning a report gives what the gate would have reported without the resolved conflicts.
\<close>

abbreviation conflict_outcome :: string where
  "conflict_outcome \<equiv> ''multi_source_conflict_present''"

definition conflict_free :: "TestCasePolicyViolation list \<Rightarrow> bool" where
  "conflict_free vs \<longleftrightarrow> list_all (\<lambda>v. pv_outcome v \<noteq> conflict_outcome) vs"

lemma conflict_free_append [simp]: "conflict_free (xs @ ys) \<longleftrightarrow> conflict_free xs \<and> conflict_free ys"
  by (simp add: conflict_free_def)

lemma conflict_free_Nil [simp]: "conflict_free []"
  by (simp add: conflict_free_def)

lemma conflict_free_concat [simp]: "conflict_free (concat (map f xs)) \<longleftrightarrow> (\<forall>x\<in>set xs. conflict_free (f x))"
  by (auto simp: conflict_free_def list_all_iff)

lemma conflict_free_map_violation [simp]:
  "oc \<noteq> conflict_outcome \<Longrightarrow> conflict_free (map (\<lambda>x. violation (r x) oc (s x) (g x)) xs)"
  by (simp add: conflict_free_def list_all_iff)

lemma conflict_free_single [simp]: "conflict_free [violation r oc s g] \<longleftrightarrow> oc \<noteq> conflict_outcome"
  by (simp add: conflict_free_def)

section \<open>Rewriting\<close>

lemma rewrite_append: "rewriteViolations R k (xs @ ys) = rewriteViolations R k xs @ rewriteViolations R k ys"
  by (induction xs) (simp_all add: Let_def split: option.split)

lemma rewrite_conflict_free: "conflict_free vs \<Longrightarrow> rewriteViolations R k vs = vs"
  by (induction vs) (simp_all add: conflict_free_def)

lemma override_outcome [simp]: "pv_outcome (override_violation om v) = pv_outcome v"
  and override_reason [simp]: "pv_reason (override_violation om v) = pv_reason v"
  and override_rule [simp]: "pv_rule (override_violation om v) = pv_rule v"
  by (simp_all add: override_violation_def split: option.split)

lemma conflict_free_override [simp]: "conflict_free (map (override_violation om) vs) = conflict_free vs"
  by (simp add: conflict_free_def list_all_iff)

definition conflict_part :: "violation_kind \<Rightarrow> string list \<Rightarrow> TestCasePolicyViolation list" where
  "conflict_part k ids =
     (if ids = [] then []
      else [violation ''policy:multi-source-conflict-present'' conflict_outcome Sev_warning (rewrittenReason k ids)])"

lemma override_conflict_part:
  "override_violation om (violation r oc s g) = violation r oc s' g'
    \<longleftrightarrow> g = g' \<and> pv_severity (override_violation om (violation r oc s g)) = s'"
  by (auto simp: override_violation_def violation_def split: option.split if_splits)

lemma override_violation_reason:
  "(override_violation om (violation r oc s g)) \<lparr> pv_reason := g' \<rparr> = override_violation om (violation r oc s g')"
  by (auto simp: override_violation_def violation_def split: option.split)

lemma rewrite_conflict_part:
  assumes "list_all id_ok ids"
  shows "rewriteViolations R k (map (override_violation om) (conflict_part k ids))
     = map (override_violation om) (conflict_part k (filter (\<lambda>c. \<not> R c) ids))"
proof (cases "ids = []")
  case False
  then have "parseMultiSourceConflictIds (rewrittenReason k ids) = Some ids"
    using assms by (intro parse_rewrittenReason) (auto simp: list_all_iff)
  with False show ?thesis
    by (simp add: conflict_part_def Let_def override_violation_reason)
qed (simp add: conflict_part_def)

lemma rewrite_parts:
  assumes "conflict_free xs" "conflict_free ys" "list_all id_ok ids"
  shows "rewriteViolations R k (map (override_violation om) (xs @ conflict_part k ids @ ys))
     = map (override_violation om) (xs @ conflict_part k (filter (\<lambda>c. \<not> R c) ids) @ ys)"
  using assms by (simp add: rewrite_append rewrite_conflict_free rewrite_conflict_part)

section \<open>Filtering the conflicts of the intent\<close>

definition without_resolved :: "(string \<Rightarrow> bool) \<Rightarrow> BusinessTestIntentIr \<Rightarrow> BusinessTestIntentIr" where
  "without_resolved R intent =
     intent \<lparr> bi_multiSourceConflicts :=
       map_option (filter (\<lambda>c. \<not> R (mc_conflictId c))) (bi_multiSourceConflicts intent) \<rparr>"

lemma filter_js_sort: "filter P (js_sort xs) = js_sort (filter P xs)"
  by (simp add: js_sort_def linorder_class.filter_sort)

lemma filter_js_set: "filter P (js_set xs) = js_set (filter P xs)"
proof -
  have "filter P (fold set_add xs s) = fold set_add (filter P xs) (filter P s)" for s
    by (induction xs arbitrary: s) (auto simp: set_add_def)
  then show ?thesis by (simp add: js_set_def)
qed

lemma collect_without_resolved:
  "collectMultiSourceConflictIds (without_resolved R intent) tc = filter (\<lambda>c. \<not> R c) (collectMultiSourceConflictIds intent tc)"
  by (cases "bi_multiSourceConflicts intent")
     (simp_all add: collectMultiSourceConflictIds_def without_resolved_def filter_js_sort filter_map o_def
        filter_filter conj_commute)

lemma job_ids_without_resolved:
  "sortedUnique (map mc_conflictId (case bi_multiSourceConflicts (without_resolved R intent) of None \<Rightarrow> [] | Some cs \<Rightarrow> cs))
   = filter (\<lambda>c. \<not> R c) (sortedUnique (map mc_conflictId (case bi_multiSourceConflicts intent of None \<Rightarrow> [] | Some cs \<Rightarrow> cs)))"
  by (cases "bi_multiSourceConflicts intent")
     (simp_all add: sortedUnique_def without_resolved_def filter_js_sort filter_js_set filter_map o_def)

lemma without_resolved_sels [simp]:
  "bi_risks (without_resolved R intent) = bi_risks intent"
  "bi_piiIndicators (without_resolved R intent) = bi_piiIndicators intent"
  "bi_detectedFields (without_resolved R intent) = bi_detectedFields intent"
  "bi_detectedValidations (without_resolved R intent) = bi_detectedValidations intent"
  by (simp_all add: without_resolved_def)

lemma without_resolved_risk [simp]:
  "findIntentReviewRisk (without_resolved R intent) ro co = findIntentReviewRisk intent ro co"
  "deriveScreenIntentRisk (without_resolved R intent) tc ro co = deriveScreenIntentRisk intent tc ro co"
  unfolding findIntentReviewRisk_def deriveScreenIntentRisk_def findIntentReviewRiskForIndicators_def
    without_resolved_sels by (rule refl)+

lemma without_resolved_parts [simp]:
  "downgrade_violations tc (without_resolved R intent) profile co = downgrade_violations tc intent profile co"
  "risk_violations tc (without_resolved R intent) profile signals co = risk_violations tc intent profile signals co"
  unfolding downgrade_violations_def risk_violations_def case_risk_category_def without_resolved_risk by (rule refl)+

section \<open>The other violations name no conflict\<close>

lemma conflict_free_evidence:
  "conflict_free judges \<Longrightarrow> conflict_free (evidence_violations lc refusal required untrusted judges)"
  by (cases refusal; cases untrusted)
     (auto simp: evidence_violations_def opt_list_def untrusted_violation_def resolveVisualSidecarRefusalViolation_def
        Let_def)

lemma conflict_free_untrusted [conflict_free_facts]: "conflict_free (untrusted_violation lc untrusted)"
  by (cases untrusted) (auto simp: untrusted_violation_def)

lemma issue_outcome [simp]: "VALIDATION_ISSUE_TO_OUTCOME c \<noteq> Some conflict_outcome"
  by (simp add: VALIDATION_ISSUE_TO_OUTCOME_def)

lemma conflict_free_issue: "conflict_free (issue_violations overrides invalid issue)"
  by (auto simp: conflict_free_def list_all_iff issue_violations_def override_invalid_violation_def violationFromIssue_def
      Let_def split: option.split_asm)

lemma conflict_free_faithfulness:
  "(\<And>v. fviol = Some v \<Longrightarrow> pv_outcome v \<noteq> conflict_outcome) \<Longrightarrow> conflict_free (faithfulness_violations fviol ids tc)"
  by (auto simp: conflict_free_def list_all_iff faithfulness_violations_def partial_majority_violation_def)

lemma conflict_free_downgrade: "conflict_free (downgrade_violations tc intent profile co)"
  unfolding downgrade_violations_def by auto

lemma conflict_free_risk: "conflict_free (risk_violations tc intent profile signals co)"
  unfolding risk_violations_def by simp

lemma conflict_free_quality: "conflict_free (quality_violations th tc profile)"
  unfolding quality_violations_def Let_def by auto

lemma conflict_free_judges [conflict_free_facts]:
  "conflict_free (fst (buildJudgeRefusalViolations profile fv av))" "conflict_free (snd (buildJudgeRefusalViolations profile fv av))"
  by (auto simp: conflict_free_def list_all_iff buildJudgeRefusalViolations_def judge_violation_def Let_def)

lemma visual_outcome [simp]:
  "mapVisualOutcome c \<noteq> Some (conflict_outcome, s)" "Some (conflict_outcome, s) \<noteq> mapVisualOutcome c"
  by (simp_all add: mapVisualOutcome_def)

lemma conflict_free_bindings [conflict_free_facts]: "conflict_free (evaluateActiveModelBindings profile bs)"
  by (cases bs) (auto simp: evaluateActiveModelBindings_def Let_def)

lemma conflict_free_drift [conflict_free_facts]:
  "conflict_free (case Option.bind drift (buildCoverageDriftPolicyViolation lc) of None \<Rightarrow> [] | Some v \<Rightarrow> [v])"
  by (cases drift) (auto simp: buildCoverageDriftPolicyViolation_def conflict_free_def split: option.split)

lemma conflict_free_coverage [conflict_free_facts]: "conflict_free (job_coverage lc cases coverage profile plan)"
  by (cases "cr_acceptanceUncoveredIds coverage") (auto simp: job_coverage_def)

lemma conflict_free_sidecar [conflict_free_facts]:
  "conflict_free (case refusal of None \<Rightarrow> [] | Some r \<Rightarrow> [resolveVisualSidecarRefusalViolation r])"
  by (cases refusal) (auto simp: resolveVisualSidecarRefusalViolation_def Let_def)

lemma conflict_free_rules [conflict_free_facts]: "conflict_free (job_validation_rules cases intent)"
  by (auto simp: job_validation_rules_def split: option.split)

lemma conflict_free_boundaries [conflict_free_facts]: "conflict_free (job_boundaries cases intent)"
  by (simp add: job_boundaries_def)

lemma conflict_free_accessibility [conflict_free_facts]: "conflict_free (job_accessibility th cases ids)"
  by (auto simp: job_accessibility_def Let_def)

lemma conflict_free_a11y [conflict_free_facts]: "conflict_free (evaluateA11yJudgeVerdict ids verdict)"
  by (cases verdict) (auto simp: evaluateA11yJudgeVerdict_def conflict_free_def list_all_iff)

lemma conflict_free_downgrades [conflict_free_facts]: "conflict_free (job_downgrades intent profile co seen tcs)"
  by (induction intent profile co seen tcs rule: job_downgrades.induct)
     (auto simp: conflict_free_def split: option.split)

lemma conflict_free_visual [conflict_free_facts]: "conflict_free (job_visual visual)"
  by (cases visual) (auto simp: job_visual_def conflict_free_def list_all_iff split: option.split_asm)

lemma conflict_free_score: "conflict_free (score_violation score t)"
  by (simp add: score_violation_def Let_def)

lemma conflict_free_fallback: "conflict_free [fallback_violation req reason]"
  by (simp add: fallback_violation_def)

lemma conflict_free_scores:
  assumes "buildFaithfulnessScoreViolation lc v cases t req b = Inr f"
  shows "conflict_free (fst f)"
proof -
  obtain res where "resolveFaithfulnessGateScore lc v cases t req = Inr res"
    using assms by (auto simp: buildFaithfulnessScoreViolation_def split: sum.split_asm)
  with assms have f: "fst f = (if fe_mode (gr_evaluation res) = Missing
      then (if v = None \<and> b then [violation CROSS_MODAL_FAITHFULNESS_MISSING_RULE
              ''cross_modal_faithfulness_evaluation_missing'' Sev_error (fe_reason (gr_evaluation res))] else [])
      else (if fe_mode (gr_evaluation res) = Case_level_fallback then [fallback_violation req (fe_reason (gr_evaluation res))] else [])
           @ score_violation (gr_score res) t)"
    unfolding buildFaithfulnessScoreViolation_def Let_def by (simp only: sum.case Inr_inject) auto
  show ?thesis unfolding f by (simp add: conflict_free_score conflict_free_fallback)
qed

lemma job_conflicts_eq:
  "job_conflicts intent = conflict_part Job_violation
     (sortedUnique (map mc_conflictId (case bi_multiSourceConflicts intent of None \<Rightarrow> [] | Some cs \<Rightarrow> cs)))"
  by (simp add: job_conflicts_def conflict_part_def rewrittenReason_def Let_def)

lemma job_downgrades_without_resolved [simp]:
  "job_downgrades (without_resolved R intent) profile co seen tcs = job_downgrades intent profile co seen tcs"
  by (induction intent profile co seen tcs rule: job_downgrades.induct) (simp_all split: option.split)

section \<open>Pruning a report of the gate\<close>

definition resolved_input :: "(string \<Rightarrow> bool) \<Rightarrow> EvaluatePolicyGateInput \<Rightarrow> EvaluatePolicyGateInput" where
  "resolved_input R input = input \<lparr> gi_intent := without_resolved R (gi_intent input) \<rparr>"

lemma resolved_sels [simp]:
  "gi_jobId (resolved_input R input) = gi_jobId input"
  "gi_generatedAt (resolved_input R input) = gi_generatedAt input"
  "gi_testCases (resolved_input R input) = gi_testCases input"
  "gi_intent (resolved_input R input) = without_resolved R (gi_intent input)"
  "gi_profile (resolved_input R input) = gi_profile input"
  "gi_validation (resolved_input R input) = gi_validation input"
  "gi_coverage (resolved_input R input) = gi_coverage input"
  "gi_coveragePlan (resolved_input R input) = gi_coveragePlan input"
  "gi_visual (resolved_input R input) = gi_visual input"
  "gi_a11yVerdict (resolved_input R input) = gi_a11yVerdict input"
  "gi_policyOverrides (resolved_input R input) = gi_policyOverrides input"
  "gi_faithfulnessVerdict (resolved_input R input) = gi_faithfulnessVerdict input"
  "gi_semanticContentOverrides (resolved_input R input) = gi_semanticContentOverrides input"
  "gi_overrideAuthorityProvider (resolved_input R input) = gi_overrideAuthorityProvider input"
  "gi_customContextPolicySignals (resolved_input R input) = gi_customContextPolicySignals input"
  "gi_visualSidecarRefusal (resolved_input R input) = gi_visualSidecarRefusal input"
  "gi_visualVerificationRequired (resolved_input R input) = gi_visualVerificationRequired input"
  "gi_untrustedContentReport (resolved_input R input) = gi_untrustedContentReport input"
  "gi_activeModelBindings (resolved_input R input) = gi_activeModelBindings input"
  "gi_coverageBaselineDrift (resolved_input R input) = gi_coverageBaselineDrift input"
  "gi_complianceOverrides (resolved_input R input) = gi_complianceOverrides input"
  by (simp_all add: resolved_input_def)

definition conflict_ids_ok :: "BusinessTestIntentIr \<Rightarrow> bool" where
  "conflict_ids_ok intent \<longleftrightarrow>
     list_all (\<lambda>c. id_ok (mc_conflictId c)) (case bi_multiSourceConflicts intent of None \<Rightarrow> [] | Some cs \<Rightarrow> cs)"

lemma case_ids_ok: "conflict_ids_ok intent \<Longrightarrow> list_all id_ok (collectMultiSourceConflictIds intent tc)"
  by (auto simp: conflict_ids_ok_def collectMultiSourceConflictIds_def list_all_iff split: option.split)

lemma job_ids_ok:
  "conflict_ids_ok intent \<Longrightarrow> list_all id_ok (sortedUnique (map mc_conflictId
     (case bi_multiSourceConflicts intent of None \<Rightarrow> [] | Some cs \<Rightarrow> cs)))"
  by (auto simp: conflict_ids_ok_def sortedUnique_def list_all_iff split: option.split_asm)

lemma conflict_violations_part: "conflict_violations ids = conflict_part Case_violation ids"
  by (simp add: conflict_violations_def conflict_part_def)

lemma prune_gate_case:
  assumes ids: "conflict_ids_ok (gi_intent input)"
    and free: "\<And>v. find (\<lambda>v. pv_outcome v = ''cross_modal_faithfulness_score_below_threshold'') (fst f) = Some v
                 \<Longrightarrow> pv_outcome v \<noteq> conflict_outcome"
  shows "rewriteViolations R Case_violation (map (override_violation om) (pd_violations (gate_case lc th input a f tc)))
     = map (override_violation om) (pd_violations (gate_case lc th (resolved_input R input) a f tc))"
proof -
  note parts = conflict_free_evidence [OF conflict_free_judges(2)] conflict_free_issue conflict_free_faithfulness [OF free]
    conflict_free_downgrade conflict_free_risk conflict_free_quality
  have "collectMultiSourceConflictIds (without_resolved R (gi_intent input)) tc
     = filter (\<lambda>c. \<not> R c) (collectMultiSourceConflictIds (gi_intent input) tc)" by (rule collect_without_resolved)
  then show ?thesis
    unfolding gate_case_def evaluateCase_eq Let_def TestCasePolicyDecisionRecord.select_convs case_violations_def
      conflict_violations_part resolved_sels without_resolved_parts
    using parts case_ids_ok [OF ids]
    by (subst rewrite_parts) simp_all
qed

text \<open>The job-level violations before and after the conflicts.\<close>

definition job_pre :: "string comparator \<Rightarrow> text_host \<Rightarrow> EvaluatePolicyGateInput \<Rightarrow> TestCasePolicyViolation list" where
  "job_pre lc th input =
     (let cases = gi_testCases input; intent = gi_intent input; profile = gi_profile input; ids = collectFormScreenIds intent
      in evaluateActiveModelBindings profile (gi_activeModelBindings input)
         @ (case Option.bind (gi_coverageBaselineDrift input) (buildCoverageDriftPolicyViolation lc) of None \<Rightarrow> [] | Some v \<Rightarrow> [v])
         @ job_coverage lc cases (gi_coverage input) profile (gi_coveragePlan input)
         @ (case gi_visualSidecarRefusal input of None \<Rightarrow> [] | Some r \<Rightarrow> [resolveVisualSidecarRefusalViolation r])
         @ (if requireNegativeOrValidationForValidationRules profile then job_validation_rules cases intent else [])
         @ (if requireBoundaryCaseForRequiredFields profile then job_boundaries cases intent else [])
         @ (if requireAccessibilityCaseWhenFormPresent profile then job_accessibility th cases ids else [])
         @ (if requireAccessibilityCaseWhenFormPresent profile then evaluateA11yJudgeVerdict ids (gi_a11yVerdict input) else [])
         @ map (\<lambda>pair. violation ''policy:duplicate-test-case'' ''duplicate_test_case'' Sev_warning
                  (''test cases '' @ quoted (dp_leftTestCaseId pair) @ '' and '' @ quoted (dp_rightTestCaseId pair)
                   @ '' share similarity '' @ numberString th (dp_similarity pair) @ ''; review for de-duplication''))
             (cr_duplicatePairs (gi_coverage input)))"

definition job_post ::
  "string comparator \<Rightarrow> EvaluatePolicyGateInput \<Rightarrow> TestCasePolicyViolation list \<Rightarrow> TestCasePolicyViolation list" where
  "job_post lc input fvs =
     (let profile = gi_profile input
      in (if enforces_downgrade profile
          then job_downgrades (gi_intent input) profile (gi_complianceOverrides input) [] (gi_testCases input) else [])
         @ job_visual (gi_visual input)
         @ map (\<lambda>signal. violation ''policy:custom-context-risk-escalation'' ''custom_context_risk_escalation'' Sev_warning
                  (cx_reason signal @ '' (source '' @ cx_sourceId signal @ '', entry '' @ cx_entryId signal @ '', hash ''
                   @ cx_contentHash signal @ '')''))
             (filter (\<lambda>s. cx_riskCategory s \<in> set (reviewOnlyRiskCategories profile))
               (case gi_customContextPolicySignals input of None \<Rightarrow> [] | Some s \<Rightarrow> s))
         @ untrusted_violation lc (gi_untrustedContentReport input)
         @ fst (buildJudgeRefusalViolations profile (gi_faithfulnessVerdict input) (gi_a11yVerdict input)) @ fvs)"

lemma gate_job_split:
  "gate_job lc th input fvs = job_pre lc th input
     @ conflict_part Job_violation (sortedUnique (map mc_conflictId
         (case bi_multiSourceConflicts (gi_intent input) of None \<Rightarrow> [] | Some cs \<Rightarrow> cs)))
     @ job_post lc input fvs"
  unfolding gate_job_def evaluateJobLevel_def Let_def job_pre_def job_post_def job_conflicts_eq
  by (simp only: append_assoc)

lemma conflict_free_pre: "conflict_free (job_pre lc th input)"
  unfolding job_pre_def Let_def using conflict_free_facts
  by (simp only: conflict_free_append conflict_free_Nil split: if_split) simp

lemma conflict_free_post: "conflict_free fvs \<Longrightarrow> conflict_free (job_post lc input fvs)"
  unfolding job_post_def Let_def using conflict_free_facts
  by (simp only: conflict_free_append conflict_free_Nil split: if_split) simp

lemma resolved_job_parts:
  "job_pre lc th (resolved_input R input) = job_pre lc th input"
  "job_post lc (resolved_input R input) fvs = job_post lc input fvs"
proof -
  have "job_validation_rules cases (without_resolved R intent) = job_validation_rules cases intent"
    "job_boundaries cases (without_resolved R intent) = job_boundaries cases intent"
    "collectFormScreenIds (without_resolved R intent) = collectFormScreenIds intent" for cases intent
    by (simp_all add: job_validation_rules_def job_boundaries_def fieldIdsWithRequiredRules_def collectFormScreenIds_def)
  then show "job_pre lc th (resolved_input R input) = job_pre lc th input"
    "job_post lc (resolved_input R input) fvs = job_post lc input fvs"
    unfolding job_pre_def job_post_def Let_def resolved_sels job_downgrades_without_resolved by (simp_all only:)
qed

lemma prune_gate_job:
  assumes ids: "conflict_ids_ok (gi_intent input)" and free: "conflict_free fvs"
  shows "rewriteViolations R Job_violation (map (override_violation om) (gate_job lc th input fvs))
     = map (override_violation om) (gate_job lc th (resolved_input R input) fvs)"
  unfolding gate_job_split resolved_job_parts resolved_sels job_ids_without_resolved
  by (rule rewrite_parts [OF conflict_free_pre conflict_free_post [OF free] job_ids_ok [OF ids]])

lemma prune_gate_report:
  assumes dec: "\<And>d. d \<in> set ds \<Longrightarrow> rewriteViolations R Case_violation (map (override_violation om) (pd_violations (f d)))
        = map (override_violation om) (pd_violations (g d)) \<and> pd_testCaseId (f d) = pd_testCaseId (g d)"
    and job: "rewriteViolations R Job_violation (map (override_violation om) js) = map (override_violation om) js'"
    and om: "om = buildPolicyOverrideMap (gi_policyOverrides input)"
  shows "pruneResolvedMultiSourceConflictViolations R (gate_report input (map f ds) js ev)
     = gate_report (resolved_input R input) (map g ds) js' ev"
proof -
  have d: "prune_decision R ((f d) \<lparr> pd_decision := x, pd_violations := map (override_violation om) (pd_violations (f d)) \<rparr>)
      = (g d) \<lparr> pd_decision := decisionFromViolations (map (override_violation om) (pd_violations (g d))),
                pd_violations := map (override_violation om) (pd_violations (g d)) \<rparr>" if "d \<in> set ds" for d x
    using dec [OF that] by (simp add: prune_decision_def Let_def decision_of_violations_def decisionFromViolations_def)
  then have ds: "map (\<lambda>d. prune_decision R ((f d) \<lparr> pd_decision := decisionFromViolations (map (override_violation om) (pd_violations (f d))),
        pd_violations := map (override_violation om) (pd_violations (f d)) \<rparr>)) ds
      = map (\<lambda>d. (g d) \<lparr> pd_decision := decisionFromViolations (map (override_violation om) (pd_violations (g d))),
                pd_violations := map (override_violation om) (pd_violations (g d)) \<rparr>) ds"
    by (intro map_cong refl) simp
  show ?thesis
    unfolding pruneResolvedMultiSourceConflictViolations_def gate_report_def Let_def applyPolicyOverrideViolations_def
      resolved_sels om [symmetric]
    by (simp add: ds job list_ex_iff o_def)
qed

text \<open>A job with one unresolved conflict between two sources.\<close>

definition sample_gate_input :: EvaluatePolicyGateInput where
  "sample_gate_input = \<lparr> gi_jobId = ''job'', gi_generatedAt = ''t'', gi_testCases = [sample_case],
     gi_intent = \<lparr> bi_detectedFields = [], bi_detectedValidations = [], bi_risks = [], bi_piiIndicators = [],
       bi_multiSourceConflicts = Some [\<lparr> mc_conflictId = sample_id CHR ''a'', mc_kind = ''field_label_mismatch'',
         mc_participatingSourceIds = [''jira'', ''figma''], mc_normalizedValues = [''x'', ''y''],
         mc_resolution = Unresolved, mc_affectedElementIds = None, mc_affectedScreenIds = None \<rparr>] \<rparr>,
     gi_profile = \<lparr> pp_id = ''p'', pp_version = ''1'', pp_description = ''d'', reviewOnlyRiskCategories = [],
       strictRiskCategories = [], requireAccessibilityCaseWhenFormPresent = True,
       requireNegativeOrValidationForValidationRules = True, requireBoundaryCaseForRequiredFields = True,
       minConfidence = 1 / 2, maxOpenQuestionsPerCase = 3, maxAssumptionsPerCase = 3, judgeRefusalPolicy = None,
       enforceRiskTagDowngradeDetection = None, requirePerStepFaithfulness = None, techniqueCoverageMinimum = None \<rparr>,
     gi_validation = \<lparr> tv_jobId = ''job'', tv_blocked = False, tv_issues = [] \<rparr>,
     gi_coverage = \<lparr> cr_acceptanceUncoveredIds = None, cr_duplicatePairs = [] \<rparr>,
     gi_coveragePlan = None, gi_visual = None, gi_a11yVerdict = None, gi_policyOverrides = None,
     gi_faithfulnessVerdict = None, gi_semanticContentOverrides = None, gi_overrideAuthorityProvider = None,
     gi_customContextPolicySignals = None, gi_visualSidecarRefusal = None, gi_visualVerificationRequired = None,
     gi_untrustedContentReport = None, gi_activeModelBindings = None, gi_coverageBaselineDrift = None,
     gi_complianceOverrides = None \<rparr>"

definition sample_texts :: text_host where
  "sample_texts = \<lparr> normalizeDashes = id, numberString = (\<lambda>q. toFixed 3 q) \<rparr>"

lemma prune_gate_reports:
  assumes ids: "conflict_ids_ok (gi_intent input)"
    and f: "buildFaithfulnessScoreViolation lc v cases t req b = Inr f"
  shows "pruneResolvedMultiSourceConflictViolations R
       (gate_report input (map (gate_case lc th input a f) tcs) (gate_job lc th input (fst f)) ev)
     = gate_report (resolved_input R input) (map (gate_case lc th (resolved_input R input) a f) tcs)
         (gate_job lc th (resolved_input R input) (fst f)) ev"
proof (rule prune_gate_report [OF _ prune_gate_job [OF ids conflict_free_scores [OF f]] refl], intro conjI)
  fix tc
  show "rewriteViolations R Case_violation
        (map (override_violation (buildPolicyOverrideMap (gi_policyOverrides input))) (pd_violations (gate_case lc th input a f tc)))
      = map (override_violation (buildPolicyOverrideMap (gi_policyOverrides input)))
          (pd_violations (gate_case lc th (resolved_input R input) a f tc))"
  proof (rule prune_gate_case [OF ids])
    fix v
    assume "find (\<lambda>v. pv_outcome v = ''cross_modal_faithfulness_score_below_threshold'') (fst f) = Some v"
    then have "v \<in> set (fst f)" by (blast dest: find_mem)
    with conflict_free_scores [OF f] show "pv_outcome v \<noteq> conflict_outcome"
      by (simp add: conflict_free_def list_all_iff)
  qed
  show "pd_testCaseId (gate_case lc th input a f tc) = pd_testCaseId (gate_case lc th (resolved_input R input) a f tc)"
    by (simp add: gate_case_def evaluateCase_eq Let_def)
qed

section \<open>Property\<close>

text \<open>
  C4: Pruning commutes with the gate: when the conflict ids are the digests the reconciliation engine
  makes, pruning a gate report by any set of resolved conflicts gives exactly the report the gate
  produces for the intent without those conflicts: the same decisions, violations, reason texts,
  counters and blocked flag, under any severity overrides.
\<close>

theorem pruning_commutes_with_gate:
  assumes "conflict_ids_ok (gi_intent input)"
  shows "map_sum id (pruneResolvedMultiSourceConflictViolations R) (evaluatePolicyGate h lc th input)
     = evaluatePolicyGate h lc th (resolved_input R input)"
proof (cases "case gi_semanticContentOverrides input of
              None \<Rightarrow> Inr None
            | Some os \<Rightarrow> map_sum id Some (partitionSemanticContentOverridesForValidation h (gi_validation input) os
                            (gi_overrideAuthorityProvider input))")
  case (Inl err)
  then show ?thesis unfolding evaluatePolicyGate_def resolved_sels by simp
next
  case (Inr a)
  define t where "t = (case resolvePolicyThresholdOverride (gi_policyOverrides input) CROSS_MODAL_FAITHFULNESS_RULE of
                None \<Rightarrow> DEFAULT_CROSS_MODAL_FAITHFULNESS_THRESHOLD | Some t \<Rightarrow> t)"
  obtain f where f: "buildFaithfulnessScoreViolation lc (gi_faithfulnessVerdict input) (gi_testCases input) t
      (requirePerStepFaithfulness (gi_profile input) = Some True) (gi_visual input \<noteq> None) = Inr f"
    using no_tier_error by (metis sum.exhaust)
  show ?thesis
    unfolding evaluatePolicyGate_def resolved_sels Inr sum.case Let_def t_def [symmetric] f map_sum.simps
    by (simp only: prune_gate_reports [OF assms f])
qed

text \<open>The only conflict of the sample job, resolved: the violations disappear as if it had never been there.\<close>

theorem pruning_commutes_with_gate_witness:
  "map_sum id (pruneResolvedMultiSourceConflictViolations (\<lambda>c. c = sample_id CHR ''a''))
       (evaluatePolicyGate sample_host flat sample_texts sample_gate_input)
     = evaluatePolicyGate sample_host flat sample_texts (resolved_input (\<lambda>c. c = sample_id CHR ''a'') sample_gate_input)
   \<and> bi_multiSourceConflicts (gi_intent sample_gate_input) \<noteq> Some []"
proof
  have "conflict_ids_ok (gi_intent sample_gate_input)"
    by (simp add: conflict_ids_ok_def sample_gate_input_def sample_id_ok hex_chars_def)
  then show "map_sum id (pruneResolvedMultiSourceConflictViolations (\<lambda>c. c = sample_id CHR ''a''))
       (evaluatePolicyGate sample_host flat sample_texts sample_gate_input)
     = evaluatePolicyGate sample_host flat sample_texts (resolved_input (\<lambda>c. c = sample_id CHR ''a'') sample_gate_input)"
    by (rule pruning_commutes_with_gate)
qed (simp add: sample_gate_input_def)

end
