(* ===== verification/CrossFamily.thy ===== *)
theory CrossFamily
  imports JudgeData
begin

text \<open>
  The cross-family judge policy (\<^verbatim>\<open>packages/quality/src/cross-family-judge-policy.ts\<close>): validation of
  the bindings, quorum voting, classification of disagreement and escalation to a human reviewer.
\<close>

section \<open>Bindings\<close>

definition JUDGE_MODEL_FAMILIES :: "string list" where
  "JUDGE_MODEL_FAMILIES = [''anthropic'', ''azure-openai'', ''google'', ''in-house'', ''mistral'', ''openai'']"

definition JUDGE_MODEL_REGIONS :: "string list" where
  "JUDGE_MODEL_REGIONS = [''eu'', ''global'', ''us'']"

definition isJudgeModelFamily :: "string \<Rightarrow> bool" where
  "isJudgeModelFamily s \<longleftrightarrow> s \<in> set JUDGE_MODEL_FAMILIES"

definition isJudgeModelRegion :: "string \<Rightarrow> bool" where
  "isJudgeModelRegion s \<longleftrightarrow> s \<in> set JUDGE_MODEL_REGIONS"

record JudgeFamilyBinding =
  fb_judgeId :: string
  fb_family :: string
  fb_modelId :: string
  fb_promptVersion :: string
  fb_region :: string
  fb_verdict :: LogicJudgeVerdictLabel

record CrossFamilyJudgePolicyOptions =
  fo_allowSharedFamily :: "bool option"
  fo_requireEuRegion :: "bool option"
  fo_mostTrustedFamily :: "string option"

datatype JudgeDisagreementDecisionLabel =
  Majority_decision | Split_decision | Unanimous_accept | Unanimous_reject | Unanimous_repair

datatype JudgeDisagreementEscalationAction = Human_review_required | No_escalation

record CrossFamilyJudgePolicyResult =
  fp_decision :: JudgeDisagreementDecisionLabel
  fp_escalation :: JudgeDisagreementEscalationAction
  fp_disagreementRate :: rat
  fp_escalationRate :: rat
  fp_resolvedVerdict :: LogicJudgeVerdictLabel
  fp_families :: "string list"

datatype family_error =
    Empty_bindings
  | Unknown_trusted_family string
  | Empty_judge_id nat
  | Unknown_family nat string
  | Unknown_region nat string
  | Empty_model_id nat
  | Empty_prompt_version nat
  | Shared_family string string string
  | Not_eu string

section \<open>Validation\<close>

text \<open>The check of the verdict label is left out: the type has no other labels.\<close>

definition assertBinding :: "JudgeFamilyBinding \<Rightarrow> nat \<Rightarrow> family_error option" where
  "assertBinding b i =
     (if fb_judgeId b = [] then Some (Empty_judge_id i)
      else if \<not> isJudgeModelFamily (fb_family b) then Some (Unknown_family i (fb_family b))
      else if \<not> isJudgeModelRegion (fb_region b) then Some (Unknown_region i (fb_region b))
      else if fb_modelId b = [] then Some (Empty_model_id i)
      else if fb_promptVersion b = [] then Some (Empty_prompt_version i)
      else None)"

fun assert_bindings :: "nat \<Rightarrow> JudgeFamilyBinding list \<Rightarrow> family_error option" where
  "assert_bindings i [] = None"
| "assert_bindings i (b # bs) = (case assertBinding b i of Some e \<Rightarrow> Some e | None \<Rightarrow> assert_bindings (Suc i) bs)"

text \<open>\<open>seen\<close> is the map from families to the judge that bound them last.\<close>

fun shared_family :: "(string \<rightharpoonup> string) \<Rightarrow> JudgeFamilyBinding list \<Rightarrow> family_error option" where
  "shared_family seen [] = None"
| "shared_family seen (b # bs) =
     (case seen (fb_family b) of
        Some owner \<Rightarrow>
          if owner \<noteq> fb_judgeId b then Some (Shared_family (fb_family b) owner (fb_judgeId b))
          else shared_family (seen(fb_family b \<mapsto> fb_judgeId b)) bs
      | None \<Rightarrow> shared_family (seen(fb_family b \<mapsto> fb_judgeId b)) bs)"

definition assertCrossFamilyInvariant :: "JudgeFamilyBinding list \<Rightarrow> bool \<Rightarrow> family_error option" where
  "assertCrossFamilyInvariant bindings allowSharedFamily =
     (if allowSharedFamily then None else shared_family Map.empty bindings)"

definition assertEuResidency :: "JudgeFamilyBinding list \<Rightarrow> family_error option" where
  "assertEuResidency bindings = map_option (\<lambda>b. Not_eu (fb_judgeId b)) (find (\<lambda>b. fb_region b \<noteq> ''eu'') bindings)"

section \<open>Voting\<close>

fun VERDICT_RANK :: "LogicJudgeVerdictLabel \<Rightarrow> nat" where
  "VERDICT_RANK V_reject = 2"
| "VERDICT_RANK V_repair = 1"
| "VERDICT_RANK V_accept = 0"

definition tallyVerdicts :: "JudgeFamilyBinding list \<Rightarrow> LogicJudgeVerdictLabel \<Rightarrow> nat" where
  "tallyVerdicts bindings v = length (filter (\<lambda>b. fb_verdict b = v) bindings)"

definition distinctVerdicts :: "(LogicJudgeVerdictLabel \<Rightarrow> nat) \<Rightarrow> LogicJudgeVerdictLabel list" where
  "distinctVerdicts totals = filter (\<lambda>v. totals v > 0) ALLOWED_LOGIC_JUDGE_VERDICTS"

text \<open>The stable sort by falling rank puts the first verdict of the highest rank in front.\<close>

definition pickHigherSeverity :: "LogicJudgeVerdictLabel list \<Rightarrow> LogicJudgeVerdictLabel" where
  "pickHigherSeverity candidates = hd (sort_key (\<lambda>v. - int (VERDICT_RANK v)) candidates)"

definition max_votes :: "(LogicJudgeVerdictLabel \<Rightarrow> nat) \<Rightarrow> nat" where
  "max_votes totals = max (totals V_accept) (max (totals V_repair) (totals V_reject))"

definition tied_verdicts :: "(LogicJudgeVerdictLabel \<Rightarrow> nat) \<Rightarrow> LogicJudgeVerdictLabel list" where
  "tied_verdicts totals = filter (\<lambda>v. totals v = max_votes totals) (distinctVerdicts totals)"

definition classifyDecision :: "JudgeFamilyBinding list \<Rightarrow> JudgeDisagreementDecisionLabel" where
  "classifyDecision bindings =
     (let totals = tallyVerdicts bindings; ds = distinctVerdicts totals
      in if length ds = 1
         then (if ds = [V_accept] then Unanimous_accept else if ds = [V_repair] then Unanimous_repair else Unanimous_reject)
         else if length ds = 3 then Split_decision
         else if length (tied_verdicts totals) = 1 then Majority_decision
         else Split_decision)"

definition resolveQuorumVerdict :: "JudgeFamilyBinding list \<Rightarrow> family_error + LogicJudgeVerdictLabel" where
  "resolveQuorumVerdict bindings =
     (if bindings = [] then Inl Empty_bindings
      else let tied = tied_verdicts (tallyVerdicts bindings)
           in Inr (if length tied = 1 then hd tied
                   else if V_repair \<in> set tied then V_repair
                   else if V_accept \<in> set tied \<and> V_reject \<in> set tied then V_repair
                   else pickHigherSeverity tied))"

definition countDissenters :: "JudgeFamilyBinding list \<Rightarrow> LogicJudgeVerdictLabel \<Rightarrow> nat" where
  "countDissenters bindings resolvedVerdict = foldl (\<lambda>n b. if fb_verdict b = resolvedVerdict then n else n + 1) 0 bindings"

definition computeEscalation ::
  "JudgeDisagreementDecisionLabel \<Rightarrow> JudgeFamilyBinding list \<Rightarrow> LogicJudgeVerdictLabel \<Rightarrow> string option \<Rightarrow>
     JudgeDisagreementEscalationAction" where
  "computeEscalation decision bindings resolvedVerdict mostTrustedFamily =
     (if decision = Split_decision then Human_review_required
      else case mostTrustedFamily of
        None \<Rightarrow> No_escalation
      | Some trusted \<Rightarrow>
          if decision = Majority_decision
          then (case filter (\<lambda>b. fb_verdict b \<noteq> resolvedVerdict) bindings of
                  [b] \<Rightarrow> if fb_family b = trusted then Human_review_required else No_escalation
                | _ \<Rightarrow> No_escalation)
          else No_escalation)"

definition family_result ::
  "JudgeFamilyBinding list \<Rightarrow> string option \<Rightarrow> LogicJudgeVerdictLabel \<Rightarrow> CrossFamilyJudgePolicyResult" where
  "family_result bindings mostTrustedFamily resolvedVerdict =
     (let decision = classifyDecision bindings;
          escalation = computeEscalation decision bindings resolvedVerdict mostTrustedFamily
      in \<lparr> fp_decision = decision, fp_escalation = escalation,
           fp_disagreementRate = of_nat (countDissenters bindings resolvedVerdict) / of_nat (length bindings),
           fp_escalationRate = (if escalation = No_escalation then 0 else 1),
           fp_resolvedVerdict = resolvedVerdict,
           fp_families = js_sort (js_set (map fb_family bindings)) \<rparr>)"

definition assessCrossFamilyPanel ::
  "JudgeFamilyBinding list \<Rightarrow> CrossFamilyJudgePolicyOptions \<Rightarrow> family_error + CrossFamilyJudgePolicyResult" where
  "assessCrossFamilyPanel bindings options =
     (if bindings = [] then Inl Empty_bindings
      else if (case fo_mostTrustedFamily options of None \<Rightarrow> False | Some f \<Rightarrow> \<not> isJudgeModelFamily f)
      then Inl (Unknown_trusted_family (the (fo_mostTrustedFamily options)))
      else case assert_bindings 0 bindings of
        Some e \<Rightarrow> Inl e
      | None \<Rightarrow>
          (case assertCrossFamilyInvariant bindings (fo_allowSharedFamily options = Some True) of
             Some e \<Rightarrow> Inl e
           | None \<Rightarrow>
               (case (if fo_requireEuRegion options = Some True then assertEuResidency bindings else None) of
                  Some e \<Rightarrow> Inl e
                | None \<Rightarrow> map_sum id (family_result bindings (fo_mostTrustedFamily options)) (resolveQuorumVerdict bindings))))"

section \<open>Specification\<close>

text \<open>Two bindings of one family belong to one judge.\<close>

definition one_judge :: "JudgeFamilyBinding \<Rightarrow> JudgeFamilyBinding \<Rightarrow> bool" where
  "one_judge b c \<longleftrightarrow> (fb_family b = fb_family c \<longrightarrow> fb_judgeId b = fb_judgeId c)"

definition panel_valid :: "JudgeFamilyBinding list \<Rightarrow> CrossFamilyJudgePolicyOptions \<Rightarrow> bool" where
  "panel_valid bindings options \<longleftrightarrow>
     bindings \<noteq> []
     \<and> (\<forall>f. fo_mostTrustedFamily options = Some f \<longrightarrow> isJudgeModelFamily f)
     \<and> (\<forall>b\<in>set bindings. fb_judgeId b \<noteq> [] \<and> isJudgeModelFamily (fb_family b) \<and> isJudgeModelRegion (fb_region b)
          \<and> fb_modelId b \<noteq> [] \<and> fb_promptVersion b \<noteq> [])
     \<and> (fo_allowSharedFamily options = Some True
          \<or> (\<forall>b\<in>set bindings. \<forall>c\<in>set bindings. one_judge b c))
     \<and> (fo_requireEuRegion options = Some True \<longrightarrow> (\<forall>b\<in>set bindings. fb_region b = ''eu''))"

definition beats :: "(LogicJudgeVerdictLabel \<Rightarrow> nat) \<Rightarrow> LogicJudgeVerdictLabel \<Rightarrow> bool" where
  "beats totals v \<longleftrightarrow> (\<forall>w. w \<noteq> v \<longrightarrow> totals w < totals v)"

lemma label_cases [simp]: "set ALLOWED_LOGIC_JUDGE_VERDICTS = UNIV"
  using LogicJudgeVerdictLabel.exhaust by (auto simp: ALLOWED_LOGIC_JUDGE_VERDICTS_def)

lemma all_labels: "(\<forall>v :: LogicJudgeVerdictLabel. P v) \<longleftrightarrow> P V_accept \<and> P V_repair \<and> P V_reject"
  by (metis LogicJudgeVerdictLabel.exhaust)

lemma assert_bindings_None:
  "assert_bindings i bs = None \<longleftrightarrow> (\<forall>b\<in>set bs. fb_judgeId b \<noteq> [] \<and> isJudgeModelFamily (fb_family b)
     \<and> isJudgeModelRegion (fb_region b) \<and> fb_modelId b \<noteq> [] \<and> fb_promptVersion b \<noteq> [])"
  by (induction i bs rule: assert_bindings.induct) (auto simp: assertBinding_def split: if_splits option.splits)

lemma one_judge_sym: "one_judge b c = one_judge c b"
  by (auto simp: one_judge_def)

lemma one_judge_insert:
  "(\<forall>b\<in>insert x S. \<forall>c\<in>insert x S. one_judge b c) \<longleftrightarrow> (\<forall>c\<in>S. one_judge x c) \<and> (\<forall>b\<in>S. \<forall>c\<in>S. one_judge b c)"
proof -
  have "one_judge x x" by (simp add: one_judge_def)
  then show ?thesis using one_judge_sym by blast
qed

lemma shared_family_None:
  "shared_family seen bs = None \<longleftrightarrow>
     (\<forall>b\<in>set bs. case seen (fb_family b) of None \<Rightarrow> True | Some j \<Rightarrow> j = fb_judgeId b)
     \<and> (\<forall>b\<in>set bs. \<forall>c\<in>set bs. one_judge b c)"
proof (induction bs arbitrary: seen)
  case (Cons b bs)
  define A where "A c \<longleftrightarrow> (case seen (fb_family c) of None \<Rightarrow> True | Some j \<Rightarrow> j = fb_judgeId c)" for c :: JudgeFamilyBinding
  have "shared_family seen (b # bs) = None \<longleftrightarrow> A b \<and> shared_family (seen(fb_family b \<mapsto> fb_judgeId b)) bs = None"
    by (cases "seen (fb_family b)") (simp_all add: A_def)
  moreover have "A b \<Longrightarrow> (case (seen(fb_family b \<mapsto> fb_judgeId b)) (fb_family c) of None \<Rightarrow> True | Some j \<Rightarrow> j = fb_judgeId c)
      \<longleftrightarrow> A c \<and> one_judge b c" for c
    by (auto simp: A_def one_judge_def split: option.splits)
  ultimately have "shared_family seen (b # bs) = None \<longleftrightarrow>
      A b \<and> (\<forall>c\<in>set bs. A c \<and> one_judge b c) \<and> (\<forall>b\<in>set bs. \<forall>c\<in>set bs. one_judge b c)"
    using Cons.IH [of "seen(fb_family b \<mapsto> fb_judgeId b)"] by (cases "A b") simp_all
  then show ?case unfolding list.set one_judge_insert A_def [symmetric] by blast
qed simp

lemma assertEuResidency_None: "assertEuResidency bs = None \<longleftrightarrow> (\<forall>b\<in>set bs. fb_region b = ''eu'')"
  by (auto simp: assertEuResidency_def find_None_iff)

lemma countDissenters_eq: "countDissenters bs v = length (filter (\<lambda>b. fb_verdict b \<noteq> v) bs)"
proof -
  have "foldl (\<lambda>n b. if fb_verdict b = v then n else n + 1) k bs = k + length (filter (\<lambda>b. fb_verdict b \<noteq> v) bs)" for k
    by (induction bs arbitrary: k) simp_all
  then show ?thesis by (simp add: countDissenters_def)
qed

lemma tally_pos: "tallyVerdicts bs v > 0 \<longleftrightarrow> (\<exists>b\<in>set bs. fb_verdict b = v)"
  by (auto simp: tallyVerdicts_def filter_empty_conv)

lemma tied_iff: "v \<in> set (tied_verdicts totals) \<longleftrightarrow> totals v > 0 \<and> (\<forall>w. totals w \<le> totals v)"
  by (cases v) (auto simp: tied_verdicts_def distinctVerdicts_def max_votes_def all_labels)

lemma distinct_labels: "distinct (distinctVerdicts totals)" "distinct (tied_verdicts totals)"
  by (simp_all add: tied_verdicts_def distinctVerdicts_def ALLOWED_LOGIC_JUDGE_VERDICTS_def)

lemma tied_beats: "totals w > 0 \<Longrightarrow> beats totals v \<longleftrightarrow> set (tied_verdicts totals) = {v}"
  unfolding set_eq_iff tied_iff beats_def all_labels by (cases v; cases w) auto

lemma resolve_exact:
  assumes "bs \<noteq> []"
  obtains v where "resolveQuorumVerdict bs = Inr v"
    "beats (tallyVerdicts bs) v \<or> (v = V_repair \<and> (\<nexists>w. beats (tallyVerdicts bs) w))"
proof -
  let ?tied = "tied_verdicts (tallyVerdicts bs)"
  obtain w where w: "tallyVerdicts bs w > 0" using assms tally_pos [of bs] by (metis last_in_set)
  show thesis
  proof (cases "length ?tied = 1")
    case True
    then obtain v where v: "?tied = [v]" by (auto simp: length_Suc_conv)
    then have "beats (tallyVerdicts bs) v" using tied_beats [of "tallyVerdicts bs", OF w] by simp
    with v that assms show ?thesis by (simp add: resolveQuorumVerdict_def)
  next
    case False
    have none: "\<nexists>v. beats (tallyVerdicts bs) v"
      using False distinct_card [OF distinct_labels(2)] tied_beats [of "tallyVerdicts bs", OF w] by (metis is_singletonI is_singleton_altdef)
    then have "V_repair \<in> set ?tied \<or> (V_accept \<in> set ?tied \<and> V_reject \<in> set ?tied)"
      unfolding tied_iff beats_def all_labels not_ex using w by (cases w) auto
    with False that none assms show ?thesis by (auto simp: resolveQuorumVerdict_def Let_def)
  qed
qed

lemma assess_valid: "panel_valid bs options \<Longrightarrow>
    assessCrossFamilyPanel bs options = map_sum id (family_result bs (fo_mostTrustedFamily options)) (resolveQuorumVerdict bs)"
  and assess_invalid: "\<not> panel_valid bs options \<Longrightarrow> \<exists>e. assessCrossFamilyPanel bs options = Inl e"
proof -
  have shared: "assertCrossFamilyInvariant bs b = None \<longleftrightarrow> b \<or> (\<forall>b\<in>set bs. \<forall>c\<in>set bs. one_judge b c)" for b
    by (simp add: assertCrossFamilyInvariant_def shared_family_None)
  have "panel_valid bs options \<longleftrightarrow> bs \<noteq> [] \<and> \<not> (case fo_mostTrustedFamily options of None \<Rightarrow> False | Some f \<Rightarrow> \<not> isJudgeModelFamily f)
      \<and> assert_bindings 0 bs = None \<and> assertCrossFamilyInvariant bs (fo_allowSharedFamily options = Some True) = None
      \<and> (if fo_requireEuRegion options = Some True then assertEuResidency bs else None) = None"
    unfolding panel_valid_def assert_bindings_None shared
    by (cases "fo_mostTrustedFamily options") (simp_all add: assertEuResidency_None)
  then show "panel_valid bs options \<Longrightarrow>
    assessCrossFamilyPanel bs options = map_sum id (family_result bs (fo_mostTrustedFamily options)) (resolveQuorumVerdict bs)"
    and "\<not> panel_valid bs options \<Longrightarrow> \<exists>e. assessCrossFamilyPanel bs options = Inl e"
    by (auto simp: assessCrossFamilyPanel_def split: option.split if_splits)
qed

lemma one_distinct: "distinctVerdicts totals = [v] \<longleftrightarrow> totals v > 0 \<and> (\<forall>w. w \<noteq> v \<longrightarrow> totals w = 0)"
  unfolding all_labels by (cases v) (auto simp: distinctVerdicts_def ALLOWED_LOGIC_JUDGE_VERDICTS_def)

lemma three_distinct: "length (distinctVerdicts totals) = 3 \<longleftrightarrow> (\<forall>v. totals v > 0)"
  unfolding all_labels by (simp add: distinctVerdicts_def ALLOWED_LOGIC_JUDGE_VERDICTS_def)

lemma one_tied: "totals w > 0 \<Longrightarrow> length (tied_verdicts totals) = 1 \<longleftrightarrow> (\<exists>v. beats totals v)"
  using distinct_card [OF distinct_labels(2), of totals] tied_beats [of totals]
  by (metis card_1_singletonE is_singletonI is_singleton_altdef)

definition unanimous :: "LogicJudgeVerdictLabel \<Rightarrow> JudgeFamilyBinding list \<Rightarrow> bool" where
  "unanimous v bs = list_all (\<lambda>b. fb_verdict b = v) bs"

lemma unanimous_iff: "bs \<noteq> [] \<Longrightarrow> unanimous v bs \<longleftrightarrow> distinctVerdicts (tallyVerdicts bs) = [v]"
  unfolding one_distinct tally_pos by (cases bs) (auto simp: unanimous_def list_all_iff tallyVerdicts_def filter_empty_conv)

lemma classify_exact:
  assumes "bs \<noteq> []"
  shows "classifyDecision bs =
    (if unanimous V_accept bs then Unanimous_accept
     else if unanimous V_repair bs then Unanimous_repair
     else if unanimous V_reject bs then Unanimous_reject
     else if (\<exists>v. tallyVerdicts bs v = 0) \<and> (\<exists>v. beats (tallyVerdicts bs) v) then Majority_decision
     else Split_decision)"
proof -
  obtain w where w: "tallyVerdicts bs w > 0" using assms tally_pos [of bs] by (metis last_in_set)
  let ?ds = "distinctVerdicts (tallyVerdicts bs)"
  define Z where "Z \<longleftrightarrow> (\<exists>v. tallyVerdicts bs v = 0)"
  have three: "length ?ds = 3 \<longleftrightarrow> \<not> Z" unfolding three_distinct Z_def by auto
  have one: "length ?ds = 1 \<longleftrightarrow> ?ds = [V_accept] \<or> ?ds = [V_repair] \<or> ?ds = [V_reject]"
    by (auto simp: length_Suc_conv intro: LogicJudgeVerdictLabel.exhaust)
  show ?thesis
    unfolding classifyDecision_def Let_def unanimous_iff [OF assms] one three one_tied [of "tallyVerdicts bs", OF w]
      Z_def [symmetric] by auto
qed

section \<open>Property\<close>

text \<open>
  Assessing a panel raises exactly when the panel is invalid (empty, an unknown family or region,
  a missing identifier, two judges of one family without the override, a judge outside the EU when
  residency is required). Otherwise the verdict is the one with strictly more votes than each other,
  or repair when there is none; the decision is unanimous, majority (two labels, one ahead) or split;
  a human is required exactly for a split or when the only dissenter is of the most trusted family;
  the disagreement rate is a fraction between 0 and 1 that is 0 exactly when nobody dissents.
\<close>

theorem cross_family_assessment_exact:
  "(case assessCrossFamilyPanel bs options of
      Inl e \<Rightarrow> panel_valid bs options = False
    | Inr r \<Rightarrow> panel_valid bs options
        \<and> (beats (tallyVerdicts bs) (fp_resolvedVerdict r)
            \<or> (fp_resolvedVerdict r = V_repair \<and> (\<nexists>w. beats (tallyVerdicts bs) w)))
        \<and> fp_decision r =
            (if unanimous V_accept bs then Unanimous_accept
             else if unanimous V_repair bs then Unanimous_repair
             else if unanimous V_reject bs then Unanimous_reject
             else if (\<exists>v. tallyVerdicts bs v = 0) \<and> (\<exists>v. beats (tallyVerdicts bs) v) then Majority_decision
             else Split_decision)
        \<and> (fp_escalation r = Human_review_required \<longleftrightarrow>
             fp_decision r = Split_decision
             \<or> (fp_decision r = Majority_decision
                \<and> (\<exists>b. filter (\<lambda>b. fb_verdict b \<noteq> fp_resolvedVerdict r) bs = [b]
                        \<and> fo_mostTrustedFamily options = Some (fb_family b))))
        \<and> 0 \<le> fp_disagreementRate r \<and> fp_disagreementRate r \<le> 1
        \<and> (fp_disagreementRate r = 0 \<longleftrightarrow> unanimous (fp_resolvedVerdict r) bs)
        \<and> fp_escalationRate r = (if fp_escalation r = Human_review_required then 1 else 0))"
proof (cases "panel_valid bs options")
  case True
  then have ne: "bs \<noteq> []" by (simp add: panel_valid_def)
  obtain v where v: "resolveQuorumVerdict bs = Inr v"
    "beats (tallyVerdicts bs) v \<or> (v = V_repair \<and> (\<nexists>w. beats (tallyVerdicts bs) w))" using resolve_exact [OF ne] .
  let ?n = "length (filter (\<lambda>b. fb_verdict b \<noteq> v) bs)"
  have n: "?n \<le> length bs" "?n = 0 \<longleftrightarrow> unanimous v bs" "length bs > 0"
    using ne by (simp_all add: unanimous_def list_all_iff filter_empty_conv)
  have esc: "computeEscalation d bs v t = Human_review_required \<longleftrightarrow> d = Split_decision
      \<or> (d = Majority_decision \<and> (\<exists>b. filter (\<lambda>b. fb_verdict b \<noteq> v) bs = [b] \<and> t = Some (fb_family b)))" for d t
    by (auto simp: computeEscalation_def split: option.split list.split)
  have rate: "0 \<le> (of_nat ?n / of_nat (length bs) :: rat)" "(of_nat ?n / of_nat (length bs) :: rat) \<le> 1"
    "(of_nat ?n / of_nat (length bs) :: rat) = 0 \<longleftrightarrow> unanimous v bs"
    using n by (simp_all add: divide_le_eq)
  define r where "r = family_result bs (fo_mostTrustedFamily options) v"
  have r: "fp_decision r = classifyDecision bs" "fp_resolvedVerdict r = v"
    "fp_escalation r = computeEscalation (classifyDecision bs) bs v (fo_mostTrustedFamily options)"
    "fp_disagreementRate r = of_nat ?n / of_nat (length bs)"
    "fp_escalationRate r = (if fp_escalation r = Human_review_required then 1 else 0)"
    by (auto simp: r_def family_result_def Let_def countDissenters_eq
        intro: JudgeDisagreementEscalationAction.exhaust [of "computeEscalation (classifyDecision bs) bs v (fo_mostTrustedFamily options)"])
  have "assessCrossFamilyPanel bs options = Inr r" unfolding assess_valid [OF True] v map_sum.simps r_def by (rule refl)
  then show ?thesis
    using True v(2) rate esc [of "classifyDecision bs" "fo_mostTrustedFamily options"]
    by (simp only: sum.case r classify_exact [OF ne, symmetric] simp_thms)
qed (use assess_invalid [of bs options] in auto)

end
