(* ===== verification/HumanReview.thy ===== *)
theory HumanReview
  imports CrossFamily
begin

text \<open>
  The human-review envelope (\<^verbatim>\<open>packages/production-runner/src/human-review-agent.ts\<close>): building a
  decision record, the dry-run marker, and validating a reloaded record. SHA-256 is a parameter.
  Labels are strings, since the code checks them at run time.
\<close>

section \<open>Checks\<close>

definition HUMAN_REVIEW_DECISION_SCHEMA_VERSION :: string where
  "HUMAN_REVIEW_DECISION_SCHEMA_VERSION = ''1.0.0''"

definition HUMAN_REVIEW_REVIEWER_KINDS :: "string list" where
  "HUMAN_REVIEW_REVIEWER_KINDS = [''dry_run_marker'', ''principal'']"

definition HUMAN_REVIEW_VERDICT_LABELS :: "string list" where
  "HUMAN_REVIEW_VERDICT_LABELS = [''accept'', ''deferred'', ''reject'', ''repair'']"

definition JUDGE_DISAGREEMENT_DECISION_LABELS :: "string list" where
  "JUDGE_DISAGREEMENT_DECISION_LABELS =
     [''majority_decision'', ''split_decision'', ''unanimous_accept'', ''unanimous_reject'', ''unanimous_repair'']"

definition HUMAN_REVIEW_RATIONALE_MAX_CHARS :: nat where
  "HUMAN_REVIEW_RATIONALE_MAX_CHARS = 1024"

datatype human_review_error =
    Schema_version string
  | Unknown_reviewer_kind string
  | Principal_hash string
  | Principal_id_missing
  | Unknown_review_verdict string
  | Rationale_empty
  | Rationale_too_long nat
  | Rationale_forbidden nat
  | Decided_at_empty
  | Decided_at_invalid string
  | Triggered_by_empty
  | Triggered_by_unknown string

definition isHumanReviewReviewerKind :: "string \<Rightarrow> bool" where
  "isHumanReviewReviewerKind s \<longleftrightarrow> s \<in> set HUMAN_REVIEW_REVIEWER_KINDS"

definition isHex64 :: "string \<Rightarrow> bool" where
  "isHex64 s \<longleftrightarrow> length s = 64 \<and> list_all (\<lambda>c. c \<in> set ''0123456789abcdef'') s"

text \<open>The line feed and the carriage return; U+2028 and U+2029 are no code units of the model.\<close>

definition FORBIDDEN_RATIONALE_CHARS :: "nat list" where
  "FORBIDDEN_RATIONALE_CHARS = [10, 13]"

definition assertRationale :: "string \<Rightarrow> human_review_error option" where
  "assertRationale rationale =
     (if rationale = [] then Some Rationale_empty
      else if length rationale > HUMAN_REVIEW_RATIONALE_MAX_CHARS then Some (Rationale_too_long (length rationale))
      else map_option Rationale_forbidden (find (\<lambda>c. char_of c \<in> set rationale) FORBIDDEN_RATIONALE_CHARS))"

definition digit :: "char \<Rightarrow> bool" where
  "digit c \<longleftrightarrow> c \<in> set ''0123456789''"

definition strip_digits :: "nat \<Rightarrow> string \<Rightarrow> string option" where
  "strip_digits n s = (if length (take n s) = n \<and> list_all digit (take n s) then Some (drop n s) else None)"

fun strip_all :: "(string \<Rightarrow> string option) list \<Rightarrow> string \<Rightarrow> string option" where
  "strip_all [] s = Some s"
| "strip_all (p # ps) s = Option.bind (p s) (strip_all ps)"

text \<open>\<^verbatim>\<open>(?:\.\d{1,9})?\<close>; what follows a fraction is never a digit.\<close>

definition strip_fraction :: "string \<Rightarrow> string option" where
  "strip_fraction s =
     (case strip_prefix ''.'' s of
        None \<Rightarrow> Some s
      | Some rest \<Rightarrow>
          let n = length (takeWhile digit rest) in if 1 \<le> n \<and> n \<le> 9 then Some (drop n rest) else None)"

definition zone_end :: "string \<Rightarrow> bool" where
  "zone_end s \<longleftrightarrow> s = ''Z''
     \<or> (case s of [] \<Rightarrow> False
        | c # rest \<Rightarrow> (c = CHR ''+'' \<or> c = CHR ''-'')
            \<and> strip_all [strip_digits 2, strip_prefix '':'', strip_digits 2] rest = Some [])"

definition ISO_8601 :: "string \<Rightarrow> bool" where
  "ISO_8601 s =
     (case strip_all [strip_digits 4, strip_prefix ''-'', strip_digits 2, strip_prefix ''-'', strip_digits 2,
             strip_prefix ''T'', strip_digits 2, strip_prefix '':'', strip_digits 2, strip_prefix '':'',
             strip_digits 2, strip_fraction] s of
        None \<Rightarrow> False
      | Some rest \<Rightarrow> zone_end rest)"

definition assertDecidedAt :: "string \<Rightarrow> human_review_error option" where
  "assertDecidedAt decidedAt =
     (if decidedAt = [] then Some Decided_at_empty
      else if \<not> ISO_8601 decidedAt then Some (Decided_at_invalid decidedAt) else None)"

definition assertVerdict :: "string \<Rightarrow> human_review_error option" where
  "assertVerdict verdict = (if verdict \<in> set HUMAN_REVIEW_VERDICT_LABELS then None else Some (Unknown_review_verdict verdict))"

definition assertReviewerKind :: "string \<Rightarrow> human_review_error option" where
  "assertReviewerKind kind = (if isHumanReviewReviewerKind kind then None else Some (Unknown_reviewer_kind kind))"

definition assertTriggeredBy :: "string \<Rightarrow> human_review_error option" where
  "assertTriggeredBy triggeredBy =
     (if triggeredBy = [] then Some Triggered_by_empty
      else if triggeredBy \<in> set JUDGE_DISAGREEMENT_DECISION_LABELS then None
      else Some (Triggered_by_unknown triggeredBy))"

text \<open>The first failing check of a sequence.\<close>

fun first_error :: "'e option list \<Rightarrow> 'e option" where
  "first_error [] = None"
| "first_error (Some e # cs) = Some e"
| "first_error (None # cs) = first_error cs"

lemma first_error_None [simp]: "first_error cs = None \<longleftrightarrow> list_all (\<lambda>c. c = None) cs"
  by (induction cs rule: first_error.induct) simp_all

section \<open>Envelopes\<close>

record HumanReviewDecision =
  hr_schemaVersion :: string
  hr_reviewerKind :: string
  hr_principalHash :: string
  hr_verdict :: string
  hr_rationale :: string
  hr_decidedAt :: string
  hr_triggeredBy :: string

record BuildHumanReviewDecisionInput =
  bh_reviewerKind :: "string option"
  bh_principalId :: "string option"
  bh_principalHash :: "string option"
  bh_verdict :: string
  bh_rationale :: string
  bh_decidedAt :: string
  bh_triggeredBy :: string

definition DRY_RUN_PRINCIPAL_ID :: string where
  "DRY_RUN_PRINCIPAL_ID = ''dry-run-marker''"

definition resolve_principal ::
  "(string \<Rightarrow> string) \<Rightarrow> string \<Rightarrow> BuildHumanReviewDecisionInput \<Rightarrow> human_review_error + string" where
  "resolve_principal sha256Hex reviewerKind input =
     (case bh_principalHash input of
        Some h \<Rightarrow> if isHex64 h then Inr h else Inl (Principal_hash h)
      | None \<Rightarrow>
          let given = (case bh_principalId input of None \<Rightarrow> [] | Some i \<Rightarrow> i);
              principalId = (if given \<noteq> [] then given else DRY_RUN_PRINCIPAL_ID)
          in if reviewerKind = ''principal'' \<and> given = [] then Inl Principal_id_missing
             else Inr (sha256Hex principalId))"

definition buildHumanReviewDecision ::
  "(string \<Rightarrow> string) \<Rightarrow> BuildHumanReviewDecisionInput \<Rightarrow> human_review_error + HumanReviewDecision" where
  "buildHumanReviewDecision sha256Hex input =
     (let reviewerKind = (case bh_reviewerKind input of None \<Rightarrow> ''dry_run_marker'' | Some k \<Rightarrow> k)
      in case first_error [assertReviewerKind reviewerKind, assertVerdict (bh_verdict input),
                assertRationale (bh_rationale input), assertDecidedAt (bh_decidedAt input),
                assertTriggeredBy (bh_triggeredBy input)] of
           Some e \<Rightarrow> Inl e
         | None \<Rightarrow>
             map_sum id (\<lambda>principalHash.
               \<lparr> hr_schemaVersion = HUMAN_REVIEW_DECISION_SCHEMA_VERSION, hr_reviewerKind = reviewerKind,
                 hr_principalHash = principalHash, hr_verdict = bh_verdict input, hr_rationale = bh_rationale input,
                 hr_decidedAt = bh_decidedAt input, hr_triggeredBy = bh_triggeredBy input \<rparr>)
               (resolve_principal sha256Hex reviewerKind input))"

definition buildDryRunHumanReviewMarker ::
  "(string \<Rightarrow> string) \<Rightarrow> string \<Rightarrow> string \<Rightarrow> string \<Rightarrow> human_review_error + HumanReviewDecision" where
  "buildDryRunHumanReviewMarker sha256Hex rationale decidedAt triggeredBy =
     buildHumanReviewDecision sha256Hex
       \<lparr> bh_reviewerKind = Some ''dry_run_marker'', bh_principalId = None, bh_principalHash = None,
         bh_verdict = ''deferred'', bh_rationale = rationale, bh_decidedAt = decidedAt, bh_triggeredBy = triggeredBy \<rparr>"

definition assertHumanReviewDecisionInvariants :: "HumanReviewDecision \<Rightarrow> human_review_error option" where
  "assertHumanReviewDecisionInvariants d =
     first_error
       [(if hr_schemaVersion d \<noteq> HUMAN_REVIEW_DECISION_SCHEMA_VERSION then Some (Schema_version (hr_schemaVersion d)) else None),
        assertReviewerKind (hr_reviewerKind d),
        (if \<not> isHex64 (hr_principalHash d) then Some (Principal_hash (hr_principalHash d)) else None),
        assertVerdict (hr_verdict d), assertRationale (hr_rationale d), assertDecidedAt (hr_decidedAt d),
        assertTriggeredBy (hr_triggeredBy d)]"

definition hashPrincipalId :: "(string \<Rightarrow> string) \<Rightarrow> string \<Rightarrow> human_review_error + string" where
  "hashPrincipalId sha256Hex principalId = (if principalId = [] then Inl Principal_id_missing else Inr (sha256Hex principalId))"

section \<open>Property\<close>

text \<open>
  When SHA-256 yields 64 lower-case hexadecimal digits, every envelope that is built passes the
  validation applied when it is reloaded; its rationale has at most 1024 characters and no line break;
  a live principal is always identified by a hash given or computed from a non-empty id; and the
  dry-run marker always defers.
\<close>

theorem human_review_envelope_valid:
  assumes "\<forall>s. isHex64 (sha256Hex s)"
  shows "(case buildHumanReviewDecision sha256Hex input of
      Inl e \<Rightarrow> True
    | Inr d \<Rightarrow> assertHumanReviewDecisionInvariants d = None
        \<and> length (hr_rationale d) \<le> 1024 \<and> char_of (10 :: nat) \<notin> set (hr_rationale d) \<and> char_of (13 :: nat) \<notin> set (hr_rationale d)
        \<and> (hr_reviewerKind d \<noteq> ''principal'' \<or> bh_principalHash input = Some (hr_principalHash d)
            \<or> (\<exists>i. bh_principalId input = Some i \<and> i \<noteq> [] \<and> hr_principalHash d = sha256Hex i)))
    \<and> (case buildDryRunHumanReviewMarker sha256Hex rationale decidedAt triggeredBy of
         Inl e \<Rightarrow> True
       | Inr d \<Rightarrow> hr_verdict d = ''deferred'' \<and> hr_reviewerKind d = ''dry_run_marker'')"
proof (intro conjI)
  show "(case buildHumanReviewDecision sha256Hex input of
      Inl e \<Rightarrow> True
    | Inr d \<Rightarrow> assertHumanReviewDecisionInvariants d = None
        \<and> length (hr_rationale d) \<le> 1024 \<and> char_of (10 :: nat) \<notin> set (hr_rationale d) \<and> char_of (13 :: nat) \<notin> set (hr_rationale d)
        \<and> (hr_reviewerKind d \<noteq> ''principal'' \<or> bh_principalHash input = Some (hr_principalHash d)
            \<or> (\<exists>i. bh_principalId input = Some i \<and> i \<noteq> [] \<and> hr_principalHash d = sha256Hex i)))"
  proof (cases "buildHumanReviewDecision sha256Hex input")
    case (Inr d)
    define kind where "kind = (case bh_reviewerKind input of None \<Rightarrow> ''dry_run_marker'' | Some k \<Rightarrow> k)"
    from Inr obtain h where ok: "assertReviewerKind kind = None" "assertVerdict (bh_verdict input) = None"
        "assertRationale (bh_rationale input) = None" "assertDecidedAt (bh_decidedAt input) = None"
        "assertTriggeredBy (bh_triggeredBy input) = None"
      and h: "resolve_principal sha256Hex kind input = Inr h"
      and d: "d = \<lparr> hr_schemaVersion = HUMAN_REVIEW_DECISION_SCHEMA_VERSION, hr_reviewerKind = kind,
                 hr_principalHash = h, hr_verdict = bh_verdict input, hr_rationale = bh_rationale input,
                 hr_decidedAt = bh_decidedAt input, hr_triggeredBy = bh_triggeredBy input \<rparr>"
      unfolding buildHumanReviewDecision_def Let_def kind_def [symmetric]
      by (cases "resolve_principal sha256Hex kind input") (auto split: option.split_asm)
    have hex: "isHex64 h" using h assms by (auto simp: resolve_principal_def Let_def split: option.split_asm if_split_asm)
    have "assertHumanReviewDecisionInvariants d = None"
      using ok hex by (simp add: assertHumanReviewDecisionInvariants_def d)
    moreover have "length (bh_rationale input) \<le> 1024 \<and> char_of (10 :: nat) \<notin> set (bh_rationale input)
        \<and> char_of (13 :: nat) \<notin> set (bh_rationale input)"
      using ok(3) by (auto simp: assertRationale_def HUMAN_REVIEW_RATIONALE_MAX_CHARS_def FORBIDDEN_RATIONALE_CHARS_def
          split: if_split_asm)
    moreover have "kind \<noteq> ''principal'' \<or> bh_principalHash input = Some h
        \<or> (\<exists>i. bh_principalId input = Some i \<and> i \<noteq> [] \<and> h = sha256Hex i)"
      using h by (auto simp: resolve_principal_def Let_def split: option.split_asm if_split_asm)
    ultimately show ?thesis unfolding Inr by (simp add: d)
  qed simp
  show "case buildDryRunHumanReviewMarker sha256Hex rationale decidedAt triggeredBy of
         Inl e \<Rightarrow> True | Inr d \<Rightarrow> hr_verdict d = ''deferred'' \<and> hr_reviewerKind d = ''dry_run_marker''"
    by (cases "buildDryRunHumanReviewMarker sha256Hex rationale decidedAt triggeredBy")
       (auto simp: buildDryRunHumanReviewMarker_def buildHumanReviewDecision_def resolve_principal_def Let_def
         split: option.split_asm)
qed

text \<open>A live principal who accepts a split decision.\<close>

definition sample_review :: BuildHumanReviewDecisionInput where
  "sample_review = \<lparr> bh_reviewerKind = Some ''principal'', bh_principalId = Some ''alice'', bh_principalHash = None,
     bh_verdict = ''accept'', bh_rationale = ''checked against the mock-up'', bh_decidedAt = ''2026-01-02T03:04:05.5+01:00'',
     bh_triggeredBy = ''split_decision'' \<rparr>"

theorem human_review_envelope_valid_witness:
  "\<exists>d. buildHumanReviewDecision (\<lambda>_. replicate 64 CHR ''a'') sample_review = Inr d
     \<and> assertHumanReviewDecisionInvariants d = None \<and> hr_principalHash d = replicate 64 CHR ''a''"
proof -
  let ?sha = "\<lambda>_ :: string. replicate 64 CHR ''a''"
  have hex: "\<forall>s. isHex64 (?sha s)" by (simp add: isHex64_def list_all_iff)
  have "map_sum (\<lambda>_. ()) hr_principalHash (buildHumanReviewDecision ?sha sample_review) = Inr (replicate 64 CHR ''a'')"
    by code_simp
  then obtain d where "buildHumanReviewDecision ?sha sample_review = Inr d" "hr_principalHash d = replicate 64 CHR ''a''"
    by (cases "buildHumanReviewDecision ?sha sample_review") auto
  with human_review_envelope_valid [OF hex, of sample_review] show ?thesis by auto
qed

end
