(* ===== verification/JudgeConsensus.thy ===== *)
theory JudgeConsensus
  imports HumanReview PolicyInputs
begin

text \<open>
  The judge consensus (\<^verbatim>\<open>packages/production-runner/src/judge-consensus.ts\<close>): panel entries of the
  judges, vetoes, voting, deduplicated findings and repair instructions, and the artefact with its
  cross-family summary and human-review decision. The host's collation is a parameter; weights are
  exact rationals.
\<close>

section \<open>Data\<close>

text \<open>The scope is missing on findings that were built before it existed.\<close>

record JudgeConsensusFinding =
  cf_scope :: "string option"
  cf_testCaseId :: string
  cf_code :: string
  cf_message :: string
  cf_severity :: "string option"
  cf_category :: string

record JudgeConsensusPanelEntry =
  je_judgeId :: string
  je_verdict :: LogicJudgeVerdictLabel
  je_weight :: js_number
  je_confidence :: "js_number option"
  je_findings :: "JudgeConsensusFinding list"
  je_repairInstructions :: "RepairInstruction list"
  je_truncatedInstructionCount :: "int option"
  je_family :: "string option"
  je_region :: "string option"
  je_modelId :: "string option"
  je_promptVersion :: "string option"

datatype JudgeConsensusAgreementShape = Unanimous | Majority | Split | Vetoed

datatype JudgeConsensusRepairState = No_repair | Repair_required | Repaired

definition JUDGE_CONSENSUS_REPAIR_OUTCOMES :: "string list" where
  "JUDGE_CONSENSUS_REPAIR_OUTCOMES =
     [''not_needed'', ''accepted'', ''rejected'', ''needs_review'', ''convergence_stalled'', ''budget_exhausted'']"

record JudgeConsensusVeto =
  ve_judgeId :: string
  ve_verdict :: LogicJudgeVerdictLabel
  ve_findingCodes :: "string list"

record JudgeConsensusRepairHistory =
  rh_attempted :: bool
  rh_repairIterationCount :: int
  rh_finalOutcome :: string
  rh_historicalFindings :: "JudgeConsensusFinding list"
  rh_historicalRepairInstructions :: "RepairInstruction list"
  rh_truncatedInstructionCount :: int

text \<open>\<^verbatim>\<open>Partial<JudgeConsensusRepairHistory>\<close>\<close>

record partial_repair_history =
  ph_attempted :: "bool option"
  ph_repairIterationCount :: "int option"
  ph_finalOutcome :: "string option"
  ph_historicalFindings :: "JudgeConsensusFinding list option"
  ph_historicalRepairInstructions :: "RepairInstruction list option"

record JudgeCrossFamilySummary =
  xs_decision :: JudgeDisagreementDecisionLabel
  xs_escalation :: JudgeDisagreementEscalationAction
  xs_families :: "string list"
  xs_disagreementRate :: rat
  xs_escalationRate :: rat

record JudgeConsensusVerdict =
  cv_generatedAt :: string
  cv_jobId :: string
  cv_verdict :: LogicJudgeVerdictLabel
  cv_agreementShape :: JudgeConsensusAgreementShape
  cv_repairState :: JudgeConsensusRepairState
  cv_activeFindings :: "JudgeConsensusFinding list"
  cv_repairInstructions :: "RepairInstruction list"
  cv_truncatedInstructionCount :: int
  cv_repairHistory :: JudgeConsensusRepairHistory
  cv_vetoBy :: "JudgeConsensusVeto option"
  cv_panel :: "JudgeConsensusPanelEntry list"
  cv_humanReview :: "HumanReviewDecision option"
  cv_crossFamily :: "JudgeCrossFamilySummary option"

record BuildJudgeConsensusInput =
  jc_jobId :: string
  jc_generatedAt :: string
  jc_panel :: "JudgeConsensusPanelEntry list"
  jc_repairHistory :: "partial_repair_history option"
  jc_humanReview :: "HumanReviewDecision option"
  jc_crossFamilyOptions :: "CrossFamilyJudgePolicyOptions option"

datatype consensus_error =
    Empty_job_id
  | Empty_panel
  | Panel_family string string
  | Panel_region string string
  | Panel_field string string
  | Family_error family_error
  | Review_error human_review_error

section \<open>Normalisation\<close>

definition TRANSIENT_JUDGE_REFUSAL_CODES :: "string list" where
  "TRANSIENT_JUDGE_REFUSAL_CODES = [''canceled'', ''gateway_unavailable'', ''rate_limited'', ''timeout'']"

text \<open>\<^verbatim>\<open>xs.sort\<close> with the comparison chains of the code: stable sorts from the last key to the first.\<close>

definition sort_instructions :: "string comparator \<Rightarrow> RepairInstruction list \<Rightarrow> RepairInstruction list" where
  "sort_instructions lc xs =
     sort_by lc (\<lambda>i. case ri_kind i of None \<Rightarrow> [] | Some k \<Rightarrow> k)
       (sort_by lc (\<lambda>i. case ri_message i of None \<Rightarrow> [] | Some m \<Rightarrow> m)
         (sort_by lc ri_testCaseId (sort_by lc ri_path (sort_by lc ri_instruction xs))))"

definition truncateMessage :: "string \<Rightarrow> string" where
  "truncateMessage s = tr_value (truncateWithEllipsis s message_limit)"

definition truncatePath :: "string \<Rightarrow> string" where
  "truncatePath s = tr_value (truncateWithEllipsis s path_limit)"

definition normalizeWeight :: "js_number \<Rightarrow> js_number" where
  "normalizeWeight w = (if isFinite w \<and> js_greater w 0 then w else Fin 1)"

definition normalizeConfidence :: "js_number option \<Rightarrow> js_number option" where
  "normalizeConfidence confidence =
     (case confidence of
        Some (Fin q) \<Rightarrow> if 0 \<le> q \<and> q \<le> 1 then Some (Fin q) else None
      | _ \<Rightarrow> None)"

definition normalizeJudgeVerdict :: "JudgeConsensusPanelEntry \<Rightarrow> JudgeConsensusPanelEntry" where
  "normalizeJudgeVerdict entry =
     (if (je_judgeId entry = ''a11y_judge'' \<or> je_judgeId entry = ''coverage_judge'') \<and> je_verdict entry = V_reject
      then entry \<lparr> je_verdict := V_repair \<rparr> else entry)"

definition assertOptionalNonEmptyString :: "string option \<Rightarrow> string \<Rightarrow> string \<Rightarrow> consensus_error option" where
  "assertOptionalNonEmptyString v judgeId field = (if v = Some [] then Some (Panel_field judgeId field) else None)"

definition inferFindingScope :: "string \<Rightarrow> string" where
  "inferFindingScope testCaseId = (if testCaseId = JOB_LEVEL_TEST_CASE_ID then ''job'' else ''test_case'')"

definition normalizeConsensusFinding :: "JudgeConsensusFinding \<Rightarrow> JudgeConsensusFinding" where
  "normalizeConsensusFinding finding =
     finding \<lparr> cf_scope := Some (case cf_scope finding of None \<Rightarrow> inferFindingScope (cf_testCaseId finding) | Some s \<Rightarrow> s) \<rparr>"

definition entry_error :: "JudgeConsensusPanelEntry \<Rightarrow> consensus_error option" where
  "entry_error e = first_error
     [(case je_family e of Some f \<Rightarrow> if isJudgeModelFamily f then None else Some (Panel_family (je_judgeId e) f) | None \<Rightarrow> None),
      (case je_region e of Some r \<Rightarrow> if isJudgeModelRegion r then None else Some (Panel_region (je_judgeId e) r) | None \<Rightarrow> None),
      assertOptionalNonEmptyString (je_modelId e) (je_judgeId e) ''modelId'',
      assertOptionalNonEmptyString (je_promptVersion e) (je_judgeId e) ''promptVersion'']"

definition normalizePanelEntry :: "JudgeConsensusPanelEntry \<Rightarrow> consensus_error + JudgeConsensusPanelEntry" where
  "normalizePanelEntry entry =
     (let normalized = normalizeJudgeVerdict (entry \<lparr> je_weight := normalizeWeight (je_weight entry) \<rparr>)
      in case entry_error normalized of
           Some e \<Rightarrow> Inl e
         | None \<Rightarrow> Inr (normalized \<lparr>
             je_confidence := normalizeConfidence (je_confidence normalized),
             je_findings := map normalizeConsensusFinding (je_findings normalized),
             je_truncatedInstructionCount := Some (case je_truncatedInstructionCount normalized of
               None \<Rightarrow> countTruncatedInstructions (je_repairInstructions normalized) | Some n \<Rightarrow> n) \<rparr>))"

fun normalize_panel :: "JudgeConsensusPanelEntry list \<Rightarrow> consensus_error + JudgeConsensusPanelEntry list" where
  "normalize_panel [] = Inr []"
| "normalize_panel (e # es) =
     (case normalizePanelEntry e of
        Inl err \<Rightarrow> Inl err
      | Inr e' \<Rightarrow> map_sum id (\<lambda>es'. e' # es') (normalize_panel es))"

section \<open>Cross-family summary\<close>

definition family_binding :: "JudgeConsensusPanelEntry \<Rightarrow> JudgeFamilyBinding" where
  "family_binding e =
     (let family = the (je_family e)
      in \<lparr> fb_judgeId = je_judgeId e, fb_family = family,
           fb_modelId = (case je_modelId e of None \<Rightarrow> family @ ''-unspecified'' | Some m \<Rightarrow> m),
           fb_promptVersion = (case je_promptVersion e of None \<Rightarrow> je_judgeId e @ ''-unspecified'' | Some p \<Rightarrow> p),
           fb_region = (case je_region e of None \<Rightarrow> ''global'' | Some r \<Rightarrow> r),
           fb_verdict = je_verdict e \<rparr>)"

definition buildCrossFamilySummary ::
  "JudgeConsensusPanelEntry list \<Rightarrow> CrossFamilyJudgePolicyOptions option \<Rightarrow>
     family_error + JudgeCrossFamilySummary option" where
  "buildCrossFamilySummary panel options' =
     (if list_ex (\<lambda>e. je_family e = None) panel then Inr None
      else let bindings = map family_binding panel
           in if bindings = [] then Inr None
              else if length (js_set (map fb_family bindings)) < 2 then Inr None
              else let options = (case options' of
                         None \<Rightarrow> \<lparr> fo_allowSharedFamily = Some True, fo_requireEuRegion = None, fo_mostTrustedFamily = None \<rparr>
                       | Some opts \<Rightarrow> opts \<lparr> fo_allowSharedFamily := Some True \<rparr>)
                   in map_sum id (\<lambda>r. Some \<lparr> xs_decision = fp_decision r, xs_escalation = fp_escalation r,
                        xs_families = js_sort (fp_families r), xs_disagreementRate = fp_disagreementRate r,
                        xs_escalationRate = fp_escalationRate r \<rparr>) (assessCrossFamilyPanel bindings options))"

section \<open>Vetoes\<close>

fun toSeverityRank :: "LogicJudgeVerdictLabel \<Rightarrow> int" where
  "toSeverityRank V_reject = 2"
| "toSeverityRank V_repair = 1"
| "toSeverityRank V_accept = 0"

text \<open>The value of a normalised weight, which is finite.\<close>

fun weight_value :: "js_number \<Rightarrow> rat" where
  "weight_value (Fin q) = q"
| "weight_value _ = 1"

definition selectHigherSeverity ::
  "string comparator \<Rightarrow> JudgeConsensusPanelEntry \<Rightarrow> JudgeConsensusPanelEntry \<Rightarrow> JudgeConsensusPanelEntry" where
  "selectHigherSeverity lc left right =
     (let verdictDelta = toSeverityRank (je_verdict left) - toSeverityRank (je_verdict right);
          weightDelta = weight_value (je_weight left) - weight_value (je_weight right)
      in if verdictDelta \<noteq> 0 then (if verdictDelta > 0 then left else right)
         else if weightDelta \<noteq> 0 then (if weightDelta > 0 then left else right)
         else if compare lc (je_judgeId left) (je_judgeId right) \<noteq> Greater then left else right)"

definition isSchemaClassFinding :: "JudgeConsensusPanelEntry \<Rightarrow> bool" where
  "isSchemaClassFinding entry \<longleftrightarrow>
     list_ex (\<lambda>f. cf_category f = ''schema_class'' \<or> js_includes ''schema'' (cf_code f)) (je_findings entry)
     \<or> list_ex (\<lambda>i. ri_kind i = Some ''schema_violation'') (je_repairInstructions entry)"

definition isCrossModalMismatchFinding :: "JudgeConsensusPanelEntry \<Rightarrow> bool" where
  "isCrossModalMismatchFinding entry \<longleftrightarrow> list_ex (\<lambda>f. cf_category f = ''cross_modal_mismatch'') (je_findings entry)"

definition isIrAllowlistViolationFinding :: "JudgeConsensusPanelEntry \<Rightarrow> bool" where
  "isIrAllowlistViolationFinding entry \<longleftrightarrow>
     list_ex (\<lambda>f. cf_category f = ''ir_allowlist_violation'' \<or> strip_prefix ''invented_'' (cf_code f) \<noteq> None) (je_findings entry)"

definition isTransientInfrastructureReject :: "JudgeConsensusPanelEntry \<Rightarrow> bool" where
  "isTransientInfrastructureReject entry \<longleftrightarrow>
     je_verdict entry = V_reject \<and> je_repairInstructions entry = [] \<and> je_findings entry \<noteq> []
     \<and> list_all (\<lambda>f. cf_code f \<in> set TRANSIENT_JUDGE_REFUSAL_CODES) (je_findings entry)"

definition confident :: "JudgeConsensusPanelEntry \<Rightarrow> bool" where
  "confident entry \<longleftrightarrow> \<not> js_less (case je_confidence entry of None \<Rightarrow> Fin 1 | Some c \<Rightarrow> c) (4 / 5)
     \<and> je_confidence entry \<noteq> Some NaN"

definition hasVeto :: "JudgeConsensusPanelEntry \<Rightarrow> bool" where
  "hasVeto entry \<longleftrightarrow>
     (if confident entry \<and> je_verdict entry = V_reject \<and> \<not> isTransientInfrastructureReject entry then True
      else if je_judgeId entry = ''logic_judge'' then isSchemaClassFinding entry
      else if je_judgeId entry = ''faithfulness_judge'' then isCrossModalMismatchFinding entry
      else if je_judgeId entry = ''hallucination_judge'' then isIrAllowlistViolationFinding entry
      else False)"

definition veto_candidate :: "string comparator \<Rightarrow> JudgeConsensusPanelEntry list \<Rightarrow> JudgeConsensusPanelEntry option" where
  "veto_candidate lc panel =
     foldl (\<lambda>selected e. case selected of None \<Rightarrow> Some e | Some s \<Rightarrow> Some (selectHigherSeverity lc s e))
       None (filter hasVeto panel)"

section \<open>Deduplication\<close>

definition normalize_instruction :: "RepairInstruction \<Rightarrow> RepairInstruction" where
  "normalize_instruction i =
     (let truncated = truncateInstructionWithAudit (ri_instruction i)
      in \<lparr> ri_testCaseId = ri_testCaseId i, ri_path = truncatePath (ri_path i), ri_instruction = tr_value truncated,
           ri_instructionTruncated = (if ri_instructionTruncated i = Some True \<or> tr_truncated truncated then Some True else None),
           ri_kind = ri_kind i, ri_message = map_option truncateMessage (ri_message i) \<rparr>)"

definition instruction_key :: "RepairInstruction \<Rightarrow> string" where
  "instruction_key i = js_join [CHR 0x00]
     [(case ri_kind i of None \<Rightarrow> [] | Some k \<Rightarrow> k), (case ri_message i of None \<Rightarrow> [] | Some m \<Rightarrow> m),
      ri_testCaseId i, ri_path i, ri_instruction i]"

definition dedupeRepairInstructions ::
  "string comparator \<Rightarrow> JudgeConsensusPanelEntry list \<Rightarrow> RepairInstruction list" where
  "dedupeRepairInstructions lc panel =
     sort_instructions lc (keep_first instruction_key
       (concat (map (\<lambda>e. map normalize_instruction (je_repairInstructions e)) panel)))"

definition sort_findings :: "string comparator \<Rightarrow> JudgeConsensusFinding list \<Rightarrow> JudgeConsensusFinding list" where
  "sort_findings lc xs =
     sort_by lc (\<lambda>f. case cf_scope f of None \<Rightarrow> [] | Some s \<Rightarrow> s)
       (sort_by lc cf_testCaseId (sort_by lc cf_category (sort_by lc cf_code
         (sort_by lc (\<lambda>f. case cf_severity f of None \<Rightarrow> [] | Some s \<Rightarrow> s) (sort_by lc cf_message xs)))))"

definition normalize_finding :: "JudgeConsensusFinding \<Rightarrow> JudgeConsensusFinding" where
  "normalize_finding f = (normalizeConsensusFinding f) \<lparr> cf_message := truncateMessage (cf_message f) \<rparr>"

definition finding_key :: "JudgeConsensusFinding \<Rightarrow> string" where
  "finding_key f = js_join [CHR 0x00]
     [(case cf_scope f of None \<Rightarrow> [] | Some s \<Rightarrow> s), cf_testCaseId f, cf_category f, cf_code f,
      (case cf_severity f of None \<Rightarrow> [] | Some s \<Rightarrow> s), cf_message f]"

definition dedupeFindings :: "string comparator \<Rightarrow> JudgeConsensusPanelEntry list \<Rightarrow> JudgeConsensusFinding list" where
  "dedupeFindings lc panel =
     sort_findings lc (keep_first finding_key (concat (map (\<lambda>e. map normalize_finding (je_findings e)) panel)))"

section \<open>Voting\<close>

definition votes :: "JudgeConsensusPanelEntry list \<Rightarrow> LogicJudgeVerdictLabel \<Rightarrow> nat" where
  "votes panel v = length (filter (\<lambda>e. je_verdict e = v) panel)"

definition weight_total :: "JudgeConsensusPanelEntry list \<Rightarrow> LogicJudgeVerdictLabel \<Rightarrow> rat" where
  "weight_total panel v = sum_list (map (\<lambda>e. weight_value (je_weight e)) (filter (\<lambda>e. je_verdict e = v) panel))"

definition classifyAgreementShape ::
  "JudgeConsensusPanelEntry list \<Rightarrow> JudgeConsensusPanelEntry option \<Rightarrow> JudgeConsensusAgreementShape" where
  "classifyAgreementShape panel vetoCandidate =
     (if vetoCandidate \<noteq> None then Vetoed
      else let counts = votes panel;
               distinctCount = length (filter (\<lambda>v. counts v > 0) ALLOWED_LOGIC_JUDGE_VERDICTS);
               maxCount = max (counts V_accept) (max (counts V_repair) (counts V_reject));
               winners = filter (\<lambda>v. counts v = maxCount) ALLOWED_LOGIC_JUDGE_VERDICTS
           in if distinctCount = 1 then Unanimous
              else if length winners = 1 then Majority else Split)"

definition resolveVotingVerdict ::
  "JudgeConsensusPanelEntry list \<Rightarrow> JudgeConsensusAgreementShape \<Rightarrow> JudgeConsensusPanelEntry option \<Rightarrow>
     LogicJudgeVerdictLabel" where
  "resolveVotingVerdict panel agreementShape vetoCandidate =
     (if agreementShape = Vetoed then (case vetoCandidate of Some e \<Rightarrow> je_verdict e | None \<Rightarrow> V_repair)
      else let totals = weight_total panel
           in if agreementShape = Unanimous
              then (if totals V_accept > 0 then V_accept else if totals V_repair > 0 then V_repair else V_reject)
              else let maxWeight = max (totals V_accept) (max (totals V_repair) (totals V_reject));
                       tied = filter (\<lambda>v. totals v = maxWeight) ALLOWED_LOGIC_JUDGE_VERDICTS
                   in if agreementShape = Majority
                      then (if hd tied = V_accept \<and> totals V_repair > 0 \<and> totals V_reject = 0 then V_repair else hd tied)
                      else V_repair)"

section \<open>Panel entries of the judges\<close>

definition buildLogicJudgeConsensusEntry :: "JudgeVerdict \<Rightarrow> js_number \<Rightarrow> JudgeConsensusPanelEntry" where
  "buildLogicJudgeConsensusEntry verdict weight =
     \<lparr> je_judgeId = ''logic_judge'', je_verdict = jv_verdict verdict, je_weight = normalizeWeight weight,
       je_confidence = Some (Fin 1),
       je_findings = map (\<lambda>f. \<lparr> cf_scope = Some (jf_scope f), cf_testCaseId = jf_testCaseId f, cf_code = jf_code f,
         cf_message = jf_message f, cf_severity = Some (jf_severity f),
         cf_category = (if js_includes ''schema'' (jf_code f) then ''schema_class'' else ''other'') \<rparr>) (jv_findings verdict),
       je_repairInstructions = jv_repairInstructions verdict,
       je_truncatedInstructionCount = Some (case jv_truncatedInstructionCount verdict of
         None \<Rightarrow> countTruncatedInstructions (jv_repairInstructions verdict) | Some n \<Rightarrow> n),
       je_family = None, je_region = None, je_modelId = None, je_promptVersion = None \<rparr>"

definition clipped_instruction :: "string \<Rightarrow> string \<Rightarrow> string \<Rightarrow> RepairInstruction" where
  "clipped_instruction testCaseId path s =
     (let instruction = truncateInstructionWithAudit s
      in \<lparr> ri_testCaseId = testCaseId, ri_path = path, ri_instruction = tr_value instruction,
           ri_instructionTruncated = (if tr_truncated instruction then Some True else None), ri_kind = None, ri_message = None \<rparr>)"

definition buildFaithfulnessRepairInstructions ::
  "string comparator \<Rightarrow> FaithfulnessVerdict \<Rightarrow> RepairInstruction list" where
  "buildFaithfulnessRepairInstructions lc verdict =
     sort_instructions lc
       (map (\<lambda>h. clipped_instruction (hf_testCaseId h)
               (case hf_stepIndex h of None \<Rightarrow> ''$case'' | Some i \<Rightarrow> ''steps['' @ js_string_of_int i @ '']'')
               (''Faithfulness hallucination: '' @ hf_message h)) (fv_hallucinations verdict)
        @ map (\<lambda>m. clipped_instruction (vm_testCaseId m)
               (case vm_stepIndex m of None \<Rightarrow> ''expectedResults'' | Some i \<Rightarrow> ''steps['' @ js_string_of_int i @ ''].expected'')
               (''Faithfulness mismatch (expected='' @ quoted (vm_expectedLabel m) @ '', visible='' @ quoted (vm_visibleLabel m)
                @ ''): '' @ vm_message m)) (fv_mismatches verdict))"

definition buildFaithfulnessJudgeConsensusEntry ::
  "string comparator \<Rightarrow> FaithfulnessVerdict \<Rightarrow> js_number \<Rightarrow> JudgeConsensusPanelEntry" where
  "buildFaithfulnessJudgeConsensusEntry lc verdict weight =
     (let repairInstructions = buildFaithfulnessRepairInstructions lc verdict
      in \<lparr> je_judgeId = ''faithfulness_judge'', je_verdict = fv_verdict verdict, je_weight = normalizeWeight weight,
           je_confidence = Some (Fin (fv_score verdict)),
           je_findings =
             map (\<lambda>h. \<lparr> cf_scope = Some (inferFindingScope (hf_testCaseId h)), cf_testCaseId = hf_testCaseId h,
               cf_code = ''hallucination'', cf_message = hf_message h, cf_severity = None,
               cf_category = ''hallucination'' \<rparr>) (fv_hallucinations verdict)
             @ map (\<lambda>m. \<lparr> cf_scope = Some (inferFindingScope (vm_testCaseId m)), cf_testCaseId = vm_testCaseId m,
               cf_code = ''cross_modal_mismatch'', cf_message = vm_message m, cf_severity = None,
               cf_category = ''cross_modal_mismatch'' \<rparr>) (fv_mismatches verdict),
           je_repairInstructions = repairInstructions,
           je_truncatedInstructionCount = Some (countTruncatedInstructions repairInstructions),
           je_family = None, je_region = None, je_modelId = None, je_promptVersion = None \<rparr>)"

definition buildA11yJudgeConsensusEntry :: "A11yVerdict \<Rightarrow> js_number \<Rightarrow> JudgeConsensusPanelEntry" where
  "buildA11yJudgeConsensusEntry verdict weight =
     \<lparr> je_judgeId = ''a11y_judge'', je_verdict = av_verdict verdict, je_weight = normalizeWeight weight,
       je_confidence = Some (Fin 1),
       je_findings = map (\<lambda>f. \<lparr> cf_scope = Some (inferFindingScope (af_testCaseId f)), cf_testCaseId = af_testCaseId f,
         cf_code = af_code f, cf_message = af_message f, cf_severity = Some (af_severity f),
         cf_category = ''a11y_gap'' \<rparr>) (av_findings verdict),
       je_repairInstructions = av_repairInstructions verdict,
       je_truncatedInstructionCount = Some (case av_truncatedInstructionCount verdict of
         None \<Rightarrow> countTruncatedInstructions (av_repairInstructions verdict) | Some n \<Rightarrow> n),
       je_family = None, je_region = None, je_modelId = None, je_promptVersion = None \<rparr>"

section \<open>The artefact\<close>

definition repair_history :: "string comparator \<Rightarrow> partial_repair_history option \<Rightarrow> JudgeConsensusRepairHistory" where
  "repair_history lc history =
     (let outcome = (case Option.bind history ph_finalOutcome of None \<Rightarrow> ''not_needed'' | Some s \<Rightarrow> s);
          findings = sort_findings lc (map normalizeConsensusFinding
            (case Option.bind history ph_historicalFindings of None \<Rightarrow> [] | Some fs \<Rightarrow> fs));
          instructions = sort_instructions lc
            (case Option.bind history ph_historicalRepairInstructions of None \<Rightarrow> [] | Some is \<Rightarrow> is);
          n = max (case Option.bind history ph_repairIterationCount of None \<Rightarrow> 0 | Some k \<Rightarrow> k) 0
      in \<lparr> rh_attempted = (Option.bind history ph_attempted = Some True \<or> n > 0), rh_repairIterationCount = n,
           rh_finalOutcome = (if outcome \<in> set JUDGE_CONSENSUS_REPAIR_OUTCOMES then outcome else ''not_needed''),
           rh_historicalFindings = findings, rh_historicalRepairInstructions = instructions,
           rh_truncatedInstructionCount = countTruncatedInstructions instructions \<rparr>)"

definition repair_state :: "bool \<Rightarrow> LogicJudgeVerdictLabel \<Rightarrow> JudgeConsensusRepairState" where
  "repair_state attempted verdict =
     (if attempted \<and> verdict = V_accept then Repaired else if verdict = V_repair then Repair_required else No_repair)"

definition consensus_of ::
  "string comparator \<Rightarrow> BuildJudgeConsensusInput \<Rightarrow> JudgeConsensusPanelEntry list \<Rightarrow> JudgeCrossFamilySummary option \<Rightarrow>
     JudgeConsensusVerdict" where
  "consensus_of lc input panel crossFamily =
     (let repairInstructions = dedupeRepairInstructions lc panel;
          vetoCandidate = veto_candidate lc panel;
          agreementShape = classifyAgreementShape panel vetoCandidate;
          verdict = resolveVotingVerdict panel agreementShape vetoCandidate;
          history = repair_history lc (jc_repairHistory input)
      in \<lparr> cv_generatedAt = jc_generatedAt input, cv_jobId = jc_jobId input, cv_verdict = verdict,
           cv_agreementShape = agreementShape, cv_repairState = repair_state (rh_attempted history) verdict,
           cv_activeFindings = dedupeFindings lc panel, cv_repairInstructions = repairInstructions,
           cv_truncatedInstructionCount = countTruncatedInstructions repairInstructions,
           cv_repairHistory = history,
           cv_vetoBy = map_option (\<lambda>e. \<lparr> ve_judgeId = je_judgeId e, ve_verdict = je_verdict e,
             ve_findingCodes = map cf_code (je_findings e) \<rparr>) vetoCandidate,
           cv_panel = panel, cv_humanReview = jc_humanReview input, cv_crossFamily = crossFamily \<rparr>)"

definition buildJudgeConsensus ::
  "string comparator \<Rightarrow> BuildJudgeConsensusInput \<Rightarrow> consensus_error + JudgeConsensusVerdict" where
  "buildJudgeConsensus lc input =
     (if js_trim (jc_jobId input) = [] then Inl Empty_job_id
      else case normalize_panel (jc_panel input) of
        Inl e \<Rightarrow> Inl e
      | Inr panel \<Rightarrow>
          if panel = [] then Inl Empty_panel
          else (case buildCrossFamilySummary panel (jc_crossFamilyOptions input) of
                  Inl e \<Rightarrow> Inl (Family_error e)
                | Inr crossFamily \<Rightarrow>
                    (case Option.bind (jc_humanReview input) assertHumanReviewDecisionInvariants of
                       Some e \<Rightarrow> Inl (Review_error e)
                     | None \<Rightarrow> Inr (consensus_of lc input panel crossFamily))))"

end
