(* ===== verification/RepairData.thy ===== *)
theory RepairData
  imports JudgeConsensus
begin

text \<open>
  What the repair loop works on (\<^verbatim>\<open>packages/production-runner/src/repair-loop.ts\<close>): its records and
  artefacts, the planner's consolidation of repair instructions, the verdict signature, the budget
  guard, and the control flow of its statements. The generator and the two judges are callbacks of
  the input, as in the source; each call carries its iteration number, so a callback is a function of
  its input. SHA-256 of a value's canonical form is a field of the input as well, and so is the
  exception a write raises.
\<close>

section \<open>Data\<close>

record GeneratedTestCaseList =
  gl_jobId :: string
  gl_testCases :: "GeneratedTestCase list"

datatype RepairLoopOutcome =
    Loop_accepted | Loop_rejected | Loop_needs_review | Convergence_stalled | Budget_exhausted

record RepairLoopIterationRecord =
  it_iteration :: nat
  it_logicVerdict :: LogicJudgeVerdictLabel
  it_faithfulnessVerdict :: "LogicJudgeVerdictLabel option"  \<comment> \<open>\<^const>\<open>None\<close> is \<^verbatim>\<open>"skipped"\<close>\<close>
  it_inputTokens :: js_number
  it_outputTokens :: js_number
  it_generatedCaseCount :: nat
  it_outputHash :: string
  it_verdictSignature :: string

record RepairLoopResult =
  rr_outcome :: RepairLoopOutcome
  rr_finalList :: GeneratedTestCaseList
  rr_finalLogicVerdict :: JudgeVerdict
  rr_finalFaithfulnessVerdict :: "FaithfulnessVerdict option"
  rr_iterations :: "RepairLoopIterationRecord list"
  rr_repairIterationCount :: nat
  rr_maxRepairIterations :: nat

record RepairLoopRegenerateInput =
  rg_previousList :: GeneratedTestCaseList
  rg_repairInstructions :: "RepairInstruction list"
  rg_truncatedInstructionCount :: int
  rg_iteration :: nat

datatype LlmGenerationResult =
    Llm_success string  \<comment> \<open>\<^verbatim>\<open>modelDeployment\<close>\<close>
  | Llm_error string  \<comment> \<open>\<^verbatim>\<open>errorClass\<close>\<close>

record regenerate_hashes =
  gh_inputHash :: string
  gh_promptHash :: string
  gh_schemaHash :: string
  gh_cacheKey :: string

record RepairLoopRegenerateResult =
  rs_list :: GeneratedTestCaseList
  rs_llmResult :: LlmGenerationResult
  rs_llmDurationMs :: js_number
  rs_inputTokens :: js_number
  rs_outputTokens :: js_number
  rs_hashes :: regenerate_hashes

record RepairLoopJudgeRunnerInput =
  jr_list :: GeneratedTestCaseList
  jr_iteration :: nat

record RepairLoopLogicJudgeResult =
  lr_verdict :: JudgeVerdict
  lr_inputTokens :: js_number
  lr_outputTokens :: js_number

record RepairLoopFaithfulnessJudgeResult =
  fj_verdict :: FaithfulnessVerdict
  fj_inputTokens :: js_number
  fj_outputTokens :: js_number

text \<open>What a callback may throw: an \<^verbatim>\<open>Error\<close>, or a value that is none.\<close>

datatype thrown = Error_thrown string | Value_thrown string

record RepairLoopBudgetGuard =
  bg_initialGeneratorOutputTokens :: "js_number option"
  bg_maxGeneratorOutputTokens :: "js_number option"
  bg_expectedNextOutputTokens :: "js_number option"
  bg_initialGeneratorAttempts :: "js_number option"
  bg_maxGeneratorAttempts :: "js_number option"

text \<open>The values whose digest the loop takes.\<close>

datatype hashed_value =
    Hashed_list GeneratedTestCaseList
  | Hashed_logic JudgeVerdict
  | Hashed_faithfulness FaithfulnessVerdict
  | Hashed_instructions "RepairInstruction list"
  | Hashed_signature LogicJudgeVerdictLabel "string list" "string list"

record RunRepairLoopInput =
  rl_jobId :: string
  rl_runDir :: string
  rl_initialList :: GeneratedTestCaseList
  rl_initialLogicVerdict :: JudgeVerdict
  rl_initialFaithfulnessVerdict :: "FaithfulnessVerdict option"
  rl_maxRepairIterations :: "js_number option"
  rl_regenerate :: "RepairLoopRegenerateInput \<Rightarrow> thrown + RepairLoopRegenerateResult"
  rl_runLogicJudge :: "RepairLoopJudgeRunnerInput \<Rightarrow> thrown + RepairLoopLogicJudgeResult"
  rl_runFaithfulnessJudge :: "(RepairLoopJudgeRunnerInput \<Rightarrow> thrown + RepairLoopFaithfulnessJudgeResult) option"
  rl_softFailOnIterationError :: bool
  rl_budget :: "RepairLoopBudgetGuard option"
  rl_sha256Hex :: "hashed_value \<Rightarrow> string"
  rl_writeError :: "string list \<Rightarrow> string option"  \<comment> \<open>the exception that writing the file raises\<close>
  rl_collation :: "string comparator"

record RepairPlannerIterationArtifact =
  pa_jobId :: string
  pa_iteration :: nat
  pa_logicVerdictHash :: string
  pa_faithfulnessVerdictHash :: "string option"
  pa_previousListHash :: string
  pa_repairInstructions :: "RepairInstruction list"
  pa_repairInstructionCount :: nat
  pa_truncatedInstructionCount :: int

record stall_row =
  sr_iteration :: nat
  sr_logicVerdict :: LogicJudgeVerdictLabel
  sr_faithfulnessVerdict :: "LogicJudgeVerdictLabel option"
  sr_verdictSignature :: string

record RepairLoopTraceArtifact =
  ta_jobId :: string
  ta_stallDetectedAtIteration :: nat
  ta_stallSignature :: string
  ta_iterations :: "stall_row list"

datatype budget_trigger = Max_generator_output_tokens | Max_generator_attempts

record RepairLoopBudgetTraceArtifact =
  ba_jobId :: string
  ba_stoppedBeforeIteration :: nat
  ba_trigger :: budget_trigger
  ba_cumulativeGeneratorOutputTokens :: int
  ba_cumulativeGeneratorAttempts :: int
  ba_maxGeneratorOutputTokens :: "js_number option"
  ba_maxGeneratorAttempts :: "js_number option"
  ba_expectedNextOutputTokens :: int

record TestGenerationRepairIterationArtifact =
  ga_jobId :: string
  ga_iteration :: nat
  ga_previousListHash :: string
  ga_repairInstructionsHash :: string
  ga_repairInstructionCount :: nat
  ga_truncatedInstructionCount :: int
  ga_listHash :: string
  ga_testCaseCount :: nat
  ga_outcome :: string
  ga_errorClass :: "string option"
  ga_inputTokens :: js_number
  ga_outputTokens :: js_number
  ga_durationMs :: js_number
  ga_modelDeployment :: string
  ga_hashes :: regenerate_hashes

datatype repair_artifact =
    Planner_artifact RepairPlannerIterationArtifact
  | Generation_artifact TestGenerationRepairIterationArtifact
  | Stall_trace RepairLoopTraceArtifact
  | Budget_trace RepairLoopBudgetTraceArtifact

datatype repair_error =
    Loop_job_id_empty
  | Loop_run_dir_empty
  | Max_iterations_invalid js_number
  | Write_failed string
  | Callback_error string

text \<open>The variables of the loop, with the files written and the records announced so far.\<close>

record loop_state =
  ls_list :: GeneratedTestCaseList
  ls_logic :: JudgeVerdict
  ls_faith :: "FaithfulnessVerdict option"
  ls_outputTokens :: int
  ls_attempts :: int
  ls_iterations :: "RepairLoopIterationRecord list"
  ls_files :: "(string list \<times> repair_artifact) list"
  ls_announced :: "RepairLoopIterationRecord list"

section \<open>Constants and numbers\<close>

definition REPAIR_LOOP_DEFAULT_MAX_ITERATIONS :: nat where
  "REPAIR_LOOP_DEFAULT_MAX_ITERATIONS = 3"

definition REPAIR_LOOP_MAX_ITERATIONS_HARD_CAP :: nat where
  "REPAIR_LOOP_MAX_ITERATIONS_HARD_CAP = 5"

text \<open>Paths relative to the run directory.\<close>

definition planner_path :: "nat \<Rightarrow> string list" where
  "planner_path k = [''agent-role-runs'', ''repair_planner_iter_'' @ js_string_of_nat k @ ''.json'']"

definition generation_path :: "nat \<Rightarrow> string list" where
  "generation_path k = [''agent-role-runs'', ''test_generation_repair_iter_'' @ js_string_of_nat k @ ''.json'']"

definition REPAIR_LOOP_TRACE_ARTIFACT_FILENAME :: string where
  "REPAIR_LOOP_TRACE_ARTIFACT_FILENAME = ''repair-loop-trace.json''"

definition REPAIR_LOOP_BUDGET_TRACE_ARTIFACT_FILENAME :: string where
  "REPAIR_LOOP_BUDGET_TRACE_ARTIFACT_FILENAME = ''repair-loop-budget-trace.json''"

text \<open>Addition of JavaScript numbers.\<close>

fun js_add :: "js_number \<Rightarrow> js_number \<Rightarrow> js_number" where
  "js_add (Fin p) (Fin q) = Fin (p + q)"
| "js_add (Fin _) y = y"
| "js_add NaN _ = NaN"
| "js_add x (Fin _) = x"
| "js_add x y = (if x = y then x else NaN)"

definition resolveMaxRepairIterations :: "js_number option \<Rightarrow> repair_error + nat" where
  "resolveMaxRepairIterations requested =
     (let value = (case requested of None \<Rightarrow> Fin (of_nat REPAIR_LOOP_DEFAULT_MAX_ITERATIONS) | Some v \<Rightarrow> v)
      in if \<not> isInteger value \<or> js_less value 0 then Inl (Max_iterations_invalid value)
         else Inr (min (case value of Fin q \<Rightarrow> nat \<lfloor>q\<rfloor> | _ \<Rightarrow> 0) REPAIR_LOOP_MAX_ITERATIONS_HARD_CAP))"

section \<open>Planner and signature\<close>

definition consolidateRepairInstructions ::
  "string comparator \<Rightarrow> JudgeVerdict \<Rightarrow> FaithfulnessVerdict option \<Rightarrow> RepairInstruction list \<times> int" where
  "consolidateRepairInstructions lc logic faithfulness =
     (let collected =
        map normalize_instruction (jv_repairInstructions logic)
        @ (case faithfulness of
             None \<Rightarrow> []
           | Some f \<Rightarrow>
               map (\<lambda>h. clipped_instruction (hf_testCaseId h)
                      (truncatePath (case hf_stepIndex h of None \<Rightarrow> ''$case''
                         | Some i \<Rightarrow> ''steps['' @ js_string_of_int i @ '']''))
                      (''Faithfulness hallucination: '' @ hf_message h)) (fv_hallucinations f)
               @ map (\<lambda>m. clipped_instruction (vm_testCaseId m)
                      (truncatePath (case vm_stepIndex m of None \<Rightarrow> ''expectedResults''
                         | Some i \<Rightarrow> ''steps['' @ js_string_of_int i @ ''].expected''))
                      (''Faithfulness mismatch (expected='' @ quoted (vm_expectedLabel m) @ '', visible=''
                       @ quoted (vm_visibleLabel m) @ ''): '' @ vm_message m)) (fv_mismatches f));
          repairInstructions = sort_instructions lc (keep_first instruction_key collected)
      in (repairInstructions, countTruncatedInstructions repairInstructions))"

definition computeVerdictSignature :: "(hashed_value \<Rightarrow> string) \<Rightarrow> JudgeVerdict \<Rightarrow> string" where
  "computeVerdictSignature sha256Hex logic =
     sha256Hex (Hashed_signature (jv_verdict logic)
       (js_sort (map jf_code (jv_findings logic)))
       (js_sort (map (\<lambda>i. case ri_kind i of None \<Rightarrow> [] | Some k \<Rightarrow> k) (jv_repairInstructions logic))))"

definition judgePanelAccepted :: "JudgeVerdict \<Rightarrow> FaithfulnessVerdict option \<Rightarrow> bool" where
  "judgePanelAccepted logic faithfulness \<longleftrightarrow>
     jv_verdict logic = V_accept \<and> (case faithfulness of None \<Rightarrow> True | Some f \<Rightarrow> fv_verdict f = V_accept)"

definition judgePanelRejected :: "JudgeVerdict \<Rightarrow> FaithfulnessVerdict option \<Rightarrow> bool" where
  "judgePanelRejected logic faithfulness \<longleftrightarrow>
     jv_verdict logic = V_reject \<or> (case faithfulness of None \<Rightarrow> False | Some f \<Rightarrow> fv_verdict f = V_reject)"

section \<open>Budget guard\<close>

definition sanitizeGuardCount :: "js_number option \<Rightarrow> int" where
  "sanitizeGuardCount value = (case value of Some (Fin q) \<Rightarrow> if 0 \<le> q then \<lfloor>q\<rfloor> else 0 | _ \<Rightarrow> 0)"

definition expectedNextOutputTokens :: "RepairLoopBudgetGuard option \<Rightarrow> int" where
  "expectedNextOutputTokens guard =
     (let half = (case Option.bind guard bg_maxGeneratorOutputTokens of
                    Some (Fin m) \<Rightarrow> if m > 0 then max 1 \<lfloor>m / 2\<rfloor> else 4096
                  | _ \<Rightarrow> 4096)
      in case Option.bind guard bg_expectedNextOutputTokens of
           Some (Fin e) \<Rightarrow> if e > 0 then \<lfloor>e\<rfloor> else half
         | _ \<Rightarrow> half)"

definition projectedBudgetTrigger ::
  "RepairLoopBudgetGuard option \<Rightarrow> int \<Rightarrow> int \<Rightarrow> budget_trigger option" where
  "projectedBudgetTrigger guard cumulativeGeneratorOutputTokens cumulativeGeneratorAttempts =
     (case guard of
        None \<Rightarrow> None
      | Some g \<Rightarrow>
          if (case bg_maxGeneratorAttempts g of None \<Rightarrow> False
              | Some m \<Rightarrow> js_less m (of_int (cumulativeGeneratorAttempts + 1)))
          then Some Max_generator_attempts
          else if (case bg_maxGeneratorOutputTokens g of None \<Rightarrow> False
              | Some m \<Rightarrow> js_less m (of_int (cumulativeGeneratorOutputTokens + expectedNextOutputTokens guard)))
          then Some Max_generator_output_tokens
          else None)"

definition budget_trace ::
  "RunRepairLoopInput \<Rightarrow> RepairLoopBudgetGuard \<Rightarrow> nat \<Rightarrow> budget_trigger \<Rightarrow> loop_state \<Rightarrow> RepairLoopBudgetTraceArtifact" where
  "budget_trace input guard k trigger st =
     \<lparr> ba_jobId = rl_jobId input, ba_stoppedBeforeIteration = k, ba_trigger = trigger,
       ba_cumulativeGeneratorOutputTokens = ls_outputTokens st, ba_cumulativeGeneratorAttempts = ls_attempts st,
       ba_maxGeneratorOutputTokens = bg_maxGeneratorOutputTokens guard,
       ba_maxGeneratorAttempts = bg_maxGeneratorAttempts guard,
       ba_expectedNextOutputTokens = expectedNextOutputTokens (Some guard) \<rparr>"

section \<open>Control flow\<close>

text \<open>A statement runs on, returns from the loop, or throws.\<close>

datatype 'a flow = Next 'a | Return RepairLoopResult | Throw repair_error

definition then_do ::
  "loop_state \<times> 'a flow \<Rightarrow> ('a \<Rightarrow> loop_state \<Rightarrow> loop_state \<times> 'b flow) \<Rightarrow> loop_state \<times> 'b flow" where
  "then_do p f = (case p of
      (st, Next v) \<Rightarrow> f v st
    | (st, Return r) \<Rightarrow> (st, Return r)
    | (st, Throw e) \<Rightarrow> (st, Throw e))"

definition writeAtomicJson ::
  "RunRepairLoopInput \<Rightarrow> string list \<Rightarrow> repair_artifact \<Rightarrow> loop_state \<Rightarrow> loop_state \<times> unit flow" where
  "writeAtomicJson input path payload st =
     (case rl_writeError input path of
        Some e \<Rightarrow> (st, Throw (Write_failed e))
      | None \<Rightarrow> (st\<lparr> ls_files := ls_files st @ [(path, payload)] \<rparr>, Next ()))"

text \<open>The result object, from the variables of the loop.\<close>

definition loop_result :: "nat \<Rightarrow> RepairLoopOutcome \<Rightarrow> nat \<Rightarrow> loop_state \<Rightarrow> RepairLoopResult" where
  "loop_result cap outcome repairIterationCount st =
     \<lparr> rr_outcome = outcome, rr_finalList = ls_list st, rr_finalLogicVerdict = ls_logic st,
       rr_finalFaithfulnessVerdict = ls_faith st, rr_iterations = ls_iterations st,
       rr_repairIterationCount = repairIterationCount, rr_maxRepairIterations = cap \<rparr>"

definition softFailIfEnabled ::
  "RunRepairLoopInput \<Rightarrow> nat \<Rightarrow> nat \<Rightarrow> thrown \<Rightarrow> string \<Rightarrow> loop_state \<Rightarrow> loop_state \<times> 'a flow" where
  "softFailIfEnabled input cap k error context st =
     (if \<not> rl_softFailOnIterationError input
      then (st, Throw (Callback_error (case error of Error_thrown m \<Rightarrow> m | Value_thrown v \<Rightarrow> context @ '': '' @ v)))
      else (st, Return (loop_result cap Loop_needs_review (k - 1) st)))"

definition try_callback ::
  "RunRepairLoopInput \<Rightarrow> nat \<Rightarrow> nat \<Rightarrow> string \<Rightarrow> thrown + 'a \<Rightarrow> loop_state \<Rightarrow> loop_state \<times> 'a flow" where
  "try_callback input cap k context r st =
     (case r of
        Inr v \<Rightarrow> (st, Next v)
      | Inl e \<Rightarrow> softFailIfEnabled input cap k e (context @ js_string_of_nat k) st)"

end
