(* ===== verification/RepairLoop.thy ===== *)
theory RepairLoop
  imports RepairData
begin

text \<open>
  The bounded repair loop of a production run (\<^verbatim>\<open>packages/production-runner/src/repair-loop.ts\<close>,
  \<^verbatim>\<open>runRepairLoop\<close>): one definition per stage of an iteration, the loop over them, and what every run
  satisfies whatever the generator and the judges answer. A run yields the files it wrote and the
  iteration records it announced, with a result or the exception it ended in.
\<close>

section \<open>One iteration\<close>

text \<open>The guard, checked before anything is written.\<close>

definition guard_stage :: "RunRepairLoopInput \<Rightarrow> nat \<Rightarrow> nat \<Rightarrow> loop_state \<Rightarrow> loop_state \<times> unit flow" where
  "guard_stage input cap k st =
     (case rl_budget input of
        None \<Rightarrow> (st, Next ())
      | Some guard \<Rightarrow>
          (case projectedBudgetTrigger (Some guard) (ls_outputTokens st) (ls_attempts st) of
             None \<Rightarrow> (st, Next ())
           | Some trigger \<Rightarrow>
               then_do (writeAtomicJson input [REPAIR_LOOP_BUDGET_TRACE_ARTIFACT_FILENAME]
                          (Budget_trace (budget_trace input guard k trigger st)) st)
                 (\<lambda>_ st. (st, Return (loop_result cap Budget_exhausted (length (ls_iterations st) - 1) st)))))"

definition planner_artifact ::
  "RunRepairLoopInput \<Rightarrow> nat \<Rightarrow> RepairInstruction list \<times> int \<Rightarrow> loop_state \<Rightarrow> RepairPlannerIterationArtifact" where
  "planner_artifact input k plan st =
     \<lparr> pa_jobId = rl_jobId input, pa_iteration = k,
       pa_logicVerdictHash = rl_sha256Hex input (Hashed_logic (ls_logic st)),
       pa_faithfulnessVerdictHash = map_option (\<lambda>f. rl_sha256Hex input (Hashed_faithfulness f)) (ls_faith st),
       pa_previousListHash = rl_sha256Hex input (Hashed_list (ls_list st)),
       pa_repairInstructions = fst plan, pa_repairInstructionCount = length (fst plan),
       pa_truncatedInstructionCount = snd plan \<rparr>"

definition generation_artifact ::
  "RunRepairLoopInput \<Rightarrow> nat \<Rightarrow> RepairInstruction list \<times> int \<Rightarrow> GeneratedTestCaseList \<Rightarrow> RepairLoopRegenerateResult \<Rightarrow>
   TestGenerationRepairIterationArtifact" where
  "generation_artifact input k plan previous regen =
     \<lparr> ga_jobId = rl_jobId input, ga_iteration = k,
       ga_previousListHash = rl_sha256Hex input (Hashed_list previous),
       ga_repairInstructionsHash = rl_sha256Hex input (Hashed_instructions (fst plan)),
       ga_repairInstructionCount = length (fst plan), ga_truncatedInstructionCount = snd plan,
       ga_listHash = rl_sha256Hex input (Hashed_list (rs_list regen)),
       ga_testCaseCount = length (gl_testCases (rs_list regen)),
       ga_outcome = (case rs_llmResult regen of Llm_success _ \<Rightarrow> ''success'' | Llm_error _ \<Rightarrow> ''error''),
       ga_errorClass = (case rs_llmResult regen of Llm_success _ \<Rightarrow> None | Llm_error c \<Rightarrow> Some c),
       ga_inputTokens = rs_inputTokens regen, ga_outputTokens = rs_outputTokens regen,
       ga_durationMs = rs_llmDurationMs regen,
       ga_modelDeployment = (case rs_llmResult regen of Llm_success d \<Rightarrow> d | Llm_error _ \<Rightarrow> ''unknown''),
       ga_hashes = rs_hashes regen \<rparr>"

text \<open>Planning and regenerating; the new list becomes the current one.\<close>

definition regenerate_stage ::
  "RunRepairLoopInput \<Rightarrow> nat \<Rightarrow> nat \<Rightarrow> loop_state \<Rightarrow> loop_state \<times> RepairLoopRegenerateResult flow" where
  "regenerate_stage input cap k st =
     (let plan = consolidateRepairInstructions (rl_collation input) (ls_logic st) (ls_faith st);
          previous = ls_list st
      in then_do (writeAtomicJson input (planner_path k) (Planner_artifact (planner_artifact input k plan st)) st)
           (\<lambda>_ st. then_do (try_callback input cap k ''regenerate iteration ''
               (rl_regenerate input
                 \<lparr> rg_previousList = previous, rg_repairInstructions = fst plan, rg_truncatedInstructionCount = snd plan,
                   rg_iteration = k \<rparr>) st)
             (\<lambda>regen st.
               then_do (writeAtomicJson input (generation_path k)
                          (Generation_artifact (generation_artifact input k plan previous regen))
                          (st\<lparr> ls_outputTokens := ls_outputTokens st + sanitizeGuardCount (Some (rs_outputTokens regen)),
                               ls_attempts := ls_attempts st + 1 \<rparr>))
                 (\<lambda>_ st. (st\<lparr> ls_list := rs_list regen \<rparr>, Next regen)))))"

text \<open>The judges; the faithfulness judge only sees a list that the logic judge accepts.\<close>

definition judge_stage ::
  "RunRepairLoopInput \<Rightarrow> nat \<Rightarrow> nat \<Rightarrow> loop_state \<Rightarrow>
   loop_state \<times> (RepairLoopLogicJudgeResult \<times> js_number \<times> js_number) flow" where
  "judge_stage input cap k st =
     then_do (try_callback input cap k ''logic judge iteration ''
                (rl_runLogicJudge input \<lparr> jr_list = ls_list st, jr_iteration = k \<rparr>) st)
       (\<lambda>logicResult st0.
         let st = st0\<lparr> ls_logic := lr_verdict logicResult \<rparr>
         in case rl_runFaithfulnessJudge input of
              None \<Rightarrow> (st\<lparr> ls_faith := None \<rparr>, Next (logicResult, Fin 0, Fin 0))
            | Some judge \<Rightarrow>
                if jv_verdict (ls_logic st) \<noteq> V_accept
                then (st\<lparr> ls_faith := None \<rparr>, Next (logicResult, Fin 0, Fin 0))
                else then_do (try_callback input cap k ''faithfulness judge iteration ''
                                (judge \<lparr> jr_list = ls_list st, jr_iteration = k \<rparr>) st)
                       (\<lambda>faithResult st.
                         (st\<lparr> ls_faith := Some (fj_verdict faithResult) \<rparr>,
                          Next (logicResult, fj_inputTokens faithResult, fj_outputTokens faithResult))))"

definition iteration_record ::
  "RunRepairLoopInput \<Rightarrow> nat \<Rightarrow> js_number \<Rightarrow> js_number \<Rightarrow> loop_state \<Rightarrow> RepairLoopIterationRecord" where
  "iteration_record input k inputTokens outputTokens st =
     \<lparr> it_iteration = k, it_logicVerdict = jv_verdict (ls_logic st),
       it_faithfulnessVerdict = map_option fv_verdict (ls_faith st),
       it_inputTokens = inputTokens, it_outputTokens = outputTokens,
       it_generatedCaseCount = length (gl_testCases (ls_list st)),
       it_outputHash = rl_sha256Hex input (Hashed_list (ls_list st)),
       it_verdictSignature = computeVerdictSignature (rl_sha256Hex input) (ls_logic st) \<rparr>"

definition add_record :: "RepairLoopIterationRecord \<Rightarrow> loop_state \<Rightarrow> loop_state" where
  "add_record rec st = st\<lparr> ls_iterations := ls_iterations st @ [rec], ls_announced := ls_announced st @ [rec] \<rparr>"

definition stall_trace ::
  "RunRepairLoopInput \<Rightarrow> nat \<Rightarrow> string \<Rightarrow> RepairLoopIterationRecord list \<Rightarrow> RepairLoopTraceArtifact" where
  "stall_trace input k signature iterations =
     \<lparr> ta_jobId = rl_jobId input, ta_stallDetectedAtIteration = k, ta_stallSignature = signature,
       ta_iterations = map (\<lambda>entry. \<lparr> sr_iteration = it_iteration entry, sr_logicVerdict = it_logicVerdict entry,
         sr_faithfulnessVerdict = it_faithfulnessVerdict entry, sr_verdictSignature = it_verdictSignature entry \<rparr>)
         iterations \<rparr>"

text \<open>Terminal verdicts first, then the convergence check against the previous record.\<close>

definition conclude_stage :: "RunRepairLoopInput \<Rightarrow> nat \<Rightarrow> nat \<Rightarrow> loop_state \<Rightarrow> loop_state \<times> unit flow" where
  "conclude_stage input cap k st =
     (if judgePanelAccepted (ls_logic st) (ls_faith st) then (st, Return (loop_result cap Loop_accepted k st))
      else if judgePanelRejected (ls_logic st) (ls_faith st) then (st, Return (loop_result cap Loop_rejected k st))
      else case rev (ls_iterations st) of
          current # previous # _ \<Rightarrow>
            if it_verdictSignature previous = it_verdictSignature current
            then then_do (writeAtomicJson input [REPAIR_LOOP_TRACE_ARTIFACT_FILENAME]
                            (Stall_trace (stall_trace input k (it_verdictSignature current) (ls_iterations st))) st)
                   (\<lambda>_ st. (st, Return (loop_result cap Convergence_stalled k st)))
            else (st, Next ())
        | _ \<Rightarrow> (st, Next ()))"

definition repair_iteration :: "RunRepairLoopInput \<Rightarrow> nat \<Rightarrow> nat \<Rightarrow> loop_state \<Rightarrow> loop_state \<times> unit flow" where
  "repair_iteration input cap k st =
     then_do (guard_stage input cap k st)
       (\<lambda>_ st. then_do (regenerate_stage input cap k st)
         (\<lambda>regen st. then_do (judge_stage input cap k st)
           (\<lambda>(logicResult, faithInputTokens, faithOutputTokens) st.
             conclude_stage input cap k
               (add_record (iteration_record input k
                  (js_add (js_add (rs_inputTokens regen) (lr_inputTokens logicResult)) faithInputTokens)
                  (js_add (js_add (rs_outputTokens regen) (lr_outputTokens logicResult)) faithOutputTokens) st) st))))"

section \<open>The loop\<close>

text \<open>\<^verbatim>\<open>for (let k = 1; k <= max; k++)\<close>: the first argument counts the iterations left.\<close>

fun repair_loop :: "nat \<Rightarrow> RunRepairLoopInput \<Rightarrow> nat \<Rightarrow> nat \<Rightarrow> loop_state \<Rightarrow> loop_state \<times> unit flow" where
  "repair_loop 0 input cap k st = (st, Return (loop_result cap Loop_needs_review cap st))"
| "repair_loop (Suc n) input cap k st =
     then_do (repair_iteration input cap k st) (\<lambda>_ st. repair_loop n input cap (k + 1) st)"

definition initial_state :: "RunRepairLoopInput \<Rightarrow> loop_state" where
  "initial_state input =
     (let st = \<lparr> ls_list = rl_initialList input, ls_logic = rl_initialLogicVerdict input,
         ls_faith = rl_initialFaithfulnessVerdict input,
         ls_outputTokens = sanitizeGuardCount (Option.bind (rl_budget input) bg_initialGeneratorOutputTokens),
         ls_attempts = sanitizeGuardCount (Option.bind (rl_budget input) bg_initialGeneratorAttempts),
         ls_iterations = [], ls_files = [], ls_announced = [] \<rparr>
      in add_record (iteration_record input 0 (Fin 0) (Fin 0) st) st)"

text \<open>The files written and the records announced, and what the call returns or throws.\<close>

type_synonym repair_run =
  "((string list \<times> repair_artifact) list \<times> RepairLoopIterationRecord list) \<times> (repair_error + RepairLoopResult)"

definition runRepairLoop :: "RunRepairLoopInput \<Rightarrow> repair_run" where
  "runRepairLoop input =
     (if js_trim (rl_jobId input) = [] then (([], []), Inl Loop_job_id_empty)
      else if js_trim (rl_runDir input) = [] then (([], []), Inl Loop_run_dir_empty)
      else case resolveMaxRepairIterations (rl_maxRepairIterations input) of
          Inl e \<Rightarrow> (([], []), Inl e)
        | Inr cap \<Rightarrow>
            let st = initial_state input;
                (st', flow) =
                  (if judgePanelAccepted (ls_logic st) (ls_faith st)
                   then (st, Return (loop_result cap Loop_accepted 0 st))
                   else repair_loop cap input cap 1 st)
            in ((ls_files st', ls_announced st'),
                (case flow of Return r \<Rightarrow> Inr r | Throw e \<Rightarrow> Inl e
                 | Next _ \<Rightarrow> Inr (loop_result cap Loop_needs_review cap st'))))"

end
