(* ===== verification/JudgeConsensusProps.thy ===== *)
theory JudgeConsensusProps
  imports JudgeConsensus
begin

text \<open>
  Correctness of the judge consensus: what the verdict of a panel is, that a confident rejection
  cannot be outvoted, that no finding is lost, and that an artefact can be rebuilt from its own panel.
\<close>

section \<open>Normalised panels\<close>

definition normal_entry :: "JudgeConsensusPanelEntry \<Rightarrow> bool" where
  "normal_entry e \<longleftrightarrow>
     (\<exists>q>0. je_weight e = Fin q)
     \<and> normalizeConfidence (je_confidence e) = je_confidence e
     \<and> normalizeJudgeVerdict e = e
     \<and> entry_error e = None
     \<and> list_all (\<lambda>f. cf_scope f \<noteq> None) (je_findings e)
     \<and> je_truncatedInstructionCount e \<noteq> None"

lemma normalizeConsensusFinding_id: "cf_scope f \<noteq> None \<Longrightarrow> normalizeConsensusFinding f = f"
  by (auto simp: normalizeConsensusFinding_def)

lemma normalizeWeight_pos: "\<exists>q>0. normalizeWeight w = Fin q"
  by (cases w) (auto simp: normalizeWeight_def)

lemma normal_entry_fixed: "normal_entry e \<Longrightarrow> normalizePanelEntry e = Inr e"
proof -
  assume e: "normal_entry e"
  then have "e \<lparr> je_weight := normalizeWeight (je_weight e) \<rparr> = e" by (auto simp: normal_entry_def normalizeWeight_def)
  moreover have "map normalizeConsensusFinding (je_findings e) = je_findings e"
    using e by (auto simp: normal_entry_def list_all_iff normalizeConsensusFinding_id intro!: map_idI)
  ultimately show ?thesis using e by (auto simp: normalizePanelEntry_def normal_entry_def)
qed

lemma normalize_entry:
  assumes "normalizePanelEntry e = Inr e'"
  shows "normal_entry e'"
    and "je_verdict e' = (if je_judgeId e \<in> {''a11y_judge'', ''coverage_judge''} \<and> je_verdict e = V_reject
           then V_repair else je_verdict e)"
    and "je_judgeId e' = je_judgeId e" "je_confidence e' = normalizeConfidence (je_confidence e)"
    and "map cf_code (je_findings e') = map cf_code (je_findings e)" "je_repairInstructions e' = je_repairInstructions e"
proof -
  define n where "n = normalizeJudgeVerdict (e \<lparr> je_weight := normalizeWeight (je_weight e) \<rparr>)"
  have n: "je_weight n = normalizeWeight (je_weight e)" "je_judgeId n = je_judgeId e" "je_confidence n = je_confidence e"
    "je_findings n = je_findings e" "je_repairInstructions n = je_repairInstructions e"
    "je_verdict n = (if je_judgeId e \<in> {''a11y_judge'', ''coverage_judge''} \<and> je_verdict e = V_reject then V_repair else je_verdict e)"
    by (auto simp: n_def normalizeJudgeVerdict_def)
  have err: "entry_error n = None" and e': "e' = n \<lparr> je_confidence := normalizeConfidence (je_confidence n),
      je_findings := map normalizeConsensusFinding (je_findings n),
      je_truncatedInstructionCount := Some (case je_truncatedInstructionCount n of
        None \<Rightarrow> countTruncatedInstructions (je_repairInstructions n) | Some k \<Rightarrow> k) \<rparr>"
    using assms unfolding normalizePanelEntry_def Let_def n_def [symmetric] by (auto split: option.split_asm)
  have "normalizeConfidence (normalizeConfidence c) = normalizeConfidence c" for c
    by (auto simp: normalizeConfidence_def split: option.splits js_number.splits)
  moreover have "normalizeJudgeVerdict e' = e'" by (simp add: normalizeJudgeVerdict_def e' n)
  moreover have sel: "je_family e' = je_family n" "je_region e' = je_region n" "je_modelId e' = je_modelId n"
    "je_promptVersion e' = je_promptVersion n" "je_judgeId e' = je_judgeId n" by (simp_all add: e')
  moreover have "entry_error e' = None" using err by (simp only: entry_error_def sel)
  ultimately show "normal_entry e'"
    using normalizeWeight_pos [of "je_weight e"]
    by (simp add: normal_entry_def e' n list_all_iff normalizeConsensusFinding_def)
  show "je_verdict e' = (if je_judgeId e \<in> {''a11y_judge'', ''coverage_judge''} \<and> je_verdict e = V_reject
           then V_repair else je_verdict e)"
    "je_judgeId e' = je_judgeId e" "je_confidence e' = normalizeConfidence (je_confidence e)"
    "map cf_code (je_findings e') = map cf_code (je_findings e)" "je_repairInstructions e' = je_repairInstructions e"
    by (simp_all add: e' n normalizeConsensusFinding_def o_def)
qed

lemma normalize_panel_list: "normalize_panel es = Inr es' \<Longrightarrow> list_all2 (\<lambda>e e'. normalizePanelEntry e = Inr e') es es'"
proof (induction es arbitrary: es')
  case (Cons e es)
  then show ?case by (cases "normalizePanelEntry e"; cases "normalize_panel es") auto
qed simp

lemma normal_panel_fixed: "list_all normal_entry es \<Longrightarrow> normalize_panel es = Inr es"
  by (induction es) (simp_all add: normal_entry_fixed)

lemma panel_normal: "normalize_panel es = Inr es' \<Longrightarrow> list_all normal_entry es'"
  by (metis (mono_tags, lifting) normalize_panel_list normalize_entry(1) list_all2_conv_all_nth list_all_length)

lemma built:
  assumes "buildJudgeConsensus lc input = Inr c"
  obtains panel crossFamily where "normalize_panel (jc_panel input) = Inr panel" "panel \<noteq> []"
    "buildCrossFamilySummary panel (jc_crossFamilyOptions input) = Inr crossFamily"
    "Option.bind (jc_humanReview input) assertHumanReviewDecisionInvariants = None"
    "c = consensus_of lc input panel crossFamily" "js_trim (jc_jobId input) \<noteq> []"
  using assms unfolding buildJudgeConsensus_def
  by (auto split: sum.split_asm option.split_asm if_split_asm)

section \<open>Vetoes\<close>

lemma higher_severity:
  "selectHigherSeverity lc a b \<in> {a, b}"
  "toSeverityRank (je_verdict (selectHigherSeverity lc a b)) = max (toSeverityRank (je_verdict a)) (toSeverityRank (je_verdict b))"
  by (auto simp: selectHigherSeverity_def Let_def)

lemma veto_fold:
  "foldl (\<lambda>selected e. case selected of None \<Rightarrow> Some e | Some s \<Rightarrow> Some (selectHigherSeverity lc s e)) (Some s) es = Some r
   \<Longrightarrow> r \<in> insert s (set es) \<and> (\<forall>f\<in>insert s (set es). toSeverityRank (je_verdict f) \<le> toSeverityRank (je_verdict r))"
proof (induction es arbitrary: s)
  case (Cons e es)
  from Cons.IH Cons.prems have "r \<in> insert (selectHigherSeverity lc s e) (set es)"
    "\<forall>f\<in>insert (selectHigherSeverity lc s e) (set es). toSeverityRank (je_verdict f) \<le> toSeverityRank (je_verdict r)"
    by simp_all
  then show ?case using higher_severity [of lc s e] by auto
qed simp

lemma veto_fold_Some:
  "\<exists>r. foldl (\<lambda>selected e. case selected of None \<Rightarrow> Some e | Some s \<Rightarrow> Some (selectHigherSeverity lc s e)) (Some s) es = Some r"
  by (induction es arbitrary: s) simp_all

lemma veto_candidate_None: "veto_candidate lc panel = None \<longleftrightarrow> \<not> list_ex hasVeto panel"
proof (cases "filter hasVeto panel")
  case (Cons e es)
  then have "list_ex hasVeto panel" by (metis filter_eq_ConsD in_set_conv_decomp list_ex_iff)
  with Cons veto_fold_Some [of lc e es] show ?thesis by (auto simp: veto_candidate_def)
qed (auto simp: veto_candidate_def filter_empty_conv list_ex_iff)

lemma veto_candidate_Some:
  assumes "veto_candidate lc panel = Some e"
  shows "e \<in> set (filter hasVeto panel)"
    and "list_all (\<lambda>f. toSeverityRank (je_verdict f) \<le> toSeverityRank (je_verdict e)) (filter hasVeto panel)"
proof -
  obtain v vs where vs: "filter hasVeto panel = v # vs"
    using assms by (cases "filter hasVeto panel") (auto simp: veto_candidate_def)
  from assms have "foldl (\<lambda>selected e. case selected of None \<Rightarrow> Some e | Some s \<Rightarrow> Some (selectHigherSeverity lc s e)) (Some v) vs = Some e"
    by (simp add: veto_candidate_def vs)
  from veto_fold [OF this] show "e \<in> set (filter hasVeto panel)"
    "list_all (\<lambda>f. toSeverityRank (je_verdict f) \<le> toSeverityRank (je_verdict e)) (filter hasVeto panel)"
    by (simp_all add: vs list_all_iff)
qed

lemma rejecting_veto_prevails:
  assumes "e \<in> set panel" "hasVeto e" "je_verdict e = V_reject"
  shows "resolveVotingVerdict panel (classifyAgreementShape panel (veto_candidate lc panel)) (veto_candidate lc panel) = V_reject"
proof -
  obtain f where f: "veto_candidate lc panel = Some f"
    using assms veto_candidate_None [of lc panel] by (auto simp: list_ex_iff)
  have "toSeverityRank (je_verdict e) \<le> toSeverityRank (je_verdict f)"
    using veto_candidate_Some(2) [OF f] assms(1,2) unfolding list_all_iff by auto
  then have "je_verdict f = V_reject" using assms(3) by (cases "je_verdict f") auto
  then show ?thesis by (simp add: f classifyAgreementShape_def resolveVotingVerdict_def)
qed

section \<open>Votes\<close>

lemma ex_labels: "(\<exists>v :: LogicJudgeVerdictLabel. P v) \<longleftrightarrow> P V_accept \<or> P V_repair \<or> P V_reject"
  by (metis LogicJudgeVerdictLabel.exhaust)

lemma weight_pos: "normal_entry e \<Longrightarrow> weight_value (je_weight e) > 0"
  by (auto simp: normal_entry_def)

lemma weight_total_zero:
  assumes "list_all normal_entry panel"
  shows "weight_total panel v \<ge> 0" "weight_total panel v = 0 \<longleftrightarrow> \<not> list_ex (\<lambda>e. je_verdict e = v) panel"
proof -
  have "sum_list (map (\<lambda>e. weight_value (je_weight e)) es) \<ge> 0
      \<and> (sum_list (map (\<lambda>e. weight_value (je_weight e)) es) = 0 \<longleftrightarrow> es = [])" if "list_all normal_entry es" for es
    using that
  proof (induction es)
    case (Cons e es)
    then show ?case using weight_pos [of e] by (auto simp: add_pos_nonneg order_less_imp_not_eq2)
  qed simp
  moreover have "list_all normal_entry (filter (\<lambda>e. je_verdict e = v) panel)" using assms by (simp add: list_all_iff)
  ultimately show "weight_total panel v \<ge> 0" "weight_total panel v = 0 \<longleftrightarrow> \<not> list_ex (\<lambda>e. je_verdict e = v) panel"
    by (simp_all add: weight_total_def filter_empty_conv list_ex_iff)
qed

lemma weight_total_pos:
  "list_all normal_entry panel \<Longrightarrow> weight_total panel v > 0 \<longleftrightarrow> list_ex (\<lambda>e. je_verdict e = v) panel"
  using weight_total_zero [of panel v] by (auto simp: less_le)

lemma all_same:
  "panel \<noteq> [] \<Longrightarrow> list_all (\<lambda>e. je_verdict e = v) panel \<longleftrightarrow> (\<forall>w. list_ex (\<lambda>e. je_verdict e = w) panel \<longleftrightarrow> w = v)"
  unfolding list_all_iff list_ex_iff by (metis last_in_set)

lemma votes_zero: "votes panel v = 0 \<longleftrightarrow> \<not> list_ex (\<lambda>e. je_verdict e = v) panel"
  by (simp add: votes_def filter_empty_conv list_ex_iff)

lemma unanimous_shape:
  assumes "panel \<noteq> []"
  shows "length (filter (\<lambda>v. votes panel v > 0) ALLOWED_LOGIC_JUDGE_VERDICTS) = 1 \<longleftrightarrow>
    (\<exists>v. list_all (\<lambda>e. je_verdict e = v) panel)"
proof -
  have cast: "votes panel v > 0 \<longleftrightarrow> list_ex (\<lambda>e. je_verdict e = v) panel" for v
    using votes_zero [of panel v] by auto
  have "(\<exists>v. list_all (\<lambda>e. je_verdict e = v) panel) \<longleftrightarrow> (\<exists>v. \<forall>w. votes panel w > 0 \<longleftrightarrow> w = v)"
    unfolding cast all_same [OF assms] ..
  also have "\<dots> \<longleftrightarrow> length (filter (\<lambda>v. votes panel v > 0) ALLOWED_LOGIC_JUDGE_VERDICTS) = 1"
    unfolding all_labels ex_labels ALLOWED_LOGIC_JUDGE_VERDICTS_def by auto
  finally show ?thesis by simp
qed

lemma majority_shape:
  "length (filter (\<lambda>v. votes panel v = max (votes panel V_accept) (max (votes panel V_repair) (votes panel V_reject)))
     ALLOWED_LOGIC_JUDGE_VERDICTS) = 1 \<longleftrightarrow> (\<exists>v. beats (votes panel) v)"
  unfolding ex_labels beats_def all_labels ALLOWED_LOGIC_JUDGE_VERDICTS_def by auto

lemma shape_exact:
  "panel \<noteq> [] \<Longrightarrow> classifyAgreementShape panel veto =
     (if veto \<noteq> None then Vetoed
      else if \<exists>v. list_all (\<lambda>e. je_verdict e = v) panel then Unanimous
      else if \<exists>v. beats (votes panel) v then Majority else Split)"
  unfolding classifyAgreementShape_def Let_def unanimous_shape majority_shape by simp

lemma unanimous_verdict:
  assumes "list_all normal_entry panel" "panel \<noteq> []" "list_all (\<lambda>e. je_verdict e = v) panel"
  shows "resolveVotingVerdict panel Unanimous veto = v"
proof -
  have "weight_total panel w > 0 \<longleftrightarrow> w = v" for w
    unfolding weight_total_pos [OF assms(1)] using assms(3) unfolding all_same [OF assms(2)] by blast
  then show ?thesis by (cases v) (simp_all add: resolveVotingVerdict_def)
qed

lemma majority_verdict:
  assumes "list_all normal_entry panel" "panel \<noteq> []" "\<nexists>v. list_all (\<lambda>e. je_verdict e = v) panel"
  shows "(resolveVotingVerdict panel Majority veto = V_accept \<longleftrightarrow>
        weight_total panel V_accept \<ge> weight_total panel V_repair \<and> weight_total panel V_accept \<ge> weight_total panel V_reject
        \<and> list_ex (\<lambda>e. je_verdict e = V_reject) panel)
     \<and> (resolveVotingVerdict panel Majority veto = V_reject \<longleftrightarrow>
        weight_total panel V_reject > weight_total panel V_accept \<and> weight_total panel V_reject > weight_total panel V_repair)"
proof -
  let ?W = "weight_total panel"
  note cast = weight_total_pos [OF assms(1), symmetric]
  have "\<not> (?W V_repair = 0 \<and> ?W V_reject = 0)"
  proof
    assume "?W V_repair = 0 \<and> ?W V_reject = 0"
    then have "list_all (\<lambda>e. je_verdict e = V_accept) panel"
      using weight_total_zero(2) [OF assms(1)] unfolding list_ex_iff list_all_iff by (metis LogicJudgeVerdictLabel.exhaust)
    with assms(3) show False by blast
  qed
  then show ?thesis
    unfolding cast using weight_total_zero(1) [OF assms(1), of V_accept] weight_total_zero(1) [OF assms(1), of V_repair]
      weight_total_zero(1) [OF assms(1), of V_reject]
    by (auto simp: resolveVotingVerdict_def Let_def ALLOWED_LOGIC_JUDGE_VERDICTS_def max_def)
qed

section \<open>Findings and instructions\<close>

lemma sort_chain [simp]:
  "set (sort_findings lc fs) = set fs" "distinct (map g (sort_findings lc fs)) = distinct (map g fs)"
  "set (sort_instructions lc is) = set is" "distinct (map h (sort_instructions lc is)) = distinct (map h is)"
  by (simp_all add: sort_findings_def sort_instructions_def)

lemma clipped:
  "length (truncateMessage s) \<le> 240" "length (truncatePath s) \<le> 160"
  "length (tr_value (truncateInstructionWithAudit s)) \<le> 240"
  using truncate_length [of 240 s] truncate_length [of 160 s]
  by (simp_all add: truncateMessage_def truncatePath_def truncateInstructionWithAudit_def message_limit_def path_limit_def
      instruction_limit_def)

lemma consensus_sels:
  "cv_panel (consensus_of lc input panel x) = panel"
  "cv_agreementShape (consensus_of lc input panel x) = classifyAgreementShape panel (veto_candidate lc panel)"
  "cv_verdict (consensus_of lc input panel x) =
     resolveVotingVerdict panel (classifyAgreementShape panel (veto_candidate lc panel)) (veto_candidate lc panel)"
  "cv_activeFindings (consensus_of lc input panel x) = dedupeFindings lc panel"
  "cv_repairInstructions (consensus_of lc input panel x) = dedupeRepairInstructions lc panel"
  by (simp_all add: consensus_of_def Let_def)

section \<open>Properties\<close>

text \<open>
  C6: A judge that rejects with a confidence of at least 0.8 (or no usable confidence) cannot be
  outvoted: unless the rejection comes from the accessibility or coverage judge, or is only a transient
  infrastructure refusal, the consensus rejects, whatever the other judges say and weigh.
\<close>

theorem confident_reject_prevails:
  "(case buildJudgeConsensus lc input of
      Inl e \<Rightarrow> True
    | Inr c \<Rightarrow>
        list_all (\<lambda>e. if je_verdict e = V_reject \<and> je_judgeId e \<notin> {''a11y_judge'', ''coverage_judge''}
            \<and> (case normalizeConfidence (je_confidence e) of Some (Fin q) \<Rightarrow> q \<ge> 4 / 5 | _ \<Rightarrow> True)
            \<and> isTransientInfrastructureReject e = False
          then cv_verdict c = V_reject else True) (jc_panel input))"
proof (cases "buildJudgeConsensus lc input")
  case (Inr c)
  then obtain panel x where panel: "normalize_panel (jc_panel input) = Inr panel"
    and c: "c = consensus_of lc input panel x" by (rule built)
  have "cv_verdict c = V_reject"
    if e: "e \<in> set (jc_panel input)" "je_verdict e = V_reject" "je_judgeId e \<notin> {''a11y_judge'', ''coverage_judge''}"
      and conf: "case normalizeConfidence (je_confidence e) of Some (Fin q) \<Rightarrow> q \<ge> 4 / 5 | _ \<Rightarrow> True"
      and steady: "\<not> isTransientInfrastructureReject e" for e
  proof -
    obtain i where "i < length (jc_panel input)" "jc_panel input ! i = e" using e(1) by (auto simp: in_set_conv_nth)
    with normalize_panel_list [OF panel] have "normalizePanelEntry e = Inr (panel ! i)" "panel ! i \<in> set panel"
      by (auto simp: list_all2_conv_all_nth)
    then obtain e' where e': "normalizePanelEntry e = Inr e'" "e' \<in> set panel" by blast
    note n = normalize_entry [OF e'(1)]
    have rej: "je_verdict e' = V_reject" using e(3) unfolding n(2) e(2) by (simp only: simp_thms if_False)
    moreover have "confident e'"
      using conf unfolding confident_def n(4) by (cases "je_confidence e" rule: option.exhaust) (auto simp: normalizeConfidence_def split: js_number.splits if_splits)
    moreover have "\<not> isTransientInfrastructureReject e'"
    proof -
      have codes: "list_all (\<lambda>f. cf_code f \<in> S) fs = list_all (\<lambda>k. k \<in> S) (map cf_code fs)" for S fs
        by (simp add: list_all_iff)
      have "je_findings e' = [] \<longleftrightarrow> je_findings e = []" using n(5) by (metis map_is_Nil_conv)
      with steady show ?thesis
        unfolding isTransientInfrastructureReject_def codes n(5,6) using e(2) rej by simp
    qed
    ultimately have "hasVeto e'" by (simp add: hasVeto_def)
    from rejecting_veto_prevails [OF e'(2) this rej] show ?thesis by (simp add: c consensus_sels)
  qed
  then show ?thesis unfolding Inr sum.case list_all_iff by (simp only: simp_thms split: if_split) blast
qed simp

text \<open>
  C7: The verdict of a panel, exactly. If some judge vetoes, it is the most severe verdict among the
  vetoing judges; a unanimous panel keeps its verdict; a mixed panel in which no verdict leads by votes
  needs repair. In a mixed panel with a leading verdict the weights decide: it rejects exactly when
  rejection outweighs each other verdict, and it accepts exactly when acceptance is not outweighed
  and some judge rejected; a mixed panel in which nobody rejects is never accepted.
\<close>

theorem consensus_verdict_exact:
  "(case buildJudgeConsensus lc input of
      Inl e \<Rightarrow> True
    | Inr c \<Rightarrow>
        (if list_ex hasVeto (cv_panel c)
         then cv_agreementShape c = Vetoed
           \<and> (\<exists>e\<in>set (filter hasVeto (cv_panel c)). je_verdict e = cv_verdict c)
           \<and> list_all (\<lambda>e. toSeverityRank (je_verdict e) \<le> toSeverityRank (cv_verdict c)) (filter hasVeto (cv_panel c))
         else if \<exists>v. list_all (\<lambda>e. je_verdict e = v) (cv_panel c)
         then cv_agreementShape c = Unanimous \<and> list_all (\<lambda>e. je_verdict e = cv_verdict c) (cv_panel c)
         else if \<exists>v. beats (votes (cv_panel c)) v
         then cv_agreementShape c = Majority
           \<and> (cv_verdict c = V_accept \<longleftrightarrow>
                weight_total (cv_panel c) V_accept \<ge> weight_total (cv_panel c) V_repair
                \<and> weight_total (cv_panel c) V_accept \<ge> weight_total (cv_panel c) V_reject
                \<and> list_ex (\<lambda>e. je_verdict e = V_reject) (cv_panel c))
           \<and> (cv_verdict c = V_reject \<longleftrightarrow>
                weight_total (cv_panel c) V_reject > weight_total (cv_panel c) V_accept
                \<and> weight_total (cv_panel c) V_reject > weight_total (cv_panel c) V_repair)
         else cv_agreementShape c = Split \<and> cv_verdict c = V_repair))"
proof (cases "buildJudgeConsensus lc input")
  case (Inr c)
  then obtain panel x where panel: "normalize_panel (jc_panel input) = Inr panel" and ne: "panel \<noteq> []"
    and c: "c = consensus_of lc input panel x" by (rule built)
  note normal = panel_normal [OF panel]
  show ?thesis
  proof (cases "veto_candidate lc panel")
    case (Some e)
    then show ?thesis
      using veto_candidate_Some [OF Some] veto_candidate_None [of lc panel]
      by (auto simp: Inr c consensus_sels Some classifyAgreementShape_def resolveVotingVerdict_def)
  next
    case None
    then have no: "\<not> list_ex hasVeto panel" using veto_candidate_None by blast
    consider v where "list_all (\<lambda>e. je_verdict e = v) panel"
      | "\<nexists>v. list_all (\<lambda>e. je_verdict e = v) panel" "\<exists>v. beats (votes panel) v"
      | "\<nexists>v. list_all (\<lambda>e. je_verdict e = v) panel" "\<nexists>v. beats (votes panel) v" by blast
    then show ?thesis
    proof cases
      case (1 v)
      then show ?thesis
        using unanimous_verdict [OF normal ne, of v None] no None unfolding Inr c sum.case consensus_sels shape_exact [OF ne]
        by auto
    next
      case 2
      then show ?thesis
        using majority_verdict [OF normal ne 2(1), of None] no None unfolding Inr c sum.case consensus_sels shape_exact [OF ne]
        by simp
    next
      case 3
      then show ?thesis
        using no None unfolding Inr c sum.case consensus_sels shape_exact [OF ne] by (auto simp: resolveVotingVerdict_def)
    qed
  qed
qed simp

text \<open>
  An artefact can be rebuilt: running the consensus on the panel stored in the artefact, with the
  other inputs unchanged, gives the identical artefact.
\<close>

theorem consensus_replay_stable:
  "(case buildJudgeConsensus lc input of
      Inl e \<Rightarrow> True
    | Inr c \<Rightarrow> buildJudgeConsensus lc (input \<lparr> jc_panel := cv_panel c \<rparr>) = Inr c)"
proof (cases "buildJudgeConsensus lc input")
  case (Inr c)
  then obtain panel x where p: "normalize_panel (jc_panel input) = Inr panel" "panel \<noteq> []"
    "buildCrossFamilySummary panel (jc_crossFamilyOptions input) = Inr x"
    "Option.bind (jc_humanReview input) assertHumanReviewDecisionInvariants = None"
    "c = consensus_of lc input panel x" "js_trim (jc_jobId input) \<noteq> []" by (rule built)
  have "consensus_of lc (input \<lparr> jc_panel := panel \<rparr>) panel x = consensus_of lc input panel x"
    by (simp add: consensus_of_def)
  with p normal_panel_fixed [OF panel_normal [OF p(1)]] show ?thesis
    unfolding Inr by (simp add: buildJudgeConsensus_def consensus_sels)
qed simp

text \<open>
  No finding and no repair instruction of the panel is lost: each one appears, clipped, exactly once
  per key in the artefact, messages and instructions have at most 240 characters, paths at most 160,
  and the truncation counter counts the clipped instructions.
\<close>

theorem consensus_keeps_findings:
  "(case buildJudgeConsensus lc input of
      Inl e \<Rightarrow> True
    | Inr c \<Rightarrow>
        finding_key ` set (cv_activeFindings c) =
          (\<Union>e\<in>set (cv_panel c). (\<lambda>f. finding_key (normalize_finding f)) ` set (je_findings e))
        \<and> distinct (map finding_key (cv_activeFindings c))
        \<and> list_all (\<lambda>f. length (cf_message f) \<le> 240) (cv_activeFindings c)
        \<and> instruction_key ` set (cv_repairInstructions c) =
            (\<Union>e\<in>set (cv_panel c). (\<lambda>i. instruction_key (normalize_instruction i)) ` set (je_repairInstructions e))
        \<and> distinct (map instruction_key (cv_repairInstructions c))
        \<and> list_all (\<lambda>i. length (ri_path i) \<le> 160 \<and> length (ri_instruction i) \<le> 240) (cv_repairInstructions c)
        \<and> cv_truncatedInstructionCount c
            = of_nat (length (filter (\<lambda>i. ri_instructionTruncated i = Some True) (cv_repairInstructions c))))"
proof (cases "buildJudgeConsensus lc input")
  case (Inr c)
  then obtain panel x where c: "c = consensus_of lc input panel x" by (rule built)
  have "f \<in> set (dedupeFindings lc panel) \<Longrightarrow> length (cf_message f) \<le> 240" for f
    using keep_first_subset [of finding_key "concat (map (\<lambda>e. map normalize_finding (je_findings e)) panel)"]
    by (auto simp: dedupeFindings_def normalize_finding_def clipped)
  moreover have "i \<in> set (dedupeRepairInstructions lc panel) \<Longrightarrow> length (ri_path i) \<le> 160 \<and> length (ri_instruction i) \<le> 240" for i
    using keep_first_subset [of instruction_key "concat (map (\<lambda>e. map normalize_instruction (je_repairInstructions e)) panel)"]
    by (auto simp: dedupeRepairInstructions_def normalize_instruction_def Let_def clipped)
  ultimately show ?thesis
    unfolding Inr c sum.case consensus_sels
    by (simp add: dedupeFindings_def dedupeRepairInstructions_def keep_first_keys keep_first_distinct list_all_iff image_UN
        image_image countTruncatedInstructions_def consensus_of_def Let_def)
qed simp

section \<open>A rejection that helps\<close>

text \<open>
  Three judges accept and one asks for repair: the panel needs repair. A fifth judge who rejects with
  low confidence turns the same panel into an accepted one.
\<close>

definition sample_vote :: "string \<Rightarrow> LogicJudgeVerdictLabel \<Rightarrow> rat \<Rightarrow> JudgeConsensusPanelEntry" where
  "sample_vote judgeId verdict confidence =
     \<lparr> je_judgeId = judgeId, je_verdict = verdict, je_weight = Fin 1, je_confidence = Some (Fin confidence),
       je_findings = [], je_repairInstructions = [], je_truncatedInstructionCount = None,
       je_family = None, je_region = None, je_modelId = None, je_promptVersion = None \<rparr>"

definition sample_panel :: "JudgeConsensusPanelEntry list" where
  "sample_panel = [sample_vote ''logic_judge'' V_accept 1, sample_vote ''a11y_judge'' V_accept 1,
     sample_vote ''hallucination_judge'' V_accept 1, sample_vote ''coverage_judge'' V_repair 1]"

definition sample_consensus_input :: "JudgeConsensusPanelEntry list \<Rightarrow> BuildJudgeConsensusInput" where
  "sample_consensus_input panel =
     \<lparr> jc_jobId = ''job'', jc_generatedAt = ''t'', jc_panel = panel, jc_repairHistory = None, jc_humanReview = None,
       jc_crossFamilyOptions = None \<rparr>"

theorem extra_reject_turns_repair_into_accept:
  "map_sum id cv_verdict (buildJudgeConsensus lc (sample_consensus_input sample_panel)) = Inr V_repair
   \<and> map_sum id cv_verdict (buildJudgeConsensus lc (sample_consensus_input
        (sample_panel @ [sample_vote ''faithfulness_judge'' V_reject (1 / 2)]))) = Inr V_accept"
  by (simp add: sample_consensus_input_def sample_panel_def sample_vote_def buildJudgeConsensus_def normalizePanelEntry_def
      normalizeWeight_def normalizeJudgeVerdict_def normalizeConfidence_def entry_error_def assertOptionalNonEmptyString_def
      buildCrossFamilySummary_def consensus_sels veto_candidate_def hasVeto_def confident_def isTransientInfrastructureReject_def
      isSchemaClassFinding_def isCrossModalMismatchFinding_def isIrAllowlistViolationFinding_def classifyAgreementShape_def
      resolveVotingVerdict_def votes_def weight_total_def ALLOWED_LOGIC_JUDGE_VERDICTS_def js_trim_def js_space_def Let_def)

end
