(* ===== verification/RepairLoopProps.thy ===== *)
theory RepairLoopProps
  imports RepairLoop JudgeConsensusProps "HOL-Library.Sublist"
begin

text \<open>
  What every run of the repair loop satisfies, whatever the generator and the judges answer.
\<close>

section \<open>The states of an iteration\<close>

definition plan_of :: "RunRepairLoopInput \<Rightarrow> loop_state \<Rightarrow> RepairInstruction list \<times> int" where
  "plan_of input st = consolidateRepairInstructions (rl_collation input) (ls_logic st) (ls_faith st)"

definition regenerate_call :: "RunRepairLoopInput \<Rightarrow> nat \<Rightarrow> loop_state \<Rightarrow> thrown + RepairLoopRegenerateResult" where
  "regenerate_call input k st = rl_regenerate input
     \<lparr> rg_previousList = ls_list st, rg_repairInstructions = fst (plan_of input st),
       rg_truncatedInstructionCount = snd (plan_of input st), rg_iteration = k \<rparr>"

definition planned :: "RunRepairLoopInput \<Rightarrow> nat \<Rightarrow> loop_state \<Rightarrow> loop_state" where
  "planned input k st = st\<lparr> ls_files := ls_files st @
     [(planner_path k, Planner_artifact (planner_artifact input k (plan_of input st) st))] \<rparr>"

definition charged :: "RepairLoopRegenerateResult \<Rightarrow> loop_state \<Rightarrow> loop_state" where
  "charged regen st = st\<lparr> ls_outputTokens := ls_outputTokens st + sanitizeGuardCount (Some (rs_outputTokens regen)),
     ls_attempts := ls_attempts st + 1 \<rparr>"

definition booked :: "RunRepairLoopInput \<Rightarrow> nat \<Rightarrow> RepairLoopRegenerateResult \<Rightarrow> loop_state \<Rightarrow> loop_state" where
  "booked input k regen st = (charged regen (planned input k st))\<lparr>
     ls_files := ls_files (planned input k st) @
       [(generation_path k, Generation_artifact (generation_artifact input k (plan_of input st) (ls_list st) regen))],
     ls_list := rs_list regen \<rparr>"

definition logic_call :: "RunRepairLoopInput \<Rightarrow> nat \<Rightarrow> GeneratedTestCaseList \<Rightarrow> thrown + RepairLoopLogicJudgeResult" where
  "logic_call input k xs = rl_runLogicJudge input \<lparr> jr_list = xs, jr_iteration = k \<rparr>"

text \<open>The call of the faithfulness judge, where it is made.\<close>

definition faithfulness_call ::
  "RunRepairLoopInput \<Rightarrow> nat \<Rightarrow> GeneratedTestCaseList \<Rightarrow> JudgeVerdict \<Rightarrow> (thrown + RepairLoopFaithfulnessJudgeResult) option" where
  "faithfulness_call input k xs logic =
     (if jv_verdict logic = V_accept
      then map_option (\<lambda>judge. judge \<lparr> jr_list = xs, jr_iteration = k \<rparr>) (rl_runFaithfulnessJudge input) else None)"

definition judged ::
  "RunRepairLoopInput \<Rightarrow> nat \<Rightarrow> RepairLoopRegenerateResult \<Rightarrow> RepairLoopLogicJudgeResult \<Rightarrow>
   RepairLoopFaithfulnessJudgeResult option \<Rightarrow> loop_state \<Rightarrow> loop_state" where
  "judged input k regen lr fr st =
     (let st1 = (booked input k regen st)\<lparr> ls_logic := lr_verdict lr, ls_faith := map_option fj_verdict fr \<rparr>
      in add_record (iteration_record input k
           (js_add (js_add (rs_inputTokens regen) (lr_inputTokens lr)) (case fr of None \<Rightarrow> Fin 0 | Some f \<Rightarrow> fj_inputTokens f))
           (js_add (js_add (rs_outputTokens regen) (lr_outputTokens lr)) (case fr of None \<Rightarrow> Fin 0 | Some f \<Rightarrow> fj_outputTokens f))
           st1) st1)"

abbreviation budget_stop :: "RunRepairLoopInput \<Rightarrow> loop_state \<Rightarrow> budget_trigger option" where
  "budget_stop input st \<equiv> projectedBudgetTrigger (rl_budget input) (ls_outputTokens st) (ls_attempts st)"

lemma no_guard [simp]: "projectedBudgetTrigger None t a = None"
  by (simp add: projectedBudgetTrigger_def)

section \<open>How an iteration can go\<close>

lemma then_do_simps [simp]:
  "then_do (st, Next v) f = f v st" "then_do (st, Return r) f = (st, Return r)" "then_do (st, Throw e) f = (st, Throw e)"
  by (simp_all add: then_do_def)

lemma regenerate_stage_eq:
  "regenerate_stage input cap k st =
     (case rl_writeError input (planner_path k) of
        Some e \<Rightarrow> (st, Throw (Write_failed e))
      | None \<Rightarrow> (case regenerate_call input k st of
            Inl e \<Rightarrow> softFailIfEnabled input cap k e (''regenerate iteration '' @ js_string_of_nat k) (planned input k st)
          | Inr regen \<Rightarrow> (case rl_writeError input (generation_path k) of
                Some e \<Rightarrow> (charged regen (planned input k st), Throw (Write_failed e))
              | None \<Rightarrow> (booked input k regen st, Next regen))))"
  unfolding regenerate_stage_def writeAtomicJson_def try_callback_def Let_def softFailIfEnabled_def
    regenerate_call_def planned_def charged_def booked_def plan_of_def
  by (simp split: option.split sum.split)

lemma judge_stage_eq:
  "judge_stage input cap k st =
     (case logic_call input k (ls_list st) of
        Inl e \<Rightarrow> softFailIfEnabled input cap k e (''logic judge iteration '' @ js_string_of_nat k) st
      | Inr lr \<Rightarrow> (case faithfulness_call input k (ls_list st) (lr_verdict lr) of
            None \<Rightarrow> (st\<lparr> ls_logic := lr_verdict lr, ls_faith := None \<rparr>, Next (lr, Fin 0, Fin 0))
          | Some (Inl e) \<Rightarrow>
              softFailIfEnabled input cap k e (''faithfulness judge iteration '' @ js_string_of_nat k)
                (st\<lparr> ls_logic := lr_verdict lr \<rparr>)
          | Some (Inr fr) \<Rightarrow> (st\<lparr> ls_logic := lr_verdict lr, ls_faith := Some (fj_verdict fr) \<rparr>,
                Next (lr, fj_inputTokens fr, fj_outputTokens fr))))"
  unfolding judge_stage_def try_callback_def Let_def softFailIfEnabled_def logic_call_def faithfulness_call_def
  by (simp split: option.split sum.split)

lemma booked_list [simp]: "ls_list (booked input k regen st) = rs_list regen"
  by (simp add: booked_def)

text \<open>A callback failed and the run goes on as a review: the list may be newer than the verdicts beside it.\<close>

inductive soft_failed :: "RunRepairLoopInput \<Rightarrow> nat \<Rightarrow> loop_state \<Rightarrow> loop_state \<Rightarrow> bool" for input k st where
  No_list: "regenerate_call input k st = Inl e \<Longrightarrow> soft_failed input k st (planned input k st)"
| No_logic: "regenerate_call input k st = Inr regen \<Longrightarrow> logic_call input k (rs_list regen) = Inl e \<Longrightarrow>
    soft_failed input k st (booked input k regen st)"
| No_faithfulness: "regenerate_call input k st = Inr regen \<Longrightarrow> logic_call input k (rs_list regen) = Inr lr \<Longrightarrow>
    faithfulness_call input k (rs_list regen) (lr_verdict lr) = Some (Inl e) \<Longrightarrow>
    soft_failed input k st ((booked input k regen st)\<lparr> ls_logic := lr_verdict lr \<rparr>)"

text \<open>The file lists that an aborted iteration can leave behind.\<close>

definition aborted_files :: "RunRepairLoopInput \<Rightarrow> nat \<Rightarrow> loop_state \<Rightarrow> loop_state \<Rightarrow> bool" where
  "aborted_files input k st st' \<longleftrightarrow> ls_files st' = ls_files st \<or>
     (budget_stop input st = None \<and>
      (ls_files st' = ls_files (planned input k st) \<or>
       (\<exists>regen. regenerate_call input k st = Inr regen \<and> ls_files st' = ls_files (booked input k regen st))))"

text \<open>What may be thrown inside the loop: a failed write, or a callback's error when the run is not to survive it.\<close>

fun error_cause :: "RunRepairLoopInput \<Rightarrow> repair_error \<Rightarrow> bool" where
  "error_cause input (Write_failed m) \<longleftrightarrow> (\<exists>path. rl_writeError input path = Some m)"
| "error_cause input (Callback_error m) \<longleftrightarrow> \<not> rl_softFailOnIterationError input"
| "error_cause input _ \<longleftrightarrow> False"

lemma aborted_by_writes:
  "aborted_files input k st st"
  "budget_stop input st = None \<Longrightarrow> aborted_files input k st (planned input k st)"
  "budget_stop input st = None \<Longrightarrow> aborted_files input k st (charged regen (planned input k st))"
  "budget_stop input st = None \<Longrightarrow> regenerate_call input k st = Inr regen \<Longrightarrow>
     aborted_files input k st (booked input k regen st)"
  "budget_stop input st = None \<Longrightarrow> regenerate_call input k st = Inr regen \<Longrightarrow>
     aborted_files input k st ((booked input k regen st)\<lparr> ls_logic := v \<rparr>)"
  by (auto simp: aborted_files_def charged_def)

lemma open_iteration:
  assumes "budget_stop input st = None"
  shows "repair_iteration input cap k st =
      then_do (regenerate_stage input cap k st)
         (\<lambda>regen st. then_do (judge_stage input cap k st)
           (\<lambda>(logicResult, faithInputTokens, faithOutputTokens) st.
             conclude_stage input cap k
               (add_record (iteration_record input k
                  (js_add (js_add (rs_inputTokens regen) (lr_inputTokens logicResult)) faithInputTokens)
                  (js_add (js_add (rs_outputTokens regen) (lr_outputTokens logicResult)) faithOutputTokens) st) st)))"
  using assms by (cases "rl_budget input") (simp_all add: repair_iteration_def guard_stage_def)

lemma judging_cases:
  assumes quiet: "budget_stop input st = None" and regen: "regenerate_call input k st = Inr regen"
    and made: "regenerate_stage input cap k st = (booked input k regen st, Next regen)"
  obtains
    (failed) st' e where "repair_iteration input cap k st = (st', Throw e)" "aborted_files input k st st'"
      "error_cause input e"
  | (soft) st' where "rl_softFailOnIterationError input" "soft_failed input k st st'"
      "repair_iteration input cap k st = (st', Return (loop_result cap Loop_needs_review (k - 1) st'))"
  | (completed) lr fr where "logic_call input k (rs_list regen) = Inr lr"
      "faithfulness_call input k (rs_list regen) (lr_verdict lr) = map_option Inr fr"
      "repair_iteration input cap k st = conclude_stage input cap k (judged input k regen lr fr st)"
proof (cases "logic_call input k (rs_list regen)")
  case (Inl e)
  show ?thesis
    using failed [OF _ aborted_by_writes(4) [OF quiet regen]] soft [OF _ No_logic [OF regen Inl]] Inl
    by (cases "rl_softFailOnIterationError input")
      (simp_all add: open_iteration [OF quiet] made judge_stage_eq softFailIfEnabled_def)
next
  case (Inr lr)
  note iteration = open_iteration [OF quiet] made judge_stage_eq Inr
  consider (none) "faithfulness_call input k (rs_list regen) (lr_verdict lr) = None"
    | (bad) e where "faithfulness_call input k (rs_list regen) (lr_verdict lr) = Some (Inl e)"
    | (good) fr where "faithfulness_call input k (rs_list regen) (lr_verdict lr) = Some (Inr fr)"
    by (metis option.exhaust sum.exhaust)
  then show ?thesis
  proof cases
    case none
    then show ?thesis using Inr by (intro completed [of lr None]) (simp_all add: iteration judged_def Let_def)
  next
    case good
    then show ?thesis using Inr by (intro completed [of lr "Some fr"]) (simp_all add: iteration judged_def Let_def)
  next
    case bad
    then show ?thesis
      using failed [OF _ aborted_by_writes(5) [OF quiet regen]] soft [OF _ No_faithfulness [OF regen Inr bad]]
      by (cases "rl_softFailOnIterationError input") (simp_all add: iteration softFailIfEnabled_def)
  qed
qed

lemma repair_iteration_cases:
  obtains
    (stopped) guard trigger where "rl_budget input = Some guard" "budget_stop input st = Some trigger"
      "repair_iteration input cap k st =
        (let st' = st\<lparr> ls_files := ls_files st @ [([REPAIR_LOOP_BUDGET_TRACE_ARTIFACT_FILENAME],
               Budget_trace (budget_trace input guard k trigger st))] \<rparr>
         in (st', Return (loop_result cap Budget_exhausted (length (ls_iterations st) - 1) st')))"
  | (failed) st' e where "repair_iteration input cap k st = (st', Throw e)" "aborted_files input k st st'"
      "error_cause input e"
  | (soft) st' where "budget_stop input st = None" "rl_softFailOnIterationError input" "soft_failed input k st st'"
      "repair_iteration input cap k st = (st', Return (loop_result cap Loop_needs_review (k - 1) st'))"
  | (completed) regen lr fr where "budget_stop input st = None" "regenerate_call input k st = Inr regen"
      "logic_call input k (rs_list regen) = Inr lr"
      "faithfulness_call input k (rs_list regen) (lr_verdict lr) = map_option Inr fr"
      "repair_iteration input cap k st = conclude_stage input cap k (judged input k regen lr fr st)"
proof (cases "budget_stop input st")
  case (Some trigger)
  then obtain guard where g: "rl_budget input = Some guard" by (cases "rl_budget input") auto
  note guarded = repair_iteration_def guard_stage_def writeAtomicJson_def
  show ?thesis
  proof (cases "rl_writeError input [REPAIR_LOOP_BUDGET_TRACE_ARTIFACT_FILENAME]")
    case None
    with Some g show ?thesis by (intro stopped) (simp_all add: guarded Let_def)
  next
    case (Some e)
    with \<open>budget_stop input st = Some trigger\<close> g show ?thesis
      using failed [OF _ aborted_by_writes(1) error_cause.simps(1) [THEN iffD2, OF exI, OF Some]] by (simp add: guarded)
  qed
next
  case None
  note iteration = open_iteration [OF None] regenerate_stage_eq
  show ?thesis
  proof (cases "rl_writeError input (planner_path k)")
    case (Some e)
    then show ?thesis
      using failed [OF _ aborted_by_writes(1) error_cause.simps(1) [THEN iffD2, OF exI, OF Some]] by (simp add: iteration)
  next
    case pw: None
    show ?thesis
    proof (cases "regenerate_call input k st")
      case (Inl e)
      then show ?thesis
        using pw failed [OF _ aborted_by_writes(2) [OF None]] soft [OF None _ No_list [OF Inl]]
        by (cases "rl_softFailOnIterationError input") (simp_all add: iteration softFailIfEnabled_def)
    next
      case (Inr regen)
      show ?thesis
      proof (cases "rl_writeError input (generation_path k)")
        case (Some e)
        then show ?thesis
          using pw Inr failed [OF _ aborted_by_writes(3) [OF None] error_cause.simps(1) [THEN iffD2, OF exI, OF Some]]
          by (simp add: iteration)
      next
        case gw: None
        have "regenerate_stage input cap k st = (booked input k regen st, Next regen)"
          using pw Inr gw by (simp add: regenerate_stage_eq)
        then show ?thesis
          by (rule judging_cases [OF None Inr]) (fact failed soft [OF None] completed [OF None Inr])+
      qed
    qed
  qed
qed

lemma conclude_cases:
  fixes input k regen lr fr st
  assumes "ls_iterations st \<noteq> []"
  defines "st' \<equiv> judged input k regen lr fr st"
  obtains
    (accepted) "judgePanelAccepted (ls_logic st') (ls_faith st')"
      "conclude_stage input cap k st' = (st', Return (loop_result cap Loop_accepted k st'))"
  | (rejected) "\<not> judgePanelAccepted (ls_logic st') (ls_faith st')" "judgePanelRejected (ls_logic st') (ls_faith st')"
      "conclude_stage input cap k st' = (st', Return (loop_result cap Loop_rejected k st'))"
  | (stalled) "\<not> judgePanelAccepted (ls_logic st') (ls_faith st')" "\<not> judgePanelRejected (ls_logic st') (ls_faith st')"
      "it_verdictSignature (last (ls_iterations st)) = computeVerdictSignature (rl_sha256Hex input) (lr_verdict lr)"
      "conclude_stage input cap k st' =
        (let st'' = st'\<lparr> ls_files := ls_files st' @ [([REPAIR_LOOP_TRACE_ARTIFACT_FILENAME],
               Stall_trace (stall_trace input k (computeVerdictSignature (rl_sha256Hex input) (lr_verdict lr)) (ls_iterations st')))] \<rparr>
         in (st'', Return (loop_result cap Convergence_stalled k st'')))"
  | (unwritten) m where "conclude_stage input cap k st' = (st', Throw (Write_failed m))"
      "rl_writeError input [REPAIR_LOOP_TRACE_ARTIFACT_FILENAME] = Some m"
  | (going) "\<not> judgePanelAccepted (ls_logic st') (ls_faith st')" "\<not> judgePanelRejected (ls_logic st') (ls_faith st')"
      "it_verdictSignature (last (ls_iterations st)) \<noteq> computeVerdictSignature (rl_sha256Hex input) (lr_verdict lr)"
      "conclude_stage input cap k st' = (st', Next ())"
proof -
  obtain rec where its: "ls_iterations st' = ls_iterations st @ [rec]"
    and sig: "it_verdictSignature rec = computeVerdictSignature (rl_sha256Hex input) (lr_verdict lr)"
    unfolding st'_def judged_def Let_def add_record_def by (simp add: booked_def charged_def planned_def iteration_record_def)
  have "rev (ls_iterations st') = rec # last (ls_iterations st) # rev (butlast (ls_iterations st))"
    unfolding its using assms(1) by (metis append_butlast_last_id rev.simps(2) rev_append rev_rev_ident rev_singleton_conv append_Cons append_Nil)
  then have eq: "conclude_stage input cap k st' =
     (if judgePanelAccepted (ls_logic st') (ls_faith st') then (st', Return (loop_result cap Loop_accepted k st'))
      else if judgePanelRejected (ls_logic st') (ls_faith st') then (st', Return (loop_result cap Loop_rejected k st'))
      else if it_verdictSignature (last (ls_iterations st)) = it_verdictSignature rec
      then then_do (writeAtomicJson input [REPAIR_LOOP_TRACE_ARTIFACT_FILENAME]
                            (Stall_trace (stall_trace input k (it_verdictSignature rec) (ls_iterations st'))) st')
                   (\<lambda>_ st. (st, Return (loop_result cap Convergence_stalled k st)))
      else (st', Next ()))"
    unfolding conclude_stage_def by simp
  show ?thesis
  proof (cases "rl_writeError input [REPAIR_LOOP_TRACE_ARTIFACT_FILENAME]")
    case None
    then show ?thesis
      using accepted rejected stalled going unfolding eq sig by (simp add: writeAtomicJson_def Let_def split: if_splits) blast
  next
    case (Some m)
    then show ?thesis
      using accepted rejected unwritten [OF _ Some] going unfolding eq sig
      by (cases "judgePanelAccepted (ls_logic st') (ls_faith st')"; cases "judgePanelRejected (ls_logic st') (ls_faith st')";
          cases "it_verdictSignature (last (ls_iterations st)) = computeVerdictSignature (rl_sha256Hex input) (lr_verdict lr)")
        (simp_all add: writeAtomicJson_def)
  qed
qed

lemma initial_state_simps [simp]:
  "ls_list (initial_state input) = rl_initialList input"
  "ls_logic (initial_state input) = rl_initialLogicVerdict input"
  "ls_faith (initial_state input) = rl_initialFaithfulnessVerdict input"
  "ls_outputTokens (initial_state input) =
     sanitizeGuardCount (Option.bind (rl_budget input) bg_initialGeneratorOutputTokens)"
  "ls_attempts (initial_state input) = sanitizeGuardCount (Option.bind (rl_budget input) bg_initialGeneratorAttempts)"
  "ls_files (initial_state input) = []" "ls_announced (initial_state input) = ls_iterations (initial_state input)"
  by (simp_all add: initial_state_def Let_def add_record_def)

section \<open>Contracts of the loop\<close>

text \<open>What the call refuses before it does anything.\<close>

definition argument_error :: "RunRepairLoopInput \<Rightarrow> repair_error option" where
  "argument_error input =
     (if js_trim (rl_jobId input) = [] then Some Loop_job_id_empty
      else if js_trim (rl_runDir input) = [] then Some Loop_run_dir_empty
      else case resolveMaxRepairIterations (rl_maxRepairIterations input) of Inl e \<Rightarrow> Some e | Inr _ \<Rightarrow> None)"

locale loop_contract =
  fixes holds :: "RunRepairLoopInput \<Rightarrow> nat \<Rightarrow> loop_state \<Rightarrow> bool"
    and promise :: "RunRepairLoopInput \<Rightarrow> nat \<Rightarrow> loop_state \<Rightarrow> repair_error + RepairLoopResult \<Rightarrow> bool"
  assumes enter: "holds input 1 (initial_state input)"
    and at_once: "judgePanelAccepted (rl_initialLogicVerdict input) (rl_initialFaithfulnessVerdict input) \<Longrightarrow>
      promise input cap (initial_state input) (Inr (loop_result cap Loop_accepted 0 (initial_state input)))"
    and iterate: "1 \<le> k \<Longrightarrow> k \<le> cap \<Longrightarrow> holds input k st \<Longrightarrow>
      (case repair_iteration input cap k st of
         (st', Next _) \<Rightarrow> holds input (Suc k) st'
       | (st', Return r) \<Rightarrow> promise input cap st' (Inr r)
       | (st', Throw e) \<Rightarrow> promise input cap st' (Inl e))"
    and exhausted: "holds input (Suc cap) st \<Longrightarrow>
      promise input cap st (Inr (loop_result cap Loop_needs_review cap st))"
begin

lemma loop_keeps:
  "1 \<le> k \<Longrightarrow> k + n = Suc cap \<Longrightarrow> holds input k st \<Longrightarrow>
   (case repair_loop n input cap k st of
      (st', Next _) \<Rightarrow> False
    | (st', Return r) \<Rightarrow> promise input cap st' (Inr r)
    | (st', Throw e) \<Rightarrow> promise input cap st' (Inl e))"
proof (induction n arbitrary: k st)
  case 0
  then show ?case by (simp add: exhausted)
next
  case (Suc n)
  have step: "case repair_iteration input cap k st of
         (st', Next _) \<Rightarrow> holds input (Suc k) st'
       | (st', Return r) \<Rightarrow> promise input cap st' (Inr r)
       | (st', Throw e) \<Rightarrow> promise input cap st' (Inl e)"
    using iterate [of k cap input st] Suc.prems by simp
  obtain st' f where it: "repair_iteration input cap k st = (st', f)" by fastforce
  show ?case using step Suc.IH [of "Suc k" st'] Suc.prems by (cases f) (simp_all add: it)
qed

lemma run_cases:
  obtains
    (invalid) e where "argument_error input = Some e" "runRepairLoop input = (([], []), Inl e)"
  | (valid) cap st out where "argument_error input = None"
      "resolveMaxRepairIterations (rl_maxRepairIterations input) = Inr cap"
      "runRepairLoop input = ((ls_files st, ls_announced st), out)" "promise input cap st out"
proof (cases "argument_error input")
  case (Some e)
  then show ?thesis by (intro invalid) (auto simp: runRepairLoop_def argument_error_def split: if_splits sum.splits)
next
  case None
  then obtain cap where cap: "resolveMaxRepairIterations (rl_maxRepairIterations input) = Inr cap"
    by (auto simp: argument_error_def split: if_splits sum.splits)
  obtain st' f where l: "repair_loop cap input cap (Suc 0) (initial_state input) = (st', f)" by fastforce
  note run = runRepairLoop_def cap Let_def l argument_error_def
  show ?thesis
  proof (cases "judgePanelAccepted (rl_initialLogicVerdict input) (rl_initialFaithfulnessVerdict input)")
    case True
    with None show ?thesis
      using at_once [OF True, of cap] by (intro valid [OF None cap]) (auto simp: run split: if_splits)
  next
    case False
    with None show ?thesis
      using loop_keeps [of 1 cap cap input "initial_state input"] enter [of input] valid [OF None cap]
      by (cases f) (auto simp: run split: if_splits)
  qed
qed

end

lemma planned_simps [simp]:
  "ls_list (planned input k st) = ls_list st" "ls_logic (planned input k st) = ls_logic st"
  "ls_faith (planned input k st) = ls_faith st" "ls_outputTokens (planned input k st) = ls_outputTokens st"
  "ls_attempts (planned input k st) = ls_attempts st" "ls_iterations (planned input k st) = ls_iterations st"
  "ls_announced (planned input k st) = ls_announced st"
  "ls_files (planned input k st) =
     ls_files st @ [(planner_path k, Planner_artifact (planner_artifact input k (plan_of input st) st))]"
  by (simp_all add: planned_def)

lemma booked_simps [simp]:
  "ls_logic (booked input k regen st) = ls_logic st"
  "ls_faith (booked input k regen st) = ls_faith st"
  "ls_outputTokens (booked input k regen st) = ls_outputTokens st + sanitizeGuardCount (Some (rs_outputTokens regen))"
  "ls_attempts (booked input k regen st) = ls_attempts st + 1"
  "ls_iterations (booked input k regen st) = ls_iterations st"
  "ls_announced (booked input k regen st) = ls_announced st"
  "ls_files (booked input k regen st) = ls_files (planned input k st) @
     [(generation_path k, Generation_artifact (generation_artifact input k (plan_of input st) (ls_list st) regen))]"
  by (simp_all add: booked_def charged_def)

lemma judged_simps [simp]:
  "ls_list (judged input k regen lr fr st) = rs_list regen"
  "ls_logic (judged input k regen lr fr st) = lr_verdict lr"
  "ls_faith (judged input k regen lr fr st) = map_option fj_verdict fr"
  "ls_outputTokens (judged input k regen lr fr st) = ls_outputTokens (booked input k regen st)"
  "ls_attempts (judged input k regen lr fr st) = ls_attempts (booked input k regen st)"
  "ls_files (judged input k regen lr fr st) = ls_files (booked input k regen st)"
  by (simp_all add: judged_def Let_def add_record_def)

definition judged_record ::
  "RunRepairLoopInput \<Rightarrow> nat \<Rightarrow> RepairLoopRegenerateResult \<Rightarrow> RepairLoopLogicJudgeResult \<Rightarrow>
   RepairLoopFaithfulnessJudgeResult option \<Rightarrow> loop_state \<Rightarrow> RepairLoopIterationRecord" where
  "judged_record input k regen lr fr st = last (ls_iterations (judged input k regen lr fr st))"

lemma judged_records [simp]:
  "ls_iterations (judged input k regen lr fr st) = ls_iterations st @ [judged_record input k regen lr fr st]"
  "ls_announced (judged input k regen lr fr st) = ls_announced st @ [judged_record input k regen lr fr st]"
  by (simp_all add: judged_record_def judged_def Let_def add_record_def)

lemma judged_record_simps [simp]:
  "it_iteration (judged_record input k regen lr fr st) = k"
  "it_logicVerdict (judged_record input k regen lr fr st) = jv_verdict (lr_verdict lr)"
  "it_faithfulnessVerdict (judged_record input k regen lr fr st) = map_option (fv_verdict \<circ> fj_verdict) fr"
  "it_outputHash (judged_record input k regen lr fr st) = rl_sha256Hex input (Hashed_list (rs_list regen))"
  "it_verdictSignature (judged_record input k regen lr fr st) =
     computeVerdictSignature (rl_sha256Hex input) (lr_verdict lr)"
  by (simp_all add: judged_record_def judged_def Let_def add_record_def iteration_record_def option.map_comp)

lemma initial_records:
  obtains rec where "ls_iterations (initial_state input) = [rec]" "it_iteration rec = 0"
    "it_logicVerdict rec = jv_verdict (rl_initialLogicVerdict input)"
    "it_faithfulnessVerdict rec = map_option fv_verdict (rl_initialFaithfulnessVerdict input)"
    "it_verdictSignature rec = computeVerdictSignature (rl_sha256Hex input) (rl_initialLogicVerdict input)"
  by (simp add: initial_state_def Let_def add_record_def iteration_record_def)

lemma loop_result_simps [simp]:
  "rr_outcome (loop_result cap out n st) = out" "rr_finalList (loop_result cap out n st) = ls_list st"
  "rr_finalLogicVerdict (loop_result cap out n st) = ls_logic st"
  "rr_finalFaithfulnessVerdict (loop_result cap out n st) = ls_faith st"
  "rr_iterations (loop_result cap out n st) = ls_iterations st"
  "rr_repairIterationCount (loop_result cap out n st) = n" "rr_maxRepairIterations (loop_result cap out n st) = cap"
  by (simp_all add: loop_result_def)

lemma cap_bound: "resolveMaxRepairIterations r = Inr cap \<Longrightarrow> cap \<le> REPAIR_LOOP_MAX_ITERATIONS_HARD_CAP"
  by (auto simp: resolveMaxRepairIterations_def Let_def split: if_splits)

section \<open>The course of a run\<close>

definition run_paths :: "nat \<Rightarrow> string list list" where
  "run_paths n = concat (map (\<lambda>i. [planner_path i, generation_path i]) [1..<Suc n])"

lemma run_paths_Suc [simp]: "run_paths (Suc n) = run_paths n @ [planner_path (Suc n), generation_path (Suc n)]"
  by (simp add: run_paths_def)

lemma run_paths_0 [simp]: "run_paths 0 = []"
  by (simp add: run_paths_def)

text \<open>What a run may leave on disk after its last complete iteration.\<close>

definition closing_files :: "RepairLoopOutcome \<Rightarrow> bool \<Rightarrow> nat \<Rightarrow> string list list \<Rightarrow> bool" where
  "closing_files outcome capped n paths =
     (case outcome of
        Convergence_stalled \<Rightarrow> paths = [[REPAIR_LOOP_TRACE_ARTIFACT_FILENAME]]
      | Budget_exhausted \<Rightarrow> paths = [[REPAIR_LOOP_BUDGET_TRACE_ARTIFACT_FILENAME]]
      | Loop_needs_review \<Rightarrow> if capped then paths = [] else
          paths = [planner_path (Suc n)] \<or> paths = [planner_path (Suc n), generation_path (Suc n)]
      | _ \<Rightarrow> paths = [])"

definition course_inv :: "RunRepairLoopInput \<Rightarrow> nat \<Rightarrow> loop_state \<Rightarrow> bool" where
  "course_inv input k st \<longleftrightarrow> map it_iteration (ls_iterations st) = [0..<k]
     \<and> ls_announced st = ls_iterations st \<and> map fst (ls_files st) = run_paths (k - 1)"

definition course_promise ::
  "RunRepairLoopInput \<Rightarrow> nat \<Rightarrow> loop_state \<Rightarrow> repair_error + RepairLoopResult \<Rightarrow> bool" where
  "course_promise input cap st out =
     (case out of
        Inl e \<Rightarrow> \<exists>n\<le>cap. prefix (map fst (ls_files st)) (run_paths n)
      | Inr r \<Rightarrow> let n = rr_repairIterationCount r in
          n \<le> cap \<and> rr_maxRepairIterations r = cap \<and> map it_iteration (rr_iterations r) = [0..<Suc n]
          \<and> ls_announced st = rr_iterations r
          \<and> (\<exists>closing. map fst (ls_files st) = run_paths n @ closing \<and> closing_files (rr_outcome r) (n = cap) n closing))"

lemma course_step:
  assumes k: "1 \<le> k" "k \<le> cap" and inv: "course_inv input k st"
  shows "case repair_iteration input cap k st of
         (st', Next _) \<Rightarrow> course_inv input (Suc k) st'
       | (st', Return r) \<Rightarrow> course_promise input cap st' (Inr r)
       | (st', Throw e) \<Rightarrow> course_promise input cap st' (Inl e)"
proof -
  obtain j where j: "k = Suc j" using k(1) by (cases k) auto
  note defs = course_inv_def course_promise_def closing_files_def Let_def
  have its: "map it_iteration (ls_iterations st) = [0..<Suc j]" "ls_announced st = ls_iterations st"
    and files: "map fst (ls_files st) = run_paths j"
    using inv by (simp_all add: course_inv_def j)
  have len: "length (ls_iterations st) = Suc j" using arg_cong [OF its(1), of length] by simp
  show ?thesis
  proof (cases rule: repair_iteration_cases [of input st cap k])
    case stopped
    then show ?thesis using its files len k by (simp add: defs j)
  next
    case (failed st' e)
    have "prefix (map fst (ls_files st')) (run_paths (Suc j))"
      using failed(2) files by (auto simp: aborted_files_def j)
    then show ?thesis using failed(1) k by (auto simp: defs j simp del: run_paths_Suc)
  next
    case (soft st')
    have "ls_iterations st' = ls_iterations st" "ls_announced st' = ls_announced st"
      "map fst (ls_files st') = run_paths j @ [planner_path k] \<or>
       map fst (ls_files st') = run_paths j @ [planner_path k, generation_path k]"
      using soft(3) files by (auto elim!: soft_failed.cases)
    then show ?thesis using soft(4) its k by (auto simp: defs j)
  next
    case (completed regen lr fr)
    have ne: "ls_iterations st \<noteq> []" using len by auto
    show ?thesis
      unfolding completed(5)
      by (cases rule: conclude_cases [OF ne, of input k regen lr fr cap])
        (use its files k in \<open>auto simp: defs j intro!: exI [of _ "Suc j"]\<close>)
  qed
qed

interpretation course: loop_contract course_inv course_promise
proof unfold_locales
  show "course_inv input 1 (initial_state input)" for input
    by (rule initial_records [of input]) (simp add: course_inv_def)
  show "course_promise input cap (initial_state input) (Inr (loop_result cap Loop_accepted 0 (initial_state input)))"
    for input cap
    by (rule initial_records [of input]) (simp add: course_promise_def closing_files_def)
qed (simp_all add: course_step course_promise_def course_inv_def closing_files_def split: prod.split flow.split)

lemma repair_cap:
  "case snd (runRepairLoop input) of
     Inl e \<Rightarrow> True
   | Inr r \<Rightarrow> resolveMaxRepairIterations (rl_maxRepairIterations input) = Inr (rr_maxRepairIterations r)"
proof (cases rule: course.run_cases [of input])
  case (valid cap st out)
  then show ?thesis by (cases out) (simp_all add: course_promise_def Let_def)
qed simp

text \<open>C10: A run always ends: it returns or throws after at most the requested number of repair iterations, never
  more than five. The records of a result are numbered from 0 to the reported number of repairs, and
  exactly these were announced. On disk there is one planner and one generation file per iteration,
  followed by the trace of a stall or of an exhausted budget, or by the files of the iteration that a
  failed callback broke off; a run that throws leaves a prefix of such a list.\<close>

theorem repair_run_accounted:
  "case runRepairLoop input of
     ((files, announced), Inl e) \<Rightarrow>
       \<exists>n\<le>REPAIR_LOOP_MAX_ITERATIONS_HARD_CAP. prefix (map fst files) (run_paths n)
   | ((files, announced), Inr r) \<Rightarrow>
       let n = rr_repairIterationCount r in
       n \<le> rr_maxRepairIterations r
       \<and> resolveMaxRepairIterations (rl_maxRepairIterations input) = Inr (rr_maxRepairIterations r)
       \<and> rr_maxRepairIterations r \<le> REPAIR_LOOP_MAX_ITERATIONS_HARD_CAP
       \<and> map it_iteration (rr_iterations r) = [0..<Suc n] \<and> announced = rr_iterations r
       \<and> (\<exists>closing. map fst files = run_paths n @ closing
            \<and> closing_files (rr_outcome r) (n = rr_maxRepairIterations r) n closing)"
proof (cases rule: course.run_cases [of input])
  case invalid
  then show ?thesis by auto
next
  case (valid cap st out)
  then show ?thesis
    using cap_bound [OF valid(2)] by (cases out) (auto simp: course_promise_def Let_def intro: order_trans)
qed

section \<open>Verdicts and outcomes\<close>

text \<open>The verdicts beside a list are those the judges gave on it in the iteration that made it.\<close>

definition fresh :: "RunRepairLoopInput \<Rightarrow> nat \<Rightarrow> GeneratedTestCaseList \<Rightarrow> JudgeVerdict \<Rightarrow> FaithfulnessVerdict option \<Rightarrow> bool" where
  "fresh input n xs logic faith \<longleftrightarrow>
     (if n = 0
      then xs = rl_initialList input \<and> logic = rl_initialLogicVerdict input \<and> faith = rl_initialFaithfulnessVerdict input
      else \<exists>lr fr. logic_call input n xs = Inr lr \<and> lr_verdict lr = logic
             \<and> faithfulness_call input n xs logic = map_option Inr fr \<and> faith = map_option fj_verdict fr)"

text \<open>
  How a broken-off iteration leaves its list: untouched, with the verdicts given on it; or already
  replaced, beside the verdicts on the list before; or replaced and accepted by the logic judge, beside
  the faithfulness verdict on the list before.
\<close>

definition broken_off :: "RunRepairLoopInput \<Rightarrow> nat \<Rightarrow> GeneratedTestCaseList \<Rightarrow> JudgeVerdict \<Rightarrow> FaithfulnessVerdict option \<Rightarrow> bool" where
  "broken_off input n xs logic faith \<longleftrightarrow>
     fresh input n xs logic faith
     \<or> (\<exists>before e. fresh input n before logic faith \<and> logic_call input (Suc n) xs = Inl e)
     \<or> (\<exists>before logic0 lr e. fresh input n before logic0 faith \<and> logic_call input (Suc n) xs = Inr lr
          \<and> lr_verdict lr = logic \<and> faithfulness_call input (Suc n) xs logic = Some (Inl e))"

definition undecided :: "RepairLoopIterationRecord \<Rightarrow> bool" where
  "undecided rec \<longleftrightarrow> it_logicVerdict rec \<noteq> V_reject \<and> it_faithfulnessVerdict rec \<noteq> Some V_reject
     \<and> (it_logicVerdict rec = V_repair \<or> it_faithfulnessVerdict rec = Some V_repair)"

text \<open>No two neighbouring records have one signature.\<close>

definition progressing :: "RepairLoopIterationRecord list \<Rightarrow> bool" where
  "progressing its \<longleftrightarrow> distinct_adj (map it_verdictSignature its)"

definition verdict_inv :: "RunRepairLoopInput \<Rightarrow> nat \<Rightarrow> loop_state \<Rightarrow> bool" where
  "verdict_inv input k st \<longleftrightarrow> fresh input (k - 1) (ls_list st) (ls_logic st) (ls_faith st)
     \<and> length (ls_iterations st) = k \<and> ls_iterations st \<noteq> [] \<and> progressing (ls_iterations st) \<and> list_all undecided (tl (ls_iterations st))
     \<and> it_verdictSignature (last (ls_iterations st)) = computeVerdictSignature (rl_sha256Hex input) (ls_logic st)"

definition verdict_promise ::
  "RunRepairLoopInput \<Rightarrow> nat \<Rightarrow> loop_state \<Rightarrow> repair_error + RepairLoopResult \<Rightarrow> bool" where
  "verdict_promise input cap st out =
     (case out of
        Inl e \<Rightarrow> True
      | Inr r \<Rightarrow>
          let n = rr_repairIterationCount r; its = rr_iterations r;
              current = fresh input n (rr_finalList r) (rr_finalLogicVerdict r) (rr_finalFaithfulnessVerdict r)
          in list_all undecided (tl (butlast its)) \<and> its \<noteq> [] \<and>
             (case rr_outcome r of
                Loop_accepted \<Rightarrow> current \<and> judgePanelAccepted (rr_finalLogicVerdict r) (rr_finalFaithfulnessVerdict r)
                  \<and> progressing (butlast its)
              | Loop_rejected \<Rightarrow> current \<and> judgePanelRejected (rr_finalLogicVerdict r) (rr_finalFaithfulnessVerdict r)
                  \<and> 0 < n \<and> progressing (butlast its)
              | Convergence_stalled \<Rightarrow> current \<and> 0 < n \<and> undecided (last its) \<and> progressing (butlast its) \<and> \<not> progressing its
              | Budget_exhausted \<Rightarrow> current \<and> list_all undecided (tl its) \<and> progressing its
              | Loop_needs_review \<Rightarrow> list_all undecided (tl its) \<and> progressing its
                  \<and> (if n = cap then current
                     else rl_softFailOnIterationError input
                       \<and> broken_off input n (rr_finalList r) (rr_finalLogicVerdict r) (rr_finalFaithfulnessVerdict r))))"

lemma undecided_judged:
  "\<not> judgePanelAccepted (lr_verdict lr) (map_option fj_verdict fr) \<Longrightarrow>
   \<not> judgePanelRejected (lr_verdict lr) (map_option fj_verdict fr) \<Longrightarrow>
   undecided (judged_record input k regen lr fr st)"
  by (cases "jv_verdict (lr_verdict lr)"; cases fr; cases "fv_verdict (fj_verdict (the fr))")
    (auto simp: undecided_def judgePanelAccepted_def judgePanelRejected_def)

lemma progressing_snoc:
  "its \<noteq> [] \<Longrightarrow> progressing (its @ [r]) \<longleftrightarrow> progressing its \<and> it_verdictSignature (last its) \<noteq> it_verdictSignature r"
  by (simp add: progressing_def distinct_adj_append_iff last_map)

lemma verdict_step:
  assumes k: "1 \<le> k" "k \<le> cap" and inv: "verdict_inv input k st"
  shows "case repair_iteration input cap k st of
         (st', Next _) \<Rightarrow> verdict_inv input (Suc k) st'
       | (st', Return r) \<Rightarrow> verdict_promise input cap st' (Inr r)
       | (st', Throw e) \<Rightarrow> verdict_promise input cap st' (Inl e)"
proof -
  note defs = verdict_inv_def verdict_promise_def Let_def
  show ?thesis
  proof (cases rule: repair_iteration_cases [of input st cap k])
    case stopped
    then show ?thesis using inv k
      by (cases "ls_iterations st") (auto simp: defs list_all_iff dest!: in_set_butlastD)
  next
    case failed
    then show ?thesis by (simp add: verdict_promise_def)
  next
    case (soft st')
    have "ls_iterations st' = ls_iterations st" using soft(3) by (auto elim!: soft_failed.cases)
    moreover have "broken_off input (k - 1) (ls_list st') (ls_logic st') (ls_faith st')"
      using soft(3)
    proof cases
      case No_logic
      then show ?thesis using inv k by (auto simp: broken_off_def verdict_inv_def)
    next
      case No_faithfulness
      then show ?thesis using inv k unfolding broken_off_def verdict_inv_def by auto
    qed (use inv in \<open>simp add: broken_off_def verdict_inv_def\<close>)
    ultimately show ?thesis using inv k soft
      by (cases "ls_iterations st") (auto simp: defs list_all_iff dest!: in_set_butlastD)
  next
    case (completed regen lr fr)
    have ne: "ls_iterations st \<noteq> []" using inv by (simp add: verdict_inv_def)
    have fresh: "fresh input k (rs_list regen) (lr_verdict lr) (map_option fj_verdict fr)"
      using completed k by (auto simp: fresh_def)
    show ?thesis
      unfolding completed(5)
      by (cases rule: conclude_cases [OF ne, of input k regen lr fr cap])
        (use inv ne fresh k in \<open>auto simp: defs progressing_snoc undecided_judged\<close>)
  qed
qed

interpretation verdicts: loop_contract verdict_inv verdict_promise
proof unfold_locales
  show "verdict_inv input 1 (initial_state input)" for input
    by (rule initial_records [of input]) (simp add: verdict_inv_def fresh_def progressing_def)
  show "judgePanelAccepted (rl_initialLogicVerdict input) (rl_initialFaithfulnessVerdict input) \<Longrightarrow>
    verdict_promise input cap (initial_state input) (Inr (loop_result cap Loop_accepted 0 (initial_state input)))"
    for input cap
    by (rule initial_records [of input]) (simp add: verdict_promise_def fresh_def progressing_def)
  show "verdict_inv input (Suc cap) st \<Longrightarrow>
    verdict_promise input cap st (Inr (loop_result cap Loop_needs_review cap st))" for input cap st
    by (cases "ls_iterations st") (auto simp: verdict_promise_def verdict_inv_def list_all_iff dest!: in_set_butlastD)
qed (rule verdict_step)

definition error_promise :: "RunRepairLoopInput \<Rightarrow> nat \<Rightarrow> loop_state \<Rightarrow> repair_error + RepairLoopResult \<Rightarrow> bool" where
  "error_promise input cap st out = (case out of Inl e \<Rightarrow> error_cause input e | Inr _ \<Rightarrow> True)"

interpretation errors: loop_contract "\<lambda>input k st. ls_iterations st \<noteq> []" error_promise
proof unfold_locales
  show "ls_iterations (initial_state input) \<noteq> []" for input
    by (rule initial_records [of input]) simp
  show "case repair_iteration input cap k st of (st', Next _) \<Rightarrow> ls_iterations st' \<noteq> []
      | (st', Return r) \<Rightarrow> error_promise input cap st' (Inr r) | (st', Throw e) \<Rightarrow> error_promise input cap st' (Inl e)"
    if ne: "ls_iterations st \<noteq> []" for input cap k st
  proof (cases rule: repair_iteration_cases [of input st cap k])
    case (completed regen lr fr)
    show ?thesis
      unfolding completed(5) by (cases rule: conclude_cases [OF ne, of input k regen lr fr cap])
        (auto simp: error_promise_def Let_def)
  qed (simp_all add: error_promise_def Let_def)
qed (simp_all add: error_promise_def)

section \<open>Spending\<close>

fun planner_of :: "string list \<times> repair_artifact \<Rightarrow> RepairPlannerIterationArtifact option" where
  "planner_of (_, Planner_artifact a) = Some a"
| "planner_of _ = None"

fun generation_of :: "string list \<times> repair_artifact \<Rightarrow> TestGenerationRepairIterationArtifact option" where
  "generation_of (_, Generation_artifact a) = Some a"
| "generation_of _ = None"

definition initial_tokens :: "RunRepairLoopInput \<Rightarrow> int" where
  "initial_tokens input = sanitizeGuardCount (Option.bind (rl_budget input) bg_initialGeneratorOutputTokens)"

definition initial_attempts :: "RunRepairLoopInput \<Rightarrow> int" where
  "initial_attempts input = sanitizeGuardCount (Option.bind (rl_budget input) bg_initialGeneratorAttempts)"

definition tokens_of :: "TestGenerationRepairIterationArtifact \<Rightarrow> int" where
  "tokens_of g = sanitizeGuardCount (Some (ga_outputTokens g))"

definition spent :: "RunRepairLoopInput \<Rightarrow> TestGenerationRepairIterationArtifact list \<Rightarrow> int" where
  "spent input gens = initial_tokens input + sum_list (map tokens_of gens)"

lemma spent_snoc [simp]: "spent input (gens @ [g]) = spent input gens + tokens_of g"
  by (simp add: spent_def)

text \<open>The guard let the first \<open>n\<close> regenerations start.\<close>

definition admitted :: "RunRepairLoopInput \<Rightarrow> (string list \<times> repair_artifact) list \<Rightarrow> bool" where
  "admitted input files \<longleftrightarrow>
     list_all (\<lambda>i. projectedBudgetTrigger (rl_budget input) (spent input (take i (List.map_filter generation_of files)))
         (initial_attempts input + int i) = None)
       [0..<length (List.map_filter planner_of files)]"

definition budget_inv :: "RunRepairLoopInput \<Rightarrow> nat \<Rightarrow> loop_state \<Rightarrow> bool" where
  "budget_inv input k st \<longleftrightarrow> ls_iterations st \<noteq> [] \<and> admitted input (ls_files st)
     \<and> length (List.map_filter planner_of (ls_files st)) = length (List.map_filter generation_of (ls_files st))
     \<and> ls_outputTokens st = spent input (List.map_filter generation_of (ls_files st))
     \<and> ls_attempts st = initial_attempts input + int (length (List.map_filter generation_of (ls_files st)))"

definition budget_promise ::
  "RunRepairLoopInput \<Rightarrow> nat \<Rightarrow> loop_state \<Rightarrow> repair_error + RepairLoopResult \<Rightarrow> bool" where
  "budget_promise input cap st out \<longleftrightarrow> admitted input (ls_files st)
     \<and> length (List.map_filter generation_of (ls_files st)) \<le> length (List.map_filter planner_of (ls_files st))"

lemma map_filter_snoc [simp]:
  "List.map_filter f (xs @ ys) = List.map_filter f xs @ List.map_filter f ys"
  by (simp add: List.map_filter_def)

lemmas filing = List.map_filter_simps booked_simps(7) planned_simps(8)

lemma admitted_trace [simp]:
  "admitted input (files @ [(p, Stall_trace t)]) = admitted input files"
  "admitted input (files @ [(p, Budget_trace b)]) = admitted input files"
  by (simp_all add: admitted_def List.map_filter_simps)

lemma budget_files:
  assumes inv: "budget_inv input k st" and quiet: "budget_stop input st = None"
  shows "admitted input (ls_files (planned input k st))"
    and "admitted input (ls_files (booked input k regen st))"
proof -
  have all: "admitted input (ls_files st)" and same:
    "length (List.map_filter planner_of (ls_files st)) = length (List.map_filter generation_of (ls_files st))"
    using inv by (simp_all add: budget_inv_def)
  have open_guard: "projectedBudgetTrigger (rl_budget input) (spent input (List.map_filter generation_of (ls_files st)))
      (initial_attempts input + int (length (List.map_filter generation_of (ls_files st)))) = None"
    using inv quiet by (simp add: budget_inv_def)
  show "admitted input (ls_files (planned input k st))" "admitted input (ls_files (booked input k regen st))"
    using all open_guard same by (simp_all add: admitted_def filing list_all_iff)
qed

interpretation budget: loop_contract budget_inv budget_promise
proof unfold_locales
  show "budget_inv input 1 (initial_state input)" for input
    by (rule initial_records [of input])
      (simp add: budget_inv_def admitted_def spent_def initial_tokens_def initial_attempts_def List.map_filter_simps)
  show "budget_promise input cap (initial_state input) (Inr (loop_result cap Loop_accepted 0 (initial_state input)))"
    for input cap
    by (simp add: budget_promise_def admitted_def List.map_filter_simps)
  show "case repair_iteration input cap k st of (st', Next _) \<Rightarrow> budget_inv input (Suc k) st'
      | (st', Return r) \<Rightarrow> budget_promise input cap st' (Inr r) | (st', Throw e) \<Rightarrow> budget_promise input cap st' (Inl e)"
    if inv: "budget_inv input k st" for input cap k st
  proof (cases rule: repair_iteration_cases [of input st cap k])
    case stopped
    then show ?thesis using inv by (simp add: budget_promise_def budget_inv_def filing Let_def)
  next
    case (failed st' e)
    then show ?thesis using inv budget_files [OF inv]
      by (auto simp: budget_promise_def aborted_files_def budget_inv_def filing)
  next
    case (soft st')
    then show ?thesis using inv budget_files [OF inv]
      by (auto simp: budget_promise_def budget_inv_def filing elim!: soft_failed.cases)
  next
    case (completed regen lr fr)
    have ne: "ls_iterations st \<noteq> []" using inv by (simp add: budget_inv_def)
    note files = budget_files [OF inv completed(1)]
    have trace: "admitted input (ls_files (booked input k regen st) @ [(p, Stall_trace t)])" for p t
      using files(2) [of regen] by (simp only: admitted_trace)
    show ?thesis
      unfolding completed(5) by (cases rule: conclude_cases [OF ne, of input k regen lr fr cap])
        (use inv files trace in \<open>auto simp: budget_inv_def budget_promise_def filing tokens_of_def generation_artifact_def Let_def\<close>)
  qed
qed (auto simp: budget_promise_def budget_inv_def)

text \<open>C9: The generator's budget holds in every run, also one that throws: the planner file of a regeneration is only
  written when the attempts so far and one more stay within the limit, and the tokens of the earlier
  regenerations together with the projection for the next one stay within theirs. What the limit does not
  exclude is said exactly: a run whose total exceeds the token limit either regenerated nothing, so that
  the total is the initial count it was given, or had a regeneration that used more tokens than projected.\<close>

theorem repair_budget_respected:
  "case rl_budget input of
     None \<Rightarrow> True
   | Some g \<Rightarrow>
       let files = fst (fst (runRepairLoop input)); gens = List.map_filter generation_of files;
           exceeds = (\<lambda>limit n. case limit of None \<Rightarrow> False | Some m \<Rightarrow> js_less m (of_int n))
       in list_all (\<lambda>i. \<not> exceeds (bg_maxGeneratorAttempts g) (initial_attempts input + int i + 1)
            \<and> \<not> exceeds (bg_maxGeneratorOutputTokens g)
                 (spent input (take i gens) + expectedNextOutputTokens (rl_budget input)))
            [0..<length (List.map_filter planner_of files)]
          \<and> length gens \<le> length (List.map_filter planner_of files)
          \<and> (if exceeds (bg_maxGeneratorOutputTokens g) (spent input gens)
             then gens = [] \<and> spent input gens = initial_tokens input
               \<or> list_ex (\<lambda>x. expectedNextOutputTokens (rl_budget input) < tokens_of x) gens
             else True)"
proof (cases "rl_budget input")
  case (Some g)
  define files where "files = fst (fst (runRepairLoop input))"
  define gens where "gens = List.map_filter generation_of files"
  define exceeds where "exceeds = (\<lambda>limit n. case limit of None \<Rightarrow> False | Some m \<Rightarrow> js_less m (of_int n))"
  have ok: "admitted input files" "length gens \<le> length (List.map_filter planner_of files)"
    unfolding gens_def files_def
    by (cases rule: budget.run_cases [of input]; simp add: budget_promise_def admitted_def List.map_filter_simps)+
  have allowed: "\<not> exceeds (bg_maxGeneratorAttempts g) (initial_attempts input + int i + 1)
      \<and> \<not> exceeds (bg_maxGeneratorOutputTokens g) (spent input (take i gens) + expectedNextOutputTokens (Some g))"
    if "i < length (List.map_filter planner_of files)" for i
  proof -
    have "projectedBudgetTrigger (Some g) (spent input (take i gens)) (initial_attempts input + int i) = None"
      using ok(1) that by (simp add: admitted_def gens_def list_all_iff Some)
    then show ?thesis unfolding projectedBudgetTrigger_def exceeds_def by (simp split: if_splits)
  qed
  have total: "\<not> exceeds (bg_maxGeneratorOutputTokens g) (spent input gens)"
    if ne: "gens \<noteq> []" and small: "\<not> list_ex (\<lambda>x. expectedNextOutputTokens (Some g) < tokens_of x) gens"
  proof -
    have "tokens_of (last gens) \<le> expectedNextOutputTokens (Some g)" using ne small by (auto simp: list_ex_iff not_less)
    then have "spent input gens \<le> spent input (take (length gens - 1) gens) + expectedNextOutputTokens (Some g)"
      using spent_snoc [of input "butlast gens" "last gens", unfolded append_butlast_last_id [OF ne]]
      by (simp add: butlast_conv_take)
    moreover have "\<not> exceeds (bg_maxGeneratorOutputTokens g)
        (spent input (take (length gens - 1) gens) + expectedNextOutputTokens (Some g))"
      using allowed [of "length gens - 1"] ok(2) ne by (cases gens) auto
    ultimately show ?thesis unfolding exceeds_def by (auto split: option.splits elim!: js_less.elims)
  qed
  show ?thesis
    unfolding Some option.case Let_def files_def [symmetric] gens_def [symmetric] exceeds_def [symmetric]
    using allowed total ok(2) by (cases "gens = []") (auto simp: list_all_iff spent_def [of input "[]"])
qed simp

text \<open>The call throws exactly for a reason: its arguments are refused exactly when the job id or the run directory
  is blank or the requested cap is no natural number; any later exception is a failed write, or comes
  from a callback of a run that was not told to survive failing callbacks. A run that is, and can
  write, always returns a result.\<close>

theorem repair_run_raises_exactly:
  "case snd (runRepairLoop input) of
     Inr r \<Rightarrow> argument_error input = None
   | Inl e \<Rightarrow> if argument_error input = None then error_cause input e else argument_error input = Some e"
proof (cases rule: errors.run_cases [of input])
  case (valid cap st out)
  then show ?thesis by (cases out) (simp_all add: error_promise_def)
qed simp

text \<open>C8: What a result says, exactly. A result is accepted or rejected exactly as the judges accepted or rejected the
  list it carries, in the iteration that made it; a stall is reported at the first iteration that
  repeats the previous signature without a decision, and no run continues past such a repetition or
  past a decision. A review before the cap means that a callback failed, and only then may the
  verdicts be older than the list.\<close>

theorem repair_outcome_exact:
  "case snd (runRepairLoop input) of
     Inl e \<Rightarrow> True
   | Inr r \<Rightarrow>
       let n = rr_repairIterationCount r; its = rr_iterations r;
           logic = rr_finalLogicVerdict r; faith = rr_finalFaithfulnessVerdict r;
           current = fresh input n (rr_finalList r) logic faith
       in list_all undecided (tl (butlast its)) \<and> its \<noteq> [] \<and>
          (case rr_outcome r of
             Loop_accepted \<Rightarrow> current \<and> judgePanelAccepted logic faith \<and> progressing (butlast its)
           | Loop_rejected \<Rightarrow> current \<and> judgePanelRejected logic faith \<and> 0 < n \<and> progressing (butlast its)
           | Convergence_stalled \<Rightarrow> current \<and> 0 < n \<and> undecided (last its) \<and> progressing (butlast its) \<and> \<not> progressing its
           | Budget_exhausted \<Rightarrow> current \<and> list_all undecided (tl its) \<and> progressing its
           | Loop_needs_review \<Rightarrow> list_all undecided (tl its) \<and> progressing its
               \<and> (if n = rr_maxRepairIterations r then current
                  else rl_softFailOnIterationError input \<and> broken_off input n (rr_finalList r) logic faith))"
proof (cases rule: verdicts.run_cases [of input])
  case (valid cap st out)
  show ?thesis
  proof (cases out)
    case (Inr r)
    have "rr_maxRepairIterations r = cap" using repair_cap [of input] valid(2,3) Inr by simp
    then show ?thesis using valid(4) by (simp only: valid(3) Inr verdict_promise_def snd_conv sum.case Let_def) simp
  qed (simp add: valid(3))
qed simp

end
