(* ===== verification/HumanQueue.thy ===== *)
theory HumanQueue
  imports HumanReview ReviewPersistence
begin

text \<open>
  The human-review queue (\<^verbatim>\<open>packages/review/src/human-review-queue.ts\<close>): the validators of items and
  verdicts, the signature check, and every operation of the filesystem store. A tenant's directory is
  three lists of named files; a file's text is represented by the value it parses to, and canonical
  texts are compared as normalised values. Key import, SHA-256, ed25519 and the canonical text of a
  signed body are parameters.
\<close>

section \<open>Data\<close>

record JudgeDisagreementJudgeEntry =
  dj_judgeId :: string
  dj_family :: string
  dj_modelId :: string
  dj_promptVersion :: string
  dj_region :: string
  dj_verdict :: LogicJudgeVerdictLabel

record JudgeDisagreementSnapshot =
  ds_decision :: string
  ds_escalation :: string
  ds_disagreementRate :: js_number
  ds_judges :: "JudgeDisagreementJudgeEntry list"

record HumanReviewQueueItem =
  qi_schemaVersion :: string
  qi_contractVersion :: string
  qi_itemId :: string
  qi_tenantId :: string
  qi_profileId :: string
  qi_runId :: string
  qi_testCaseId :: string
  qi_judgeDisagreement :: JudgeDisagreementSnapshot
  qi_proposedDecision :: string
  qi_enqueuedAt :: string
  qi_slaDeadlineAt :: string

record HumanReviewVerdict =
  hv_schemaVersion :: string
  hv_contractVersion :: string
  hv_itemId :: string
  hv_reviewerPrincipalHash :: string
  hv_verdict :: string
  hv_rationale :: string
  hv_revisedTestCase :: "json option"
  hv_decidedAt :: string
  hv_signatureHex :: string
  hv_publicKeyFingerprintSha256 :: string
  hv_publicKeyPem :: string

record HumanReviewFilter =
  qf_tenantId :: string
  qf_profileId :: "string option"
  qf_slaDueBy :: "string option"

record HumanReviewSlaBreachEntry =
  sb_itemId :: string
  sb_testCaseId :: string
  sb_slaDeadlineAt :: string
  sb_observedAt :: string

record HumanReviewLog =
  hl_schemaVersion :: string
  hl_contractVersion :: string
  hl_jobId :: string
  hl_tenantId :: string
  hl_generatedAt :: string
  hl_items :: "HumanReviewQueueItem list"
  hl_verdicts :: "HumanReviewVerdict list"
  hl_slaBreaches :: "HumanReviewSlaBreachEntry list"

text \<open>The codes of \<^verbatim>\<open>HumanReviewQueueError\<close>, with the label of the offending field where the code has one.\<close>

datatype queue_error =
    E_INVALID_SEGMENT string
  | E_INVALID_TIMESTAMP string
  | E_INVALID_RATIONALE
  | E_INVALID_VERDICT string
  | E_INVALID_SCHEMA string
  | E_INVALID_FIELD string
  | E_INVALID_SLA
  | E_INVALID_SIGNATURE
  | E_INVALID_KEY
  | E_KEY_FINGERPRINT_MISMATCH
  | E_SIGNATURE_INVALID
  | E_QUEUE_ITEM_ALREADY_EXISTS
  | E_QUEUE_ITEM_NOT_FOUND
  | E_VERDICT_ALREADY_RECORDED

text \<open>What the module takes from the host: the key type and the SPKI bytes of a PEM text, and the rest.\<close>

record queue_host =
  qh_importKey :: "string \<Rightarrow> (string \<times> string) option"
  qh_sha256Hex :: "string \<Rightarrow> string"
  qh_verify :: "string \<Rightarrow> string \<Rightarrow> string \<Rightarrow> bool"  \<comment> \<open>payload, key, signature\<close>
  qh_bodyText :: "HumanReviewVerdict \<Rightarrow> string"  \<comment> \<open>the text of a normalised body\<close>
  qh_idText :: "string \<Rightarrow> string \<Rightarrow> string \<Rightarrow> string"
  qh_collation :: "string comparator"

section \<open>Validation\<close>

definition HUMAN_REVIEW_QUEUE_ITEM_SCHEMA_VERSION :: string where
  "HUMAN_REVIEW_QUEUE_ITEM_SCHEMA_VERSION = ''1.0.0''"

definition HUMAN_REVIEW_VERDICT_SCHEMA_VERSION :: string where
  "HUMAN_REVIEW_VERDICT_SCHEMA_VERSION = ''1.0.0''"

definition HUMAN_REVIEW_LOG_SCHEMA_VERSION :: string where
  "HUMAN_REVIEW_LOG_SCHEMA_VERSION = ''1.0.0''"

definition HUMAN_REVIEW_VERDICT_RATIONALE_MAX_CHARS :: nat where
  "HUMAN_REVIEW_VERDICT_RATIONALE_MAX_CHARS = 4096"

definition HUMAN_REVIEW_QUEUE_VERDICT_LABELS :: "string list" where
  "HUMAN_REVIEW_QUEUE_VERDICT_LABELS = [''approved'', ''rejected'', ''revised'']"

definition alphanumeric :: "char \<Rightarrow> bool" where
  "alphanumeric c \<longleftrightarrow> c \<in> set ''ABCDEFGHIJKLMNOPQRSTUVWXYZabcdefghijklmnopqrstuvwxyz0123456789''"

definition SAFE_PATH_SEGMENT :: "string \<Rightarrow> bool" where
  "SAFE_PATH_SEGMENT s =
     (case s of [] \<Rightarrow> False
      | c # cs \<Rightarrow> alphanumeric c \<and> length cs \<le> 127 \<and> list_all (\<lambda>d. alphanumeric d \<or> d \<in> set ''._-'') cs)"

text \<open>The line separators U+2028 and U+2029 are no code units of the model.\<close>

definition QUEUE_FORBIDDEN_RATIONALE_CHARS :: "nat list" where
  "QUEUE_FORBIDDEN_RATIONALE_CHARS = [10, 13, 0]"

definition isHex :: "string \<Rightarrow> nat \<Rightarrow> bool" where
  "isHex s n \<longleftrightarrow> length s = n \<and> s \<noteq> [] \<and> list_all (\<lambda>c. c \<in> set ''0123456789abcdef'') s"

definition refuse_unless :: "bool \<Rightarrow> queue_error \<Rightarrow> queue_error option" where
  "refuse_unless ok e = (if ok then None else Some e)"

definition assertSafeSegment :: "string \<Rightarrow> string \<Rightarrow> queue_error option" where
  "assertSafeSegment s label = refuse_unless
     (s \<noteq> [] \<and> s \<noteq> ''.'' \<and> s \<noteq> ''..'' \<and> CHR ''/'' \<notin> set s \<and> CHR 0x5C \<notin> set s \<and> SAFE_PATH_SEGMENT s)
     (E_INVALID_SEGMENT label)"

definition assertIso8601 :: "string \<Rightarrow> string \<Rightarrow> queue_error option" where
  "assertIso8601 s label = refuse_unless (ISO_8601 s) (E_INVALID_TIMESTAMP label)"

definition assertQueueRationale :: "string \<Rightarrow> queue_error option" where
  "assertQueueRationale rationale = refuse_unless
     (rationale \<noteq> [] \<and> length rationale \<le> HUMAN_REVIEW_VERDICT_RATIONALE_MAX_CHARS
      \<and> list_all (\<lambda>c. char_of c \<notin> set rationale) QUEUE_FORBIDDEN_RATIONALE_CHARS)
     E_INVALID_RATIONALE"

definition assertVerdictLabel :: "string \<Rightarrow> queue_error option" where
  "assertVerdictLabel verdict = refuse_unless (verdict \<in> set HUMAN_REVIEW_QUEUE_VERDICT_LABELS) (E_INVALID_VERDICT verdict)"

definition rate_ok :: "js_number \<Rightarrow> bool" where
  "rate_ok q = (case q of Fin r \<Rightarrow> 0 \<le> r \<and> r \<le> 1 | _ \<Rightarrow> False)"

definition assertHumanReviewQueueItemInvariants :: "HumanReviewQueueItem \<Rightarrow> queue_error option" where
  "assertHumanReviewQueueItemInvariants item = first_error
     [refuse_unless (qi_schemaVersion item = HUMAN_REVIEW_QUEUE_ITEM_SCHEMA_VERSION) (E_INVALID_SCHEMA ''schemaVersion''),
      refuse_unless (qi_contractVersion item = TEST_INTELLIGENCE_CONTRACT_VERSION) (E_INVALID_SCHEMA ''contractVersion''),
      assertSafeSegment (qi_itemId item) ''itemId'',
      assertSafeSegment (qi_tenantId item) ''tenantId'',
      assertSafeSegment (qi_profileId item) ''profileId'',
      assertSafeSegment (qi_runId item) ''runId'',
      refuse_unless (qi_testCaseId item \<noteq> []) (E_INVALID_FIELD ''testCaseId''),
      assertIso8601 (qi_enqueuedAt item) ''enqueuedAt'',
      assertIso8601 (qi_slaDeadlineAt item) ''slaDeadlineAt'',
      refuse_unless (qi_enqueuedAt item \<le> qi_slaDeadlineAt item) E_INVALID_SLA,
      refuse_unless (rate_ok (ds_disagreementRate (qi_judgeDisagreement item))) (E_INVALID_FIELD ''disagreementRate'')]"

definition assertHumanReviewVerdictInvariants :: "HumanReviewVerdict \<Rightarrow> queue_error option" where
  "assertHumanReviewVerdictInvariants v = first_error
     [refuse_unless (hv_schemaVersion v = HUMAN_REVIEW_VERDICT_SCHEMA_VERSION) (E_INVALID_SCHEMA ''schemaVersion''),
      refuse_unless (hv_contractVersion v = TEST_INTELLIGENCE_CONTRACT_VERSION) (E_INVALID_SCHEMA ''contractVersion''),
      assertSafeSegment (hv_itemId v) ''itemId'',
      assertVerdictLabel (hv_verdict v),
      assertQueueRationale (hv_rationale v),
      assertIso8601 (hv_decidedAt v) ''decidedAt'',
      refuse_unless (isHex (hv_reviewerPrincipalHash v) 64) (E_INVALID_FIELD ''reviewerPrincipalHash''),
      refuse_unless (isHex (hv_signatureHex v) 128) E_INVALID_SIGNATURE,
      refuse_unless (isHex (hv_publicKeyFingerprintSha256 v) 64) (E_INVALID_FIELD ''publicKeyFingerprintSha256''),
      refuse_unless (js_includes ''BEGIN PUBLIC KEY'' (hv_publicKeyPem v)) (E_INVALID_FIELD ''publicKeyPem''),
      refuse_unless (hv_verdict v = ''revised'' \<or> hv_revisedTestCase v = None) (E_INVALID_FIELD ''revisedTestCase''),
      refuse_unless (hv_verdict v \<noteq> ''revised'' \<or> (case hv_revisedTestCase v of None \<Rightarrow> False | Some j \<Rightarrow> isRecord j))
        (E_INVALID_FIELD ''revisedTestCase'')]"

text \<open>The value that the canonical text of a verdict parses to.\<close>

definition canonical_verdict :: "HumanReviewVerdict \<Rightarrow> HumanReviewVerdict" where
  "canonical_verdict v = v\<lparr> hv_revisedTestCase := map_option sortValue (hv_revisedTestCase v) \<rparr>"

text \<open>The signed text: every field but the signature.\<close>

definition buildVerdictSigningPayload :: "queue_host \<Rightarrow> HumanReviewVerdict \<Rightarrow> string" where
  "buildVerdictSigningPayload h v = qh_bodyText h ((canonical_verdict v)\<lparr> hv_signatureHex := [] \<rparr>)"

definition verifyVerdictSignature :: "queue_host \<Rightarrow> HumanReviewVerdict \<Rightarrow> queue_error option" where
  "verifyVerdictSignature h v =
     (case qh_importKey h (hv_publicKeyPem v) of
        None \<Rightarrow> Some E_INVALID_KEY
      | Some (keyType, spki) \<Rightarrow>
          if keyType \<noteq> ''ed25519'' then Some E_INVALID_KEY
          else if qh_sha256Hex h spki \<noteq> hv_publicKeyFingerprintSha256 v then Some E_KEY_FINGERPRINT_MISMATCH
          else if \<not> qh_verify h (buildVerdictSigningPayload h v) spki (hv_signatureHex v) then Some E_SIGNATURE_INVALID
          else None)"

section \<open>Files\<close>

record tenant_files =
  tf_queue :: "(string \<times> HumanReviewQueueItem) list"
  tf_verdicts :: "(string \<times> HumanReviewVerdict) list"
  tf_runs :: "(string \<times> HumanReviewLog) list"

type_synonym queue_fs = "string \<Rightarrow> tenant_files"

definition empty_queue_fs :: queue_fs where
  "empty_queue_fs = (\<lambda>_. \<lparr> tf_queue = [], tf_verdicts = [], tf_runs = [] \<rparr>)"

definition json_file :: "string \<Rightarrow> string" where
  "json_file s = s @ ''.json''"

definition is_json_file :: "string \<Rightarrow> bool" where
  "is_json_file name \<longleftrightarrow> drop (length name - 5) name = ''.json''"

text \<open>\<^verbatim>\<open>for (const name of (await readdir(dir)).sort()) ... readJsonFile\<close>, with the check that each file passes.\<close>

fun read_files :: "('a \<Rightarrow> queue_error option) \<Rightarrow> (string \<times> 'a) list \<Rightarrow> string list \<Rightarrow> queue_error + 'a list" where
  "read_files check dir [] = Inr []"
| "read_files check dir (name # names) =
     (case map_of dir name of
        None \<Rightarrow> read_files check dir names
      | Some v \<Rightarrow>
          (case check v of
             Some e \<Rightarrow> Inl e
           | None \<Rightarrow> (case read_files check dir names of Inl e \<Rightarrow> Inl e | Inr vs \<Rightarrow> Inr (v # vs))))"

definition list_dir :: "('a \<Rightarrow> queue_error option) \<Rightarrow> (string \<times> 'a) list \<Rightarrow> queue_error + 'a list" where
  "list_dir check dir = read_files check dir (filter is_json_file (js_sort (map fst dir)))"

definition listQueueDir :: "tenant_files \<Rightarrow> queue_error + HumanReviewQueueItem list" where
  "listQueueDir files = list_dir assertHumanReviewQueueItemInvariants (tf_queue files)"

section \<open>Operations\<close>

definition enqueue :: "HumanReviewQueueItem \<Rightarrow> queue_fs \<Rightarrow> queue_fs \<times> (queue_error + unit)" where
  "enqueue item fs =
     (case assertHumanReviewQueueItemInvariants item of
        Some e \<Rightarrow> (fs, Inl e)
      | None \<Rightarrow>
          let files = fs (qi_tenantId item); name = json_file (qi_itemId item)
          in case map_of (tf_queue files) name of
               Some existing \<Rightarrow>
                 (fs, if existing \<noteq> item then Inl E_QUEUE_ITEM_ALREADY_EXISTS else Inr ())
             | None \<Rightarrow>
                 (fs(qi_tenantId item := files\<lparr> tf_queue := AList.update name item (tf_queue files) \<rparr>), Inr ()))"

definition matchesFilter :: "HumanReviewQueueItem \<Rightarrow> HumanReviewFilter \<Rightarrow> bool" where
  "matchesFilter item f \<longleftrightarrow> qi_tenantId item = qf_tenantId f
     \<and> (case qf_profileId f of None \<Rightarrow> True | Some p \<Rightarrow> qi_profileId item = p)
     \<and> (case qf_slaDueBy f of None \<Rightarrow> True | Some t \<Rightarrow> qi_slaDeadlineAt item \<le> t)"

definition has_verdict :: "tenant_files \<Rightarrow> string \<Rightarrow> bool" where
  "has_verdict files itemId \<longleftrightarrow> map_of (tf_verdicts files) (json_file itemId) \<noteq> None"

definition fetchPending :: "queue_host \<Rightarrow> HumanReviewFilter \<Rightarrow> queue_fs \<Rightarrow> queue_error + HumanReviewQueueItem list" where
  "fetchPending h f fs =
     (case first_error [(case qf_slaDueBy f of None \<Rightarrow> None | Some t \<Rightarrow> assertIso8601 t ''slaDueBy''),
                        assertSafeSegment (qf_tenantId f) ''tenantId''] of
        Some e \<Rightarrow> Inl e
      | None \<Rightarrow>
          (case listQueueDir (fs (qf_tenantId f)) of
             Inl e \<Rightarrow> Inl e
           | Inr items \<Rightarrow> Inr (sort_by (qh_collation h) qi_itemId
               (filter (\<lambda>item. matchesFilter item f \<and> \<not> has_verdict (fs (qf_tenantId f)) (qi_itemId item)) items))))"

definition getItem :: "string \<Rightarrow> string \<Rightarrow> queue_fs \<Rightarrow> queue_error + HumanReviewQueueItem option" where
  "getItem tenantId itemId fs =
     (case first_error [assertSafeSegment tenantId ''tenantId'', assertSafeSegment itemId ''itemId''] of
        Some e \<Rightarrow> Inl e
      | None \<Rightarrow>
          (case map_of (tf_queue (fs tenantId)) (json_file itemId) of
             None \<Rightarrow> Inr None
           | Some item \<Rightarrow>
               (case assertHumanReviewQueueItemInvariants item of Some e \<Rightarrow> Inl e | None \<Rightarrow> Inr (Some item))))"

definition recordVerdict ::
  "queue_host \<Rightarrow> HumanReviewVerdict \<Rightarrow> string \<Rightarrow> queue_fs \<Rightarrow> queue_fs \<times> (queue_error + HumanReviewQueueItem)" where
  "recordVerdict h v tenantId fs =
     (case first_error [assertHumanReviewVerdictInvariants v, verifyVerdictSignature h v,
                        assertSafeSegment tenantId ''tenantId''] of
        Some e \<Rightarrow> (fs, Inl e)
      | None \<Rightarrow>
          let files = fs tenantId; name = json_file (hv_itemId v)
          in case map_of (tf_queue files) name of
               None \<Rightarrow> (fs, Inl E_QUEUE_ITEM_NOT_FOUND)
             | Some item \<Rightarrow>
                 (case assertHumanReviewQueueItemInvariants item of
                    Some e \<Rightarrow> (fs, Inl e)
                  | None \<Rightarrow>
                      (case map_of (tf_verdicts files) name of
                         Some existing \<Rightarrow>
                           (fs, if canonical_verdict existing \<noteq> canonical_verdict v then Inl E_VERDICT_ALREADY_RECORDED
                                else Inr item)
                       | None \<Rightarrow>
                           (fs(tenantId := files\<lparr> tf_verdicts :=
                              AList.update name (canonical_verdict v) (tf_verdicts files) \<rparr>), Inr item))))"

definition log_file :: "string \<Rightarrow> string" where
  "log_file runId = runId @ ''.log.json''"

definition loadRunLog :: "string \<Rightarrow> string \<Rightarrow> queue_fs \<Rightarrow> queue_error + HumanReviewLog option" where
  "loadRunLog tenantId runId fs =
     (case first_error [assertSafeSegment tenantId ''tenantId'', assertSafeSegment runId ''runId''] of
        Some e \<Rightarrow> Inl e
      | None \<Rightarrow> Inr (map_of (tf_runs (fs tenantId)) (log_file runId)))"

definition canonical_log :: "queue_host \<Rightarrow> HumanReviewLog \<Rightarrow> HumanReviewLog" where
  "canonical_log h l = l\<lparr> hl_items := sort_by (qh_collation h) qi_itemId (hl_items l),
     hl_verdicts := map canonical_verdict (sort_by (qh_collation h) hv_itemId (hl_verdicts l)),
     hl_slaBreaches := sort_by (qh_collation h) sb_itemId (hl_slaBreaches l) \<rparr>"

definition writeRunLog :: "queue_host \<Rightarrow> HumanReviewLog \<Rightarrow> queue_fs \<Rightarrow> queue_fs \<times> (queue_error + string)" where
  "writeRunLog h l fs =
     (case first_error
        [refuse_unless (hl_schemaVersion l = HUMAN_REVIEW_LOG_SCHEMA_VERSION) (E_INVALID_SCHEMA ''schemaVersion''),
         refuse_unless (hl_contractVersion l = TEST_INTELLIGENCE_CONTRACT_VERSION) (E_INVALID_SCHEMA ''contractVersion''),
         assertSafeSegment (hl_tenantId l) ''tenantId'', assertSafeSegment (hl_jobId l) ''runId''] of
        Some e \<Rightarrow> (fs, Inl e)
      | None \<Rightarrow>
          let files = fs (hl_tenantId l); name = log_file (hl_jobId l)
          in (fs(hl_tenantId l := files\<lparr> tf_runs := AList.update name (canonical_log h l) (tf_runs files) \<rparr>), Inr name))"

text \<open>The verdicts whose queue item belongs to the run.\<close>

fun verdicts_of_run ::
  "string \<Rightarrow> string \<Rightarrow> queue_fs \<Rightarrow> HumanReviewVerdict list \<Rightarrow> queue_error + HumanReviewVerdict list" where
  "verdicts_of_run tenantId runId fs [] = Inr []"
| "verdicts_of_run tenantId runId fs (v # vs) =
     (case getItem tenantId (hv_itemId v) fs of
        Inl e \<Rightarrow> Inl e
      | Inr found \<Rightarrow>
          (case verdicts_of_run tenantId runId fs vs of
             Inl e \<Rightarrow> Inl e
           | Inr rest \<Rightarrow> Inr (if \<exists>item. found = Some item \<and> qi_runId item = runId then v # rest else rest)))"

definition loadVerdictsForRun ::
  "queue_host \<Rightarrow> string \<Rightarrow> string \<Rightarrow> queue_fs \<Rightarrow> queue_error + HumanReviewVerdict list" where
  "loadVerdictsForRun h tenantId runId fs =
     (case first_error [assertSafeSegment runId ''runId'', assertSafeSegment tenantId ''tenantId''] of
        Some e \<Rightarrow> Inl e
      | None \<Rightarrow>
          (case list_dir assertHumanReviewVerdictInvariants (tf_verdicts (fs tenantId)) of
             Inl e \<Rightarrow> Inl e
           | Inr vs \<Rightarrow>
               (case verdicts_of_run tenantId runId fs vs of
                  Inl e \<Rightarrow> Inl e
                | Inr collected \<Rightarrow> Inr (sort_by (qh_collation h) hv_itemId collected))))"

definition breach_entry :: "string \<Rightarrow> HumanReviewQueueItem \<Rightarrow> HumanReviewSlaBreachEntry" where
  "breach_entry nowIso item = \<lparr> sb_itemId = qi_itemId item, sb_testCaseId = qi_testCaseId item,
     sb_slaDeadlineAt = qi_slaDeadlineAt item, sb_observedAt = nowIso \<rparr>"

definition findSlaBreaches ::
  "queue_host \<Rightarrow> string \<Rightarrow> string \<Rightarrow> queue_fs \<Rightarrow> queue_error + HumanReviewSlaBreachEntry list" where
  "findSlaBreaches h tenantId nowIso fs =
     (case first_error [assertIso8601 nowIso ''nowIso'', assertSafeSegment tenantId ''tenantId''] of
        Some e \<Rightarrow> Inl e
      | None \<Rightarrow>
          (case listQueueDir (fs tenantId) of
             Inl e \<Rightarrow> Inl e
           | Inr items \<Rightarrow> Inr (sort_by (qh_collation h) sb_itemId (map (breach_entry nowIso)
               (filter (\<lambda>item. qi_slaDeadlineAt item < nowIso \<and> \<not> has_verdict (fs tenantId) (qi_itemId item)) items)))))"

definition buildHumanReviewLog ::
  "queue_host \<Rightarrow> string \<Rightarrow> string \<Rightarrow> string \<Rightarrow> string \<Rightarrow> queue_fs \<Rightarrow> queue_error + HumanReviewLog" where
  "buildHumanReviewLog h tenantId jobId generatedAt nowIso fs =
     (case first_error [assertSafeSegment tenantId ''tenantId'', assertSafeSegment jobId ''jobId'',
                        assertIso8601 generatedAt ''generatedAt'', assertIso8601 nowIso ''nowIso''] of
        Some e \<Rightarrow> Inl e
      | None \<Rightarrow>
          (case listQueueDir (fs tenantId) of
             Inl e \<Rightarrow> Inl e
           | Inr items \<Rightarrow>
               (case loadVerdictsForRun h tenantId jobId fs of
                  Inl e \<Rightarrow> Inl e
                | Inr vs \<Rightarrow>
                    (case findSlaBreaches h tenantId nowIso fs of
                       Inl e \<Rightarrow> Inl e
                     | Inr breaches \<Rightarrow> Inr
                         \<lparr> hl_schemaVersion = HUMAN_REVIEW_LOG_SCHEMA_VERSION,
                           hl_contractVersion = TEST_INTELLIGENCE_CONTRACT_VERSION,
                           hl_jobId = jobId, hl_tenantId = tenantId, hl_generatedAt = generatedAt,
                           hl_items = sort_by (qh_collation h) qi_itemId (filter (\<lambda>item. qi_runId item = jobId) items),
                           hl_verdicts = sort_by (qh_collation h) hv_itemId vs,
                           hl_slaBreaches = sort_by (qh_collation h) sb_itemId breaches \<rparr>))))"

definition computeHumanReviewItemId :: "queue_host \<Rightarrow> string \<Rightarrow> string \<Rightarrow> string \<Rightarrow> queue_error + string" where
  "computeHumanReviewItemId h tenantId runId testCaseId =
     (if tenantId = [] \<or> runId = [] \<or> testCaseId = [] then Inl (E_INVALID_FIELD ''computeHumanReviewItemId'')
      else Inr (take 32 (qh_sha256Hex h (qh_idText h tenantId runId testCaseId))))"

definition hashReviewerPrincipalId :: "queue_host \<Rightarrow> string \<Rightarrow> queue_error + string" where
  "hashReviewerPrincipalId h principalId =
     (if principalId = [] then Inl (E_INVALID_FIELD ''principalId'') else Inr (qh_sha256Hex h principalId))"

definition HUMAN_REVIEW_POLICY_WARNING_RULES :: "string list" where
  "HUMAN_REVIEW_POLICY_WARNING_RULES = [''policy:human-review-sla-breach'']"

record sla_warning =
  sw_rule :: string
  sw_outcome :: string
  sw_severity :: string
  sw_reason :: string

definition buildSlaBreachPolicyWarning :: "HumanReviewSlaBreachEntry \<Rightarrow> sla_warning" where
  "buildSlaBreachPolicyWarning breach =
     \<lparr> sw_rule = hd HUMAN_REVIEW_POLICY_WARNING_RULES, sw_outcome = ''human_review_sla_breach'',
       sw_severity = ''warning'',
       sw_reason = ''human-review item '' @ sb_itemId breach @ '' for case '' @ sb_testCaseId breach
         @ '' missed SLA deadline '' @ sb_slaDeadlineAt breach @ '' (observed '' @ sb_observedAt breach @ '')'' \<rparr>"

end
