(* ===== verification/HumanQueueProps.thy ===== *)
theory HumanQueueProps
  imports HumanQueue "HOL-Library.Sublist"
begin

text \<open>
  What the human-review queue keeps over every sequence of operations: signed, append-only verdicts
  on queued items, one partition per tenant id, and listings that agree with the files.
\<close>

section \<open>Reading directories\<close>

lemma drop_append_length: "drop (length (s @ t) - length t) (s @ t) = t"
  by simp

lemma json_files [simp]: "is_json_file (json_file s)"
  unfolding is_json_file_def json_file_def using drop_append_length [of s "''.json''"] by simp

lemma json_file_inject [simp]: "json_file s = json_file t \<longleftrightarrow> s = t"
  by (simp add: json_file_def)

lemma read_files_ok:
  "(\<And>v. v \<in> ran (map_of dir) \<Longrightarrow> chk v = None) \<Longrightarrow> set names \<subseteq> dom (map_of dir) \<Longrightarrow>
   read_files chk dir names = Inr (map (\<lambda>n. the (map_of dir n)) names)"
proof (induction names)
  case (Cons n names)
  then obtain v where v: "map_of dir n = Some v" by auto
  then have "chk v = None" using Cons.prems(1) by (auto simp: ran_def)
  with Cons v show ?case by simp
qed simp

lemma list_dir_ok:
  assumes "distinct (map fst dir)" "\<And>n v. (n, v) \<in> set dir \<Longrightarrow> chk v = None \<and> is_json_file n"
  shows "\<exists>vs. list_dir chk dir = Inr vs \<and> mset vs = mset (map snd dir)"
proof -
  have "filter is_json_file (js_sort (map fst dir)) = js_sort (map fst dir)"
    using assms(2) by (auto simp: filter_id_conv)
  moreover have "read_files chk dir (js_sort (map fst dir)) = Inr (map (\<lambda>n. the (map_of dir n)) (js_sort (map fst dir)))"
    using assms by (intro read_files_ok) (auto simp: ran_def dom_map_of_conv_image_fst dest!: map_of_SomeD)
  moreover have "mset (map (\<lambda>n. the (map_of dir n)) (js_sort (map fst dir))) = mset (map snd dir)"
  proof -
    have "mset (map (\<lambda>n. the (map_of dir n)) (js_sort (map fst dir))) = mset (map (\<lambda>n. the (map_of dir n)) (map fst dir))"
      by (metis mset_map mset_js_sort)
    also have "map (\<lambda>n. the (map_of dir n)) (map fst dir) = map snd dir"
      using assms(1) by (auto simp: map_of_eq_Some_iff)
    finally show ?thesis .
  qed
  ultimately show ?thesis by (simp add: list_dir_def)
qed

section \<open>The invariant\<close>

definition items_ok :: "(string \<times> HumanReviewQueueItem) list \<Rightarrow> string \<Rightarrow> bool" where
  "items_ok dir t \<longleftrightarrow> distinct (map fst dir) \<and>
     (\<forall>(n, item)\<in>set dir. n = json_file (qi_itemId item) \<and> qi_tenantId item = t
        \<and> assertHumanReviewQueueItemInvariants item = None)"

definition verdicts_ok ::
  "queue_host \<Rightarrow> (string \<times> HumanReviewVerdict) list \<Rightarrow> (string \<times> HumanReviewQueueItem) list \<Rightarrow> bool" where
  "verdicts_ok h dir queue \<longleftrightarrow> distinct (map fst dir) \<and>
     (\<forall>(n, v)\<in>set dir. n = json_file (hv_itemId v) \<and> assertHumanReviewVerdictInvariants v = None
        \<and> verifyVerdictSignature h v = None \<and> canonical_verdict v = v \<and> map_of queue n \<noteq> None)"

definition store_ok :: "queue_host \<Rightarrow> queue_fs \<Rightarrow> bool" where
  "store_ok h fs \<longleftrightarrow> (\<forall>t. items_ok (tf_queue (fs t)) t \<and> verdicts_ok h (tf_verdicts (fs t)) (tf_queue (fs t)))"

definition grows :: "queue_fs \<Rightarrow> queue_fs \<Rightarrow> bool" where
  "grows fs fs' \<longleftrightarrow> (\<forall>t. map_of (tf_queue (fs t)) \<subseteq>\<^sub>m map_of (tf_queue (fs' t))
     \<and> map_of (tf_verdicts (fs t)) \<subseteq>\<^sub>m map_of (tf_verdicts (fs' t)))"

datatype queue_op = Enqueue HumanReviewQueueItem | Record_verdict HumanReviewVerdict string | Write_run_log HumanReviewLog

fun queue_step :: "queue_host \<Rightarrow> queue_fs \<Rightarrow> queue_op \<Rightarrow> queue_fs" where
  "queue_step h fs (Enqueue item) = fst (enqueue item fs)"
| "queue_step h fs (Record_verdict v t) = fst (recordVerdict h v t fs)"
| "queue_step h fs (Write_run_log l) = fst (writeRunLog h l fs)"

fun op_tenant :: "queue_op \<Rightarrow> string" where
  "op_tenant (Enqueue item) = qi_tenantId item"
| "op_tenant (Record_verdict v t) = t"
| "op_tenant (Write_run_log l) = hl_tenantId l"

lemma canonical_verdict_simps [simp]:
  "hv_itemId (canonical_verdict v) = hv_itemId v" "canonical_verdict (canonical_verdict v) = canonical_verdict v"
  "hv_publicKeyPem (canonical_verdict v) = hv_publicKeyPem v" "hv_signatureHex (canonical_verdict v) = hv_signatureHex v"
  "hv_publicKeyFingerprintSha256 (canonical_verdict v) = hv_publicKeyFingerprintSha256 v"
  by (cases "hv_revisedTestCase v"; simp add: canonical_verdict_def sortValue_idem)+

lemma canonical_checks [simp]:
  "assertHumanReviewVerdictInvariants (canonical_verdict v) = assertHumanReviewVerdictInvariants v"
  "verifyVerdictSignature h (canonical_verdict v) = verifyVerdictSignature h v"
proof -
  show "assertHumanReviewVerdictInvariants (canonical_verdict v) = assertHumanReviewVerdictInvariants v"
    by (cases "hv_revisedTestCase v") (simp_all add: assertHumanReviewVerdictInvariants_def canonical_verdict_def)
  have "buildVerdictSigningPayload h (canonical_verdict v) = buildVerdictSigningPayload h v"
    by (simp add: buildVerdictSigningPayload_def)
  then show "verifyVerdictSignature h (canonical_verdict v) = verifyVerdictSignature h v"
    by (simp only: verifyVerdictSignature_def canonical_verdict_simps)
qed

lemma set_update_fresh: "map_of dir n = None \<Longrightarrow> set (AList.update n v dir) = insert (n, v) (set dir)"
  by (induction dir) (auto split: if_splits)

text \<open>A step writes at most one file, and only under its own tenant.\<close>

lemma enqueue_cases:
  obtains (unchanged) "fst (enqueue item fs) = fs"
  | (written) "assertHumanReviewQueueItemInvariants item = None"
      "map_of (tf_queue (fs (qi_tenantId item))) (json_file (qi_itemId item)) = None"
      "enqueue item fs = (fs(qi_tenantId item := (fs (qi_tenantId item))\<lparr> tf_queue :=
         AList.update (json_file (qi_itemId item)) item (tf_queue (fs (qi_tenantId item))) \<rparr>), Inr ())"
  by (cases "assertHumanReviewQueueItemInvariants item";
      cases "map_of (tf_queue (fs (qi_tenantId item))) (json_file (qi_itemId item))")
    (simp_all add: enqueue_def Let_def)

lemma recordVerdict_cases:
  obtains (refused) e where "recordVerdict h v t fs = (fs, Inl e)"
  | (repeated) item old where "recordVerdict h v t fs = (fs, Inr item)"
      "map_of (tf_queue (fs t)) (json_file (hv_itemId v)) = Some item"
      "map_of (tf_verdicts (fs t)) (json_file (hv_itemId v)) = Some old" "canonical_verdict old = canonical_verdict v"
      "assertSafeSegment t ''tenantId'' = None"
  | (written) item where "assertHumanReviewVerdictInvariants v = None" "verifyVerdictSignature h v = None"
      "assertSafeSegment t ''tenantId'' = None"
      "map_of (tf_queue (fs t)) (json_file (hv_itemId v)) = Some item"
      "map_of (tf_verdicts (fs t)) (json_file (hv_itemId v)) = None"
      "recordVerdict h v t fs = (fs(t := (fs t)\<lparr> tf_verdicts :=
         AList.update (json_file (hv_itemId v)) (canonical_verdict v) (tf_verdicts (fs t)) \<rparr>), Inr item)"
proof (cases "first_error [assertHumanReviewVerdictInvariants v, verifyVerdictSignature h v, assertSafeSegment t ''tenantId'']")
  case (Some e)
  then show ?thesis by (intro refused) (simp add: recordVerdict_def)
next
  case None
  then have ok: "assertHumanReviewVerdictInvariants v = None" "verifyVerdictSignature h v = None"
    "assertSafeSegment t ''tenantId'' = None" by simp_all
  show ?thesis
  proof (cases "map_of (tf_queue (fs t)) (json_file (hv_itemId v))")
    case None
    with ok show ?thesis by (intro refused) (simp add: recordVerdict_def Let_def)
  next
    case (Some item)
    note found = ok Some
    show ?thesis
    proof (cases "assertHumanReviewQueueItemInvariants item")
      case (Some e)
      with found show ?thesis by (intro refused) (simp add: recordVerdict_def Let_def)
    next
      case valid: None
      show ?thesis
      proof (cases "map_of (tf_verdicts (fs t)) (json_file (hv_itemId v))")
        case None
        with found valid show ?thesis by (intro written [of item]) (simp_all add: recordVerdict_def Let_def)
      next
        case (Some old)
        with found valid refused repeated show ?thesis
          by (cases "canonical_verdict old = canonical_verdict v") (simp_all add: recordVerdict_def Let_def)
      qed
    qed
  qed
qed

lemma writeRunLog_files: "tf_queue (fst (writeRunLog h l fs) t) = tf_queue (fs t)"
  "tf_verdicts (fst (writeRunLog h l fs) t) = tf_verdicts (fs t)"
  by (simp_all add: writeRunLog_def Let_def split: option.split)

lemma items_ok_update:
  "items_ok dir t \<Longrightarrow> assertHumanReviewQueueItemInvariants item = None \<Longrightarrow> qi_tenantId item = t \<Longrightarrow>
   map_of dir (json_file (qi_itemId item)) = None \<Longrightarrow> items_ok (AList.update (json_file (qi_itemId item)) item dir) t"
  by (auto simp: items_ok_def set_update_fresh distinct_update)

lemma verdicts_ok_update:
  "verdicts_ok h dir queue \<Longrightarrow> assertHumanReviewVerdictInvariants v = None \<Longrightarrow> verifyVerdictSignature h v = None \<Longrightarrow>
   map_of queue (json_file (hv_itemId v)) \<noteq> None \<Longrightarrow> map_of dir (json_file (hv_itemId v)) = None \<Longrightarrow>
   verdicts_ok h (AList.update (json_file (hv_itemId v)) (canonical_verdict v) dir) queue"
  by (auto simp: verdicts_ok_def set_update_fresh distinct_update)

lemma verdicts_ok_mono: "verdicts_ok h dir queue \<Longrightarrow> map_of queue \<subseteq>\<^sub>m map_of queue' \<Longrightarrow> verdicts_ok h dir queue'"
  by (fastforce simp: verdicts_ok_def map_le_def dom_def)

lemma map_le_fresh: "map_of dir n = None \<Longrightarrow> map_of dir \<subseteq>\<^sub>m map_of (AList.update n v dir)"
  by (auto simp: map_le_def)

lemma queue_step_ok:
  assumes "store_ok h fs"
  shows "store_ok h (queue_step h fs p) \<and> grows fs (queue_step h fs p)"
proof (cases p)
  case (Enqueue item)
  show ?thesis
  proof (cases rule: enqueue_cases [of item fs])
    case unchanged
    then show ?thesis using assms by (simp add: Enqueue grows_def)
  next
    case written
    note le = map_le_fresh [OF written(2)]
    show ?thesis
      using assms written items_ok_update le [of item]
        verdicts_ok_mono [of h "tf_verdicts (fs (qi_tenantId item))", OF _ le [of item]]
      by (auto simp: Enqueue store_ok_def grows_def simp del: map_of_AList_update)
  qed
next
  case (Record_verdict v t)
  show ?thesis
  proof (cases rule: recordVerdict_cases [of h v t fs])
    case (written item)
    then show ?thesis
      using assms verdicts_ok_update [of h "tf_verdicts (fs t)" "tf_queue (fs t)" v] map_le_fresh [OF written(5)]
      by (auto simp: Record_verdict store_ok_def grows_def simp del: map_of_AList_update)
  qed (use assms in \<open>simp_all add: Record_verdict grows_def\<close>)
next
  case (Write_run_log l)
  then show ?thesis using assms by (simp add: store_ok_def grows_def writeRunLog_files)
qed

interpretation queue: monotone_machine "queue_step h" "store_ok h" grows for h
  by unfold_locales (use queue_step_ok in \<open>auto simp: grows_def intro: map_le_trans\<close>)

lemma empty_store_ok: "store_ok h empty_queue_fs"
  by (simp add: store_ok_def empty_queue_fs_def items_ok_def verdicts_ok_def)

text \<open>The stores that sequences of operations reach from empty directories.\<close>

definition queue_after :: "queue_host \<Rightarrow> queue_op list \<Rightarrow> queue_fs" where
  "queue_after h ops = foldl (queue_step h) empty_queue_fs ops"

lemma queue_after_ok: "store_ok h (queue_after h ops)"
  unfolding queue_after_def by (rule queue.run_inv [OF empty_store_ok])

lemma queue_after_grows: "grows (queue_after h (take n ops)) (queue_after h ops)"
  unfolding queue_after_def
  using queue.run_extends [OF queue.run_inv [OF empty_store_ok], of h "take n ops" "drop n ops"]
  by (simp flip: foldl_append)

text \<open>C11: Over every sequence of operations on the queue, each stored verdict passes the structural checks, carries a
  valid ed25519 signature over its own body, and answers an item that is queued under the same id in
  the same tenant. Neither items nor verdicts are ever changed or removed: what was stored at any
  earlier moment is still there.\<close>

theorem stored_verdicts_signed_and_append_only:
  "let fs = queue_after h ops; past = queue_after h (take n ops) in
   list_all (\<lambda>(name, v). assertHumanReviewVerdictInvariants v = None \<and> verifyVerdictSignature h v = None
       \<and> (\<exists>item. (name, item) \<in> set (tf_queue (fs t)) \<and> qi_itemId item = hv_itemId v \<and> qi_tenantId item = t))
     (tf_verdicts (fs t))
   \<and> map_of (tf_queue (past t)) \<subseteq>\<^sub>m map_of (tf_queue (fs t))
   \<and> map_of (tf_verdicts (past t)) \<subseteq>\<^sub>m map_of (tf_verdicts (fs t))"
proof -
  have q: "items_ok (tf_queue (queue_after h ops t)) t"
    and v: "verdicts_ok h (tf_verdicts (queue_after h ops t)) (tf_queue (queue_after h ops t))"
    using queue_after_ok [of h ops] by (simp_all add: store_ok_def)
  have "\<exists>item. (json_file (hv_itemId w), item) \<in> set (tf_queue (queue_after h ops t)) \<and> qi_itemId item = hv_itemId w \<and> qi_tenantId item = t"
    if "(name, w) \<in> set (tf_verdicts (queue_after h ops t))" for name w
    using that v q by (fastforce simp: verdicts_ok_def items_ok_def dest: map_of_SomeD)
  then show ?thesis
    using v queue_after_grows [of h n ops] by (auto simp: Let_def list_all_iff verdicts_ok_def grows_def)
qed

section \<open>Tenants\<close>

lemma queue_step_local: "op_tenant p \<noteq> t \<Longrightarrow> queue_step h fs p t = fs t"
proof (cases p)
  case (Enqueue item)
  then show "op_tenant p \<noteq> t \<Longrightarrow> ?thesis" by (cases rule: enqueue_cases [of item fs]) auto
next
  case (Record_verdict v u)
  then show "op_tenant p \<noteq> t \<Longrightarrow> ?thesis" by (cases rule: recordVerdict_cases [of h v u fs]) auto
next
  case (Write_run_log l)
  then show "op_tenant p \<noteq> t \<Longrightarrow> ?thesis" by (auto simp: writeRunLog_def Let_def split: option.split)
qed

lemma queue_step_cong:
  assumes "op_tenant p = t" "fs t = fs' t"
  shows "queue_step h fs p t = queue_step h fs' p t"
  using assms by (cases p) (auto simp: enqueue_def recordVerdict_def writeRunLog_def Let_def split: option.split)

text \<open>The partition of a tenant is what the operations addressed to that tenant alone would have produced.\<close>

lemma tenant_partition:
  "queue_after h ops t = queue_after h (filter (\<lambda>p. op_tenant p = t) ops) t"
proof -
  have "foldl (queue_step h) fs ops t = foldl (queue_step h) fs' (filter (\<lambda>p. op_tenant p = t) ops) t"
    if "fs t = fs' t" for fs fs' :: queue_fs
    using that
  proof (induction ops arbitrary: fs fs')
    case (Cons p ops)
    show ?case
    proof (cases "op_tenant p = t")
      case True
      then show ?thesis using Cons.IH queue_step_cong [of p t fs fs' h] Cons.prems by simp
    next
      case False
      then show ?thesis using Cons.IH [of "queue_step h fs p" fs'] Cons.prems queue_step_local by simp
    qed
  qed simp
  then show ?thesis unfolding queue_after_def by simp
qed

section \<open>Listings\<close>

lemma listQueueDir_ok:
  assumes "store_ok h fs"
  obtains items where "listQueueDir (fs t) = Inr items" "mset items = mset (map snd (tf_queue (fs t)))"
  using assms list_dir_ok [of "tf_queue (fs t)" assertHumanReviewQueueItemInvariants]
  by (fastforce simp: store_ok_def items_ok_def listQueueDir_def)

lemma queue_ids_distinct:
  assumes "store_ok h fs"
  shows "distinct (map qi_itemId (map snd (tf_queue (fs t))))"
proof -
  have "map fst (tf_queue (fs t)) = map json_file (map qi_itemId (map snd (tf_queue (fs t))))"
    using assms by (fastforce simp: store_ok_def items_ok_def)
  moreover have "distinct (map fst (tf_queue (fs t)))" using assms by (simp add: store_ok_def items_ok_def)
  ultimately show ?thesis by (metis distinct_map)
qed

lemma items_distinct:
  "store_ok h fs \<Longrightarrow> mset items = mset (map snd (tf_queue (fs t))) \<Longrightarrow> distinct (map qi_itemId items)"
  by (metis queue_ids_distinct mset_map mset_eq_imp_distinct_iff)

text \<open>The pending list is exact. On every store the operations build, it is refused only for an unsafe tenant id or a
  malformed bound; otherwise it holds, once and in collation order, precisely the tenant's queued
  items that match the filter and have no recorded verdict.\<close>

theorem pending_list_exact:
  "case fetchPending h f (queue_after h ops) of
     Inl e \<Rightarrow> assertSafeSegment (qf_tenantId f) ''tenantId'' = Some e
       \<or> (\<exists>bound. qf_slaDueBy f = Some bound \<and> assertIso8601 bound ''slaDueBy'' = Some e)
   | Inr pending \<Rightarrow>
       set pending = {item \<in> snd ` set (tf_queue (queue_after h ops (qf_tenantId f))).
         matchesFilter item f \<and> \<not> has_verdict (queue_after h ops (qf_tenantId f)) (qi_itemId item)}
       \<and> distinct (map qi_itemId pending) \<and> sort_by (qh_collation h) qi_itemId pending = pending"
proof (cases "first_error [(case qf_slaDueBy f of None \<Rightarrow> None | Some t \<Rightarrow> assertIso8601 t ''slaDueBy''),
                        assertSafeSegment (qf_tenantId f) ''tenantId'']")
  case (Some e)
  then show ?thesis
    by (cases "qf_slaDueBy f"; cases "assertIso8601 (the (qf_slaDueBy f)) ''slaDueBy''";
        cases "assertSafeSegment (qf_tenantId f) ''tenantId''") (simp_all add: fetchPending_def)
next
  case None
  obtain items where items: "listQueueDir (queue_after h ops (qf_tenantId f)) = Inr items"
      "mset items = mset (map snd (tf_queue (queue_after h ops (qf_tenantId f))))"
    by (rule listQueueDir_ok [OF queue_after_ok])
  have "set items = snd ` set (tf_queue (queue_after h ops (qf_tenantId f)))"
    using arg_cong [OF items(2), of set_mset] by simp
  moreover have "distinct (map qi_itemId items)" by (rule items_distinct [OF queue_after_ok items(2)])
  ultimately show ?thesis
    using None items(1) by (auto simp: fetchPending_def distinct_map_filter)
qed

section \<open>Replay and audit\<close>

definition run_verdict :: "tenant_files \<Rightarrow> string \<Rightarrow> HumanReviewVerdict \<Rightarrow> bool" where
  "run_verdict files runId v \<longleftrightarrow>
     (\<exists>item. map_of (tf_queue files) (json_file (hv_itemId v)) = Some item \<and> qi_runId item = runId)"

lemma valid_ids:
  "assertHumanReviewVerdictInvariants v = None \<Longrightarrow> assertSafeSegment (hv_itemId v) ''itemId'' = None"
  "assertHumanReviewQueueItemInvariants item = None \<Longrightarrow> assertSafeSegment (qi_runId item) ''runId'' = None"
  by (simp_all add: assertHumanReviewVerdictInvariants_def assertHumanReviewQueueItemInvariants_def)

lemma queued_item_ok:
  "store_ok h fs \<Longrightarrow> map_of (tf_queue (fs t)) n = Some item \<Longrightarrow>
   n = json_file (qi_itemId item) \<and> qi_tenantId item = t \<and> assertHumanReviewQueueItemInvariants item = None"
  by (fastforce simp: store_ok_def items_ok_def dest: map_of_SomeD)

lemma verdicts_of_run_ok:
  assumes "store_ok h fs" "assertSafeSegment t ''tenantId'' = None"
    "list_all (\<lambda>v. assertHumanReviewVerdictInvariants v = None) vs"
  shows "verdicts_of_run t runId fs vs = Inr (filter (run_verdict (fs t) runId) vs)"
  using assms(3)
proof (induction vs)
  case (Cons v vs)
  have "getItem t (hv_itemId v) fs = Inr (map_of (tf_queue (fs t)) (json_file (hv_itemId v)))"
    using Cons.prems assms(2) valid_ids(1) [of v] queued_item_ok [OF assms(1), of t "json_file (hv_itemId v)"]
    by (auto simp: getItem_def split: option.split)
  then show ?case using Cons by (auto simp: run_verdict_def)
qed simp

lemma loadVerdicts_ok:
  assumes ok: "store_ok h fs" and t: "assertSafeSegment t ''tenantId'' = None" and r: "assertSafeSegment runId ''runId'' = None"
  obtains vs where "loadVerdictsForRun h t runId fs = Inr (sort_by (qh_collation h) hv_itemId vs)"
    "set vs = {v \<in> snd ` set (tf_verdicts (fs t)). run_verdict (fs t) runId v}"
proof -
  have "\<exists>vs. list_dir assertHumanReviewVerdictInvariants (tf_verdicts (fs t)) = Inr vs
      \<and> mset vs = mset (map snd (tf_verdicts (fs t)))"
    using ok by (intro list_dir_ok) (fastforce simp: store_ok_def verdicts_ok_def)+
  then obtain vs where vs: "list_dir assertHumanReviewVerdictInvariants (tf_verdicts (fs t)) = Inr vs"
    "mset vs = mset (map snd (tf_verdicts (fs t)))" by blast
  have set_vs: "set vs = snd ` set (tf_verdicts (fs t))" using arg_cong [OF vs(2), of set_mset] by simp
  then have "list_all (\<lambda>v. assertHumanReviewVerdictInvariants v = None) vs"
    using ok by (fastforce simp: list_all_iff store_ok_def verdicts_ok_def)
  then have "loadVerdictsForRun h t runId fs = Inr (sort_by (qh_collation h) hv_itemId (filter (run_verdict (fs t) runId) vs))"
    using vs(1) t r by (simp add: loadVerdictsForRun_def verdicts_of_run_ok [OF ok t])
  moreover have "set (filter (run_verdict (fs t) runId) vs) =
      {v \<in> snd ` set (tf_verdicts (fs t)). run_verdict (fs t) runId v}"
    unfolding set_filter set_vs ..
  ultimately show ?thesis by (rule that)
qed

lemma recorded_facts:
  assumes ok: "store_ok h fs" and rec: "recordVerdict h v t fs = (fs', Inr item)"
  shows "store_ok h fs'" "map_of (tf_queue (fs' t)) (json_file (hv_itemId v)) = Some item"
    "map_of (tf_verdicts (fs' t)) (json_file (hv_itemId v)) = Some (canonical_verdict v)"
    "assertSafeSegment t ''tenantId'' = None"
proof -
  show "store_ok h fs'" using queue_step_ok [OF ok, of "Record_verdict v t"] rec by simp
  have stored: "canonical_verdict old = old" if "map_of (tf_verdicts (fs t)) n = Some old" for n old
    using map_of_SomeD [OF that] ok by (fastforce simp: store_ok_def verdicts_ok_def)
  show "map_of (tf_queue (fs' t)) (json_file (hv_itemId v)) = Some item"
    "map_of (tf_verdicts (fs' t)) (json_file (hv_itemId v)) = Some (canonical_verdict v)"
    "assertSafeSegment t ''tenantId'' = None"
    by (cases rule: recordVerdict_cases [of h v t fs]; use rec stored in force)+
qed

text \<open>C13: A refused verdict writes nothing. An accepted one is decided for good: it is loaded again for the run of its
  item, the item stops being pending, submitting the same verdict again is accepted and changes
  nothing, and every other verdict for the item is refused.\<close>

theorem recorded_verdict_is_replayed:
  "case recordVerdict h v t (queue_after h ops) of
     (fs, Inl e) \<Rightarrow> fs = queue_after h ops
   | (fs, Inr item) \<Rightarrow>
       qi_itemId item = hv_itemId v \<and> qi_tenantId item = t \<and> has_verdict (fs t) (qi_itemId item)
       \<and> (\<exists>vs. loadVerdictsForRun h t (qi_runId item) fs = Inr vs \<and> canonical_verdict v \<in> set vs)
       \<and> recordVerdict h v t fs = (fs, Inr item)
       \<and> (if hv_itemId w = hv_itemId v \<and> canonical_verdict w \<noteq> canonical_verdict v
          then fst (recordVerdict h w t fs) = fs \<and> isl (snd (recordVerdict h w t fs)) else True)"
proof -
  let ?fs = "queue_after h ops"
  note ok = queue_after_ok [of h ops]
  obtain fs out where r: "recordVerdict h v t ?fs = (fs, out)" by fastforce
  show ?thesis
  proof (cases out)
    case (Inl e)
    then show ?thesis using r by (cases rule: recordVerdict_cases [of h v t ?fs]) auto
  next
    case (Inr item)
    note rec = recorded_facts [OF ok r [unfolded Inr]]
    note item = queued_item_ok [OF rec(1,2)]
    obtain vs where load: "loadVerdictsForRun h t (qi_runId item) fs = Inr (sort_by (qh_collation h) hv_itemId vs)"
      "set vs = {v \<in> snd ` set (tf_verdicts (fs t)). run_verdict (fs t) (qi_runId item) v}"
      by (rule loadVerdicts_ok [OF rec(1) rec(4) valid_ids(2)]) (use item in auto)
    have "canonical_verdict v \<in> set vs"
      using map_of_SomeD [OF rec(3)] rec(2) load(2) by (force simp: run_verdict_def)
    moreover have "recordVerdict h v t fs = (fs, Inr item)"
    proof (cases rule: recordVerdict_cases [of h v t ?fs])
      case (written item')
      then show ?thesis using r Inr rec item by (auto simp: recordVerdict_def Let_def)
    qed (use r Inr in auto)
    moreover have "fst (recordVerdict h w t fs) = fs \<and> isl (snd (recordVerdict h w t fs))"
      if "hv_itemId w = hv_itemId v" "canonical_verdict w \<noteq> canonical_verdict v"
      by (cases rule: recordVerdict_cases [of h w t fs]) (use that rec in auto)
    ultimately show ?thesis using r Inr item rec(3) load(1) by (auto simp: has_verdict_def)
  qed
qed

lemma breaches_ok:
  assumes "store_ok h fs" "assertSafeSegment t ''tenantId'' = None" "assertIso8601 nowIso ''nowIso'' = None"
  obtains bs where "findSlaBreaches h t nowIso fs = Inr (sort_by (qh_collation h) sb_itemId bs)"
    "set bs = breach_entry nowIso ` {item \<in> snd ` set (tf_queue (fs t)).
       qi_slaDeadlineAt item < nowIso \<and> \<not> has_verdict (fs t) (qi_itemId item)}"
proof -
  obtain items where items: "listQueueDir (fs t) = Inr items" "mset items = mset (map snd (tf_queue (fs t)))"
    by (rule listQueueDir_ok [OF assms(1)])
  have set_items: "set items = snd ` set (tf_queue (fs t))" using arg_cong [OF items(2), of set_mset] by simp
  let ?late = "filter (\<lambda>item. qi_slaDeadlineAt item < nowIso \<and> \<not> has_verdict (fs t) (qi_itemId item)) items"
  have "set (map (breach_entry nowIso) ?late) = breach_entry nowIso ` {item \<in> snd ` set (tf_queue (fs t)).
       qi_slaDeadlineAt item < nowIso \<and> \<not> has_verdict (fs t) (qi_itemId item)}"
    unfolding set_map set_filter set_items ..
  then show ?thesis using assms items(1) by (intro that [of "map (breach_entry nowIso) ?late"]) (simp_all add: findSlaBreaches_def)
qed

text \<open>The audit log of a run is exact and survives its file. It is refused only for unsafe ids or malformed times;
  otherwise it lists precisely the run's items and the verdicts on them, with the overdue undecided
  items of the whole tenant, whatever their run. Writing it and loading it for the run gives back the
  same log.\<close>

theorem human_review_log_exact:
  "case buildHumanReviewLog h t jobId generatedAt nowIso (queue_after h ops) of
     Inl e \<Rightarrow> first_error [assertSafeSegment t ''tenantId'', assertSafeSegment jobId ''jobId'',
       assertIso8601 generatedAt ''generatedAt'', assertIso8601 nowIso ''nowIso''] = Some e
   | Inr l \<Rightarrow>
       let files = queue_after h ops t in
       set (hl_items l) = {item \<in> snd ` set (tf_queue files). qi_runId item = jobId}
       \<and> set (hl_verdicts l) = {v \<in> snd ` set (tf_verdicts files). run_verdict files jobId v}
       \<and> set (hl_slaBreaches l) = breach_entry nowIso ` {item \<in> snd ` set (tf_queue files).
           qi_slaDeadlineAt item < nowIso \<and> \<not> has_verdict files (qi_itemId item)}
       \<and> loadRunLog t jobId (fst (writeRunLog h l (queue_after h ops))) = Inr (Some l)"
proof (cases "first_error [assertSafeSegment t ''tenantId'', assertSafeSegment jobId ''jobId'',
       assertIso8601 generatedAt ''generatedAt'', assertIso8601 nowIso ''nowIso'']")
  case (Some e)
  then show ?thesis by (simp add: buildHumanReviewLog_def)
next
  case None
  let ?fs = "queue_after h ops"
  note ok = queue_after_ok [of h ops]
  have safe: "assertSafeSegment t ''tenantId'' = None" "assertSafeSegment jobId ''runId'' = None"
    "assertIso8601 nowIso ''nowIso'' = None" using None by (auto simp: assertSafeSegment_def refuse_unless_def split: if_splits)
  obtain items where items: "listQueueDir (?fs t) = Inr items" "mset items = mset (map snd (tf_queue (?fs t)))"
    by (rule listQueueDir_ok [OF ok])
  obtain vs where vs: "loadVerdictsForRun h t jobId ?fs = Inr (sort_by (qh_collation h) hv_itemId vs)"
    "set vs = {v \<in> snd ` set (tf_verdicts (?fs t)). run_verdict (?fs t) jobId v}"
    by (rule loadVerdicts_ok [OF ok safe(1,2)])
  obtain bs where bs: "findSlaBreaches h t nowIso ?fs = Inr (sort_by (qh_collation h) sb_itemId bs)"
    "set bs = breach_entry nowIso ` {item \<in> snd ` set (tf_queue (?fs t)).
       qi_slaDeadlineAt item < nowIso \<and> \<not> has_verdict (?fs t) (qi_itemId item)}"
    by (rule breaches_ok [OF ok safe(1,3)])
  obtain l where l: "buildHumanReviewLog h t jobId generatedAt nowIso ?fs = Inr l"
    "hl_items l = sort_by (qh_collation h) qi_itemId (filter (\<lambda>item. qi_runId item = jobId) items)"
    "hl_verdicts l = sort_by (qh_collation h) hv_itemId vs" "hl_slaBreaches l = sort_by (qh_collation h) sb_itemId bs"
    "hl_jobId l = jobId" "hl_tenantId l = t" "hl_schemaVersion l = HUMAN_REVIEW_LOG_SCHEMA_VERSION"
    "hl_contractVersion l = TEST_INTELLIGENCE_CONTRACT_VERSION"
    using None items(1) vs(1) bs(1) by (simp add: buildHumanReviewLog_def)
  have "map canonical_verdict (hl_verdicts l) = hl_verdicts l"
    using ok vs(2) by (intro map_idI) (fastforce simp: l store_ok_def verdicts_ok_def)
  then have "canonical_log h l = l" using l by (simp add: canonical_log_def)
  then have "loadRunLog t jobId (fst (writeRunLog h l ?fs)) = Inr (Some l)"
    using safe l by (simp add: loadRunLog_def writeRunLog_def refuse_unless_def Let_def)
  moreover have "set items = snd ` set (tf_queue (?fs t))" using arg_cong [OF items(2), of set_mset] by simp
  ultimately show ?thesis using l vs(2) bs(2) by (auto simp: Let_def)
qed

end
