(* ===== verification/HumanQueueDisk.thy ===== *)
theory HumanQueueDisk
  imports HumanQueueProps
begin

text \<open>
  The human-review queue on the paths it really uses (\<^verbatim>\<open>packages/review/src/human-review-queue.ts\<close>):
  \<^verbatim>\<open>resolveLayout\<close>, the three path helpers with their guards, and the operations that write files. A
  tenant identifier and an item identifier become parts of a path here, so that \<^verbatim>\<open>..\<close> and \<^verbatim>\<open>/\<close> would
  have their usual effect if the guards let them through. The operations refine those of the theory
  \<^verbatim>\<open>HumanQueue\<close>, whose store is indexed by the tenant: the files below a tenant's root are the tenant's
  three directories there.
\<close>

section \<open>Paths\<close>

text \<open>
  An absolute, normalised POSIX path is the list of its components. \<^verbatim>\<open>join(dir, part)\<close> splits the part at
  the slashes, drops empty components and \<^verbatim>\<open>.\<close>, and lets \<^verbatim>\<open>..\<close> take back a component.
\<close>

type_synonym path = "string list"

fun path_components :: "string \<Rightarrow> string list" where
  "path_components [] = [[]]"
| "path_components (c # cs) =
     (if c = CHR ''/'' then [] # path_components cs
      else (case path_components cs of [] \<Rightarrow> [[c]] | s # ss \<Rightarrow> (c # s) # ss))"

definition enter :: "path \<Rightarrow> string \<Rightarrow> path" where
  "enter dir component =
     (if component = [] \<or> component = ''.'' then dir
      else if component = ''..'' then butlast dir
      else dir @ [component])"

definition join_path :: "path \<Rightarrow> string \<Rightarrow> path" where
  "join_path dir part = foldl enter dir (path_components part)"

record HumanReviewQueueLayout =
  ly_tenantRoot :: path
  ly_queueDir :: path
  ly_verdictsDir :: path
  ly_runsDir :: path

definition resolveLayout :: "path \<Rightarrow> string \<Rightarrow> queue_error + HumanReviewQueueLayout" where
  "resolveLayout rootDir tenantId =
     (case assertSafeSegment tenantId ''tenantId'' of
        Some e \<Rightarrow> Inl e
      | None \<Rightarrow>
          let tenantRoot = join_path rootDir tenantId
          in Inr \<lparr> ly_tenantRoot = tenantRoot, ly_queueDir = join_path tenantRoot ''queue'',
               ly_verdictsDir = join_path tenantRoot ''verdicts'', ly_runsDir = join_path tenantRoot ''runs'' \<rparr>)"

definition queueItemPath :: "HumanReviewQueueLayout \<Rightarrow> string \<Rightarrow> queue_error + path" where
  "queueItemPath layout itemId =
     (case assertSafeSegment itemId ''itemId'' of
        Some e \<Rightarrow> Inl e
      | None \<Rightarrow> Inr (join_path (ly_queueDir layout) (json_file itemId)))"

definition verdictPath :: "HumanReviewQueueLayout \<Rightarrow> string \<Rightarrow> queue_error + path" where
  "verdictPath layout itemId =
     (case assertSafeSegment itemId ''itemId'' of
        Some e \<Rightarrow> Inl e
      | None \<Rightarrow> Inr (join_path (ly_verdictsDir layout) (json_file itemId)))"

definition runLogPath :: "HumanReviewQueueLayout \<Rightarrow> string \<Rightarrow> queue_error + path" where
  "runLogPath layout runId =
     (case assertSafeSegment runId ''runId'' of
        Some e \<Rightarrow> Inl e
      | None \<Rightarrow> Inr (join_path (ly_runsDir layout) (log_file runId)))"

section \<open>Operations on files\<close>

text \<open>
  The disk lists its files with their paths; a file is the value its text parses to, marked with the kind
  of record that was written. A file of another kind fails the schema check of a reader and differs from
  every canonical text it is compared with.
\<close>

datatype queue_file = Item_file HumanReviewQueueItem | Verdict_file HumanReviewVerdict | Log_file HumanReviewLog

type_synonym queue_disk = "(path \<times> queue_file) list"

definition readQueueItem :: "queue_file \<Rightarrow> queue_error + HumanReviewQueueItem" where
  "readQueueItem file =
     (case file of
        Item_file item \<Rightarrow>
          (case assertHumanReviewQueueItemInvariants item of Some e \<Rightarrow> Inl e | None \<Rightarrow> Inr item)
      | _ \<Rightarrow> Inl (E_INVALID_SCHEMA ''schemaVersion''))"

definition same_verdict :: "queue_file \<Rightarrow> HumanReviewVerdict \<Rightarrow> bool" where
  "same_verdict file v =
     (case file of Verdict_file existing \<Rightarrow> canonical_verdict existing = canonical_verdict v | _ \<Rightarrow> False)"

definition enqueue_file :: "path \<Rightarrow> HumanReviewQueueItem \<Rightarrow> queue_disk \<Rightarrow> queue_disk \<times> (queue_error + unit)" where
  "enqueue_file rootDir item disk =
     (case assertHumanReviewQueueItemInvariants item of
        Some e \<Rightarrow> (disk, Inl e)
      | None \<Rightarrow>
          (case resolveLayout rootDir (qi_tenantId item) of
             Inl e \<Rightarrow> (disk, Inl e)
           | Inr layout \<Rightarrow>
               (case queueItemPath layout (qi_itemId item) of
                  Inl e \<Rightarrow> (disk, Inl e)
                | Inr path \<Rightarrow>
                    (case map_of disk path of
                       Some existing \<Rightarrow>
                         (disk, if existing \<noteq> Item_file item then Inl E_QUEUE_ITEM_ALREADY_EXISTS else Inr ())
                     | None \<Rightarrow> (AList.update path (Item_file item) disk, Inr ())))))"

definition recordVerdict_file ::
  "queue_host \<Rightarrow> path \<Rightarrow> HumanReviewVerdict \<Rightarrow> string \<Rightarrow> queue_disk \<Rightarrow> queue_disk \<times> (queue_error + HumanReviewQueueItem)" where
  "recordVerdict_file h rootDir v tenantId disk =
     (case first_error [assertHumanReviewVerdictInvariants v, verifyVerdictSignature h v,
                        assertSafeSegment tenantId ''tenantId''] of
        Some e \<Rightarrow> (disk, Inl e)
      | None \<Rightarrow>
          (case resolveLayout rootDir tenantId of
             Inl e \<Rightarrow> (disk, Inl e)
           | Inr layout \<Rightarrow>
               (case queueItemPath layout (hv_itemId v) of
                  Inl e \<Rightarrow> (disk, Inl e)
                | Inr itemPath \<Rightarrow>
                    (case map_of disk itemPath of
                       None \<Rightarrow> (disk, Inl E_QUEUE_ITEM_NOT_FOUND)
                     | Some file \<Rightarrow>
                         (case readQueueItem file of
                            Inl e \<Rightarrow> (disk, Inl e)
                          | Inr item \<Rightarrow>
                              (case verdictPath layout (hv_itemId v) of
                                 Inl e \<Rightarrow> (disk, Inl e)
                               | Inr target \<Rightarrow>
                                   (case map_of disk target of
                                      Some existing \<Rightarrow>
                                        (disk, if \<not> same_verdict existing v then Inl E_VERDICT_ALREADY_RECORDED else Inr item)
                                    | None \<Rightarrow>
                                        (AList.update target (Verdict_file (canonical_verdict v)) disk, Inr item))))))))"

definition writeRunLog_file ::
  "queue_host \<Rightarrow> path \<Rightarrow> HumanReviewLog \<Rightarrow> queue_disk \<Rightarrow> queue_disk \<times> (queue_error + path)" where
  "writeRunLog_file h rootDir l disk =
     (case first_error
        [refuse_unless (hl_schemaVersion l = HUMAN_REVIEW_LOG_SCHEMA_VERSION) (E_INVALID_SCHEMA ''schemaVersion''),
         refuse_unless (hl_contractVersion l = TEST_INTELLIGENCE_CONTRACT_VERSION) (E_INVALID_SCHEMA ''contractVersion'')] of
        Some e \<Rightarrow> (disk, Inl e)
      | None \<Rightarrow>
          (case resolveLayout rootDir (hl_tenantId l) of
             Inl e \<Rightarrow> (disk, Inl e)
           | Inr layout \<Rightarrow>
               (case runLogPath layout (hl_jobId l) of
                  Inl e \<Rightarrow> (disk, Inl e)
                | Inr path \<Rightarrow> (AList.update path (Log_file (canonical_log h l)) disk, Inr path))))"

fun disk_step :: "queue_host \<Rightarrow> path \<Rightarrow> queue_disk \<Rightarrow> queue_op \<Rightarrow> queue_disk" where
  "disk_step h rootDir disk (Enqueue item) = fst (enqueue_file rootDir item disk)"
| "disk_step h rootDir disk (Record_verdict v t) = fst (recordVerdict_file h rootDir v t disk)"
| "disk_step h rootDir disk (Write_run_log l) = fst (writeRunLog_file h rootDir l disk)"

definition disk_after :: "queue_host \<Rightarrow> path \<Rightarrow> queue_op list \<Rightarrow> queue_disk" where
  "disk_after h rootDir ops = foldl (disk_step h rootDir) [] ops"

section \<open>Guarded names stay in their directory\<close>

lemma plain_component: "CHR ''/'' \<notin> set s \<Longrightarrow> path_components s = [s]"
  by (induction s) auto

lemma join_plain: "CHR ''/'' \<notin> set s \<Longrightarrow> s \<notin> {[], ''.'', ''..''} \<Longrightarrow> join_path dir s = dir @ [s]"
  by (simp add: join_path_def plain_component enter_def)

lemma safe_segment: "assertSafeSegment s label = None \<longleftrightarrow>
    s \<noteq> [] \<and> s \<noteq> ''.'' \<and> s \<noteq> ''..'' \<and> CHR ''/'' \<notin> set s \<and> CHR 0x5C \<notin> set s \<and> SAFE_PATH_SEGMENT s"
  by (simp add: assertSafeSegment_def refuse_unless_def)

lemma long_component: "2 < length s \<Longrightarrow> s \<notin> {[], ''.'', ''..''}"
  by auto

lemma join_guarded:
  assumes "assertSafeSegment s label = None"
  shows "join_path dir s = dir @ [s]" "join_path dir (json_file s) = dir @ [json_file s]"
    "join_path dir (log_file s) = dir @ [log_file s]"
proof -
  have suffixed: "join_path dir (s @ ext) = dir @ [s @ ext]"
    if "CHR ''/'' \<notin> set ext" "2 < length (s @ ext)" for ext
    using that assms by (intro join_plain long_component) (auto simp: safe_segment)
  show "join_path dir s = dir @ [s]" using assms by (intro join_plain) (auto simp: safe_segment)
  show "join_path dir (json_file s) = dir @ [json_file s]" unfolding json_file_def by (rule suffixed) simp_all
  show "join_path dir (log_file s) = dir @ [log_file s]" unfolding log_file_def by (rule suffixed) simp_all
qed

lemma layout_guarded:
  "resolveLayout rootDir t =
     (case assertSafeSegment t ''tenantId'' of
        Some e \<Rightarrow> Inl e
      | None \<Rightarrow> Inr \<lparr> ly_tenantRoot = rootDir @ [t], ly_queueDir = rootDir @ [t, ''queue''],
          ly_verdictsDir = rootDir @ [t, ''verdicts''], ly_runsDir = rootDir @ [t, ''runs''] \<rparr>)"
  by (simp add: resolveLayout_def Let_def join_guarded join_plain split: option.split)

text \<open>The guard of the label does not matter for what it accepts.\<close>

lemma segment_label: "assertSafeSegment s label = None \<Longrightarrow> assertSafeSegment s label' = None"
  by (simp add: safe_segment)

section \<open>The tenants' directories\<close>

fun file_dir :: "queue_file \<Rightarrow> string" where
  "file_dir (Item_file i) = ''queue''"
| "file_dir (Verdict_file v) = ''verdicts''"
| "file_dir (Log_file l) = ''runs''"

fun as_item :: "queue_file \<Rightarrow> HumanReviewQueueItem option" where
  "as_item (Item_file i) = Some i"
| "as_item _ = None"

fun as_verdict :: "queue_file \<Rightarrow> HumanReviewVerdict option" where
  "as_verdict (Verdict_file v) = Some v"
| "as_verdict _ = None"

fun as_log :: "queue_file \<Rightarrow> HumanReviewLog option" where
  "as_log (Log_file l) = Some l"
| "as_log _ = None"

text \<open>The files of one directory with their names, in the order they were created.\<close>

definition files_in :: "(queue_file \<Rightarrow> 'a option) \<Rightarrow> path \<Rightarrow> queue_disk \<Rightarrow> (string \<times> 'a) list" where
  "files_in kind dir disk =
     List.map_filter (\<lambda>(p, f). if p \<noteq> [] \<and> butlast p = dir then map_option (Pair (last p)) (kind f) else None) disk"

definition tenant_view :: "path \<Rightarrow> queue_disk \<Rightarrow> queue_fs" where
  "tenant_view rootDir disk = (\<lambda>t.
     \<lparr> tf_queue = files_in as_item (rootDir @ [t, ''queue'']) disk,
       tf_verdicts = files_in as_verdict (rootDir @ [t, ''verdicts'']) disk,
       tf_runs = files_in as_log (rootDir @ [t, ''runs'']) disk \<rparr>)"

text \<open>A file is confined when it lies in the directory for its kind, directly below the root of a tenant
  with a safe name, and that root is directly below the root of the queue.\<close>

definition confined :: "path \<Rightarrow> path \<times> queue_file \<Rightarrow> bool" where
  "confined rootDir = (\<lambda>(p, f). take (length rootDir) p = rootDir \<and>
     (case drop (length rootDir) p of
        [t, dir, name] \<Rightarrow> assertSafeSegment t ''tenantId'' = None \<and> dir = file_dir f
      | _ \<Rightarrow> False))"

lemma confined_iff:
  "confined rootDir (p, f) \<longleftrightarrow> (\<exists>t name. assertSafeSegment t ''tenantId'' = None \<and> p = rootDir @ [t, file_dir f, name])"
proof
  assume conf: "confined rootDir (p, f)"
  then obtain t name where "assertSafeSegment t ''tenantId'' = None" "drop (length rootDir) p = [t, file_dir f, name]"
    by (auto simp: confined_def split: list.splits)
  then show "\<exists>t name. assertSafeSegment t ''tenantId'' = None \<and> p = rootDir @ [t, file_dir f, name]"
    using conf append_take_drop_id [of "length rootDir" p] by (auto simp: confined_def)
qed (auto simp: confined_def)

definition disk_ok :: "path \<Rightarrow> queue_disk \<Rightarrow> bool" where
  "disk_ok rootDir disk \<longleftrightarrow> list_all (confined rootDir) disk"

lemma disk_ok_kind:
  assumes "disk_ok rootDir disk" "(rootDir @ [t, dir, name], f) \<in> set disk"
  shows "dir = file_dir f"
  using assms by (auto simp: disk_ok_def list_all_iff confined_iff dest!: bspec)

lemma disk_ok_update:
  assumes "disk_ok rootDir disk" "confined rootDir (p, f)"
  shows "disk_ok rootDir (AList.update p f disk)"
  using assms set_update_subset [of p f disk] by (auto simp: disk_ok_def list_all_iff)

lemma files_in_simps [simp]:
  "files_in kind dir [] = []"
  "files_in kind dir ((p, f) # disk) =
     (if p \<noteq> [] \<and> butlast p = dir then (case kind f of None \<Rightarrow> [] | Some x \<Rightarrow> [(last p, x)]) else []) @ files_in kind dir disk"
  by (simp_all add: files_in_def List.map_filter_simps split: option.split)

lemma files_in_other: "butlast p \<noteq> dir \<Longrightarrow> files_in kind dir (AList.update p f disk) = files_in kind dir disk"
  by (induction disk) auto

lemma files_in_update:
  "kind f = Some x \<Longrightarrow> (\<And>g. (dir @ [n], g) \<in> set disk \<Longrightarrow> kind g \<noteq> None) \<Longrightarrow>
   files_in kind dir (AList.update (dir @ [n]) f disk) = AList.update n x (files_in kind dir disk)"
proof (induction disk)
  case (Cons entry disk)
  obtain q g where entry: "entry = (q, g)" by (cases entry)
  have IH: "files_in kind dir (AList.update (dir @ [n]) f disk) = AList.update n x (files_in kind dir disk)"
    using Cons by simp
  have "last q \<noteq> n" if "q \<noteq> dir @ [n]" "q \<noteq> []" "butlast q = dir"
    using that append_butlast_last_id [of q] by auto
  moreover have "kind g \<noteq> None" if "q = dir @ [n]" using Cons.prems(2) [of g] that by (simp add: entry)
  ultimately show ?case using IH Cons.prems(1) by (auto simp: entry split: option.split)
qed simp

lemma map_of_files_in:
  assumes "\<And>g. (dir @ [n], g) \<in> set disk \<Longrightarrow> kind g \<noteq> None"
  shows "map_of (files_in kind dir disk) n = Option.bind (map_of disk (dir @ [n])) kind"
  using assms
proof (induction disk)
  case Nil
  show ?case by simp
next
  case (Cons entry disk)
  obtain q g where entry: "entry = (q, g)" by (cases entry)
  have IH: "map_of (files_in kind dir disk) n = Option.bind (map_of disk (dir @ [n])) kind"
    using Cons by simp
  show ?case
  proof (cases "q = dir @ [n]")
    case True
    then obtain x where "kind g = Some x" using Cons.prems [of g] by (auto simp: entry)
    then show ?thesis using True by (simp add: entry)
  next
    case False
    show ?thesis
    proof (cases "q \<noteq> [] \<and> butlast q = dir")
      case True
      then have "last q \<noteq> n" using False append_butlast_last_id [of q] by auto
      then show ?thesis using False True IH by (cases "kind g") (simp_all add: entry)
    next
      case outside: False
      then show ?thesis using False IH by (auto simp: entry)
    qed
  qed
qed

text \<open>On a disk of confined files a directory holds only files of its kind.\<close>

lemma as_kind:
  "file_dir g = ''queue'' \<Longrightarrow> as_item g \<noteq> None" "file_dir g = ''verdicts'' \<Longrightarrow> as_verdict g \<noteq> None"
  "file_dir g = ''runs'' \<Longrightarrow> as_log g \<noteq> None"
  by (cases g; simp)+

lemma dir_lookup:
  assumes "disk_ok rootDir disk" "\<And>g. file_dir g = dir \<Longrightarrow> kind g \<noteq> None"
  shows "map_of (files_in kind (rootDir @ [t, dir]) disk) n = Option.bind (map_of disk (rootDir @ [t, dir, n])) kind"
  using map_of_files_in [of "rootDir @ [t, dir]" n disk kind] disk_ok_kind [OF assms(1), of t dir n] assms(2) by simp

lemma dir_update:
  assumes "disk_ok rootDir disk" "\<And>g. file_dir g = dir \<Longrightarrow> kind g \<noteq> None" "kind f = Some x"
  shows "files_in kind (rootDir @ [t, dir]) (AList.update (rootDir @ [t, dir, n]) f disk) =
    AList.update n x (files_in kind (rootDir @ [t, dir]) disk)"
  using files_in_update [of kind f x "rootDir @ [t, dir]" n disk] disk_ok_kind [OF assms(1), of t dir n] assms(2,3) by simp

lemma view_lookup:
  assumes "disk_ok rootDir disk"
  shows "map_of (tf_queue (tenant_view rootDir disk t)) n = Option.bind (map_of disk (rootDir @ [t, ''queue'', n])) as_item"
    "map_of (tf_verdicts (tenant_view rootDir disk t)) n = Option.bind (map_of disk (rootDir @ [t, ''verdicts'', n])) as_verdict"
    "map_of (tf_runs (tenant_view rootDir disk t)) n = Option.bind (map_of disk (rootDir @ [t, ''runs'', n])) as_log"
  by (simp_all add: tenant_view_def dir_lookup [OF assms as_kind(1)] dir_lookup [OF assms as_kind(2)] dir_lookup [OF assms as_kind(3)])

lemma view_write:
  assumes "disk_ok rootDir disk"
  shows "tenant_view rootDir (AList.update (rootDir @ [t, ''queue'', n]) (Item_file i) disk) =
      (tenant_view rootDir disk)(t := (tenant_view rootDir disk t)\<lparr> tf_queue :=
         AList.update n i (tf_queue (tenant_view rootDir disk t)) \<rparr>)"
    "tenant_view rootDir (AList.update (rootDir @ [t, ''verdicts'', n]) (Verdict_file v) disk) =
      (tenant_view rootDir disk)(t := (tenant_view rootDir disk t)\<lparr> tf_verdicts :=
         AList.update n v (tf_verdicts (tenant_view rootDir disk t)) \<rparr>)"
    "tenant_view rootDir (AList.update (rootDir @ [t, ''runs'', n]) (Log_file l) disk) =
      (tenant_view rootDir disk)(t := (tenant_view rootDir disk t)\<lparr> tf_runs :=
         AList.update n l (tf_runs (tenant_view rootDir disk t)) \<rparr>)"
  using dir_update [OF assms as_kind(1), where f = "Item_file i" and x = i and t = t and n = n] dir_update [OF assms as_kind(2), where f = "Verdict_file v" and x = v and t = t and n = n]
    dir_update [OF assms as_kind(3), where f = "Log_file l" and x = l and t = t and n = n]
  by (simp_all add: tenant_view_def fun_eq_iff files_in_other butlast_append)

section \<open>The operations refine those on tenants\<close>

lemma item_segments:
  assumes "assertHumanReviewQueueItemInvariants item = None"
  shows "assertSafeSegment (qi_itemId item) ''itemId'' = None" "assertSafeSegment (qi_tenantId item) ''tenantId'' = None"
  using assms by (simp_all add: assertHumanReviewQueueItemInvariants_def)

lemma stored_item:
  assumes "disk_ok rootDir disk" "map_of disk (rootDir @ [t, ''queue'', n]) = Some f"
  obtains item where "f = Item_file item"
  using disk_ok_kind [OF assms(1) map_of_SomeD [OF assms(2)]] by (cases f) simp_all

lemma stored_verdict:
  assumes "disk_ok rootDir disk" "map_of disk (rootDir @ [t, ''verdicts'', n]) = Some f"
  obtains v where "f = Verdict_file v"
  using disk_ok_kind [OF assms(1) map_of_SomeD [OF assms(2)]] by (cases f) simp_all

lemma enqueue_refines:
  assumes ok: "disk_ok rootDir disk"
  shows "enqueue item (tenant_view rootDir disk) =
      map_prod (tenant_view rootDir) id (enqueue_file rootDir item disk)"
    and "disk_ok rootDir (fst (enqueue_file rootDir item disk))"
proof -
  let ?p = "rootDir @ [qi_tenantId item, ''queue'', json_file (qi_itemId item)]"
  have "enqueue item (tenant_view rootDir disk) = map_prod (tenant_view rootDir) id (enqueue_file rootDir item disk)
      \<and> disk_ok rootDir (fst (enqueue_file rootDir item disk))"
  proof (cases "assertHumanReviewQueueItemInvariants item")
    case None
    have path: "enqueue_file rootDir item disk =
        (case map_of disk ?p of
           Some existing \<Rightarrow> (disk, if existing \<noteq> Item_file item then Inl E_QUEUE_ITEM_ALREADY_EXISTS else Inr ())
         | None \<Rightarrow> (AList.update ?p (Item_file item) disk, Inr ()))"
      using None item_segments [OF None] by (simp add: enqueue_file_def layout_guarded queueItemPath_def join_guarded)
    have conf: "confined rootDir (?p, Item_file item)" using item_segments [OF None] by (simp add: confined_iff)
    show ?thesis
    proof (cases "map_of disk ?p")
      case absent: None
      then show ?thesis
        unfolding path using ok None disk_ok_update [OF ok conf] by (simp add: enqueue_def Let_def view_lookup view_write)
    next
      case (Some f)
      then obtain old where "f = Item_file old" using stored_item [OF ok] by blast
      then show ?thesis unfolding path using ok None Some by (simp add: enqueue_def Let_def view_lookup)
    qed
  qed (simp add: enqueue_def enqueue_file_def ok)
  then show "enqueue item (tenant_view rootDir disk) = map_prod (tenant_view rootDir) id (enqueue_file rootDir item disk)"
    "disk_ok rootDir (fst (enqueue_file rootDir item disk))" by blast+
qed

lemma recordVerdict_refines:
  assumes ok: "disk_ok rootDir disk"
  shows "recordVerdict h v t (tenant_view rootDir disk) =
      map_prod (tenant_view rootDir) id (recordVerdict_file h rootDir v t disk)
    \<and> disk_ok rootDir (fst (recordVerdict_file h rootDir v t disk))"
proof (cases "first_error [assertHumanReviewVerdictInvariants v, verifyVerdictSignature h v, assertSafeSegment t ''tenantId'']")
  case None
  let ?n = "json_file (hv_itemId v)"
  let ?q = "rootDir @ [t, ''queue'', ?n]" and ?p = "rootDir @ [t, ''verdicts'', ?n]"
  have safe: "assertSafeSegment t ''tenantId'' = None" "assertSafeSegment (hv_itemId v) ''itemId'' = None"
    using None valid_ids(1) [of v] by simp_all
  have path: "recordVerdict_file h rootDir v t disk =
      (case map_of disk ?q of
         None \<Rightarrow> (disk, Inl E_QUEUE_ITEM_NOT_FOUND)
       | Some file \<Rightarrow>
           (case readQueueItem file of
              Inl e \<Rightarrow> (disk, Inl e)
            | Inr item \<Rightarrow>
                (case map_of disk ?p of
                   Some existing \<Rightarrow> (disk, if \<not> same_verdict existing v then Inl E_VERDICT_ALREADY_RECORDED else Inr item)
                 | None \<Rightarrow> (AList.update ?p (Verdict_file (canonical_verdict v)) disk, Inr item))))"
    using None safe
    by (simp add: recordVerdict_file_def layout_guarded queueItemPath_def verdictPath_def join_guarded
        cong: option.case_cong sum.case_cong)
  have conf: "confined rootDir (?p, Verdict_file (canonical_verdict v))" using safe by (simp add: confined_iff)
  show ?thesis
  proof (cases "map_of disk ?q")
    case absent: None
    then show ?thesis unfolding path using ok None by (simp add: recordVerdict_def Let_def view_lookup)
  next
    case (Some f)
    then obtain item where f: "f = Item_file item" using stored_item [OF ok] by blast
    show ?thesis
    proof (cases "assertHumanReviewQueueItemInvariants item")
      case (Some e)
      then show ?thesis
        unfolding path using ok None \<open>map_of disk ?q = Some f\<close> f by (simp add: recordVerdict_def Let_def view_lookup readQueueItem_def)
    next
      case valid: None
      show ?thesis
      proof (cases "map_of disk ?p")
        case fresh: None
        then show ?thesis
          unfolding path using ok None \<open>map_of disk ?q = Some f\<close> f valid disk_ok_update [OF ok conf]
          by (simp add: recordVerdict_def Let_def view_lookup view_write readQueueItem_def)
      next
        case (Some g)
        then obtain old where "g = Verdict_file old" using stored_verdict [OF ok] by blast
        then show ?thesis
          unfolding path using ok None \<open>map_of disk ?q = Some f\<close> f valid Some
          by (simp add: recordVerdict_def Let_def view_lookup readQueueItem_def same_verdict_def)
      qed
    qed
  qed
qed (simp add: recordVerdict_def recordVerdict_file_def ok)

lemma writeRunLog_refines:
  assumes ok: "disk_ok rootDir disk"
  shows "writeRunLog h l (tenant_view rootDir disk) =
      map_prod (tenant_view rootDir) (map_sum id last) (writeRunLog_file h rootDir l disk)
    \<and> disk_ok rootDir (fst (writeRunLog_file h rootDir l disk))"
proof (cases "assertSafeSegment (hl_tenantId l) ''tenantId'' = None \<and> assertSafeSegment (hl_jobId l) ''runId'' = None")
  case True
  then have "confined rootDir (rootDir @ [hl_tenantId l, ''runs'', log_file (hl_jobId l)], Log_file (canonical_log h l))"
    by (simp add: confined_iff)
  from disk_ok_update [OF ok this] show ?thesis
    using True ok join_guarded(3) [of "hl_jobId l" "''runId''"]
    by (simp add: writeRunLog_def writeRunLog_file_def refuse_unless_def layout_guarded runLogPath_def join_guarded Let_def
        view_write cong: option.case_cong)
next
  case False
  then show ?thesis
    using ok
    by (auto simp: writeRunLog_def writeRunLog_file_def refuse_unless_def layout_guarded runLogPath_def split: option.split)
qed

lemma disk_step_refines:
  assumes "disk_ok rootDir disk"
  shows "disk_ok rootDir (disk_step h rootDir disk p)"
    and "tenant_view rootDir (disk_step h rootDir disk p) = queue_step h (tenant_view rootDir disk) p"
  using enqueue_refines [OF assms] recordVerdict_refines [OF assms] writeRunLog_refines [OF assms]
  by (cases p; simp)+

interpretation disk: refining_machine "disk_step h rootDir" "disk_ok rootDir" "tenant_view rootDir" "queue_step h"
  for h rootDir
  by unfold_locales (simp_all add: disk_step_refines)

lemma fresh_disk: "disk_ok rootDir []" "tenant_view rootDir [] = empty_queue_fs"
  by (simp_all add: disk_ok_def tenant_view_def empty_queue_fs_def)

lemma disk_after_ok: "disk_ok rootDir (disk_after h rootDir ops)"
  unfolding disk_after_def by (rule disk.run_inv [OF fresh_disk(1)])

lemma disk_after_refines: "tenant_view rootDir (disk_after h rootDir ops) = queue_after h ops"
  unfolding disk_after_def queue_after_def using disk.run_refines [OF fresh_disk(1)] by (simp add: fresh_disk(2))

text \<open>A disk of confined files is determined by what the tenants see of it.\<close>

lemma view_determines:
  assumes "disk_ok rootDir disk" "disk_ok rootDir disk'" "tenant_view rootDir disk t = tenant_view rootDir disk' t"
    and "prefix (rootDir @ [t]) p"
  shows "map_of disk p = map_of disk' p"
proof (cases "\<exists>f. confined rootDir (p, f)")
  case True
  then obtain f u name where p: "p = rootDir @ [u, file_dir f, name]" by (auto simp: confined_iff)
  then have u: "u = t" using assms(4) by simp
  have kinds: "Option.bind (map_of disk p) as_item = Option.bind (map_of disk' p) as_item" if "file_dir f = ''queue''"
    using view_lookup(1) [OF assms(1), of t name] view_lookup(1) [OF assms(2), of t name] assms(3) that by (simp add: p u)
  moreover have "Option.bind (map_of disk p) as_verdict = Option.bind (map_of disk' p) as_verdict" if "file_dir f = ''verdicts''"
    using view_lookup(2) [OF assms(1), of t name] view_lookup(2) [OF assms(2), of t name] assms(3) that by (simp add: p u)
  moreover have "Option.bind (map_of disk p) as_log = Option.bind (map_of disk' p) as_log" if "file_dir f = ''runs''"
    using view_lookup(3) [OF assms(1), of t name] view_lookup(3) [OF assms(2), of t name] assms(3) that by (simp add: p u)
  moreover have same: "file_dir g = file_dir f" if "map_of d p = Some g" "disk_ok rootDir d" for g d
    using disk_ok_kind [OF that(2)] map_of_SomeD [OF that(1)] p by metis
  ultimately show ?thesis
    using same [OF _ assms(1)] same [OF _ assms(2)]
    by (cases "map_of disk p"; cases "map_of disk' p"; cases f)
      (auto simp: as_kind elim!: file_dir.elims)
next
  case False
  then have "map_of d p = None" if "disk_ok rootDir d" for d
    using that by (auto simp: disk_ok_def list_all_iff map_of_eq_None_iff)
  then show ?thesis using assms(1,2) by simp
qed

lemma own_files:
  assumes "(p, f) \<in> set (disk_after h rootDir (filter (\<lambda>q. op_tenant q = t) ops))"
  obtains name where "assertSafeSegment t ''tenantId'' = None" "p = rootDir @ [t, file_dir f, name]"
proof -
  let ?own = "disk_after h rootDir (filter (\<lambda>q. op_tenant q = t) ops)"
  have "confined rootDir (p, f)" using disk_after_ok [of rootDir h "filter (\<lambda>q. op_tenant q = t) ops"] assms by (auto simp: disk_ok_def list_all_iff)
  then obtain u name where u: "assertSafeSegment u ''tenantId'' = None" "p = rootDir @ [u, file_dir f, name]"
    by (auto simp: confined_iff)
  have "u = t"
  proof (rule ccontr)
    assume "u \<noteq> t"
    then have "filter (\<lambda>q. op_tenant q = u) (filter (\<lambda>q. op_tenant q = t) ops) = []" by (simp add: filter_empty_conv)
    then have "tenant_view rootDir ?own u = tenant_view rootDir [] u"
      using tenant_partition [of h "filter (\<lambda>q. op_tenant q = t) ops" u]
      by (simp add: disk_after_refines fresh_disk(2) queue_after_def)
    then have "map_of ?own p = map_of [] p"
      using u(2) by (intro view_determines [OF disk_after_ok fresh_disk(1)]) simp_all
    then show False using weak_map_of_SomeI [OF assms] by simp
  qed
  with u show thesis using that by simp
qed

text \<open>
  C12: Tenants do not interfere on disk. After any sequence of operations with any identifiers, every file lies in the
  queue, verdict or run directory for its kind directly below the root of a tenant with a safe name, so
  no identifier leads out of its tenant's directory or out of the queue; what lies below the root of a
  tenant is, path by path, exactly what the operations addressed to that tenant alone would have put
  there, and the operations addressed to an unsafe tenant name put nothing anywhere. The files of a
  tenant's three directories are those of the store that is indexed by tenants.
\<close>

theorem tenants_do_not_interfere:
  "let disk = disk_after h rootDir ops; own = disk_after h rootDir (filter (\<lambda>p. op_tenant p = t) ops) in
   list_all (confined rootDir) disk
   \<and> (case resolveLayout rootDir t of
        Inl e \<Rightarrow> own = []
      | Inr layout \<Rightarrow>
          ly_tenantRoot layout = rootDir @ [t]
          \<and> map_of disk |` {p. prefix (ly_tenantRoot layout) p} = map_of own |` {p. prefix (ly_tenantRoot layout) p}
          \<and> list_all (\<lambda>(p, f). prefix (ly_tenantRoot layout) p) own)
   \<and> tenant_view rootDir disk = queue_after h ops"
proof -
  let ?disk = "disk_after h rootDir ops" and ?own = "disk_after h rootDir (filter (\<lambda>p. op_tenant p = t) ops)"
  have "map_of ?disk p = map_of ?own p" if "prefix (rootDir @ [t]) p" for p
    by (rule view_determines [OF disk_after_ok disk_after_ok _ that]) (simp add: disk_after_refines tenant_partition [of h ops t])
  then have "map_of ?disk |` {p. prefix (rootDir @ [t]) p} = map_of ?own |` {p. prefix (rootDir @ [t]) p}"
    by (auto simp: restrict_map_def)
  moreover have "list_all (\<lambda>(p, f). prefix (rootDir @ [t]) p) ?own"
    by (auto simp: list_all_iff elim!: own_files)
  moreover have "?own = []" if "assertSafeSegment t ''tenantId'' = Some e" for e
    using that own_files [of _ _ h rootDir t ops] by (cases ?own) fastforce+
  ultimately show ?thesis
    using disk_after_ok [of rootDir h ops] disk_after_refines [of rootDir h ops]
    by (simp add: Let_def disk_ok_def layout_guarded split: option.split)
qed

end
