(* ===== verification/FinopsBudget.thy ===== *)
theory FinopsBudget
  imports Prelude
begin

text \<open>
  Budget envelopes of a job (\<^verbatim>\<open>packages/model-gateway/src/finops-budget.ts\<close>): the built-in envelopes,
  cloning, validation, source quotas, the limits handed to the gateway and the elastic wall-clock
  budget. A role budget is a function from its limit names to optional numbers; the roles of an
  envelope are an association list, since validation looks for unknown keys.
\<close>

section \<open>Data\<close>

datatype budget_field =
    MaxInputTokensPerRequest | MaxOutputTokensPerRequest | MaxTotalInputTokens | MaxTotalOutputTokens
  | MaxWallClockMsPerRequest | MaxTotalWallClockMs | MaxRetriesPerRequest | MaxAttempts
  | MaxImageBytesPerRequest | MaxFallbackAttempts | MaxLiveSmokeCalls | MaxIngestBytesPerJob

fun field_name :: "budget_field \<Rightarrow> string" where
  "field_name MaxInputTokensPerRequest = ''maxInputTokensPerRequest''"
| "field_name MaxOutputTokensPerRequest = ''maxOutputTokensPerRequest''"
| "field_name MaxTotalInputTokens = ''maxTotalInputTokens''"
| "field_name MaxTotalOutputTokens = ''maxTotalOutputTokens''"
| "field_name MaxWallClockMsPerRequest = ''maxWallClockMsPerRequest''"
| "field_name MaxTotalWallClockMs = ''maxTotalWallClockMs''"
| "field_name MaxRetriesPerRequest = ''maxRetriesPerRequest''"
| "field_name MaxAttempts = ''maxAttempts''"
| "field_name MaxImageBytesPerRequest = ''maxImageBytesPerRequest''"
| "field_name MaxFallbackAttempts = ''maxFallbackAttempts''"
| "field_name MaxLiveSmokeCalls = ''maxLiveSmokeCalls''"
| "field_name MaxIngestBytesPerJob = ''maxIngestBytesPerJob''"

type_synonym FinOpsRoleBudget = "budget_field \<Rightarrow> js_number option"

record source_quotas =
  sq_maxJiraApiRequestsPerJob :: "js_number option"
  sq_maxJiraPasteBytesPerJob :: "js_number option"
  sq_maxCustomContextBytesPerJob :: "js_number option"

record FinOpsBudgetEnvelope =
  be_budgetId :: string
  be_budgetVersion :: string
  be_maxJobWallClockMs :: "js_number option"
  be_maxReplayCacheMissRate :: "js_number option"
  be_maxEstimatedCost :: "js_number option"
  be_roles :: "(string \<times> FinOpsRoleBudget) list"
  be_sourceQuotas :: "source_quotas option"

definition ALLOWED_FINOPS_ROLES :: "string list" where
  "ALLOWED_FINOPS_ROLES = [''test_generation'', ''visual_primary'', ''visual_fallback'', ''jira_api_requests'',
     ''jira_paste_ingest'', ''custom_context_ingest'']"

record FinOpsWallClockBudgetPolicy =
  wp_baseMs :: rat
  wp_perCaseMs :: rat
  wp_perAdditionalJudgeMs :: rat
  wp_perAdversarialRoundMs :: rat
  wp_visualSidecarMs :: rat
  wp_hardCeilingMs :: rat

record ResolveTestGenerationWallClockBudgetInput =
  rw_caseCount :: js_number
  rw_judgePanelSize :: js_number
  rw_adversarialRounds :: js_number
  rw_visualSidecarEnabled :: bool
  rw_explicitOverrideMs :: "rat option"
  rw_policy :: "FinOpsWallClockBudgetPolicy option"  \<comment> \<open>\<^verbatim>\<open>profileRules?.finopsWallClockBudget\<close>\<close>

record ResolvedFinOpsWallClockBudget =
  wc_mode :: string
  wc_resolvedMs :: rat
  wc_formulaMs :: rat
  wc_overrideMs :: "rat option"
  wc_coefficients :: FinOpsWallClockBudgetPolicy
  wc_caseMs :: rat
  wc_additionalJudgeMs :: rat
  wc_adversarialRoundMs :: rat
  wc_visualSidecarMs :: rat
  wc_unclampedMs :: rat

record FinOpsBudgetValidationIssue =
  bi_path :: string
  bi_message :: string

record FinOpsResolvedRequestLimits =
  ql_maxInputTokens :: "js_number option"
  ql_maxOutputTokens :: "js_number option"
  ql_maxWallClockMs :: "js_number option"
  ql_maxRetries :: "js_number option"

datatype finops_range_error = Not_a_count string

section \<open>Built-in envelopes\<close>

definition PRODUCTION_GENERATOR_WALL_CLOCK_MS :: rat where
  "PRODUCTION_GENERATOR_WALL_CLOCK_MS = 24 * 60 * 60 * 1000"

definition VISUAL_SIDECAR_WALL_CLOCK_MS :: rat where
  "VISUAL_SIDECAR_WALL_CLOCK_MS = 60000"

definition limits :: "(budget_field \<times> rat) list \<Rightarrow> FinOpsRoleBudget" where
  "limits kvs = (\<lambda>k. map_option Fin (map_of kvs k))"

definition DEFAULT_FINOPS_WALL_CLOCK_BUDGET_POLICY :: FinOpsWallClockBudgetPolicy where
  "DEFAULT_FINOPS_WALL_CLOCK_BUDGET_POLICY =
     \<lparr> wp_baseMs = 150000, wp_perCaseMs = 4000, wp_perAdditionalJudgeMs = 20000, wp_perAdversarialRoundMs = 30000,
       wp_visualSidecarMs = 30000, wp_hardCeilingMs = 1800000 \<rparr>"

definition DEFAULT_FINOPS_BUDGET_ENVELOPE :: FinOpsBudgetEnvelope where
  "DEFAULT_FINOPS_BUDGET_ENVELOPE =
     \<lparr> be_budgetId = ''default-permissive'', be_budgetVersion = ''1.0.0'', be_maxJobWallClockMs = None,
       be_maxReplayCacheMissRate = None, be_maxEstimatedCost = None, be_roles = [], be_sourceQuotas = None \<rparr>"

definition EU_BANKING_DEFAULT_FINOPS_BUDGET :: FinOpsBudgetEnvelope where
  "EU_BANKING_DEFAULT_FINOPS_BUDGET =
     \<lparr> be_budgetId = ''eu-banking-default'', be_budgetVersion = ''1.1.0'',
       be_maxJobWallClockMs = Some (Fin PRODUCTION_GENERATOR_WALL_CLOCK_MS),
       be_maxReplayCacheMissRate = Some (Fin 1), be_maxEstimatedCost = None,
       be_roles =
         [(''test_generation'', limits [(MaxInputTokensPerRequest, 200000), (MaxOutputTokensPerRequest, 32000),
             (MaxTotalInputTokens, 2000000), (MaxTotalOutputTokens, 200000),
             (MaxWallClockMsPerRequest, PRODUCTION_GENERATOR_WALL_CLOCK_MS), (MaxRetriesPerRequest, 6), (MaxAttempts, 12)]),
          (''visual_primary'', limits [(MaxInputTokensPerRequest, 100000), (MaxOutputTokensPerRequest, 16000),
             (MaxWallClockMsPerRequest, VISUAL_SIDECAR_WALL_CLOCK_MS), (MaxRetriesPerRequest, 4), (MaxAttempts, 6),
             (MaxImageBytesPerRequest, 16 * 1024 * 1024)]),
          (''visual_fallback'', limits [(MaxInputTokensPerRequest, 100000), (MaxOutputTokensPerRequest, 16000),
             (MaxWallClockMsPerRequest, VISUAL_SIDECAR_WALL_CLOCK_MS), (MaxRetriesPerRequest, 4), (MaxAttempts, 6),
             (MaxImageBytesPerRequest, 16 * 1024 * 1024), (MaxFallbackAttempts, 6)]),
          (''jira_api_requests'', limits [(MaxAttempts, 200)]),
          (''jira_paste_ingest'', limits [(MaxIngestBytesPerJob, 8388608)]),
          (''custom_context_ingest'', limits [(MaxIngestBytesPerJob, 4194304)])],
       be_sourceQuotas = Some \<lparr> sq_maxJiraApiRequestsPerJob = Some (Fin 200), sq_maxJiraPasteBytesPerJob = Some (Fin 8388608),
         sq_maxCustomContextBytesPerJob = Some (Fin 4194304) \<rparr> \<rparr>"

definition PRODUCTION_FINOPS_BUDGET_ENVELOPE :: FinOpsBudgetEnvelope where
  "PRODUCTION_FINOPS_BUDGET_ENVELOPE =
     \<lparr> be_budgetId = ''production-default'', be_budgetVersion = ''1.1.0'',
       be_maxJobWallClockMs = Some (Fin PRODUCTION_GENERATOR_WALL_CLOCK_MS),
       be_maxReplayCacheMissRate = Some (Fin 1), be_maxEstimatedCost = None,
       be_roles =
         [(''test_generation'', limits [(MaxInputTokensPerRequest, 200000), (MaxTotalInputTokens, 2000000),
             (MaxOutputTokensPerRequest, 32000), (MaxTotalOutputTokens, 200000), (MaxRetriesPerRequest, 6),
             (MaxAttempts, 12), (MaxWallClockMsPerRequest, PRODUCTION_GENERATOR_WALL_CLOCK_MS), (MaxLiveSmokeCalls, 0)]),
          (''visual_primary'', limits [(MaxInputTokensPerRequest, 100000), (MaxOutputTokensPerRequest, 16000),
             (MaxImageBytesPerRequest, 16 * 1024 * 1024), (MaxRetriesPerRequest, 4), (MaxAttempts, 6),
             (MaxWallClockMsPerRequest, VISUAL_SIDECAR_WALL_CLOCK_MS)]),
          (''visual_fallback'', limits [(MaxInputTokensPerRequest, 100000), (MaxOutputTokensPerRequest, 16000),
             (MaxImageBytesPerRequest, 16 * 1024 * 1024), (MaxRetriesPerRequest, 4), (MaxAttempts, 6),
             (MaxWallClockMsPerRequest, VISUAL_SIDECAR_WALL_CLOCK_MS), (MaxFallbackAttempts, 6)])],
       be_sourceQuotas = None \<rparr>"

section \<open>Cloning and limits\<close>

definition POSITIVE_INTEGER_FIELDS :: "budget_field list" where
  "POSITIVE_INTEGER_FIELDS = [MaxInputTokensPerRequest, MaxOutputTokensPerRequest, MaxTotalInputTokens,
     MaxTotalOutputTokens, MaxWallClockMsPerRequest, MaxTotalWallClockMs, MaxRetriesPerRequest, MaxAttempts,
     MaxImageBytesPerRequest, MaxFallbackAttempts, MaxLiveSmokeCalls, MaxIngestBytesPerJob]"

text \<open>The keys that are copied are listed in the same order.\<close>

definition cloneRoleBudget :: "FinOpsRoleBudget \<Rightarrow> FinOpsRoleBudget" where
  "cloneRoleBudget b = foldl (\<lambda>out k. case b k of None \<Rightarrow> out | Some v \<Rightarrow> out(k := Some v)) (\<lambda>_. None) POSITIVE_INTEGER_FIELDS"

definition cloneFinOpsBudgetEnvelope :: "FinOpsBudgetEnvelope \<Rightarrow> FinOpsBudgetEnvelope" where
  "cloneFinOpsBudgetEnvelope envelope = envelope\<lparr> be_roles :=
     List.map_filter (\<lambda>role. map_option (\<lambda>b. (role, cloneRoleBudget b)) (map_of (be_roles envelope) role))
       ALLOWED_FINOPS_ROLES \<rparr>"

definition ADVERSARIAL_CRITIC_BUDGET_FRACTION :: rat where
  "ADVERSARIAL_CRITIC_BUDGET_FRACTION = 1 / 4"

definition quarterBudget :: "js_number option \<Rightarrow> js_number option" where
  "quarterBudget v =
     (case v of
        Some (Fin q) \<Rightarrow> if q \<le> 0 then None else Some (Fin (of_int (max 1 \<lfloor>q * ADVERSARIAL_CRITIC_BUDGET_FRACTION\<rfloor>)))
      | _ \<Rightarrow> None)"

text \<open>\<^verbatim>\<open>Math.max(0, Math.min(1, x))\<close>\<close>

fun clamp_unit :: "js_number \<Rightarrow> js_number" where
  "clamp_unit (Fin q) = Fin (max 0 (min 1 q))"
| "clamp_unit PosInfinity = Fin 1"
| "clamp_unit NegInfinity = Fin 0"
| "clamp_unit NaN = NaN"

definition resolveAdversarialCriticBudgetLimits :: "FinOpsRoleBudget option \<Rightarrow> FinOpsResolvedRequestLimits" where
  "resolveAdversarialCriticBudgetLimits generatorBudget =
     (let get = (\<lambda>k. Option.bind generatorBudget (\<lambda>b. b k))
      in \<lparr> ql_maxInputTokens = quarterBudget (get MaxInputTokensPerRequest),
           ql_maxOutputTokens = quarterBudget (get MaxOutputTokensPerRequest),
           ql_maxWallClockMs = quarterBudget (get MaxWallClockMsPerRequest),
           ql_maxRetries = map_option clamp_unit (get MaxRetriesPerRequest) \<rparr>)"

definition resolveFinOpsRequestLimits :: "FinOpsRoleBudget option \<Rightarrow> FinOpsResolvedRequestLimits" where
  "resolveFinOpsRequestLimits budget =
     (let get = (\<lambda>k. Option.bind budget (\<lambda>b. b k))
      in \<lparr> ql_maxInputTokens = get MaxInputTokensPerRequest, ql_maxOutputTokens = get MaxOutputTokensPerRequest,
           ql_maxWallClockMs = get MaxWallClockMsPerRequest, ql_maxRetries = get MaxRetriesPerRequest \<rparr>)"

section \<open>Wall-clock budget\<close>

fun isSafeInteger :: "js_number \<Rightarrow> bool" where
  "isSafeInteger (Fin q) \<longleftrightarrow> rat_integral q \<and> \<bar>q\<bar> \<le> 9007199254740991"
| "isSafeInteger _ \<longleftrightarrow> False"

fun number_value :: "js_number \<Rightarrow> rat" where
  "number_value (Fin q) = q"
| "number_value _ = 0"

definition assertNonNegativeSafeInteger :: "js_number \<Rightarrow> string \<Rightarrow> finops_range_error option" where
  "assertNonNegativeSafeInteger v label =
     (if \<not> isSafeInteger v \<or> js_less v 0 then Some (Not_a_count label) else None)"

definition resolveFinOpsWallClockBudgetPolicy :: "FinOpsWallClockBudgetPolicy option \<Rightarrow> FinOpsWallClockBudgetPolicy" where
  "resolveFinOpsWallClockBudgetPolicy policy =
     (case policy of None \<Rightarrow> DEFAULT_FINOPS_WALL_CLOCK_BUDGET_POLICY | Some p \<Rightarrow> p)"

definition unclamped_budget :: "FinOpsWallClockBudgetPolicy \<Rightarrow> rat \<Rightarrow> rat \<Rightarrow> rat \<Rightarrow> bool \<Rightarrow> rat" where
  "unclamped_budget c caseCount judgePanelSize adversarialRounds visual =
     wp_baseMs c + wp_perCaseMs c * caseCount + wp_perAdditionalJudgeMs c * max 0 (judgePanelSize - 1)
     + wp_perAdversarialRoundMs c * adversarialRounds + (if visual then wp_visualSidecarMs c else 0)"

definition resolveWallClockBudget ::
  "FinOpsWallClockBudgetPolicy \<Rightarrow> js_number \<Rightarrow> js_number \<Rightarrow> js_number \<Rightarrow> bool \<Rightarrow> finops_range_error + rat" where
  "resolveWallClockBudget c caseCount judgePanelSize adversarialRounds visual =
     (case (assertNonNegativeSafeInteger caseCount ''caseCount'', assertNonNegativeSafeInteger judgePanelSize ''judgePanelSize'',
            assertNonNegativeSafeInteger adversarialRounds ''adversarialRounds'') of
        (Some e, _, _) \<Rightarrow> Inl e
      | (None, Some e, _) \<Rightarrow> Inl e
      | (None, None, Some e) \<Rightarrow> Inl e
      | (None, None, None) \<Rightarrow>
          Inr (min (unclamped_budget c (number_value caseCount) (number_value judgePanelSize)
                      (number_value adversarialRounds) visual) (wp_hardCeilingMs c)))"

definition resolveTestGenerationWallClockBudget ::
  "ResolveTestGenerationWallClockBudgetInput \<Rightarrow> finops_range_error + ResolvedFinOpsWallClockBudget" where
  "resolveTestGenerationWallClockBudget input =
     (let c = resolveFinOpsWallClockBudgetPolicy (rw_policy input);
          cases = number_value (rw_caseCount input); judges = number_value (rw_judgePanelSize input);
          rounds = number_value (rw_adversarialRounds input)
      in case resolveWallClockBudget c (rw_caseCount input) (rw_judgePanelSize input) (rw_adversarialRounds input)
                (rw_visualSidecarEnabled input) of
           Inl e \<Rightarrow> Inl e
         | Inr formulaMs \<Rightarrow> Inr
             \<lparr> wc_mode = (case rw_explicitOverrideMs input of None \<Rightarrow> ''elastic'' | Some _ \<Rightarrow> ''constant_override''),
               wc_resolvedMs = (case rw_explicitOverrideMs input of None \<Rightarrow> formulaMs | Some ms \<Rightarrow> ms),
               wc_formulaMs = formulaMs, wc_overrideMs = rw_explicitOverrideMs input, wc_coefficients = c,
               wc_caseMs = wp_perCaseMs c * cases, wc_additionalJudgeMs = wp_perAdditionalJudgeMs c * max 0 (judges - 1),
               wc_adversarialRoundMs = wp_perAdversarialRoundMs c * rounds,
               wc_visualSidecarMs = (if rw_visualSidecarEnabled input then wp_visualSidecarMs c else 0),
               wc_unclampedMs = wp_baseMs c + wp_perCaseMs c * cases + wp_perAdditionalJudgeMs c * max 0 (judges - 1)
                 + wp_perAdversarialRoundMs c * rounds + (if rw_visualSidecarEnabled input then wp_visualSidecarMs c else 0) \<rparr>)"

section \<open>Validation\<close>

definition budget_issue :: "bool \<Rightarrow> string \<Rightarrow> string \<Rightarrow> FinOpsBudgetValidationIssue list" where
  "budget_issue bad path message = (if bad then [\<lparr> bi_path = path, bi_message = message \<rparr>] else [])"

definition ZERO_ALLOWED_FIELDS :: "budget_field list" where
  "ZERO_ALLOWED_FIELDS = [MaxRetriesPerRequest, MaxAttempts, MaxFallbackAttempts, MaxLiveSmokeCalls]"

definition INGEST_ONLY_ROLES :: "string list" where
  "INGEST_ONLY_ROLES = [''jira_paste_ingest'', ''custom_context_ingest'']"

definition JIRA_API_ROLES :: "string list" where
  "JIRA_API_ROLES = [''jira_api_requests'']"

definition validate_field :: "string \<Rightarrow> FinOpsRoleBudget \<Rightarrow> budget_field \<Rightarrow> FinOpsBudgetValidationIssue list" where
  "validate_field role budget field =
     (let path = ''$.roles.'' @ role @ ''.'' @ field_name field
      in case budget field of
           None \<Rightarrow> []
         | Some v \<Rightarrow>
             if \<not> isSafeInteger v \<or> js_less v 0
             then [\<lparr> bi_path = path, bi_message = field_name field @ '' must be a non-negative safe integer'' \<rparr>]
             else budget_issue (field \<notin> set ZERO_ALLOWED_FIELDS \<and> v = Fin 0) path
                    (field_name field @ '' must be > 0 when supplied''))"

definition has_limit :: "FinOpsRoleBudget \<Rightarrow> budget_field list \<Rightarrow> bool" where
  "has_limit budget ks \<longleftrightarrow> list_ex (\<lambda>f. budget f \<noteq> None) ks"

definition validateRoleBudget :: "string \<Rightarrow> FinOpsRoleBudget \<Rightarrow> FinOpsBudgetValidationIssue list" where
  "validateRoleBudget role budget =
     concat (map (validate_field role budget) POSITIVE_INTEGER_FIELDS)
     @ budget_issue (role = ''test_generation'' \<and> has_limit budget [MaxImageBytesPerRequest, MaxFallbackAttempts])
         ''$.roles.test_generation''
         ''test_generation does not accept image input or fallback; remove maxImageBytesPerRequest / maxFallbackAttempts''
     @ budget_issue (role = ''visual_primary'' \<and> has_limit budget [MaxFallbackAttempts])
         ''$.roles.visual_primary.maxFallbackAttempts''
         ''maxFallbackAttempts is only enforced for visual_fallback; move the limit there''
     @ budget_issue (role \<in> set INGEST_ONLY_ROLES \<and> has_limit budget
           [MaxInputTokensPerRequest, MaxOutputTokensPerRequest, MaxImageBytesPerRequest, MaxFallbackAttempts])
         (''$.roles.'' @ role)
         (role @ '' is an ingest role and does not accept LLM or image limits; use maxIngestBytesPerJob / maxAttempts only'')
     @ budget_issue (role \<in> set JIRA_API_ROLES \<and> has_limit budget
           [MaxInputTokensPerRequest, MaxOutputTokensPerRequest, MaxImageBytesPerRequest, MaxIngestBytesPerJob])
         (''$.roles.'' @ role) (role @ '' is a Jira API role; use maxAttempts only'')"

definition quota_issue :: "string \<Rightarrow> js_number option \<Rightarrow> FinOpsBudgetValidationIssue list" where
  "quota_issue field v = budget_issue (case v of None \<Rightarrow> False | Some n \<Rightarrow> \<not> isSafeInteger n \<or> js_less n 0)
     (''$.sourceQuotas.'' @ field) (''sourceQuotas.'' @ field @ '' must be a non-negative safe integer'')"

definition validateFinOpsBudgetEnvelope :: "FinOpsBudgetEnvelope \<Rightarrow> bool \<times> FinOpsBudgetValidationIssue list" where
  "validateFinOpsBudgetEnvelope e =
     (let errors =
        budget_issue (be_budgetId e = []) ''$.budgetId'' ''budgetId must be a non-empty string''
        @ budget_issue (be_budgetVersion e = []) ''$.budgetVersion'' ''budgetVersion must be a non-empty string''
        @ budget_issue (case be_maxJobWallClockMs e of None \<Rightarrow> False | Some n \<Rightarrow> \<not> isSafeInteger n \<or> \<not> js_greater n 0)
            ''$.maxJobWallClockMs'' ''maxJobWallClockMs must be a positive safe integer''
        @ budget_issue (case be_maxReplayCacheMissRate e of None \<Rightarrow> False
                        | Some n \<Rightarrow> \<not> isFinite n \<or> js_less n 0 \<or> js_greater n 1)
            ''$.maxReplayCacheMissRate'' ''maxReplayCacheMissRate must be a number in [0, 1]''
        @ budget_issue (case be_maxEstimatedCost e of None \<Rightarrow> False | Some n \<Rightarrow> \<not> isFinite n \<or> js_less n 0)
            ''$.maxEstimatedCost'' ''maxEstimatedCost must be a non-negative finite number''
        @ concat (map (\<lambda>role. case map_of (be_roles e) role of None \<Rightarrow> [] | Some b \<Rightarrow> validateRoleBudget role b)
            ALLOWED_FINOPS_ROLES)
        @ concat (map (\<lambda>(key, _). budget_issue (key \<notin> set ALLOWED_FINOPS_ROLES) (''$.roles.'' @ key)
            (''roles.'' @ key @ '' is not a known FinOps role'')) (be_roles e))
        @ (case be_sourceQuotas e of
             None \<Rightarrow> []
           | Some q \<Rightarrow> quota_issue ''maxJiraApiRequestsPerJob'' (sq_maxJiraApiRequestsPerJob q)
               @ quota_issue ''maxJiraPasteBytesPerJob'' (sq_maxJiraPasteBytesPerJob q)
               @ quota_issue ''maxCustomContextBytesPerJob'' (sq_maxCustomContextBytesPerJob q))
      in (errors = [], errors))"

section \<open>Source quotas\<close>

text \<open>The human-readable message of a breach is left out.\<close>

record SourceQuotaCheckResult =
  qr_ok :: bool
  qr_breachReason :: "string option"

text \<open>\<^verbatim>\<open>cap === undefined || planned <= cap\<close>; a NaN cap never admits.\<close>

fun admits :: "js_number option \<Rightarrow> rat \<Rightarrow> bool" where
  "admits None planned \<longleftrightarrow> True"
| "admits (Some (Fin c)) planned \<longleftrightarrow> planned \<le> c"
| "admits (Some PosInfinity) planned \<longleftrightarrow> True"
| "admits (Some _) planned \<longleftrightarrow> False"

definition quota_check ::
  "(source_quotas \<Rightarrow> js_number option) \<Rightarrow> string \<Rightarrow> budget_field \<Rightarrow> string \<Rightarrow> FinOpsBudgetEnvelope \<Rightarrow> rat \<Rightarrow> SourceQuotaCheckResult" where
  "quota_check quota role field reason e planned =
     (let cap = (case Option.bind (be_sourceQuotas e) quota of
                   Some c \<Rightarrow> Some c
                 | None \<Rightarrow> Option.bind (map_of (be_roles e) role) (\<lambda>b. b field))
      in if admits cap planned then \<lparr> qr_ok = True, qr_breachReason = None \<rparr>
         else \<lparr> qr_ok = False, qr_breachReason = Some reason \<rparr>)"

definition checkJiraApiQuota :: "FinOpsBudgetEnvelope \<Rightarrow> rat \<Rightarrow> SourceQuotaCheckResult" where
  "checkJiraApiQuota = quota_check sq_maxJiraApiRequestsPerJob ''jira_api_requests'' MaxAttempts ''jira_api_quota_exceeded''"

definition checkJiraPasteQuota :: "FinOpsBudgetEnvelope \<Rightarrow> rat \<Rightarrow> SourceQuotaCheckResult" where
  "checkJiraPasteQuota = quota_check sq_maxJiraPasteBytesPerJob ''jira_paste_ingest'' MaxIngestBytesPerJob ''jira_paste_quota_exceeded''"

definition checkCustomContextQuota :: "FinOpsBudgetEnvelope \<Rightarrow> rat \<Rightarrow> SourceQuotaCheckResult" where
  "checkCustomContextQuota =
     quota_check sq_maxCustomContextBytesPerJob ''custom_context_ingest'' MaxIngestBytesPerJob ''custom_context_quota_exceeded''"

section \<open>Lemmas\<close>

lemma clone_fields:
  "foldl (\<lambda>out k. case b k of None \<Rightarrow> out | Some v \<Rightarrow> out(k := Some v)) m ks f =
     (if f \<in> set ks \<and> b f \<noteq> None then b f else m f)"
  by (induction ks arbitrary: m) (auto split: option.split)

lemma all_fields: "k \<in> set POSITIVE_INTEGER_FIELDS"
  unfolding POSITIVE_INTEGER_FIELDS_def by (cases k) simp_all

lemma clone_role_budget [simp]: "cloneRoleBudget b = b"
  by (rule ext) (simp add: cloneRoleBudget_def clone_fields all_fields)

lemma map_of_clone_roles:
  "map_of (List.map_filter (\<lambda>r. map_option (\<lambda>b. (r, b)) (m r)) rs) k = (if k \<in> set rs then m k else None)"
  by (induction rs) (auto simp: List.map_filter_simps split: option.split)

lemma map_of_clone:
  "map_of (be_roles (cloneFinOpsBudgetEnvelope e)) k = (if k \<in> set ALLOWED_FINOPS_ROLES then map_of (be_roles e) k else None)"
  unfolding cloneFinOpsBudgetEnvelope_def by (simp add: map_of_clone_roles)

lemma clone_keys: "fst ` set (be_roles (cloneFinOpsBudgetEnvelope e)) \<subseteq> set ALLOWED_FINOPS_ROLES"
  using map_of_clone [of e] by (auto simp: dom_map_of_conv_image_fst [symmetric] split: if_splits)

lemma budget_issue_Nil [simp]: "budget_issue bad p m = [] \<longleftrightarrow> \<not> bad"
  by (simp add: budget_issue_def)

text \<open>Validation makes cloning lossless: an envelope that passes validation keeps every role budget and every other
  limit when it is cloned for a report, and the clone passes validation as well. An envelope with an
  unknown role fails validation.\<close>

theorem validated_envelope_survives_cloning:
  "(if fst (validateFinOpsBudgetEnvelope e)
    then map_of (be_roles (cloneFinOpsBudgetEnvelope e)) = map_of (be_roles e)
      \<and> (cloneFinOpsBudgetEnvelope e)\<lparr> be_roles := be_roles e \<rparr> = e
      \<and> fst (validateFinOpsBudgetEnvelope (cloneFinOpsBudgetEnvelope e))
    else True)
   \<and> (if list_ex (\<lambda>(role, b). role \<notin> set ALLOWED_FINOPS_ROLES) (be_roles e)
      then \<not> fst (validateFinOpsBudgetEnvelope e) else True)"
proof -
  let ?c = "cloneFinOpsBudgetEnvelope e"
  have rest: "be_budgetId ?c = be_budgetId e" "be_budgetVersion ?c = be_budgetVersion e"
    "be_maxJobWallClockMs ?c = be_maxJobWallClockMs e" "be_maxReplayCacheMissRate ?c = be_maxReplayCacheMissRate e"
    "be_maxEstimatedCost ?c = be_maxEstimatedCost e" "be_sourceQuotas ?c = be_sourceQuotas e"
    "?c\<lparr> be_roles := be_roles e \<rparr> = e"
    by (simp_all add: cloneFinOpsBudgetEnvelope_def)
  have known: "fst ` set (be_roles e) \<subseteq> set ALLOWED_FINOPS_ROLES" if "fst (validateFinOpsBudgetEnvelope e)"
    using that by (auto simp: validateFinOpsBudgetEnvelope_def Let_def split_beta)
  have same: "map_of (be_roles ?c) = map_of (be_roles e)" if "fst (validateFinOpsBudgetEnvelope e)"
  proof
    fix k
    show "map_of (be_roles ?c) k = map_of (be_roles e) k"
      using known [OF that] map_of_clone [of e k] by (cases "map_of (be_roles e) k") (force dest: map_of_SomeD)+
  qed
  have "fst (validateFinOpsBudgetEnvelope ?c)" if v: "fst (validateFinOpsBudgetEnvelope e)"
    using v clone_keys [of e] unfolding validateFinOpsBudgetEnvelope_def Let_def fst_conv rest same [OF v]
    by (auto simp: split_beta)
  then show ?thesis using same rest(7) known by (force simp: list_ex_iff)
qed

lemma builtin_envelopes_valid:
  "fst (validateFinOpsBudgetEnvelope DEFAULT_FINOPS_BUDGET_ENVELOPE)"
  "fst (validateFinOpsBudgetEnvelope EU_BANKING_DEFAULT_FINOPS_BUDGET)"
  "fst (validateFinOpsBudgetEnvelope PRODUCTION_FINOPS_BUDGET_ENVELOPE)"
  by code_simp+

text \<open>The wall-clock budget of test generation is refused exactly for counts that are no safe natural numbers.
  Otherwise its breakdown adds up, the formula is the sum capped by the ceiling, and only an explicit
  override can exceed the ceiling.\<close>

theorem wall_clock_budget_bounded:
  "case resolveTestGenerationWallClockBudget input of
     Inl e \<Rightarrow> \<not> list_all (\<lambda>n. isSafeInteger n \<and> \<not> js_less n 0)
       [rw_caseCount input, rw_judgePanelSize input, rw_adversarialRounds input]
   | Inr w \<Rightarrow>
       list_all (\<lambda>n. isSafeInteger n \<and> \<not> js_less n 0) [rw_caseCount input, rw_judgePanelSize input, rw_adversarialRounds input]
       \<and> wc_unclampedMs w = wp_baseMs (wc_coefficients w) + wc_caseMs w + wc_additionalJudgeMs w
           + wc_adversarialRoundMs w + wc_visualSidecarMs w
       \<and> wc_formulaMs w = min (wc_unclampedMs w) (wp_hardCeilingMs (wc_coefficients w))
       \<and> (if wc_mode w = ''elastic'' then wc_resolvedMs w \<le> wp_hardCeilingMs (wc_coefficients w)
          else wc_overrideMs w = Some (wc_resolvedMs w))"
  by (auto simp: resolveTestGenerationWallClockBudget_def resolveWallClockBudget_def unclamped_budget_def
      assertNonNegativeSafeInteger_def Let_def split: option.split)

end
