(* ===== verification/FinopsUsage.thy ===== *)
theory FinopsUsage
  imports FinopsBudget
begin

text \<open>
  The usage recorder of a job (\<^verbatim>\<open>createFinOpsUsageRecorder\<close> of
  \<^verbatim>\<open>packages/model-gateway/src/finops-report.ts\<close>) with the per-source accounting of
  \<^verbatim>\<open>per-source-cost.ts\<close>. Each recording function maps the recorder to its new state and the exception
  it raises, if any: some of them raise after they have already counted. The redaction of secrets is a
  parameter; sums of durations and costs are exact.
\<close>

section \<open>Numbers and labels\<close>

definition positiveOrZero :: "js_number option \<Rightarrow> rat" where
  "positiveOrZero v = (case v of Some (Fin q) \<Rightarrow> if q < 0 then 0 else q | _ \<Rightarrow> 0)"

definition safeIntPositiveOrZero :: "js_number option \<Rightarrow> int" where
  "safeIntPositiveOrZero v = \<lfloor>positiveOrZero v\<rfloor>"

definition ensureFinite :: "js_number \<Rightarrow> rat" where
  "ensureFinite v = number_value v"

definition MAX_REPORT_LABEL_LENGTH :: nat where
  "MAX_REPORT_LABEL_LENGTH = 160"

definition sanitizeReportString :: "(string \<Rightarrow> string) \<Rightarrow> string \<Rightarrow> string" where
  "sanitizeReportString redact s =
     (let redacted = js_trim (collapse_spaces (redact s))
      in if length redacted \<le> MAX_REPORT_LABEL_LENGTH then redacted
         else take MAX_REPORT_LABEL_LENGTH redacted @ ''...'')"

definition STATIC_AGENT_SOURCE_LABELS :: "string list" where
  "STATIC_AGENT_SOURCE_LABELS = [''manager'', ''judge_primary'', ''judge_secondary'', ''visual_primary'',
     ''visual_fallback'', ''generator'', ''requirements_synthesis'', ''coverage_planner'', ''risk_ranker'',
     ''adversarial_critic'', ''gap_finder'', ''repair_planner'', ''ir_mutation_oracle'']"

definition isAgentSourceLabel :: "string \<Rightarrow> bool" where
  "isAgentSourceLabel s \<longleftrightarrow> s \<in> set STATIC_AGENT_SOURCE_LABELS
     \<or> (case strip_prefix ''hook:'' s of None \<Rightarrow> False | Some rest \<Rightarrow> rest \<noteq> [])"

definition ALLOWED_FINOPS_BUDGET_BREACH_REASONS :: "string list" where
  "ALLOWED_FINOPS_BUDGET_BREACH_REASONS = [''max_input_tokens'', ''max_output_tokens'', ''max_wall_clock_ms'',
     ''max_retries'', ''max_attempts'', ''max_image_bytes'', ''max_total_input_tokens'', ''max_total_output_tokens'',
     ''max_total_wall_clock_ms'', ''max_replay_cache_miss_rate'', ''max_fallback_attempts'', ''max_live_smoke_calls'',
     ''max_estimated_cost'', ''jira_api_quota_exceeded'', ''jira_paste_quota_exceeded'', ''custom_context_quota_exceeded'']"

section \<open>Data\<close>

record FinOpsCostRate =
  cr_inputTokenCostPer1k :: "js_number option"
  cr_outputTokenCostPer1k :: "js_number option"
  cr_fixedCostPerAttempt :: "js_number option"

record FinOpsCostRateMap =
  rm_currencyLabel :: string
  rm_rates :: "(string \<times> FinOpsCostRate) list"

record LlmConstrainedDecodingMetadata =
  cm_adapterId :: string
  cm_enforcement :: string
  cm_fallback :: bool
  cm_fallbackReason :: "string option"
  cm_adapterVersion :: "string option"

text \<open>The fields of a gateway result that the recorder reads.\<close>

datatype attempt_outcome =
    Attempt_success string "js_number option" "js_number option"  \<comment> \<open>finish reason, input and output tokens\<close>
  | Attempt_error string  \<comment> \<open>error class\<close>

record attempt_result =
  ar_outcome :: attempt_outcome
  ar_constrainedDecoding :: "LlmConstrainedDecodingMetadata option"

datatype FinOpsAttributionMode = Primary | Audit

record FinOpsAttemptObservation =
  ob_role :: string
  ob_source :: "string option"
  ob_attemptId :: "string option"
  ob_deployment :: string
  ob_durationMs :: js_number
  ob_imageBytes :: "js_number option"
  ob_liveSmoke :: bool
  ob_fallback :: bool
  ob_circuitBreakerState :: "string option"
  ob_modelRevision :: "string option"
  ob_tierLabel :: "string option"
  ob_region :: "string option"
  ob_regionWarning :: bool
  ob_result :: attempt_result
  ob_attributionMode :: "FinOpsAttributionMode option"

record RoleAccumulator =
  ac_role :: string
  ac_deployment :: string
  ac_modelRevision :: "string option"
  ac_tierLabel :: "string option"
  ac_attempts :: int
  ac_successes :: int
  ac_failures :: int
  ac_inputTokens :: int
  ac_outputTokens :: int
  ac_imageBytes :: int
  ac_cacheHits :: int
  ac_cacheMisses :: int
  ac_fallbackAttempts :: int
  ac_liveSmokeCalls :: int
  ac_durationMs :: rat
  ac_ingestBytes :: int
  ac_lastFinishReason :: "string option"
  ac_lastErrorClass :: "string option"

record decoding_stats =
  dc_adapterId :: string
  dc_enforcement :: string
  dc_activeCallCount :: int
  dc_fallbackCallCount :: int
  dc_fallbackReasons :: "string list option"
  dc_adapterVersion :: "string option"

record region_stats =
  rn_distinctRegions :: "string list"
  rn_attestedCallCount :: int
  rn_warningCount :: int

record MutablePerSourceCostEntry =
  pe_costMinorUnits :: int
  pe_tokensIn :: int
  pe_tokensOut :: int
  pe_callCount :: int
  pe_inFlightDedupHits :: int
  pe_idempotentReplayHits :: int
  pe_attemptIds :: "string list option"
  pe_circuitBreakerStates :: "string list option"
  pe_deployment :: "string option"
  pe_modelRevision :: "string option"
  pe_tierLabel :: "string option"
  pe_constrainedDecoding :: "decoding_stats option"
  pe_regionAttestation :: "region_stats option"

text \<open>The message is present on breaches recorded explicitly; the texts of detected ones are left out.\<close>

record FinOpsBudgetBreach =
  fb_rule :: string
  fb_role :: "string option"
  fb_observed :: rat
  fb_threshold :: js_number
  fb_message :: "string option"

datatype finops_error =
    Unknown_role string
  | Unknown_source string
  | Unknown_rule string

text \<open>The closure of \<^verbatim>\<open>createFinOpsUsageRecorder\<close>; the map of sources keeps its insertion order.\<close>

record finops_recorder =
  rc_accumulators :: "string \<Rightarrow> RoleAccumulator"
  rc_sources :: "(string \<times> MutablePerSourceCostEntry) list"
  rc_explicitBreaches :: "FinOpsBudgetBreach list"

record finops_env =
  fe_redact :: "string \<Rightarrow> string"
  fe_costRates :: "FinOpsCostRateMap option"

section \<open>Per-source accounting\<close>

definition createEmptyPerSourceCostEntry :: MutablePerSourceCostEntry where
  "createEmptyPerSourceCostEntry =
     \<lparr> pe_costMinorUnits = 0, pe_tokensIn = 0, pe_tokensOut = 0, pe_callCount = 0, pe_inFlightDedupHits = 0,
       pe_idempotentReplayHits = 0, pe_attemptIds = None, pe_circuitBreakerStates = None, pe_deployment = None,
       pe_modelRevision = None, pe_tierLabel = None, pe_constrainedDecoding = None, pe_regionAttestation = None \<rparr>"

definition estimatedCostToMinorUnits :: "rat \<Rightarrow> int" where
  "estimatedCostToMinorUnits estimatedCost = \<lfloor>js_round6 estimatedCost * 100 + 1 / 2\<rfloor>"

text \<open>\<^verbatim>\<open>(in / 1000) * inRate + (out / 1000) * outRate + calls * fixed\<close>\<close>

definition rated_cost :: "FinOpsCostRate \<Rightarrow> int \<Rightarrow> int \<Rightarrow> int \<Rightarrow> rat" where
  "rated_cost rate inputTokens outputTokens calls =
     (of_int inputTokens / 1000) * positiveOrZero (cr_inputTokenCostPer1k rate)
     + (of_int outputTokens / 1000) * positiveOrZero (cr_outputTokenCostPer1k rate)
     + of_int calls * positiveOrZero (cr_fixedCostPerAttempt rate)"

definition computePerSourceCostMinorUnits :: "int \<Rightarrow> int \<Rightarrow> int \<Rightarrow> FinOpsCostRate option \<Rightarrow> int" where
  "computePerSourceCostMinorUnits inputTokens outputTokens callCount rate =
     (case rate of None \<Rightarrow> 0 | Some r \<Rightarrow> estimatedCostToMinorUnits (rated_cost r inputTokens outputTokens callCount))"

record per_source_attempt =
  ps_rate :: "FinOpsCostRate option"
  ps_inputTokens :: "js_number option"
  ps_outputTokens :: "js_number option"
  ps_attemptId :: "string option"
  ps_circuitBreakerState :: "string option"
  ps_deployment :: "string option"
  ps_modelRevision :: "string option"
  ps_tierLabel :: "string option"
  ps_constrainedDecoding :: "LlmConstrainedDecodingMetadata option"
  ps_region :: "string option"
  ps_regionWarning :: bool

definition non_empty :: "string option \<Rightarrow> string option \<Rightarrow> string option" where
  "non_empty new old = (case new of Some s \<Rightarrow> if s \<noteq> [] then Some s else old | None \<Rightarrow> old)"

definition add_sorted :: "string \<Rightarrow> string list \<Rightarrow> string list" where
  "add_sorted s ids = (if s \<in> set ids then ids else js_sort (ids @ [s]))"

definition note_decoding :: "LlmConstrainedDecodingMetadata \<Rightarrow> decoding_stats option \<Rightarrow> decoding_stats" where
  "note_decoding m old =
     (let current = (case old of
          Some d \<Rightarrow> d\<lparr> dc_adapterId := cm_adapterId m, dc_enforcement := cm_enforcement m \<rparr>
        | None \<Rightarrow> \<lparr> dc_adapterId = cm_adapterId m, dc_enforcement = cm_enforcement m, dc_activeCallCount = 0,
            dc_fallbackCallCount = 0, dc_fallbackReasons = None, dc_adapterVersion = None \<rparr>);
          counted = (if cm_fallback m
            then current\<lparr> dc_fallbackCallCount := dc_fallbackCallCount current + 1,
                   dc_fallbackReasons := (case cm_fallbackReason m of
                       None \<Rightarrow> dc_fallbackReasons current
                     | Some r \<Rightarrow> if r = [] then dc_fallbackReasons current
                         else Some (add_sorted r (case dc_fallbackReasons current of None \<Rightarrow> [] | Some rs \<Rightarrow> rs))) \<rparr>
            else current\<lparr> dc_activeCallCount := dc_activeCallCount current + 1 \<rparr>)
      in counted\<lparr> dc_adapterVersion := non_empty (cm_adapterVersion m) (dc_adapterVersion counted) \<rparr>)"

definition note_region :: "string \<Rightarrow> bool \<Rightarrow> region_stats option \<Rightarrow> region_stats" where
  "note_region region warning old =
     (let current = (case old of Some r \<Rightarrow> r
        | None \<Rightarrow> \<lparr> rn_distinctRegions = [], rn_attestedCallCount = 0, rn_warningCount = 0 \<rparr>)
      in \<lparr> rn_distinctRegions = set_add region (rn_distinctRegions current),
           rn_attestedCallCount = rn_attestedCallCount current + 1,
           rn_warningCount = rn_warningCount current + (if warning then 1 else 0) \<rparr>)"

definition recordPerSourceAttempt :: "per_source_attempt \<Rightarrow> MutablePerSourceCostEntry \<Rightarrow> MutablePerSourceCostEntry" where
  "recordPerSourceAttempt i acc =
     (let callCount = pe_callCount acc + 1;
          tokensIn = pe_tokensIn acc + safeIntPositiveOrZero (ps_inputTokens i);
          tokensOut = pe_tokensOut acc + safeIntPositiveOrZero (ps_outputTokens i)
      in acc\<lparr> pe_callCount := callCount, pe_tokensIn := tokensIn, pe_tokensOut := tokensOut,
           pe_costMinorUnits := computePerSourceCostMinorUnits tokensIn tokensOut callCount (ps_rate i),
           pe_attemptIds := (case ps_attemptId i of
               None \<Rightarrow> pe_attemptIds acc
             | Some a \<Rightarrow> if a = [] then pe_attemptIds acc
                 else Some (add_sorted a (case pe_attemptIds acc of None \<Rightarrow> [] | Some ids \<Rightarrow> ids))),
           pe_circuitBreakerStates := (case ps_circuitBreakerState i of
               None \<Rightarrow> pe_circuitBreakerStates acc
             | Some s \<Rightarrow> Some ((case pe_circuitBreakerStates acc of None \<Rightarrow> [] | Some ss \<Rightarrow> ss) @ [s])),
           pe_deployment := non_empty (ps_deployment i) (pe_deployment acc),
           pe_modelRevision := non_empty (ps_modelRevision i) (pe_modelRevision acc),
           pe_tierLabel := (case ps_tierLabel i of None \<Rightarrow> pe_tierLabel acc | Some t \<Rightarrow> Some t),
           pe_constrainedDecoding := (case ps_constrainedDecoding i of
               None \<Rightarrow> pe_constrainedDecoding acc | Some m \<Rightarrow> Some (note_decoding m (pe_constrainedDecoding acc))),
           pe_regionAttestation := (case ps_region i of
               None \<Rightarrow> pe_regionAttestation acc
             | Some r \<Rightarrow> Some (note_region r (ps_regionWarning i) (pe_regionAttestation acc))) \<rparr>)"

definition recordPerSourceReplayHit :: "MutablePerSourceCostEntry \<Rightarrow> MutablePerSourceCostEntry" where
  "recordPerSourceReplayHit acc = acc\<lparr> pe_idempotentReplayHits := pe_idempotentReplayHits acc + 1 \<rparr>"

definition recordPerSourceInFlightDedupHit :: "MutablePerSourceCostEntry \<Rightarrow> MutablePerSourceCostEntry" where
  "recordPerSourceInFlightDedupHit acc = acc\<lparr> pe_inFlightDedupHits := pe_inFlightDedupHits acc + 1 \<rparr>"

section \<open>The recorder\<close>

definition createRoleAccumulator :: "string \<Rightarrow> RoleAccumulator" where
  "createRoleAccumulator role =
     \<lparr> ac_role = role, ac_deployment = [], ac_modelRevision = None, ac_tierLabel = None, ac_attempts = 0, ac_successes = 0,
       ac_failures = 0, ac_inputTokens = 0, ac_outputTokens = 0, ac_imageBytes = 0, ac_cacheHits = 0, ac_cacheMisses = 0,
       ac_fallbackAttempts = 0, ac_liveSmokeCalls = 0, ac_durationMs = 0, ac_ingestBytes = 0, ac_lastFinishReason = None,
       ac_lastErrorClass = None \<rparr>"

definition createFinOpsUsageRecorder :: finops_recorder where
  "createFinOpsUsageRecorder =
     \<lparr> rc_accumulators = createRoleAccumulator, rc_sources = [], rc_explicitBreaches = [] \<rparr>"

definition with_role :: "string \<Rightarrow> (RoleAccumulator \<Rightarrow> RoleAccumulator) \<Rightarrow> finops_recorder \<Rightarrow> finops_recorder" where
  "with_role role f st = st\<lparr> rc_accumulators := (rc_accumulators st)(role := f (rc_accumulators st role)) \<rparr>"

definition sourceAccumulatorFor :: "string \<Rightarrow> finops_recorder \<Rightarrow> MutablePerSourceCostEntry" where
  "sourceAccumulatorFor source st =
     (case map_of (rc_sources st) source of None \<Rightarrow> createEmptyPerSourceCostEntry | Some e \<Rightarrow> e)"

definition with_source ::
  "string \<Rightarrow> (MutablePerSourceCostEntry \<Rightarrow> MutablePerSourceCostEntry) \<Rightarrow> finops_recorder \<Rightarrow> finops_recorder" where
  "with_source source f st =
     st\<lparr> rc_sources := AList.update source (f (sourceAccumulatorFor source st)) (rc_sources st) \<rparr>"

definition set_metadata ::
  "finops_env \<Rightarrow> string option \<Rightarrow> string option \<Rightarrow> string option \<Rightarrow> RoleAccumulator \<Rightarrow> RoleAccumulator" where
  "set_metadata env deployment modelRevision tierLabel acc =
     acc\<lparr> ac_deployment := (case deployment of
             Some d \<Rightarrow> if d \<noteq> [] then sanitizeReportString (fe_redact env) d else ac_deployment acc
           | None \<Rightarrow> ac_deployment acc),
          ac_modelRevision := (case modelRevision of
             Some m \<Rightarrow> if m \<noteq> [] then Some (sanitizeReportString (fe_redact env) m) else ac_modelRevision acc
           | None \<Rightarrow> ac_modelRevision acc),
          ac_tierLabel := (case tierLabel of Some t \<Rightarrow> Some t | None \<Rightarrow> ac_tierLabel acc) \<rparr>"

definition count_primary :: "FinOpsAttemptObservation \<Rightarrow> RoleAccumulator \<Rightarrow> RoleAccumulator" where
  "count_primary ob acc =
     (let base = acc\<lparr> ac_attempts := ac_attempts acc + 1,
          ac_durationMs := ac_durationMs acc + positiveOrZero (Some (ob_durationMs ob)),
          ac_imageBytes := ac_imageBytes acc + safeIntPositiveOrZero (ob_imageBytes ob),
          ac_fallbackAttempts := ac_fallbackAttempts acc + (if ob_fallback ob then 1 else 0),
          ac_liveSmokeCalls := ac_liveSmokeCalls acc + (if ob_liveSmoke ob then 1 else 0) \<rparr>
      in case ar_outcome (ob_result ob) of
           Attempt_success finishReason inputTokens outputTokens \<Rightarrow>
             base\<lparr> ac_successes := ac_successes base + 1,
               ac_inputTokens := ac_inputTokens base + safeIntPositiveOrZero inputTokens,
               ac_outputTokens := ac_outputTokens base + safeIntPositiveOrZero outputTokens,
               ac_lastFinishReason := Some finishReason \<rparr>
         | Attempt_error errorClass \<Rightarrow>
             base\<lparr> ac_failures := ac_failures base + 1, ac_lastErrorClass := Some errorClass \<rparr>)"

definition rate_of :: "finops_env \<Rightarrow> string \<Rightarrow> FinOpsCostRate option" where
  "rate_of env role = Option.bind (fe_costRates env) (\<lambda>m. map_of (rm_rates m) role)"

definition source_attempt :: "finops_env \<Rightarrow> FinOpsAttemptObservation \<Rightarrow> per_source_attempt" where
  "source_attempt env ob =
     \<lparr> ps_rate = rate_of env (ob_role ob),
       ps_inputTokens = (case ar_outcome (ob_result ob) of Attempt_success _ i _ \<Rightarrow> i | Attempt_error _ \<Rightarrow> None),
       ps_outputTokens = (case ar_outcome (ob_result ob) of Attempt_success _ _ out \<Rightarrow> out | Attempt_error _ \<Rightarrow> None),
       ps_attemptId = ob_attemptId ob, ps_circuitBreakerState = ob_circuitBreakerState ob,
       ps_deployment = Some (ob_deployment ob), ps_modelRevision = ob_modelRevision ob, ps_tierLabel = ob_tierLabel ob,
       ps_constrainedDecoding = ar_constrainedDecoding (ob_result ob), ps_region = ob_region ob,
       ps_regionWarning = ob_regionWarning ob \<rparr>"

definition recordAttempt ::
  "finops_env \<Rightarrow> FinOpsAttemptObservation \<Rightarrow> finops_recorder \<Rightarrow> finops_recorder \<times> finops_error option" where
  "recordAttempt env ob st =
     (if ob_role ob \<notin> set ALLOWED_FINOPS_ROLES then (st, Some (Unknown_role (ob_role ob)))
      else
        let described = with_role (ob_role ob)
              (set_metadata env (Some (ob_deployment ob)) (ob_modelRevision ob) (ob_tierLabel ob)) st;
            counted = (if ob_attributionMode ob = Some Audit then described
                       else with_role (ob_role ob) (count_primary ob) described)
        in case ob_source ob of
             None \<Rightarrow> (counted, None)
           | Some source \<Rightarrow>
               if \<not> isAgentSourceLabel source then (counted, Some (Unknown_source source))
               else (with_source source (recordPerSourceAttempt (source_attempt env ob)) counted, None))"

definition recordCircuitBreakerDecision ::
  "string \<Rightarrow> string \<Rightarrow> string option \<Rightarrow> finops_recorder \<Rightarrow> finops_recorder \<times> finops_error option" where
  "recordCircuitBreakerDecision source circuitBreakerState deployment st =
     (if \<not> isAgentSourceLabel source then (st, Some (Unknown_source source))
      else (with_source source (\<lambda>acc.
              (recordPerSourceAttempt
                 \<lparr> ps_rate = None, ps_inputTokens = None, ps_outputTokens = None, ps_attemptId = None,
                   ps_circuitBreakerState = Some circuitBreakerState, ps_deployment = deployment, ps_modelRevision = None,
                   ps_tierLabel = None, ps_constrainedDecoding = None, ps_region = None, ps_regionWarning = False \<rparr> acc)
              \<lparr> pe_callCount := 0, pe_costMinorUnits := 0 \<rparr>) st, None))"

definition recordCacheHit ::
  "finops_env \<Rightarrow> string \<Rightarrow> string option \<Rightarrow> string option \<Rightarrow> finops_recorder \<Rightarrow> finops_recorder \<times> finops_error option" where
  "recordCacheHit env role source deployment st =
     (if role \<notin> set ALLOWED_FINOPS_ROLES then (st, Some (Unknown_role role))
      else
        let counted = with_role role (\<lambda>acc. acc\<lparr> ac_cacheHits := ac_cacheHits acc + 1,
              ac_deployment := (case deployment of
                  Some d \<Rightarrow> if ac_deployment acc = [] \<and> d \<noteq> [] then sanitizeReportString (fe_redact env) d else ac_deployment acc
                | None \<Rightarrow> ac_deployment acc) \<rparr>) st
        in case source of
             None \<Rightarrow> (counted, None)
           | Some s \<Rightarrow>
               if \<not> isAgentSourceLabel s then (counted, Some (Unknown_source s))
               else (with_source s recordPerSourceReplayHit counted, None))"

definition recordCacheMiss :: "string \<Rightarrow> finops_recorder \<Rightarrow> finops_recorder \<times> finops_error option" where
  "recordCacheMiss role st =
     (if role \<notin> set ALLOWED_FINOPS_ROLES then (st, Some (Unknown_role role))
      else (with_role role (\<lambda>acc. acc\<lparr> ac_cacheMisses := ac_cacheMisses acc + 1 \<rparr>) st, None))"

definition recordInFlightDedupHit :: "string \<Rightarrow> finops_recorder \<Rightarrow> finops_recorder \<times> finops_error option" where
  "recordInFlightDedupHit source st =
     (if \<not> isAgentSourceLabel source then (st, Some (Unknown_source source))
      else (with_source source recordPerSourceInFlightDedupHit st, None))"

definition recordRoleMetadata ::
  "finops_env \<Rightarrow> string \<Rightarrow> string option \<Rightarrow> string option \<Rightarrow> string option \<Rightarrow> finops_recorder \<Rightarrow>
   finops_recorder \<times> finops_error option" where
  "recordRoleMetadata env role deployment modelRevision tierLabel st =
     (if role \<notin> set ALLOWED_FINOPS_ROLES then (st, Some (Unknown_role role))
      else (with_role role (set_metadata env deployment modelRevision tierLabel) st, None))"

definition recordSourceMetadata ::
  "finops_env \<Rightarrow> string \<Rightarrow> string option \<Rightarrow> string option \<Rightarrow> string option \<Rightarrow> finops_recorder \<Rightarrow>
   finops_recorder \<times> finops_error option" where
  "recordSourceMetadata env source deployment modelRevision tierLabel st =
     (if \<not> isAgentSourceLabel source then (st, Some (Unknown_source source))
      else (with_source source (\<lambda>acc. acc\<lparr>
              pe_deployment := (case deployment of
                  Some d \<Rightarrow> if d \<noteq> [] then Some (sanitizeReportString (fe_redact env) d) else pe_deployment acc
                | None \<Rightarrow> pe_deployment acc),
              pe_modelRevision := (case modelRevision of
                  Some m \<Rightarrow> if m \<noteq> [] then Some (sanitizeReportString (fe_redact env) m) else pe_modelRevision acc
                | None \<Rightarrow> pe_modelRevision acc),
              pe_tierLabel := (case tierLabel of Some t \<Rightarrow> Some t | None \<Rightarrow> pe_tierLabel acc) \<rparr>) st, None))"

definition recordBudgetBreach ::
  "finops_env \<Rightarrow> string \<Rightarrow> string option \<Rightarrow> js_number \<Rightarrow> js_number \<Rightarrow> string \<Rightarrow> finops_recorder \<Rightarrow>
   finops_recorder \<times> finops_error option" where
  "recordBudgetBreach env rule role observed threshold message st =
     (if rule \<notin> set ALLOWED_FINOPS_BUDGET_BREACH_REASONS then (st, Some (Unknown_rule rule))
      else case role of
          Some r \<Rightarrow> if r \<notin> set ALLOWED_FINOPS_ROLES then (st, Some (Unknown_role r))
            else (st\<lparr> rc_explicitBreaches := rc_explicitBreaches st @
              [\<lparr> fb_rule = rule, fb_role = Some r, fb_observed = ensureFinite observed,
                 fb_threshold = Fin (ensureFinite threshold),
                 fb_message = Some (sanitizeReportString (fe_redact env) message) \<rparr>] \<rparr>, None)
        | None \<Rightarrow> (st\<lparr> rc_explicitBreaches := rc_explicitBreaches st @
              [\<lparr> fb_rule = rule, fb_role = None, fb_observed = ensureFinite observed,
                 fb_threshold = Fin (ensureFinite threshold),
                 fb_message = Some (sanitizeReportString (fe_redact env) message) \<rparr>] \<rparr>, None))"

definition recordIngestBytes :: "string \<Rightarrow> js_number \<Rightarrow> finops_recorder \<Rightarrow> finops_recorder \<times> finops_error option" where
  "recordIngestBytes role bytes st =
     (if role \<notin> set ALLOWED_FINOPS_ROLES then (st, Some (Unknown_role role))
      else (with_role role (\<lambda>acc. acc\<lparr> ac_ingestBytes := ac_ingestBytes acc + safeIntPositiveOrZero (Some bytes) \<rparr>) st, None))"

end
