(* ===== verification/FinopsReport.thy ===== *)
theory FinopsReport
  imports FinopsUsage "HOL-Library.Product_Lexorder"
begin

text \<open>
  The budget report of a job (\<^verbatim>\<open>buildFinOpsBudgetReport\<close> of
  \<^verbatim>\<open>packages/model-gateway/src/finops-report.ts\<close>) and the sealed breakdown per source of
  \<^verbatim>\<open>per-source-cost.ts\<close>: the snapshot of the recorder, the totals, the breaches and their order, the
  audits of Figma inputs and the outcome. Quotients and sums are exact. The texts of detected breaches
  and the schema constants of the report are left out.
\<close>

section \<open>Data\<close>

record FinOpsRoleUsage = RoleAccumulator +
  ru_estimatedCost :: rat

record finops_totals =
  ft_inputTokens :: int
  ft_outputTokens :: int
  ft_attempts :: int
  ft_successes :: int
  ft_failures :: int
  ft_cacheHits :: int
  ft_cacheMisses :: int
  ft_fallbackAttempts :: int
  ft_liveSmokeCalls :: int
  ft_durationMs :: rat
  ft_imageBytes :: int
  ft_estimatedCost :: rat
  ft_replayCacheHitRate :: rat
  ft_replayCacheMissRate :: rat
  ft_promptCacheHitRate :: rat
  ft_promptCacheMissRate :: rat

record source_total =
  st_costMinorUnits :: int
  st_callCount :: int

record PerSourceCostBreakdown =
  sb_jobId :: string
  sb_bySource :: "(string \<times> MutablePerSourceCostEntry) list"
  sb_total :: source_total
  sb_sealedAt :: string

record figma_payload_audit =
  fp_resolvedCapBytes :: js_number
  fp_actualBytes :: js_number
  fp_defaultCapBytes :: js_number
  fp_ceilingBytes :: js_number
  fp_overrideApplied :: bool

record SnapshotVaultProvenanceSummary =
  sv_sourceKind :: string
  sv_snapshotIdHash :: string
  sv_snapshotDigest :: string
  sv_nodeIndexDigest :: string
  sv_importStatusDigest :: string
  sv_previewManifestDigest :: "string option"
  sv_fileKeyHash :: string
  sv_sourceUrlHash :: string
  sv_importedAt :: string
  sv_importStrategy :: string
  sv_scopeDigestAlgorithm :: string
  sv_scopeDigest :: string
  sv_selectedNodeCount :: js_number
  sv_selectedPageCount :: js_number
  sv_selectedFrameCount :: js_number
  sv_selectedNodeRefHashes :: "string list"
  sv_selectedPageRefHashes :: "string list"
  sv_selectedFrameRefHashes :: "string list"

record FigmaSourceAuditSummary =
  fs_acquisitionMode :: string
  fs_liveFigmaRestCallCount :: js_number
  fs_avoidedLiveFigmaRestCallCount :: js_number
  fs_snapshotReuse :: bool
  fs_snapshotVault :: "SnapshotVaultProvenanceSummary option"

datatype report_error =
    Empty_jobId
  | Empty_generatedAt
  | Bad_count string string  \<comment> \<open>context and field\<close>
  | Bad_acquisition_mode
  | Missing_provenance
  | Unexpected_provenance
  | Bad_vault_metadata
  | Count_mismatch
  | Bad_digest string
  | Bad_digest_list string

record BuildFinOpsBudgetReportInput =
  bf_jobId :: string
  bf_generatedAt :: string
  bf_budget :: FinOpsBudgetEnvelope
  bf_recorder :: finops_recorder
  bf_resolvedBudget :: "ResolvedFinOpsWallClockBudget option"
  bf_costRates :: "FinOpsCostRateMap option"
  bf_outcomeOverride :: "string option"
  bf_figmaPayload :: "figma_payload_audit option"
  bf_figmaSourceAudit :: "FigmaSourceAuditSummary option"

record FinOpsBudgetReport =
  fr_jobId :: string
  fr_generatedAt :: string
  fr_budget :: FinOpsBudgetEnvelope
  fr_resolvedBudget :: "ResolvedFinOpsWallClockBudget option"
  fr_currencyLabel :: "string option"
  fr_roles :: "FinOpsRoleUsage list"
  fr_bySource :: "(string \<times> MutablePerSourceCostEntry) list"
  fr_bySourceTotal :: source_total
  fr_bySourceSealedAt :: string
  fr_regionAttestation :: "region_stats option"
  fr_figmaPayload :: "figma_payload_audit option"
  fr_figmaSourceAudit :: "FigmaSourceAuditSummary option"
  fr_totals :: finops_totals
  fr_breaches :: "FinOpsBudgetBreach list"
  fr_outcome :: string

section \<open>Audits of Figma inputs\<close>

text \<open>The first check that fails raises.\<close>

fun first_failure :: "(bool \<times> report_error) list \<Rightarrow> report_error option" where
  "first_failure [] = None"
| "first_failure ((bad, e) # rest) = (if bad then Some e else first_failure rest)"

definition bad_count :: "string \<Rightarrow> string \<Rightarrow> js_number \<Rightarrow> bool \<times> report_error" where
  "bad_count context_name field v = (\<not> isSafeInteger v \<or> js_less v 0, Bad_count context_name field)"

definition sha256_hex :: "string \<Rightarrow> bool" where
  "sha256_hex s \<longleftrightarrow> length s = 64 \<and> list_all (\<lambda>c. c \<in> set ''0123456789abcdef'') s"

definition bad_digest :: "string \<Rightarrow> string \<Rightarrow> bool \<times> report_error" where
  "bad_digest field v = (\<not> sha256_hex v, Bad_digest field)"

definition bad_digest_list :: "string \<Rightarrow> string list \<Rightarrow> bool \<times> report_error" where
  "bad_digest_list field vs = (\<not> list_all sha256_hex vs, Bad_digest_list field)"

definition sanitizeFigmaPayloadAudit :: "figma_payload_audit \<Rightarrow> report_error + figma_payload_audit" where
  "sanitizeFigmaPayloadAudit p =
     (case first_failure
        [bad_count ''figmaPayload'' ''resolvedCapBytes'' (fp_resolvedCapBytes p),
         bad_count ''figmaPayload'' ''actualBytes'' (fp_actualBytes p),
         bad_count ''figmaPayload'' ''defaultCapBytes'' (fp_defaultCapBytes p),
         bad_count ''figmaPayload'' ''ceilingBytes'' (fp_ceilingBytes p)] of
        Some e \<Rightarrow> Inl e | None \<Rightarrow> Inr p)"

definition ref_count_differs :: "js_number \<Rightarrow> string list \<Rightarrow> bool" where
  "ref_count_differs n refs \<longleftrightarrow> n \<noteq> Fin (of_nat (length refs))"

definition vault_shape_checks :: "SnapshotVaultProvenanceSummary \<Rightarrow> (bool \<times> report_error) list" where
  "vault_shape_checks v =
     [(sv_sourceKind v \<noteq> ''figma_snapshot_vault'' \<or> sv_scopeDigestAlgorithm v \<noteq> ''sha256_canonical_selection_v1''
         \<or> sv_importedAt v = [] \<or> sv_importStrategy v = [], Bad_vault_metadata),
      (ref_count_differs (sv_selectedNodeCount v) (sv_selectedNodeRefHashes v)
         \<or> ref_count_differs (sv_selectedPageCount v) (sv_selectedPageRefHashes v)
         \<or> ref_count_differs (sv_selectedFrameCount v) (sv_selectedFrameRefHashes v), Count_mismatch)]"

definition vault_value_checks :: "SnapshotVaultProvenanceSummary \<Rightarrow> (bool \<times> report_error) list" where
  "vault_value_checks v =
     [bad_digest ''snapshotIdHash'' (sv_snapshotIdHash v), bad_digest ''snapshotDigest'' (sv_snapshotDigest v),
      bad_digest ''nodeIndexDigest'' (sv_nodeIndexDigest v), bad_digest ''importStatusDigest'' (sv_importStatusDigest v)]
     @ (case sv_previewManifestDigest v of None \<Rightarrow> [] | Some d \<Rightarrow> [bad_digest ''previewManifestDigest'' d])
     @ [bad_digest ''fileKeyHash'' (sv_fileKeyHash v), bad_digest ''sourceUrlHash'' (sv_sourceUrlHash v),
        bad_digest ''scopeDigest'' (sv_scopeDigest v),
        bad_count ''figmaSourceAudit.snapshotVault'' ''selectedNodeCount'' (sv_selectedNodeCount v),
        bad_count ''figmaSourceAudit.snapshotVault'' ''selectedPageCount'' (sv_selectedPageCount v),
        bad_count ''figmaSourceAudit.snapshotVault'' ''selectedFrameCount'' (sv_selectedFrameCount v),
        bad_digest_list ''selectedNodeRefHashes'' (sv_selectedNodeRefHashes v),
        bad_digest_list ''selectedPageRefHashes'' (sv_selectedPageRefHashes v),
        bad_digest_list ''selectedFrameRefHashes'' (sv_selectedFrameRefHashes v)]"

definition sanitizeFigmaSourceAudit :: "FigmaSourceAuditSummary \<Rightarrow> report_error + FigmaSourceAuditSummary" where
  "sanitizeFigmaSourceAudit a =
     (let vault = fs_snapshotVault a; mode = fs_acquisitionMode a in
      case first_failure
        ([(mode \<notin> set [''live_figma_url'', ''snapshot_vault'', ''offline_figma_payload''], Bad_acquisition_mode),
          (mode = ''snapshot_vault'' \<and> (\<not> fs_snapshotReuse a \<or> vault = None), Missing_provenance),
          (mode \<noteq> ''snapshot_vault'' \<and> (fs_snapshotReuse a \<or> vault \<noteq> None), Unexpected_provenance)]
         @ (case vault of None \<Rightarrow> [] | Some v \<Rightarrow> vault_shape_checks v)
         @ [bad_count ''figmaSourceAudit'' ''liveFigmaRestCallCount'' (fs_liveFigmaRestCallCount a),
            bad_count ''figmaSourceAudit'' ''avoidedLiveFigmaRestCallCount'' (fs_avoidedLiveFigmaRestCallCount a)]
         @ (case vault of None \<Rightarrow> [] | Some v \<Rightarrow> vault_value_checks v)) of
        Some e \<Rightarrow> Inl e | None \<Rightarrow> Inr a)"

section \<open>Snapshots of the recorder\<close>

definition computeRoleCost :: "RoleAccumulator \<Rightarrow> FinOpsCostRate option \<Rightarrow> rat" where
  "computeRoleCost acc rate =
     (case rate of None \<Rightarrow> 0
      | Some r \<Rightarrow> js_round6 (rated_cost r (ac_inputTokens acc) (ac_outputTokens acc) (ac_attempts acc)))"

definition finalizeAccumulator :: "RoleAccumulator \<Rightarrow> FinOpsCostRate option \<Rightarrow> FinOpsRoleUsage" where
  "finalizeAccumulator acc rate =
     \<lparr> ac_role = ac_role acc, ac_deployment = ac_deployment acc, ac_modelRevision = ac_modelRevision acc,
       ac_tierLabel = ac_tierLabel acc, ac_attempts = ac_attempts acc, ac_successes = ac_successes acc,
       ac_failures = ac_failures acc, ac_inputTokens = ac_inputTokens acc, ac_outputTokens = ac_outputTokens acc,
       ac_imageBytes = ac_imageBytes acc, ac_cacheHits = ac_cacheHits acc, ac_cacheMisses = ac_cacheMisses acc,
       ac_fallbackAttempts = ac_fallbackAttempts acc, ac_liveSmokeCalls = ac_liveSmokeCalls acc,
       ac_durationMs = ac_durationMs acc, ac_ingestBytes = ac_ingestBytes acc, ac_lastFinishReason = ac_lastFinishReason acc,
       ac_lastErrorClass = ac_lastErrorClass acc, ru_estimatedCost = computeRoleCost acc rate \<rparr>"

text \<open>The rates are those the recorder was created with.\<close>

definition usage_snapshot :: "finops_env \<Rightarrow> finops_recorder \<Rightarrow> FinOpsRoleUsage list" where
  "usage_snapshot env st =
     map (\<lambda>role. finalizeAccumulator (rc_accumulators st role) (rate_of env role)) ALLOWED_FINOPS_ROLES"

definition unless_empty :: "'a list option \<Rightarrow> 'a list option" where
  "unless_empty v = (case v of Some (x # xs) \<Rightarrow> Some (x # xs) | _ \<Rightarrow> None)"

definition sealed_entry :: "MutablePerSourceCostEntry \<Rightarrow> MutablePerSourceCostEntry" where
  "sealed_entry entry = entry\<lparr>
     pe_attemptIds := unless_empty (pe_attemptIds entry),
     pe_circuitBreakerStates := unless_empty (pe_circuitBreakerStates entry),
     pe_deployment := unless_empty (pe_deployment entry),
     pe_modelRevision := unless_empty (pe_modelRevision entry),
     pe_constrainedDecoding := map_option (\<lambda>d. d\<lparr> dc_fallbackReasons := unless_empty (dc_fallbackReasons d) \<rparr>)
       (pe_constrainedDecoding entry),
     pe_regionAttestation := map_option (\<lambda>r. r\<lparr> rn_distinctRegions := js_sort (rn_distinctRegions r) \<rparr>)
       (pe_regionAttestation entry) \<rparr>"

definition finalizePerSourceCostBreakdown ::
  "string \<Rightarrow> string \<Rightarrow> (string \<times> MutablePerSourceCostEntry) list \<Rightarrow> PerSourceCostBreakdown" where
  "finalizePerSourceCostBreakdown jobId sealedAt entries =
     (let orderedLabels = js_sort (js_set (STATIC_AGENT_SOURCE_LABELS @ map fst entries));
          entry_of = (\<lambda>label. case map_of entries label of Some e \<Rightarrow> e | None \<Rightarrow> createEmptyPerSourceCostEntry)
      in \<lparr> sb_jobId = jobId,
           sb_bySource = map (\<lambda>label. (label, sealed_entry (entry_of label))) orderedLabels,
           sb_total = \<lparr> st_costMinorUnits = sum_list (map (\<lambda>label. pe_costMinorUnits (entry_of label)) orderedLabels),
                        st_callCount = sum_list (map (\<lambda>label. pe_callCount (entry_of label)) orderedLabels) \<rparr>,
           sb_sealedAt = sealedAt \<rparr>)"

section \<open>Totals, breaches and outcome\<close>

definition replay_rate :: "int \<Rightarrow> int \<Rightarrow> rat" where
  "replay_rate part lookups =
     js_round6 (min 1 (max 0 (if lookups = 0 then 0 else of_int part / of_int lookups)))"

definition aggregateTotals :: "FinOpsRoleUsage list \<Rightarrow> finops_totals" where
  "aggregateTotals usages =
     (let hits = sum_list (map ac_cacheHits usages); misses = sum_list (map ac_cacheMisses usages)
      in \<lparr> ft_inputTokens = sum_list (map ac_inputTokens usages), ft_outputTokens = sum_list (map ac_outputTokens usages),
           ft_attempts = sum_list (map ac_attempts usages), ft_successes = sum_list (map ac_successes usages),
           ft_failures = sum_list (map ac_failures usages), ft_cacheHits = hits, ft_cacheMisses = misses,
           ft_fallbackAttempts = sum_list (map ac_fallbackAttempts usages),
           ft_liveSmokeCalls = sum_list (map ac_liveSmokeCalls usages), ft_durationMs = sum_list (map ac_durationMs usages),
           ft_imageBytes = sum_list (map ac_imageBytes usages),
           ft_estimatedCost = js_round6 (sum_list (map ru_estimatedCost usages)),
           ft_replayCacheHitRate = replay_rate hits (hits + misses), ft_replayCacheMissRate = replay_rate misses (hits + misses),
           ft_promptCacheHitRate = replay_rate hits (hits + misses), ft_promptCacheMissRate = replay_rate misses (hits + misses) \<rparr>)"

text \<open>\<^verbatim>\<open>limit !== undefined && observed > limit\<close>\<close>

definition over_limit :: "string \<Rightarrow> string option \<Rightarrow> rat \<Rightarrow> js_number option \<Rightarrow> FinOpsBudgetBreach list" where
  "over_limit rule role observed limit =
     (case limit of
        Some t \<Rightarrow> if js_less t observed
                  then [\<lparr> fb_rule = rule, fb_role = role, fb_observed = observed, fb_threshold = t, fb_message = None \<rparr>] else []
      | None \<Rightarrow> [])"

definition role_breaches :: "string \<Rightarrow> FinOpsRoleBudget \<Rightarrow> FinOpsRoleUsage \<Rightarrow> FinOpsBudgetBreach list" where
  "role_breaches role budget usage =
     over_limit ''max_total_input_tokens'' (Some role) (of_int (ac_inputTokens usage)) (budget MaxTotalInputTokens)
     @ over_limit ''max_total_output_tokens'' (Some role) (of_int (ac_outputTokens usage)) (budget MaxTotalOutputTokens)
     @ over_limit ''max_total_wall_clock_ms'' (Some role) (ac_durationMs usage) (budget MaxTotalWallClockMs)
     @ over_limit ''max_attempts'' (Some role) (of_int (ac_attempts usage)) (budget MaxAttempts)
     @ over_limit ''max_fallback_attempts'' (Some role) (of_int (ac_fallbackAttempts usage)) (budget MaxFallbackAttempts)
     @ over_limit ''max_live_smoke_calls'' (Some role) (of_int (ac_liveSmokeCalls usage)) (budget MaxLiveSmokeCalls)"

definition detectBreaches :: "FinOpsBudgetEnvelope \<Rightarrow> FinOpsRoleUsage list \<Rightarrow> finops_totals \<Rightarrow> FinOpsBudgetBreach list" where
  "detectBreaches envelope usages totals =
     over_limit ''max_total_wall_clock_ms'' None (ft_durationMs totals) (be_maxJobWallClockMs envelope)
     @ (if ft_cacheHits totals + ft_cacheMisses totals > 0
        then over_limit ''max_replay_cache_miss_rate'' None (ft_replayCacheMissRate totals) (be_maxReplayCacheMissRate envelope)
        else [])
     @ over_limit ''max_estimated_cost'' None (ft_estimatedCost totals) (be_maxEstimatedCost envelope)
     @ concat (map (\<lambda>role.
         case (map_of (be_roles envelope) role, find (\<lambda>u. ac_role u = role) (rev usages)) of
           (Some budget, Some usage) \<Rightarrow> role_breaches role budget usage
         | _ \<Rightarrow> []) ALLOWED_FINOPS_ROLES)"

definition rule_order :: "string \<Rightarrow> nat" where
  "rule_order rule =
     (case find (\<lambda>i. ALLOWED_FINOPS_BUDGET_BREACH_REASONS ! i = rule) [0 ..< length ALLOWED_FINOPS_BUDGET_BREACH_REASONS] of
        Some i \<Rightarrow> i | None \<Rightarrow> 9007199254740991)"

definition breach_key :: "FinOpsBudgetBreach \<Rightarrow> nat \<times> string \<times> rat" where
  "breach_key b = (rule_order (fb_rule b), case fb_role b of None \<Rightarrow> [] | Some r \<Rightarrow> r, fb_observed b)"

definition sortBreaches :: "FinOpsBudgetBreach list \<Rightarrow> FinOpsBudgetBreach list" where
  "sortBreaches = sort_key breach_key"

definition deriveOutcome :: "FinOpsBudgetBreach list \<Rightarrow> finops_totals \<Rightarrow> string" where
  "deriveOutcome breaches totals =
     (if breaches \<noteq> [] then ''budget_exceeded''
      else if ft_attempts totals = 0 \<and> ft_cacheHits totals > 0 then ''completed_cache_hit''
      else ''completed'')"

section \<open>The report\<close>

definition sanitizeBudgetEnvelope :: "(string \<Rightarrow> string) \<Rightarrow> FinOpsBudgetEnvelope \<Rightarrow> FinOpsBudgetEnvelope" where
  "sanitizeBudgetEnvelope redact e =
     (let cloned = cloneFinOpsBudgetEnvelope e
      in cloned\<lparr> be_budgetId := sanitizeReportString redact (be_budgetId cloned),
                 be_budgetVersion := sanitizeReportString redact (be_budgetVersion cloned) \<rparr>)"

definition report_regions :: "(string \<times> MutablePerSourceCostEntry) list \<Rightarrow> region_stats option" where
  "report_regions bySource =
     (let entries = List.map_filter (\<lambda>(label, entry). pe_regionAttestation entry) bySource
      in if entries = [] then None
         else Some \<lparr> rn_distinctRegions = js_sort (js_set (concat (map rn_distinctRegions entries))),
                rn_attestedCallCount = sum_list (map rn_attestedCallCount entries),
                rn_warningCount = sum_list (map rn_warningCount entries) \<rparr>)"

definition optional_audit :: "('a \<Rightarrow> report_error + 'b) \<Rightarrow> 'a option \<Rightarrow> report_error + 'b option" where
  "optional_audit check v =
     (case v of None \<Rightarrow> Inr None | Some x \<Rightarrow> (case check x of Inl e \<Rightarrow> Inl e | Inr y \<Rightarrow> Inr (Some y)))"

definition assemble_report ::
  "finops_env \<Rightarrow> BuildFinOpsBudgetReportInput \<Rightarrow> figma_payload_audit option \<Rightarrow> FigmaSourceAuditSummary option \<Rightarrow> FinOpsBudgetReport" where
  "assemble_report env input payload audit =
     (let sortedUsages = sort_key ac_role (usage_snapshot env (bf_recorder input));
          totals = aggregateTotals sortedUsages;
          sealed = finalizePerSourceCostBreakdown (bf_jobId input) (bf_generatedAt input) (rc_sources (bf_recorder input));
          breaches = sortBreaches (detectBreaches (bf_budget input) sortedUsages totals @ rc_explicitBreaches (bf_recorder input))
      in \<lparr> fr_jobId = bf_jobId input, fr_generatedAt = bf_generatedAt input,
           fr_budget = sanitizeBudgetEnvelope (fe_redact env) (bf_budget input),
           fr_resolvedBudget = bf_resolvedBudget input,
           fr_currencyLabel = map_option (\<lambda>m. sanitizeReportString (fe_redact env) (rm_currencyLabel m)) (bf_costRates input),
           fr_roles = sortedUsages, fr_bySource = sb_bySource sealed, fr_bySourceTotal = sb_total sealed,
           fr_bySourceSealedAt = bf_generatedAt input, fr_regionAttestation = report_regions (sb_bySource sealed),
           fr_figmaPayload = payload, fr_figmaSourceAudit = audit, fr_totals = totals, fr_breaches = breaches,
           fr_outcome = (case bf_outcomeOverride input of Some out \<Rightarrow> out | None \<Rightarrow> deriveOutcome breaches totals) \<rparr>)"

text \<open>The audits are checked while the report object is built, the payload first.\<close>

definition buildFinOpsBudgetReport :: "finops_env \<Rightarrow> BuildFinOpsBudgetReportInput \<Rightarrow> report_error + FinOpsBudgetReport" where
  "buildFinOpsBudgetReport env input =
     (if bf_jobId input = [] then Inl Empty_jobId
      else if bf_generatedAt input = [] then Inl Empty_generatedAt
      else case optional_audit sanitizeFigmaPayloadAudit (bf_figmaPayload input) of
             Inl e \<Rightarrow> Inl e
           | Inr payload \<Rightarrow>
               (case optional_audit sanitizeFigmaSourceAudit (bf_figmaSourceAudit input) of
                  Inl e \<Rightarrow> Inl e
                | Inr audit \<Rightarrow> Inr (assemble_report env input payload audit)))"

end
