(* ===== verification/FinopsProps.thy ===== *)
theory FinopsProps
  imports FinopsReport
begin

text \<open>
  Every sequence of recordings and the report built from it: what each counter of a role holds, what
  the per-source accounts hold, and when a job is reported as over budget.
\<close>

section \<open>Sequences of recordings\<close>

datatype finops_op =
    Op_attempt FinOpsAttemptObservation
  | Op_breaker string string "string option"
  | Op_cache_hit string "string option" "string option"
  | Op_cache_miss string
  | Op_dedup_hit string
  | Op_role_metadata string "string option" "string option" "string option"
  | Op_source_metadata string "string option" "string option" "string option"
  | Op_breach string "string option" js_number js_number string
  | Op_ingest string js_number

fun finops_call :: "finops_env \<Rightarrow> finops_op \<Rightarrow> finops_recorder \<Rightarrow> finops_recorder \<times> finops_error option" where
  "finops_call env (Op_attempt ob) st = recordAttempt env ob st"
| "finops_call env (Op_breaker source s deployment) st = recordCircuitBreakerDecision source s deployment st"
| "finops_call env (Op_cache_hit role source deployment) st = recordCacheHit env role source deployment st"
| "finops_call env (Op_cache_miss role) st = recordCacheMiss role st"
| "finops_call env (Op_dedup_hit source) st = recordInFlightDedupHit source st"
| "finops_call env (Op_role_metadata role d m t) st = recordRoleMetadata env role d m t st"
| "finops_call env (Op_source_metadata source d m t) st = recordSourceMetadata env source d m t st"
| "finops_call env (Op_breach rule role observed threshold message) st =
     recordBudgetBreach env rule role observed threshold message st"
| "finops_call env (Op_ingest role bytes) st = recordIngestBytes role bytes st"

text \<open>A caller that catches the exception goes on with the state the call left behind.\<close>

definition finops_step :: "finops_env \<Rightarrow> finops_recorder \<Rightarrow> finops_op \<Rightarrow> finops_recorder" where
  "finops_step env st call = fst (finops_call env call st)"

definition recorder_after :: "finops_env \<Rightarrow> finops_op list \<Rightarrow> finops_recorder" where
  "recorder_after env ops = foldl (finops_step env) createFinOpsUsageRecorder ops"

lemmas recording_defs =
  finops_step_def recordAttempt_def recordCircuitBreakerDecision_def recordCacheHit_def recordCacheMiss_def
  recordInFlightDedupHit_def recordRoleMetadata_def recordSourceMetadata_def recordBudgetBreach_def recordIngestBytes_def

section \<open>What the counters should hold\<close>

datatype role_counter =
    N_attempts | N_successes | N_failures | N_inputTokens | N_outputTokens | N_imageBytes | N_cacheHits | N_cacheMisses
  | N_fallbackAttempts | N_liveSmokeCalls | N_durationMs | N_ingestBytes

fun counter_of :: "role_counter \<Rightarrow> 'a RoleAccumulator_scheme \<Rightarrow> rat" where
  "counter_of N_attempts acc = of_int (ac_attempts acc)"
| "counter_of N_successes acc = of_int (ac_successes acc)"
| "counter_of N_failures acc = of_int (ac_failures acc)"
| "counter_of N_inputTokens acc = of_int (ac_inputTokens acc)"
| "counter_of N_outputTokens acc = of_int (ac_outputTokens acc)"
| "counter_of N_imageBytes acc = of_int (ac_imageBytes acc)"
| "counter_of N_cacheHits acc = of_int (ac_cacheHits acc)"
| "counter_of N_cacheMisses acc = of_int (ac_cacheMisses acc)"
| "counter_of N_fallbackAttempts acc = of_int (ac_fallbackAttempts acc)"
| "counter_of N_liveSmokeCalls acc = of_int (ac_liveSmokeCalls acc)"
| "counter_of N_durationMs acc = ac_durationMs acc"
| "counter_of N_ingestBytes acc = of_int (ac_ingestBytes acc)"

text \<open>What one primary attempt is charged for.\<close>

fun attempt_charge :: "role_counter \<Rightarrow> FinOpsAttemptObservation \<Rightarrow> rat" where
  "attempt_charge N_attempts ob = 1"
| "attempt_charge N_successes ob = (case ar_outcome (ob_result ob) of Attempt_success _ _ _ \<Rightarrow> 1 | Attempt_error _ \<Rightarrow> 0)"
| "attempt_charge N_failures ob = (case ar_outcome (ob_result ob) of Attempt_success _ _ _ \<Rightarrow> 0 | Attempt_error _ \<Rightarrow> 1)"
| "attempt_charge N_inputTokens ob =
     (case ar_outcome (ob_result ob) of Attempt_success _ i _ \<Rightarrow> of_int (safeIntPositiveOrZero i) | Attempt_error _ \<Rightarrow> 0)"
| "attempt_charge N_outputTokens ob =
     (case ar_outcome (ob_result ob) of Attempt_success _ _ out \<Rightarrow> of_int (safeIntPositiveOrZero out) | Attempt_error _ \<Rightarrow> 0)"
| "attempt_charge N_imageBytes ob = of_int (safeIntPositiveOrZero (ob_imageBytes ob))"
| "attempt_charge N_fallbackAttempts ob = (if ob_fallback ob then 1 else 0)"
| "attempt_charge N_liveSmokeCalls ob = (if ob_liveSmoke ob then 1 else 0)"
| "attempt_charge N_durationMs ob = positiveOrZero (Some (ob_durationMs ob))"
| "attempt_charge _ ob = 0"

text \<open>What one recording adds to a counter of a role.\<close>

fun op_charge :: "role_counter \<Rightarrow> string \<Rightarrow> finops_op \<Rightarrow> rat" where
  "op_charge c role (Op_attempt ob) =
     (if ob_role ob = role \<and> ob_attributionMode ob \<noteq> Some Audit then attempt_charge c ob else 0)"
| "op_charge c role (Op_cache_hit r _ _) = (if r = role \<and> c = N_cacheHits then 1 else 0)"
| "op_charge c role (Op_cache_miss r) = (if r = role \<and> c = N_cacheMisses then 1 else 0)"
| "op_charge c role (Op_ingest r bytes) =
     (if r = role \<and> c = N_ingestBytes then of_int (safeIntPositiveOrZero (Some bytes)) else 0)"
| "op_charge c role _ = 0"

section \<open>Accounts that only add up\<close>

text \<open>A quantity to which every step adds an amount of its own holds the sum of these amounts.\<close>

locale tally =
  fixes step :: "'s \<Rightarrow> 'e \<Rightarrow> 's"
    and amount :: "'s \<Rightarrow> 'n::monoid_add"
    and charge :: "'e \<Rightarrow> 'n"
  assumes step_charge: "amount (step s e) = amount s + charge e"
begin

lemma run_charge: "amount (foldl step s es) = amount s + sum_list (map charge es)"
  by (induction es arbitrary: s) (simp_all add: step_charge add.assoc)

end

lemma counter_set_metadata [simp]: "counter_of c (set_metadata env d m t acc) = counter_of c acc"
  by (cases c) (simp_all add: set_metadata_def)

lemma counter_count_primary [simp]: "counter_of c (count_primary ob acc) = counter_of c acc + attempt_charge c ob"
  by (cases c) (simp_all add: count_primary_def Let_def split: attempt_outcome.split)

lemma counter_updates [simp]:
  "counter_of c (acc\<lparr> ac_cacheHits := n, ac_deployment := d \<rparr>) = (if c = N_cacheHits then of_int n else counter_of c acc)"
  "counter_of c (acc\<lparr> ac_cacheMisses := n \<rparr>) = (if c = N_cacheMisses then of_int n else counter_of c acc)"
  "counter_of c (acc\<lparr> ac_ingestBytes := n \<rparr>) = (if c = N_ingestBytes then of_int n else counter_of c acc)"
  by (cases c; simp)+

lemma accumulators_with_role [simp]:
  "rc_accumulators (with_role role f st) = (rc_accumulators st)(role := f (rc_accumulators st role))"
  "rc_accumulators (with_source source g st) = rc_accumulators st"
  "rc_sources (with_role role f st) = rc_sources st"
  "rc_explicitBreaches (with_role role f st) = rc_explicitBreaches st"
  "rc_explicitBreaches (with_source source g st) = rc_explicitBreaches st"
  by (simp_all add: with_role_def with_source_def)

definition role_charge :: "role_counter \<Rightarrow> string \<Rightarrow> finops_op \<Rightarrow> rat" where
  "role_charge c role call = (if role \<in> set ALLOWED_FINOPS_ROLES then op_charge c role call else 0)"

interpretation role_counters: tally "finops_step env" "\<lambda>st. counter_of c (rc_accumulators st role)" "role_charge c role"
  for env c role
proof
  fix st call
  show "counter_of c (rc_accumulators (finops_step env st call) role) =
      counter_of c (rc_accumulators st role) + role_charge c role call"
    by (cases call) (auto simp: recording_defs role_charge_def Let_def split: option.split)
qed

section \<open>Lemmas on recorders and reports\<close>

definition roles_labelled :: "finops_recorder \<Rightarrow> bool" where
  "roles_labelled st \<longleftrightarrow> (\<forall>role. ac_role (rc_accumulators st role) = role)"

lemma role_kept [simp]: "ac_role (set_metadata env d m t acc) = ac_role acc" "ac_role (count_primary ob acc) = ac_role acc"
  by (simp_all add: set_metadata_def count_primary_def Let_def split: attempt_outcome.split)

interpretation labels: invariant_machine "finops_step env" roles_labelled for env
proof
  fix st call
  assume "roles_labelled st"
  then show "roles_labelled (finops_step env st call)"
    by (cases call) (auto simp: recording_defs roles_labelled_def Let_def split: option.split)
qed

lemma fresh_recorder [simp]:
  "roles_labelled createFinOpsUsageRecorder"
  "counter_of c (rc_accumulators createFinOpsUsageRecorder role) = 0"
  "rc_sources createFinOpsUsageRecorder = []"
  by (cases c; simp add: roles_labelled_def createFinOpsUsageRecorder_def createRoleAccumulator_def)+

lemma recorder_labelled: "ac_role (rc_accumulators (recorder_after env ops) role) = role"
  using labels.run_inv [OF fresh_recorder(1)] by (simp add: recorder_after_def roles_labelled_def)

lemma recorder_counters:
  "counter_of c (rc_accumulators (recorder_after env ops) role) = sum_list (map (role_charge c role) ops)"
  by (simp add: recorder_after_def role_counters.run_charge)

lemma charged_allowed: "role \<in> set ALLOWED_FINOPS_ROLES \<Longrightarrow> role_charge c role = op_charge c role"
  by (rule ext) (simp add: role_charge_def)

lemma finalize_keeps [simp]:
  "ac_role (finalizeAccumulator acc rate) = ac_role acc"
  "counter_of c (finalizeAccumulator acc rate) = counter_of c acc"
  by (cases c; simp add: finalizeAccumulator_def)+

lemma totals_of_counters:
  "of_int (ft_attempts (aggregateTotals us)) = sum_list (map (counter_of N_attempts) us)"
  "of_int (ft_successes (aggregateTotals us)) = sum_list (map (counter_of N_successes) us)"
  "of_int (ft_failures (aggregateTotals us)) = sum_list (map (counter_of N_failures) us)"
  "of_int (ft_inputTokens (aggregateTotals us)) = sum_list (map (counter_of N_inputTokens) us)"
  "of_int (ft_outputTokens (aggregateTotals us)) = sum_list (map (counter_of N_outputTokens) us)"
  "of_int (ft_cacheHits (aggregateTotals us)) = sum_list (map (counter_of N_cacheHits) us)"
  "of_int (ft_cacheMisses (aggregateTotals us)) = sum_list (map (counter_of N_cacheMisses) us)"
  "ft_durationMs (aggregateTotals us) = sum_list (map (counter_of N_durationMs) us)"
  "of_int (ft_imageBytes (aggregateTotals us)) = sum_list (map (counter_of N_imageBytes) us)"
  "of_int (ft_fallbackAttempts (aggregateTotals us)) = sum_list (map (counter_of N_fallbackAttempts) us)"
  "of_int (ft_liveSmokeCalls (aggregateTotals us)) = sum_list (map (counter_of N_liveSmokeCalls) us)"
  by (induction us) (simp_all add: aggregateTotals_def Let_def)

lemma sum_list_sort_key: "sum_list (map f (sort_key k xs)) = (sum_list (map f xs) :: 'b::comm_monoid_add)"
  by (simp flip: sum_mset_sum_list)

lemma map_sort_key: "map f (sort_key f xs) = sort_key (\<lambda>x. x) (map f xs)"
  by (rule properties_for_sort [symmetric, simplified]) simp_all

lemma sum_list_swap:
  "sum_list (map (\<lambda>x. sum_list (map (f x) ys)) xs) = (sum_list (map (\<lambda>y. sum_list (map (\<lambda>x. f x y) xs)) ys) :: 'b::comm_monoid_add)"
  by (induction xs) (simp_all add: sum_list_addf)

lemma attempt_settled: "attempt_charge N_attempts ob = attempt_charge N_successes ob + attempt_charge N_failures ob"
  by (simp split: attempt_outcome.split)

lemma charge_settled: "op_charge N_attempts role call = op_charge N_successes role call + op_charge N_failures role call"
  by (cases call) (simp_all add: attempt_settled del: attempt_charge.simps)

lemma assembled_parts:
  "fr_roles (assemble_report env input p a) = sort_key ac_role (usage_snapshot env (bf_recorder input))"
  "fr_totals (assemble_report env input p a) = aggregateTotals (fr_roles (assemble_report env input p a))"
  "fr_breaches (assemble_report env input p a) =
     sortBreaches (detectBreaches (bf_budget input) (fr_roles (assemble_report env input p a))
       (fr_totals (assemble_report env input p a)) @ rc_explicitBreaches (bf_recorder input))"
  by (simp_all only: assemble_report_def Let_def FinOpsBudgetReport.simps)

lemma assembled_outcome:
  "bf_outcomeOverride input = None \<Longrightarrow> fr_outcome (assemble_report env input p a) =
     deriveOutcome (fr_breaches (assemble_report env input p a)) (fr_totals (assemble_report env input p a))"
  by (simp only: assemble_report_def Let_def FinOpsBudgetReport.simps option.simps)

lemma report_assembled:
  "buildFinOpsBudgetReport env input = Inr r \<Longrightarrow> \<exists>p a. r = assemble_report env input p a"
  by (auto simp: buildFinOpsBudgetReport_def split: if_splits sum.splits)

lemma report_refused:
  "buildFinOpsBudgetReport env input = Inl e \<Longrightarrow> bf_jobId input = [] \<or> bf_generatedAt input = [] \<or> isl (optional_audit sanitizeFigmaPayloadAudit (bf_figmaPayload input))
       \<or> isl (optional_audit sanitizeFigmaSourceAudit (bf_figmaSourceAudit input))"
  unfolding buildFinOpsBudgetReport_def
  by (cases "optional_audit sanitizeFigmaPayloadAudit (bf_figmaPayload input)";
      cases "optional_audit sanitizeFigmaSourceAudit (bf_figmaSourceAudit input)") (simp_all split: if_splits)

definition recorded_total :: "role_counter \<Rightarrow> finops_op list \<Rightarrow> rat" where
  "recorded_total c ops = sum_list (map (\<lambda>call. sum_list (map (\<lambda>role. op_charge c role call) ALLOWED_FINOPS_ROLES)) ops)"

lemma snapshot_total:
  "sum_list (map (counter_of c) (usage_snapshot env (recorder_after env' ops))) = recorded_total c ops"
proof -
  have "map (counter_of c) (usage_snapshot env (recorder_after env' ops)) =
      map (\<lambda>role. sum_list (map (op_charge c role) ops)) ALLOWED_FINOPS_ROLES"
    by (simp add: usage_snapshot_def recorder_counters charged_allowed)
  then have "sum_list (map (counter_of c) (usage_snapshot env (recorder_after env' ops))) =
      sum_list (map (\<lambda>role. sum_list (map (op_charge c role) ops)) ALLOWED_FINOPS_ROLES)"
    by (rule arg_cong)
  also have "\<dots> = recorded_total c ops" unfolding recorded_total_def by (rule sum_list_swap)
  finally show ?thesis .
qed

lemma recorded_total_settled: "recorded_total N_attempts ops = recorded_total N_successes ops + recorded_total N_failures ops"
  unfolding recorded_total_def charge_settled sum_list_addf ..

lemma op_charge_lookup_nonneg: "c = N_cacheHits \<or> c = N_cacheMisses \<Longrightarrow> 0 \<le> op_charge c role call"
  by (cases call) auto

lemma recorded_lookups_nonneg: "c = N_cacheHits \<or> c = N_cacheMisses \<Longrightarrow> 0 \<le> recorded_total c ops"
  unfolding recorded_total_def by (intro sum_list_nonneg) (auto intro!: sum_list_nonneg op_charge_lookup_nonneg)

text \<open>The clamp of \<^verbatim>\<open>replayRate\<close> never acts on counts of hits and misses.\<close>

lemma replay_rate_share:
  "0 \<le> hits \<Longrightarrow> 0 \<le> misses \<Longrightarrow>
   replay_rate hits (hits + misses) = js_round6 (if hits + misses = 0 then 0 else of_int hits / of_int (hits + misses))"
  by (auto simp: replay_rate_def min_def max_def divide_le_eq_1 zero_le_divide_iff)

lemma total_rates:
  fixes hits misses :: int
  assumes "of_int hits = recorded_total N_cacheHits ops" "of_int misses = recorded_total N_cacheMisses ops"
  shows "let h = recorded_total N_cacheHits ops; n = h + recorded_total N_cacheMisses ops
    in replay_rate hits (hits + misses) = js_round6 (if n = 0 then 0 else h / n)
       \<and> replay_rate misses (hits + misses) = js_round6 (if n = 0 then 0 else (n - h) / n)"
proof -
  have "0 \<le> (of_int hits :: rat)" "0 \<le> (of_int misses :: rat)"
    unfolding assms using recorded_lookups_nonneg by blast+
  then have pos: "0 \<le> hits" "0 \<le> misses" by simp_all
  have zero: "recorded_total N_cacheHits ops + recorded_total N_cacheMisses ops = 0 \<longleftrightarrow> hits + misses = 0"
    unfolding assms [symmetric] by (metis of_int_0_eq_iff of_int_add)
  show ?thesis
    using replay_rate_share [OF pos] replay_rate_share [OF pos(2,1)] zero
    by (simp add: Let_def add.commute flip: assms)
qed

lemma usage_costs:
  "u \<in> set (usage_snapshot env st) \<Longrightarrow> roles_labelled st \<Longrightarrow>
   ru_estimatedCost u = computeRoleCost (RoleAccumulator.truncate u) (rate_of env (ac_role u))"
  by (auto simp: usage_snapshot_def roles_labelled_def computeRoleCost_def finalizeAccumulator_def RoleAccumulator.truncate_def
      split: option.split)

text \<open>C15: A budget report accounts for exactly what was recorded. Whatever sequence of recordings the report is built
  from, calls that raised included, it lists every role once in order; each counter of a role is the
  sum of what the recordings charge to it, where an audit attempt charges nothing and a primary
  attempt is charged even when its source label is refused. Every counter of the totals is the sum of
  what was recorded for all roles, the estimated cost is the rounded sum of the roles' costs, each of which
  is the cost of its own counters at the role's rate, the four cache rates are the shares of hits and of
  misses in the recorded lookups, rounded, and every attempt is either a success or a failure.\<close>

theorem report_accounts_for_recordings:
  "case buildFinOpsBudgetReport env (input\<lparr> bf_recorder := recorder_after env ops \<rparr>) of
     Inl e \<Rightarrow> bf_jobId input = [] \<or> bf_generatedAt input = [] \<or> isl (optional_audit sanitizeFigmaPayloadAudit (bf_figmaPayload input))
       \<or> isl (optional_audit sanitizeFigmaSourceAudit (bf_figmaSourceAudit input))
   | Inr r \<Rightarrow>
       map ac_role (fr_roles r) = js_sort ALLOWED_FINOPS_ROLES
       \<and> list_all (\<lambda>u. \<forall>c. counter_of c u = sum_list (map (op_charge c (ac_role u)) ops)) (fr_roles r)
       \<and> list_all (\<lambda>u. ru_estimatedCost u = computeRoleCost (RoleAccumulator.truncate u) (rate_of env (ac_role u))) (fr_roles r)
       \<and> list_all (\<lambda>(total, c). total = recorded_total c ops)
           [(of_int (ft_attempts (fr_totals r)), N_attempts),
            (of_int (ft_successes (fr_totals r)), N_successes),
            (of_int (ft_failures (fr_totals r)), N_failures),
            (of_int (ft_inputTokens (fr_totals r)), N_inputTokens),
            (of_int (ft_outputTokens (fr_totals r)), N_outputTokens),
            (of_int (ft_imageBytes (fr_totals r)), N_imageBytes),
            (of_int (ft_cacheHits (fr_totals r)), N_cacheHits),
            (of_int (ft_cacheMisses (fr_totals r)), N_cacheMisses),
            (of_int (ft_fallbackAttempts (fr_totals r)), N_fallbackAttempts),
            (of_int (ft_liveSmokeCalls (fr_totals r)), N_liveSmokeCalls),
            (ft_durationMs (fr_totals r), N_durationMs)]
       \<and> ft_estimatedCost (fr_totals r) = js_round6 (sum_list (map ru_estimatedCost (fr_roles r)))
       \<and> (let hits = recorded_total N_cacheHits ops; lookups = hits + recorded_total N_cacheMisses ops
          in ft_replayCacheHitRate (fr_totals r) = js_round6 (if lookups = 0 then 0 else hits / lookups)
             \<and> ft_replayCacheMissRate (fr_totals r) = js_round6 (if lookups = 0 then 0 else (lookups - hits) / lookups)
             \<and> ft_promptCacheHitRate (fr_totals r) = ft_replayCacheHitRate (fr_totals r)
             \<and> ft_promptCacheMissRate (fr_totals r) = ft_replayCacheMissRate (fr_totals r))
       \<and> ft_attempts (fr_totals r) = ft_successes (fr_totals r) + ft_failures (fr_totals r)"
proof (cases "buildFinOpsBudgetReport env (input\<lparr> bf_recorder := recorder_after env ops \<rparr>)")
  case (Inl e)
  then show ?thesis using report_refused [OF Inl] by simp
next
  case (Inr r)
  have roles: "fr_roles r = sort_key ac_role (usage_snapshot env (recorder_after env ops))"
    and totals: "fr_totals r = aggregateTotals (fr_roles r)"
    using report_assembled [OF Inr] by (auto simp: assembled_parts)
  have labels: "map ac_role (usage_snapshot env (recorder_after env ops)) = ALLOWED_FINOPS_ROLES"
    by (simp add: usage_snapshot_def recorder_labelled comp_def)
  have order: "map ac_role (fr_roles r) = js_sort ALLOWED_FINOPS_ROLES"
    unfolding roles labels [symmetric] js_sort_def
    by (rule map_sort_key)
  have sums: "sum_list (map (counter_of c) (fr_roles r)) = recorded_total c ops" for c
    by (simp add: roles sum_list_sort_key snapshot_total)
  have "rat_of_int (ft_attempts (fr_totals r)) = of_int (ft_successes (fr_totals r) + ft_failures (fr_totals r))"
    by (simp add: totals totals_of_counters sums recorded_total_settled)
  then have "ft_attempts (fr_totals r) = ft_successes (fr_totals r) + ft_failures (fr_totals r)"
    by (simp only: of_int_eq_iff)
  moreover have "list_all (\<lambda>u. \<forall>c. counter_of c u = sum_list (map (op_charge c (ac_role u)) ops)) (fr_roles r)"
    by (auto simp: roles list_all_iff usage_snapshot_def recorder_counters recorder_labelled charged_allowed)
  moreover note counters = totals_of_counters [of "fr_roles r", folded totals, unfolded sums]
  moreover have "list_all (\<lambda>u. ru_estimatedCost u = computeRoleCost (RoleAccumulator.truncate u) (rate_of env (ac_role u))) (fr_roles r)"
    using recorder_labelled by (auto simp: roles list_all_iff roles_labelled_def intro: usage_costs)
  moreover have "ft_replayCacheHitRate (fr_totals r) = replay_rate (ft_cacheHits (fr_totals r)) (ft_cacheHits (fr_totals r) + ft_cacheMisses (fr_totals r))"
    "ft_replayCacheMissRate (fr_totals r) = replay_rate (ft_cacheMisses (fr_totals r)) (ft_cacheHits (fr_totals r) + ft_cacheMisses (fr_totals r))"
    "ft_promptCacheHitRate (fr_totals r) = ft_replayCacheHitRate (fr_totals r)"
    "ft_promptCacheMissRate (fr_totals r) = ft_replayCacheMissRate (fr_totals r)"
    "ft_estimatedCost (fr_totals r) = js_round6 (sum_list (map ru_estimatedCost (fr_roles r)))"
    by (simp_all add: totals aggregateTotals_def Let_def)
  ultimately show ?thesis using order total_rates [OF counters(6,7)] unfolding Inr by (simp add: Let_def)
qed

section \<open>When a job is over budget\<close>

text \<open>The limits the report compares with the counters of a role.\<close>

definition enforced_limits :: "(budget_field \<times> role_counter) list" where
  "enforced_limits = [(MaxTotalInputTokens, N_inputTokens), (MaxTotalOutputTokens, N_outputTokens),
     (MaxTotalWallClockMs, N_durationMs), (MaxAttempts, N_attempts), (MaxFallbackAttempts, N_fallbackAttempts),
     (MaxLiveSmokeCalls, N_liveSmokeCalls)]"

definition exceeds :: "js_number option \<Rightarrow> rat \<Rightarrow> bool" where
  "exceeds limit observed \<longleftrightarrow> (case limit of None \<Rightarrow> False | Some t \<Rightarrow> js_less t observed)"

definition role_over_budget :: "FinOpsBudgetEnvelope \<Rightarrow> finops_op list \<Rightarrow> string \<Rightarrow> bool" where
  "role_over_budget budget ops role \<longleftrightarrow>
     (case map_of (be_roles budget) role of
        None \<Rightarrow> False
      | Some b \<Rightarrow> list_ex (\<lambda>(field, c). exceeds (b field) (sum_list (map (op_charge c role) ops))) enforced_limits)"

definition job_over_budget :: "FinOpsBudgetEnvelope \<Rightarrow> finops_totals \<Rightarrow> bool" where
  "job_over_budget budget totals \<longleftrightarrow>
     exceeds (be_maxJobWallClockMs budget) (ft_durationMs totals)
     \<or> (0 < ft_cacheHits totals + ft_cacheMisses totals \<and> exceeds (be_maxReplayCacheMissRate budget) (ft_replayCacheMissRate totals))
     \<or> exceeds (be_maxEstimatedCost budget) (ft_estimatedCost totals)"

fun reports_breach :: "finops_op \<Rightarrow> bool" where
  "reports_breach (Op_breach rule role _ _ _) \<longleftrightarrow> rule \<in> set ALLOWED_FINOPS_BUDGET_BREACH_REASONS
     \<and> (case role of None \<Rightarrow> True | Some r \<Rightarrow> r \<in> set ALLOWED_FINOPS_ROLES)"
| "reports_breach _ \<longleftrightarrow> False"

interpretation explicit_breaches: tally "finops_step env" "\<lambda>st. length (rc_explicitBreaches st)"
  "\<lambda>call. if reports_breach call then 1 else 0" for env
proof
  fix st call
  show "length (rc_explicitBreaches (finops_step env st call)) =
      length (rc_explicitBreaches st) + (if reports_breach call then 1 else 0)"
    by (cases call) (auto simp: recording_defs Let_def split: option.split)
qed

lemma some_breach_reported: "rc_explicitBreaches (recorder_after env ops) \<noteq> [] \<longleftrightarrow> list_ex reports_breach ops"
proof -
  have "0 < sum_list (map (\<lambda>call. if reports_breach call then 1 else (0::nat)) ops) \<longleftrightarrow> list_ex reports_breach ops"
    by (induction ops) auto
  then show ?thesis
    using explicit_breaches.run_charge [of env createFinOpsUsageRecorder ops]
    by (simp add: recorder_after_def createFinOpsUsageRecorder_def flip: length_greater_0_conv)
qed

lemma over_limit_Nil: "over_limit rule role observed limit = [] \<longleftrightarrow> \<not> exceeds limit observed"
  by (simp add: over_limit_def exceeds_def split: option.split)

lemma role_breaches_Nil:
  "role_breaches role b u = [] \<longleftrightarrow> \<not> list_ex (\<lambda>(field, c). exceeds (b field) (counter_of c u)) enforced_limits"
  by (simp add: role_breaches_def over_limit_Nil enforced_limits_def)

lemma find_unique:
  assumes "x \<in> set xs" "P x" and unique: "\<And>y. y \<in> set xs \<Longrightarrow> P y \<Longrightarrow> y = x"
  shows "find P xs = Some x"
proof (cases "find P xs")
  case None
  then show ?thesis using assms(1,2) by (auto simp: find_None_iff)
next
  case (Some y)
  then have "y \<in> set xs" "P y" by (auto simp: find_Some_iff)
  with Some unique show ?thesis by blast
qed

lemma usage_of_role:
  assumes "role \<in> set ALLOWED_FINOPS_ROLES"
  shows "find (\<lambda>u. ac_role u = role) (rev (sort_key ac_role (usage_snapshot env (recorder_after env' ops)))) =
    Some (finalizeAccumulator (rc_accumulators (recorder_after env' ops) role) (rate_of env role))"
  using assms by (intro find_unique) (auto simp: usage_snapshot_def recorder_labelled)

lemma detected_breaches_Nil:
  "detectBreaches budget (sort_key ac_role (usage_snapshot env (recorder_after env ops))) totals = [] \<longleftrightarrow>
     \<not> job_over_budget budget totals \<and> \<not> list_ex (role_over_budget budget ops) ALLOWED_FINOPS_ROLES"
proof -
  have "(case (map_of (be_roles budget) role,
           find (\<lambda>u. ac_role u = role) (rev (sort_key ac_role (usage_snapshot env (recorder_after env ops))))) of
         (Some b, Some usage) \<Rightarrow> role_breaches role b usage | _ \<Rightarrow> []) = [] \<longleftrightarrow> \<not> role_over_budget budget ops role"
    if "role \<in> set ALLOWED_FINOPS_ROLES" for role
    using that by (simp add: usage_of_role role_over_budget_def role_breaches_Nil recorder_counters charged_allowed split: option.split)
  then show ?thesis
    by (auto simp: detectBreaches_def over_limit_Nil job_over_budget_def list_ex_iff)
qed

lemma sortBreaches_Nil [simp]: "sortBreaches bs = [] \<longleftrightarrow> bs = []"
proof -
  have "mset (sortBreaches bs) = mset bs" by (simp add: sortBreaches_def)
  then show ?thesis by (metis mset_zero_iff)
qed

text \<open>C14: Without an override the report of any sequence of recordings says that the job exceeded its budget exactly
  when a breach was reported explicitly, a job-wide limit is exceeded, or the recordings charged to
  some role exceed one of its enforced limits; equality with a limit is no breach. Otherwise it is a
  completed run, from the cache when no attempt but a cache hit was recorded. Breaches are listed in
  the order of rule, role and observation.\<close>

theorem over_budget_exact:
  "case buildFinOpsBudgetReport env (input\<lparr> bf_recorder := recorder_after env ops, bf_outcomeOverride := None \<rparr>) of
     Inl e \<Rightarrow> bf_jobId input = [] \<or> bf_generatedAt input = [] \<or> isl (optional_audit sanitizeFigmaPayloadAudit (bf_figmaPayload input))
       \<or> isl (optional_audit sanitizeFigmaSourceAudit (bf_figmaSourceAudit input))
   | Inr r \<Rightarrow>
       fr_outcome r =
         (if list_ex reports_breach ops \<or> job_over_budget (bf_budget input) (fr_totals r)
             \<or> list_ex (role_over_budget (bf_budget input) ops) ALLOWED_FINOPS_ROLES
          then ''budget_exceeded''
          else if recorded_total N_attempts ops = 0 \<and> recorded_total N_cacheHits ops > 0 then ''completed_cache_hit''
          else ''completed'')
       \<and> List.sorted (map breach_key (fr_breaches r))"
proof (cases "buildFinOpsBudgetReport env (input\<lparr> bf_recorder := recorder_after env ops, bf_outcomeOverride := None \<rparr>)")
  case (Inl e)
  then show ?thesis using report_refused [OF Inl] by simp
next
  case (Inr r)
  have roles: "fr_roles r = sort_key ac_role (usage_snapshot env (recorder_after env ops))"
    and parts: "fr_totals r = aggregateTotals (fr_roles r)"
      "fr_breaches r = sortBreaches (detectBreaches (bf_budget input) (fr_roles r) (fr_totals r) @ rc_explicitBreaches (recorder_after env ops))"
      "fr_outcome r = deriveOutcome (fr_breaches r) (fr_totals r)"
    using report_assembled [OF Inr] by (auto simp: assembled_parts assembled_outcome)
  have sums: "sum_list (map (counter_of c) (fr_roles r)) = recorded_total c ops" for c
    by (simp add: roles sum_list_sort_key snapshot_total)
  have totals: "ft_attempts (fr_totals r) = 0 \<longleftrightarrow> recorded_total N_attempts ops = 0"
    "ft_cacheHits (fr_totals r) > 0 \<longleftrightarrow> recorded_total N_cacheHits ops > 0"
    unfolding parts(1) sums [symmetric] totals_of_counters [symmetric] by simp_all
  have breaches: "fr_breaches r \<noteq> [] \<longleftrightarrow> list_ex reports_breach ops \<or> job_over_budget (bf_budget input) (fr_totals r)
      \<or> list_ex (role_over_budget (bf_budget input) ops) ALLOWED_FINOPS_ROLES"
    unfolding parts(2) roles using some_breach_reported [of env ops] by (auto simp: detected_breaches_Nil)
  have "List.sorted (map breach_key (fr_breaches r))" by (simp add: parts(2) sortBreaches_def)
  then show ?thesis unfolding Inr sum.case parts(3) deriveOutcome_def totals breaches by simp
qed

section \<open>Accounts per source\<close>

fun attempt_on :: "string \<Rightarrow> finops_op \<Rightarrow> bool" where
  "attempt_on source (Op_attempt ob) \<longleftrightarrow> ob_source ob = Some source \<and> ob_role ob \<in> set ALLOWED_FINOPS_ROLES"
| "attempt_on source _ \<longleftrightarrow> False"

fun breaker_on :: "string \<Rightarrow> finops_op \<Rightarrow> bool" where
  "breaker_on source (Op_breaker s _ _) \<longleftrightarrow> s = source"
| "breaker_on source _ \<longleftrightarrow> False"

fun tokens_in :: "finops_op \<Rightarrow> int" where
  "tokens_in (Op_attempt ob) = safeIntPositiveOrZero
     (case ar_outcome (ob_result ob) of Attempt_success _ i _ \<Rightarrow> i | Attempt_error _ \<Rightarrow> None)"
| "tokens_in _ = 0"

lemma source_with_source [simp]:
  "sourceAccumulatorFor s (with_source source g st) =
     (if s = source then g (sourceAccumulatorFor source st) else sourceAccumulatorFor s st)"
  "sourceAccumulatorFor s (with_role role f st) = sourceAccumulatorFor s st"
  "sourceAccumulatorFor s (st\<lparr> rc_explicitBreaches := bs \<rparr>) = sourceAccumulatorFor s st"
  by (simp_all add: sourceAccumulatorFor_def with_source_def)

lemma entry_after_attempt [simp]:
  "pe_callCount (recordPerSourceAttempt i acc) = pe_callCount acc + 1"
  "pe_tokensIn (recordPerSourceAttempt i acc) = pe_tokensIn acc + safeIntPositiveOrZero (ps_inputTokens i)"
  by (simp_all add: recordPerSourceAttempt_def Let_def)

lemma entry_after_hit [simp]:
  "pe_callCount (recordPerSourceReplayHit acc) = pe_callCount acc" "pe_tokensIn (recordPerSourceReplayHit acc) = pe_tokensIn acc"
  "pe_callCount (recordPerSourceInFlightDedupHit acc) = pe_callCount acc"
  "pe_tokensIn (recordPerSourceInFlightDedupHit acc) = pe_tokensIn acc"
  by (simp_all add: recordPerSourceReplayHit_def recordPerSourceInFlightDedupHit_def)

lemma calls_step:
  "isAgentSourceLabel source \<Longrightarrow>
   pe_callCount (sourceAccumulatorFor source (finops_step env st call)) =
     (if breaker_on source call then 0
      else pe_callCount (sourceAccumulatorFor source st) + (if attempt_on source call then 1 else 0))"
  by (cases call) (auto simp: recording_defs Let_def split: option.split)

lemma no_count: "safeIntPositiveOrZero None = 0"
  by (simp add: safeIntPositiveOrZero_def positiveOrZero_def)

lemma tokens_step:
  "isAgentSourceLabel source \<Longrightarrow>
   pe_tokensIn (sourceAccumulatorFor source (finops_step env st call)) =
     pe_tokensIn (sourceAccumulatorFor source st) + (if attempt_on source call then tokens_in call else 0)"
  by (cases call) (auto simp: recording_defs source_attempt_def no_count Let_def split: option.split)

text \<open>A circuit-breaker decision on a source erases the calls recorded for it before: after any sequence of
  recordings a source counts only the attempts since its last breaker decision, and its cost is zero
  right after one, although the input tokens of all its attempts, audit attempts included, stay on
  the account.\<close>

theorem breaker_decision_erases_calls:
  "if isAgentSourceLabel source
   then pe_callCount (sourceAccumulatorFor source (recorder_after env ops)) =
          int (length (filter (attempt_on source) (takeWhile (\<lambda>call. \<not> breaker_on source call) (rev ops))))
      \<and> pe_tokensIn (sourceAccumulatorFor source (recorder_after env ops)) =
          sum_list (map tokens_in (filter (attempt_on source) ops))
      \<and> pe_costMinorUnits (sourceAccumulatorFor source (recorder_after env (ops @ [Op_breaker source s deployment]))) = 0
   else sourceAccumulatorFor source (recorder_after env ops) = createEmptyPerSourceCostEntry"
proof (cases "isAgentSourceLabel source")
  case True
  have "pe_callCount (sourceAccumulatorFor source (recorder_after env ops)) =
      int (length (filter (attempt_on source) (takeWhile (\<lambda>call. \<not> breaker_on source call) (rev ops))))
    \<and> pe_tokensIn (sourceAccumulatorFor source (recorder_after env ops)) =
      sum_list (map tokens_in (filter (attempt_on source) ops))"
  proof (induction ops rule: rev_induct)
    case Nil
    then show ?case by (simp add: recorder_after_def sourceAccumulatorFor_def createEmptyPerSourceCostEntry_def)
  next
    case (snoc call ops)
    then show ?case by (simp add: recorder_after_def calls_step [OF True] tokens_step [OF True])
  qed
  then show ?thesis using True by (simp add: recorder_after_def finops_step_def recordCircuitBreakerDecision_def)
next
  case False
  have "sourceAccumulatorFor source (finops_step env st call) = sourceAccumulatorFor source st" for st call
    using False by (cases call) (auto simp: recording_defs Let_def split: option.split)
  then have "sourceAccumulatorFor source (recorder_after env ops) = createEmptyPerSourceCostEntry"
    by (induction ops rule: rev_induct) (simp_all add: recorder_after_def sourceAccumulatorFor_def)
  then show ?thesis using False by simp
qed

end
