(* ===== verification/SourceEnvelope.thy ===== *)
theory SourceEnvelope
  imports Json "HOL-Library.Product_Lexorder"
begin

text \<open>
  The envelope of contributing sources (\<^verbatim>\<open>packages/multi-source/src/multi-source-envelope.ts\<close>): its
  validation from untrusted JSON, its construction, the aggregate hash, the projection to the single
  legacy source and the gate of the multi-source mode. The hash function is a parameter on canonical
  JSON values. A candidate that is \<^verbatim>\<open>undefined\<close> is \<^const>\<open>None\<close>.
\<close>

section \<open>Data\<close>

definition MULTI_SOURCE_TEST_INTENT_ENVELOPE_SCHEMA_VERSION :: string where
  "MULTI_SOURCE_TEST_INTENT_ENVELOPE_SCHEMA_VERSION = ''1.0.0''"

definition PRIMARY_KINDS :: "string list" where
  "PRIMARY_KINDS = [''figma_local_json'', ''figma_plugin'', ''figma_rest'', ''jira_rest'', ''jira_paste'']"

definition SUPPORTING_KINDS :: "string list" where
  "SUPPORTING_KINDS = [''custom_text'', ''custom_structured'', ''custom_markdown'']"

definition ALL_KINDS :: "string list" where
  "ALL_KINDS = [''figma_local_json'', ''figma_plugin'', ''figma_rest'', ''jira_rest'', ''jira_paste'',
     ''custom_text'', ''custom_structured'', ''custom_markdown'']"

definition ALL_POLICIES :: "string list" where
  "ALL_POLICIES = [''priority'', ''reviewer_decides'', ''keep_both'']"

definition ALL_FORMATS :: "string list" where
  "ALL_FORMATS = [''plain_text'', ''markdown'', ''structured_json'']"

record TestIntentSourceRef =
  sr_sourceId :: string
  sr_kind :: string
  sr_contentHash :: string
  sr_capturedAt :: string
  sr_authorHandle :: "string option"
  sr_inputFormat :: "string option"
  sr_noteEntryId :: "string option"
  sr_markdownSectionPath :: "string option"
  sr_canonicalIssueKey :: "string option"
  sr_redactedMarkdownHash :: "string option"
  sr_plainTextDerivativeHash :: "string option"

record MultiSourceTestIntentEnvelope =
  en_sources :: "TestIntentSourceRef list"
  en_aggregateContentHash :: string
  en_conflictResolutionPolicy :: string
  en_priorityOrder :: "string list option"
  en_sourceMixPlan :: "json option"

record MultiSourceEnvelopeIssue =
  ei_code :: string
  ei_path :: "string option"
  ei_detail :: "string option"

section \<open>Formats\<close>

definition HEX64 :: "string \<Rightarrow> bool" where
  "HEX64 s \<longleftrightarrow> length s = 64 \<and> list_all (\<lambda>c. c \<in> set ''0123456789abcdef'') s"

definition upper :: "char \<Rightarrow> bool" where
  "upper c \<longleftrightarrow> c \<in> set ''ABCDEFGHIJKLMNOPQRSTUVWXYZ''"

definition decimal_digit :: "char \<Rightarrow> bool" where
  "decimal_digit c \<longleftrightarrow> c \<in> set ''0123456789''"

definition handle_char :: "char \<Rightarrow> bool" where
  "handle_char c \<longleftrightarrow> upper c \<or> c \<in> set ''abcdefghijklmnopqrstuvwxyz'' \<or> decimal_digit c \<or> c \<in> set ''._-''"

definition SOURCE_ID :: "string \<Rightarrow> bool" where
  "SOURCE_ID s \<longleftrightarrow> 1 \<le> length s \<and> length s \<le> 64 \<and> list_all handle_char s"

definition AUTHOR_HANDLE :: "string \<Rightarrow> bool" where
  "AUTHOR_HANDLE s \<longleftrightarrow> 1 \<le> length s \<and> length s \<le> 64 \<and> list_all handle_char s"

definition JIRA_ISSUE_KEY :: "string \<Rightarrow> bool" where
  "JIRA_ISSUE_KEY s \<longleftrightarrow>
     (case s of
        [] \<Rightarrow> False
      | c # cs \<Rightarrow> upper c \<and> takeWhile (\<lambda>x. upper x \<or> decimal_digit x) cs \<noteq> []
          \<and> (case dropWhile (\<lambda>x. upper x \<or> decimal_digit x) cs of
               dash # n # ns \<Rightarrow> dash = CHR ''-'' \<and> decimal_digit n \<and> n \<noteq> CHR ''0'' \<and> list_all decimal_digit ns
             | _ \<Rightarrow> False))"

definition ISO_UTC :: "string \<Rightarrow> bool" where
  "ISO_UTC s \<longleftrightarrow>
     list_all2 (\<lambda>p c. if p = CHR ''0'' then decimal_digit c else c = p) ''0000-00-00T00:00:00'' (take 19 s)
     \<and> (let rest = drop 19 s in
        rest = ''Z''
        \<or> (length rest \<in> {3, 4, 5} \<and> hd rest = CHR ''.'' \<and> last rest = CHR ''Z'' \<and> list_all decimal_digit (butlast (tl rest))))"

definition digits_value :: "string \<Rightarrow> nat" where
  "digits_value s = foldl (\<lambda>n c. 10 * n + (of_char c - 48)) 0 s"

definition days_in_month :: "nat \<Rightarrow> nat \<Rightarrow> nat" where
  "days_in_month y m =
     (if m = 2 then (if y mod 4 = 0 \<and> (y mod 100 \<noteq> 0 \<or> y mod 400 = 0) then 29 else 28)
      else if m \<in> {4, 6, 9, 11} then 30 else 31)"

text \<open>
  The code parses the text and compares it with \<^verbatim>\<open>toISOString\<close> of the result. A text of this format
  that is a real instant parses to it and is printed back with three fraction digits; any other text
  either does not parse or is printed differently, since only real instants are printed.
\<close>

definition isStrictIsoUtc :: "string \<Rightarrow> bool" where
  "isStrictIsoUtc s \<longleftrightarrow>
     ISO_UTC s
     \<and> (let part = (\<lambda>i n. digits_value (take n (drop i s)))
        in 1 \<le> part 5 2 \<and> part 5 2 \<le> 12 \<and> 1 \<le> part 8 2 \<and> part 8 2 \<le> days_in_month (part 0 4) (part 5 2)
           \<and> part 11 2 \<le> 23 \<and> part 14 2 \<le> 59 \<and> part 17 2 \<le> 59)"

section \<open>Construction\<close>

text \<open>\<^verbatim>\<open>kind\<close> and \<^verbatim>\<open>contentHash\<close>, sorted by hash and then kind\<close>

definition hash_material :: "TestIntentSourceRef list \<Rightarrow> (string \<times> string) list" where
  "hash_material sources = sort_key (\<lambda>p. p) (map (\<lambda>r. (sr_contentHash r, sr_kind r)) sources)"

definition computeAggregateContentHash ::
  "(json \<Rightarrow> string) \<Rightarrow> TestIntentSourceRef list \<Rightarrow> string \<Rightarrow> string list option \<Rightarrow> string" where
  "computeAggregateContentHash sha256Hex sources policy priorityOrder =
     sha256Hex (sortValue (JObj
       [(''schema'', JStr MULTI_SOURCE_TEST_INTENT_ENVELOPE_SCHEMA_VERSION),
        (''sources'', JArr (map (\<lambda>(h, k). JObj [(''kind'', JStr k), (''contentHash'', JStr h)]) (hash_material sources))),
        (''conflictResolutionPolicy'', JStr policy),
        (''priorityOrder'', JArr (map JStr (if policy = ''priority'' then (case priorityOrder of None \<Rightarrow> [] | Some ks \<Rightarrow> ks) else [])))]))"

text \<open>Cloning a source reference keeps every field.\<close>

definition buildMultiSourceTestIntentEnvelope ::
  "(json \<Rightarrow> string) \<Rightarrow> TestIntentSourceRef list \<Rightarrow> string \<Rightarrow> string list option \<Rightarrow> json option \<Rightarrow> MultiSourceTestIntentEnvelope" where
  "buildMultiSourceTestIntentEnvelope sha256Hex sources policy priorityOrder sourceMixPlan =
     \<lparr> en_sources = sources,
       en_aggregateContentHash = computeAggregateContentHash sha256Hex sources policy priorityOrder,
       en_conflictResolutionPolicy = policy,
       en_priorityOrder = (if policy = ''priority'' then priorityOrder else None),
       en_sourceMixPlan = sourceMixPlan \<rparr>"

section \<open>Validation\<close>

definition issue_at :: "string \<Rightarrow> string \<Rightarrow> MultiSourceEnvelopeIssue" where
  "issue_at code path = \<lparr> ei_code = code, ei_path = Some path, ei_detail = None \<rparr>"

definition issue_with :: "string \<Rightarrow> string \<Rightarrow> string \<Rightarrow> MultiSourceEnvelopeIssue" where
  "issue_with code path detail = \<lparr> ei_code = code, ei_path = Some path, ei_detail = Some detail \<rparr>"

definition when_bad :: "bool \<Rightarrow> MultiSourceEnvelopeIssue \<Rightarrow> MultiSourceEnvelopeIssue list" where
  "when_bad bad i = (if bad then [i] else [])"

text \<open>\<^verbatim>\<open>typeof v === "string" && p(v)\<close>\<close>

definition str_ok :: "(string \<Rightarrow> bool) \<Rightarrow> json option \<Rightarrow> bool" where
  "str_ok p v \<longleftrightarrow> is_str v \<and> p (un_str v)"

definition source_path :: "nat \<Rightarrow> string \<Rightarrow> string" where
  "source_path index field = ''sources['' @ js_string_of_nat index @ '']'' @ field"

definition markdown_hash_issues :: "json \<Rightarrow> nat \<Rightarrow> MultiSourceEnvelopeIssue list" where
  "markdown_hash_issues ref index =
     when_bad (\<not> str_ok HEX64 (jget ref ''redactedMarkdownHash''))
       (issue_at ''markdown_hash_required'' (source_path index ''.redactedMarkdownHash''))
     @ when_bad (\<not> str_ok HEX64 (jget ref ''plainTextDerivativeHash''))
       (issue_at ''markdown_hash_required'' (source_path index ''.plainTextDerivativeHash''))"

definition markdown_hash_forbidden :: "json \<Rightarrow> nat \<Rightarrow> MultiSourceEnvelopeIssue list" where
  "markdown_hash_forbidden ref index =
     when_bad (jget ref ''redactedMarkdownHash'' \<noteq> None)
       (issue_at ''markdown_hash_only_for_markdown'' (source_path index ''.redactedMarkdownHash''))
     @ when_bad (jget ref ''plainTextDerivativeHash'' \<noteq> None)
       (issue_at ''markdown_hash_only_for_markdown'' (source_path index ''.plainTextDerivativeHash''))"

definition custom_format_issues :: "json \<Rightarrow> nat \<Rightarrow> MultiSourceEnvelopeIssue list" where
  "custom_format_issues ref index =
     (case jget ref ''inputFormat'' of
        None \<Rightarrow> [issue_at ''custom_input_format_required'' (source_path index ''.inputFormat'')]
      | Some v \<Rightarrow> when_bad (\<not> str_ok (\<lambda>s. s \<in> set ALL_FORMATS) (Some v))
          (issue_at ''custom_input_format_invalid'' (source_path index ''.inputFormat'')))
     @ (if jget ref ''inputFormat'' \<noteq> Some (JStr ''markdown'')
        then when_bad (jget ref ''markdownSectionPath'' \<noteq> None)
               (issue_with ''markdown_metadata_only_for_custom'' (source_path index ''.markdownSectionPath'') ''markdown_format_required'')
             @ when_bad (jget ref ''noteEntryId'' \<noteq> None)
               (issue_with ''markdown_metadata_only_for_custom'' (source_path index ''.noteEntryId'') ''markdown_format_required'')
             @ markdown_hash_forbidden ref index
        else markdown_hash_issues ref index)"

definition primary_format_issues :: "json \<Rightarrow> nat \<Rightarrow> MultiSourceEnvelopeIssue list" where
  "primary_format_issues ref index =
     when_bad (jget ref ''inputFormat'' \<noteq> None)
       (issue_at ''primary_source_input_format_invalid'' (source_path index ''.inputFormat''))
     @ when_bad (jget ref ''markdownSectionPath'' \<noteq> None)
       (issue_at ''markdown_metadata_only_for_custom'' (source_path index ''.markdownSectionPath''))
     @ when_bad (jget ref ''noteEntryId'' \<noteq> None)
       (issue_at ''markdown_metadata_only_for_custom'' (source_path index ''.noteEntryId''))
     @ markdown_hash_forbidden ref index"

definition jira_kind :: "string \<Rightarrow> bool" where
  "jira_kind kind \<longleftrightarrow> kind = ''jira_rest'' \<or> kind = ''jira_paste''"

definition kind_issues :: "string \<Rightarrow> json \<Rightarrow> nat \<Rightarrow> MultiSourceEnvelopeIssue list" where
  "kind_issues kind ref index =
     (if kind \<in> set SUPPORTING_KINDS
      then (if kind = ''custom_markdown''
            then when_bad (jget ref ''inputFormat'' \<noteq> None)
                   (issue_with ''custom_input_format_invalid'' (source_path index ''.inputFormat'')
                      ''custom_markdown_kind_does_not_use_inputFormat'')
                 @ markdown_hash_issues ref index
            else custom_format_issues ref index)
      else primary_format_issues ref index)
     @ (if jira_kind kind
        then when_bad (jget ref ''canonicalIssueKey'' \<noteq> None \<and> \<not> str_ok JIRA_ISSUE_KEY (jget ref ''canonicalIssueKey''))
               (issue_at ''jira_issue_key_invalid'' (source_path index ''.canonicalIssueKey''))
        else when_bad (jget ref ''canonicalIssueKey'' \<noteq> None)
               (issue_at ''jira_issue_key_only_for_jira'' (source_path index ''.canonicalIssueKey'')))"

definition validateSourceRef :: "json \<Rightarrow> nat \<Rightarrow> MultiSourceEnvelopeIssue list" where
  "validateSourceRef ref index =
     when_bad (\<not> str_ok SOURCE_ID (jget ref ''sourceId'')) (issue_at ''invalid_source_id'' (source_path index ''.sourceId''))
     @ when_bad (\<not> str_ok (\<lambda>s. s \<in> set ALL_KINDS) (jget ref ''kind'')) (issue_at ''invalid_source_kind'' (source_path index ''.kind''))
     @ when_bad (\<not> str_ok HEX64 (jget ref ''contentHash'')) (issue_at ''invalid_content_hash'' (source_path index ''.contentHash''))
     @ when_bad (\<not> str_ok isStrictIsoUtc (jget ref ''capturedAt'')) (issue_at ''invalid_captured_at'' (source_path index ''.capturedAt''))
     @ when_bad (jget ref ''authorHandle'' \<noteq> None \<and> \<not> str_ok AUTHOR_HANDLE (jget ref ''authorHandle''))
         (issue_at ''invalid_author_handle'' (source_path index ''.authorHandle''))
     @ (if str_ok (\<lambda>s. s \<in> set ALL_KINDS) (jget ref ''kind'') then kind_issues (un_str (jget ref ''kind'')) ref index else [])"

text \<open>An optional field is taken over when it is a string.\<close>

definition str_field :: "json \<Rightarrow> string \<Rightarrow> string option" where
  "str_field ref k = (if is_str (jget ref k) then Some (un_str (jget ref k)) else None)"

definition accepted_ref :: "json \<Rightarrow> TestIntentSourceRef" where
  "accepted_ref ref =
     \<lparr> sr_sourceId = un_str (jget ref ''sourceId''), sr_kind = un_str (jget ref ''kind''),
       sr_contentHash = un_str (jget ref ''contentHash''), sr_capturedAt = un_str (jget ref ''capturedAt''),
       sr_authorHandle = str_field ref ''authorHandle'', sr_inputFormat = str_field ref ''inputFormat'',
       sr_noteEntryId = str_field ref ''noteEntryId'', sr_markdownSectionPath = str_field ref ''markdownSectionPath'',
       sr_canonicalIssueKey = str_field ref ''canonicalIssueKey'',
       sr_redactedMarkdownHash = str_field ref ''redactedMarkdownHash'',
       sr_plainTextDerivativeHash = str_field ref ''plainTextDerivativeHash'' \<rparr>"

text \<open>The loop over the raw sources: issues and accepted references with their index.\<close>

fun validate_sources ::
  "nat \<Rightarrow> string list \<Rightarrow> json list \<Rightarrow> MultiSourceEnvelopeIssue list \<times> (TestIntentSourceRef \<times> nat) list" where
  "validate_sources index sourceIdSeen [] = ([], [])"
| "validate_sources index sourceIdSeen (ref # rest) =
     (if \<not> isRecord ref
      then (let (issues, entries) = validate_sources (index + 1) sourceIdSeen rest
            in (issue_with ''invalid_source_kind'' (source_path index []) ''not_an_object'' # issues, entries))
      else if validateSourceRef ref index \<noteq> []
      then (let (issues, entries) = validate_sources (index + 1) sourceIdSeen rest
            in (validateSourceRef ref index @ issues, entries))
      else (let accepted = accepted_ref ref;
                duplicate = sr_sourceId accepted \<in> set sourceIdSeen;
                (issues, entries) = validate_sources (index + 1) (set_add (sr_sourceId accepted) sourceIdSeen) rest
            in (when_bad duplicate (issue_with ''duplicate_source_id'' (source_path index ''.sourceId'') (sr_sourceId accepted))
                  @ issues, (accepted, index) # entries)))"

fun jira_collisions :: "(string \<times> nat) list \<Rightarrow> (TestIntentSourceRef \<times> nat) list \<Rightarrow> MultiSourceEnvelopeIssue list" where
  "jira_collisions seen [] = []"
| "jira_collisions seen ((ref, originalIndex) # rest) =
     (case sr_canonicalIssueKey ref of
        None \<Rightarrow> jira_collisions seen rest
      | Some k \<Rightarrow>
          (case map_of seen k of
             Some firstIdx \<Rightarrow>
               issue_with ''duplicate_jira_paste_collision'' (source_path originalIndex ''.canonicalIssueKey'')
                 (''collides_with_sources['' @ js_string_of_nat firstIdx @ '']'') # jira_collisions seen rest
           | None \<Rightarrow> jira_collisions (AList.update k originalIndex seen) rest))"

definition detectDuplicateJiraPasteCollision :: "(TestIntentSourceRef \<times> nat) list \<Rightarrow> MultiSourceEnvelopeIssue list" where
  "detectDuplicateJiraPasteCollision entries =
     (let jiraSources = filter (\<lambda>(ref, _). jira_kind (sr_kind ref)) entries
      in if length jiraSources < 2 then [] else jira_collisions [] jiraSources)"

definition isValidSourceMixPlan :: "json option \<Rightarrow> bool" where
  "isValidSourceMixPlan v \<longleftrightarrow>
     (case v of
        Some plan \<Rightarrow> isRecord plan \<and> jget plan ''ownerIssue'' = Some (JStr ''#1441'') \<and> str_ok HEX64 (jget plan ''planHash'')
      | None \<Rightarrow> False)"

definition validateSourceMixPlan :: "json option \<Rightarrow> MultiSourceEnvelopeIssue list" where
  "validateSourceMixPlan v =
     when_bad (v \<noteq> None \<and> \<not> isValidSourceMixPlan v) (issue_at ''source_mix_plan_invalid'' ''sourceMixPlan'')"

definition order_path :: "nat \<Rightarrow> string" where
  "order_path i = ''priorityOrder['' @ js_string_of_nat i @ '']''"

text \<open>The loop over the priority order: issues and the kinds seen.\<close>

fun order_entries :: "nat \<Rightarrow> string list \<Rightarrow> json list \<Rightarrow> MultiSourceEnvelopeIssue list \<times> string list" where
  "order_entries i seen [] = ([], seen)"
| "order_entries i seen (v # rest) =
     (if str_ok (\<lambda>s. s \<in> set ALL_KINDS) (Some v)
      then (let (issues, all) = order_entries (i + 1) (set_add (un_str (Some v)) seen) rest
            in (when_bad (un_str (Some v) \<in> set seen)
                  (issue_with ''priority_order_duplicate'' (order_path i) (un_str (Some v))) @ issues, all))
      else (let (issues, all) = order_entries (i + 1) seen rest
            in (issue_at ''priority_order_invalid_kind'' (order_path i) # issues, all)))"

definition validatePriorityOrder :: "string \<Rightarrow> json option \<Rightarrow> TestIntentSourceRef list \<Rightarrow> MultiSourceEnvelopeIssue list" where
  "validatePriorityOrder policy raw sources =
     (if policy \<noteq> ''priority''
      then when_bad (raw \<noteq> None) (issue_with ''priority_order_required'' ''priorityOrder'' ''only_for_priority_policy'')
      else case raw of
          Some (JArr values) \<Rightarrow>
            (let (issues, seen) = order_entries 0 [] values;
                 present = js_set (map sr_kind sources)
             in issues
                @ map (\<lambda>kind. issue_with ''priority_order_incomplete'' ''priorityOrder'' kind)
                    (filter (\<lambda>kind. kind \<notin> set seen) present)
                @ map (\<lambda>v. issue_with ''priority_order_invalid_kind'' ''priorityOrder'' (''not_in_sources:'' @ v))
                    (filter (\<lambda>v. v \<notin> set present) seen))
        | _ \<Rightarrow> [issue_at ''priority_order_required'' ''priorityOrder''])"

fun is_arr :: "json option \<Rightarrow> bool" where
  "is_arr (Some (JArr _)) = True"
| "is_arr _ = False"

definition order_of :: "json \<Rightarrow> string list option" where
  "order_of candidate =
     (if is_arr (jget candidate ''priorityOrder'')
      then Some (map (\<lambda>v. un_str (Some v)) (un_arr (jget candidate ''priorityOrder''))) else None)"

definition head_issues :: "json \<Rightarrow> MultiSourceEnvelopeIssue list" where
  "head_issues candidate =
     when_bad (jget candidate ''version'' \<noteq> Some (JStr MULTI_SOURCE_TEST_INTENT_ENVELOPE_SCHEMA_VERSION))
       (issue_with ''envelope_version_mismatch'' ''version'' (''expected '' @ MULTI_SOURCE_TEST_INTENT_ENVELOPE_SCHEMA_VERSION))
     @ when_bad (\<not> str_ok (\<lambda>s. s \<in> set ALL_POLICIES) (jget candidate ''conflictResolutionPolicy''))
       (issue_at ''invalid_conflict_resolution_policy'' ''conflictResolutionPolicy'')"

definition body_issues :: "json \<Rightarrow> (TestIntentSourceRef \<times> nat) list \<Rightarrow> MultiSourceEnvelopeIssue list" where
  "body_issues candidate entries =
     (let sources = map fst entries
      in when_bad (sources \<noteq> [] \<and> \<not> list_ex (\<lambda>r. sr_kind r \<in> set PRIMARY_KINDS) sources)
           (issue_at ''primary_source_required'' ''sources'')
         @ detectDuplicateJiraPasteCollision entries
         @ (if str_ok (\<lambda>s. s \<in> set ALL_POLICIES) (jget candidate ''conflictResolutionPolicy'')
            then validatePriorityOrder (un_str (jget candidate ''conflictResolutionPolicy''))
                   (jget candidate ''priorityOrder'') sources
            else [])
         @ validateSourceMixPlan (jget candidate ''sourceMixPlan''))"

definition validateMultiSourceTestIntentEnvelope ::
  "(json \<Rightarrow> string) \<Rightarrow> json option \<Rightarrow> MultiSourceEnvelopeIssue list + MultiSourceTestIntentEnvelope" where
  "validateMultiSourceTestIntentEnvelope sha256Hex value =
     (case value of
        None \<Rightarrow> Inl [\<lparr> ei_code = ''envelope_missing'', ei_path = None, ei_detail = None \<rparr>]
      | Some candidate \<Rightarrow>
          if \<not> isRecord candidate then Inl [\<lparr> ei_code = ''envelope_missing'', ei_path = None, ei_detail = None \<rparr>]
          else if \<not> is_arr (jget candidate ''sources'') \<or> un_arr (jget candidate ''sources'') = []
          then Inl (head_issues candidate @ [issue_at ''sources_empty'' ''sources''])
          else
            let (sourceIssues, entries) = validate_sources 0 [] (un_arr (jget candidate ''sources''));
                sources = map fst entries;
                policy = un_str (jget candidate ''conflictResolutionPolicy'');
                issues = head_issues candidate @ sourceIssues @ body_issues candidate entries;
                expected = computeAggregateContentHash sha256Hex sources policy (order_of candidate);
                hash = jget candidate ''aggregateContentHash''
            in if issues \<noteq> [] then Inl issues
               else if \<not> is_str hash then Inl [issue_with ''aggregate_hash_mismatch'' ''aggregateContentHash'' ''missing'']
               else if expected \<noteq> un_str hash
               then Inl [issue_with ''aggregate_hash_mismatch'' ''aggregateContentHash'' expected]
               else Inr \<lparr> en_sources = sources, en_aggregateContentHash = un_str hash, en_conflictResolutionPolicy = policy,
                      en_priorityOrder = order_of candidate,
                      en_sourceMixPlan = (if isValidSourceMixPlan (jget candidate ''sourceMixPlan'')
                        then jget candidate ''sourceMixPlan'' else None) \<rparr>)"

section \<open>Legacy projection and mode gate\<close>

definition isFigmaKind :: "TestIntentSourceRef \<Rightarrow> bool" where
  "isFigmaKind r \<longleftrightarrow> sr_kind r \<in> set [''figma_local_json'', ''figma_plugin'', ''figma_rest'']"

record BusinessTestIntentIrSource =
  bs_kind :: string
  bs_contentHash :: string

definition legacySourceFromMultiSourceEnvelope :: "MultiSourceTestIntentEnvelope \<Rightarrow> BusinessTestIntentIrSource option" where
  "legacySourceFromMultiSourceEnvelope e =
     (case en_sources e of
        [] \<Rightarrow> None
      | first # _ \<Rightarrow>
          let chosen = (case find isFigmaKind (en_sources e) of
                Some r \<Rightarrow> r
              | None \<Rightarrow> (case find (\<lambda>r. sr_kind r \<in> set PRIMARY_KINDS) (en_sources e) of Some r \<Rightarrow> r | None \<Rightarrow> first))
          in Some \<lparr> bs_kind = (if isFigmaKind chosen then sr_kind chosen else ''hybrid''), bs_contentHash = sr_contentHash chosen \<rparr>)"

record MultiSourceModeGateInput =
  mg_testIntelligenceEnvEnabled :: bool
  mg_testIntelligenceStartupEnabled :: bool
  mg_multiSourceEnvEnabled :: bool
  mg_multiSourceStartupEnabled :: bool
  mg_llmCodegenMode :: "string option"

text \<open>The refusal codes; the texts that go with them are constants.\<close>

definition evaluateMultiSourceModeGate :: "MultiSourceModeGateInput \<Rightarrow> bool \<times> string list" where
  "evaluateMultiSourceModeGate input =
     (let refusals =
        (if \<not> mg_testIntelligenceEnvEnabled input \<or> \<not> mg_testIntelligenceStartupEnabled input
         then [''test_intelligence_disabled''] else [])
        @ (if \<not> mg_multiSourceEnvEnabled input then [''multi_source_env_disabled''] else [])
        @ (if \<not> mg_multiSourceStartupEnabled input then [''multi_source_startup_option_disabled''] else [])
        @ (if js_lower (js_trim (case mg_llmCodegenMode input of None \<Rightarrow> ''deterministic'' | Some m \<Rightarrow> m)) \<noteq> ''deterministic''
           then [''llm_codegen_mode_locked''] else [])
      in (refusals = [], refusals))"

definition enforceMultiSourceModeGate :: "MultiSourceModeGateInput \<Rightarrow> string list + unit" where
  "enforceMultiSourceModeGate input =
     (let (allowed, refusals) = evaluateMultiSourceModeGate input in if allowed then Inr () else Inl refusals)"

definition resolveTestIntelligenceMultiSourceEnvEnabled :: "string option \<Rightarrow> bool" where
  "resolveTestIntelligenceMultiSourceEnvEnabled raw \<longleftrightarrow>
     (case raw of None \<Rightarrow> False | Some s \<Rightarrow> js_lower (js_trim s) \<in> set [''1'', ''true'', ''yes'', ''on''])"

end
