(* ===== verification/SourceMix.thy ===== *)
theory SourceMix
  imports SourceEnvelope
begin

text \<open>
  The source-mix planner (\<^verbatim>\<open>packages/multi-source/src/source-mix-planner.ts\<close>) over validated
  envelopes: its refusals, the plan and the hash of the plan. Writing the plan file is not represented.
\<close>

definition SOURCE_MIX_PLAN_SCHEMA_VERSION :: string where
  "SOURCE_MIX_PLAN_SCHEMA_VERSION = ''1.0.0''"

definition SUPPORTED_MIX_KINDS :: "string list" where
  "SUPPORTED_MIX_KINDS = [''figma_only'', ''jira_rest_only'', ''jira_paste_only'', ''figma_jira_rest'', ''figma_jira_paste'',
     ''figma_jira_mixed'', ''jira_mixed'']"

record SourceMixPlanSourceDigest =
  sd_sourceId :: string
  sd_kind :: string
  sd_contentHash :: string
  sd_canonicalIssueKey :: "string option"
  sd_redactedMarkdownHash :: "string option"
  sd_plainTextDerivativeHash :: "string option"

record SourceMixPlan =
  sp_kind :: string
  sp_primarySourceIds :: "string list"
  sp_supportingSourceIds :: "string list"
  sp_visualSidecarRequirement :: string
  sp_promptSections :: "string list"
  sp_sourceDigests :: "SourceMixPlanSourceDigest list"
  sp_sourceMixPlanHash :: string

section \<open>Derived parts of a plan\<close>

definition isJiraKind :: "TestIntentSourceRef \<Rightarrow> bool" where
  "isJiraKind r \<longleftrightarrow> sr_kind r = ''jira_rest'' \<or> sr_kind r = ''jira_paste''"

definition isLegacyCustomKind :: "TestIntentSourceRef \<Rightarrow> bool" where
  "isLegacyCustomKind r \<longleftrightarrow> sr_kind r = ''custom_text'' \<or> sr_kind r = ''custom_structured''"

definition deriveMixKind :: "TestIntentSourceRef list \<Rightarrow> string" where
  "deriveMixKind sources =
     (let hasFigma = list_ex isFigmaKind sources;
          hasJiraRest = list_ex (\<lambda>s. sr_kind s = ''jira_rest'') sources;
          hasJiraPaste = list_ex (\<lambda>s. sr_kind s = ''jira_paste'') sources
      in if hasFigma \<and> \<not> hasJiraRest \<and> \<not> hasJiraPaste then ''figma_only''
         else if \<not> hasFigma \<and> hasJiraRest \<and> \<not> hasJiraPaste then ''jira_rest_only''
         else if \<not> hasFigma \<and> \<not> hasJiraRest \<and> hasJiraPaste then ''jira_paste_only''
         else if hasFigma \<and> hasJiraRest \<and> \<not> hasJiraPaste then ''figma_jira_rest''
         else if hasFigma \<and> \<not> hasJiraRest \<and> hasJiraPaste then ''figma_jira_paste''
         else if hasFigma \<and> hasJiraRest \<and> hasJiraPaste then ''figma_jira_mixed''
         else if \<not> hasFigma \<and> hasJiraRest \<and> hasJiraPaste then ''jira_mixed''
         else ''figma_only'')"

definition deriveVisualSidecarRequirement :: "TestIntentSourceRef list \<Rightarrow> string" where
  "deriveVisualSidecarRequirement sources = (if list_ex isFigmaKind sources then ''optional'' else ''not_applicable'')"

definition derivePromptSections :: "TestIntentSourceRef list \<Rightarrow> string list" where
  "derivePromptSections sources =
     (if list_ex isFigmaKind sources then [''figma_intent''] else [])
     @ (if list_ex isJiraKind sources then [''jira_requirements''] else [])
     @ (if list_ex isLegacyCustomKind sources then [''custom_context''] else [])
     @ (if list_ex (\<lambda>s. sr_kind s = ''custom_markdown'') sources then [''custom_context_markdown''] else [])
     @ (if list_ex isFigmaKind sources \<and> list_ex isJiraKind sources then [''reconciliation_report''] else [])"

definition source_digest :: "TestIntentSourceRef \<Rightarrow> SourceMixPlanSourceDigest" where
  "source_digest s =
     \<lparr> sd_sourceId = sr_sourceId s, sd_kind = sr_kind s, sd_contentHash = sr_contentHash s,
       sd_canonicalIssueKey = sr_canonicalIssueKey s, sd_redactedMarkdownHash = sr_redactedMarkdownHash s,
       sd_plainTextDerivativeHash = sr_plainTextDerivativeHash s \<rparr>"

text \<open>\<^verbatim>\<open>compareSourceDigests\<close> compares the identifier and then the kind.\<close>

definition sort_digests :: "SourceMixPlanSourceDigest list \<Rightarrow> SourceMixPlanSourceDigest list" where
  "sort_digests = sort_key (\<lambda>d. (sd_sourceId d, sd_kind d))"

definition deriveSourceDigests :: "TestIntentSourceRef list \<Rightarrow> SourceMixPlanSourceDigest list" where
  "deriveSourceDigests sources = sort_digests (map source_digest sources)"

definition digest_json :: "SourceMixPlanSourceDigest \<Rightarrow> json" where
  "digest_json d = JObj ([(''sourceId'', JStr (sd_sourceId d)), (''kind'', JStr (sd_kind d)), (''contentHash'', JStr (sd_contentHash d))]
     @ opt_field ''canonicalIssueKey'' JStr (sd_canonicalIssueKey d)
     @ opt_field ''redactedMarkdownHash'' JStr (sd_redactedMarkdownHash d)
     @ opt_field ''plainTextDerivativeHash'' JStr (sd_plainTextDerivativeHash d))"

definition computeSourceMixPlanHash ::
  "(json \<Rightarrow> string) \<Rightarrow> string \<Rightarrow> string list \<Rightarrow> string list \<Rightarrow> string \<Rightarrow> string list \<Rightarrow> SourceMixPlanSourceDigest list option \<Rightarrow> string" where
  "computeSourceMixPlanHash sha256Hex kind primarySourceIds supportingSourceIds visual promptSections sourceDigests =
     sha256Hex (sortValue (JObj
       [(''schema'', JStr SOURCE_MIX_PLAN_SCHEMA_VERSION), (''kind'', JStr kind),
        (''primarySourceIds'', JArr (map JStr (js_sort primarySourceIds))),
        (''supportingSourceIds'', JArr (map JStr (js_sort supportingSourceIds))),
        (''visualSidecarRequirement'', JStr visual),
        (''promptSections'', JArr (map JStr promptSections)),
        (''sourceDigests'', JArr (case sourceDigests of None \<Rightarrow> [] | Some ds \<Rightarrow> map digest_json (sort_digests ds)))]))"

section \<open>Refusals\<close>

text \<open>\<^verbatim>\<open>collectJiraIssueKeys\<close>: identifiers of Jira sources by issue key\<close>

definition collectJiraIssueKeys :: "TestIntentSourceRef list \<Rightarrow> (string \<times> string list) list" where
  "collectJiraIssueKeys sources =
     fold (\<lambda>s keys.
       if \<not> isJiraKind s then keys
       else case sr_canonicalIssueKey s of
           None \<Rightarrow> keys
         | Some k \<Rightarrow>
             if k = [] then keys
             else AList.update k (case map_of keys k of Some ids \<Rightarrow> ids @ [sr_sourceId s] | None \<Rightarrow> [sr_sourceId s]) keys)
       sources []"

definition with_key :: "string \<Rightarrow> string \<Rightarrow> TestIntentSourceRef list \<Rightarrow> TestIntentSourceRef list" where
  "with_key kind k sources = filter (\<lambda>s. sr_kind s = kind \<and> sr_canonicalIssueKey s = Some k) sources"

definition option_hex :: "string option \<Rightarrow> bool" where
  "option_hex v \<longleftrightarrow> (case v of None \<Rightarrow> False | Some h \<Rightarrow> HEX64 h)"

definition markdown_source_issues :: "nat \<Rightarrow> TestIntentSourceRef \<Rightarrow> MultiSourceEnvelopeIssue list" where
  "markdown_source_issues index s =
     (if sr_kind s = ''custom_markdown''
      then when_bad (sr_inputFormat s \<noteq> None)
             (issue_with ''custom_markdown_input_format_invalid'' (source_path index ''.inputFormat'')
                ''custom_markdown_kind_does_not_use_inputFormat'')
           @ when_bad (\<not> option_hex (sr_redactedMarkdownHash s))
             (issue_at ''custom_markdown_hash_required'' (source_path index ''.redactedMarkdownHash''))
           @ when_bad (\<not> option_hex (sr_plainTextDerivativeHash s))
             (issue_at ''custom_markdown_hash_required'' (source_path index ''.plainTextDerivativeHash''))
      else [])"

definition collectPlannerIssues :: "TestIntentSourceRef list \<Rightarrow> bool \<Rightarrow> MultiSourceEnvelopeIssue list" where
  "collectPlannerIssues sources allowDuplicate =
     (if \<not> list_ex (\<lambda>s. sr_kind s \<in> set PRIMARY_KINDS) sources
      then [\<lparr> ei_code = ''primary_source_required'', ei_path = None, ei_detail = None \<rparr>]
      else
        concat (map (\<lambda>(index, s). markdown_source_issues index s) (enumerate 0 sources))
        @ List.map_filter (\<lambda>(k, ids).
            if length ids > 1 \<and> with_key ''jira_rest'' k sources \<noteq> [] \<and> with_key ''jira_paste'' k sources \<noteq> [] \<and> \<not> allowDuplicate
            then Some (issue_with ''duplicate_jira_issue_key'' ''sources'' k) else None)
            (collectJiraIssueKeys sources)
        @ when_bad (deriveMixKind sources \<notin> set SUPPORTED_MIX_KINDS)
            \<lparr> ei_code = ''unsupported_source_mix'', ei_path = None, ei_detail = Some (deriveMixKind sources) \<rparr>)"

definition buildPlan :: "(json \<Rightarrow> string) \<Rightarrow> TestIntentSourceRef list \<Rightarrow> SourceMixPlan" where
  "buildPlan sha256Hex sources =
     (let primary = map sr_sourceId (filter (\<lambda>s. sr_kind s \<in> set PRIMARY_KINDS) sources);
          supporting = map sr_sourceId (filter (\<lambda>s. sr_kind s \<in> set SUPPORTING_KINDS) sources);
          digests = deriveSourceDigests sources
      in \<lparr> sp_kind = deriveMixKind sources, sp_primarySourceIds = primary, sp_supportingSourceIds = supporting,
           sp_visualSidecarRequirement = deriveVisualSidecarRequirement sources,
           sp_promptSections = derivePromptSections sources, sp_sourceDigests = digests,
           sp_sourceMixPlanHash = computeSourceMixPlanHash sha256Hex (deriveMixKind sources) primary supporting
             (deriveVisualSidecarRequirement sources) (derivePromptSections sources) (Some digests) \<rparr>)"

definition planSourceMix ::
  "(json \<Rightarrow> string) \<Rightarrow> MultiSourceTestIntentEnvelope \<Rightarrow> bool \<Rightarrow> MultiSourceEnvelopeIssue list + SourceMixPlan" where
  "planSourceMix sha256Hex envelope allowDuplicate =
     (let issues = collectPlannerIssues (en_sources envelope) allowDuplicate
      in if issues \<noteq> [] then Inl issues else Inr (buildPlan sha256Hex (en_sources envelope)))"

end
