(* ===== verification/SourceMixProps.thy ===== *)
theory SourceMixProps
  imports SourceMix
begin

text \<open>
  What validation of a source envelope guarantees, that it accepts exactly the well-formed envelopes,
  that the planner never refuses a validated envelope, and that hashes do not depend on the order of
  the sources.
\<close>

section \<open>Well-formed envelopes\<close>

definition format_ok :: "TestIntentSourceRef \<Rightarrow> bool" where
  "format_ok r \<longleftrightarrow>
     (if sr_kind r = ''custom_markdown''
      then sr_inputFormat r = None \<and> option_hex (sr_redactedMarkdownHash r) \<and> option_hex (sr_plainTextDerivativeHash r)
      else if sr_kind r \<in> set SUPPORTING_KINDS
      then (case sr_inputFormat r of
              None \<Rightarrow> False
            | Some f \<Rightarrow> f \<in> set ALL_FORMATS
                \<and> (if f = ''markdown'' then option_hex (sr_redactedMarkdownHash r) \<and> option_hex (sr_plainTextDerivativeHash r)
                   else sr_markdownSectionPath r = None \<and> sr_noteEntryId r = None
                     \<and> sr_redactedMarkdownHash r = None \<and> sr_plainTextDerivativeHash r = None))
      else sr_inputFormat r = None \<and> sr_markdownSectionPath r = None \<and> sr_noteEntryId r = None
        \<and> sr_redactedMarkdownHash r = None \<and> sr_plainTextDerivativeHash r = None)"

definition ref_ok :: "TestIntentSourceRef \<Rightarrow> bool" where
  "ref_ok r \<longleftrightarrow> SOURCE_ID (sr_sourceId r) \<and> sr_kind r \<in> set ALL_KINDS \<and> HEX64 (sr_contentHash r)
     \<and> isStrictIsoUtc (sr_capturedAt r) \<and> pred_option AUTHOR_HANDLE (sr_authorHandle r) \<and> format_ok r
     \<and> (if jira_kind (sr_kind r) then pred_option JIRA_ISSUE_KEY (sr_canonicalIssueKey r) else sr_canonicalIssueKey r = None)"

definition order_ok :: "string \<Rightarrow> string list option \<Rightarrow> TestIntentSourceRef list \<Rightarrow> bool" where
  "order_ok policy order sources \<longleftrightarrow>
     (if policy = ''priority'' then (case order of None \<Rightarrow> False | Some ks \<Rightarrow> distinct ks \<and> set ks = sr_kind ` set sources)
      else order = None)"

definition issue_keys :: "TestIntentSourceRef list \<Rightarrow> string list" where
  "issue_keys sources = List.map_filter sr_canonicalIssueKey sources"

definition well_formed_envelope :: "(json \<Rightarrow> string) \<Rightarrow> MultiSourceTestIntentEnvelope \<Rightarrow> bool" where
  "well_formed_envelope sha256Hex e \<longleftrightarrow>
     list_all ref_ok (en_sources e)
     \<and> distinct (map sr_sourceId (en_sources e))
     \<and> list_ex (\<lambda>r. sr_kind r \<in> set PRIMARY_KINDS) (en_sources e)
     \<and> distinct (issue_keys (en_sources e))
     \<and> en_conflictResolutionPolicy e \<in> set ALL_POLICIES
     \<and> order_ok (en_conflictResolutionPolicy e) (en_priorityOrder e) (en_sources e)
     \<and> validateSourceMixPlan (en_sourceMixPlan e) = []
     \<and> en_aggregateContentHash e =
         computeAggregateContentHash sha256Hex (en_sources e) (en_conflictResolutionPolicy e) (en_priorityOrder e)"

text \<open>The JSON form of an envelope.\<close>

definition source_json :: "TestIntentSourceRef \<Rightarrow> json" where
  "source_json r = JObj
     ([(''sourceId'', JStr (sr_sourceId r)), (''kind'', JStr (sr_kind r)), (''contentHash'', JStr (sr_contentHash r)),
       (''capturedAt'', JStr (sr_capturedAt r))]
      @ opt_field ''authorHandle'' JStr (sr_authorHandle r) @ opt_field ''inputFormat'' JStr (sr_inputFormat r)
      @ opt_field ''noteEntryId'' JStr (sr_noteEntryId r) @ opt_field ''markdownSectionPath'' JStr (sr_markdownSectionPath r)
      @ opt_field ''canonicalIssueKey'' JStr (sr_canonicalIssueKey r)
      @ opt_field ''redactedMarkdownHash'' JStr (sr_redactedMarkdownHash r)
      @ opt_field ''plainTextDerivativeHash'' JStr (sr_plainTextDerivativeHash r))"

definition envelope_json :: "MultiSourceTestIntentEnvelope \<Rightarrow> json" where
  "envelope_json e = JObj
     ([(''version'', JStr MULTI_SOURCE_TEST_INTENT_ENVELOPE_SCHEMA_VERSION), (''sources'', JArr (map source_json (en_sources e))),
       (''aggregateContentHash'', JStr (en_aggregateContentHash e)),
       (''conflictResolutionPolicy'', JStr (en_conflictResolutionPolicy e))]
      @ opt_field ''priorityOrder'' (\<lambda>ks. JArr (map JStr ks)) (en_priorityOrder e)
      @ opt_field ''sourceMixPlan'' (\<lambda>p. p) (en_sourceMixPlan e))"

section \<open>Source references\<close>

lemma when_bad_Nil [simp]: "when_bad bad i = [] \<longleftrightarrow> \<not> bad"
  by (simp add: when_bad_def)

lemma isRecord_source_json [simp]: "isRecord (source_json r)"
  by (simp add: source_json_def)

lemma jget_source_json [simp]:
  "jget (source_json r) ''sourceId'' = Some (JStr (sr_sourceId r))"
  "jget (source_json r) ''kind'' = Some (JStr (sr_kind r))"
  "jget (source_json r) ''contentHash'' = Some (JStr (sr_contentHash r))"
  "jget (source_json r) ''capturedAt'' = Some (JStr (sr_capturedAt r))"
  "jget (source_json r) ''authorHandle'' = map_option JStr (sr_authorHandle r)"
  "jget (source_json r) ''inputFormat'' = map_option JStr (sr_inputFormat r)"
  "jget (source_json r) ''noteEntryId'' = map_option JStr (sr_noteEntryId r)"
  "jget (source_json r) ''markdownSectionPath'' = map_option JStr (sr_markdownSectionPath r)"
  "jget (source_json r) ''canonicalIssueKey'' = map_option JStr (sr_canonicalIssueKey r)"
  "jget (source_json r) ''redactedMarkdownHash'' = map_option JStr (sr_redactedMarkdownHash r)"
  "jget (source_json r) ''plainTextDerivativeHash'' = map_option JStr (sr_plainTextDerivativeHash r)"
  by (simp_all add: source_json_def del: map_of_append split: option.split)

lemma str_ok_JStr [simp]: "str_ok p (Some (JStr s)) = p s"
  by (simp add: str_ok_def)

lemma str_ok_cases: "str_ok p v \<longleftrightarrow> (\<exists>s. v = Some (JStr s) \<and> p s)"
  by (cases v rule: is_str.cases) (simp_all add: str_ok_def)

lemma accepted_source_json [simp]: "accepted_ref (source_json r) = r"
proof -
  have "str_field (source_json r) k = f r" if "jget (source_json r) k = map_option JStr (f r)" for k f
    using that by (cases "f r") (simp_all add: str_field_def)
  then show ?thesis by (simp add: accepted_ref_def)
qed

lemmas ref_check_defs =
  validateSourceRef_def kind_issues_def custom_format_issues_def primary_format_issues_def markdown_hash_issues_def
  markdown_hash_forbidden_def

lemma ref_check_index: "validateSourceRef ref i = [] \<longleftrightarrow> validateSourceRef ref 0 = []"
  by (simp add: ref_check_defs split: option.split)

lemma str_field_simps:
  "jget ref k = None \<Longrightarrow> str_field ref k = None"
  "jget ref k = Some (JStr s) \<Longrightarrow> str_field ref k = Some s"
  by (simp_all add: str_field_def)

lemma markdown_hashes: "markdown_hash_issues ref i = [] \<Longrightarrow>
    option_hex (str_field ref ''redactedMarkdownHash'') \<and> option_hex (str_field ref ''plainTextDerivativeHash'')"
  by (auto simp: markdown_hash_issues_def str_ok_cases str_field_simps option_hex_def)

lemma no_markdown_hashes: "markdown_hash_forbidden ref i = [] \<Longrightarrow>
    str_field ref ''redactedMarkdownHash'' = None \<and> str_field ref ''plainTextDerivativeHash'' = None"
  by (simp add: markdown_hash_forbidden_def str_field_simps)

lemma accepted_format_ok: "kind_issues (un_str (jget ref ''kind'')) ref i = [] \<Longrightarrow> format_ok (accepted_ref ref)"
  using markdown_hashes [of ref i] no_markdown_hashes [of ref i]
  by (auto simp: kind_issues_def format_ok_def accepted_ref_def custom_format_issues_def primary_format_issues_def
      str_ok_cases str_field_simps SUPPORTING_KINDS_def split: if_splits option.splits)

lemma ref_check_Nil:
  "validateSourceRef ref i = [] \<longleftrightarrow>
     str_ok SOURCE_ID (jget ref ''sourceId'') \<and> str_ok (\<lambda>s. s \<in> set ALL_KINDS) (jget ref ''kind'')
     \<and> str_ok HEX64 (jget ref ''contentHash'') \<and> str_ok isStrictIsoUtc (jget ref ''capturedAt'')
     \<and> (jget ref ''authorHandle'' = None \<or> str_ok AUTHOR_HANDLE (jget ref ''authorHandle''))
     \<and> kind_issues (un_str (jget ref ''kind'')) ref i = []"
  by (cases "str_ok (\<lambda>s. s \<in> set ALL_KINDS) (jget ref ''kind'')") (simp_all add: validateSourceRef_def)

lemma optional_str: "jget ref k = None \<or> str_ok p (jget ref k) \<Longrightarrow> pred_option p (str_field ref k)"
  by (auto simp: str_ok_cases str_field_simps)

lemma accepted_issue_key:
  "kind_issues kind ref i = [] \<Longrightarrow>
     if jira_kind kind then pred_option JIRA_ISSUE_KEY (str_field ref ''canonicalIssueKey'')
     else str_field ref ''canonicalIssueKey'' = None"
  unfolding kind_issues_def using optional_str [of ref "''canonicalIssueKey''" JIRA_ISSUE_KEY]
  by (auto simp: str_field_simps)

lemma accepted_ref_ok: "validateSourceRef ref i = [] \<Longrightarrow> ref_ok (accepted_ref ref)"
proof -
  assume "validateSourceRef ref i = []"
  note none = this [unfolded ref_check_Nil]
  from none have issue_key: "if jira_kind (un_str (jget ref ''kind''))
      then pred_option JIRA_ISSUE_KEY (str_field ref ''canonicalIssueKey'') else str_field ref ''canonicalIssueKey'' = None"
    by (intro accepted_issue_key [of _ ref i]) simp
  from none have "pred_option AUTHOR_HANDLE (str_field ref ''authorHandle'')" by (intro optional_str) simp
  moreover from none have "format_ok (accepted_ref ref)" by (intro accepted_format_ok [of ref i]) simp
  ultimately show ?thesis
    using none issue_key unfolding ref_ok_def str_ok_def by (simp add: accepted_ref_def)
qed

lemma markdown_issues_json:
  "markdown_hash_issues (source_json r) i = [] \<longleftrightarrow> option_hex (sr_redactedMarkdownHash r) \<and> option_hex (sr_plainTextDerivativeHash r)"
  by (cases "sr_redactedMarkdownHash r"; cases "sr_plainTextDerivativeHash r")
    (simp_all add: markdown_hash_issues_def option_hex_def str_ok_def)

lemma kind_issues_json:
  "format_ok r \<Longrightarrow> (if jira_kind (sr_kind r) then pred_option JIRA_ISSUE_KEY (sr_canonicalIssueKey r) else sr_canonicalIssueKey r = None) \<Longrightarrow>
     kind_issues (sr_kind r) (source_json r) i = []"
  by (cases "sr_canonicalIssueKey r")
    (auto simp: kind_issues_def format_ok_def custom_format_issues_def primary_format_issues_def markdown_issues_json
      markdown_hash_forbidden_def SUPPORTING_KINDS_def split: if_splits option.splits)

lemma ref_ok_validates: "ref_ok r \<Longrightarrow> validateSourceRef (source_json r) i = []"
  using kind_issues_json [of r i] by (cases "sr_authorHandle r") (simp_all add: ref_ok_def validateSourceRef_def)

section \<open>Lists of sources\<close>

lemma accepted_sources:
  "fst (validate_sources i seen js) = [] \<Longrightarrow>
     map fst (snd (validate_sources i seen js)) = map accepted_ref js
     \<and> list_all ref_ok (map accepted_ref js)
     \<and> distinct (map sr_sourceId (map accepted_ref js))
     \<and> sr_sourceId ` set (map accepted_ref js) \<inter> set seen = {}"
proof (induction i seen js rule: validate_sources.induct)
  case (2 i seen ref rest)
  have object: "isRecord ref" and clean: "validateSourceRef ref i = []"
    using 2(4) by (auto simp: split_beta split: if_splits)
  then have new: "sr_sourceId (accepted_ref ref) \<notin> set seen"
    and rest: "fst (validate_sources (i + 1) (set_add (sr_sourceId (accepted_ref ref)) seen) rest) = []"
    using 2(4) by (auto simp: Let_def split_beta)
  from 2(3) object clean rest new accepted_ref_ok [OF clean] show ?case
    by (auto simp: Let_def split_beta)
qed simp

lemma well_formed_sources:
  "list_all ref_ok rs \<Longrightarrow> distinct (map sr_sourceId rs) \<Longrightarrow> sr_sourceId ` set rs \<inter> set seen = {} \<Longrightarrow>
     fst (validate_sources i seen (map source_json rs)) = [] \<and> map fst (snd (validate_sources i seen (map source_json rs))) = rs"
proof (induction rs arbitrary: i seen)
  case (Cons r rs)
  then show ?case
    using Cons.IH [of "set_add (sr_sourceId r) seen" "Suc i"] by (auto simp: ref_ok_validates Let_def split_beta)
qed simp

lemma issue_keys_Cons: "issue_keys (r # rs) = (case sr_canonicalIssueKey r of None \<Rightarrow> issue_keys rs | Some k \<Rightarrow> k # issue_keys rs)"
  by (simp add: issue_keys_def List.map_filter_simps split: option.split)

lemma collisions_Nil:
  "jira_collisions seen entries = [] \<longleftrightarrow>
     distinct (issue_keys (map fst entries)) \<and> set (issue_keys (map fst entries)) \<inter> dom (map_of seen) = {}"
proof (induction entries arbitrary: seen)
  case (Cons entry rest)
  obtain ref i where entry: "entry = (ref, i)" by (cases entry)
  show ?case
  proof (cases "sr_canonicalIssueKey ref")
    case (Some k)
    then show ?thesis by (cases "map_of seen k") (auto simp: entry issue_keys_Cons Cons split: if_splits)
  qed (simp add: entry issue_keys_Cons Cons)
qed (simp add: issue_keys_def List.map_filter_simps)

lemma issue_keys_jira:
  assumes "list_all ref_ok rs"
  shows "issue_keys (filter (\<lambda>r. jira_kind (sr_kind r)) rs) = issue_keys rs"
  using assms by (induction rs) (auto simp: issue_keys_Cons ref_ok_def split: option.split if_splits)

lemma short_keys: "length rs < 2 \<Longrightarrow> distinct (issue_keys rs)"
  by (cases rs) (auto simp: issue_keys_Cons issue_keys_def List.map_filter_simps split: option.split)

lemma collision_check_Nil:
  assumes "list_all ref_ok (map fst entries)"
  shows "detectDuplicateJiraPasteCollision entries = [] \<longleftrightarrow> distinct (issue_keys (map fst entries))"
proof -
  let ?jira = "filter (\<lambda>(ref, _). jira_kind (sr_kind ref)) entries"
  have "map fst ?jira = filter (\<lambda>r. jira_kind (sr_kind r)) (map fst entries)"
    by (induction entries) auto
  then have keys: "issue_keys (map fst ?jira) = issue_keys (map fst entries)"
    using issue_keys_jira [OF assms] by simp
  show ?thesis
    using short_keys [of "map fst ?jira"] unfolding keys
    by (simp add: detectDuplicateJiraPasteCollision_def collisions_Nil Let_def keys)
qed

section \<open>The priority order\<close>

lemma order_entries_Nil:
  "fst (order_entries i seen vs) = [] \<longleftrightarrow>
     (\<exists>ks. vs = map JStr ks \<and> set ks \<subseteq> set ALL_KINDS \<and> distinct ks \<and> set ks \<inter> set seen = {})"
proof (induction vs arbitrary: i seen)
  case (Cons v vs)
  have cons: "(\<exists>ks. v # vs = map JStr ks \<and> P ks) \<longleftrightarrow> (\<exists>k ks. v = JStr k \<and> vs = map JStr ks \<and> P (k # ks))" for P
    by (auto simp: Cons_eq_map_conv)
  show ?case
    unfolding cons by (auto simp: Cons str_ok_cases Let_def split_beta)
qed simp

lemma order_entries_seen:
  "fst (order_entries i seen (map JStr ks)) = [] \<Longrightarrow> set (snd (order_entries i seen (map JStr ks))) = set ks \<union> set seen"
  by (induction ks arbitrary: i seen) (auto simp: Let_def split_beta split: if_splits)

lemma kinds_allowed: "list_all ref_ok rs \<Longrightarrow> sr_kind ` set rs \<subseteq> set ALL_KINDS"
  by (auto simp: list_all_iff ref_ok_def)

lemma priority_check_Nil:
  assumes "list_all ref_ok sources"
  shows "validatePriorityOrder policy raw sources = [] \<longleftrightarrow>
    (\<exists>order. raw = map_option (\<lambda>ks. JArr (map JStr ks)) order \<and> order_ok policy order sources)"
proof (cases "policy = ''priority''")
  case True
  have empty: "filter P xs = [] \<longleftrightarrow> (\<forall>x\<in>set xs. \<not> P x)" for P and xs :: "string list"
    by (simp add: filter_empty_conv)
  have "validatePriorityOrder policy (Some (JArr vs)) sources = [] \<longleftrightarrow>
      (\<exists>ks. vs = map JStr ks \<and> distinct ks \<and> set ks = sr_kind ` set sources)" for vs
  proof
    assume clean: "validatePriorityOrder policy (Some (JArr vs)) sources = []"
    then have fst: "fst (order_entries 0 [] vs) = []"
      using True by (simp add: validatePriorityOrder_def Let_def split_beta)
    then obtain ks where ks: "vs = map JStr ks" "distinct ks" by (auto simp: order_entries_Nil)
    have "set ks = sr_kind ` set sources"
      using clean True order_entries_seen [of 0 "[]" ks] fst
      by (auto simp: ks validatePriorityOrder_def Let_def split_beta empty)
    with ks show "\<exists>ks. vs = map JStr ks \<and> distinct ks \<and> set ks = sr_kind ` set sources" by blast
  next
    assume "\<exists>ks. vs = map JStr ks \<and> distinct ks \<and> set ks = sr_kind ` set sources"
    then obtain ks where ks: "vs = map JStr ks" "distinct ks" "set ks = sr_kind ` set sources" by blast
    then have "fst (order_entries 0 [] (map JStr ks)) = []"
      using kinds_allowed [OF assms] by (auto simp: order_entries_Nil)
    with order_entries_seen [OF this] show "validatePriorityOrder policy (Some (JArr vs)) sources = []"
      using True by (simp add: ks validatePriorityOrder_def Let_def split_beta empty)
  qed
  then show ?thesis
    using True by (cases raw rule: is_arr.cases)
      (auto simp: validatePriorityOrder_def order_ok_def map_option_case split: option.splits)
next
  case False
  then show ?thesis by (auto simp: validatePriorityOrder_def order_ok_def)
qed

section \<open>Validation\<close>

lemma order_of_json:
  "jget candidate ''priorityOrder'' = map_option (\<lambda>ks. JArr (map JStr ks)) order \<Longrightarrow> order_of candidate = order"
  by (cases order) (simp_all add: order_of_def comp_def)

lemma plan_kept: "validateSourceMixPlan v = [] \<Longrightarrow> (if isValidSourceMixPlan v then v else None) = v"
  by (auto simp: validateSourceMixPlan_def)

lemma body_check_Nil:
  assumes "list_all ref_ok (map fst entries)" "entries \<noteq> []"
    and "str_ok (\<lambda>s. s \<in> set ALL_POLICIES) (jget candidate ''conflictResolutionPolicy'')"
  shows "body_issues candidate entries = [] \<longleftrightarrow>
    list_ex (\<lambda>r. sr_kind r \<in> set PRIMARY_KINDS) (map fst entries) \<and> distinct (issue_keys (map fst entries))
    \<and> (\<exists>order. jget candidate ''priorityOrder'' = map_option (\<lambda>ks. JArr (map JStr ks)) order
         \<and> order_ok (un_str (jget candidate ''conflictResolutionPolicy'')) order (map fst entries))
    \<and> validateSourceMixPlan (jget candidate ''sourceMixPlan'') = []"
  using assms(2,3) by (simp add: body_issues_def Let_def collision_check_Nil [OF assms(1)] priority_check_Nil [OF assms(1)])

lemma head_check_Nil:
  "head_issues candidate = [] \<longleftrightarrow>
     jget candidate ''version'' = Some (JStr MULTI_SOURCE_TEST_INTENT_ENVELOPE_SCHEMA_VERSION)
     \<and> str_ok (\<lambda>s. s \<in> set ALL_POLICIES) (jget candidate ''conflictResolutionPolicy'')"
  by (simp add: head_issues_def)

lemma validated_well_formed:
  assumes "validateMultiSourceTestIntentEnvelope sha256Hex offered = Inr e"
  shows "well_formed_envelope sha256Hex e"
proof -
  from assms obtain candidate where offered: "offered = Some candidate" "isRecord candidate"
    "is_arr (jget candidate ''sources'')" "un_arr (jget candidate ''sources'') \<noteq> []"
    by (auto simp: validateMultiSourceTestIntentEnvelope_def split: option.splits if_splits)
  let ?js = "un_arr (jget candidate ''sources'')"
  let ?entries = "snd (validate_sources 0 [] ?js)"
  let ?policy = "un_str (jget candidate ''conflictResolutionPolicy'')"
  have clean: "head_issues candidate = []" "fst (validate_sources 0 [] ?js) = []" "body_issues candidate ?entries = []"
    and hash: "computeAggregateContentHash sha256Hex (map fst ?entries) ?policy (order_of candidate) =
        un_str (jget candidate ''aggregateContentHash'')"
    and e: "e = \<lparr> en_sources = map fst ?entries, en_aggregateContentHash = un_str (jget candidate ''aggregateContentHash''),
        en_conflictResolutionPolicy = ?policy, en_priorityOrder = order_of candidate,
        en_sourceMixPlan = (if isValidSourceMixPlan (jget candidate ''sourceMixPlan'')
          then jget candidate ''sourceMixPlan'' else None) \<rparr>"
    using assms offered
    by (auto simp: validateMultiSourceTestIntentEnvelope_def Let_def split_beta split: if_splits)
  note sources = accepted_sources [OF clean(2)]
  then have ok: "list_all ref_ok (map fst ?entries)" and ids: "distinct (map sr_sourceId (map fst ?entries))"
    by simp_all
  have "?entries \<noteq> []" using sources offered(4) by auto
  note body = body_check_Nil [OF ok this, of candidate]
  have policy: "str_ok (\<lambda>s. s \<in> set ALL_POLICIES) (jget candidate ''conflictResolutionPolicy'')"
    using clean(1) by (simp add: head_check_Nil)
  from clean(3) body [OF policy] obtain order where order:
    "jget candidate ''priorityOrder'' = map_option (\<lambda>ks. JArr (map JStr ks)) order" "order_ok ?policy order (map fst ?entries)"
    by blast
  from order_of_json [OF order(1)] order(2) clean(3) body [OF policy] ok ids policy hash show ?thesis
    unfolding well_formed_envelope_def e by (simp add: plan_kept str_ok_def)
qed

lemma jget_envelope_json [simp]:
  "jget (envelope_json e) ''version'' = Some (JStr MULTI_SOURCE_TEST_INTENT_ENVELOPE_SCHEMA_VERSION)"
  "jget (envelope_json e) ''sources'' = Some (JArr (map source_json (en_sources e)))"
  "jget (envelope_json e) ''aggregateContentHash'' = Some (JStr (en_aggregateContentHash e))"
  "jget (envelope_json e) ''conflictResolutionPolicy'' = Some (JStr (en_conflictResolutionPolicy e))"
  "jget (envelope_json e) ''priorityOrder'' = map_option (\<lambda>ks. JArr (map JStr ks)) (en_priorityOrder e)"
  "jget (envelope_json e) ''sourceMixPlan'' = en_sourceMixPlan e"
  by (simp_all add: envelope_json_def option.map_ident del: map_of_append split: option.split)

lemma well_formed_validates:
  assumes "well_formed_envelope sha256Hex e"
  shows "validateMultiSourceTestIntentEnvelope sha256Hex (Some (envelope_json e)) = Inr e"
proof -
  note wf = assms [unfolded well_formed_envelope_def]
  let ?entries = "snd (validate_sources 0 [] (map source_json (en_sources e)))"
  from wf have clean: "fst (validate_sources 0 [] (map source_json (en_sources e))) = []" "map fst ?entries = en_sources e"
    using well_formed_sources [of "en_sources e" "[]" 0] by simp_all
  have some: "en_sources e \<noteq> []" using wf by auto
  then have "?entries \<noteq> []" using clean(2) by auto
  with wf clean(2) have body: "body_issues (envelope_json e) ?entries = []"
    by (subst body_check_Nil) (simp_all, blast)
  have head: "head_issues (envelope_json e) = []" using wf by (simp add: head_check_Nil)
  have order: "order_of (envelope_json e) = en_priorityOrder e" by (rule order_of_json) simp
  have object: "isRecord (envelope_json e)" by (simp add: envelope_json_def)
  have plan: "(if isValidSourceMixPlan (en_sourceMixPlan e) then jget (envelope_json e) ''sourceMixPlan'' else None) =
      en_sourceMixPlan e"
    unfolding jget_envelope_json using wf by (intro plan_kept) simp
  have hash: "computeAggregateContentHash sha256Hex (en_sources e) (en_conflictResolutionPolicy e) (en_priorityOrder e) =
      en_aggregateContentHash e"
    using wf by simp
  show ?thesis
    by (simp add: plan hash validateMultiSourceTestIntentEnvelope_def Let_def split_beta clean body head order object some split del: if_split)
qed

lemma refusals_named: "validateMultiSourceTestIntentEnvelope sha256Hex offered = Inl issues \<Longrightarrow> issues \<noteq> []"
  by (auto simp: validateMultiSourceTestIntentEnvelope_def Let_def split_beta split: option.splits if_splits)

text \<open>A validator that reads exactly the rendered forms of good values.\<close>

locale exact_validator =
  fixes validate :: "'i \<Rightarrow> 'e list + 'o"
    and good :: "'o \<Rightarrow> bool"
    and render :: "'o \<Rightarrow> 'i"
  assumes sound: "validate i = Inr x \<Longrightarrow> good x"
    and complete: "good x \<Longrightarrow> validate (render x) = Inr x"
    and refusal_named: "validate i = Inl es \<Longrightarrow> es \<noteq> []"
begin

lemma outcome: "case validate i of Inl es \<Rightarrow> es \<noteq> [] | Inr x \<Rightarrow> good x"
  using sound refusal_named by (simp split: sum.split)

lemma accepts_iff: "validate (render x) = Inr x \<longleftrightarrow> good x"
  using sound complete by blast

lemma render_inj: "good x \<Longrightarrow> good y \<Longrightarrow> render x = render y \<Longrightarrow> x = y"
  by (metis complete sum.inject(2))

end

interpretation envelopes: exact_validator "validateMultiSourceTestIntentEnvelope sha256Hex" "well_formed_envelope sha256Hex"
  "\<lambda>e. Some (envelope_json e)" for sha256Hex
  by unfold_locales (fact validated_well_formed well_formed_validates refusals_named)+

text \<open>C16: Validation of a source envelope is exact. Whatever JSON value is offered, it is either refused with an
  issue or read as a well-formed envelope: valid references with distinct identifiers, a primary
  source, no issue key on two sources, a priority order that lists exactly the kinds present if and
  only if the policy asks for one, and the right aggregate hash. Conversely the JSON form of an
  envelope is accepted and read back unchanged exactly when the envelope is well-formed.\<close>

theorem envelope_validation_exact:
  "(case validateMultiSourceTestIntentEnvelope sha256Hex offered of
      Inl issues \<Rightarrow> issues \<noteq> [] | Inr accepted \<Rightarrow> well_formed_envelope sha256Hex accepted)
   \<and> (validateMultiSourceTestIntentEnvelope sha256Hex (Some (envelope_json e)) = Inr e \<longleftrightarrow> well_formed_envelope sha256Hex e)"
  using envelopes.outcome envelopes.accepts_iff by blast

section \<open>Planning\<close>

lemma issue_key_unique:
  "distinct (issue_keys rs) \<Longrightarrow> r \<in> set rs \<Longrightarrow> r' \<in> set rs \<Longrightarrow> sr_canonicalIssueKey r = Some k \<Longrightarrow>
     sr_canonicalIssueKey r' = Some k \<Longrightarrow> r = r'"
proof (induction rs)
  case (Cons x rs)
  have listed: "s \<in> set rs \<Longrightarrow> sr_canonicalIssueKey s = Some k \<Longrightarrow> k \<in> set (issue_keys rs)" for s
    by (auto simp: issue_keys_def List.map_filter_def intro!: image_eqI [of _ _ s])
  show ?case using Cons listed [of r] listed [of r'] by (auto simp: issue_keys_Cons split: option.splits)
qed simp

lemma no_shared_key:
  assumes "distinct (issue_keys rs)"
  shows "with_key ''jira_rest'' k rs = [] \<or> with_key ''jira_paste'' k rs = []"
proof (rule ccontr)
  assume "\<not> ?thesis"
  then obtain r r' where "r \<in> set rs" "sr_kind r = ''jira_rest''" "sr_canonicalIssueKey r = Some k"
    "r' \<in> set rs" "sr_kind r' = ''jira_paste''" "sr_canonicalIssueKey r' = Some k"
    by (auto simp: with_key_def filter_empty_conv)
  with issue_key_unique [OF assms, of r r' k] show False by auto
qed

lemma mix_kind_supported: "deriveMixKind sources \<in> set SUPPORTED_MIX_KINDS"
  by (simp add: deriveMixKind_def SUPPORTED_MIX_KINDS_def Let_def)

lemma markdown_source_clean: "ref_ok s \<Longrightarrow> markdown_source_issues i s = []"
  by (simp add: ref_ok_def format_ok_def markdown_source_issues_def)

lemma map_filter_none: "\<forall>x\<in>set xs. f x = None \<Longrightarrow> List.map_filter f xs = []"
  by (induction xs) (simp_all add: List.map_filter_simps)

lemma well_formed_plannable:
  assumes "well_formed_envelope sha256Hex e"
  shows "collectPlannerIssues (en_sources e) allowDuplicate = []"
proof -
  note wf = assms [unfolded well_formed_envelope_def]
  have "concat (map (\<lambda>(i, s). markdown_source_issues i s) (enumerate 0 (en_sources e))) = []"
    using wf by (auto simp: list_all_iff in_set_enumerate_eq markdown_source_clean)
  moreover have "distinct (issue_keys (en_sources e))" using wf by simp
  then have "with_key ''jira_rest'' k (en_sources e) \<noteq> [] \<Longrightarrow> with_key ''jira_paste'' k (en_sources e) = []" for k
    using no_shared_key by blast
  ultimately show ?thesis
    using wf by (auto simp: collectPlannerIssues_def mix_kind_supported intro!: map_filter_none)
qed

lemma kinds_split: "sr_kind s \<in> set ALL_KINDS \<Longrightarrow> sr_kind s \<in> set SUPPORTING_KINDS \<longleftrightarrow> sr_kind s \<notin> set PRIMARY_KINDS"
  by (auto simp: ALL_KINDS_def SUPPORTING_KINDS_def PRIMARY_KINDS_def)

lemma ids_partitioned:
  "list_all ref_ok rs \<Longrightarrow>
     mset (map sr_sourceId (filter (\<lambda>s. sr_kind s \<in> set PRIMARY_KINDS) rs) @
       map sr_sourceId (filter (\<lambda>s. sr_kind s \<in> set SUPPORTING_KINDS) rs)) = mset (map sr_sourceId rs)"
  by (induction rs) (auto simp: ref_ok_def kinds_split)

text \<open>C17: The planner accepts every envelope that validation accepts, with or without the exception for duplicate
  issue keys. The plan assigns each source to exactly one of the primary and supporting lists, names
  a supported mix, and asks for a reconciliation report exactly when Figma and Jira sources meet.\<close>

theorem validated_envelope_is_planned:
  "case validateMultiSourceTestIntentEnvelope sha256Hex offered of
     Inl issues \<Rightarrow> issues \<noteq> []
   | Inr e \<Rightarrow>
       (case planSourceMix sha256Hex e allowDuplicate of
          Inl issues \<Rightarrow> False
        | Inr plan \<Rightarrow>
            mset (sp_primarySourceIds plan @ sp_supportingSourceIds plan) = mset (map sr_sourceId (en_sources e))
            \<and> sp_primarySourceIds plan \<noteq> []
            \<and> sp_kind plan \<in> set SUPPORTED_MIX_KINDS
            \<and> (''reconciliation_report'' \<in> set (sp_promptSections plan) \<longleftrightarrow>
                 list_ex isFigmaKind (en_sources e) \<and> list_ex isJiraKind (en_sources e)))"
proof (cases "validateMultiSourceTestIntentEnvelope sha256Hex offered")
  case (Inl issues)
  then show ?thesis using envelopes.refusal_named [OF Inl] by simp
next
  case (Inr e)
  note wf = envelopes.sound [OF Inr]
  have planned: "planSourceMix sha256Hex e allowDuplicate = Inr (buildPlan sha256Hex (en_sources e))"
    by (simp add: planSourceMix_def well_formed_plannable [OF wf])
  have "filter (\<lambda>s. sr_kind s \<in> set PRIMARY_KINDS) (en_sources e) \<noteq> []"
    using wf by (auto simp: well_formed_envelope_def list_ex_iff filter_empty_conv)
  moreover have "''reconciliation_report'' \<in> set (derivePromptSections (en_sources e)) \<longleftrightarrow>
      list_ex isFigmaKind (en_sources e) \<and> list_ex isJiraKind (en_sources e)"
    by (simp add: derivePromptSections_def)
  ultimately show ?thesis
    using ids_partitioned [of "en_sources e"] wf
    by (simp add: Inr planned buildPlan_def Let_def mix_kind_supported well_formed_envelope_def)
qed

section \<open>Order of the sources\<close>

lemma sort_key_id_mset: "mset xs = mset ys \<Longrightarrow> sort_key (\<lambda>x. x) xs = sort_key (\<lambda>x. x) ys"
  by (rule properties_for_sort) simp_all

lemma list_ex_mset: "mset xs = mset ys \<Longrightarrow> list_ex P xs = list_ex P ys"
  by (drule mset_eq_setD) (simp add: list_ex_iff)

lemma digests_mset:
  assumes "mset rs' = mset rs" "distinct (map sr_sourceId rs)"
  shows "deriveSourceDigests rs' = deriveSourceDigests rs"
  unfolding deriveSourceDigests_def sort_digests_def
proof (rule sort_key_inj_key_eq)
  show "mset (map source_digest rs') = mset (sort_key (\<lambda>d. (sd_sourceId d, sd_kind d)) (map source_digest rs))"
    using assms(1) by simp
  show "inj_on (\<lambda>d. (sd_sourceId d, sd_kind d)) (set (map source_digest rs'))"
  proof (rule inj_onI)
    fix d d'
    assume "d \<in> set (map source_digest rs')" "d' \<in> set (map source_digest rs')"
    then obtain r r' where r: "r \<in> set rs" "r' \<in> set rs" "d = source_digest r" "d' = source_digest r'"
      using mset_eq_setD [OF assms(1)] by auto
    assume "(sd_sourceId d, sd_kind d) = (sd_sourceId d', sd_kind d')"
    then have "sr_sourceId r = sr_sourceId r'" by (simp add: r source_digest_def)
    with r assms(2) show "d = d'" by (auto simp: distinct_map dest: inj_onD)
  qed
qed simp

text \<open>Neither hash depends on the order in which the sources are listed: envelopes with the same sources and
  distinct identifiers have the same aggregate hash under the same policy and priority order, and
  their plans have the same hash.\<close>

theorem hashes_ignore_source_order:
  "if mset sources' = mset sources \<and> distinct (map sr_sourceId sources)
   then computeAggregateContentHash sha256Hex sources' policy order = computeAggregateContentHash sha256Hex sources policy order
      \<and> sp_sourceMixPlanHash (buildPlan sha256Hex sources') = sp_sourceMixPlanHash (buildPlan sha256Hex sources)
   else True"
proof (cases "mset sources' = mset sources \<and> distinct (map sr_sourceId sources)")
  case True
  then have same: "mset sources' = mset sources" and ids: "distinct (map sr_sourceId sources)" by simp_all
  have material: "hash_material sources' = hash_material sources"
    unfolding hash_material_def using same by (intro sort_key_id_mset) simp
  have "js_sort (map sr_sourceId (filter P sources')) = js_sort (map sr_sourceId (filter P sources))" for P
    unfolding js_sort_def using same by (intro sort_key_id_mset) simp
  then show ?thesis
    unfolding computeAggregateContentHash_def buildPlan_def computeSourceMixPlanHash_def Let_def
      deriveMixKind_def deriveVisualSidecarRequirement_def derivePromptSections_def
    by (simp add: True material digests_mset [OF same ids] list_ex_mset [OF same])
next
  case False
  then show ?thesis by (simp only: if_False)
qed

end
