(* ===== verification/Idempotency.thy ===== *)
theory Idempotency
  imports Json
begin

text \<open>
  The idempotency cache in front of the model gateway
  (\<^verbatim>\<open>packages/model-gateway/src/llm-gateway-idempotency.ts\<close>): keys, the memory and disk layers with
  their time to live, and the counters. HMAC-SHA256 is a parameter on secrets and canonical JSON
  values; each operation takes the secret its provider yields (\<^const>\<open>None\<close> when it is no string), the
  clock reading, and whether the write to disk succeeds. Operations do not overlap. A file that cannot
  be read is absent, one whose text is no JSON is \<open>Unparsable\<close>.
\<close>

section \<open>Data\<close>

record GatewayIdempotencyInputs =
  gi_jobId :: string
  gi_roleStepId :: string
  gi_attempt :: js_number
  gi_promptVersion :: string
  gi_schemaHash :: string
  gi_inputHash :: string

record GatewayIdempotencyKey =
  gk_jobId :: string
  gk_roleStepId :: string
  gk_attempt :: rat
  gk_promptVersion :: string
  gk_schemaHash :: string
  gk_inputHash :: string
  gk_hmac :: string

record LlmGenerationSuccess =
  gs_content :: "json option"
  gs_rawTextContent :: "string option"
  gs_constrainedDecoding :: "json option"
  gs_finishReason :: string
  gs_inputTokens :: "rat option"
  gs_outputTokens :: "rat option"
  gs_modelDeployment :: string
  gs_modelRevision :: string
  gs_gatewayRelease :: string
  gs_attempt :: rat

record MemoryEntry =
  me_key :: GatewayIdempotencyKey
  me_result :: LlmGenerationSuccess
  me_storedAtMs :: rat

record GatewayIdempotencyMetrics =
  gm_replays :: nat
  gm_stores :: nat
  gm_misses :: nat
  gm_diskReads :: nat
  gm_diskReadFailures :: nat
  gm_diskWrites :: nat
  gm_diskWriteFailures :: nat
  gm_memoryEvictions :: nat
  gm_ttlExpirations :: nat

datatype disk_file = Unparsable | Parsed json

datatype idempotency_error =
    Empty_secret | Secret_not_a_string | Bad_ttl | Bad_maxEntries | Empty_diskRoot
  | Empty_field string | Bad_digest_field string | Bad_attempt | Non_hex_path | Unequal_buffers

record CreateLlmGatewayIdempotencyCacheOptions =
  io_literalSecret :: "string option"
  io_ttlMs :: "js_number option"
  io_maxEntries :: "js_number option"
  io_diskRoot :: "string option"

record cache_config =
  cc_ttlMs :: rat
  cc_maxEntries :: nat
  cc_disk :: bool

record idempotency_cache =
  ic_memory :: "(string \<times> MemoryEntry) list"
  ic_counters :: GatewayIdempotencyMetrics
  ic_files :: "string \<rightharpoonup> disk_file"

datatype lookup_result = Hit GatewayIdempotencyKey LlmGenerationSuccess | Miss GatewayIdempotencyKey

section \<open>Construction and keys\<close>

definition GATEWAY_IDEMPOTENCY_KEY_SCHEMA_VERSION :: string where
  "GATEWAY_IDEMPOTENCY_KEY_SCHEMA_VERSION = ''1.0.0''"

definition DEFAULT_GATEWAY_IDEMPOTENCY_TTL_MS :: rat where
  "DEFAULT_GATEWAY_IDEMPOTENCY_TTL_MS = 24 * 60 * 60 * 1000"

definition DEFAULT_GATEWAY_IDEMPOTENCY_MAX_ENTRIES :: nat where
  "DEFAULT_GATEWAY_IDEMPOTENCY_MAX_ENTRIES = 1024"

definition validateOptions :: "CreateLlmGatewayIdempotencyCacheOptions \<Rightarrow> idempotency_error option" where
  "validateOptions opts =
     (if io_literalSecret opts = Some [] then Some Empty_secret
      else if (case io_ttlMs opts of None \<Rightarrow> False | Some t \<Rightarrow> \<not> isFinite t \<or> \<not> js_greater t 0) then Some Bad_ttl
      else if (case io_maxEntries opts of None \<Rightarrow> False | Some n \<Rightarrow> \<not> isInteger n \<or> js_less n 1) then Some Bad_maxEntries
      else if io_diskRoot opts = Some [] then Some Empty_diskRoot
      else None)"

definition no_counts :: GatewayIdempotencyMetrics where
  "no_counts = \<lparr> gm_replays = 0, gm_stores = 0, gm_misses = 0, gm_diskReads = 0, gm_diskReadFailures = 0, gm_diskWrites = 0,
     gm_diskWriteFailures = 0, gm_memoryEvictions = 0, gm_ttlExpirations = 0 \<rparr>"

text \<open>A new instance starts with the files earlier instances have left.\<close>

definition createLlmGatewayIdempotencyCache ::
  "CreateLlmGatewayIdempotencyCacheOptions \<Rightarrow> (string \<rightharpoonup> disk_file) \<Rightarrow> idempotency_error + cache_config \<times> idempotency_cache" where
  "createLlmGatewayIdempotencyCache opts files =
     (case validateOptions opts of
        Some e \<Rightarrow> Inl e
      | None \<Rightarrow> Inr
          (\<lparr> cc_ttlMs = (case io_ttlMs opts of Some (Fin t) \<Rightarrow> t | _ \<Rightarrow> DEFAULT_GATEWAY_IDEMPOTENCY_TTL_MS),
             cc_maxEntries = (case io_maxEntries opts of Some (Fin n) \<Rightarrow> nat \<lfloor>n\<rfloor> | _ \<Rightarrow> DEFAULT_GATEWAY_IDEMPOTENCY_MAX_ENTRIES),
             cc_disk = (io_diskRoot opts \<noteq> None) \<rparr>,
           \<lparr> ic_memory = [], ic_counters = no_counts, ic_files = files \<rparr>))"

definition hex_digest :: "string \<Rightarrow> bool" where
  "hex_digest s \<longleftrightarrow> length s = 64 \<and> list_all (\<lambda>c. c \<in> set ''0123456789abcdef'') s"

fun first_failing :: "(bool \<times> idempotency_error) list \<Rightarrow> idempotency_error option" where
  "first_failing [] = None"
| "first_failing ((bad, e) # rest) = (if bad then Some e else first_failing rest)"

definition validateInputs :: "GatewayIdempotencyInputs \<Rightarrow> idempotency_error option" where
  "validateInputs i = first_failing
     [(gi_jobId i = [], Empty_field ''jobId''), (gi_roleStepId i = [], Empty_field ''roleStepId''),
      (gi_promptVersion i = [], Empty_field ''promptVersion''), (\<not> hex_digest (gi_schemaHash i), Bad_digest_field ''schemaHash''),
      (\<not> hex_digest (gi_inputHash i), Bad_digest_field ''inputHash''),
      (\<not> isInteger (gi_attempt i) \<or> js_less (gi_attempt i) 1, Bad_attempt)]"

fun finite_value :: "js_number \<Rightarrow> rat" where
  "finite_value (Fin q) = q"
| "finite_value _ = 0"

definition toCanonicalInputs :: "GatewayIdempotencyInputs \<Rightarrow> json" where
  "toCanonicalInputs i = JObj
     [(''attempt'', JNum (finite_value (gi_attempt i))), (''inputHash'', JStr (gi_inputHash i)), (''jobId'', JStr (gi_jobId i)),
      (''promptVersion'', JStr (gi_promptVersion i)), (''roleStepId'', JStr (gi_roleStepId i)), (''schemaHash'', JStr (gi_schemaHash i))]"

definition computeGatewayIdempotencyHmac ::
  "(string \<Rightarrow> json \<Rightarrow> string) \<Rightarrow> GatewayIdempotencyInputs \<Rightarrow> string option \<Rightarrow> idempotency_error + string" where
  "computeGatewayIdempotencyHmac hmac i secret =
     (case secret of
        None \<Rightarrow> Inl Secret_not_a_string
      | Some s \<Rightarrow> if s = [] then Inl Empty_secret else Inr (hmac s (sortValue (toCanonicalInputs i))))"

definition computeKey ::
  "(string \<Rightarrow> json \<Rightarrow> string) \<Rightarrow> string option \<Rightarrow> GatewayIdempotencyInputs \<Rightarrow> idempotency_error + GatewayIdempotencyKey" where
  "computeKey hmac secret i =
     (case validateInputs i of
        Some e \<Rightarrow> Inl e
      | None \<Rightarrow>
          (case computeGatewayIdempotencyHmac hmac i secret of
             Inl e \<Rightarrow> Inl e
           | Inr h \<Rightarrow> Inr \<lparr> gk_jobId = gi_jobId i, gk_roleStepId = gi_roleStepId i, gk_attempt = finite_value (gi_attempt i),
               gk_promptVersion = gi_promptVersion i, gk_schemaHash = gi_schemaHash i, gk_inputHash = gi_inputHash i, gk_hmac = h \<rparr>))"

section \<open>Files\<close>

fun hex_value :: "char \<Rightarrow> nat option" where
  "hex_value c =
     (case map_of (zip ''0123456789abcdef'' [0 ..< 16] @ zip ''ABCDEF'' [10 ..< 16]) c of None \<Rightarrow> None | Some n \<Rightarrow> Some n)"

text \<open>\<^verbatim>\<open>Buffer.from(s, "hex")\<close> stops at the first pair that is not hexadecimal.\<close>

fun hex_bytes :: "string \<Rightarrow> nat list" where
  "hex_bytes (a # b # rest) =
     (case (hex_value a, hex_value b) of (Some x, Some y) \<Rightarrow> (16 * x + y) # hex_bytes rest | _ \<Rightarrow> [])"
| "hex_bytes _ = []"

text \<open>\<^verbatim>\<open>timingSafeEqual\<close> raises on buffers of different length.\<close>

definition hmacMatches :: "string \<Rightarrow> string \<Rightarrow> idempotency_error + bool" where
  "hmacMatches a b =
     (if length a \<noteq> length b then Inr False
      else if length (hex_bytes a) \<noteq> length (hex_bytes b) then Inl Unequal_buffers
      else Inr (hex_bytes a = hex_bytes b))"

definition key_json :: "GatewayIdempotencyKey \<Rightarrow> json" where
  "key_json k = JObj
     [(''schemaVersion'', JStr GATEWAY_IDEMPOTENCY_KEY_SCHEMA_VERSION), (''jobId'', JStr (gk_jobId k)),
      (''roleStepId'', JStr (gk_roleStepId k)), (''attempt'', JNum (gk_attempt k)), (''promptVersion'', JStr (gk_promptVersion k)),
      (''schemaHash'', JStr (gk_schemaHash k)), (''inputHash'', JStr (gk_inputHash k)), (''hmac'', JStr (gk_hmac k))]"

definition success_json :: "LlmGenerationSuccess \<Rightarrow> json" where
  "success_json r = JObj
     ([(''outcome'', JStr ''success''), (''finishReason'', JStr (gs_finishReason r)),
       (''usage'', JObj (opt_field ''inputTokens'' JNum (gs_inputTokens r) @ opt_field ''outputTokens'' JNum (gs_outputTokens r))),
       (''modelDeployment'', JStr (gs_modelDeployment r)), (''modelRevision'', JStr (gs_modelRevision r)),
       (''gatewayRelease'', JStr (gs_gatewayRelease r)), (''attempt'', JNum (gs_attempt r))]
      @ opt_field ''content'' (\<lambda>c. c) (gs_content r) @ opt_field ''rawTextContent'' JStr (gs_rawTextContent r)
      @ opt_field ''constrainedDecoding'' (\<lambda>c. c) (gs_constrainedDecoding r))"

definition serialiseDiskEntry :: "MemoryEntry \<Rightarrow> disk_file" where
  "serialiseDiskEntry entry = Parsed (sortValue (JObj
     [(''schemaVersion'', JStr GATEWAY_IDEMPOTENCY_KEY_SCHEMA_VERSION), (''storedAtMs'', JNum (me_storedAtMs entry)),
      (''key'', key_json (me_key entry)), (''result'', success_json (me_result entry))]))"

text \<open>\<^verbatim>\<open>typeof v === "object" && v !== null\<close>; an array has none of the fields.\<close>

fun is_object :: "json option \<Rightarrow> bool" where
  "is_object (Some (JObj _)) = True"
| "is_object (Some (JArr _)) = True"
| "is_object _ = False"

definition field :: "json option \<Rightarrow> string \<Rightarrow> json option" where
  "field v k = Option.bind v (\<lambda>j. jget j k)"

definition parseKey :: "json option \<Rightarrow> GatewayIdempotencyKey option" where
  "parseKey v =
     (if \<not> is_object v \<or> field v ''schemaVersion'' \<noteq> Some (JStr GATEWAY_IDEMPOTENCY_KEY_SCHEMA_VERSION)
        \<or> \<not> list_all (\<lambda>k. is_str (field v k)) [''jobId'', ''roleStepId'', ''promptVersion'', ''schemaHash'', ''inputHash'', ''hmac'']
        \<or> \<not> is_int (field v ''attempt'')
      then None
      else Some \<lparr> gk_jobId = un_str (field v ''jobId''), gk_roleStepId = un_str (field v ''roleStepId''),
        gk_attempt = un_num (field v ''attempt''), gk_promptVersion = un_str (field v ''promptVersion''),
        gk_schemaHash = un_str (field v ''schemaHash''), gk_inputHash = un_str (field v ''inputHash''),
        gk_hmac = un_str (field v ''hmac'') \<rparr>)"

definition ALLOWED_FINISH_REASONS :: "string list" where
  "ALLOWED_FINISH_REASONS = [''stop'', ''length'', ''content_filter'', ''tool_calls'', ''other'']"

definition num_field :: "json option \<Rightarrow> string \<Rightarrow> rat option" where
  "num_field v k = (if is_num (field v k) then Some (un_num (field v k)) else None)"

definition parseSuccess :: "json option \<Rightarrow> LlmGenerationSuccess option" where
  "parseSuccess v =
     (if \<not> is_object v \<or> field v ''outcome'' \<noteq> Some (JStr ''success'')
        \<or> \<not> list_all (\<lambda>k. is_str (field v k)) [''modelDeployment'', ''modelRevision'', ''gatewayRelease'', ''finishReason'']
        \<or> \<not> is_int (field v ''attempt'')
        \<or> un_str (field v ''finishReason'') \<notin> set ALLOWED_FINISH_REASONS
        \<or> \<not> is_object (field v ''usage'')
      then None
      else Some \<lparr> gs_content = field v ''content'', gs_rawTextContent = None, gs_constrainedDecoding = None,
        gs_finishReason = un_str (field v ''finishReason''),
        gs_inputTokens = num_field (field v ''usage'') ''inputTokens'', gs_outputTokens = num_field (field v ''usage'') ''outputTokens'',
        gs_modelDeployment = un_str (field v ''modelDeployment''), gs_modelRevision = un_str (field v ''modelRevision''),
        gs_gatewayRelease = un_str (field v ''gatewayRelease''), gs_attempt = un_num (field v ''attempt'') \<rparr>)"

definition parseDiskEntry :: "disk_file \<Rightarrow> GatewayIdempotencyKey \<Rightarrow> idempotency_error + MemoryEntry option" where
  "parseDiskEntry file expectedKey =
     (case file of
        Unparsable \<Rightarrow> Inr None
      | Parsed envelope \<Rightarrow>
          if \<not> is_object (Some envelope) \<or> jget envelope ''schemaVersion'' \<noteq> Some (JStr GATEWAY_IDEMPOTENCY_KEY_SCHEMA_VERSION)
             \<or> \<not> is_num (jget envelope ''storedAtMs'') then Inr None
          else case parseKey (jget envelope ''key'') of
              None \<Rightarrow> Inr None
            | Some k \<Rightarrow>
                (case hmacMatches (gk_hmac k) (gk_hmac expectedKey) of
                   Inl e \<Rightarrow> Inl e
                 | Inr False \<Rightarrow> Inr None
                 | Inr True \<Rightarrow>
                     Inr (map_option (\<lambda>r. \<lparr> me_key = k, me_result = r, me_storedAtMs = un_num (jget envelope ''storedAtMs'') \<rparr>)
                       (parseSuccess (jget envelope ''result'')))))"

text \<open>Raw text and other fields that must not be persisted are dropped.\<close>

definition sanitiseResultForStorage :: "LlmGenerationSuccess \<Rightarrow> LlmGenerationSuccess" where
  "sanitiseResultForStorage r = r\<lparr> gs_rawTextContent := None, gs_constrainedDecoding := None \<rparr>"

section \<open>Operations\<close>

definition isFresh :: "cache_config \<Rightarrow> rat \<Rightarrow> rat \<Rightarrow> bool" where
  "isFresh cfg storedAtMs nowMs \<longleftrightarrow> nowMs - storedAtMs < cc_ttlMs cfg"

definition evictOldest :: "idempotency_cache \<Rightarrow> idempotency_cache" where
  "evictOldest st =
     (case ic_memory st of
        [] \<Rightarrow> st
      | _ # rest \<Rightarrow> st\<lparr> ic_memory := rest,
          ic_counters := (ic_counters st)\<lparr> gm_memoryEvictions := gm_memoryEvictions (ic_counters st) + 1 \<rparr> \<rparr>)"

definition tryDiskRead ::
  "cache_config \<Rightarrow> GatewayIdempotencyKey \<Rightarrow> idempotency_cache \<Rightarrow> idempotency_cache \<times> (idempotency_error + MemoryEntry option)" where
  "tryDiskRead cfg k st =
     (if \<not> cc_disk cfg then (st, Inr None)
      else if \<not> hex_digest (gk_hmac k) then (st, Inl Non_hex_path)
      else
        let failed = st\<lparr> ic_counters := (ic_counters st)\<lparr> gm_diskReadFailures := gm_diskReadFailures (ic_counters st) + 1 \<rparr> \<rparr>
        in case ic_files st (gk_hmac k) of
             None \<Rightarrow> (failed, Inr None)
           | Some file \<Rightarrow>
               (case parseDiskEntry file k of
                  Inl e \<Rightarrow> (st, Inl e)
                | Inr None \<Rightarrow> (failed, Inr None)
                | Inr (Some entry) \<Rightarrow>
                    (st\<lparr> ic_counters := (ic_counters st)\<lparr> gm_diskReads := gm_diskReads (ic_counters st) + 1 \<rparr> \<rparr>, Inr (Some entry))))"

definition persistDiskEntry ::
  "cache_config \<Rightarrow> bool \<Rightarrow> MemoryEntry \<Rightarrow> idempotency_cache \<Rightarrow> idempotency_cache \<times> idempotency_error option" where
  "persistDiskEntry cfg written entry st =
     (if \<not> cc_disk cfg then (st, None)
      else if \<not> hex_digest (gk_hmac (me_key entry)) then (st, Some Non_hex_path)
      else if written
      then (st\<lparr> ic_files := (ic_files st)(gk_hmac (me_key entry) \<mapsto> serialiseDiskEntry entry),
               ic_counters := (ic_counters st)\<lparr> gm_diskWrites := gm_diskWrites (ic_counters st) + 1 \<rparr> \<rparr>, None)
      else (st\<lparr> ic_counters := (ic_counters st)\<lparr> gm_diskWriteFailures := gm_diskWriteFailures (ic_counters st) + 1 \<rparr> \<rparr>, None))"

definition count_replay :: "idempotency_cache \<Rightarrow> idempotency_cache" where
  "count_replay st = st\<lparr> ic_counters := (ic_counters st)\<lparr> gm_replays := gm_replays (ic_counters st) + 1 \<rparr> \<rparr>"

definition count_miss :: "idempotency_cache \<Rightarrow> idempotency_cache" where
  "count_miss st = st\<lparr> ic_counters := (ic_counters st)\<lparr> gm_misses := gm_misses (ic_counters st) + 1 \<rparr> \<rparr>"

definition count_expiry :: "idempotency_cache \<Rightarrow> idempotency_cache" where
  "count_expiry st = st\<lparr> ic_counters := (ic_counters st)\<lparr> gm_ttlExpirations := gm_ttlExpirations (ic_counters st) + 1 \<rparr> \<rparr>"

text \<open>The part of \<^verbatim>\<open>lookup\<close> that follows a miss in memory.\<close>

definition lookup_disk ::
  "cache_config \<Rightarrow> rat \<Rightarrow> GatewayIdempotencyKey \<Rightarrow> idempotency_cache \<Rightarrow> idempotency_cache \<times> (idempotency_error + lookup_result)" where
  "lookup_disk cfg nowMs k st =
     (case tryDiskRead cfg k st of
        (st', Inl e) \<Rightarrow> (st', Inl e)
      | (st', Inr None) \<Rightarrow> (count_miss st', Inr (Miss k))
      | (st', Inr (Some entry)) \<Rightarrow>
          if \<not> isFresh cfg (me_storedAtMs entry) nowMs then (count_miss (count_expiry st'), Inr (Miss k))
          else (case hmacMatches (gk_hmac (me_key entry)) (gk_hmac k) of
                  Inl e \<Rightarrow> (st', Inl e)
                | Inr True \<Rightarrow> (count_replay (st'\<lparr> ic_memory := AList.update (gk_hmac k) entry (ic_memory st') \<rparr>),
                    Inr (Hit k (me_result entry)))
                | Inr False \<Rightarrow> (count_miss st', Inr (Miss k))))"

definition lookup_cache ::
  "(string \<Rightarrow> json \<Rightarrow> string) \<Rightarrow> cache_config \<Rightarrow> string option \<Rightarrow> rat \<Rightarrow> GatewayIdempotencyInputs \<Rightarrow> idempotency_cache \<Rightarrow>
   idempotency_cache \<times> (idempotency_error + lookup_result)" where
  "lookup_cache hmac cfg secret nowMs inputs st =
     (case computeKey hmac secret inputs of
        Inl e \<Rightarrow> (st, Inl e)
      | Inr k \<Rightarrow>
          (case map_of (ic_memory st) (gk_hmac k) of
             None \<Rightarrow> lookup_disk cfg nowMs k st
           | Some entry \<Rightarrow>
               if \<not> isFresh cfg (me_storedAtMs entry) nowMs
               then lookup_disk cfg nowMs k (count_expiry (st\<lparr> ic_memory := AList.delete (gk_hmac k) (ic_memory st) \<rparr>))
               else (case hmacMatches (gk_hmac (me_key entry)) (gk_hmac k) of
                       Inl e \<Rightarrow> (st, Inl e)
                     | Inr True \<Rightarrow> (count_replay st, Inr (Hit k (me_result entry)))
                     | Inr False \<Rightarrow> lookup_disk cfg nowMs k st)))"

definition store_result ::
  "cache_config \<Rightarrow> rat \<Rightarrow> bool \<Rightarrow> GatewayIdempotencyKey \<Rightarrow> LlmGenerationSuccess \<Rightarrow> idempotency_cache \<Rightarrow>
   idempotency_cache \<times> idempotency_error option" where
  "store_result cfg nowMs written k result st =
     (let room = (if length (ic_memory st) \<ge> cc_maxEntries cfg \<and> gk_hmac k \<notin> fst ` set (ic_memory st) then evictOldest st else st);
          entry = \<lparr> me_key = k, me_result = sanitiseResultForStorage result, me_storedAtMs = nowMs \<rparr>
      in persistDiskEntry cfg written entry
           (room\<lparr> ic_memory := AList.update (gk_hmac k) entry (ic_memory room),
                  ic_counters := (ic_counters room)\<lparr> gm_stores := gm_stores (ic_counters room) + 1 \<rparr> \<rparr>))"

end
