(* ===== verification/IdempotencyProps.thy ===== *)
theory IdempotencyProps
  imports Idempotency
begin

text \<open>
  Every sequence of lookups, stores and restarts of the idempotency cache: what a hit returns, what
  survives a restart, and when the memory layer stays within its cap.
\<close>

section \<open>Sequences of operations\<close>

datatype cache_op =
    Do_lookup "string option" rat GatewayIdempotencyInputs
  | Do_store rat bool GatewayIdempotencyKey LlmGenerationSuccess
  | Do_restart

text \<open>A restart replaces the instance and keeps the files.\<close>

fun cache_step :: "(string \<Rightarrow> json \<Rightarrow> string) \<Rightarrow> cache_config \<Rightarrow> idempotency_cache \<Rightarrow> cache_op \<Rightarrow> idempotency_cache" where
  "cache_step hmac cfg st (Do_lookup secret now inputs) = fst (lookup_cache hmac cfg secret now inputs st)"
| "cache_step hmac cfg st (Do_store now written k result) = fst (store_result cfg now written k result st)"
| "cache_step hmac cfg st Do_restart = \<lparr> ic_memory = [], ic_counters = no_counts, ic_files = ic_files st \<rparr>"

definition fresh_cache :: idempotency_cache where
  "fresh_cache = \<lparr> ic_memory = [], ic_counters = no_counts, ic_files = Map.empty \<rparr>"

definition cache_after :: "(string \<Rightarrow> json \<Rightarrow> string) \<Rightarrow> cache_config \<Rightarrow> cache_op list \<Rightarrow> idempotency_cache" where
  "cache_after hmac cfg ops = foldl (cache_step hmac cfg) fresh_cache ops"

text \<open>A result up to the order of the keys in its content.\<close>

definition canonical_result :: "LlmGenerationSuccess \<Rightarrow> LlmGenerationSuccess" where
  "canonical_result r = r\<lparr> gs_content := map_option sortValue (gs_content r) \<rparr>"

section \<open>Files\<close>

lemma hmacMatches_refl [simp]: "hmacMatches h h = Inr True"
  by (simp add: hmacMatches_def)

lemma is_object_sorted [simp]: "is_object (Some (sortValue v)) = is_object (Some v)"
  by (cases v) (simp_all add: sortValue.simps(6))

lemma field_Some [simp]: "field (Some j) k = jget j k"
  by (simp add: field_def)

lemma parse_key_json: "rat_integral (gk_attempt k) \<Longrightarrow> parseKey (Some (sortValue (key_json k))) = Some k"
  by (simp add: parseKey_def key_json_def del: rat_integral_iff)

lemma parsed_key_json: "parseKey (Some (sortValue (key_json k))) = Some k' \<Longrightarrow> k' = k"
  by (auto simp: parseKey_def key_json_def split: if_splits)

definition storable :: "LlmGenerationSuccess \<Rightarrow> bool" where
  "storable r \<longleftrightarrow> rat_integral (gs_attempt r) \<and> gs_finishReason r \<in> set ALLOWED_FINISH_REASONS"

lemma usage_fields [simp]:
  "jget (JObj (opt_field ''inputTokens'' JNum a @ opt_field ''outputTokens'' JNum b)) ''inputTokens'' = map_option JNum a"
  "jget (JObj (opt_field ''inputTokens'' JNum a @ opt_field ''outputTokens'' JNum b)) ''outputTokens'' = map_option JNum b"
  by (cases a; cases b; simp add: opt_field_def)+

lemma jget_success_json [simp]:
  "jget (success_json r) ''outcome'' = Some (JStr ''success'')"
  "jget (success_json r) ''finishReason'' = Some (JStr (gs_finishReason r))"
  "jget (success_json r) ''modelDeployment'' = Some (JStr (gs_modelDeployment r))"
  "jget (success_json r) ''modelRevision'' = Some (JStr (gs_modelRevision r))"
  "jget (success_json r) ''gatewayRelease'' = Some (JStr (gs_gatewayRelease r))"
  "jget (success_json r) ''attempt'' = Some (JNum (gs_attempt r))"
  "jget (success_json r) ''usage'' =
     Some (JObj (opt_field ''inputTokens'' JNum (gs_inputTokens r) @ opt_field ''outputTokens'' JNum (gs_outputTokens r)))"
  "jget (success_json r) ''content'' = gs_content r"
  by (simp_all add: success_json_def del: map_of_append split: option.split)

lemma num_field_json:
  "jget v k = map_option JNum a \<Longrightarrow> num_field (Some (sortValue v)) k = a"
  by (cases a) (simp_all add: num_field_def)

lemmas usage_parsed [simp] = num_field_json [OF usage_fields(1)] num_field_json [OF usage_fields(2)]

lemma is_object_success_json [simp]: "is_object (Some (success_json r))"
  by (simp add: success_json_def)

lemma parse_success_json:
  "parseSuccess (Some (sortValue (success_json r))) =
     (if storable r then Some (canonical_result (sanitiseResultForStorage r)) else None)"
  by (cases r) (simp add: parseSuccess_def storable_def canonical_result_def sanitiseResultForStorage_def)

lemma canonical_idem [simp]: "canonical_result (canonical_result r) = canonical_result r"
  by (cases r) (simp add: canonical_result_def option.map_comp comp_def sortValue_idem)

lemma parsed_disk_entry:
  assumes "parseDiskEntry (serialiseDiskEntry e) k = Inr (Some e')"
  shows "me_key e' = me_key e \<and> me_storedAtMs e' = me_storedAtMs e
    \<and> me_result e' = canonical_result (sanitiseResultForStorage (me_result e))"
  using assms parsed_key_json [of "me_key e"]
  by (auto simp: parseDiskEntry_def serialiseDiskEntry_def parse_success_json
      split: if_splits option.splits sum.splits bool.splits)

lemma written_entry_parses:
  assumes "gk_hmac (me_key e) = gk_hmac k" "rat_integral (gk_attempt (me_key e))" "storable (me_result e)"
  shows "parseDiskEntry (serialiseDiskEntry e) k =
    Inr (Some (e\<lparr> me_result := canonical_result (sanitiseResultForStorage (me_result e)) \<rparr>))"
  using assms by (cases e) (simp add: parseDiskEntry_def serialiseDiskEntry_def parse_success_json parse_key_json del: rat_integral_iff)

section \<open>Where entries come from\<close>

fun stores_entry :: "MemoryEntry \<Rightarrow> cache_op \<Rightarrow> bool" where
  "stores_entry e (Do_store now written k result) \<longleftrightarrow> k = me_key e \<and> now = me_storedAtMs e
     \<and> canonical_result (me_result e) = canonical_result (sanitiseResultForStorage result)"
| "stores_entry e _ \<longleftrightarrow> False"

definition stored_by :: "cache_op list \<Rightarrow> string \<Rightarrow> MemoryEntry \<Rightarrow> bool" where
  "stored_by ops h e \<longleftrightarrow> gk_hmac (me_key e) = h \<and> list_ex (stores_entry e) ops"

definition traced :: "cache_op list \<Rightarrow> idempotency_cache \<Rightarrow> bool" where
  "traced ops st \<longleftrightarrow> (\<forall>(h, e)\<in>set (ic_memory st). stored_by ops h e)
     \<and> (\<forall>h f. ic_files st h = Some f \<longrightarrow> (\<exists>e. f = serialiseDiskEntry e \<and> stored_by ops h e))"

lemma stored_by_append: "stored_by ops h e \<Longrightarrow> stored_by (ops @ later) h e"
  by (auto simp: stored_by_def)

lemma traced_append: "traced ops st \<Longrightarrow> traced (ops @ later) st"
  by (auto simp: traced_def intro: stored_by_append) (metis stored_by_append)

lemma traced_memory:
  "traced ops st \<Longrightarrow> set (ic_memory st') \<subseteq> set (ic_memory st) \<Longrightarrow> ic_files st' = ic_files st \<Longrightarrow> traced ops st'"
  by (auto simp: traced_def)

lemma traced_remember:
  assumes "traced ops st" "stored_by ops h e" "ic_files st' = ic_files st" "set (ic_memory st') \<subseteq> insert (h, e) (set (ic_memory st))"
  shows "traced ops st'"
  using assms by (auto simp: traced_def)

lemma counting_keeps [simp]:
  "ic_memory (count_miss st) = ic_memory st" "ic_files (count_miss st) = ic_files st"
  "ic_memory (count_replay st) = ic_memory st" "ic_files (count_replay st) = ic_files st"
  "ic_memory (count_expiry st) = ic_memory st" "ic_files (count_expiry st) = ic_files st"
  by (simp_all add: count_miss_def count_replay_def count_expiry_def)

lemma disk_read_keeps [simp]:
  "ic_memory (fst (tryDiskRead cfg k st)) = ic_memory st" "ic_files (fst (tryDiskRead cfg k st)) = ic_files st"
  by (auto simp: tryDiskRead_def Let_def split: option.split sum.split)

lemma sanitise_canonical: "canonical_result (sanitiseResultForStorage r) = sanitiseResultForStorage (canonical_result r)"
  by (simp add: canonical_result_def sanitiseResultForStorage_def)

lemma sanitise_idem [simp]: "sanitiseResultForStorage (sanitiseResultForStorage r) = sanitiseResultForStorage r"
  by (simp add: sanitiseResultForStorage_def)

lemma stored_sanitised: "stored_by ops h e \<Longrightarrow> canonical_result (sanitiseResultForStorage (me_result e)) = canonical_result (me_result e)"
  by (auto simp: stored_by_def list_ex_iff sanitise_canonical elim!: stores_entry.elims)

lemma stored_by_similar:
  assumes "stored_by ops h e0" "me_key e = me_key e0" "me_storedAtMs e = me_storedAtMs e0"
    and "canonical_result (me_result e) = canonical_result (me_result e0)"
  shows "stored_by ops h e"
proof -
  have "stores_entry e call = stores_entry e0 call" for call
    using assms(2-4) by (cases call) simp_all
  then have "stores_entry e = stores_entry e0" by (rule ext)
  then show ?thesis using assms(1,2) by (simp add: stored_by_def)
qed

lemma disk_entry_traced:
  assumes "traced ops st" "snd (tryDiskRead cfg k st) = Inr (Some e)"
  shows "stored_by ops (gk_hmac k) e"
proof -
  from assms(2) obtain f where f: "ic_files st (gk_hmac k) = Some f" "parseDiskEntry f k = Inr (Some e)"
    by (auto simp: tryDiskRead_def Let_def split: if_splits option.splits sum.splits)
  from assms(1) f(1) obtain e0 where e0: "f = serialiseDiskEntry e0" "stored_by ops (gk_hmac k) e0"
    unfolding traced_def by blast
  note parsed = parsed_disk_entry [OF f(2) [unfolded e0(1)]]
  then have "canonical_result (me_result e) = canonical_result (me_result e0)"
    using stored_sanitised [OF e0(2)] by simp
  then show ?thesis using parsed by (intro stored_by_similar [OF e0(2)]) simp_all
qed

lemma lookup_disk_traced:
  assumes "traced ops st"
  shows "traced ops (fst (lookup_disk cfg now k st))
    \<and> (case snd (lookup_disk cfg now k st) of
         Inr (Hit k' r) \<Rightarrow> (\<exists>e. stored_by ops (gk_hmac k') e \<and> r = me_result e \<and> isFresh cfg (me_storedAtMs e) now)
       | _ \<Rightarrow> True)"
proof -
  obtain st' read where read: "tryDiskRead cfg k st = (st', read)" by (cases "tryDiskRead cfg k st")
  then have keeps: "ic_memory st' = ic_memory st" "ic_files st' = ic_files st"
    using disk_read_keeps [of cfg k st] by simp_all
  then have old: "traced ops st'" using assms by (simp add: traced_def)
  have entry: "stored_by ops (gk_hmac k) e" if "read = Inr (Some e)" for e
    using disk_entry_traced [OF assms, of cfg k e] read that by simp
  have remembered: "traced ops (count_replay (st'\<lparr> ic_memory := AList.update (gk_hmac k) e (ic_memory st') \<rparr>))"
    if "read = Inr (Some e)" for e
    by (rule traced_remember [OF old entry [OF that]]) (simp_all add: set_update_subset)
  have miss: "traced ops (count_miss st')" "traced ops (count_miss (count_expiry st'))"
    using traced_memory [OF old] by simp_all
  show ?thesis
    using old miss entry remembered
    by (auto simp: lookup_disk_def read split: sum.split option.split bool.split)
qed

lemma lookup_traced:
  assumes "traced ops st"
  shows "traced ops (fst (lookup_cache hmac cfg secret now inputs st))
    \<and> (case snd (lookup_cache hmac cfg secret now inputs st) of
         Inr (Hit k r) \<Rightarrow> (\<exists>e. stored_by ops (gk_hmac k) e \<and> r = me_result e \<and> isFresh cfg (me_storedAtMs e) now)
       | _ \<Rightarrow> True)"
proof (cases "computeKey hmac secret inputs")
  case (Inr k)
  let ?gone = "count_expiry (st\<lparr> ic_memory := AList.delete (gk_hmac k) (ic_memory st) \<rparr>)"
  have "traced ops ?gone" by (rule traced_memory [OF assms]) (auto simp: AList.delete_eq)
  note disk = lookup_disk_traced [OF assms, of cfg now k] lookup_disk_traced [OF this, of cfg now k]
  have replay: "traced ops (count_replay st)" by (rule traced_memory [OF assms]) simp_all
  show ?thesis
  proof (cases "map_of (ic_memory st) (gk_hmac k)")
    case None
    then show ?thesis using disk by (simp add: lookup_cache_def Inr)
  next
    case (Some e)
    then have "stored_by ops (gk_hmac k) e" using assms by (auto simp: traced_def dest: map_of_SomeD)
    then show ?thesis
      using disk replay assms by (auto simp: lookup_cache_def Inr Some split: sum.split bool.split)
  qed
qed (simp add: lookup_cache_def assms)

lemma store_traced:
  assumes "traced ops st"
  shows "traced (ops @ [Do_store now written k result]) (fst (store_result cfg now written k result st))"
proof -
  let ?ops = "ops @ [Do_store now written k result]"
  let ?e = "\<lparr> me_key = k, me_result = sanitiseResultForStorage result, me_storedAtMs = now \<rparr>"
  have e: "stored_by ?ops (gk_hmac k) ?e" by (simp add: stored_by_def)
  have "traced ?ops (evictOldest st)"
    by (rule traced_memory [OF traced_append [OF assms]]) (auto simp: evictOldest_def split: list.split)
  then have room: "traced ?ops (if P then evictOldest st else st)" for P
    using traced_append [OF assms] by simp
  have remembered: "traced ?ops (r\<lparr> ic_memory := AList.update (gk_hmac k) ?e (ic_memory r), ic_counters := c \<rparr>)"
    if "traced ?ops r" for r c
    by (rule traced_remember [OF that e]) (simp_all add: set_update_subset)
  have persisted: "traced ?ops (fst (persistDiskEntry cfg written ?e r))" if "traced ?ops r" for r
    using that e by (auto simp: persistDiskEntry_def traced_def)
  show ?thesis unfolding store_result_def Let_def by (intro persisted remembered room)
qed

section \<open>Invariants along a history\<close>

locale history_invariant =
  fixes step :: "'s \<Rightarrow> 'c \<Rightarrow> 's"
    and start :: 's
    and holds :: "'c list \<Rightarrow> 's \<Rightarrow> bool"
  assumes holds_start: "holds [] start"
    and holds_step: "holds calls s \<Longrightarrow> holds (calls @ [c]) (step s c)"
begin

lemma run_holds: "holds calls (foldl step start calls)"
  by (induction calls rule: rev_induct) (simp_all add: holds_start holds_step)

end

lemma step_traced:
  assumes "traced ops st"
  shows "traced (ops @ [call]) (cache_step hmac cfg st call)"
proof (cases call)
  case (Do_lookup secret now inputs)
  then show ?thesis using lookup_traced [OF assms] traced_append by simp
next
  case (Do_store now written k result)
  then show ?thesis using store_traced [OF assms] by simp
next
  case Do_restart
  then show ?thesis using traced_append [OF assms] by (simp add: traced_def)
qed

interpretation provenance: history_invariant "cache_step hmac cfg" fresh_cache traced for hmac cfg
  by unfold_locales (simp_all add: fresh_cache_def traced_def [of "[]"] step_traced)

text \<open>A store that accounts for a hit of \<open>r\<close> under the digest \<open>h\<close> at time \<open>now\<close>.\<close>

fun accounts_for :: "cache_config \<Rightarrow> rat \<Rightarrow> string \<Rightarrow> LlmGenerationSuccess \<Rightarrow> cache_op \<Rightarrow> bool" where
  "accounts_for cfg now h r (Do_store t written k result) \<longleftrightarrow> gk_hmac k = h \<and> now - t < cc_ttlMs cfg
     \<and> canonical_result r = canonical_result (sanitiseResultForStorage result)"
| "accounts_for cfg now h r _ \<longleftrightarrow> False"

lemma stored_by_accounts:
  assumes "stored_by ops h e" "isFresh cfg (me_storedAtMs e) now"
  shows "list_ex (accounts_for cfg now h (me_result e)) ops"
proof -
  from assms(1) obtain call where call: "call \<in> set ops" "stores_entry e call" "gk_hmac (me_key e) = h"
    by (auto simp: stored_by_def list_ex_iff)
  have "accounts_for cfg now h (me_result e) call"
    using call(2,3) assms(2) by (cases call rule: cache_op.exhaust) (auto simp: isFresh_def)
  then show ?thesis using call(1) by (auto simp: list_ex_iff)
qed

text \<open>
  C34: from an empty cache and an empty directory, after any sequence of lookups, stores (whether the
  disk write succeeds or not), evictions and restarts, a hit is the result of an earlier store under the
  same digest, sanitised, made less than the time to live ago (up to the order of keys in the content).
\<close>
theorem hit_was_stored_recently:
  "case snd (lookup_cache hmac cfg secret now inputs (cache_after hmac cfg ops)) of
     Inr (Hit k r) \<Rightarrow> list_ex (accounts_for cfg now (gk_hmac k) r) ops
   | _ \<Rightarrow> True"
  using lookup_traced [OF provenance.run_holds [of ops hmac cfg], of hmac cfg secret now inputs]
  by (auto simp: cache_after_def intro: stored_by_accounts split: sum.splits lookup_result.splits)

section \<open>The disk-backed cache as a map\<close>

text \<open>The specification: the latest store under each digest, nothing evicted.\<close>

fun record_store :: "(string \<rightharpoonup> rat \<times> LlmGenerationSuccess) \<Rightarrow> cache_op \<Rightarrow> (string \<rightharpoonup> rat \<times> LlmGenerationSuccess)" where
  "record_store m (Do_store t written k result) = m(gk_hmac k \<mapsto> (t, canonical_result (sanitiseResultForStorage result)))"
| "record_store m _ = m"

definition latest_store :: "cache_op list \<Rightarrow> (string \<rightharpoonup> rat \<times> LlmGenerationSuccess)" where
  "latest_store ops = foldl record_store Map.empty ops"

text \<open>A store that reaches the disk in a form the reader accepts.\<close>

fun persisted_call :: "cache_op \<Rightarrow> bool" where
  "persisted_call (Do_store t written k result) \<longleftrightarrow>
     written \<and> hex_digest (gk_hmac k) \<and> rat_integral (gk_attempt k) \<and> storable result"
| "persisted_call _ \<longleftrightarrow> True"

definition current_entry :: "(string \<rightharpoonup> rat \<times> LlmGenerationSuccess) \<Rightarrow> string \<Rightarrow> MemoryEntry \<Rightarrow> bool" where
  "current_entry m h e \<longleftrightarrow> gk_hmac (me_key e) = h \<and> m h = Some (me_storedAtMs e, canonical_result (me_result e))"

definition readable_entry :: "MemoryEntry \<Rightarrow> bool" where
  "readable_entry e \<longleftrightarrow> rat_integral (gk_attempt (me_key e)) \<and> storable (me_result e)
     \<and> sanitiseResultForStorage (me_result e) = me_result e"

definition files_current :: "(string \<rightharpoonup> rat \<times> LlmGenerationSuccess) \<Rightarrow> idempotency_cache \<Rightarrow> bool" where
  "files_current m st \<longleftrightarrow> (\<forall>h. case ic_files st h of
       None \<Rightarrow> m h = None
     | Some f \<Rightarrow> \<exists>e. f = serialiseDiskEntry e \<and> current_entry m h e \<and> readable_entry e)"

definition memory_current :: "(string \<rightharpoonup> rat \<times> LlmGenerationSuccess) \<Rightarrow> idempotency_cache \<Rightarrow> bool" where
  "memory_current m st \<longleftrightarrow> distinct (map fst (ic_memory st)) \<and> (\<forall>h e. map_of (ic_memory st) h = Some e \<longrightarrow> current_entry m h e)"

definition agrees :: "(string \<rightharpoonup> rat \<times> LlmGenerationSuccess) \<Rightarrow> idempotency_cache \<Rightarrow> bool" where
  "agrees m st \<longleftrightarrow> memory_current m st \<and> files_current m st"

definition answer :: "cache_config \<Rightarrow> rat \<Rightarrow> (rat \<times> LlmGenerationSuccess) option \<Rightarrow> LlmGenerationSuccess option" where
  "answer cfg now held = (case held of None \<Rightarrow> None | Some (t, r) \<Rightarrow> if now - t < cc_ttlMs cfg then Some r else None)"

fun reply :: "idempotency_error + lookup_result \<Rightarrow> idempotency_error + LlmGenerationSuccess option" where
  "reply (Inl e) = Inl e"
| "reply (Inr (Hit k r)) = Inr (Some (canonical_result r))"
| "reply (Inr (Miss k)) = Inr None"

lemma latest_store_snoc: "latest_store (ops @ [call]) = record_store (latest_store ops) call"
  by (simp add: latest_store_def)

lemma agrees_forgets:
  assumes "agrees m st" "ic_files st' = ic_files st" "distinct (map fst (ic_memory st'))"
    and "\<And>h e. map_of (ic_memory st') h = Some e \<Longrightarrow> map_of (ic_memory st) h = Some e"
  shows "agrees m st'"
  using assms by (auto simp: agrees_def memory_current_def files_current_def)

lemma agrees_counting [simp]:
  "agrees m (count_miss st) = agrees m st" "agrees m (count_replay st) = agrees m st" "agrees m (count_expiry st) = agrees m st"
  by (simp_all add: agrees_def memory_current_def files_current_def)

lemma agrees_remembers:
  assumes "agrees m st" "current_entry m h e" "ic_files st' = ic_files st" "ic_memory st' = AList.update h e (ic_memory st)"
  shows "agrees m st'"
  using assms by (auto simp: agrees_def memory_current_def files_current_def distinct_update update_conv')

lemma agrees_deletes:
  assumes "agrees m st"
  shows "agrees m (st\<lparr> ic_memory := AList.delete h (ic_memory st) \<rparr>)"
  by (rule agrees_forgets [OF assms])
    (use assms in \<open>auto simp: agrees_def memory_current_def distinct_delete delete_conv' split: if_splits\<close>)

lemma map_of_tail: "distinct (map fst (x # xs)) \<Longrightarrow> map_of xs h = Some e \<Longrightarrow> map_of (x # xs) h = Some e"
  by (cases x) (force dest: map_of_SomeD)

lemma agrees_evicts:
  assumes "agrees m st"
  shows "agrees m (evictOldest st)"
proof (cases "ic_memory st")
  case (Cons x rest)
  have "distinct (map fst (x # rest))" using assms Cons by (simp add: agrees_def memory_current_def)
  note keeps = map_of_tail [OF this] and distinct_rest = this
  show ?thesis
    by (rule agrees_forgets [OF assms])
      (use distinct_rest in \<open>simp_all add: evictOldest_def Cons keeps del: map_of.simps\<close>)
qed (use assms in \<open>simp add: evictOldest_def\<close>)

lemma disk_read_current:
  assumes "agrees m st" "cc_disk cfg" "hex_digest (gk_hmac k)"
  shows "case m (gk_hmac k) of
      None \<Rightarrow> snd (tryDiskRead cfg k st) = Inr None
    | Some held \<Rightarrow> \<exists>e. snd (tryDiskRead cfg k st) = Inr (Some e) \<and> current_entry m (gk_hmac k) e"
proof (cases "ic_files st (gk_hmac k)")
  case None
  then have "m (gk_hmac k) = None"
    using assms(1) by (auto simp: agrees_def files_current_def dest: spec [of _ "gk_hmac k"])
  then show ?thesis using assms(2,3) by (simp add: tryDiskRead_def Let_def None)
next
  case (Some f)
  with assms(1) obtain e where e: "f = serialiseDiskEntry e" "current_entry m (gk_hmac k) e" "readable_entry e"
    by (auto simp: agrees_def files_current_def dest!: spec [of _ "gk_hmac k"])
  let ?e = "e\<lparr> me_result := canonical_result (sanitiseResultForStorage (me_result e)) \<rparr>"
  have "parseDiskEntry f k = Inr (Some ?e)"
    using written_entry_parses [of e k] e by (simp add: current_entry_def readable_entry_def del: rat_integral_iff)
  moreover have "current_entry m (gk_hmac k) ?e"
    using e(2,3) by (simp add: current_entry_def readable_entry_def)
  ultimately show ?thesis
    using assms(2,3) e(2) by (auto simp: tryDiskRead_def Let_def Some current_entry_def split: option.split)
qed

lemma lookup_disk_refines:
  assumes "agrees m st" "cc_disk cfg" "hex_digest (gk_hmac k)"
  shows "agrees m (fst (lookup_disk cfg now k st)) \<and> reply (snd (lookup_disk cfg now k st)) = Inr (answer cfg now (m (gk_hmac k)))"
proof -
  obtain st' read where read: "tryDiskRead cfg k st = (st', read)" by (cases "tryDiskRead cfg k st")
  then have keeps: "ic_memory st' = ic_memory st" "ic_files st' = ic_files st"
    using disk_read_keeps [of cfg k st] by simp_all
  then have old: "agrees m st'" using assms(1) by (simp add: agrees_def memory_current_def files_current_def)
  have remembered: "agrees m (st'\<lparr> ic_memory := AList.update (gk_hmac k) e (ic_memory st') \<rparr>)"
    if "current_entry m (gk_hmac k) e" for e
    by (rule agrees_remembers [OF old that]) simp_all
  show ?thesis
    using disk_read_current [OF assms] read old remembered
    by (cases "m (gk_hmac k)") (auto simp: lookup_disk_def answer_def isFresh_def current_entry_def)
qed

lemma lookup_refines:
  assumes "agrees m st" "cc_disk cfg" "computeKey hmac secret inputs = Inr k" "hex_digest (gk_hmac k)"
  shows "agrees m (fst (lookup_cache hmac cfg secret now inputs st))
    \<and> reply (snd (lookup_cache hmac cfg secret now inputs st)) = Inr (answer cfg now (m (gk_hmac k)))"
proof (cases "map_of (ic_memory st) (gk_hmac k)")
  case None
  then show ?thesis using lookup_disk_refines [OF assms(1,2,4)] by (simp add: lookup_cache_def assms(3))
next
  case (Some e)
  then have "current_entry m (gk_hmac k) e" using assms(1) by (simp add: agrees_def memory_current_def)
  moreover have "agrees m (count_expiry (st\<lparr> ic_memory := AList.delete (gk_hmac k) (ic_memory st) \<rparr>))"
    using agrees_deletes [OF assms(1)] by simp
  note lookup_disk_refines [OF this assms(2,4)]
  ultimately show ?thesis
    using assms(1) by (simp add: lookup_cache_def assms(3) Some current_entry_def isFresh_def answer_def)
qed

lemma lookup_agrees:
  assumes "agrees m st" "cc_disk cfg"
  shows "agrees m (fst (lookup_cache hmac cfg secret now inputs st))"
proof (cases "computeKey hmac secret inputs")
  case (Inr k)
  show ?thesis
  proof (cases "hex_digest (gk_hmac k)")
    case True
    then show ?thesis using lookup_refines [OF assms Inr] by blast
  next
    case False
    then have "lookup_disk cfg now k s = (s, Inl Non_hex_path)" for s
      using assms(2) by (simp add: lookup_disk_def tryDiskRead_def)
    then show ?thesis
      using assms(1) agrees_deletes [OF assms(1)]
      by (auto simp: lookup_cache_def Inr split: option.split sum.split bool.split)
  qed
qed (use assms in \<open>simp add: lookup_cache_def\<close>)

lemma current_other [simp]: "h \<noteq> h' \<Longrightarrow> current_entry (m(h' \<mapsto> x)) h e = current_entry m h e"
  by (simp add: current_entry_def)

lemma file_current_other [simp]:
  "h \<noteq> h' \<Longrightarrow>
    (case f of None \<Rightarrow> (m(h' \<mapsto> x)) h = None
     | Some f \<Rightarrow> \<exists>e. f = serialiseDiskEntry e \<and> current_entry (m(h' \<mapsto> x)) h e \<and> readable_entry e) =
    (case f of None \<Rightarrow> m h = None | Some f \<Rightarrow> \<exists>e. f = serialiseDiskEntry e \<and> current_entry m h e \<and> readable_entry e)"
  by (cases f) simp_all

lemma store_agrees:
  assumes "agrees m st" "cc_disk cfg" "persisted_call (Do_store now written k result)"
  shows "agrees (record_store m (Do_store now written k result)) (fst (store_result cfg now written k result st))"
proof -
  let ?e = "\<lparr> me_key = k, me_result = sanitiseResultForStorage result, me_storedAtMs = now \<rparr>"
  let ?m = "record_store m (Do_store now written k result)"
  define room where
    "room = (if length (ic_memory st) \<ge> cc_maxEntries cfg \<and> gk_hmac k \<notin> fst ` set (ic_memory st) then evictOldest st else st)"
  have "agrees m room" using assms(1) agrees_evicts [OF assms(1)] by (simp add: room_def)
  moreover have e: "current_entry ?m (gk_hmac k) ?e" "readable_entry ?e"
    using assms(3) by (simp_all add: current_entry_def readable_entry_def storable_def sanitiseResultForStorage_def del: rat_integral_iff)
  moreover have "ic_memory (fst (store_result cfg now written k result st)) = AList.update (gk_hmac k) ?e (ic_memory room)"
    "ic_files (fst (store_result cfg now written k result st)) = (ic_files room)(gk_hmac k \<mapsto> serialiseDiskEntry ?e)"
    using assms(2,3) by (simp_all add: store_result_def Let_def room_def [symmetric] persistDiskEntry_def)
  ultimately show ?thesis
    by (auto simp: agrees_def memory_current_def files_current_def distinct_update update_conv' split: if_splits)
qed

definition refines_map :: "cache_config \<Rightarrow> cache_op list \<Rightarrow> idempotency_cache \<Rightarrow> bool" where
  "refines_map cfg ops st \<longleftrightarrow> cc_disk cfg \<and> list_all persisted_call ops \<longrightarrow> agrees (latest_store ops) st"

lemma step_refines:
  assumes "refines_map cfg ops st"
  shows "refines_map cfg (ops @ [call]) (cache_step hmac cfg st call)"
proof (cases call)
  case (Do_lookup secret now inputs)
  then show ?thesis using assms lookup_agrees by (simp add: refines_map_def latest_store_snoc)
next
  case (Do_store now written k result)
  then show ?thesis
    using assms store_agrees [of "latest_store ops" st cfg now written k result]
    by (auto simp only: refines_map_def latest_store_snoc cache_step.simps list_all_append list.pred_inject)
next
  case Do_restart
  then show ?thesis using assms
    by (simp add: refines_map_def latest_store_snoc agrees_def memory_current_def files_current_def)
qed

interpretation as_map: history_invariant "cache_step hmac cfg" fresh_cache "refines_map cfg" for hmac cfg
  by unfold_locales
    (simp_all add: refines_map_def [of _ "[]"] fresh_cache_def latest_store_def agrees_def memory_current_def files_current_def step_refines)

text \<open>
  C35: with a disk root, while every write succeeds under a hexadecimal digest and stores a result with
  a known finish reason and integer attempt, a lookup answers exactly as a map from digests to their
  latest store does: its sanitised result (up to the order of keys) within the time to live and a miss
  otherwise, whatever was evicted from memory and however often the process restarted in between.
\<close>
theorem persistent_cache_refines_map:
  assumes "cc_disk cfg" "list_all persisted_call ops"
    and "computeKey hmac secret inputs = Inr k" "hex_digest (gk_hmac k)"
  shows "reply (snd (lookup_cache hmac cfg secret now inputs (cache_after hmac cfg ops)))
    = Inr (answer cfg now (latest_store ops (gk_hmac k)))"
proof -
  have "agrees (latest_store ops) (cache_after hmac cfg ops)"
    using as_map.run_holds [of cfg ops hmac] assms(1,2) by (simp add: refines_map_def cache_after_def)
  then show ?thesis using lookup_refines [OF _ assms(1,3,4)] by blast
qed

section \<open>The entry cap\<close>

lemma length_delete: "length (AList.delete h xs) \<le> length xs"
  by (simp add: AList.delete_eq length_filter_le)

lemma length_update: "length (AList.update h e xs) = (if h \<in> fst ` set xs then length xs else Suc (length xs))"
  by (induction xs) auto

definition within_cap :: "cache_config \<Rightarrow> cache_op list \<Rightarrow> idempotency_cache \<Rightarrow> bool" where
  "within_cap cfg ops st \<longleftrightarrow> \<not> cc_disk cfg \<and> 0 < cc_maxEntries cfg \<longrightarrow> length (ic_memory st) \<le> cc_maxEntries cfg"

lemma lookup_memory_only:
  assumes "\<not> cc_disk cfg"
  shows "length (ic_memory (fst (lookup_cache hmac cfg secret now inputs st))) \<le> length (ic_memory st)"
proof -
  have "lookup_disk cfg now k s = (count_miss s, Inr (Miss k))" for k s
    using assms by (simp add: lookup_disk_def tryDiskRead_def)
  then show ?thesis
    by (simp add: lookup_cache_def length_delete split: sum.split option.split bool.split)
qed

lemma store_memory_only:
  assumes "\<not> cc_disk cfg" "0 < cc_maxEntries cfg" "length (ic_memory st) \<le> cc_maxEntries cfg"
  shows "length (ic_memory (fst (store_result cfg now written k result st))) \<le> cc_maxEntries cfg"
  using assms
  by (cases "ic_memory st") (auto simp: store_result_def Let_def persistDiskEntry_def evictOldest_def length_update)

lemma step_within_cap:
  assumes "within_cap cfg ops st"
  shows "within_cap cfg (ops @ [call]) (cache_step hmac cfg st call)"
proof (cases call)
  case (Do_lookup secret now inputs)
  show ?thesis
    using assms lookup_memory_only [of cfg hmac secret now inputs st] by (auto simp: Do_lookup within_cap_def)
next
  case (Do_store now written k result)
  show ?thesis
    using assms store_memory_only [of cfg st now written k result] by (auto simp: Do_store within_cap_def)
next
  case Do_restart
  show ?thesis using assms by (simp add: Do_restart within_cap_def)
qed

interpretation cap: history_invariant "cache_step hmac cfg" fresh_cache "within_cap cfg" for hmac cfg
  by unfold_locales (simp_all add: within_cap_def [of _ "[]"] fresh_cache_def step_within_cap)

lemma valid_maxEntries: "isInteger n \<Longrightarrow> \<not> js_less n 1 \<Longrightarrow> 0 < (case n of Fin q \<Rightarrow> nat \<lfloor>q\<rfloor> | _ \<Rightarrow> 1024)"
  by (cases n) simp_all

lemma created_memory_cache:
  assumes "createLlmGatewayIdempotencyCache opts Map.empty = Inr (cfg, st)" "io_diskRoot opts = None"
  shows "\<not> cc_disk cfg \<and> 0 < cc_maxEntries cfg \<and> st = fresh_cache"
proof -
  from assms(1) have valid: "validateOptions opts = None"
    by (auto simp: createLlmGatewayIdempotencyCache_def split: option.splits)
  have "0 < cc_maxEntries cfg"
  proof (cases "io_maxEntries opts")
    case None
    then show ?thesis using assms(1) valid
      by (auto simp: createLlmGatewayIdempotencyCache_def DEFAULT_GATEWAY_IDEMPOTENCY_MAX_ENTRIES_def)
  next
    case (Some n)
    with valid have "0 < (case n of Fin q \<Rightarrow> nat \<lfloor>q\<rfloor> | _ \<Rightarrow> 1024)"
      by (intro valid_maxEntries) (auto simp: validateOptions_def split: if_splits)
    then show ?thesis using assms(1) valid Some
      by (auto simp: createLlmGatewayIdempotencyCache_def DEFAULT_GATEWAY_IDEMPOTENCY_MAX_ENTRIES_def
          split: js_number.splits)
  qed
  then show ?thesis
    using assms valid by (auto simp: createLlmGatewayIdempotencyCache_def fresh_cache_def)
qed

text \<open>
  a cache created without a disk root never holds more entries than its cap, the configured
  \<open>maxEntries\<close> or 1024, after any sequence of lookups, stores and restarts.
\<close>
theorem memory_cache_bounded:
  assumes "createLlmGatewayIdempotencyCache opts Map.empty = Inr (cfg, st)" "io_diskRoot opts = None"
  shows "length (ic_memory (foldl (cache_step hmac cfg) st ops)) \<le> cc_maxEntries cfg"
  using cap.run_holds [of cfg ops hmac] created_memory_cache [OF assms] by (simp add: within_cap_def)

section \<open>Concrete runs\<close>

definition sample_inputs :: "char \<Rightarrow> GatewayIdempotencyInputs" where
  "sample_inputs c = \<lparr> gi_jobId = ''job'', gi_roleStepId = ''role'', gi_attempt = Fin 1, gi_promptVersion = ''v1'',
     gi_schemaHash = replicate 64 (CHR ''0''), gi_inputHash = replicate 64 c \<rparr>"

definition sample_key :: "char \<Rightarrow> GatewayIdempotencyKey" where
  "sample_key c = \<lparr> gk_jobId = ''job'', gk_roleStepId = ''role'', gk_attempt = 1, gk_promptVersion = ''v1'',
     gk_schemaHash = replicate 64 (CHR ''0''), gk_inputHash = replicate 64 c, gk_hmac = replicate 64 c \<rparr>"

definition sample_result :: LlmGenerationSuccess where
  "sample_result = \<lparr> gs_content = Some (JStr ''yes''), gs_rawTextContent = Some ''raw'', gs_constrainedDecoding = None,
     gs_finishReason = ''stop'', gs_inputTokens = Some 10, gs_outputTokens = None, gs_modelDeployment = ''d'',
     gs_modelRevision = ''r'', gs_gatewayRelease = ''g'', gs_attempt = 1 \<rparr>"

definition sample_digest :: "string \<Rightarrow> json \<Rightarrow> string" where
  "sample_digest s j = un_str (jget j ''inputHash'')"

definition small_disk_cache :: cache_config where
  "small_disk_cache = \<lparr> cc_ttlMs = 1000, cc_maxEntries = 1, cc_disk = True \<rparr>"

lemma sample_digests [simp]: "hex_digest (replicate 64 (CHR ''a''))" "hex_digest (replicate 64 (CHR ''b''))" "hex_digest (replicate 64 (CHR ''0''))"
  by (simp_all add: hex_digest_def list_all_iff)

lemma gk_hmac_sample [simp]: "gk_hmac (sample_key c) = replicate 64 c" "gk_attempt (sample_key c) = 1"
  by (simp_all add: sample_key_def)

lemma storable_sample [simp]: "storable sample_result"
  by (simp add: storable_def sample_result_def ALLOWED_FINISH_REASONS_def)

lemma key_of_sample [simp]:
  "hex_digest (replicate 64 c) \<Longrightarrow> computeKey sample_digest (Some ''secret'') (sample_inputs c) = Inr (sample_key c)"
  by (simp add: computeKey_def computeGatewayIdempotencyHmac_def validateInputs_def sample_inputs_def sample_key_def sample_digest_def
      toCanonicalInputs_def)

lemma persistent_cache_refines_map_witness:
  "reply (snd (lookup_cache sample_digest small_disk_cache (Some ''secret'') 7 (sample_inputs (CHR ''a''))
     (cache_after sample_digest small_disk_cache
       [Do_store 0 True (sample_key (CHR ''a'')) sample_result, Do_store 5 True (sample_key (CHR ''b'')) sample_result, Do_restart])))
   = Inr (Some (sample_result\<lparr> gs_rawTextContent := None \<rparr>))"
  using persistent_cache_refines_map [of small_disk_cache
      "[Do_store 0 True (sample_key (CHR ''a'')) sample_result, Do_store 5 True (sample_key (CHR ''b'')) sample_result, Do_restart]"
      sample_digest "Some ''secret''" "sample_inputs (CHR ''a'')" "sample_key (CHR ''a'')" 7]
  by (simp add: latest_store_def answer_def small_disk_cache_def canonical_result_def sanitiseResultForStorage_def sample_result_def storable_def
      ALLOWED_FINISH_REASONS_def)

lemma memory_cache_bounded_witness:
  "length (ic_memory (foldl (cache_step sample_digest \<lparr> cc_ttlMs = 1000, cc_maxEntries = 1, cc_disk = False \<rparr>) fresh_cache
     [Do_store 0 True (sample_key (CHR ''a'')) sample_result, Do_store 5 True (sample_key (CHR ''b'')) sample_result])) \<le> 1"
  using memory_cache_bounded [of "\<lparr> io_literalSecret = None, io_ttlMs = Some (Fin 1000), io_maxEntries = Some (Fin 1), io_diskRoot = None \<rparr>"
      "\<lparr> cc_ttlMs = 1000, cc_maxEntries = 1, cc_disk = False \<rparr>" fresh_cache sample_digest
      "[Do_store 0 True (sample_key (CHR ''a'')) sample_result, Do_store 5 True (sample_key (CHR ''b'')) sample_result]"]
  by (simp add: createLlmGatewayIdempotencyCache_def validateOptions_def fresh_cache_def)

text \<open>Reading an entry back from disk is not subject to the cap.\<close>

lemma rehydration_ignores_the_cap:
  "length (ic_memory (cache_after sample_digest small_disk_cache
     [Do_store 0 True (sample_key (CHR ''a'')) sample_result, Do_store 5 True (sample_key (CHR ''b'')) sample_result,
      Do_lookup (Some ''secret'') 7 (sample_inputs (CHR ''a''))])) = 2"
  by (simp add: cache_after_def fresh_cache_def store_result_def Let_def persistDiskEntry_def lookup_cache_def evictOldest_def small_disk_cache_def
      lookup_disk_def tryDiskRead_def written_entry_parses isFresh_def count_replay_def sample_result_def storable_def sanitiseResultForStorage_def
      ALLOWED_FINISH_REASONS_def)

text \<open>A file whose digest field is not hexadecimal makes the lookup raise instead of missing.\<close>

lemma malformed_digest_raises:
  "snd (lookup_cache sample_digest small_disk_cache (Some ''secret'') 7 (sample_inputs (CHR ''a''))
     (fresh_cache\<lparr> ic_files := [replicate 64 (CHR ''a'') \<mapsto>
        serialiseDiskEntry \<lparr> me_key = (sample_key (CHR ''a''))\<lparr> gk_hmac := replicate 64 (CHR ''x'') \<rparr>,
          me_result = sample_result, me_storedAtMs = 0 \<rparr>] \<rparr>)) = Inl Unequal_buffers"
proof -
  have "hmacMatches (replicate 64 (CHR ''x'')) (replicate 64 (CHR ''a'')) = Inl Unequal_buffers"
    by (simp add: hmacMatches_def eval_nat_numeral)
  then show ?thesis
    using parse_key_json [of "(sample_key (CHR ''a''))\<lparr> gk_hmac := replicate 64 (CHR ''x'') \<rparr>"]
    by (simp add: lookup_cache_def fresh_cache_def small_disk_cache_def lookup_disk_def tryDiskRead_def parseDiskEntry_def
        serialiseDiskEntry_def)
qed

end
