(* ===== verification/DisagreementReport.thy ===== *)
theory DisagreementReport
  imports HumanQueue
begin

text \<open>
  The judge disagreement report (\<^verbatim>\<open>packages/quality/src/judge-disagreement-report.ts\<close>): building the
  record of a panel from its assessment, and the checks a report must pass before it is written.
  Labels are strings, since the checks compare them at run time. The files themselves are left out, and
  the judge entries are those of the human-review queue.
\<close>

section \<open>Reports\<close>

definition JUDGE_DISAGREEMENT_REPORT_SCHEMA_VERSION :: string where
  "JUDGE_DISAGREEMENT_REPORT_SCHEMA_VERSION = ''1.0.0''"

definition JUDGE_DISAGREEMENT_ESCALATION_ACTIONS :: "string list" where
  "JUDGE_DISAGREEMENT_ESCALATION_ACTIONS = [''human_review_required'', ''none'']"

record JudgeDisagreementMatrixCell =
  mc_family :: string
  mc_agreements :: js_number
  mc_dissents :: js_number
  mc_votes :: js_number

record JudgeDisagreementCostByFamily =
  fc_family :: string
  fc_totalTokens :: js_number
  fc_costMicrounits :: js_number

record JudgeDisagreementReport =
  dr_schemaVersion :: string
  dr_contractVersion :: string
  dr_generatedAt :: string
  dr_jobId :: string
  dr_decision :: string
  dr_escalation :: string
  dr_disagreementRate :: js_number
  dr_escalationRate :: js_number
  dr_judges :: "JudgeDisagreementJudgeEntry list"
  dr_perFamilyAgreement :: "JudgeDisagreementMatrixCell list"
  dr_costByFamily :: "JudgeDisagreementCostByFamily list"
  dr_rawPromptsIncluded :: bool

fun decision_label :: "JudgeDisagreementDecisionLabel \<Rightarrow> string" where
  "decision_label Majority_decision = ''majority_decision''"
| "decision_label Split_decision = ''split_decision''"
| "decision_label Unanimous_accept = ''unanimous_accept''"
| "decision_label Unanimous_reject = ''unanimous_reject''"
| "decision_label Unanimous_repair = ''unanimous_repair''"

fun escalation_label :: "JudgeDisagreementEscalationAction \<Rightarrow> string" where
  "escalation_label Human_review_required = ''human_review_required''"
| "escalation_label No_escalation = ''none''"

datatype disagreement_error =
    Report_job_id
  | Report_generated_at
  | Report_binding_family nat string
  | Report_binding_region nat string
  | Report_panel family_error
  | Rollup_unknown_family string
  | Rollup_unbound_family string
  | Rollup_tokens string
  | Rollup_cost string
  | Malformed_report string

section \<open>Building\<close>

text \<open>Counters of one family: agreements, dissents, votes. The cells keep the order of first insertion.\<close>

definition count_vote ::
  "LogicJudgeVerdictLabel \<Rightarrow> JudgeFamilyBinding \<Rightarrow> (string \<times> nat \<times> nat \<times> nat) list \<Rightarrow> (string \<times> nat \<times> nat \<times> nat) list" where
  "count_vote resolved b cells =
     (let (a, d, v) = (case map_of cells (fb_family b) of None \<Rightarrow> (0, 0, 0) | Some cell \<Rightarrow> cell)
      in AList.update (fb_family b) (if fb_verdict b = resolved then (a + 1, d, v + 1) else (a, d + 1, v + 1)) cells)"

definition cell_of :: "string \<times> nat \<times> nat \<times> nat \<Rightarrow> JudgeDisagreementMatrixCell" where
  "cell_of entry = (case entry of (f, a, d, v) \<Rightarrow>
     \<lparr> mc_family = f, mc_agreements = Fin (of_nat a), mc_dissents = Fin (of_nat d), mc_votes = Fin (of_nat v) \<rparr>)"

definition buildPerFamilyMatrix ::
  "JudgeFamilyBinding list \<Rightarrow> LogicJudgeVerdictLabel \<Rightarrow> JudgeDisagreementMatrixCell list" where
  "buildPerFamilyMatrix bindings resolved =
     sort_key mc_family (map cell_of (fold (count_vote resolved) bindings []))"

definition nonneg_integer :: "js_number \<Rightarrow> bool" where
  "nonneg_integer n \<longleftrightarrow> isFinite n \<and> \<not> js_less n 0 \<and> isInteger n"

definition rollup_error :: "string list \<Rightarrow> string \<times> js_number \<times> js_number \<Rightarrow> disagreement_error option" where
  "rollup_error families entry =
     (case entry of (f, tokens, cost) \<Rightarrow>
        if \<not> isJudgeModelFamily f then Some (Rollup_unknown_family f)
        else if f \<notin> set families then Some (Rollup_unbound_family f)
        else if \<not> nonneg_integer tokens then Some (Rollup_tokens f)
        else if \<not> nonneg_integer cost then Some (Rollup_cost f)
        else None)"

text \<open>The rollup is a map, so its keys are distinct.\<close>

definition normaliseCostByFamily ::
  "(string \<times> js_number \<times> js_number) list option \<Rightarrow> string list \<Rightarrow> disagreement_error + JudgeDisagreementCostByFamily list" where
  "normaliseCostByFamily rollup families =
     (let entries = (case rollup of None \<Rightarrow> [] | Some r \<Rightarrow> r)
      in case first_error (map (rollup_error families) entries) of
           Some e \<Rightarrow> Inl e
         | None \<Rightarrow> Inr (sort_key fc_family
             (map (\<lambda>(f, t, c). \<lparr> fc_family = f, fc_totalTokens = t, fc_costMicrounits = c \<rparr>) entries
              @ map (\<lambda>f. \<lparr> fc_family = f, fc_totalTokens = Fin 0, fc_costMicrounits = Fin 0 \<rparr>)
                  (filter (\<lambda>f. f \<notin> fst ` set entries) families))))"

record BuildJudgeDisagreementReportInput =
  bj_jobId :: string
  bj_generatedAt :: string
  bj_bindings :: "JudgeFamilyBinding list"
  bj_options :: CrossFamilyJudgePolicyOptions
  bj_costByFamily :: "(string \<times> js_number \<times> js_number) list option"

definition binding_error :: "nat \<times> JudgeFamilyBinding \<Rightarrow> disagreement_error option" where
  "binding_error entry =
     (case entry of (i, b) \<Rightarrow>
        if \<not> isJudgeModelFamily (fb_family b) then Some (Report_binding_family i (fb_family b))
        else if \<not> isJudgeModelRegion (fb_region b) then Some (Report_binding_region i (fb_region b))
        else None)"

definition judge_entry :: "JudgeFamilyBinding \<Rightarrow> JudgeDisagreementJudgeEntry" where
  "judge_entry b = \<lparr> dj_judgeId = fb_judgeId b, dj_family = fb_family b, dj_modelId = fb_modelId b,
     dj_promptVersion = fb_promptVersion b, dj_region = fb_region b, dj_verdict = fb_verdict b \<rparr>"

definition buildJudgeDisagreementReport ::
  "BuildJudgeDisagreementReportInput \<Rightarrow> disagreement_error + JudgeDisagreementReport" where
  "buildJudgeDisagreementReport input =
     (if bj_jobId input = [] then Inl Report_job_id
      else if bj_generatedAt input = [] then Inl Report_generated_at
      else case first_error (map binding_error (enumerate 0 (bj_bindings input))) of
        Some e \<Rightarrow> Inl e
      | None \<Rightarrow>
          (case assessCrossFamilyPanel (bj_bindings input) (bj_options input) of
             Inl e \<Rightarrow> Inl (Report_panel e)
           | Inr result \<Rightarrow>
               (case normaliseCostByFamily (bj_costByFamily input) (fp_families result) of
                  Inl e \<Rightarrow> Inl e
                | Inr costs \<Rightarrow> Inr
                    \<lparr> dr_schemaVersion = JUDGE_DISAGREEMENT_REPORT_SCHEMA_VERSION,
                      dr_contractVersion = TEST_INTELLIGENCE_CONTRACT_VERSION,
                      dr_generatedAt = bj_generatedAt input, dr_jobId = bj_jobId input,
                      dr_decision = decision_label (fp_decision result), dr_escalation = escalation_label (fp_escalation result),
                      dr_disagreementRate = Fin (js_round6 (fp_disagreementRate result)),
                      dr_escalationRate = Fin (js_round6 (fp_escalationRate result)),
                      dr_judges = sort_key dj_judgeId (map judge_entry (bj_bindings input)),
                      dr_perFamilyAgreement = buildPerFamilyMatrix (bj_bindings input) (fp_resolvedVerdict result),
                      dr_costByFamily = costs, dr_rawPromptsIncluded = False \<rparr>)))"

section \<open>Checking\<close>

definition require :: "bool \<Rightarrow> string \<Rightarrow> disagreement_error option" where
  "require ok site = (if ok then None else Some (Malformed_report site))"

definition unit_rate :: "js_number \<Rightarrow> bool" where
  "unit_rate n \<longleftrightarrow> isFinite n \<and> \<not> js_less n 0 \<and> \<not> js_greater n 1"

fun strictly_ascending :: "string list \<Rightarrow> bool" where
  "strictly_ascending (x # y # rest) \<longleftrightarrow> x < y \<and> strictly_ascending (y # rest)"
| "strictly_ascending _ \<longleftrightarrow> True"

definition judge_checks :: "JudgeDisagreementJudgeEntry \<Rightarrow> disagreement_error option list" where
  "judge_checks j =
     [require (isJudgeModelFamily (dj_family j)) ''judges.family'', require (isJudgeModelRegion (dj_region j)) ''judges.region'',
      require (dj_modelId j \<noteq> []) ''judges.modelId'', require (dj_promptVersion j \<noteq> []) ''judges.promptVersion'']"

fun js_sum_is :: "js_number \<Rightarrow> js_number \<Rightarrow> js_number \<Rightarrow> bool" where
  "js_sum_is (Fin a) (Fin d) (Fin v) = (a + d = v)"
| "js_sum_is _ _ _ = False"

definition cell_checks :: "JudgeDisagreementMatrixCell \<Rightarrow> disagreement_error option list" where
  "cell_checks c =
     [require (isJudgeModelFamily (mc_family c)) ''perFamilyAgreement.family'',
      require (nonneg_integer (mc_agreements c)) ''perFamilyAgreement.agreements'',
      require (nonneg_integer (mc_dissents c)) ''perFamilyAgreement.dissents'',
      require (nonneg_integer (mc_votes c)) ''perFamilyAgreement.votes'',
      require (js_sum_is (mc_agreements c) (mc_dissents c) (mc_votes c)) ''perFamilyAgreement'']"

definition cost_checks :: "JudgeDisagreementCostByFamily \<Rightarrow> disagreement_error option list" where
  "cost_checks c =
     [require (isJudgeModelFamily (fc_family c)) ''costByFamily.family'',
      require (nonneg_integer (fc_totalTokens c)) ''costByFamily.totalTokens'',
      require (nonneg_integer (fc_costMicrounits c)) ''costByFamily.costMicrounits'']"

text \<open>The result is the first failing check. The sum is only compared on finite counters.\<close>

definition assertJudgeDisagreementReportInvariants :: "JudgeDisagreementReport \<Rightarrow> disagreement_error option" where
  "assertJudgeDisagreementReportInvariants r = first_error
     ([require (dr_jobId r \<noteq> []) ''jobId'',
       require (dr_schemaVersion r = JUDGE_DISAGREEMENT_REPORT_SCHEMA_VERSION) ''schemaVersion'',
       require (dr_contractVersion r = TEST_INTELLIGENCE_CONTRACT_VERSION) ''contractVersion'',
       require (ISO_8601 (dr_generatedAt r)) ''generatedAt'',
       require (dr_decision r \<in> set JUDGE_DISAGREEMENT_DECISION_LABELS) ''decision'',
       require (dr_escalation r \<in> set JUDGE_DISAGREEMENT_ESCALATION_ACTIONS) ''escalation'',
       require (unit_rate (dr_disagreementRate r)) ''disagreementRate'', require (unit_rate (dr_escalationRate r)) ''escalationRate'',
       require (dr_judges r \<noteq> []) ''judges'']
      @ concat (map judge_checks (dr_judges r))
      @ [require (strictly_ascending (map dj_judgeId (dr_judges r))) ''judges order'']
      @ concat (map cell_checks (dr_perFamilyAgreement r))
      @ [require (strictly_ascending (map mc_family (dr_perFamilyAgreement r))) ''perFamilyAgreement order'']
      @ concat (map cost_checks (dr_costByFamily r))
      @ [require (strictly_ascending (map fc_family (dr_costByFamily r))) ''costByFamily order'',
         require (\<not> dr_rawPromptsIncluded r) ''rawPromptsIncluded''])"

text \<open>What \<^verbatim>\<open>writeJudgeDisagreementReport\<close> hands to the file system: nothing when a check fails.\<close>

definition writeJudgeDisagreementReport :: "string \<Rightarrow> JudgeDisagreementReport \<Rightarrow> disagreement_error + JudgeDisagreementReport" where
  "writeJudgeDisagreementReport runDir r =
     (if js_trim runDir = [] then Inl (Malformed_report ''runDir'')
      else case assertJudgeDisagreementReportInvariants r of Some e \<Rightarrow> Inl e | None \<Rightarrow> Inr r)"

section \<open>Sorting by a key\<close>

lemma strictly_ascending_iff: "strictly_ascending xs \<longleftrightarrow> List.sorted xs \<and> distinct xs"
  by (induction xs rule: strictly_ascending.induct) (auto dest: less_le_trans order.strict_implies_order)

lemma ascending_sort_key: "strictly_ascending (map f (sort_key f xs)) \<longleftrightarrow> distinct (map f xs)"
proof -
  have "mset (map f (sort_key f xs)) = mset (map f xs)" by simp
  then have "distinct (map f (sort_key f xs)) \<longleftrightarrow> distinct (map f xs)" by (rule mset_eq_imp_distinct_iff)
  then show ?thesis by (simp add: strictly_ascending_iff)
qed

section \<open>The matrix\<close>

definition votes_of :: "string \<Rightarrow> (LogicJudgeVerdictLabel \<Rightarrow> bool) \<Rightarrow> JudgeFamilyBinding list \<Rightarrow> nat" where
  "votes_of f P bs = length (filter (\<lambda>b. fb_family b = f \<and> P (fb_verdict b)) bs)"

definition votes_cell :: "LogicJudgeVerdictLabel \<Rightarrow> JudgeFamilyBinding list \<Rightarrow> string \<Rightarrow> nat \<times> nat \<times> nat" where
  "votes_cell resolved bs f = (votes_of f (\<lambda>v. v = resolved) bs, votes_of f (\<lambda>v. v \<noteq> resolved) bs, votes_of f (\<lambda>v. True) bs)"

lemma update_graph:
  "distinct fs \<Longrightarrow> (\<And>f. f \<noteq> k \<Longrightarrow> h f = g f) \<Longrightarrow>
     AList.update k (g k) (map (\<lambda>f. (f, h f)) fs) = map (\<lambda>f. (f, g f)) (set_add k fs)"
  by (induction fs) (auto simp: set_add_def, metis)

lemma map_of_graph: "map_of (map (\<lambda>f. (f, h f)) fs) k = (if k \<in> set fs then Some (h k) else None)"
  by (induction fs) auto

lemma js_set_snoc: "js_set (xs @ [x]) = set_add x (js_set xs)"
  by (simp add: js_set_def)

lemma count_votes:
  "fold (count_vote resolved) bs [] = map (\<lambda>f. (f, votes_cell resolved bs f)) (js_set (map fb_family bs))"
proof (induction bs rule: rev_induct)
  case Nil
  then show ?case by (simp add: js_set_def)
next
  case (snoc b bs)
  let ?h = "votes_cell resolved bs" and ?g = "votes_cell resolved (bs @ [b])"
  have other: "?h f = ?g f" if "f \<noteq> fb_family b" for f
    using that by (simp add: votes_cell_def votes_of_def)
  have absent: "?h f = (0, 0, 0)" if "f \<notin> fb_family ` set bs" for f
    using that by (auto simp: votes_cell_def votes_of_def filter_empty_conv)
  have "count_vote resolved b (map (\<lambda>f. (f, ?h f)) (js_set (map fb_family bs)))
      = AList.update (fb_family b) (?g (fb_family b)) (map (\<lambda>f. (f, ?h f)) (js_set (map fb_family bs)))"
    using absent [of "fb_family b"]
    by (auto simp: count_vote_def map_of_graph votes_cell_def votes_of_def)
  also have "\<dots> = map (\<lambda>f. (f, ?g f)) (set_add (fb_family b) (js_set (map fb_family bs)))"
    by (rule update_graph) (simp_all add: other)
  finally show ?case using snoc by (simp add: js_set_snoc)
qed

definition votes_matrix :: "LogicJudgeVerdictLabel \<Rightarrow> JudgeFamilyBinding list \<Rightarrow> JudgeDisagreementMatrixCell list" where
  "votes_matrix resolved bs = map (\<lambda>f. cell_of (f, votes_cell resolved bs f)) (js_sort (js_set (map fb_family bs)))"

lemma mc_family_cell [simp]: "mc_family (cell_of entry) = fst entry"
  by (cases entry) (simp add: cell_of_def)

lemma sort_key_graph:
  assumes "\<And>x. k (g x) = x"
  shows "sort_key k (map g xs) = map g (sort_key (\<lambda>x. x) xs)"
proof -
  have "insort_key k (g x) (map g ys) = map g (insort_key (\<lambda>x. x) x ys)" for x ys
    by (induction ys) (simp_all add: assms)
  then show ?thesis by (induction xs) simp_all
qed

lemma matrix_exact: "buildPerFamilyMatrix bs resolved = votes_matrix resolved bs"
  by (simp add: buildPerFamilyMatrix_def count_votes votes_matrix_def comp_def sort_key_graph js_sort_def)

lemma votes_split: "votes_of f (\<lambda>v. v = r) bs + votes_of f (\<lambda>v. v \<noteq> r) bs = votes_of f (\<lambda>v. True) bs"
  by (induction bs) (auto simp: votes_of_def)

section \<open>Costs\<close>

definition cost_cell :: "(string \<times> js_number \<times> js_number) list \<Rightarrow> string \<Rightarrow> JudgeDisagreementCostByFamily" where
  "cost_cell entries f =
     (let (t, c) = (case map_of entries f of None \<Rightarrow> (Fin 0, Fin 0) | Some v \<Rightarrow> v)
      in \<lparr> fc_family = f, fc_totalTokens = t, fc_costMicrounits = c \<rparr>)"

lemma fc_family_cost_cell [simp]: "fc_family (cost_cell entries f) = f"
  by (simp add: cost_cell_def split: prod.split)

definition rollup_entries :: "BuildJudgeDisagreementReportInput \<Rightarrow> (string \<times> js_number \<times> js_number) list" where
  "rollup_entries input = (case bj_costByFamily input of None \<Rightarrow> [] | Some r \<Rightarrow> r)"

definition rollup_ok :: "string list \<Rightarrow> (string \<times> js_number \<times> js_number) list \<Rightarrow> bool" where
  "rollup_ok families entries \<longleftrightarrow> list_all (\<lambda>(f, t, c). isJudgeModelFamily f \<and> f \<in> set families \<and> nonneg_integer t \<and> nonneg_integer c) entries"

lemma rollup_errors_None: "first_error (map (rollup_error families) entries) = None \<longleftrightarrow> rollup_ok families entries"
  by (auto simp: rollup_ok_def list_all_iff rollup_error_def split: if_splits)

lemma costs_exact:
  assumes "distinct (map fst entries)" "rollup_ok families entries" "distinct families"
  shows "sort_key fc_family
     (map (\<lambda>(f, t, c). \<lparr> fc_family = f, fc_totalTokens = t, fc_costMicrounits = c \<rparr>) entries
      @ map (\<lambda>f. \<lparr> fc_family = f, fc_totalTokens = Fin 0, fc_costMicrounits = Fin 0 \<rparr>)
          (filter (\<lambda>f. f \<notin> fst ` set entries) families))
    = map (cost_cell entries) (js_sort families)"
proof -
  let ?keys = "map fst entries @ filter (\<lambda>f. f \<notin> fst ` set entries) families"
  have listed: "map (\<lambda>(f, t, c). \<lparr> fc_family = f, fc_totalTokens = t, fc_costMicrounits = c \<rparr>) entries
      = map (cost_cell entries) (map fst entries)"
    using assms(1) by (auto simp: cost_cell_def split: prod.split)
  have "map_of entries f = None" if "f \<notin> fst ` set entries" for f
    using that by (simp add: map_of_eq_None_iff)
  then have missing: "map (\<lambda>f. \<lparr> fc_family = f, fc_totalTokens = Fin 0, fc_costMicrounits = Fin 0 \<rparr>) (filter (\<lambda>f. f \<notin> fst ` set entries) families)
      = map (cost_cell entries) (filter (\<lambda>f. f \<notin> fst ` set entries) families)"
    by (simp add: cost_cell_def)
  have same: "set ?keys = set families" using assms(2) by (fastforce simp: rollup_ok_def list_all_iff)
  have "sort_key fc_family (map (cost_cell entries) ?keys) = map (cost_cell entries) (js_sort ?keys)"
    by (simp only: sort_key_graph fc_family_cost_cell js_sort_def)
  also have "js_sort ?keys = js_sort families"
    by (rule js_sort_unique [OF same]) (use assms in auto)
  finally show ?thesis unfolding listed missing map_append [symmetric] .
qed

section \<open>Properties\<close>

text \<open>The record that a valid input is turned into.\<close>

definition report_for :: "BuildJudgeDisagreementReportInput \<Rightarrow> CrossFamilyJudgePolicyResult \<Rightarrow> JudgeDisagreementReport" where
  "report_for input result =
     \<lparr> dr_schemaVersion = JUDGE_DISAGREEMENT_REPORT_SCHEMA_VERSION, dr_contractVersion = TEST_INTELLIGENCE_CONTRACT_VERSION,
       dr_generatedAt = bj_generatedAt input, dr_jobId = bj_jobId input,
       dr_decision = decision_label (fp_decision result), dr_escalation = escalation_label (fp_escalation result),
       dr_disagreementRate = Fin (js_round6 (fp_disagreementRate result)),
       dr_escalationRate = Fin (js_round6 (fp_escalationRate result)),
       dr_judges = sort_key dj_judgeId (map judge_entry (bj_bindings input)),
       dr_perFamilyAgreement = votes_matrix (fp_resolvedVerdict result) (bj_bindings input),
       dr_costByFamily = map (cost_cell (rollup_entries input)) (js_sort (js_set (map fb_family (bj_bindings input)))),
       dr_rawPromptsIncluded = False \<rparr>"

lemma assessed_valid: "assessCrossFamilyPanel bs options = Inr r \<Longrightarrow> panel_valid bs options"
  using assess_invalid [of bs options] by force

lemma assessed_families: "assessCrossFamilyPanel bs options = Inr r \<Longrightarrow> fp_families r = js_sort (js_set (map fb_family bs))"
  by (auto simp: assessCrossFamilyPanel_def family_result_def Let_def resolveQuorumVerdict_def split: if_splits option.splits sum.splits)

lemma assessed_bindings: "panel_valid bs options \<Longrightarrow> first_error (map binding_error (enumerate n bs)) = None"
  by (auto simp: panel_valid_def list_all_iff binding_error_def enumerate_eq_zip dest: set_zip_rightD)

definition report_input_valid :: "BuildJudgeDisagreementReportInput \<Rightarrow> bool" where
  "report_input_valid input \<longleftrightarrow> bj_jobId input \<noteq> [] \<and> bj_generatedAt input \<noteq> [] \<and> panel_valid (bj_bindings input) (bj_options input)
     \<and> rollup_ok (map fb_family (bj_bindings input)) (rollup_entries input)"

lemma normalise_exact:
  assumes "distinct (map fst (rollup_entries input))"
  shows "normaliseCostByFamily (bj_costByFamily input) (js_sort (js_set families)) =
    (case first_error (map (rollup_error (js_sort (js_set families))) (rollup_entries input)) of
       Some e \<Rightarrow> Inl e
     | None \<Rightarrow> Inr (map (cost_cell (rollup_entries input)) (js_sort (js_set families))))"
  using costs_exact [OF assms, of "js_sort (js_set families)"] rollup_errors_None [of "js_sort (js_set families)" "rollup_entries input"]
  by (auto simp: normaliseCostByFamily_def rollup_entries_def Let_def simp del: first_error_None split: option.split)

lemma rollup_ok_families: "rollup_ok (js_sort (js_set families)) entries = rollup_ok families entries"
  by (simp add: rollup_ok_def)

lemma build_report:
  assumes "distinct (map fst (rollup_entries input))"
  shows "(case buildJudgeDisagreementReport input of Inl e \<Rightarrow> None | Inr r \<Rightarrow> Some r)
    = (if report_input_valid input
       then (case assessCrossFamilyPanel (bj_bindings input) (bj_options input) of
               Inl e \<Rightarrow> None | Inr result \<Rightarrow> Some (report_for input result))
       else None)"
proof (cases "panel_valid (bj_bindings input) (bj_options input)")
  case False
  then obtain e where "assessCrossFamilyPanel (bj_bindings input) (bj_options input) = Inl e" using assess_invalid by blast
  then show ?thesis
    using False by (auto simp: buildJudgeDisagreementReport_def report_input_valid_def split: option.split)
next
  case True
  then have "bj_bindings input \<noteq> []" by (simp add: panel_valid_def)
  then obtain v where "resolveQuorumVerdict (bj_bindings input) = Inr v" using resolve_exact by blast
  then obtain result where result: "assessCrossFamilyPanel (bj_bindings input) (bj_options input) = Inr result"
    by (simp add: assess_valid [OF True])
  note families = assessed_families [OF result]
  have ok: "first_error (map (rollup_error (fp_families result)) (rollup_entries input)) = None
      \<longleftrightarrow> rollup_ok (map fb_family (bj_bindings input)) (rollup_entries input)"
    by (simp only: rollup_errors_None families rollup_ok_families)
  show ?thesis
    using True ok assessed_bindings [OF True, of 0]
    by (auto simp: buildJudgeDisagreementReport_def report_input_valid_def result families normalise_exact [OF assms] matrix_exact
        report_for_def simp del: first_error_None split: option.split)
qed

text \<open>
  A report is built exactly for a job id, a time, a valid panel and a cost rollup with
  non-negative integers for families of the panel only. It lists the bindings by judge id, one cell for
  each family of the panel in order with its agreeing, dissenting and total votes, and one cost cell for
  each family with the rollup's numbers, or zeros; decision, escalation and rates are the assessment's.
\<close>
theorem disagreement_report_exact:
  assumes "distinct (map fst (rollup_entries input))"
  shows "(case buildJudgeDisagreementReport input of Inl e \<Rightarrow> None | Inr r \<Rightarrow> Some r)
    = (if report_input_valid input
       then (case assessCrossFamilyPanel (bj_bindings input) (bj_options input) of
               Inl e \<Rightarrow> None | Inr result \<Rightarrow> Some (report_for input result))
       else None)"
  by (rule build_report [OF assms])

lemma label_known:
  "decision_label d \<in> set JUDGE_DISAGREEMENT_DECISION_LABELS" "escalation_label a \<in> set JUDGE_DISAGREEMENT_ESCALATION_ACTIONS"
  by (cases d; simp add: JUDGE_DISAGREEMENT_DECISION_LABELS_def) (cases a; simp add: JUDGE_DISAGREEMENT_ESCALATION_ACTIONS_def)

lemma unit_rate_rounded: "0 \<le> q \<Longrightarrow> q \<le> 1 \<Longrightarrow> unit_rate (Fin (js_round6 q))"
  using js_round6_bounds [of q] by (simp add: unit_rate_def)

lemma assessed_rates:
  assumes "assessCrossFamilyPanel bs options = Inr r"
  shows "0 \<le> fp_disagreementRate r \<and> fp_disagreementRate r \<le> 1 \<and> 0 \<le> fp_escalationRate r \<and> fp_escalationRate r \<le> 1"
proof -
  note valid = assessed_valid [OF assms]
  from assms obtain v where r: "r = family_result bs (fo_mostTrustedFamily options) v"
    by (cases "resolveQuorumVerdict bs") (auto simp: assess_valid [OF valid])
  have "countDissenters bs v \<le> length bs" by (simp add: countDissenters_eq)
  then show ?thesis by (auto simp: r family_result_def Let_def divide_le_eq)
qed

lemma nonneg_of_nat [simp]: "nonneg_integer (Fin (of_nat n))"
  by (simp add: nonneg_integer_def)

lemma require_None [simp]: "require ok site = None \<longleftrightarrow> ok"
  by (simp add: require_def)

lemma judge_checks_ok:
  "panel_valid bs options \<Longrightarrow> b \<in> set bs \<Longrightarrow> list_all (\<lambda>c. c = None) (judge_checks (judge_entry b))"
  by (auto simp: panel_valid_def judge_checks_def judge_entry_def)

lemma cell_checks_ok:
  "isJudgeModelFamily f \<Longrightarrow> list_all (\<lambda>c. c = None) (cell_checks (cell_of (f, votes_cell r bs f)))"
  using votes_split [of f r bs] by (simp add: cell_checks_def cell_of_def votes_cell_def flip: of_nat_add)

lemma cost_checks_ok:
  assumes "isJudgeModelFamily f" "rollup_ok families entries"
  shows "list_all (\<lambda>c. c = None) (cost_checks (cost_cell entries f))"
  using assms nonneg_of_nat [of 0]
  by (auto simp: cost_checks_def cost_cell_def rollup_ok_def list_all_iff split: option.split prod.split dest!: map_of_SomeD)

text \<open>
  C40: What the builder produces the writer accepts, up to two things the builder does not look at: a
  report built from any valid input passes the checks before the write exactly when its time stamp is
  a strict ISO-8601 time and no two of its judges share an id.
\<close>
theorem built_report_writable_exact:
  assumes "distinct (map fst (rollup_entries input))" "buildJudgeDisagreementReport input = Inr r" "js_trim runDir \<noteq> []"
  shows "(writeJudgeDisagreementReport runDir r = Inr r)
    = (ISO_8601 (bj_generatedAt input) \<and> distinct (map fb_judgeId (bj_bindings input)))"
proof -
  let ?bs = "bj_bindings input"
  from build_report [OF assms(1)] assms(2) obtain result where
    valid: "report_input_valid input" and result: "assessCrossFamilyPanel ?bs (bj_options input) = Inr result"
    and r: "r = report_for input result"
    by (auto split: if_splits sum.splits)
  have panel: "panel_valid ?bs (bj_options input)"
    and rollup: "rollup_ok (map fb_family ?bs) (rollup_entries input)" and job: "bj_jobId input \<noteq> []"
    using valid by (simp_all add: report_input_valid_def)
  have known: "isJudgeModelFamily (fb_family b)" if "b \<in> set ?bs" for b
    using panel that by (simp add: panel_valid_def)
  have ne: "?bs \<noteq> []" using panel by (simp add: panel_valid_def)
  have judges: "list_all (\<lambda>c. c = None) (concat (map judge_checks (dr_judges r)))"
    using judge_checks_ok [OF panel] by (fastforce simp: r report_for_def list_all_iff)
  have cells: "list_all (\<lambda>c. c = None) (concat (map cell_checks (dr_perFamilyAgreement r)))"
    using cell_checks_ok known by (fastforce simp: r report_for_def votes_matrix_def list_all_iff)
  have costs: "list_all (\<lambda>c. c = None) (concat (map cost_checks (dr_costByFamily r)))"
    using cost_checks_ok [OF known rollup] by (fastforce simp: r report_for_def list_all_iff)
  have ids: "strictly_ascending (map dj_judgeId (dr_judges r)) \<longleftrightarrow> distinct (map fb_judgeId ?bs)"
    by (simp add: r report_for_def ascending_sort_key judge_entry_def comp_def)
  have order: "strictly_ascending (map mc_family (dr_perFamilyAgreement r))" "strictly_ascending (map fc_family (dr_costByFamily r))"
    by (simp_all add: r report_for_def ascending_sort_key judge_entry_def comp_def votes_matrix_def strictly_ascending_iff js_sort_def)
  have some: "dr_judges r \<noteq> []"
    using ne by (simp add: r report_for_def flip: length_greater_0_conv)
  have rates: "unit_rate (dr_disagreementRate r)" "unit_rate (dr_escalationRate r)"
    using assessed_rates [OF result] by (simp_all add: r report_for_def unit_rate_rounded)
  have "assertJudgeDisagreementReportInvariants r = None \<longleftrightarrow> ISO_8601 (bj_generatedAt input) \<and> distinct (map fb_judgeId ?bs)"
    unfolding assertJudgeDisagreementReportInvariants_def first_error_None list_all_append
    using judges cells costs ids order rates some job label_known by (simp add: r report_for_def)
  then show ?thesis using assms(3) by (auto simp: writeJudgeDisagreementReport_def split: option.split)
qed

section \<open>Concrete panels\<close>

definition sample_bindings :: "JudgeFamilyBinding list" where
  "sample_bindings =
     [\<lparr> fb_judgeId = ''b'', fb_family = ''openai'', fb_modelId = ''m'', fb_promptVersion = ''v'', fb_region = ''eu'', fb_verdict = V_accept \<rparr>,
      \<lparr> fb_judgeId = ''a'', fb_family = ''google'', fb_modelId = ''m'', fb_promptVersion = ''v'', fb_region = ''eu'', fb_verdict = V_reject \<rparr>]"

definition sample_report_input :: BuildJudgeDisagreementReportInput where
  "sample_report_input = \<lparr> bj_jobId = ''job'', bj_generatedAt = ''2026-01-01T00:00:00Z'', bj_bindings = sample_bindings,
     bj_options = \<lparr> fo_allowSharedFamily = None, fo_requireEuRegion = None, fo_mostTrustedFamily = None \<rparr>,
     bj_costByFamily = Some [(''openai'', Fin 12, Fin 3)] \<rparr>"

lemma sample_report_valid: "report_input_valid sample_report_input"
  by (simp add: report_input_valid_def sample_report_input_def sample_bindings_def panel_valid_def isJudgeModelFamily_def
      isJudgeModelRegion_def JUDGE_MODEL_FAMILIES_def JUDGE_MODEL_REGIONS_def one_judge_def rollup_ok_def rollup_entries_def nonneg_integer_def)

lemma sample_assessed: "\<exists>r. assessCrossFamilyPanel sample_bindings (bj_options sample_report_input) = Inr r \<and> fp_decision r = Split_decision"
proof -
  have "case assessCrossFamilyPanel sample_bindings (bj_options sample_report_input) of
      Inl e \<Rightarrow> False | Inr r \<Rightarrow> fp_decision r = Split_decision"
    by code_simp
  then show ?thesis by (auto split: sum.splits)
qed

lemma disagreement_report_exact_witness:
  "\<exists>r. buildJudgeDisagreementReport sample_report_input = Inr r \<and> dr_decision r = ''split_decision''"
proof -
  have "bj_bindings sample_report_input = sample_bindings" "distinct (map fst (rollup_entries sample_report_input))"
    by (simp_all add: sample_report_input_def rollup_entries_def)
  then show ?thesis
    using disagreement_report_exact [of sample_report_input] sample_report_valid sample_assessed
    by (auto simp: report_for_def split: sum.splits)
qed

lemma built_report_writable_exact_witness:
  "\<exists>r. buildJudgeDisagreementReport sample_report_input = Inr r \<and> writeJudgeDisagreementReport ''runs'' r = Inr r"
proof -
  have facts: "bj_bindings sample_report_input = sample_bindings" "distinct (map fst (rollup_entries sample_report_input))"
    "js_trim ''runs'' \<noteq> []" "distinct (map fb_judgeId sample_bindings)" "ISO_8601 (bj_generatedAt sample_report_input)"
    by code_simp+
  then obtain r where "buildJudgeDisagreementReport sample_report_input = Inr r"
    using build_report [of sample_report_input] sample_report_valid sample_assessed by (auto split: sum.splits)
  then show ?thesis
    using built_report_writable_exact [OF facts(2) _ facts(3)] facts by auto
qed

text \<open>Two bindings of one judge pass the builder, and its report is refused by the writer.\<close>

lemma duplicate_judge_unwritable:
  "(case buildJudgeDisagreementReport (sample_report_input\<lparr> bj_bindings := [hd sample_bindings, hd sample_bindings], bj_costByFamily := None \<rparr>) of
      Inl e \<Rightarrow> False
    | Inr r \<Rightarrow> writeJudgeDisagreementReport ''runs'' r = Inl (Malformed_report ''judges order''))"
  by code_simp

end
