(* ===== verification/Duplicates.thy ===== *)
theory Duplicates
  imports PolicyInputs "HOL-Library.Product_Lexorder"
begin

text \<open>
  Duplicate detection for generated test cases (\<^verbatim>\<open>packages/core-engine/src/test-case-duplicate.ts\<close>):
  fingerprints, Jaccard similarity, and the pairs above a threshold. Numbers are exact rationals.
\<close>

section \<open>Fingerprints\<close>

definition SHINGLE_SIZE :: nat where
  "SHINGLE_SIZE = 3"

text \<open>Punctuation and symbols, \<^verbatim>\<open>[\p{P}\p{S}]\<close>, within the modelled code units.\<close>

definition punctuation_or_symbol :: "char \<Rightarrow> bool" where
  "punctuation_or_symbol c \<longleftrightarrow>
     (let n = of_char c :: nat
      in (33 \<le> n \<and> n \<le> 47) \<or> (58 \<le> n \<and> n \<le> 64) \<or> (91 \<le> n \<and> n \<le> 96) \<or> (123 \<le> n \<and> n \<le> 126) \<or> (161 \<le> n \<and> n \<le> 169)
         \<or> n \<in> {171, 172, 174, 175, 176, 177, 180, 182, 183, 184, 187, 191, 215, 247})"

fun blank_runs :: "(char \<Rightarrow> bool) \<Rightarrow> string \<Rightarrow> string" where
  "blank_runs P [] = []"
| "blank_runs P (c # cs) = (if P c then CHR '' '' # blank_runs P (dropWhile P cs) else c # blank_runs P cs)"

definition normaliseString :: "string \<Rightarrow> string" where
  "normaliseString s = js_trim (blank_runs js_space (blank_runs punctuation_or_symbol (js_lower s)))"

definition toShingles :: "string \<Rightarrow> string list" where
  "toShingles s =
     (if s = [] then []
      else if length s \<le> SHINGLE_SIZE then [s]
      else map (\<lambda>i. take SHINGLE_SIZE (drop i s)) [0 ..< length s - SHINGLE_SIZE + 1])"

definition step_tokens :: "GeneratedTestCaseStep \<Rightarrow> string list" where
  "step_tokens step =
     (let normalised = normaliseString (st_action step)
      in if normalised = [] then []
         else map (\<lambda>t. ''step::'' @ t) (filter (\<lambda>t. t \<noteq> []) (js_split (CHR '' '') normalised)))"

definition buildTestCaseFingerprint :: "GeneratedTestCase \<Rightarrow> string list" where
  "buildTestCaseFingerprint tc = js_set
     (map (\<lambda>s. ''title::'' @ s) (toShingles (normaliseString (tc_title tc)))
      @ concat (map step_tokens (tc_steps tc))
      @ map (\<lambda>s. ''trace::'' @ s) (tc_figmaTraceRefs tc)
      @ [''type::'' @ tc_type tc, ''risk::'' @ tc_riskCategory tc])"

section \<open>Coverage targets\<close>

definition coverageTargetIds :: "GeneratedTestCase \<Rightarrow> string list" where
  "coverageTargetIds tc =
     (let q = tc_qualitySignals tc
      in js_set (map (\<lambda>i. ''field:'' @ i) (qs_coveredFieldIds q) @ map (\<lambda>i. ''action:'' @ i) (qs_coveredActionIds q)
           @ map (\<lambda>i. ''validation:'' @ i) (qs_coveredValidationIds q) @ map (\<lambda>i. ''navigation:'' @ i) (qs_coveredNavigationIds q)
           @ map (\<lambda>i. ''requirement:'' @ i) (case qs_coveredRequirementIds q of None \<Rightarrow> [] | Some ids \<Rightarrow> ids)))"

definition fieldCoverageTargetIds :: "GeneratedTestCase \<Rightarrow> string list" where
  "fieldCoverageTargetIds tc = js_set (qs_coveredFieldIds (tc_qualitySignals tc))"

text \<open>The smaller set is searched in the larger one.\<close>

definition no_common :: "string list \<Rightarrow> string list \<Rightarrow> bool" where
  "no_common left right =
     (let (smaller, larger) = (if length left \<le> length right then (left, right) else (right, left))
      in \<not> list_ex (\<lambda>t. t \<in> set larger) smaller)"

definition haveDisjointCoverageTargets :: "GeneratedTestCase \<Rightarrow> GeneratedTestCase \<Rightarrow> bool" where
  "haveDisjointCoverageTargets left right =
     (let leftFields = fieldCoverageTargetIds left; rightFields = fieldCoverageTargetIds right
      in if leftFields \<noteq> [] \<and> rightFields \<noteq> [] then no_common leftFields rightFields
         else let leftTargets = coverageTargetIds left; rightTargets = coverageTargetIds right
           in if leftTargets = [] \<or> rightTargets = [] then False else no_common leftTargets rightTargets)"

section \<open>Similarity\<close>

definition jaccardSimilarity :: "string list \<Rightarrow> string list \<Rightarrow> rat" where
  "jaccardSimilarity a b =
     (if a = [] \<and> b = [] then 1
      else let (smaller, larger) = (if length a \<le> length b then (a, b) else (b, a));
               intersection = length (filter (\<lambda>v. v \<in> set larger) smaller);
               union = length a + length b - intersection
           in if union = 0 then 0 else of_nat intersection / of_nat union)"

datatype duplicate_error = Threshold_out_of_range

text \<open>\<^verbatim>\<open>similarity >= threshold\<close>\<close>

fun at_least :: "rat \<Rightarrow> js_number \<Rightarrow> bool" where
  "at_least s (Fin q) = (s \<ge> q)"
| "at_least s NegInfinity = True"
| "at_least s _ = False"

definition ordered_pair :: "string \<Rightarrow> string \<Rightarrow> string \<times> string" where
  "ordered_pair a b = (if a \<le> b then (a, b) else (b, a))"

definition fingerprints :: "GeneratedTestCase list \<Rightarrow> (string \<times> string list) list" where
  "fingerprints cases = fold (\<lambda>tc. AList.update (tc_id tc) (buildTestCaseFingerprint tc)) cases []"

definition compare_cases ::
  "(string \<times> string list) list \<Rightarrow> js_number \<Rightarrow> GeneratedTestCase \<Rightarrow> GeneratedTestCase \<Rightarrow> TestCaseDuplicatePair list" where
  "compare_cases fps threshold left right =
     (if haveDisjointCoverageTargets left right then []
      else case (map_of fps (tc_id left), map_of fps (tc_id right)) of
        (Some fpLeft, Some fpRight) \<Rightarrow>
          let similarity = jaccardSimilarity fpLeft fpRight; (a, b) = ordered_pair (tc_id left) (tc_id right)
          in if at_least similarity threshold
             then [\<lparr> dp_leftTestCaseId = a, dp_rightTestCaseId = b, dp_similarity = js_round6 similarity \<rparr>] else []
      | _ \<Rightarrow> [])"

text \<open>The two nested loops: each case with the later ones.\<close>

fun duplicate_pairs :: "(GeneratedTestCase \<Rightarrow> GeneratedTestCase \<Rightarrow> 'a list) \<Rightarrow> GeneratedTestCase list \<Rightarrow> 'a list" where
  "duplicate_pairs row [] = []"
| "duplicate_pairs row (left # rest) = concat (map (row left) rest) @ duplicate_pairs row rest"

definition detectDuplicateTestCases ::
  "GeneratedTestCase list \<Rightarrow> js_number \<Rightarrow> duplicate_error + TestCaseDuplicatePair list" where
  "detectDuplicateTestCases cases threshold =
     (if js_less threshold 0 \<or> js_greater threshold 1 then Inl Threshold_out_of_range
      else Inr (sort_key (\<lambda>p. (dp_leftTestCaseId p, dp_rightTestCaseId p))
        (duplicate_pairs (compare_cases (fingerprints cases) threshold) cases)))"

section \<open>Sets behind the lists\<close>

lemma no_common_iff: "no_common a b \<longleftrightarrow> set a \<inter> set b = {}"
  by (auto simp: no_common_def list_ex_iff)

lemma disjoint_targets_sym: "haveDisjointCoverageTargets x y = haveDisjointCoverageTargets y x"
  by (auto simp: haveDisjointCoverageTargets_def Let_def no_common_iff Int_commute)

lemma jaccard_sets:
  assumes "distinct a" "distinct b"
  shows "jaccardSimilarity a b =
    (if set a \<union> set b = {} then 1 else of_nat (card (set a \<inter> set b)) / of_nat (card (set a \<union> set b)))"
proof (cases "set a \<union> set b = {}")
  case False
  have count: "length (filter (\<lambda>v. v \<in> set large) small) = card (set small \<inter> set large)" if "distinct small" for small large :: "string list"
  proof -
    have "set (filter (\<lambda>v. v \<in> set large) small) = set small \<inter> set large" by auto
    moreover have "distinct (filter (\<lambda>v. v \<in> set large) small)" using that by simp
    ultimately show ?thesis using distinct_card by metis
  qed
  have "card (set a) + card (set b) = card (set a \<union> set b) + card (set a \<inter> set b)" by (rule card_Un_Int) simp_all
  then have union: "length a + length b - card (set a \<inter> set b) = card (set a \<union> set b)"
    using assms by (simp add: distinct_card)
  have "card (set a \<union> set b) \<noteq> 0" using False by simp
  moreover have "\<not> length a + length b \<le> card (set a \<inter> set b)" using union \<open>card (set a \<union> set b) \<noteq> 0\<close> by linarith
  moreover have "\<not> (a = [] \<and> b = [])" using False by auto
  ultimately show ?thesis
    using count [OF assms(1), of b] count [OF assms(2), of a] union
    by (cases "length a \<le> length b") (simp_all add: jaccardSimilarity_def Let_def Int_commute)
qed (simp add: jaccardSimilarity_def)

lemma distinct_fingerprint [simp]: "distinct (buildTestCaseFingerprint tc)"
  by (simp add: buildTestCaseFingerprint_def)

definition similarity :: "GeneratedTestCase \<Rightarrow> GeneratedTestCase \<Rightarrow> rat" where
  "similarity x y = jaccardSimilarity (buildTestCaseFingerprint x) (buildTestCaseFingerprint y)"

lemma similarity_sym: "similarity x y = similarity y x"
  by (simp add: similarity_def jaccard_sets Un_commute Int_commute)

lemma similarity_bounds: "0 \<le> similarity x y \<and> similarity x y \<le> 1"
  by (auto simp: similarity_def jaccard_sets divide_le_eq card_gt_0_iff intro!: card_mono)

lemma fingerprints_snoc: "fingerprints (cases @ [tc]) = AList.update (tc_id tc) (buildTestCaseFingerprint tc) (fingerprints cases)"
  by (simp add: fingerprints_def)

lemma fingerprint_lookup:
  "distinct (map tc_id cases) \<Longrightarrow> tc \<in> set cases \<Longrightarrow> map_of (fingerprints cases) (tc_id tc) = Some (buildTestCaseFingerprint tc)"
  by (induction cases rule: rev_induct) (auto simp: fingerprints_snoc image_iff)

section \<open>Pairs\<close>

definition pair_row :: "js_number \<Rightarrow> GeneratedTestCase \<Rightarrow> GeneratedTestCase \<Rightarrow> TestCaseDuplicatePair list" where
  "pair_row threshold x y =
     (if haveDisjointCoverageTargets x y \<or> \<not> at_least (similarity x y) threshold then []
      else [\<lparr> dp_leftTestCaseId = fst (ordered_pair (tc_id x) (tc_id y)),
              dp_rightTestCaseId = snd (ordered_pair (tc_id x) (tc_id y)), dp_similarity = js_round6 (similarity x y) \<rparr>])"

lemma pair_row_sym: "pair_row threshold x y = pair_row threshold y x"
  unfolding pair_row_def disjoint_targets_sym [of x y] similarity_sym [of x y] by (auto simp: ordered_pair_def)

lemma duplicate_pairs_cong:
  "(\<And>x y. x \<in> set xs \<Longrightarrow> y \<in> set xs \<Longrightarrow> r x y = r' x y) \<Longrightarrow> duplicate_pairs r xs = duplicate_pairs r' xs"
  by (induction xs) (simp_all cong: map_cong)

lemma compare_cases_row:
  "distinct (map tc_id cases) \<Longrightarrow> x \<in> set cases \<Longrightarrow> y \<in> set cases \<Longrightarrow>
     compare_cases (fingerprints cases) threshold x y = pair_row threshold x y"
  by (simp add: compare_cases_def fingerprint_lookup pair_row_def similarity_def Let_def split: prod.split)

lemma set_duplicate_pairs:
  assumes "\<And>x y. r x y = r y x" "distinct xs"
  shows "set (duplicate_pairs r xs) = (\<Union>x\<in>set xs. \<Union>y\<in>set xs - {x}. set (r x y))"
  using assms(2)
proof (induction xs)
  case (Cons x xs)
  then have "(\<Union>a\<in>set (x # xs). \<Union>b\<in>set (x # xs) - {a}. set (r a b))
      = (\<Union>b\<in>set xs. set (r x b)) \<union> (\<Union>a\<in>set xs. set (r a x)) \<union> (\<Union>a\<in>set xs. \<Union>b\<in>set xs - {a}. set (r a b))"
    by fastforce
  then show ?case using Cons assms(1) by auto
qed simp

definition pair_key :: "TestCaseDuplicatePair \<Rightarrow> string \<times> string" where
  "pair_key p = (dp_leftTestCaseId p, dp_rightTestCaseId p)"

lemma pair_row_key: "p \<in> set (pair_row threshold x y) \<Longrightarrow> pair_key p = ordered_pair (tc_id x) (tc_id y)"
  by (auto simp: pair_row_def pair_key_def split: if_splits)

lemma ordered_pair_eq: "ordered_pair a b = ordered_pair c d \<longleftrightarrow> {a, b} = {c, d}"
  by (auto simp: ordered_pair_def doubleton_eq_iff)

lemma distinct_pair_row: "distinct (map pair_key (pair_row threshold x y))"
  by (simp add: pair_row_def)

lemma distinct_row_keys:
  "distinct (map tc_id (x # ys)) \<Longrightarrow> distinct (map pair_key (concat (map (pair_row threshold x) ys)))"
proof (induction ys)
  case (Cons y ys)
  have "pair_key p \<noteq> pair_key q" if "p \<in> set (pair_row threshold x y)" "q \<in> set (pair_row threshold x z)" "z \<in> set ys" for p q z
    using that Cons.prems pair_row_key [of p threshold x y] pair_row_key [of q threshold x z]
    by (auto simp: ordered_pair_eq doubleton_eq_iff)
  then have "pair_key ` set (pair_row threshold x y) \<inter> pair_key ` set (concat (map (pair_row threshold x) ys)) = {}"
    by fastforce
  then show ?case using Cons distinct_pair_row [of threshold x y] by simp
qed simp

lemma distinct_pair_keys:
  "distinct (map tc_id xs) \<Longrightarrow> distinct (map pair_key (duplicate_pairs (pair_row threshold) xs))"
proof (induction xs)
  case (Cons x xs)
  then have ids: "distinct (map tc_id xs)" "distinct xs" by (simp_all add: distinct_map)
  have "pair_key p \<noteq> pair_key q"
    if "p \<in> set (pair_row threshold x y)" "y \<in> set xs" "q \<in> set (duplicate_pairs (pair_row threshold) xs)" for p q y
  proof -
    from that(3) obtain a b where "a \<in> set xs" "b \<in> set xs" "q \<in> set (pair_row threshold a b)"
      unfolding set_duplicate_pairs [of "pair_row threshold", OF pair_row_sym ids(2)] by auto
    then show ?thesis
      using that Cons.prems pair_row_key [of p threshold x y] pair_row_key [of q threshold a b]
      by (auto simp: ordered_pair_eq doubleton_eq_iff)
  qed
  then have "pair_key ` set (concat (map (pair_row threshold x) xs)) \<inter> pair_key ` set (duplicate_pairs (pair_row threshold) xs) = {}"
    by fastforce
  then show ?case using Cons.IH [OF ids(1)] distinct_row_keys [OF Cons.prems, of threshold] by simp
qed simp

section \<open>Properties\<close>

text \<open>The pairs that count as duplicates.\<close>

definition duplicate_set :: "GeneratedTestCase list \<Rightarrow> js_number \<Rightarrow> TestCaseDuplicatePair set" where
  "duplicate_set cases threshold =
     {\<lparr> dp_leftTestCaseId = tc_id x, dp_rightTestCaseId = tc_id y, dp_similarity = js_round6 (similarity x y) \<rparr> | x y.
        x \<in> set cases \<and> y \<in> set cases \<and> tc_id x < tc_id y \<and> \<not> haveDisjointCoverageTargets x y \<and> at_least (similarity x y) threshold}"

lemma pair_row_member:
  "tc_id x < tc_id y \<Longrightarrow> p \<in> set (pair_row threshold x y) \<longleftrightarrow>
     \<not> haveDisjointCoverageTargets x y \<and> at_least (similarity x y) threshold
     \<and> p = \<lparr> dp_leftTestCaseId = tc_id x, dp_rightTestCaseId = tc_id y, dp_similarity = js_round6 (similarity x y) \<rparr>"
  by (simp add: pair_row_def ordered_pair_def less_imp_le)

lemma duplicate_set_member:
  "p \<in> duplicate_set cases threshold \<longleftrightarrow>
     (\<exists>x y. x \<in> set cases \<and> y \<in> set cases \<and> tc_id x < tc_id y \<and> p \<in> set (pair_row threshold x y))"
  unfolding duplicate_set_def mem_Collect_eq by (metis pair_row_member)

lemma pairs_are_duplicates:
  assumes "distinct (map tc_id cases)"
  shows "set (duplicate_pairs (pair_row threshold) cases) = duplicate_set cases threshold"
proof -
  have "distinct cases" using assms by (simp add: distinct_map)
  have ids: "tc_id x < tc_id y \<or> tc_id y < tc_id x" if "x \<in> set cases" "y \<in> set cases" "x \<noteq> y" for x y
  proof -
    have "tc_id x \<noteq> tc_id y" using that assms by (auto simp: distinct_map dest: inj_onD)
    then show ?thesis by (rule neqE) simp_all
  qed
  have "p \<in> (\<Union>x\<in>set cases. \<Union>y\<in>set cases - {x}. set (pair_row threshold x y)) \<longleftrightarrow> p \<in> duplicate_set cases threshold" for p
  proof
    assume "p \<in> (\<Union>x\<in>set cases. \<Union>y\<in>set cases - {x}. set (pair_row threshold x y))"
    then obtain x y where xy: "x \<in> set cases" "y \<in> set cases" "x \<noteq> y" "p \<in> set (pair_row threshold x y)" by auto
    then have "p \<in> set (pair_row threshold y x)" by (simp only: pair_row_sym [of threshold y x])
    then show "p \<in> duplicate_set cases threshold" using xy ids [OF xy(1-3)] unfolding duplicate_set_member by blast
  next
    assume "p \<in> duplicate_set cases threshold"
    then obtain x y where "x \<in> set cases" "y \<in> set cases" "tc_id x < tc_id y" "p \<in> set (pair_row threshold x y)"
      unfolding duplicate_set_member by blast
    then show "p \<in> (\<Union>x\<in>set cases. \<Union>y\<in>set cases - {x}. set (pair_row threshold x y))" by fastforce
  qed
  then show ?thesis unfolding set_duplicate_pairs [of "pair_row threshold", OF pair_row_sym \<open>distinct cases\<close>] by blast
qed

lemma strict_sort_key:
  assumes "distinct (map k xs)"
  shows "sorted_wrt (\<lambda>p q. k p < k q) (sort_key k xs)"
proof -
  have "mset (map k (sort_key k xs)) = mset (map k xs)" by simp
  then have "distinct (map k (sort_key k xs))" using assms mset_eq_imp_distinct_iff by blast
  moreover have "List.sorted (map k (sort_key k xs))" by (rule sorted_sort_key)
  ultimately have "sorted_wrt (<) (map k (sort_key k xs))" unfolding strict_sorted_iff by blast
  then show ?thesis unfolding sorted_wrt_map .
qed

lemma detect_exact:
  assumes "distinct (map tc_id cases)"
  shows "detectDuplicateTestCases cases threshold =
    (if js_less threshold 0 \<or> js_greater threshold 1 then Inl Threshold_out_of_range
     else Inr (sort_key pair_key (duplicate_pairs (pair_row threshold) cases)))"
  unfolding detectDuplicateTestCases_def pair_key_def
  using compare_cases_row [OF assms] duplicate_pairs_cong [of cases "compare_cases (fingerprints cases) threshold" "pair_row threshold"]
  by simp

text \<open>
  C38: For cases with distinct ids the reported pairs, in strictly ascending order, are exactly the pairs
  of different cases whose fingerprints are at least as similar as the threshold (a number between 0 and
  1) and whose coverage targets are not disjoint, each once and with its rounded similarity.
\<close>
theorem duplicate_report_exact:
  assumes "distinct (map tc_id cases)"
  shows "(case detectDuplicateTestCases cases threshold of
      Inl e \<Rightarrow> js_less threshold 0 \<or> js_greater threshold 1
    | Inr pairs \<Rightarrow> sorted_wrt (\<lambda>p q. pair_key p < pair_key q) pairs \<and> set pairs = duplicate_set cases threshold)"
  using strict_sort_key [OF distinct_pair_keys [OF assms, of threshold]]
  by (simp add: detect_exact [OF assms] pairs_are_duplicates [OF assms])

text \<open>
  The duplicate report of a suite with distinct ids does not depend on the order of its cases.
\<close>
theorem duplicates_ignore_order:
  assumes "distinct (map tc_id cases)" "mset cases = mset cases'"
  shows "detectDuplicateTestCases cases threshold = detectDuplicateTestCases cases' threshold"
proof -
  have ids: "distinct (map tc_id cases')" using assms by (metis mset_map mset_eq_imp_distinct_iff)
  let ?ps = "duplicate_pairs (pair_row threshold) cases" and ?qs = "duplicate_pairs (pair_row threshold) cases'"
  have "set ?ps = set ?qs"
    using assms ids mset_eq_setD [OF assms(2)] by (simp add: pairs_are_duplicates duplicate_set_def)
  moreover have "distinct ?ps" "distinct ?qs" "inj_on pair_key (set ?ps)"
    using distinct_pair_keys [OF assms(1), of threshold] distinct_pair_keys [OF ids, of threshold] by (simp_all add: distinct_map)
  ultimately have "sort_key pair_key ?ps = sort_key pair_key ?qs"
    by (intro sort_key_inj_key_eq) (simp_all add: set_eq_iff_mset_eq_distinct)
  then show ?thesis by (simp add: detect_exact [OF assms(1)] detect_exact [OF ids])
qed

lemma duplicate_report_exact_witness:
  "\<exists>pairs. detectDuplicateTestCases [sample_case\<lparr> tc_id := ''b'' \<rparr>, sample_case\<lparr> tc_id := ''a'' \<rparr>] (Fin 1) = Inr pairs
     \<and> set pairs = duplicate_set [sample_case\<lparr> tc_id := ''b'' \<rparr>, sample_case\<lparr> tc_id := ''a'' \<rparr>] (Fin 1)
     \<and> map pair_key pairs = [(''a'', ''b'')]"
proof -
  have "case detectDuplicateTestCases [sample_case\<lparr> tc_id := ''b'' \<rparr>, sample_case\<lparr> tc_id := ''a'' \<rparr>] (Fin 1) of
      Inl e \<Rightarrow> False | Inr pairs \<Rightarrow> map pair_key pairs = [(''a'', ''b'')]"
    by code_simp
  then show ?thesis
    using duplicate_report_exact [of "[sample_case\<lparr> tc_id := ''b'' \<rparr>, sample_case\<lparr> tc_id := ''a'' \<rparr>]" "Fin 1"]
    by (auto split: sum.splits)
qed

lemma duplicates_ignore_order_witness:
  "detectDuplicateTestCases [sample_case\<lparr> tc_id := ''b'' \<rparr>, sample_case\<lparr> tc_id := ''a'' \<rparr>] (Fin 1)
     = detectDuplicateTestCases [sample_case\<lparr> tc_id := ''a'' \<rparr>, sample_case\<lparr> tc_id := ''b'' \<rparr>] (Fin 1)"
  by (rule duplicates_ignore_order) simp_all

end
