(* ===== verification/DedupeReport.thy ===== *)
theory DedupeReport
  imports Duplicates
begin

text \<open>
  The extended deduplication report (\<^verbatim>\<open>packages/core-engine/src/test-case-dedupe.ts\<close>): lexical pairs,
  optional embedding pairs, an optional probe of an external system, and the verdict per case. The
  provider, the probe and the context callback are parameters (\<^const>\<open>None\<close> from the provider stands for a
  rejected call, \<^const>\<open>Inl\<close> from the callback for an exception), and so is the square root. A comparator that never answers zero leaves equal entries in place, as a stable
  sort does.
\<close>

section \<open>Data\<close>

datatype ExternalDedupeProbeLookupResult =
    Probe_missing
  | Probe_found "string option" "string option"  \<comment> \<open>\<^verbatim>\<open>matchedEntityId\<close>, \<^verbatim>\<open>matchedFolderPath\<close>\<close>
  | Probe_unavailable string
  | Probe_threw "string option"  \<comment> \<open>the message of a thrown \<^verbatim>\<open>Error\<close>\<close>

record ExternalDedupeProbeCaseContext =
  pc_externalIdCandidate :: "string option"
  pc_targetFolderPath :: "string option"

record EmbeddingProvider =
  ep_identifier :: string
  ep_embed :: "GeneratedTestCase \<Rightarrow> js_number list option"

record DedupeInternalFinding =
  if_source :: string
  if_leftTestCaseId :: string
  if_rightTestCaseId :: string
  if_similarity :: rat

record DedupeExternalFinding =
  ef_testCaseId :: string
  ef_externalIdCandidate :: string
  ef_matchedFolderPath :: "string option"
  ef_matchedEntityId :: "string option"

datatype DedupeExternalProbeState = Probe_disabled | Probe_unconfigured | Probe_partial_failure | Probe_executed

record ExternalProbeOutcome =
  po_state :: DedupeExternalProbeState
  po_cases :: nat
  po_note :: "string option"
  po_findings :: "DedupeExternalFinding list"

record DedupeCaseVerdict =
  dv_testCaseId :: string
  dv_isDuplicate :: bool
  dv_matchedSources :: "string list"
  dv_maxInternalSimilarity :: rat

record DetectTestCaseDuplicatesExtendedInput =
  xi_jobId :: string
  xi_generatedAt :: string
  xi_testCases :: "GeneratedTestCase list"
  xi_lexicalThreshold :: js_number
  xi_embeddingThreshold :: "js_number option"
  xi_embeddingProvider :: "EmbeddingProvider option"
  xi_externalProbe :: "(GeneratedTestCase \<Rightarrow> ExternalDedupeProbeCaseContext \<Rightarrow> ExternalDedupeProbeLookupResult) option"
  xi_externalContext :: "(GeneratedTestCase \<Rightarrow> string + ExternalDedupeProbeCaseContext) option"

record TestCaseDedupeReport =
  xr_jobId :: string
  xr_generatedAt :: string
  xr_lexicalThreshold :: js_number
  xr_embeddingThreshold :: "js_number option"
  xr_embeddingIdentifier :: "string option"
  xr_externalState :: DedupeExternalProbeState
  xr_externalCases :: nat
  xr_externalNote :: "string option"
  xr_internalFindings :: "DedupeInternalFinding list"
  xr_externalFindings :: "DedupeExternalFinding list"
  xr_perCase :: "DedupeCaseVerdict list"
  xr_duplicates :: nat
  xr_internalLexical :: nat
  xr_internalEmbedding :: nat
  xr_externalMatches :: nat

datatype dedupe_error =
    Lexical_threshold_out_of_range
  | Embedding_threshold_out_of_range
  | Lexical_failed duplicate_error
  | Embed_rejected
  | Vector_empty
  | Vector_lengths_differ
  | Vector_not_finite
  | External_context_threw string

section \<open>Embeddings\<close>

definition js_finite :: "js_number \<Rightarrow> rat" where
  "js_finite n = (case n of Fin q \<Rightarrow> q | _ \<Rightarrow> 0)"

definition cosineSimilarity :: "(rat \<Rightarrow> rat) \<Rightarrow> js_number list \<Rightarrow> js_number list \<Rightarrow> dedupe_error + rat" where
  "cosineSimilarity sqrt_fn a b =
     (if a = [] \<or> b = [] then Inr 0
      else if length a \<noteq> length b then Inl Vector_lengths_differ
      else if list_ex (\<lambda>(x, y). \<not> isFinite x \<or> \<not> isFinite y) (zip a b) then Inl Vector_not_finite
      else
        let xs = map js_finite a; ys = map js_finite b;
            dot = sum_list (map2 (*) xs ys); magA = sum_list (map2 (*) xs xs); magB = sum_list (map2 (*) ys ys);
            sim = dot / (sqrt_fn magA * sqrt_fn magB)
        in if magA = 0 \<or> magB = 0 then Inr 0 else if sim < 0 then Inr 0 else if sim > 1 then Inr 1 else Inr sim)"

definition validateEmbedding :: "js_number list \<Rightarrow> nat option \<Rightarrow> dedupe_error + js_number list" where
  "validateEmbedding vec expectedDimension =
     (if vec = [] then Inl Vector_empty
      else if (case expectedDimension of None \<Rightarrow> False | Some d \<Rightarrow> length vec \<noteq> d) then Inl Vector_lengths_differ
      else if list_ex (\<lambda>v. \<not> isFinite v) vec then Inl Vector_not_finite
      else Inr vec)"

fun embed_cases :: "(GeneratedTestCase \<Rightarrow> js_number list option) \<Rightarrow> nat option \<Rightarrow> GeneratedTestCase list \<Rightarrow>
    dedupe_error + (string \<times> js_number list) list" where
  "embed_cases embedder dimension [] = Inr []"
| "embed_cases embedder dimension (tc # tcs) =
     (case embedder tc of
        None \<Rightarrow> Inl Embed_rejected
      | Some raw \<Rightarrow>
          (case validateEmbedding raw dimension of
             Inl e \<Rightarrow> Inl e
           | Inr vec \<Rightarrow>
               (case embed_cases embedder (case dimension of None \<Rightarrow> Some (length vec) | Some d \<Rightarrow> Some d) tcs of
                  Inl e \<Rightarrow> Inl e
                | Inr rest \<Rightarrow> Inr ((tc_id tc, vec) # rest))))"

definition compare_vectors ::
  "(rat \<Rightarrow> rat) \<Rightarrow> js_number \<Rightarrow> string \<times> js_number list \<Rightarrow> string \<times> js_number list \<Rightarrow> (dedupe_error + DedupeInternalFinding option)" where
  "compare_vectors sqrt_fn threshold left right =
     (case cosineSimilarity sqrt_fn (snd left) (snd right) of
        Inl e \<Rightarrow> Inl e
      | Inr sim \<Rightarrow> Inr
          (if at_least sim threshold
           then let (lo, hi) = ordered_pair (fst left) (fst right)
             in Some \<lparr> if_source = ''embedding'', if_leftTestCaseId = lo, if_rightTestCaseId = hi, if_similarity = js_round6 sim \<rparr>
           else None))"

fun first_rejection :: "('e + 'a option) list \<Rightarrow> 'e + 'a list" where
  "first_rejection [] = Inr []"
| "first_rejection (Inl e # rs) = Inl e"
| "first_rejection (Inr x # rs) =
     (case first_rejection rs of Inl e \<Rightarrow> Inl e | Inr xs \<Rightarrow> Inr (case x of None \<Rightarrow> xs | Some y \<Rightarrow> y # xs))"

fun vector_pairs :: "('a \<Rightarrow> 'a \<Rightarrow> 'b) \<Rightarrow> 'a list \<Rightarrow> 'b list" where
  "vector_pairs row [] = []"
| "vector_pairs row (left # rest) = map (row left) rest @ vector_pairs row rest"

definition embedding_key :: "DedupeInternalFinding \<Rightarrow> string \<times> string" where
  "embedding_key f = (if_leftTestCaseId f, if_rightTestCaseId f)"

definition computeEmbeddingFindings ::
  "(rat \<Rightarrow> rat) \<Rightarrow> GeneratedTestCase list \<Rightarrow> EmbeddingProvider \<Rightarrow> js_number \<Rightarrow> dedupe_error + DedupeInternalFinding list" where
  "computeEmbeddingFindings sqrt_fn testCases provider threshold =
     (if js_less threshold 0 \<or> js_greater threshold 1 then Inl Embedding_threshold_out_of_range
      else case embed_cases (ep_embed provider) None testCases of
        Inl e \<Rightarrow> Inl e
      | Inr vectors \<Rightarrow> map_sum id (sort_key embedding_key) (first_rejection (vector_pairs (compare_vectors sqrt_fn threshold) vectors)))"

section \<open>The external probe\<close>

definition FAILURE_DETAIL_MAX :: nat where
  "FAILURE_DETAIL_MAX = 240"

definition sanitizeProbeDetail :: "string \<Rightarrow> string" where
  "sanitizeProbeDetail detail =
     (let cleaned = js_trim (collapse_spaces detail)
      in if cleaned = [] then ''external_probe_unavailable''
         else if length cleaned \<le> FAILURE_DETAIL_MAX then cleaned else take FAILURE_DETAIL_MAX cleaned @ ''...'')"

definition probe_context :: "DetectTestCaseDuplicatesExtendedInput \<Rightarrow> GeneratedTestCase \<Rightarrow> string + ExternalDedupeProbeCaseContext" where
  "probe_context input tc =
     (case xi_externalContext input of
        None \<Rightarrow> Inr \<lparr> pc_externalIdCandidate = None, pc_targetFolderPath = None \<rparr>
      | Some f \<Rightarrow> f tc)"

fun or_else :: "'a option \<Rightarrow> 'a \<Rightarrow> 'a option" where
  "or_else None x = Some x"
| "or_else (Some y) x = Some y"

text \<open>
  The state of the loop: the first note, the completed lookups, and the findings. The lookup runs inside a
  \<^verbatim>\<open>try\<close>, the context callback outside of it.
\<close>

definition probe_case ::
  "(GeneratedTestCase \<Rightarrow> ExternalDedupeProbeCaseContext \<Rightarrow> ExternalDedupeProbeLookupResult) \<Rightarrow>
   ExternalDedupeProbeCaseContext \<Rightarrow> GeneratedTestCase \<Rightarrow>
   string option \<times> nat \<times> DedupeExternalFinding list \<Rightarrow> string option \<times> nat \<times> DedupeExternalFinding list" where
  "probe_case probe_lookup ctx tc acc =
     (case acc of (unavailableNote, completed, findings) \<Rightarrow>
        (case probe_lookup tc ctx of
           Probe_threw message \<Rightarrow>
             (or_else unavailableNote (sanitizeProbeDetail (case message of None \<Rightarrow> ''external_probe_threw'' | Some m \<Rightarrow> m)),
              completed, findings)
         | Probe_missing \<Rightarrow> (unavailableNote, completed + 1, findings)
         | Probe_found entity folder \<Rightarrow>
             (unavailableNote, completed + 1,
              findings @ [\<lparr> ef_testCaseId = tc_id tc,
                 ef_externalIdCandidate = (case pc_externalIdCandidate ctx of None \<Rightarrow> [] | Some c \<Rightarrow> c),
                 ef_matchedFolderPath = folder, ef_matchedEntityId = entity \<rparr>])
         | Probe_unavailable detail \<Rightarrow> (or_else unavailableNote (sanitizeProbeDetail detail), completed, findings)))"

fun probe_cases ::
  "(GeneratedTestCase \<Rightarrow> ExternalDedupeProbeCaseContext \<Rightarrow> ExternalDedupeProbeLookupResult) \<Rightarrow>
   (GeneratedTestCase \<Rightarrow> string + ExternalDedupeProbeCaseContext) \<Rightarrow> GeneratedTestCase list \<Rightarrow>
   string option \<times> nat \<times> DedupeExternalFinding list \<Rightarrow>
     dedupe_error + (string option \<times> nat \<times> DedupeExternalFinding list)" where
  "probe_cases probe_lookup context_of [] acc = Inr acc"
| "probe_cases probe_lookup context_of (tc # cases) acc =
     (case context_of tc of
        Inl message \<Rightarrow> Inl (External_context_threw message)
      | Inr ctx \<Rightarrow> probe_cases probe_lookup context_of cases (probe_case probe_lookup ctx tc acc))"

definition runExternalProbe :: "DetectTestCaseDuplicatesExtendedInput \<Rightarrow> dedupe_error + ExternalProbeOutcome" where
  "runExternalProbe input =
     (case xi_externalProbe input of
        None \<Rightarrow> Inr \<lparr> po_state = Probe_disabled, po_cases = 0, po_note = None, po_findings = [] \<rparr>
      | Some probe_lookup \<Rightarrow>
          (case probe_cases probe_lookup (probe_context input) (xi_testCases input) (None, 0, []) of
             Inl e \<Rightarrow> Inl e
           | Inr (unavailableNote, completed, found) \<Rightarrow>
               let findings = sort_key ef_testCaseId found; n = length (xi_testCases input)
               in Inr (if unavailableNote \<noteq> None \<and> completed > 0
                  then \<lparr> po_state = Probe_partial_failure, po_cases = n, po_note = unavailableNote, po_findings = findings \<rparr>
                  else if unavailableNote \<noteq> None \<or> n = 0
                  then \<lparr> po_state = Probe_unconfigured, po_cases = n, po_note = or_else unavailableNote ''no_probe_results'', po_findings = [] \<rparr>
                  else \<lparr> po_state = Probe_executed, po_cases = n, po_note = None, po_findings = findings \<rparr>)))"

section \<open>Verdicts\<close>

definition note_source :: "string \<Rightarrow> string \<Rightarrow> (string \<times> string list) list \<Rightarrow> (string \<times> string list) list" where
  "note_source source testId sources =
     AList.update testId (set_add source (case map_of sources testId of None \<Rightarrow> [] | Some s \<Rightarrow> s)) sources"

definition note_similarity :: "rat \<Rightarrow> string \<Rightarrow> (string \<times> rat) list \<Rightarrow> (string \<times> rat) list" where
  "note_similarity sim testId sims =
     (case map_of sims testId of
        None \<Rightarrow> AList.update testId sim sims
      | Some prevMax \<Rightarrow> if sim > prevMax then AList.update testId sim sims else sims)"

definition internal_ids :: "DedupeInternalFinding \<Rightarrow> string list" where
  "internal_ids f = [if_leftTestCaseId f, if_rightTestCaseId f]"

definition case_verdict :: "(string \<times> string list) list \<Rightarrow> (string \<times> rat) list \<Rightarrow> GeneratedTestCase \<Rightarrow> DedupeCaseVerdict" where
  "case_verdict sources sims tc =
     (let matched = (case map_of sources (tc_id tc) of None \<Rightarrow> [] | Some s \<Rightarrow> s)
      in \<lparr> dv_testCaseId = tc_id tc, dv_isDuplicate = (length matched > 0), dv_matchedSources = js_sort (js_set matched),
           dv_maxInternalSimilarity = js_round6 (case map_of sims (tc_id tc) of None \<Rightarrow> 0 | Some s \<Rightarrow> s) \<rparr>)"

definition buildPerCase ::
  "GeneratedTestCase list \<Rightarrow> DedupeInternalFinding list \<Rightarrow> DedupeExternalFinding list \<Rightarrow> DedupeCaseVerdict list" where
  "buildPerCase testCases internal external =
     (let sources = fold (\<lambda>f. fold (note_source (if_source f)) (internal_ids f)) internal [];
          sims = fold (\<lambda>f. fold (note_similarity (if_similarity f)) (internal_ids f)) internal [];
          allSources = fold (\<lambda>f. note_source ''external_lookup'' (ef_testCaseId f)) external sources
      in sort_key dv_testCaseId (map (case_verdict allSources sims) testCases))"

definition lexical_finding :: "TestCaseDuplicatePair \<Rightarrow> DedupeInternalFinding" where
  "lexical_finding p = \<lparr> if_source = ''lexical'', if_leftTestCaseId = dp_leftTestCaseId p,
     if_rightTestCaseId = dp_rightTestCaseId p, if_similarity = dp_similarity p \<rparr>"

definition dedupe_report ::
  "DetectTestCaseDuplicatesExtendedInput \<Rightarrow> DedupeInternalFinding list \<Rightarrow> DedupeInternalFinding list \<Rightarrow>
     ExternalProbeOutcome \<Rightarrow> TestCaseDedupeReport" where
  "dedupe_report input lexicalFindings embeddingFindings external =
     (let internalFindings = sort_key (\<lambda>f. (if_source f, embedding_key f)) (lexicalFindings @ embeddingFindings);
          perCase = buildPerCase (xi_testCases input) internalFindings (po_findings external)
      in \<lparr> xr_jobId = xi_jobId input, xr_generatedAt = xi_generatedAt input, xr_lexicalThreshold = xi_lexicalThreshold input,
           xr_embeddingThreshold = xi_embeddingThreshold input,
           xr_embeddingIdentifier = map_option ep_identifier (xi_embeddingProvider input),
           xr_externalState = po_state external, xr_externalCases = po_cases external, xr_externalNote = po_note external,
           xr_internalFindings = internalFindings, xr_externalFindings = po_findings external, xr_perCase = perCase,
           xr_duplicates = length (filter dv_isDuplicate perCase), xr_internalLexical = length lexicalFindings,
           xr_internalEmbedding = length embeddingFindings, xr_externalMatches = length (po_findings external) \<rparr>)"

definition detectTestCaseDuplicatesExtended ::
  "(rat \<Rightarrow> rat) \<Rightarrow> DetectTestCaseDuplicatesExtendedInput \<Rightarrow> dedupe_error + TestCaseDedupeReport" where
  "detectTestCaseDuplicatesExtended sqrt_fn input =
     (if js_less (xi_lexicalThreshold input) 0 \<or> js_greater (xi_lexicalThreshold input) 1 then Inl Lexical_threshold_out_of_range
      else case detectDuplicateTestCases (xi_testCases input) (xi_lexicalThreshold input) of
        Inl e \<Rightarrow> Inl (Lexical_failed e)
      | Inr pairs \<Rightarrow>
          (case (case xi_embeddingProvider input of
                   None \<Rightarrow> Inr []
                 | Some provider \<Rightarrow> computeEmbeddingFindings sqrt_fn (xi_testCases input) provider
                     (case xi_embeddingThreshold input of None \<Rightarrow> xi_lexicalThreshold input | Some t \<Rightarrow> t)) of
             Inl e \<Rightarrow> Inl e
           | Inr embeddingFindings \<Rightarrow>
               (case runExternalProbe input of
                  Inl e \<Rightarrow> Inl e
                | Inr external \<Rightarrow> Inr (dedupe_report input (map lexical_finding pairs) embeddingFindings external))))"

section \<open>Verdicts, specified\<close>

definition found_sources :: "DedupeInternalFinding list \<Rightarrow> DedupeExternalFinding list \<Rightarrow> string \<Rightarrow> string list" where
  "found_sources internal external testId =
     map if_source (filter (\<lambda>f. testId \<in> set (internal_ids f)) internal)
     @ map (\<lambda>f. ''external_lookup'') (filter (\<lambda>f. ef_testCaseId f = testId) external)"

definition max_similarity :: "DedupeInternalFinding list \<Rightarrow> string \<Rightarrow> rat" where
  "max_similarity internal testId =
     (case map if_similarity (filter (\<lambda>f. testId \<in> set (internal_ids f)) internal) of
        [] \<Rightarrow> 0 | s # sims \<Rightarrow> fold max sims s)"

definition verdict_spec :: "DedupeInternalFinding list \<Rightarrow> DedupeExternalFinding list \<Rightarrow> GeneratedTestCase \<Rightarrow> DedupeCaseVerdict" where
  "verdict_spec internal external tc =
     (let found = found_sources internal external (tc_id tc)
      in \<lparr> dv_testCaseId = tc_id tc, dv_isDuplicate = (found \<noteq> []), dv_matchedSources = js_sort (js_set found),
           dv_maxInternalSimilarity = js_round6 (max_similarity internal (tc_id tc)) \<rparr>)"

definition sources_at :: "(string \<times> string list) list \<Rightarrow> string \<Rightarrow> string list" where
  "sources_at sources testId = (case map_of sources testId of None \<Rightarrow> [] | Some s \<Rightarrow> s)"

lemma sources_at_note:
  "sources_at (note_source source t sources) testId = (if testId = t then set_add source (sources_at sources testId) else sources_at sources testId)"
  by (simp add: sources_at_def note_source_def)

lemma set_sources_note:
  "set (sources_at (note_source source t sources) testId) = set (sources_at sources testId) \<union> (if testId = t then {source} else {})"
  by (simp add: sources_at_note)

lemma set_sources_ids:
  "set (sources_at (fold (note_source source) ids sources) testId)
     = set (sources_at sources testId) \<union> (if testId \<in> set ids then {source} else {})"
  by (induction ids arbitrary: sources) (auto simp: set_sources_note)

lemma set_sources_internal:
  "set (sources_at (fold (\<lambda>f. fold (note_source (if_source f)) (internal_ids f)) internal sources) testId)
     = set (sources_at sources testId) \<union> if_source ` {f \<in> set internal. testId \<in> set (internal_ids f)}"
  by (induction internal arbitrary: sources) (auto simp: set_sources_ids)

lemma set_sources_external:
  "set (sources_at (fold (\<lambda>f. note_source source (ef_testCaseId f)) external sources) testId)
     = set (sources_at sources testId) \<union> (\<lambda>f. source) ` {f \<in> set external. ef_testCaseId f = testId}"
  by (induction external arbitrary: sources) (auto simp: set_sources_note)

definition merge_max :: "rat option \<Rightarrow> rat \<Rightarrow> rat option" where
  "merge_max seen s = Some (case seen of None \<Rightarrow> s | Some m \<Rightarrow> max s m)"

lemma similarity_note:
  "map_of (note_similarity s t sims) testId = (if testId = t then merge_max (map_of sims testId) s else map_of sims testId)"
  by (auto simp: note_similarity_def merge_max_def max_def split: option.split)

lemma merge_max_idem [simp]: "merge_max (merge_max seen s) s = merge_max seen s"
  by (auto simp: merge_max_def max_def split: option.split)

lemma similarity_ids:
  "map_of (fold (note_similarity s) ids sims) testId = (if testId \<in> set ids then merge_max (map_of sims testId) s else map_of sims testId)"
  by (induction ids arbitrary: sims) (auto simp: similarity_note)

lemma similarity_internal:
  "map_of (fold (\<lambda>f. fold (note_similarity (if_similarity f)) (internal_ids f)) internal sims) testId
     = fold (\<lambda>s seen. merge_max seen s) (map if_similarity (filter (\<lambda>f. testId \<in> set (internal_ids f)) internal)) (map_of sims testId)"
  by (induction internal arbitrary: sims) (simp_all add: similarity_ids)

lemma fold_merge_max: "fold (\<lambda>s seen. merge_max seen s) sims (Some m) = Some (fold max sims m)"
  by (induction sims arbitrary: m) (simp_all add: merge_max_def)

lemma fold_merge_max_None:
  "fold (\<lambda>s seen. merge_max seen s) sims None = (case sims of [] \<Rightarrow> None | s # rest \<Rightarrow> Some (fold max rest s))"
  by (cases sims) (simp_all add: merge_max_def [of None] fold_merge_max)

lemma case_verdict_spec:
  assumes "set (sources_at sources (tc_id tc)) = set (found_sources internal external (tc_id tc))"
    and "(case map_of sims (tc_id tc) of None \<Rightarrow> 0 | Some s \<Rightarrow> s) = max_similarity internal (tc_id tc)"
  shows "case_verdict sources sims tc = verdict_spec internal external tc"
proof -
  have "js_sort (js_set (sources_at sources (tc_id tc))) = js_sort (js_set (found_sources internal external (tc_id tc)))"
    by (rule js_sort_unique) (simp_all add: assms(1))
  moreover have "sources_at sources (tc_id tc) = [] \<longleftrightarrow> found_sources internal external (tc_id tc) = []"
    using arg_cong [OF assms(1), of "\<lambda>S. S = {}"] by simp
  ultimately show ?thesis
    unfolding case_verdict_def verdict_spec_def sources_at_def [symmetric] assms(2) Let_def by simp
qed

lemma per_case_exact:
  "buildPerCase testCases internal external = sort_key dv_testCaseId (map (verdict_spec internal external) testCases)"
proof -
  define noted where "noted = fold (\<lambda>f. fold (note_source (if_source f)) (internal_ids f)) internal []"
  define sims where "sims = fold (\<lambda>f. fold (note_similarity (if_similarity f)) (internal_ids f)) internal []"
  have "case_verdict (fold (\<lambda>f. note_source ''external_lookup'' (ef_testCaseId f)) external noted) sims tc
      = verdict_spec internal external tc" for tc
  proof (rule case_verdict_spec)
    have "set (sources_at noted (tc_id tc)) = if_source ` {f \<in> set internal. tc_id tc \<in> set (internal_ids f)}"
      by (simp add: noted_def set_sources_internal sources_at_def [of "[]"])
    then show "set (sources_at (fold (\<lambda>f. note_source ''external_lookup'' (ef_testCaseId f)) external noted) (tc_id tc))
        = set (found_sources internal external (tc_id tc))"
      by (simp only: set_sources_external found_sources_def set_append set_map set_filter)
    show "(case map_of sims (tc_id tc) of None \<Rightarrow> 0 | Some s \<Rightarrow> s) = max_similarity internal (tc_id tc)"
      by (simp add: sims_def similarity_internal fold_merge_max_None max_similarity_def split: list.split)
  qed
  then show ?thesis
    unfolding buildPerCase_def Let_def noted_def sims_def
    by (intro arg_cong [of _ _ "sort_key dv_testCaseId"] map_cong refl)
qed

section \<open>The probe, specified\<close>

definition answer_of :: "DetectTestCaseDuplicatesExtendedInput \<Rightarrow> GeneratedTestCase \<Rightarrow> ExternalDedupeProbeLookupResult option" where
  "answer_of input tc =
     (case (xi_externalProbe input, probe_context input tc) of
        (Some probe_lookup, Inr ctx) \<Rightarrow> Some (probe_lookup tc ctx)
      | _ \<Rightarrow> None)"

text \<open>The exception of the context callback that ends the run: the first in the order of the cases.\<close>

definition context_errors :: "DetectTestCaseDuplicatesExtendedInput \<Rightarrow> GeneratedTestCase list \<Rightarrow> string list" where
  "context_errors input cases =
     List.map_filter (\<lambda>tc. case probe_context input tc of Inl message \<Rightarrow> Some message | Inr ctx \<Rightarrow> None) cases"

definition callback_error :: "DetectTestCaseDuplicatesExtendedInput \<Rightarrow> string option" where
  "callback_error input =
     (case (xi_externalProbe input, context_errors input (xi_testCases input)) of
        (Some p, message # others) \<Rightarrow> Some message
      | _ \<Rightarrow> None)"

fun completed_answer :: "ExternalDedupeProbeLookupResult option \<Rightarrow> bool" where
  "completed_answer (Some Probe_missing) = True"
| "completed_answer (Some (Probe_found e f)) = True"
| "completed_answer _ = False"

definition finding_of :: "DetectTestCaseDuplicatesExtendedInput \<Rightarrow> GeneratedTestCase \<Rightarrow> DedupeExternalFinding list" where
  "finding_of input tc =
     (case (answer_of input tc, probe_context input tc) of
        (Some (Probe_found entity folder), Inr ctx) \<Rightarrow>
          [\<lparr> ef_testCaseId = tc_id tc,
             ef_externalIdCandidate = (case pc_externalIdCandidate ctx of None \<Rightarrow> [] | Some c \<Rightarrow> c),
             ef_matchedFolderPath = folder, ef_matchedEntityId = entity \<rparr>]
      | _ \<Rightarrow> [])"

lemma probe_step:
  assumes "xi_externalProbe input = Some p" "probe_context input tc = Inr ctx"
  obtains d where "probe_case p ctx tc (seen, n, found) =
     (if completed_answer (answer_of input tc) then seen else or_else seen d,
      n + (if completed_answer (answer_of input tc) then 1 else 0), found @ finding_of input tc)"
proof (cases "p tc ctx")
  case (Probe_unavailable detail)
  then show thesis using that [of "sanitizeProbeDetail detail"] by (simp add: probe_case_def answer_of_def finding_of_def assms)
next
  case (Probe_threw message)
  then show thesis
    using that [of "sanitizeProbeDetail (case message of None \<Rightarrow> ''external_probe_threw'' | Some m \<Rightarrow> m)"]
    by (simp add: probe_case_def answer_of_def finding_of_def assms)
qed (use that in \<open>simp_all add: probe_case_def answer_of_def finding_of_def assms\<close>)

lemma or_else_None [simp]: "or_else x y \<noteq> None"
  by (cases x) simp_all

lemma context_errors_Cons [simp]:
  "context_errors input (tc # cases) =
     (case probe_context input tc of Inl message \<Rightarrow> message # context_errors input cases | Inr ctx \<Rightarrow> context_errors input cases)"
  by (simp add: context_errors_def List.map_filter_simps split: sum.split)

lemma context_errors_Nil [simp]: "context_errors input [] = []"
  by (simp add: context_errors_def List.map_filter_simps)

lemma probe_interrupted:
  "context_errors input cases = message # others \<Longrightarrow>
   probe_cases p (probe_context input) cases acc = Inl (External_context_threw message)"
  by (induction cases arbitrary: acc) (auto split: sum.splits)

lemma probe_loop:
  assumes "xi_externalProbe input = Some p" "context_errors input cases = []"
  shows "\<exists>noted. probe_cases p (probe_context input) cases (seen, n, found)
      = Inr (noted, n + length (filter (\<lambda>tc. completed_answer (answer_of input tc)) cases), found @ concat (map (finding_of input) cases))
    \<and> (noted = None \<longleftrightarrow> seen = None \<and> list_all (\<lambda>tc. completed_answer (answer_of input tc)) cases)"
  using assms(2)
proof (induction cases arbitrary: seen n found)
  case (Cons tc cases)
  then obtain ctx where ctx: "probe_context input tc = Inr ctx" and rest: "context_errors input cases = []"
    by (auto split: sum.splits)
  obtain d where step: "probe_case p ctx tc (seen, n, found) =
     (if completed_answer (answer_of input tc) then seen else or_else seen d,
      n + (if completed_answer (answer_of input tc) then 1 else 0), found @ finding_of input tc)"
    using probe_step [OF assms(1) ctx] .
  show ?case
  proof (cases "completed_answer (answer_of input tc)")
    case True
    then show ?thesis using Cons.IH [OF rest, of seen "n + 1" "found @ finding_of input tc"] by (simp add: step ctx)
  next
    case False
    then show ?thesis using Cons.IH [OF rest, of "or_else seen d" n "found @ finding_of input tc"] by (simp add: step ctx)
  qed
qed simp

definition probe_state_spec :: "DetectTestCaseDuplicatesExtendedInput \<Rightarrow> DedupeExternalProbeState" where
  "probe_state_spec input =
     (let completed = filter (\<lambda>tc. completed_answer (answer_of input tc)) (xi_testCases input)
      in if xi_externalProbe input = None then Probe_disabled
         else if completed = [] then Probe_unconfigured
         else if completed = xi_testCases input then Probe_executed
         else Probe_partial_failure)"

lemma no_finding: "\<not> completed_answer (answer_of input tc) \<Longrightarrow> finding_of input tc = []"
  by (auto simp: finding_of_def split: option.split ExternalDedupeProbeLookupResult.split)

lemma concat_Nils [simp]: "concat (map (\<lambda>x. []) xs) = []"
  by (induction xs) simp_all

lemma no_sorted: "[] = sort_key f xs \<longleftrightarrow> xs = []"
  by (cases xs) (simp_all, metis insort_not_Nil)

lemma probe_exact:
  assumes "callback_error input = None"
  obtains external where "runExternalProbe input = Inr external"
    "po_state external = probe_state_spec input"
    "po_cases external = (if xi_externalProbe input = None then 0 else length (xi_testCases input))"
    "po_findings external = sort_key ef_testCaseId (concat (map (finding_of input) (xi_testCases input)))"
    "po_note external = None \<longleftrightarrow> probe_state_spec input = Probe_disabled \<or> probe_state_spec input = Probe_executed"
proof (cases "xi_externalProbe input")
  case None
  then have "finding_of input = (\<lambda>tc. [])" by (simp add: fun_eq_iff finding_of_def answer_of_def)
  then show thesis
    using None that [of "\<lparr> po_state = Probe_disabled, po_cases = 0, po_note = None, po_findings = [] \<rparr>"]
    by (simp add: runExternalProbe_def probe_state_spec_def)
next
  case (Some p)
  let ?cs = "xi_testCases input" and ?done = "\<lambda>tc. completed_answer (answer_of input tc)"
  have "context_errors input ?cs = []" using assms Some by (simp add: callback_error_def split: list.splits)
  then obtain noted where loop: "probe_cases p (probe_context input) ?cs (None, 0, [])
      = Inr (noted, length (filter ?done ?cs), concat (map (finding_of input) ?cs))"
    "noted = None \<longleftrightarrow> list_all ?done ?cs"
    using probe_loop [OF Some, of ?cs None 0 "[]"] by auto
  have all: "filter ?done ?cs = ?cs \<longleftrightarrow> list_all ?done ?cs" by (simp add: filter_id_conv list_all_iff)
  have none: "concat (map (finding_of input) ?cs) = []" if "filter ?done ?cs = []"
    using that no_finding by (auto simp: filter_empty_conv)
  show thesis
  proof (cases "list_all ?done ?cs")
    case True
    then show thesis using loop all Some that by (auto simp: runExternalProbe_def probe_state_spec_def Let_def)
  next
    case False
    then obtain d where d: "noted = Some d" using loop(2) by auto
    have "filter ?done ?cs \<noteq> ?cs" using False all by simp
    then show thesis
    proof (cases "filter ?done ?cs = []")
      case True
      show thesis
        using \<open>filter ?done ?cs \<noteq> ?cs\<close> loop(1) none [OF True] True Some that
        by (auto simp: runExternalProbe_def probe_state_spec_def d no_sorted)
    next
      case nonempty: False
      then show thesis
        using \<open>filter ?done ?cs \<noteq> ?cs\<close> loop(1) Some that
        by (auto simp: runExternalProbe_def probe_state_spec_def Let_def d)
    qed
  qed
qed

lemma probe_interrupted_run:
  "callback_error input = Some message \<Longrightarrow> runExternalProbe input = Inl (External_context_threw message)"
  by (auto simp: callback_error_def runExternalProbe_def probe_interrupted split: option.splits list.splits)

text \<open>The part of a run that does not look at the probe: the two kinds of internal findings.\<close>

definition internal_part ::
  "(rat \<Rightarrow> rat) \<Rightarrow> DetectTestCaseDuplicatesExtendedInput \<Rightarrow> dedupe_error + (DedupeInternalFinding list \<times> DedupeInternalFinding list)" where
  "internal_part sqrt_fn input =
     (if js_less (xi_lexicalThreshold input) 0 \<or> js_greater (xi_lexicalThreshold input) 1 then Inl Lexical_threshold_out_of_range
      else case detectDuplicateTestCases (xi_testCases input) (xi_lexicalThreshold input) of
        Inl e \<Rightarrow> Inl (Lexical_failed e)
      | Inr pairs \<Rightarrow> map_sum id (Pair (map lexical_finding pairs))
          (case xi_embeddingProvider input of
             None \<Rightarrow> Inr []
           | Some provider \<Rightarrow> computeEmbeddingFindings sqrt_fn (xi_testCases input) provider
               (case xi_embeddingThreshold input of None \<Rightarrow> xi_lexicalThreshold input | Some t \<Rightarrow> t)))"

lemma internal_part_no_probe: "internal_part sqrt_fn (input\<lparr> xi_externalProbe := None \<rparr>) = internal_part sqrt_fn input"
  by (simp add: internal_part_def cong: option.case_cong sum.case_cong)

lemma extended_parts:
  "detectTestCaseDuplicatesExtended sqrt_fn input =
     (case internal_part sqrt_fn input of
        Inl e \<Rightarrow> Inl e
      | Inr (lexical, embedding) \<Rightarrow>
          (case runExternalProbe input of Inl e \<Rightarrow> Inl e | Inr external \<Rightarrow> Inr (dedupe_report input lexical embedding external)))"
  by (simp add: detectTestCaseDuplicatesExtended_def internal_part_def split: sum.split)

lemma extended_no_probe:
  "detectTestCaseDuplicatesExtended sqrt_fn (input\<lparr> xi_externalProbe := None \<rparr>) =
     map_sum id (\<lambda>(lexical, embedding). dedupe_report (input\<lparr> xi_externalProbe := None \<rparr>) lexical embedding
       \<lparr> po_state = Probe_disabled, po_cases = 0, po_note = None, po_findings = [] \<rparr>) (internal_part sqrt_fn input)"
  by (simp add: extended_parts internal_part_no_probe runExternalProbe_def split: sum.split)

section \<open>Properties\<close>

text \<open>
  C39: The external probe fails closed and never makes the run fail. The run raises exactly what it raises
  without a probe (a bad threshold, a rejected or ill-formed embedding) or, with a probe set, the first
  exception of the context callback, which is called outside the \<^verbatim>\<open>try\<close>; whatever the lookups do, also when
  every one throws, the report is returned with the internal findings it has without a probe. It says
  \<open>executed\<close> exactly when a probe is set and every lookup of a non-empty suite answered,
  \<open>partial_failure\<close> when some did, \<open>unconfigured\<close> when none did (also for an empty suite) and \<open>disabled\<close>
  without a probe; the external findings are those of the answered lookups, and a note explains exactly the
  failed states.
\<close>
theorem external_probe_fails_closed:
  "(case detectTestCaseDuplicatesExtended sqrt_fn (input\<lparr> xi_externalProbe := None \<rparr>) of
      Inl e \<Rightarrow> detectTestCaseDuplicatesExtended sqrt_fn input = Inl e
    | Inr internal \<Rightarrow>
        (case (callback_error input, detectTestCaseDuplicatesExtended sqrt_fn input) of
           (Some message, res) \<Rightarrow> res = Inl (External_context_threw message)
         | (None, Inl e) \<Rightarrow> False
         | (None, Inr r) \<Rightarrow>
             xr_externalState r = probe_state_spec input
             \<and> xr_externalCases r = (if xi_externalProbe input = None then 0 else length (xi_testCases input))
             \<and> xr_externalFindings r = sort_key ef_testCaseId (concat (map (finding_of input) (xi_testCases input)))
             \<and> (xr_externalNote r = None) = (probe_state_spec input = Probe_disabled \<or> probe_state_spec input = Probe_executed)
             \<and> xr_internalFindings r = xr_internalFindings internal))"
proof (cases "callback_error input")
  case None
  obtain external where "runExternalProbe input = Inr external"
    "po_state external = probe_state_spec input"
    "po_cases external = (if xi_externalProbe input = None then 0 else length (xi_testCases input))"
    "po_findings external = sort_key ef_testCaseId (concat (map (finding_of input) (xi_testCases input)))"
    "po_note external = None \<longleftrightarrow> probe_state_spec input = Probe_disabled \<or> probe_state_spec input = Probe_executed"
    by (rule probe_exact [OF None])
  then show ?thesis
    unfolding extended_no_probe extended_parts [of sqrt_fn input] by (auto simp: None dedupe_report_def Let_def split: sum.split)
next
  case (Some message)
  then show ?thesis
    unfolding extended_no_probe extended_parts [of sqrt_fn input] by (auto simp: probe_interrupted_run split: sum.split)
qed

text \<open>
  The verdicts per case are exactly what the findings say: one row for each case, by id; a case is a
  duplicate exactly when some finding names it, its sources are those of the findings that name it, sorted
  and without repetition, and its similarity is the greatest among its internal findings, or zero.
\<close>
theorem dedupe_verdicts_exact:
  "(case detectTestCaseDuplicatesExtended sqrt_fn input of
      Inl e \<Rightarrow> True
    | Inr r \<Rightarrow> xr_perCase r
          = sort_key dv_testCaseId (map (verdict_spec (xr_internalFindings r) (xr_externalFindings r)) (xi_testCases input))
        \<and> xr_duplicates r = length (filter dv_isDuplicate (xr_perCase r))
        \<and> xr_internalLexical r + xr_internalEmbedding r = length (xr_internalFindings r)
        \<and> xr_externalMatches r = length (xr_externalFindings r))"
  by (simp add: extended_parts dedupe_report_def Let_def per_case_exact split: sum.split)

end
