(* ===== verification/Patterns.thy ===== *)
theory Patterns
  imports Prelude
begin

text \<open>
  The regular expressions of the code, with the two ways it applies them: a test of a whole string
  (\<^verbatim>\<open>^...$\<close>) and a search, between word boundaries (\<^verbatim>\<open>\b...\b\<close>) or anywhere. Matching is by
  derivatives, so it is executable; each test is shown to be the one of the declarative relation
  \<open>accepts\<close>.
\<close>

section \<open>Expressions\<close>

datatype pattern =
    Never
  | Empty
  | OneOf "char \<Rightarrow> bool"
  | Then pattern pattern
  | Either pattern pattern
  | Many pattern

inductive accepts :: "pattern \<Rightarrow> string \<Rightarrow> bool" where
  accepts_Empty: "accepts Empty []"
| accepts_OneOf: "P c \<Longrightarrow> accepts (OneOf P) [c]"
| accepts_Then: "accepts p u \<Longrightarrow> accepts q v \<Longrightarrow> accepts (Then p q) (u @ v)"
| accepts_left: "accepts p u \<Longrightarrow> accepts (Either p q) u"
| accepts_right: "accepts q u \<Longrightarrow> accepts (Either p q) u"
| accepts_Many_Nil: "accepts (Many p) []"
| accepts_Many: "accepts p (c # u) \<Longrightarrow> accepts (Many p) v \<Longrightarrow> accepts (Many p) (c # u @ v)"

inductive_simps accepts_simps [simp]:
  "accepts Never u" "accepts Empty u" "accepts (OneOf P) u" "accepts (Either p q) u"

inductive_simps accepts_Then_iff: "accepts (Then p q) w"
inductive_simps accepts_Many_Cons: "accepts (Many p) (c # w)"

section \<open>Matching\<close>

fun nullable :: "pattern \<Rightarrow> bool" where
  "nullable Never = False"
| "nullable Empty = True"
| "nullable (OneOf P) = False"
| "nullable (Then p q) = (nullable p \<and> nullable q)"
| "nullable (Either p q) = (nullable p \<or> nullable q)"
| "nullable (Many p) = True"

text \<open>Constructors that drop what can never match.\<close>

fun chained :: "pattern \<Rightarrow> pattern \<Rightarrow> pattern" where
  "chained Never q = Never"
| "chained Empty q = q"
| "chained p q = Then p q"

fun either :: "pattern \<Rightarrow> pattern \<Rightarrow> pattern" where
  "either Never q = q"
| "either p Never = p"
| "either p q = Either p q"

fun after :: "char \<Rightarrow> pattern \<Rightarrow> pattern" where
  "after c Never = Never"
| "after c Empty = Never"
| "after c (OneOf P) = (if P c then Empty else Never)"
| "after c (Then p q) = (if nullable p then either (chained (after c p) q) (after c q) else chained (after c p) q)"
| "after c (Either p q) = either (after c p) (after c q)"
| "after c (Many p) = chained (after c p) (Many p)"

fun full_match :: "pattern \<Rightarrow> string \<Rightarrow> bool" where
  "full_match p [] = nullable p"
| "full_match p (c # s) = full_match (after c p) s"

text \<open>A match of a prefix that ends where \<open>stop\<close> allows it: given the last code unit before and the text after.\<close>

fun prefix_match :: "(char option \<Rightarrow> string \<Rightarrow> bool) \<Rightarrow> char option \<Rightarrow> pattern \<Rightarrow> string \<Rightarrow> bool" where
  "prefix_match stop prev p [] = (nullable p \<and> stop prev [])"
| "prefix_match stop prev p (c # s) = ((nullable p \<and> stop prev (c # s)) \<or> prefix_match stop (Some c) (after c p) s)"

fun search_from :: "(char option \<Rightarrow> string \<Rightarrow> bool) \<Rightarrow> char option \<Rightarrow> pattern \<Rightarrow> string \<Rightarrow> bool" where
  "search_from stop prev p [] = (stop prev [] \<and> prefix_match stop prev p [])"
| "search_from stop prev p (c # s) = ((stop prev (c # s) \<and> prefix_match stop prev p (c # s)) \<or> search_from stop (Some c) p s)"

definition word_at :: "char option \<Rightarrow> bool" where
  "word_at c = (case c of None \<Rightarrow> False | Some c \<Rightarrow> word_char c)"

fun first_char :: "string \<Rightarrow> char option" where
  "first_char [] = None"
| "first_char (c # s) = Some c"

definition word_boundary :: "char option \<Rightarrow> string \<Rightarrow> bool" where
  "word_boundary prev s \<longleftrightarrow> word_at prev \<noteq> word_at (first_char s)"

definition search_words :: "pattern \<Rightarrow> string \<Rightarrow> bool" where
  "search_words p s = search_from word_boundary None p s"

definition search_anywhere :: "pattern \<Rightarrow> string \<Rightarrow> bool" where
  "search_anywhere p s = search_from (\<lambda>prev s. True) None p s"

section \<open>Abbreviations of the notation\<close>

fun literal :: "string \<Rightarrow> pattern" where
  "literal [] = Empty"
| "literal [c] = OneOf (\<lambda>d. d = c)"
| "literal (c # s) = Then (OneOf (\<lambda>d. d = c)) (literal s)"

fun alternatives :: "pattern list \<Rightarrow> pattern" where
  "alternatives [] = Never"
| "alternatives (p # ps) = (if ps = [] then p else Either p (alternatives ps))"

fun in_turn :: "pattern list \<Rightarrow> pattern" where
  "in_turn [] = Empty"
| "in_turn (p # ps) = (if ps = [] then p else Then p (in_turn ps))"

definition optionally :: "pattern \<Rightarrow> pattern" where
  "optionally p = Either Empty p"

definition some_of :: "pattern \<Rightarrow> pattern" where
  "some_of p = Then p (Many p)"

definition a_digit :: pattern where
  "a_digit = OneOf (\<lambda>c. c \<in> set ''0123456789'')"

definition a_space :: pattern where
  "a_space = OneOf js_space"

section \<open>Correctness\<close>

lemma accepts_chained [simp]: "accepts (chained p q) = accepts (Then p q)"
  by (rule ext, cases p) (auto simp: accepts_Then_iff)

lemma accepts_either [simp]: "accepts (either p q) w \<longleftrightarrow> accepts p w \<or> accepts q w"
  by (cases p; cases q) auto

lemma nullable_iff: "nullable p \<longleftrightarrow> accepts p []"
  by (induction p) (auto simp: accepts_Then_iff intro: accepts_Many_Nil)

lemma split_Cons: "(\<exists>u v. c # s = u @ v \<and> Q u v) \<longleftrightarrow> Q [] (c # s) \<or> (\<exists>u v. s = u @ v \<and> Q (c # u) v)"
proof
  assume "\<exists>u v. c # s = u @ v \<and> Q u v"
  then obtain u v where "c # s = u @ v" "Q u v" by blast
  then show "Q [] (c # s) \<or> (\<exists>u v. s = u @ v \<and> Q (c # u) v)" by (cases u) auto
next
  assume "Q [] (c # s) \<or> (\<exists>u v. s = u @ v \<and> Q (c # u) v)"
  then show "\<exists>u v. c # s = u @ v \<and> Q u v" by (metis append_Nil append_Cons)
qed

lemma accepts_after: "accepts (after c p) w \<longleftrightarrow> accepts p (c # w)"
proof (induction p arbitrary: w)
  case (Then p q)
  have "accepts (Then p q) (c # w) \<longleftrightarrow>
      (accepts p [] \<and> accepts q (c # w)) \<or> (\<exists>u v. w = u @ v \<and> accepts p (c # u) \<and> accepts q v)"
    unfolding accepts_Then_iff by (rule split_Cons)
  then show ?case using Then by (auto simp: accepts_Then_iff nullable_iff)
qed (auto simp: accepts_Then_iff accepts_Many_Cons)

theorem full_match_iff: "full_match p s \<longleftrightarrow> accepts p s"
  by (induction p s rule: full_match.induct) (simp_all add: nullable_iff accepts_after)

definition last_char :: "char option \<Rightarrow> string \<Rightarrow> char option" where
  "last_char prev u = (if u = [] then prev else Some (last u))"

lemma last_char_simps [simp]: "last_char prev [] = prev" "last_char prev (c # u) = last_char (Some c) u"
  by (simp_all add: last_char_def)

lemma prefix_match_iff:
  "prefix_match stop prev p s \<longleftrightarrow> (\<exists>u v. s = u @ v \<and> accepts p u \<and> stop (last_char prev u) v)"
  by (induction stop prev p s rule: prefix_match.induct) (simp_all add: nullable_iff accepts_after split_Cons)

lemma search_from_split:
  "search_from stop prev p s \<longleftrightarrow>
     (\<exists>u t. s = u @ t \<and> stop (last_char prev u) t \<and> prefix_match stop (last_char prev u) p t)"
proof (induction stop prev p s rule: search_from.induct)
  case (2 stop prev p c s)
  then show ?case unfolding split_Cons last_char_simps search_from.simps by blast
qed simp

lemma last_char_append: "last_char prev (u @ v) = last_char (last_char prev u) v"
  by (simp add: last_char_def)

text \<open>A search finds a part that is accepted and lies between two allowed positions.\<close>

theorem search_from_iff:
  "search_from stop prev p s \<longleftrightarrow>
     (\<exists>u v w. s = u @ v @ w \<and> accepts p v \<and> stop (last_char prev u) (v @ w) \<and> stop (last_char prev (u @ v)) w)"
  unfolding search_from_split prefix_match_iff last_char_append by blast

lemma accepts_literal [simp]: "accepts (literal s) w \<longleftrightarrow> w = s"
  by (induction s arbitrary: w rule: literal.induct) (auto simp: accepts_Then_iff)

lemma accepts_alternatives [simp]: "accepts (alternatives ps) w \<longleftrightarrow> (\<exists>p\<in>set ps. accepts p w)"
  by (induction ps) auto

end
