(* ===== verification/CoverageTargets.thy ===== *)
theory CoverageTargets
  imports Patterns
begin

text \<open>
  Which elements of a design count as coverage targets
  (\<^verbatim>\<open>packages/core-engine/src/coverage-relevance.ts\<close>) and the tier of each field-lifecycle transition
  (\<^verbatim>\<open>field-lifecycle-transition-tier.ts\<close>). The euro sign, which two patterns mention, is no code unit
  of the model.
\<close>

section \<open>Relevance\<close>

record CoverageElementLike =
  el_label :: "string option"
  el_kind :: "string option"
  el_type :: "string option"

record CoverageActionLike =
  al_label :: "string option"
  al_kind :: "string option"

definition DECORATIVE_LABELS :: "string list" where
  "DECORATIVE_LABELS =
     ['''', ''(optional)'', ''<icon>'', ''<radio>'', ''<button>'', ''<select>'', ''<svg>'', ''<text>'', ''<textfield>'',
      ''<vector>'', ''alt text'', ''alternate text'', ''alternativtext'', ''eur'', ''icon'', ''optional'', ''text'', ''typography'']"

definition words :: "string list \<Rightarrow> pattern" where
  "words ws = alternatives (map literal ws)"

definition node_ids :: pattern where
  "node_ids = in_turn [some_of a_digit, literal '':'', some_of a_digit]"

definition FIGMA_NODE_ID_PATTERN :: pattern where
  "FIGMA_NODE_ID_PATTERN = Then node_ids (optionally (in_turn
     [literal ''::'', words [''field'', ''action'', ''validation'', ''navigation''], literal ''::'', node_ids]))"

definition VALUE_ONLY_PATTERN :: pattern where
  "VALUE_ONLY_PATTERN = in_turn
     [optionally (OneOf (\<lambda>c. c \<in> set ''+-'')),
      in_turn [a_digit, optionally a_digit, optionally a_digit],
      Many (in_turn [OneOf (\<lambda>c. c = CHR ''.'' \<or> js_space c), a_digit, a_digit, a_digit]),
      optionally (Then (literal '','') (some_of a_digit)),
      optionally (Then (Many a_space) (words [''eur'', ''%'']))]"

definition TECHNICAL_PLACEHOLDER_PATTERN :: pattern where
  "TECHNICAL_PLACEHOLDER_PATTERN = in_turn
     [literal ''<'', words [''radio'', ''button'', ''text'', ''textfield'', ''select'', ''vector'', ''icon''], literal ''>'']"

definition DECORATIVE_KIND_PATTERN :: pattern where
  "DECORATIVE_KIND_PATTERN =
     words [''icon'', ''svg'', ''vector'', ''chevron'', ''arrow'', ''decorative'', ''separator'', ''divider'']"

text \<open>\<^verbatim>\<open>[_\s-]?\<close>\<close>

definition joint :: pattern where
  "joint = optionally (OneOf (\<lambda>c. c \<in> set ''_-'' \<or> js_space c))"

definition INTERACTIVE_KIND_PATTERN :: pattern where
  "INTERACTIVE_KIND_PATTERN = alternatives
     ([in_turn [literal ''text'', joint, literal ''input''], in_turn [literal ''text'', Many a_space, literal ''field'']]
      @ map literal [''textfield'', ''input'', ''number'', ''email'', ''password'', ''phone'', ''tel'', ''date'']
      @ [in_turn [literal ''select'', joint, literal ''field'']]
      @ map literal [''select'', ''dropdown'', ''combobox'', ''checkbox'']
      @ [in_turn [literal ''radio'', joint, literal ''option'']]
      @ map literal [''radio'', ''textarea'', ''currency'', ''amount'', ''percentage'', ''percent'', ''rate'', ''integer'',
          ''decimal'', ''float''])"

definition STATIC_KIND_PATTERN :: pattern where
  "STATIC_KIND_PATTERN = alternatives
     (map literal [''text'', ''typography'', ''label'']
      @ [in_turn [literal ''informative'', joint, literal ''label''], in_turn [literal ''result'', joint, literal ''display'']]
      @ map literal [''display'', ''output'', ''summary'', ''copy'', ''static''])"

definition STRUCTURAL_PLACEHOLDER_PATTERN :: pattern where
  "STRUCTURAL_PLACEHOLDER_PATTERN = in_turn
     [literal ''<'', OneOf (\<lambda>c. c \<notin> set ''<>'' \<and> \<not> js_space c), Many (OneOf (\<lambda>c. c \<notin> set ''<>'')), literal ''>'']"

definition normalizeCoverageText :: "string option \<Rightarrow> string" where
  "normalizeCoverageText text = js_lower (collapse_spaces (js_trim (case text of None \<Rightarrow> [] | Some s \<Rightarrow> s)))"

definition isDecorativeCoverageLabel :: "string \<Rightarrow> bool" where
  "isDecorativeCoverageLabel label \<longleftrightarrow>
     label \<in> set DECORATIVE_LABELS \<or> full_match TECHNICAL_PLACEHOLDER_PATTERN label \<or> full_match FIGMA_NODE_ID_PATTERN label
     \<or> full_match VALUE_ONLY_PATTERN label \<or> search_anywhere STRUCTURAL_PLACEHOLDER_PATTERN label"

definition isDecorativeCoverageKind :: "string \<Rightarrow> bool" where
  "isDecorativeCoverageKind kind \<longleftrightarrow> search_words DECORATIVE_KIND_PATTERN kind \<or> kind = ''decorative''"

definition element_kind :: "CoverageElementLike \<Rightarrow> string" where
  "element_kind e = normalizeCoverageText (case el_kind e of None \<Rightarrow> el_type e | Some k \<Rightarrow> Some k)"

definition isCoverageRelevantElementLike :: "CoverageElementLike \<Rightarrow> bool" where
  "isCoverageRelevantElementLike e \<longleftrightarrow>
     (if isDecorativeCoverageLabel (normalizeCoverageText (el_label e)) then False
      else if isDecorativeCoverageKind (element_kind e) then False
      else True)"

definition isInteractiveCoverageElementLike :: "CoverageElementLike \<Rightarrow> bool" where
  "isInteractiveCoverageElementLike e \<longleftrightarrow>
     (if \<not> isCoverageRelevantElementLike e then False
      else if element_kind e = [] \<or> full_match STATIC_KIND_PATTERN (element_kind e) then False
      else search_words INTERACTIVE_KIND_PATTERN (element_kind e))"

definition isCoverageRelevantActionLike :: "CoverageActionLike \<Rightarrow> bool" where
  "isCoverageRelevantActionLike a \<longleftrightarrow>
     (let label = normalizeCoverageText (al_label a)
      in if isDecorativeCoverageLabel label then False
         else if label \<in> {''chevron'', ''arrow'', ''dropdown icon''} then False
         else if isDecorativeCoverageKind (normalizeCoverageText (al_kind a)) then False
         else True)"

section \<open>Tiers of lifecycle transitions\<close>

datatype FieldLifecycleTransitionTier = Mandatory_negative_path | Recommended_positive_path | State_transition_test_only

definition ALLOWED_WORKFLOW_FIELD_LIFECYCLE_STATES :: "string list" where
  "ALLOWED_WORKFLOW_FIELD_LIFECYCLE_STATES = [''initial'', ''focused'', ''in_progress'', ''validated'', ''error'', ''terminal'']"

text \<open>The rows of one source state, in the order of the target states.\<close>

definition rows_from :: "string \<Rightarrow> FieldLifecycleTransitionTier list \<Rightarrow> (string \<times> string \<times> FieldLifecycleTransitionTier) list" where
  "rows_from source tiers = map (\<lambda>(to, t). (source, to, t)) (zip ALLOWED_WORKFLOW_FIELD_LIFECYCLE_STATES tiers)"

abbreviation "tierM \<equiv> Mandatory_negative_path"
abbreviation "tierR \<equiv> Recommended_positive_path"
abbreviation "tierS \<equiv> State_transition_test_only"

definition FIELD_LIFECYCLE_TRANSITION_TIER_TABLE :: "(string \<times> string \<times> FieldLifecycleTransitionTier) list" where
  "FIELD_LIFECYCLE_TRANSITION_TIER_TABLE =
     rows_from ''initial'' [tierS, tierR, tierM, tierS, tierS, tierS]
     @ rows_from ''focused'' [tierS, tierS, tierR, tierR, tierR, tierS]
     @ rows_from ''in_progress'' [tierS, tierS, tierR, tierM, tierM, tierR]
     @ rows_from ''validated'' [tierS, tierS, tierS, tierS, tierS, tierR]
     @ rows_from ''error'' [tierS, tierS, tierR, tierS, tierS, tierR]
     @ rows_from ''terminal'' [tierS, tierS, tierS, tierS, tierS, tierS]"

definition tier_key :: "string \<Rightarrow> string \<Rightarrow> string" where
  "tier_key source to = source @ ''->'' @ to"

definition TIER_LOOKUP :: "(string \<times> FieldLifecycleTransitionTier) list" where
  "TIER_LOOKUP = fold (\<lambda>(f, t, tier). AList.update (tier_key f t) tier) FIELD_LIFECYCLE_TRANSITION_TIER_TABLE []"

datatype tier_table_error = Not_exhaustive nat | Missing_row string

definition assertTransitionTierTableIsExhaustive :: "tier_table_error option" where
  "assertTransitionTierTableIsExhaustive =
     (let states = ALLOWED_WORKFLOW_FIELD_LIFECYCLE_STATES
      in if length TIER_LOOKUP \<noteq> length states * length states then Some (Not_exhaustive (length TIER_LOOKUP))
         else map_option Missing_row
           (find (\<lambda>k. map_of TIER_LOOKUP k = None) (concat (map (\<lambda>f. map (tier_key f) states) states))))"

definition classifyFieldLifecycleTransitionPair :: "string \<Rightarrow> string \<Rightarrow> FieldLifecycleTransitionTier" where
  "classifyFieldLifecycleTransitionPair source to =
     (case map_of TIER_LOOKUP (tier_key source to) of None \<Rightarrow> tierS | Some tier \<Rightarrow> tier)"

lemma table_loads: "assertTransitionTierTableIsExhaustive = None"
  by code_simp

definition tier_pairs :: "FieldLifecycleTransitionTier \<Rightarrow> (string \<times> string) list" where
  "tier_pairs tier = filter (\<lambda>(f, t). classifyFieldLifecycleTransitionPair f t = tier)
     (List.product ALLOWED_WORKFLOW_FIELD_LIFECYCLE_STATES ALLOWED_WORKFLOW_FIELD_LIFECYCLE_STATES)"

text \<open>Which transitions block a run, and which are only recommended.\<close>

lemma mandatory_transitions:
  "tier_pairs tierM = [(''initial'', ''in_progress''), (''in_progress'', ''validated''), (''in_progress'', ''error'')]"
  by code_simp

lemma recommended_transitions:
  "tier_pairs tierR = [(''initial'', ''focused''), (''focused'', ''in_progress''), (''focused'', ''validated''), (''focused'', ''error''),
     (''in_progress'', ''in_progress''), (''in_progress'', ''terminal''), (''validated'', ''terminal''), (''error'', ''in_progress''),
     (''error'', ''terminal'')]"
  by code_simp

section \<open>What the filters keep\<close>

lemma interactive_samples:
  "isInteractiveCoverageElementLike \<lparr> el_label = Some ''Loan amount'', el_kind = Some ''text_input'', el_type = None \<rparr>"
  "\<not> isInteractiveCoverageElementLike \<lparr> el_label = Some ''1.250,00 EUR'', el_kind = Some ''text_input'', el_type = None \<rparr>"
  "\<not> isInteractiveCoverageElementLike \<lparr> el_label = Some ''12:34::field::56:78'', el_kind = Some ''text_input'', el_type = None \<rparr>"
  "\<not> isInteractiveCoverageElementLike \<lparr> el_label = Some ''Due'', el_kind = Some ''date_picker'', el_type = None \<rparr>"
  by code_simp+

text \<open>The kind that reconciliation gives to fields found only by the visual side.\<close>

lemma plain_text_fields_are_no_targets:
  "isInteractiveCoverageElementLike \<lparr> el_label = l, el_kind = Some ''text'', el_type = t \<rparr> = False"
proof -
  have "element_kind \<lparr> el_label = l, el_kind = Some ''text'', el_type = t \<rparr> = ''text''"
    by (simp add: element_kind_def normalizeCoverageText_def js_trim_def js_space_def js_lower_def js_lower_char_def)
  moreover have "full_match STATIC_KIND_PATTERN ''text''" by code_simp
  ultimately show ?thesis by (simp add: isInteractiveCoverageElementLike_def)
qed

end
