(* ===== verification/InvariantRegistry.thy ===== *)
theory InvariantRegistry
  imports TestCaseData
begin

text \<open>
  The registry of domain invariants and its evaluation
  (\<^verbatim>\<open>packages/core-engine/src/domain-invariant-registry.ts\<close>). An invariant is a pair of predicates on a
  case and a context; \<^const>\<open>None\<close> stands for a predicate that throws. The shipped catalogue of
  invariants is left out. \<^verbatim>\<open>localeCompare\<close> is the parameter \<open>lc\<close>.
\<close>

section \<open>Registries\<close>

datatype DomainInvariantSeverity = Invariant_error | Invariant_warning

record 'ctx DomainInvariant =
  di_id :: string
  di_scope :: string
  di_description :: string
  di_source :: string
  di_severity :: DomainInvariantSeverity
  di_forall :: "GeneratedTestCase \<Rightarrow> 'ctx \<Rightarrow> bool option"
  di_holds :: "GeneratedTestCase \<Rightarrow> 'ctx \<Rightarrow> bool option"
  di_violationMessage :: "(GeneratedTestCase \<Rightarrow> 'ctx \<Rightarrow> string \<times> string) option"  \<comment> \<open>path and message\<close>

record DomainInvariantViolation =
  vi_invariantId :: string
  vi_testCaseId :: string
  vi_severity :: DomainInvariantSeverity
  vi_path :: string
  vi_message :: string
  vi_source :: string

record DomainInvariantCaseEvaluation =
  ce_testCaseId :: string
  ce_exercises :: "string list"
  ce_violations :: "DomainInvariantViolation list"

record DomainInvariantEvaluation =
  ie_registered :: "string list"
  ie_cases :: "DomainInvariantCaseEvaluation list"
  ie_exercisedInvariants :: "string list"
  ie_violations :: "DomainInvariantViolation list"

datatype registry_error =
    Invariant_id_invalid string
  | Invariant_scope_empty string
  | Invariant_source_empty string
  | Invariant_registered string
  | Forall_threw string
  | Holds_threw string string

text \<open>\<^verbatim>\<open>/^INV-[A-Z0-9-]{1,40}$/\<close>\<close>

definition invariant_id :: "string \<Rightarrow> bool" where
  "invariant_id s =
     (case strip_prefix ''INV-'' s of
        None \<Rightarrow> False
      | Some rest \<Rightarrow> 1 \<le> length rest \<and> length rest \<le> 40 \<and> list_all (\<lambda>c. c \<in> set ''ABCDEFGHIJKLMNOPQRSTUVWXYZ0123456789-'') rest)"

definition validateInvariant :: "'ctx DomainInvariant \<Rightarrow> registry_error option" where
  "validateInvariant dinv =
     (if \<not> invariant_id (di_id dinv) then Some (Invariant_id_invalid (di_id dinv))
      else if js_trim (di_scope dinv) = [] then Some (Invariant_scope_empty (di_id dinv))
      else if js_trim (di_source dinv) = [] then Some (Invariant_source_empty (di_id dinv))
      else None)"

text \<open>A registry lists its invariants in the order of registration.\<close>

definition register :: "'ctx DomainInvariant \<Rightarrow> 'ctx DomainInvariant list \<Rightarrow> registry_error + 'ctx DomainInvariant list" where
  "register dinv registry =
     (case validateInvariant dinv of
        Some e \<Rightarrow> Inl e
      | None \<Rightarrow> if di_id dinv \<in> di_id ` set registry then Inl (Invariant_registered (di_id dinv)) else Inr (registry @ [dinv]))"

definition list_invariants :: "string comparator \<Rightarrow> 'ctx DomainInvariant list \<Rightarrow> 'ctx DomainInvariant list" where
  "list_invariants lc registry = sort_by lc di_id registry"

definition invariant_ids :: "string comparator \<Rightarrow> 'ctx DomainInvariant list \<Rightarrow> string list" where
  "invariant_ids lc registry = sort_by lc (\<lambda>s. s) (map di_id registry)"

section \<open>Evaluation\<close>

definition invariant_violation :: "'ctx DomainInvariant \<Rightarrow> GeneratedTestCase \<Rightarrow> 'ctx \<Rightarrow> DomainInvariantViolation" where
  "invariant_violation dinv tc ctx =
     (let (path, message) =
        (case di_violationMessage dinv of
           Some f \<Rightarrow> f tc ctx
         | None \<Rightarrow> (''expectedResults'', ''Domain invariant '' @ di_id dinv @ '' ('' @ di_description dinv
             @ '') was violated by test case '' @ quoted (tc_id tc) @ ''.''))
      in \<lparr> vi_invariantId = di_id dinv, vi_testCaseId = tc_id tc, vi_severity = di_severity dinv, vi_path = path,
           vi_message = message, vi_source = di_source dinv \<rparr>)"

text \<open>The inner loop, with what it pushes: the exercised ids and the violations of one case.\<close>

fun evaluate_case :: "'ctx \<Rightarrow> GeneratedTestCase \<Rightarrow> 'ctx DomainInvariant list \<Rightarrow> string list \<times> DomainInvariantViolation list \<Rightarrow>
    registry_error + string list \<times> DomainInvariantViolation list" where
  "evaluate_case ctx tc [] acc = Inr acc"
| "evaluate_case ctx tc (dinv # dinvs) (exercises, violations) =
     (case di_forall dinv tc ctx of
        None \<Rightarrow> Inl (Forall_threw (di_id dinv))
      | Some False \<Rightarrow> evaluate_case ctx tc dinvs (exercises, violations)
      | Some True \<Rightarrow>
          (case di_holds dinv tc ctx of
             None \<Rightarrow> Inl (Holds_threw (di_id dinv) (tc_id tc))
           | Some True \<Rightarrow> evaluate_case ctx tc dinvs (exercises @ [di_id dinv], violations)
           | Some False \<Rightarrow> evaluate_case ctx tc dinvs (exercises @ [di_id dinv], violations @ [invariant_violation dinv tc ctx])))"

definition sortedUnique_ids :: "string comparator \<Rightarrow> string list \<Rightarrow> string list" where
  "sortedUnique_ids lc ids = sort_by lc (\<lambda>s. s) (js_set ids)"

text \<open>The outer loop: rows, exercised ids and violations of all cases.\<close>

fun evaluate_cases :: "string comparator \<Rightarrow> 'ctx \<Rightarrow> 'ctx DomainInvariant list \<Rightarrow> GeneratedTestCase list \<Rightarrow>
    registry_error + DomainInvariantCaseEvaluation list \<times> string list \<times> DomainInvariantViolation list" where
  "evaluate_cases lc ctx dinvs [] = Inr ([], [], [])"
| "evaluate_cases lc ctx dinvs (tc # tcs) =
     (case evaluate_case ctx tc dinvs ([], []) of
        Inl e \<Rightarrow> Inl e
      | Inr (exercises, violations) \<Rightarrow>
          (case evaluate_cases lc ctx dinvs tcs of
             Inl e \<Rightarrow> Inl e
           | Inr (rows, exercised, allViolations) \<Rightarrow> Inr
               (\<lparr> ce_testCaseId = tc_id tc, ce_exercises = sortedUnique_ids lc exercises,
                  ce_violations = sort_by lc vi_invariantId violations \<rparr> # rows,
                exercises @ exercised, violations @ allViolations)))"

definition evaluateInvariants ::
  "string comparator \<Rightarrow> 'ctx DomainInvariant list \<Rightarrow> GeneratedTestCase list \<Rightarrow> 'ctx \<Rightarrow> registry_error + DomainInvariantEvaluation" where
  "evaluateInvariants lc registry testCases ctx =
     (let invariants = list_invariants lc registry
      in case evaluate_cases lc ctx invariants testCases of
           Inl e \<Rightarrow> Inl e
         | Inr (rows, exercised, violations) \<Rightarrow> Inr
             \<lparr> ie_registered = map di_id invariants, ie_cases = rows, ie_exercisedInvariants = sort_by lc (\<lambda>s. s) (js_set exercised),
               ie_violations = sort_by lc vi_testCaseId (sort_by lc vi_invariantId violations) \<rparr>)"

definition computeInvariantCoverageRatio :: "DomainInvariantEvaluation \<Rightarrow> nat \<times> nat \<times> rat" where
  "computeInvariantCoverageRatio ev =
     (let total = length (ie_registered ev); exercised = length (ie_exercisedInvariants ev)
      in if total = 0 then (total, exercised, 0) else (total, exercised, js_round6 (of_nat exercised / of_nat total)))"

section \<open>What an evaluation says\<close>

text \<open>A registry built by registrations.\<close>

fun register_all :: "'ctx DomainInvariant list \<Rightarrow> registry_error + 'ctx DomainInvariant list \<Rightarrow> registry_error + 'ctx DomainInvariant list" where
  "register_all [] registry = registry"
| "register_all (dinv # dinvs) registry = register_all dinvs (case registry of Inl e \<Rightarrow> Inl e | Inr r \<Rightarrow> register dinv r)"

lemma register_distinct:
  "register dinv registry = Inr registry' \<Longrightarrow> distinct (map di_id registry) \<Longrightarrow> distinct (map di_id registry')"
  by (auto simp: register_def split: option.splits if_splits)

lemma register_all_Inl [simp]: "register_all dinvs (Inl e) = Inl e"
  by (induction dinvs) simp_all

lemma register_all_distinct:
  "register_all dinvs (Inr registry) = Inr registry' \<Longrightarrow> distinct (map di_id registry) \<Longrightarrow> distinct (map di_id registry')"
proof (induction dinvs arbitrary: registry)
  case (Cons dinv dinvs)
  then obtain grown where "register dinv registry = Inr grown" "register_all dinvs (Inr grown) = Inr registry'"
    by (cases "register dinv registry") auto
  then show ?case using Cons.IH register_distinct [OF _ Cons.prems(2)] by blast
qed simp

definition in_scope :: "'ctx \<Rightarrow> GeneratedTestCase \<Rightarrow> 'ctx DomainInvariant \<Rightarrow> bool" where
  "in_scope ctx tc dinv \<longleftrightarrow> di_forall dinv tc ctx = Some True"

definition violates :: "'ctx \<Rightarrow> GeneratedTestCase \<Rightarrow> 'ctx DomainInvariant \<Rightarrow> bool" where
  "violates ctx tc dinv \<longleftrightarrow> in_scope ctx tc dinv \<and> di_holds dinv tc ctx = Some False"

text \<open>No predicate that is called throws.\<close>

definition defined_on :: "'ctx \<Rightarrow> GeneratedTestCase \<Rightarrow> 'ctx DomainInvariant \<Rightarrow> bool" where
  "defined_on ctx tc dinv \<longleftrightarrow> di_forall dinv tc ctx \<noteq> None \<and> (in_scope ctx tc dinv \<longrightarrow> di_holds dinv tc ctx \<noteq> None)"

lemma evaluate_case_exact:
  "(case evaluate_case ctx tc dinvs (ex, vs) of
      Inl e \<Rightarrow> \<not> list_all (defined_on ctx tc) dinvs
    | Inr r \<Rightarrow> list_all (defined_on ctx tc) dinvs
        \<and> r = (ex @ map di_id (filter (in_scope ctx tc) dinvs),
               vs @ map (\<lambda>dinv. invariant_violation dinv tc ctx) (filter (violates ctx tc) dinvs)))"
proof (induction dinvs arbitrary: ex vs)
  case (Cons a dinvs)
  note defs = defined_on_def in_scope_def violates_def
  show ?case
  proof (cases "di_forall a tc ctx")
    case None
    then show ?thesis by (simp add: defs)
  next
    case (Some scoped)
    note forall = this
    show ?thesis
    proof (cases scoped)
      case False
      then show ?thesis using Cons.IH [of ex vs] forall by (auto simp: defs split: sum.splits)
    next
      case True
      note Cons.IH [of "ex @ [di_id a]" vs] Cons.IH [of "ex @ [di_id a]" "vs @ [invariant_violation a tc ctx]"]
      then show ?thesis using forall True
        by (cases "di_holds a tc ctx"; cases "the (di_holds a tc ctx)") (simp_all add: defs split: sum.splits)
    qed
  qed
qed simp

definition evaluation_row :: "string comparator \<Rightarrow> 'ctx \<Rightarrow> 'ctx DomainInvariant list \<Rightarrow> GeneratedTestCase \<Rightarrow> DomainInvariantCaseEvaluation" where
  "evaluation_row lc ctx dinvs tc =
     \<lparr> ce_testCaseId = tc_id tc, ce_exercises = sortedUnique_ids lc (map di_id (filter (in_scope ctx tc) dinvs)),
       ce_violations = sort_by lc vi_invariantId (map (\<lambda>dinv. invariant_violation dinv tc ctx) (filter (violates ctx tc) dinvs)) \<rparr>"

definition violations_of_case :: "'ctx \<Rightarrow> 'ctx DomainInvariant list \<Rightarrow> GeneratedTestCase \<Rightarrow> DomainInvariantViolation list" where
  "violations_of_case ctx dinvs tc = map (\<lambda>dinv. invariant_violation dinv tc ctx) (filter (violates ctx tc) dinvs)"

lemma evaluate_cases_exact:
  "(case evaluate_cases lc ctx dinvs tcs of
      Inl e \<Rightarrow> \<not> list_all (\<lambda>tc. list_all (defined_on ctx tc) dinvs) tcs
    | Inr r \<Rightarrow> list_all (\<lambda>tc. list_all (defined_on ctx tc) dinvs) tcs
        \<and> r = (map (evaluation_row lc ctx dinvs) tcs,
               concat (map (\<lambda>tc. map di_id (filter (in_scope ctx tc) dinvs)) tcs),
               concat (map (violations_of_case ctx dinvs) tcs)))"
proof (induction tcs)
  case (Cons tc tcs)
  show ?case
    using Cons.IH evaluate_case_exact [of ctx tc dinvs "[]" "[]"]
    by (cases "evaluate_case ctx tc dinvs ([], [])"; cases "evaluate_cases lc ctx dinvs tcs")
      (simp_all add: evaluation_row_def violations_of_case_def)
qed simp

text \<open>
  An evaluation throws exactly when a predicate it calls throws. Otherwise each case gets the sorted
  ids of the invariants that apply to it and one violation for each of these it does not satisfy, the
  exercised invariants are those that apply to some case, and all violations
  of all cases are reported.
\<close>
theorem invariant_evaluation_exact:
  "(case evaluateInvariants lc registry testCases ctx of
      Inl e \<Rightarrow> \<not> list_all (\<lambda>tc. list_all (defined_on ctx tc) registry) testCases
    | Inr ev \<Rightarrow> list_all (\<lambda>tc. list_all (defined_on ctx tc) registry) testCases
        \<and> ie_cases ev = map (evaluation_row lc ctx (list_invariants lc registry)) testCases
        \<and> set (ie_exercisedInvariants ev) = {di_id dinv | dinv. dinv \<in> set registry \<and> list_ex (\<lambda>tc. in_scope ctx tc dinv) testCases}
        \<and> distinct (ie_exercisedInvariants ev)
        \<and> mset (ie_violations ev) = mset (concat (map ce_violations (ie_cases ev)))
        \<and> ie_registered ev = map di_id (list_invariants lc registry))"
proof -
  let ?dinvs = "list_invariants lc registry"
  have registry: "set ?dinvs = set registry" by (simp add: list_invariants_def)
  then have all: "list_all P ?dinvs = list_all P registry" for P by (simp add: list_all_iff)
  have distinct: "distinct (sort_by lc (\<lambda>s. s) (js_set xs))" for xs
    using distinct_map_sort_by [of "\<lambda>s. s" lc "\<lambda>s. s" "js_set xs"] by simp
  have violations: "mset (concat (map (violations_of_case ctx ?dinvs) testCases))
      = mset (concat (map (ce_violations \<circ> evaluation_row lc ctx ?dinvs) testCases))"
    by (induction testCases) (simp_all add: evaluation_row_def violations_of_case_def)
  show ?thesis
    using evaluate_cases_exact [of ctx ?dinvs testCases lc]
    unfolding evaluateInvariants_def Let_def
    by (cases "evaluate_cases lc ctx ?dinvs testCases")
      (auto simp: all registry distinct violations list_ex_iff)
qed

end
