(* ===== verification/CoverageReport.thy ===== *)
theory CoverageReport
  imports CoverageTargets Duplicates InvariantRegistry PolicyGate
begin

text \<open>
  The coverage report (\<^verbatim>\<open>packages/core-engine/src/test-case-coverage.ts\<close>): coverage buckets of fields,
  actions, lifecycle transitions, validations, navigation and acceptance criteria, counters, duplicates
  and domain-invariant coverage; and what the policy gate makes of it. Ratios are exact rationals,
  rounded as the code rounds them.
\<close>

section \<open>Data\<close>

record DetectedAction =
  da_id :: string
  da_label :: string
  da_kind :: string

record DetectedNavigation =
  dn_id :: string

record CoverageIntent = BusinessTestIntentIr +
  ci_detectedActions :: "DetectedAction list"
  ci_detectedNavigation :: "DetectedNavigation list"

record WorkflowFieldLifecycleTransition =
  lt_transitionId :: string
  lt_from :: string
  lt_to :: string

record WorkflowFieldLifecycle =
  fl_fieldId :: string
  fl_transitions :: "WorkflowFieldLifecycleTransition list"

text \<open>The parts of a workflow topology and of a coverage plan that the report reads.\<close>

record CoverageTopology =
  tp_actionIds :: "string list"
  tp_fieldLifecycles :: "WorkflowFieldLifecycle list"

record CoveragePlanRequirement =
  rq_reasonCode :: string
  rq_targetIds :: "string list"

record CoveragePlanCases =
  pl_minimumCases :: "CoveragePlanRequirement list"
  pl_recommendedCases :: "CoveragePlanRequirement list"

record TestCaseCoverageBucket =
  bk_total :: nat
  bk_covered :: nat
  bk_ratio :: rat
  bk_uncoveredIds :: "string list"

record TestCaseInvariantAnnotation =
  an_testCaseId :: string
  an_exercises :: "string list"

record InvariantCoverage =
  ic_total :: nat
  ic_exercised :: nat
  ic_ratio :: rat
  ic_registeredIds :: "string list"
  ic_exercisedIds :: "string list"

record Counters =
  ct_positive :: nat
  ct_negative :: nat
  ct_validation :: nat
  ct_boundary :: nat
  ct_workflow :: nat
  ct_accessibility :: nat

text \<open>The report extends the part of it that the gate reads.\<close>

record CoverageReport = TestCaseCoverageReport +
  rp_generatedAt :: string
  rp_jobId :: string
  rp_policyProfileId :: string
  rp_totalTestCases :: nat
  rp_fieldCoverage :: TestCaseCoverageBucket
  rp_actionCoverage :: TestCaseCoverageBucket
  rp_fieldLifecycleCoverage :: TestCaseCoverageBucket
  rp_recommendedTransitionCoverage :: "TestCaseCoverageBucket option"
  rp_validationCoverage :: TestCaseCoverageBucket
  rp_navigationCoverage :: TestCaseCoverageBucket
  rp_acceptanceCriteriaCoverage :: "TestCaseCoverageBucket option"
  rp_withTrace :: nat
  rp_traceRatio :: rat
  rp_counters :: Counters
  rp_assumptionsRatio :: rat
  rp_openQuestionsCount :: nat
  rp_rubricScore :: "js_number option"
  rp_invariantCoverage :: "InvariantCoverage option"
  rp_invariantAnnotations :: "TestCaseInvariantAnnotation list option"

record ComputeCoverageReportInput =
  cc_jobId :: string
  cc_generatedAt :: string
  cc_policyProfileId :: string
  cc_testCases :: "GeneratedTestCase list"
  cc_intent :: CoverageIntent
  cc_workflowTopology :: "CoverageTopology option"
  cc_coveragePlan :: "CoveragePlanCases option"
  cc_duplicateSimilarityThreshold :: js_number
  cc_rubricScore :: "js_number option"
  cc_invariantEvaluation :: "DomainInvariantEvaluation option"

datatype coverage_error = Coverage_duplicates duplicate_error | Rubric_score_out_of_range

section \<open>Buckets and counters\<close>

text \<open>The covered ids are a set, in the order of first insertion.\<close>

definition collectCovered :: "GeneratedTestCase list \<Rightarrow> (GeneratedTestCase \<Rightarrow> string list) \<Rightarrow> string list" where
  "collectCovered cases pick = js_set (concat (map pick cases))"

definition share :: "nat \<Rightarrow> nat \<Rightarrow> rat" where
  "share part whole = (if whole = 0 then 0 else js_round6 (of_nat part / of_nat whole))"

definition computeBucket :: "string list \<Rightarrow> string list \<Rightarrow> TestCaseCoverageBucket" where
  "computeBucket totalIds coveredIds =
     (let total = length totalIds; allIds = js_set totalIds;
          covered = length (filter (\<lambda>i. i \<in> set allIds) coveredIds);
          uncovered = filter (\<lambda>i. i \<notin> set coveredIds) totalIds
      in \<lparr> bk_total = total, bk_covered = covered, bk_ratio = share covered total, bk_uncoveredIds = js_sort uncovered \<rparr>)"

definition count_case :: "GeneratedTestCase \<Rightarrow> Counters \<Rightarrow> Counters" where
  "count_case tc c =
     (if tc_type tc = ''negative'' then c\<lparr> ct_negative := ct_negative c + 1 \<rparr>
      else if tc_type tc = ''validation'' then c\<lparr> ct_validation := ct_validation c + 1 \<rparr>
      else if tc_type tc = ''boundary'' then c\<lparr> ct_boundary := ct_boundary c + 1 \<rparr>
      else if tc_type tc = ''navigation'' then c\<lparr> ct_workflow := ct_workflow c + 1 \<rparr>
      else if tc_type tc = ''accessibility'' then c\<lparr> ct_accessibility := ct_accessibility c + 1 \<rparr>
      else if tc_type tc = ''functional'' \<or> tc_type tc = ''regression'' then c\<lparr> ct_positive := ct_positive c + 1 \<rparr>
      else if tc_type tc = ''exploratory'' then c\<lparr> ct_workflow := ct_workflow c + 1 \<rparr>
      else c)"

definition countByType :: "GeneratedTestCase list \<Rightarrow> Counters" where
  "countByType cases = fold count_case cases
     \<lparr> ct_positive = 0, ct_negative = 0, ct_validation = 0, ct_boundary = 0, ct_workflow = 0, ct_accessibility = 0 \<rparr>"

section \<open>The report\<close>

definition relevant_field_ids :: "CoverageIntent \<Rightarrow> string list" where
  "relevant_field_ids intent = map df_id (filter (\<lambda>f. isInteractiveCoverageElementLike
     \<lparr> el_label = Some (df_label f), el_kind = Some (df_type f), el_type = None \<rparr>) (bi_detectedFields intent))"

definition relevant_action_ids :: "CoverageIntent \<Rightarrow> string list" where
  "relevant_action_ids intent = map da_id (filter (\<lambda>a. isCoverageRelevantActionLike
     \<lparr> al_label = Some (da_label a), al_kind = Some (da_kind a) \<rparr>) (ci_detectedActions intent))"

definition action_target_ids :: "ComputeCoverageReportInput \<Rightarrow> string list" where
  "action_target_ids input =
     (case cc_workflowTopology input of Some t \<Rightarrow> tp_actionIds t | None \<Rightarrow> relevant_action_ids (cc_intent input))"

definition lifecycle_transitions :: "ComputeCoverageReportInput \<Rightarrow> WorkflowFieldLifecycleTransition list" where
  "lifecycle_transitions input =
     (case cc_workflowTopology input of Some t \<Rightarrow> concat (map fl_transitions (tp_fieldLifecycles t)) | None \<Rightarrow> [])"

definition recommended_transition_ids :: "ComputeCoverageReportInput \<Rightarrow> string list" where
  "recommended_transition_ids input = map lt_transitionId
     (filter (\<lambda>t. classifyFieldLifecycleTransitionPair (lt_from t) (lt_to t) = Recommended_positive_path) (lifecycle_transitions input))"

definition step_transitions :: "GeneratedTestCase \<Rightarrow> string list" where
  "step_transitions tc = concat (map (\<lambda>step. case st_fieldLifecycleTransitionId step of None \<Rightarrow> [] | Some i \<Rightarrow> [i]) (tc_steps tc))"

definition covered_requirements :: "GeneratedTestCase \<Rightarrow> string list" where
  "covered_requirements tc = (case qs_coveredRequirementIds (tc_qualitySignals tc) of None \<Rightarrow> [] | Some ids \<Rightarrow> ids)"

definition acceptance_criterion_ids :: "string comparator \<Rightarrow> CoveragePlanCases option \<Rightarrow> string list" where
  "acceptance_criterion_ids lc plan = sort_by lc (\<lambda>s. s) (js_set
     (concat (map (\<lambda>r. if rq_reasonCode r = ''acceptance_criterion'' then rq_targetIds r else [])
       ((case plan of None \<Rightarrow> [] | Some p \<Rightarrow> pl_minimumCases p) @ (case plan of None \<Rightarrow> [] | Some p \<Rightarrow> pl_recommendedCases p)))))"

definition optional_bucket :: "string list \<Rightarrow> string list \<Rightarrow> TestCaseCoverageBucket option" where
  "optional_bucket ids covered = (if ids = [] then None else Some (computeBucket ids covered))"

definition acceptance_bucket :: "string comparator \<Rightarrow> ComputeCoverageReportInput \<Rightarrow> TestCaseCoverageBucket option" where
  "acceptance_bucket lc input =
     optional_bucket (acceptance_criterion_ids lc (cc_coveragePlan input)) (collectCovered (cc_testCases input) covered_requirements)"

definition invariant_coverage :: "string comparator \<Rightarrow> DomainInvariantEvaluation \<Rightarrow> InvariantCoverage" where
  "invariant_coverage lc ev =
     (case computeInvariantCoverageRatio ev of (n_total, n_exercised, ratio) \<Rightarrow>
        \<lparr> ic_total = n_total, ic_exercised = n_exercised, ic_ratio = ratio,
          ic_registeredIds = sort_by lc (\<lambda>s. s) (ie_registered ev), ic_exercisedIds = sort_by lc (\<lambda>s. s) (ie_exercisedInvariants ev) \<rparr>)"

definition invariant_annotations :: "string comparator \<Rightarrow> DomainInvariantEvaluation \<Rightarrow> TestCaseInvariantAnnotation list option" where
  "invariant_annotations lc ev =
     (let annotations = sort_by lc an_testCaseId (map (\<lambda>c. \<lparr> an_testCaseId = ce_testCaseId c, an_exercises = ce_exercises c \<rparr>)
            (filter (\<lambda>c. ce_exercises c \<noteq> []) (ie_cases ev)))
      in if annotations = [] then None else Some annotations)"

fun js_rounded :: "js_number \<Rightarrow> js_number" where
  "js_rounded (Fin q) = Fin (js_round6 q)"
| "js_rounded n = n"

definition coverage_report :: "string comparator \<Rightarrow> ComputeCoverageReportInput \<Rightarrow> TestCaseDuplicatePair list \<Rightarrow> CoverageReport" where
  "coverage_report lc input duplicatePairs =
     (let cases = cc_testCases input; intent = cc_intent input; n = length cases;
          signal = (\<lambda>f. collectCovered cases (\<lambda>c. f (tc_qualitySignals c)));
          transitions = collectCovered cases step_transitions;
          withTrace = length (filter (\<lambda>c. tc_figmaTraceRefs c \<noteq> []) cases)
      in \<lparr> cr_acceptanceUncoveredIds = map_option bk_uncoveredIds (acceptance_bucket lc input),
           cr_duplicatePairs = duplicatePairs,
           rp_generatedAt = cc_generatedAt input, rp_jobId = cc_jobId input, rp_policyProfileId = cc_policyProfileId input,
           rp_totalTestCases = n,
           rp_fieldCoverage = computeBucket (relevant_field_ids intent) (signal qs_coveredFieldIds),
           rp_actionCoverage = computeBucket (action_target_ids input) (signal qs_coveredActionIds),
           rp_fieldLifecycleCoverage = computeBucket (map lt_transitionId (lifecycle_transitions input)) transitions,
           rp_recommendedTransitionCoverage = optional_bucket (recommended_transition_ids input) transitions,
           rp_validationCoverage = computeBucket (map dv_id (bi_detectedValidations intent)) (signal qs_coveredValidationIds),
           rp_navigationCoverage = computeBucket (map dn_id (ci_detectedNavigation intent)) (signal qs_coveredNavigationIds),
           rp_acceptanceCriteriaCoverage = acceptance_bucket lc input,
           rp_withTrace = withTrace, rp_traceRatio = share withTrace n, rp_counters = countByType cases,
           rp_assumptionsRatio = share (sum_list (map (\<lambda>c. length (tc_assumptions c)) cases)) n,
           rp_openQuestionsCount = sum_list (map (\<lambda>c. length (tc_openQuestions c)) cases),
           rp_rubricScore = map_option js_rounded (cc_rubricScore input),
           rp_invariantCoverage = map_option (invariant_coverage lc) (cc_invariantEvaluation input),
           rp_invariantAnnotations = Option.bind (cc_invariantEvaluation input) (invariant_annotations lc) \<rparr>)"

definition computeCoverageReport :: "string comparator \<Rightarrow> ComputeCoverageReportInput \<Rightarrow> coverage_error + CoverageReport" where
  "computeCoverageReport lc input =
     (case detectDuplicateTestCases (cc_testCases input) (cc_duplicateSimilarityThreshold input) of
        Inl e \<Rightarrow> Inl (Coverage_duplicates e)
      | Inr pairs \<Rightarrow>
          if (case cc_rubricScore input of None \<Rightarrow> False | Some s \<Rightarrow> js_less s 0 \<or> js_greater s 1) then Inl Rubric_score_out_of_range
          else Inr (coverage_report lc input pairs))"

section \<open>Buckets, specified\<close>

text \<open>What a bucket says of the listed ids and the set of covered ones.\<close>

definition bucket_exact :: "string list \<Rightarrow> (string \<Rightarrow> bool) \<Rightarrow> TestCaseCoverageBucket \<Rightarrow> bool" where
  "bucket_exact ids covered b \<longleftrightarrow>
     bk_total b = length ids
     \<and> bk_covered b = card {i \<in> set ids. covered i}
     \<and> bk_uncoveredIds b = js_sort (filter (\<lambda>i. \<not> covered i) ids)
     \<and> bk_ratio b = share (card {i \<in> set ids. covered i}) (length ids)
     \<and> 0 \<le> bk_ratio b \<and> bk_ratio b \<le> 1
     \<and> (if distinct ids then bk_covered b + length (bk_uncoveredIds b) = bk_total b
         else bk_covered b + length (bk_uncoveredIds b) \<le> bk_total b)"

definition covered_by :: "GeneratedTestCase list \<Rightarrow> (GeneratedTestCase \<Rightarrow> string list) \<Rightarrow> string \<Rightarrow> bool" where
  "covered_by cases pick i = list_ex (\<lambda>c. i \<in> set (pick c)) cases"

lemma set_collectCovered [simp]: "set (collectCovered cases pick) = {i. covered_by cases pick i}"
  by (auto simp: collectCovered_def covered_by_def list_ex_iff)

lemma share_bounds: "part \<le> whole \<Longrightarrow> 0 \<le> share part whole \<and> share part whole \<le> 1"
  using js_round6_bounds [of "of_nat part / of_nat whole"] by (simp add: share_def divide_le_eq)

lemma listed_filter: "{i \<in> set ids. P i} = set (filter P ids)"
  by auto

lemma split_listed:
  "card {i \<in> set ids. P i} + length (filter (\<lambda>i. \<not> P i) ids) \<le> length ids"
  unfolding listed_filter using card_length [of "filter P ids"] sum_length_filter_compl [of P ids] by linarith

lemma split_distinct:
  "distinct ids \<Longrightarrow> card {i \<in> set ids. P i} + length (filter (\<lambda>i. \<not> P i) ids) = length ids"
  unfolding listed_filter using distinct_card [of "filter P ids"] sum_length_filter_compl [of P ids] by simp

lemma card_listed: "card {i \<in> set ids. P i} \<le> length ids"
  using split_listed [of ids P] by linarith

lemma bucket_exactI:
  assumes "bk_total b = length ids" "bk_covered b = card {i \<in> set ids. P i}"
    "bk_uncoveredIds b = js_sort (filter (\<lambda>i. \<not> P i) ids)" "bk_ratio b = share (card {i \<in> set ids. P i}) (length ids)"
  shows "bucket_exact ids P b"
proof -
  have sorted: "length (bk_uncoveredIds b) = length (filter (\<lambda>i. \<not> P i) ids)"
    unfolding assms(3) js_sort_def by simp
  show ?thesis
    unfolding bucket_exact_def sorted assms(1,2,4)
    using share_bounds [OF card_listed [of ids P]] split_listed [of ids P] split_distinct [of ids P] assms(3) by simp
qed

lemma bucket_of_cases: "bucket_exact ids (covered_by cases pick) (computeBucket ids (collectCovered cases pick))"
proof -
  define found where "found = filter (\<lambda>i. i \<in> set (js_set ids)) (collectCovered cases pick)"
  have "distinct found" by (simp add: found_def collectCovered_def)
  then have "length found = card (set found)" by (rule distinct_card [symmetric])
  also have "set found = {i \<in> set ids. covered_by cases pick i}" by (auto simp: found_def)
  finally have "length found = card {i \<in> set ids. covered_by cases pick i}" .
  then show ?thesis
    by (intro bucket_exactI) (simp_all add: computeBucket_def Let_def found_def)
qed

lemma optional_bucket_exact:
  "(case optional_bucket ids (collectCovered cases pick) of
      None \<Rightarrow> ids = []
    | Some b \<Rightarrow> ids \<noteq> [] \<and> bucket_exact ids (covered_by cases pick) b)"
  by (simp add: optional_bucket_def bucket_of_cases)

text \<open>
  C37: In every report each bucket is exact: its total is the number of listed ids (interactive fields,
  relevant or topology actions, lifecycle transitions, validations, navigation edges, acceptance
  criteria), its covered count is the number of these that some case covers, its uncovered ids are the
  others in order, its ratio is their rounded share and lies between 0 and 1, and covered and uncovered
  add up to the total when no id is listed twice. The optional buckets are left out exactly when they
  have no ids.
\<close>
theorem coverage_buckets_exact:
  "(case computeCoverageReport lc input of
      Inl e \<Rightarrow> True
    | Inr r \<Rightarrow>
        bucket_exact (relevant_field_ids (cc_intent input)) (covered_by (cc_testCases input) (\<lambda>c. qs_coveredFieldIds (tc_qualitySignals c)))
          (rp_fieldCoverage r)
        \<and> bucket_exact (action_target_ids input) (covered_by (cc_testCases input) (\<lambda>c. qs_coveredActionIds (tc_qualitySignals c)))
          (rp_actionCoverage r)
        \<and> bucket_exact (map lt_transitionId (lifecycle_transitions input)) (covered_by (cc_testCases input) step_transitions)
          (rp_fieldLifecycleCoverage r)
        \<and> bucket_exact (map dv_id (bi_detectedValidations (cc_intent input)))
          (covered_by (cc_testCases input) (\<lambda>c. qs_coveredValidationIds (tc_qualitySignals c))) (rp_validationCoverage r)
        \<and> bucket_exact (map dn_id (ci_detectedNavigation (cc_intent input)))
          (covered_by (cc_testCases input) (\<lambda>c. qs_coveredNavigationIds (tc_qualitySignals c))) (rp_navigationCoverage r)
        \<and> (case rp_recommendedTransitionCoverage r of
             None \<Rightarrow> recommended_transition_ids input = []
           | Some b \<Rightarrow> recommended_transition_ids input \<noteq> []
               \<and> bucket_exact (recommended_transition_ids input) (covered_by (cc_testCases input) step_transitions) b)
        \<and> (case rp_acceptanceCriteriaCoverage r of
             None \<Rightarrow> acceptance_criterion_ids lc (cc_coveragePlan input) = []
           | Some b \<Rightarrow> acceptance_criterion_ids lc (cc_coveragePlan input) \<noteq> []
               \<and> bucket_exact (acceptance_criterion_ids lc (cc_coveragePlan input)) (covered_by (cc_testCases input) covered_requirements) b))"
  by (simp add: computeCoverageReport_def coverage_report_def Let_def bucket_of_cases optional_bucket_exact acceptance_bucket_def
      split: sum.split)

section \<open>Counters\<close>

definition counted :: "Counters \<Rightarrow> nat" where
  "counted c = ct_positive c + ct_negative c + ct_validation c + ct_boundary c + ct_workflow c + ct_accessibility c"

definition ALLOWED_TEST_CASE_TYPES :: "string list" where
  "ALLOWED_TEST_CASE_TYPES = [''functional'', ''negative'', ''boundary'', ''validation'', ''navigation'', ''regression'',
     ''exploratory'', ''accessibility'']"

lemma counted_case: "tc_type tc \<in> set ALLOWED_TEST_CASE_TYPES \<Longrightarrow> counted (count_case tc c) = Suc (counted c)"
  by (auto simp: ALLOWED_TEST_CASE_TYPES_def count_case_def counted_def)

lemma counters_total:
  "list_all (\<lambda>tc. tc_type tc \<in> set ALLOWED_TEST_CASE_TYPES) cases \<Longrightarrow> counted (countByType cases) = length cases"
proof -
  have "list_all (\<lambda>tc. tc_type tc \<in> set ALLOWED_TEST_CASE_TYPES) cases \<Longrightarrow> counted (fold count_case cases c) = counted c + length cases" for c
    by (induction cases arbitrary: c) (simp_all add: counted_case)
  then show "list_all (\<lambda>tc. tc_type tc \<in> set ALLOWED_TEST_CASE_TYPES) cases \<Longrightarrow> counted (countByType cases) = length cases"
    by (simp add: countByType_def counted_def)
qed

section \<open>The gate on the report\<close>

definition CRITERION_RULE :: string where
  "CRITERION_RULE = ''policy:acceptance-criteria-coverage''"

definition criterion_violation :: "TestCasePolicyViolation \<Rightarrow> bool" where
  "criterion_violation v \<longleftrightarrow> pv_rule v = CRITERION_RULE \<and> pv_outcome v = ''acceptance_criterion_uncovered''"

definition uncovered_criterion :: "string comparator \<Rightarrow> ComputeCoverageReportInput \<Rightarrow> bool" where
  "uncovered_criterion lc input \<longleftrightarrow>
     list_ex (\<lambda>i. \<not> covered_by (cc_testCases input) covered_requirements i) (acceptance_criterion_ids lc (cc_coveragePlan input))"

lemma reported_criteria:
  assumes "computeCoverageReport lc input = Inr r" "uncovered_criterion lc input"
  obtains i ids where "cr_acceptanceUncoveredIds r = Some (i # ids)"
proof -
  let ?ids = "acceptance_criterion_ids lc (cc_coveragePlan input)" and ?P = "covered_by (cc_testCases input) covered_requirements"
  from assms(2) obtain i where i: "i \<in> set ?ids" "\<not> ?P i" by (auto simp: uncovered_criterion_def list_ex_iff)
  then have "?ids \<noteq> []" by auto
  then have "acceptance_bucket lc input = Some (computeBucket ?ids (collectCovered (cc_testCases input) covered_requirements))"
    by (simp add: acceptance_bucket_def optional_bucket_def)
  moreover have "bk_uncoveredIds (computeBucket ?ids (collectCovered (cc_testCases input) covered_requirements))
      = js_sort (filter (\<lambda>i. \<not> ?P i) ?ids)"
    using bucket_of_cases unfolding bucket_exact_def by blast
  ultimately have "cr_acceptanceUncoveredIds r = Some (js_sort (filter (\<lambda>i. \<not> ?P i) ?ids))"
    using assms(1) by (auto simp: computeCoverageReport_def coverage_report_def Let_def split: sum.splits if_splits)
  moreover have "i \<in> set (js_sort (filter (\<lambda>i. \<not> ?P i) ?ids))" using i by simp
  ultimately show thesis using that by (cases "js_sort (filter (\<lambda>i. \<not> ?P i) ?ids)") auto
qed

lemma criterion_job_violation:
  assumes "cr_acceptanceUncoveredIds coverage = Some (i # ids)"
  obtains v where "v \<in> set (evaluateJobLevel lc th cases intent coverage profile plan visual signals refusal untrusted bindings drift a11y overrides)"
    "criterion_violation v" "pv_severity v = Sev_error"
proof -
  have "\<exists>xs reason. job_coverage lc cases coverage profile plan
      = xs @ [violation CRITERION_RULE ''acceptance_criterion_uncovered'' Sev_error reason]"
    unfolding job_coverage_def CRITERION_RULE_def assms option.case append_assoc [symmetric] if_not_P [OF list.distinct(2)]
    by (intro exI) (rule refl)
  then obtain v where v: "v \<in> set (job_coverage lc cases coverage profile plan)" "criterion_violation v" "pv_severity v = Sev_error"
    using that by (fastforce simp: violation_def criterion_violation_def)
  have "v \<in> set (evaluateJobLevel lc th cases intent coverage profile plan visual signals refusal untrusted bindings drift a11y overrides)"
    using v(1) by (simp add: evaluateJobLevel_def Let_def)
  then show thesis using that v by blast
qed

text \<open>
  C36: Coverage report and policy gate compose: when some acceptance criterion of the coverage plan is
  covered by no case, the gate run on the computed report carries the violation of that rule, and it
  blocks the job unless a policy override changes the severity of the rule.
\<close>
theorem uncovered_criterion_blocks_gate:
  "(case computeCoverageReport lc input of
      Inl e \<Rightarrow> True
    | Inr r \<Rightarrow>
        (case evaluatePolicyGate h lc th (gate\<lparr> gi_coverage := TestCaseCoverageReport.truncate r \<rparr>) of
           Inl e \<Rightarrow> True
         | Inr report \<Rightarrow>
             if uncovered_criterion lc input
             then list_ex criterion_violation (pr_jobLevelViolations report)
               \<and> (if buildPolicyOverrideMap (gi_policyOverrides gate) CRITERION_RULE = None then pr_blocked report else True)
             else True))"
proof -
  have "list_ex criterion_violation (pr_jobLevelViolations report)
      \<and> (if buildPolicyOverrideMap (gi_policyOverrides gate) CRITERION_RULE = None then pr_blocked report else True)"
    if r: "computeCoverageReport lc input = Inr r" and uncovered: "uncovered_criterion lc input"
      and gate: "evaluatePolicyGate h lc th (gate\<lparr> gi_coverage := TestCaseCoverageReport.truncate r \<rparr>) = Inr report" for r report
  proof -
    let ?gate = "gate\<lparr> gi_coverage := TestCaseCoverageReport.truncate r \<rparr>"
    obtain i ids where "cr_acceptanceUncoveredIds r = Some (i # ids)" using reported_criteria [OF r uncovered] .
    then have "cr_acceptanceUncoveredIds (gi_coverage ?gate) = Some (i # ids)" by (simp add: TestCaseCoverageReport.truncate_def)
    note criterion_job_violation [OF this]
    moreover from gate obtain decisions violations evaluation where
      report: "report = gate_report ?gate decisions (gate_job lc th ?gate violations) evaluation"
      by (auto simp: evaluatePolicyGate_def Let_def split: sum.splits)
    ultimately obtain v where v: "v \<in> set (gate_job lc th ?gate violations)" "criterion_violation v" "pv_severity v = Sev_error"
      unfolding gate_job_def by (metis Un_iff set_append)
    let ?v = "override_violation (buildPolicyOverrideMap (gi_policyOverrides gate)) v"
    have listed: "?v \<in> set (pr_jobLevelViolations report)"
      using v(1) by (simp add: report gate_report_def Let_def applyPolicyOverrideViolations_def)
    have "criterion_violation ?v"
      using v(2) by (auto simp: override_violation_def criterion_violation_def split: option.split)
    moreover have "pv_severity ?v = Sev_error" if "buildPolicyOverrideMap (gi_policyOverrides gate) CRITERION_RULE = None"
      using v(2,3) that by (auto simp: override_violation_def criterion_violation_def)
    moreover have "pr_blocked report" if "pv_severity ?v = Sev_error"
      using listed that by (auto simp: report gate_report_def Let_def list_ex_iff)
    ultimately show ?thesis using listed by (auto simp: list_ex_iff)
  qed
  then show ?thesis by (auto split: sum.split)
qed

end
