(* ===== verification/Scanner.thy ===== *)
theory Scanner
  imports Patterns
begin

text \<open>
  The regular expressions whose matched text matters: the code reads capture groups, replaces matches
  or iterates over them. A back-tracking scanner in the order of ECMA-262: alternatives from left to
  right, repetitions greedily, the leftmost match first. Repetitions of the modelled expressions are
  over single code units, so a repetition is a choice among lengths.
\<close>

section \<open>Expressions\<close>

datatype scan_item =
    Unit "char \<Rightarrow> bool"
  | Run "char \<Rightarrow> bool" nat "nat option"  \<comment> \<open>a class repeated from a least to an optional greatest number of times\<close>
  | Edge  \<comment> \<open>a word boundary\<close>
  | Finish  \<comment> \<open>the end of the input\<close>
  | Behind "char \<Rightarrow> bool"
  | Ahead "char \<Rightarrow> bool"
  | Choice "scan_item list list"
  | Keep "scan_item list"  \<comment> \<open>a capture group\<close>

fun first_some :: "'a option list \<Rightarrow> 'a option" where
  "first_some [] = None"
| "first_some (None # xs) = first_some xs"
| "first_some (Some x # xs) = Some x"

fun run_length :: "(char \<Rightarrow> bool) \<Rightarrow> nat option \<Rightarrow> string \<Rightarrow> nat" where
  "run_length P None s = length (takeWhile P s)"
| "run_length P (Some most) s = min most (length (takeWhile P s))"

section \<open>Matching at a position\<close>

text \<open>The continuation gets the code unit before the rest, the rest and the captures.\<close>

fun scan ::
  "scan_item list \<Rightarrow> char option \<Rightarrow> string \<Rightarrow> string list \<Rightarrow>
   (char option \<Rightarrow> string \<Rightarrow> string list \<Rightarrow> 'r option) \<Rightarrow> 'r option"
and scan_choice ::
  "scan_item list list \<Rightarrow> char option \<Rightarrow> string \<Rightarrow> string list \<Rightarrow>
   (char option \<Rightarrow> string \<Rightarrow> string list \<Rightarrow> 'r option) \<Rightarrow> 'r option" where
  "scan [] prev s caps k = k prev s caps"
| "scan (Unit P # items) prev s caps k =
     (case s of [] \<Rightarrow> None | c # s' \<Rightarrow> if P c then scan items (Some c) s' caps k else None)"
| "scan (Run P least most # items) prev s caps k =
     first_some (map (\<lambda>n. scan items (last_char prev (take n s)) (drop n s) caps k)
       (rev [least ..< Suc (run_length P most s)]))"
| "scan (Edge # items) prev s caps k = (if word_boundary prev s then scan items prev s caps k else None)"
| "scan (Finish # items) prev s caps k = (if s = [] then scan items prev s caps k else None)"
| "scan (Behind P # items) prev s caps k =
     (case prev of None \<Rightarrow> None | Some c \<Rightarrow> if P c then scan items prev s caps k else None)"
| "scan (Ahead P # items) prev s caps k =
     (case s of [] \<Rightarrow> None | c # _ \<Rightarrow> if P c then scan items prev s caps k else None)"
| "scan (Choice branches # items) prev s caps k =
     scan_choice branches prev s caps (\<lambda>prev' s' caps'. scan items prev' s' caps' k)"
| "scan (Keep body # items) prev s caps k =
     scan body prev s caps (\<lambda>prev' s' caps'. scan items prev' s' (caps' @ [take (length s - length s') s]) k)"
| "scan_choice [] prev s caps k = None"
| "scan_choice (b # bs) prev s caps k =
     (case scan b prev s caps k of None \<Rightarrow> scan_choice bs prev s caps k | Some r \<Rightarrow> Some r)"

definition match_at :: "scan_item list \<Rightarrow> char option \<Rightarrow> string \<Rightarrow> (char option \<times> string \<times> string list) option" where
  "match_at rx prev s = scan rx prev s [] (\<lambda>prev' s' caps. Some (prev', s', caps))"

section \<open>Searching\<close>

text \<open>The matched text and the captures of the leftmost match.\<close>

fun first_match :: "scan_item list \<Rightarrow> char option \<Rightarrow> string \<Rightarrow> (string \<times> string list) option" where
  "first_match rx prev s =
     (case match_at rx prev s of
        Some (_, rest, caps) \<Rightarrow> Some (take (length s - length rest) s, caps)
      | None \<Rightarrow> (case s of [] \<Rightarrow> None | c # s' \<Rightarrow> first_match rx (Some c) s'))"

declare first_match.simps [simp del]

definition scan_test :: "scan_item list \<Rightarrow> string \<Rightarrow> bool" where
  "scan_test rx s = (first_match rx None s \<noteq> None)"

text \<open>
  \<^verbatim>\<open>matchAll\<close> and \<^verbatim>\<open>replace\<close> with the flag \<^verbatim>\<open>g\<close>: after a match the search goes on behind it, after an
  empty match one code unit further.
\<close>

function match_all :: "scan_item list \<Rightarrow> char option \<Rightarrow> string \<Rightarrow> string list list" where
  "match_all rx prev s =
     (case match_at rx prev s of
        Some (prev', rest, caps) \<Rightarrow>
          if length rest < length s then caps # match_all rx prev' rest
          else caps # (case s of [] \<Rightarrow> [] | c # s' \<Rightarrow> match_all rx (Some c) s')
      | None \<Rightarrow> (case s of [] \<Rightarrow> [] | c # s' \<Rightarrow> match_all rx (Some c) s'))"
  by pat_completeness auto
termination by (relation "measure (\<lambda>(rx, prev, s). length s)") auto

declare match_all.simps [simp del]

function replace_all :: "scan_item list \<Rightarrow> string \<Rightarrow> char option \<Rightarrow> string \<Rightarrow> string" where
  "replace_all rx new prev s =
     (case match_at rx prev s of
        Some (prev', rest, _) \<Rightarrow>
          if length rest < length s then new @ replace_all rx new prev' rest
          else new @ (case s of [] \<Rightarrow> [] | c # s' \<Rightarrow> c # replace_all rx new (Some c) s')
      | None \<Rightarrow> (case s of [] \<Rightarrow> [] | c # s' \<Rightarrow> c # replace_all rx new (Some c) s'))"
  by pat_completeness auto
termination by (relation "measure (\<lambda>(rx, new, prev, s). length s)") auto

declare replace_all.simps [simp del]

text \<open>\<^verbatim>\<open>split\<close> at every match; \<open>piece\<close> is the text since the last one.\<close>

function split_at_matches :: "scan_item list \<Rightarrow> string \<Rightarrow> char option \<Rightarrow> string \<Rightarrow> string list" where
  "split_at_matches rx piece prev s =
     (case s of
        [] \<Rightarrow> [piece]
      | c # s' \<Rightarrow>
          (case match_at rx prev s of
             Some (prev', rest, _) \<Rightarrow>
               if length rest < length s then piece # split_at_matches rx [] prev' rest
               else split_at_matches rx (piece @ [c]) (Some c) s'
           | None \<Rightarrow> split_at_matches rx (piece @ [c]) (Some c) s'))"
  by pat_completeness auto
termination by (relation "measure (\<lambda>(rx, piece, prev, s). length s)") auto

declare split_at_matches.simps [simp del]

section \<open>Abbreviations of the notation\<close>

definition exactly :: "string \<Rightarrow> scan_item list" where
  "exactly s = map (\<lambda>c. Unit (\<lambda>d. d = c)) s"

text \<open>A text under the flag \<^verbatim>\<open>i\<close>.\<close>

definition ignoring_case :: "string \<Rightarrow> scan_item list" where
  "ignoring_case s = map (\<lambda>c. Unit (\<lambda>d. js_lower_char d = js_lower_char c)) s"

definition any_of :: "string \<Rightarrow> char \<Rightarrow> bool" where
  "any_of cs c \<longleftrightarrow> c \<in> set cs"

definition line_char :: "char \<Rightarrow> bool" where
  "line_char c \<longleftrightarrow> c \<noteq> CHR 0x0A \<and> c \<noteq> CHR 0x0D"

definition ascii_lower :: "char \<Rightarrow> bool" where
  "ascii_lower c \<longleftrightarrow> c \<in> set ''abcdefghijklmnopqrstuvwxyz''"

definition ascii_digit :: "char \<Rightarrow> bool" where
  "ascii_digit c \<longleftrightarrow> c \<in> set ''0123456789''"

text \<open>\<open>s(?:x|y|z)?\<close> under the flag \<^verbatim>\<open>i\<close>\<close>

definition with_ending :: "string \<Rightarrow> string list \<Rightarrow> scan_item list" where
  "with_ending s endings = ignoring_case s @ [Choice (map ignoring_case endings @ [[]])]"

text \<open>One of several expressions between word boundaries.\<close>

definition between_edges :: "scan_item list list \<Rightarrow> scan_item list" where
  "between_edges branches = [Edge, Choice branches, Edge]"

section \<open>A match is a piece of the text\<close>

lemma first_some_Some: "first_some xs = Some r \<Longrightarrow> Some r \<in> set xs"
  by (induction xs rule: first_some.induct) auto

text \<open>Whatever the continuation returns, it was called on a suffix, with captures added that occur in the text.\<close>

lemma scan_suffix:
  "scan items prev s caps k = Some r \<Longrightarrow>
     \<exists>u v caps'. s = u @ v \<and> k (last_char prev u) v (caps @ caps') = Some r \<and> (\<forall>c\<in>set caps'. \<exists>x y. s = x @ c @ y)"
  and choice_suffix:
  "scan_choice branches prev s caps k = Some r \<Longrightarrow>
     \<exists>u v caps'. s = u @ v \<and> k (last_char prev u) v (caps @ caps') = Some r \<and> (\<forall>c\<in>set caps'. \<exists>x y. s = x @ c @ y)"
proof (induction items prev s caps k and branches prev s caps k arbitrary: r and r rule: scan_scan_choice.induct)
  case (1 prev s caps k)
  then show ?case by (intro exI [of _ "[]"] exI [of _ s]) simp
next
  case (2 P items prev s caps k)
  then obtain c s' where s: "s = c # s'" "P c" "scan items (Some c) s' caps k = Some r"
    by (auto split: list.split_asm if_split_asm)
  from 2(1) [OF s] obtain u v caps' where "s' = u @ v" "k (last_char (Some c) u) v (caps @ caps') = Some r"
    "\<forall>x\<in>set caps'. \<exists>y z. s' = y @ x @ z" by blast
  moreover from this have "\<forall>x\<in>set caps'. \<exists>y z. c # s' = y @ x @ z" by (metis append_Cons)
  ultimately show ?case unfolding s(1)
    by (intro exI [of _ "c # u"] exI [of _ v] exI [of _ caps'] conjI) simp_all
next
  case (3 P least most items prev s caps k)
  then obtain n where n: "scan items (last_char prev (take n s)) (drop n s) caps k = Some r"
    "n \<in> set (rev [least ..< Suc (run_length P most s)])"
    by (auto dest!: first_some_Some)
  from 3(1) [OF n(2,1)] obtain u v caps' where u: "drop n s = u @ v"
    "k (last_char (last_char prev (take n s)) u) v (caps @ caps') = Some r" "\<forall>x\<in>set caps'. \<exists>y z. drop n s = y @ x @ z" by blast
  have "s = (take n s @ u) @ v" using u(1) by (metis append.assoc append_take_drop_id)
  moreover have "\<exists>y z. s = y @ x @ z" if "x \<in> set caps'" for x
    using u(3) that by (metis append.assoc append_take_drop_id)
  ultimately show ?case using u(2) unfolding last_char_append [symmetric] by blast
next
  case (4 items prev s caps k)
  then show ?case by (auto split: if_split_asm)
next
  case (5 items prev s caps k)
  then show ?case by (auto split: if_split_asm)
next
  case (6 P items prev s caps k)
  then show ?case by (auto split: option.split_asm if_split_asm)
next
  case (7 P items prev s caps k)
  then show ?case by (auto split: list.split_asm if_split_asm)
next
  case (8 branches items prev s caps k)
  from 8(2) [OF 8(3) [unfolded scan.simps]] obtain u v caps' where u: "s = u @ v"
    "scan items (last_char prev u) v (caps @ caps') k = Some r" "\<forall>x\<in>set caps'. \<exists>y z. s = y @ x @ z" by blast
  from 8(1) [OF u(2)] obtain w z caps'' where w: "v = w @ z"
    "k (last_char (last_char prev u) w) z ((caps @ caps') @ caps'') = Some r" "\<forall>x\<in>set caps''. \<exists>y z. v = y @ x @ z" by blast
  have "\<exists>y z. s = y @ x @ z" if "x \<in> set (caps' @ caps'')" for x
    using u(1,3) w(3) that by (metis Un_iff append.assoc set_append)
  then show ?case using u(1) w(1,2) by (intro exI [of _ "u @ w"] exI [of _ z] exI [of _ "caps' @ caps''"]) (simp add: last_char_append)
next
  case (9 body items prev s caps k)
  from 9(2) [OF 9(3) [unfolded scan.simps]] obtain u v caps' where u: "s = u @ v"
    "scan items (last_char prev u) v ((caps @ caps') @ [take (length s - length v) s]) k = Some r"
    "\<forall>x\<in>set caps'. \<exists>y z. s = y @ x @ z" by blast
  have took: "take (length s - length v) s = u" using u(1) by simp
  from 9(1) [OF u(2)] obtain w z caps'' where w: "v = w @ z"
    "k (last_char (last_char prev u) w) z (((caps @ caps') @ [u]) @ caps'') = Some r" "\<forall>x\<in>set caps''. \<exists>y z. v = y @ x @ z"
    unfolding took by blast
  have "\<exists>y z. s = y @ x @ z" if "x \<in> set (caps' @ [u] @ caps'')" for x
  proof -
    from that consider "x \<in> set caps'" | "x = u" | "x \<in> set caps''" by auto
    then show ?thesis
    proof cases
      case 2
      then show ?thesis using u(1) by (intro exI [of _ "[]"] exI [of _ v]) simp
    qed (use u(1,3) w(3) in \<open>metis append.assoc\<close>)+
  qed
  then show ?case using u(1) w(1,2)
    by (intro exI [of _ "u @ w"] exI [of _ z] exI [of _ "caps' @ [u] @ caps''"]) (simp add: last_char_append)
next
  case (10 prev s caps k)
  then show ?case by simp
next
  case (11 b bs prev s caps k)
  then show ?case by (auto split: option.split_asm)
qed

lemma match_at_suffix:
  "match_at rx prev s = Some (prev', rest, caps) \<Longrightarrow> \<exists>u. s = u @ rest \<and> prev' = last_char prev u
     \<and> (\<forall>c\<in>set caps. \<exists>x y. s = x @ c @ y)"
  unfolding match_at_def by (drule scan_suffix) auto

text \<open>The captures of a search are pieces of the text.\<close>

lemma match_all_captures: "caps \<in> set (match_all rx prev s) \<Longrightarrow> c \<in> set caps \<Longrightarrow> \<exists>x y. s = x @ c @ y"
proof (induction rx prev s rule: match_all.induct)
  case (1 rx prev s)
  have step: "\<exists>x y. a # s' = x @ c @ y" if "\<exists>x y. s' = x @ c @ y" for a s'
    using that by (metis append_Cons)
  note found = 1(4) [unfolded match_all.simps [of rx prev s]]
  show ?case
  proof (cases "match_at rx prev s")
    case None
    with found 1(1-3,5) show ?thesis by (auto split: list.split_asm intro: step)
  next
    case (Some m)
    obtain prev' rest caps0 where m: "m = (prev', rest, caps0)" by (cases m) auto
    obtain u where u: "s = u @ rest" "\<forall>c\<in>set caps0. \<exists>x y. s = x @ c @ y"
      using match_at_suffix [OF Some [unfolded m]] by blast
    have up: "\<exists>x y. s = x @ c @ y" if "\<exists>x y. rest = x @ c @ y" using that u(1) by (metis append.assoc)
    show ?thesis using found 1(1-3,5) Some m u(2) up by (auto split: list.split_asm if_split_asm intro: step)
  qed
qed

end
