(* ===== verification/SourceStatements.thy ===== *)
theory SourceStatements
  imports Scanner
begin

text \<open>
  Statements of a source text that the pipeline records as assumptions or open questions: the
  calculation rules on value-added tax of \<^verbatim>\<open>packages/core-engine/src/calculation-constraints.ts\<close> and the
  unresolved validation rules of \<^verbatim>\<open>unresolved-validation-rules.ts\<close> there, as far as they read a text.
  Unicode normalisation (\<^verbatim>\<open>normalize("NFKC")\<close>) is a parameter.
\<close>

section \<open>Splitting a text into statements\<close>

definition normalizeWhitespace :: "(string \<Rightarrow> string) \<Rightarrow> string \<Rightarrow> string" where
  "normalizeWhitespace nfkc s = js_trim (collapse_spaces (nfkc s))"

definition GERMAN_ABBREVIATIONS :: "string list" where
  "GERMAN_ABBREVIATIONS = [''mwst'', ''bzw'', ''ggf'', ''ca'', ''evtl'', ''u.a'', ''z.b'', ''d.h'', ''vgl'', ''inkl'', ''exkl'']"

definition sentenceBoundaryRe :: "scan_item list" where
  "sentenceBoundaryRe = [Behind (any_of ''.!?''), Run js_space 1 None, Ahead (\<lambda>c. \<not> js_space c)]"

fun split_on :: "(char \<Rightarrow> bool) \<Rightarrow> string \<Rightarrow> string \<Rightarrow> string list" where
  "split_on P piece [] = [piece]"
| "split_on P piece (c # s) = (if P c then piece # split_on P [] s else split_on P (piece @ [c]) s)"

text \<open>The last token of the text before a boundary, without the punctuation at its end.\<close>

definition tokenBeforePeriod :: "string \<Rightarrow> string" where
  "tokenBeforePeriod left =
     js_lower (last (split_on (\<lambda>c. js_space c \<or> any_of [CHR '','', CHR '';'', CHR '':'', CHR ''('', CHR '')'', CHR ''/'', CHR 0x5C] c) []
       (rev (dropWhile (\<lambda>c. js_space c \<or> any_of ''.!?'' c) (rev left)))))"

text \<open>
  The loop over the boundaries of a block; \<open>cur\<close> is the text since the cursor. A boundary behind an
  abbreviation is passed over. The first white space of a boundary belongs to the text before it.
\<close>

function block_statements :: "string \<Rightarrow> char option \<Rightarrow> string \<Rightarrow> string list" where
  "block_statements cur prev s =
     (case s of
        [] \<Rightarrow> if js_trim cur = [] then [] else [js_trim cur]
      | c # s' \<Rightarrow>
          (case match_at sentenceBoundaryRe prev s of
             Some (prev', rest, _) \<Rightarrow>
               if length rest < length s
               then if tokenBeforePeriod (cur @ [c]) \<in> set GERMAN_ABBREVIATIONS
                    then block_statements (cur @ take (length s - length rest) s) prev' rest
                    else js_trim (cur @ [c]) # block_statements [] prev' rest
               else block_statements (cur @ [c]) (Some c) s'
           | None \<Rightarrow> block_statements (cur @ [c]) (Some c) s'))"
  by pat_completeness auto
termination by (relation "measure (\<lambda>(cur, prev, s). length s)") auto

declare block_statements.simps [simp del]

text \<open>
  The lines are the pieces between runs of line feeds; splitting at every line feed adds only empty
  pieces, which the loop skips.
\<close>

definition splitStatements :: "(string \<Rightarrow> string) \<Rightarrow> string \<Rightarrow> string list" where
  "splitStatements nfkc s =
     filter (\<lambda>statement. statement \<noteq> [])
       (concat (map (\<lambda>raw. let block = normalizeWhitespace nfkc raw in if block = [] then [] else block_statements [] None block)
         (split_on (\<lambda>c. c = CHR 0x0A) [] s)))"

section \<open>Calculation rules\<close>

definition FINANCING_NEED_RE :: "scan_item list" where
  "FINANCING_NEED_RE = between_edges
     [ignoring_case ''financing need'', ignoring_case ''finance need'', ignoring_case ''loan amount'',
      ignoring_case ''funding need'', with_ending ''finanzierungsbedarf'' [''es'', ''s'', ''e'']]"

definition VAT_RE :: "scan_item list" where
  "VAT_RE = between_edges
     [ignoring_case ''vat'', ignoring_case ''value added tax'', with_ending ''mwst'' [''.''],
      with_ending ''mehrwertsteuer'' [''n'', ''s''], with_ending ''umsatzsteuer'' [''n'', ''s'']]"

definition EXCLUSION_RE :: "scan_item list" where
  "EXCLUSION_RE = between_edges (map ignoring_case
     [''not part of'', ''is not part of'', ''isn'' @ [CHR 0x27] @ ''t part of'', ''excluded from'', ''must not be part of'',
      ''must not be included'', ''without'', ''nicht teil'', ''kein bestandteil'', ''nicht enthalten'', ''ausgenommen'', ''ohne''])"

definition a_umlaut :: char where "a_umlaut = CHR 0xE4"
definition o_umlaut :: char where "o_umlaut = CHR 0xF6"
definition u_umlaut :: char where "u_umlaut = CHR 0xFC"

definition INCLUSION_RE :: "scan_item list" where
  "INCLUSION_RE = between_edges (map ignoring_case
     [''part of'', ''included in'', ''must be included'', ''including vat'', ''plus vat'', ''teil von'', ''teil des'',
      ''enth'' @ [a_umlaut] @ ''lt'', ''enthalten'', ''inklusive'', ''zuz'' @ [u_umlaut] @ ''glich'', ''plus mwst'', ''plus umsatzsteuer''])"

definition buildSourceScopedCalculationAssumptions :: "(string \<Rightarrow> string) \<Rightarrow> string \<Rightarrow> string \<Rightarrow> string list" where
  "buildSourceScopedCalculationAssumptions nfkc sourceLabel txt =
     map (\<lambda>statement. sourceLabel @ '': '' @ statement)
       (filter (\<lambda>s. scan_test FINANCING_NEED_RE s \<and> scan_test VAT_RE s \<and> (scan_test EXCLUSION_RE s \<or> scan_test INCLUSION_RE s))
         (splitStatements nfkc txt))"

section \<open>Unresolved validation rules\<close>

definition UNRESOLVED_VALIDATION_MARKERS :: "scan_item list list" where
  "UNRESOLVED_VALIDATION_MARKERS = map (\<lambda>rx. between_edges [rx])
     [ignoring_case ''tbd'', ignoring_case ''to be specified'', with_ending ''need'' [''s''] @ ignoring_case '' to be specified'',
      ignoring_case ''still need'' @ [Choice [ignoring_case ''s'', []]] @ ignoring_case '' to be specified'',
      ignoring_case ''not yet specified'', ignoring_case ''unspecified'', ignoring_case ''not specified'',
      ignoring_case ''to be defined'', ignoring_case ''to be clarified'', ignoring_case ''open question'',
      ignoring_case ''see policy'', ignoring_case ''ask compliance'', ignoring_case ''noch zu spezifizieren'',
      ignoring_case ''noch nicht spezifiziert'', ignoring_case ''nicht spezifiziert'',
      ignoring_case (''nicht vollst'' @ [a_umlaut] @ ''ndig spezifiziert''), ignoring_case ''noch zu definieren'',
      ignoring_case (''noch zu kl'' @ [a_umlaut] @ ''ren''), ignoring_case (''zu kl'' @ [a_umlaut] @ ''ren''),
      ignoring_case (''fachlich zu kl'' @ [a_umlaut] @ ''ren''), ignoring_case (''ist zu kl'' @ [a_umlaut] @ ''ren''),
      ignoring_case ''noch unklar'', with_ending ''unklar'' [''e'', ''er'', ''es'', ''en''],
      ignoring_case ''offene'' @ [Run js_space 1 None] @ with_ending ''frage'' [''n''],
      ignoring_case (''kl'' @ [a_umlaut] @ ''rbedarf''), ignoring_case (''kl'' @ [a_umlaut] @ ''rungsbedarf'')]"

definition word_tail :: scan_item where
  "word_tail = Run word_char 0 None"

definition VALIDATION_TOPIC_MARKERS :: "scan_item list list" where
  "VALIDATION_TOPIC_MARKERS = map (\<lambda>rx. between_edges [rx])
     [ignoring_case ''validation'', ignoring_case ''error'', ignoring_case ''message'', ignoring_case ''amount'',
      ignoring_case ''vat'', with_ending ''select'' [''ion''], with_ending ''field'' [''s''], ignoring_case ''threshold'',
      ignoring_case ''limit'', ignoring_case ''boundar'' @ [Choice [ignoring_case ''y'', ignoring_case ''ies'']],
      ignoring_case ''minimum'', ignoring_case ''maximum'', ignoring_case ''min'', ignoring_case ''max'', ignoring_case ''format'',
      ignoring_case ''validierung'' @ [Choice [ignoring_case ''s'' @ [word_tail], []]],
      with_ending ''validierungsregel'' [''n''],
      ignoring_case ''fehler'' @ [Choice [with_ending ''meldung'' [''en''], []]], with_ending ''nachricht'' [''en''],
      ignoring_case ''betrag'' @ [Choice [ignoring_case ''s'' @ [word_tail], []]],
      ignoring_case (''betr'' @ [a_umlaut] @ ''ge''), with_ending ''betragsfeld'' [''er''], with_ending ''mwst'' [''.''],
      ignoring_case ''mehrwertsteuer'', ignoring_case ''umsatzsteuer'', with_ending ''auswahl'' [''feld''],
      with_ending ''feld'' [''er'', ''s''], with_ending ''pflichtfeld'' [''er''],
      ignoring_case ''eingabe'' @ [Choice [with_ending ''feld'' [''er''], []]], with_ending ''grenzwert'' [''e''],
      with_ending ''schwellenwert'' [''e''], ignoring_case ''mindest'' @ [word_tail],
      ignoring_case (''h'' @ [o_umlaut] @ ''chst'') @ [word_tail],
      ignoring_case ''berechnung'' @ [Choice [ignoring_case ''s'' @ [word_tail], []]],
      with_ending ''ergebnis'' [''feld'', ''anzeige'', ''wert'', ''betrag''],
      with_ending ''result'' ['' display'', '' field'', '' value''], ignoring_case ''vorbelegung'',
      with_ending ''feldbezeichnung'' [''en''], ignoring_case ''netto'', ignoring_case ''brutto'', ignoring_case ''finanzierungsbedarf'']"

definition includesAny :: "string \<Rightarrow> scan_item list list \<Rightarrow> bool" where
  "includesAny s patterns = list_ex (\<lambda>rx. scan_test rx s) patterns"

definition isUnresolvedValidationText :: "(string \<Rightarrow> string) \<Rightarrow> string \<Rightarrow> bool" where
  "isUnresolvedValidationText nfkc s =
     (let normalized = normalizeWhitespace nfkc s
      in normalized \<noteq> [] \<and> includesAny normalized UNRESOLVED_VALIDATION_MARKERS \<and> includesAny normalized VALIDATION_TOPIC_MARKERS)"

definition uniqueSorted_texts :: "string comparator \<Rightarrow> (string \<Rightarrow> string) \<Rightarrow> string list \<Rightarrow> string list" where
  "uniqueSorted_texts lc nfkc xs =
     sort_by lc (\<lambda>s. s) (filter (\<lambda>s. s \<noteq> []) (map (normalizeWhitespace nfkc) (js_set xs)))"

definition extractUnresolvedValidationStatements :: "string comparator \<Rightarrow> (string \<Rightarrow> string) \<Rightarrow> string \<Rightarrow> string list" where
  "extractUnresolvedValidationStatements lc nfkc txt =
     uniqueSorted_texts lc nfkc (filter (\<lambda>s. s \<noteq> [] \<and> isUnresolvedValidationText nfkc s)
       (map js_trim (split_at_matches
          [Choice [[Run (\<lambda>c. c = CHR 0x0A) 1 None], [Behind (any_of ''.!?''), Run js_space 1 None]]] [] None
          (normalizeWhitespace nfkc txt))))"

definition buildSourceScopedValidationOpenQuestions ::
  "string comparator \<Rightarrow> (string \<Rightarrow> string) \<Rightarrow> string \<Rightarrow> string \<Rightarrow> string list" where
  "buildSourceScopedValidationOpenQuestions lc nfkc sourceLabel txt =
     map (\<lambda>statement. sourceLabel @ '': '' @ statement) (extractUnresolvedValidationStatements lc nfkc txt)"

section \<open>Examples\<close>

text \<open>A sentence does not end behind an abbreviation.\<close>

lemma abbreviations_do_not_split:
  "splitStatements id ''Die MwSt. ist nicht Teil. Ende.'' = [''Die MwSt. ist nicht Teil.'', ''Ende.'']"
  by code_simp

text \<open>
  Line breaks are collapsed before the text is split at them: a normalised text has a single line, so
  the statements of two lines are read as one.
\<close>

lemma collapsed_spaces: "c \<in> set (collapse_spaces s) \<Longrightarrow> js_space c \<Longrightarrow> c = CHR '' ''"
  by (induction s rule: collapse_spaces.induct) (auto split: if_splits)

lemma set_js_trim: "set (js_trim s) \<subseteq> set s"
  unfolding js_trim_def by (metis set_dropWhileD set_rev subsetI)

lemma normalized_text_is_one_line: "CHR 0x0A \<notin> set (normalizeWhitespace nfkc s)"
proof
  assume "CHR 0x0A \<in> set (normalizeWhitespace nfkc s)"
  then have "CHR 0x0A \<in> set (collapse_spaces (nfkc s))" using set_js_trim by (auto simp: normalizeWhitespace_def)
  from collapsed_spaces [OF this] show False by (simp add: js_space_def)
qed

end
