(* ===== verification/CandidateExtraction.thy ===== *)
theory CandidateExtraction
  imports SourceEnvelope SourceStatements PolicyRisk JudgeData
begin

text \<open>
  The candidates that Jira issues and context notes contribute to the reconciliation
  (\<^verbatim>\<open>packages/multi-source/src/multi-source-reconciliation.ts\<close>, its first half, and
  \<^verbatim>\<open>custom-context-policy.ts\<close> there): fields, validation rules, test-data examples and risks that are
  read out of the texts. Sorting by two keys with \<^verbatim>\<open>localeCompare\<close> compares the first key and then the
  second one.
\<close>

section \<open>Data\<close>

record CandidateField =
  cf_sourceId :: string
  cf_screenId :: string
  cf_caseId :: string
  cf_label :: string
  cf_normalizedLabel :: string
  cf_semanticKey :: string
  cf_defaultValue :: "string option"
  cf_sourceKind :: string

record CandidateValidation =
  cv_sourceId :: string
  cv_screenId :: string
  cv_caseId :: string
  cv_semanticKey :: string
  cv_rule :: string
  cv_normalizedRule :: string
  cv_targetFieldLabel :: "string option"
  cv_sourceKind :: string

record CandidateTestDataExample =
  ct_sourceId :: string
  ct_screenId :: string
  ct_caseId :: string
  ct_semanticKey :: string
  ct_fieldLabel :: string
  ct_example :: string
  ct_normalizedExample :: string
  ct_sourceKind :: string

record CandidateRisk =
  ck_sourceId :: string
  ck_category :: string
  ck_rationale :: string

record JiraAcceptanceCriterion =
  jc_id :: string
  jc_text :: string

record JiraIssueIr =
  ji_issueKey :: string
  ji_summary :: string
  ji_descriptionPlain :: string
  ji_acceptanceCriteria :: "JiraAcceptanceCriterion list"
  ji_contentHash :: string

record CustomContextStructuredEntry =
  ce_entryId :: string
  ce_attributes :: "(string \<times> string) list"
  ce_contentHash :: string

record CustomContextSource =
  cu_sourceKind :: string
  cu_structuredEntries :: "CustomContextStructuredEntry list"
  cu_aggregateContentHash :: string

section \<open>Normal forms of a text\<close>

definition figmaKinds :: "string list" where
  "figmaKinds = [''figma_local_json'', ''figma_plugin'', ''figma_rest'']"

definition jiraKinds :: "string list" where
  "jiraKinds = [''jira_rest'', ''jira_paste'']"

definition normalizeText :: "string \<Rightarrow> string" where
  "normalizeText s = collapse_spaces (js_lower (js_trim s))"

text \<open>The loop of \<^verbatim>\<open>slugifyAscii\<close> over the code units, with its \<^verbatim>\<open>pendingDash\<close> and output.\<close>

fun slug_loop :: "bool \<Rightarrow> string \<Rightarrow> string \<Rightarrow> string" where
  "slug_loop pending out [] = out"
| "slug_loop pending out (c # s) =
     (if ascii_lower c \<or> ascii_digit c
      then slug_loop False ((if pending \<and> out \<noteq> [] then out @ ''-'' else out) @ [c]) s
      else slug_loop True out s)"

definition slugifyAscii :: "string \<Rightarrow> string" where
  "slugifyAscii s = slug_loop False [] s"

definition stableSlug :: "string \<Rightarrow> string" where
  "stableSlug s = (let slug = slugifyAscii (normalizeText s) in if slug = [] then ''value'' else slug)"

definition word_in :: "string \<Rightarrow> string \<Rightarrow> bool" where
  "word_in w s = scan_test [Edge, Choice [exactly w], Edge] s"

definition semanticKeyForLabel :: "string \<Rightarrow> string" where
  "semanticKeyForLabel label =
     (let normalized = js_trim (replace_all
            [Edge, Choice (map exactly [''input'', ''field'', ''textbox'', ''control'', ''the'']), Edge] [] None (normalizeText label));
          has = (\<lambda>w. js_includes w normalized)
      in if has ''iban'' then ''iban''
         else if has ''email'' \<or> has ''e-mail'' then ''email''
         else if word_in ''pan'' normalized \<or> has ''card number'' then ''pan''
         else if has ''phone'' \<or> has ''mobile'' \<or> has ''telephone'' then ''phone''
         else if has ''tax'' then ''tax''
         else if has ''name'' then ''name''
         else if has ''address'' then ''address''
         else if has ''password'' then ''password''
         else if has ''amount'' \<or> has ''sum'' then ''amount''
         else replace_all [Run (\<lambda>c. \<not> ascii_lower c \<and> \<not> ascii_digit c) 1 None] ''_'' None normalized)"

definition has_any :: "string list \<Rightarrow> string \<Rightarrow> bool" where
  "has_any ws s = list_ex (\<lambda>w. js_includes w s) ws"

definition inferRiskFromText :: "string \<Rightarrow> string option" where
  "inferRiskFromText s =
     (let normalized = normalizeText s
      in if has_any [''payment'', ''iban'', ''transaction'', ''card'', ''pan'', ''checkout''] normalized then Some ''financial_transaction''
         else if has_any [''regulated'', ''gdpr'', ''pci'', ''pii'', ''personal data'', ''kyc'', ''aml'', ''customer data''] normalized
         then Some ''regulated_data''
         else if has_any [''high risk'', ''privileged'', ''authorization'', ''admin''] normalized then Some ''high''
         else None)"

section \<open>Policy signals of context notes\<close>

definition personal_data_words :: "scan_item list" where
  "personal_data_words = exactly ''personal'' @ [Run js_space 0 None] @ exactly ''data''"

text \<open>The flag \<^verbatim>\<open>i\<close> has no effect on the lower-case text.\<close>

definition signalFromAttribute :: "string \<Rightarrow> string \<Rightarrow> string \<Rightarrow> string \<times> string \<Rightarrow> CustomContextPolicySignal option" where
  "signalFromAttribute sourceId entryId contentHash attribute =
     (case attribute of (attributeKey, txt) \<Rightarrow>
        let normalized = js_lower (js_trim txt);
            signal = (\<lambda>what. \<lparr> cx_sourceId = sourceId, cx_entryId = entryId, cx_attributeKey = attributeKey, cx_attributeValue = txt,
               cx_riskCategory = ''regulated_data'',
               cx_reason = ''custom context '' @ what @ '' '' @ quoted txt @ '' requires regulated-data review'',
               cx_contentHash = contentHash \<rparr>)
        in if attributeKey = ''data_class''
              \<and> (has_any [''pci'', ''pci-dss'', ''cardholder'', ''pan'', ''regulated'', ''pii''] normalized
                  \<or> scan_test personal_data_words normalized)
           then Some (signal ''data_class'')
           else if attributeKey = ''regulatory_scope'' \<and> has_any [''psd2'', ''gdpr'', ''sox'', ''pci'', ''aml'', ''kyc''] normalized
           then Some (signal ''regulatory_scope'')
           else None)"

text \<open>Sorted by two keys.\<close>

definition sort_by2 :: "string comparator \<Rightarrow> ('a \<Rightarrow> string) \<Rightarrow> ('a \<Rightarrow> string) \<Rightarrow> 'a list \<Rightarrow> 'a list" where
  "sort_by2 lc f g xs = sort_by lc f (sort_by lc g xs)"

definition deriveCustomContextPolicySignals ::
  "string comparator \<Rightarrow> string \<Rightarrow> CustomContextStructuredEntry list \<Rightarrow> CustomContextPolicySignal list" where
  "deriveCustomContextPolicySignals lc sourceId entries =
     sort_by2 lc cx_attributeKey cx_attributeValue
       (concat (map (\<lambda>e. List.map_filter (signalFromAttribute sourceId (ce_entryId e) (ce_contentHash e)) (ce_attributes e)) entries))"

definition collectCustomContextPolicySignals ::
  "string comparator \<Rightarrow> MultiSourceTestIntentEnvelope \<Rightarrow> CustomContextSource list \<Rightarrow> CustomContextPolicySignal list" where
  "collectCustomContextPolicySignals lc envelope sources =
     sort_by2 lc cx_sourceId cx_attributeKey
       (concat (map (\<lambda>ref.
          if sr_kind ref \<noteq> ''custom_structured'' then []
          else case find (\<lambda>c. cu_sourceKind c = ''custom_structured'' \<and> cu_aggregateContentHash c = sr_contentHash ref) sources of
                 None \<Rightarrow> []
               | Some source \<Rightarrow> deriveCustomContextPolicySignals lc (sr_sourceId ref) (cu_structuredEntries source))
          (en_sources envelope)))"

section \<open>Fields\<close>

definition texts_of :: "JiraIssueIr \<Rightarrow> string list" where
  "texts_of issue = ji_descriptionPlain issue # map jc_text (ji_acceptanceCriteria issue)"

definition quote_mark :: "char \<Rightarrow> bool" where
  "quote_mark c \<longleftrightarrow> c = CHR 0x22 \<or> c = CHR 0x27"

definition ascii_letter :: "char \<Rightarrow> bool" where
  "ascii_letter c \<longleftrightarrow> ascii_lower (js_lower_char c)"

definition label_char :: "char \<Rightarrow> bool" where
  "label_char c \<longleftrightarrow> ascii_letter c \<or> ascii_digit c \<or> any_of '' _/-'' c"

definition quoted_label :: "scan_item list" where
  "quoted_label = [Unit quote_mark, Keep [Unit ascii_letter, Run label_char 1 (Some 40)], Unit quote_mark]"

definition field_patterns :: "scan_item list list" where
  "field_patterns =
     [[Choice (map ignoring_case [''field'', ''input'', ''label'']), Run js_space 1 None] @ quoted_label,
      quoted_label @ [Run js_space 1 None] @ ignoring_case ''field'']"

definition case_id :: "string \<Rightarrow> string \<Rightarrow> string \<Rightarrow> string" where
  "case_id screenId what slug = ''case:'' @ screenId @ '':'' @ what @ '':'' @ slug"

definition jira_screen :: "JiraIssueIr \<Rightarrow> string" where
  "jira_screen issue = ''jira:'' @ ji_issueKey issue"

definition field_candidate :: "JiraIssueIr \<Rightarrow> string \<Rightarrow> string \<Rightarrow> CandidateField" where
  "field_candidate issue sourceId label =
     \<lparr> cf_sourceId = sourceId, cf_screenId = jira_screen issue,
       cf_caseId = case_id (jira_screen issue) ''field'' (semanticKeyForLabel label), cf_label = label,
       cf_normalizedLabel = normalizeText label, cf_semanticKey = semanticKeyForLabel label, cf_defaultValue = None,
       cf_sourceKind = ''jira_paste'' \<rparr>"

text \<open>A label of the design in a text, as a whole word.\<close>

definition mentions :: "string \<Rightarrow> string \<Rightarrow> bool" where
  "mentions label txt = scan_test ([Edge] @ ignoring_case label @ [Edge]) txt"

definition labels_in_text :: "string list \<Rightarrow> string \<Rightarrow> string list" where
  "labels_in_text figmaLabels txt =
     filter (\<lambda>l. l \<noteq> []) (concat (map (\<lambda>rx. map (js_trim \<circ> hd) (match_all rx None txt)) field_patterns))
     @ filter (\<lambda>l. mentions l txt) figmaLabels"

text \<open>
  The key of a \<^verbatim>\<open>Map\<close> is the JSON text of a tuple, which is equal exactly for equal tuples.
\<close>

definition keep_first_by :: "('a \<Rightarrow> 'k) \<Rightarrow> 'a list \<Rightarrow> 'a list" where
  "keep_first_by k xs = foldl (\<lambda>acc x. if k x \<in> set (map k acc) then acc else acc @ [x]) [] xs"

definition dedupeCandidateFields :: "string comparator \<Rightarrow> CandidateField list \<Rightarrow> CandidateField list" where
  "dedupeCandidateFields lc candidates =
     sort_by2 lc cf_caseId cf_label
       (keep_first_by (\<lambda>f. (cf_sourceId f, cf_screenId f, cf_semanticKey f, cf_normalizedLabel f)) candidates)"

text \<open>\<open>figmaLabels\<close> are the labels of the detected fields, none without a design.\<close>

definition extractJiraFieldCandidates ::
  "string comparator \<Rightarrow> JiraIssueIr \<Rightarrow> string \<Rightarrow> string list \<Rightarrow> CandidateField list" where
  "extractJiraFieldCandidates lc issue sourceId figmaLabels =
     dedupeCandidateFields lc
       (concat (map (\<lambda>txt. map (field_candidate issue sourceId) (labels_in_text figmaLabels txt))
          (ji_summary issue # texts_of issue)))"

section \<open>Validation rules\<close>

definition normalizeValidationRule :: "string \<Rightarrow> string" where
  "normalizeValidationRule s =
     js_trim (replace_all [Run (\<lambda>c. \<not> ascii_lower c \<and> \<not> ascii_digit c \<and> c \<noteq> CHR '' '') 1 None] '' '' None (normalizeText s))"

text \<open>The text behind the first occurrence of a keyword that is a word of its own.\<close>

fun keyword_tail :: "string \<Rightarrow> char option \<Rightarrow> string \<Rightarrow> string option" where
  "keyword_tail keyword prev [] = None"
| "keyword_tail keyword prev (c # s) =
     (if take (length keyword) (js_lower (c # s)) = keyword
         \<and> \<not> word_at prev \<and> \<not> word_at (first_char (drop (length keyword) (c # s)))
      then (let tail = js_trim (dropWhile (any_of '': '') (drop (length keyword) (c # s)))
            in if tail = [] then None else Some tail)
      else keyword_tail keyword (Some c) s)"

definition tailAfterKeyword :: "string \<Rightarrow> string \<Rightarrow> string option" where
  "tailAfterKeyword line keyword = keyword_tail keyword None line"

definition modal_rule :: "string \<Rightarrow> string \<Rightarrow> string list" where
  "modal_rule modal line =
     (case first_match ([Edge] @ ignoring_case modal @ [Edge, Run line_char 1 None, Finish]) None line of
        None \<Rightarrow> []
      | Some (matched, _) \<Rightarrow> [js_trim matched])"

definition rules_of_line :: "string \<Rightarrow> string list" where
  "rules_of_line line =
     (if scan_test ([Edge] @ ignoring_case ''required'' @ [Edge]) line then [''required''] else [])
     @ modal_rule ''must'' line @ modal_rule ''should'' line
     @ (case tailAfterKeyword line ''regex'' of None \<Rightarrow> [] | Some tail \<Rightarrow> [''regex '' @ tail])"

definition extractValidationRulesFromText :: "string \<Rightarrow> string list" where
  "extractValidationRulesFromText txt =
     js_sort (js_set (concat (map rules_of_line
       (filter (\<lambda>line. line \<noteq> []) (map js_trim (split_on (\<lambda>c. c = CHR 0x0A \<or> c = CHR ''.'') [] txt))))))"

definition dedupeCandidateValidations :: "string comparator \<Rightarrow> CandidateValidation list \<Rightarrow> CandidateValidation list" where
  "dedupeCandidateValidations lc validations =
     sort_by2 lc cv_caseId cv_normalizedRule
       (keep_first_by (\<lambda>v. (cv_sourceId v, cv_screenId v, cv_semanticKey v, cv_normalizedRule v)) validations)"

text \<open>The first field of each semantic key, in the order of the keys: the entries of the \<^verbatim>\<open>Map\<close>.\<close>

definition extractJiraValidationCandidates ::
  "string comparator \<Rightarrow> JiraIssueIr \<Rightarrow> string \<Rightarrow> CandidateField list \<Rightarrow> CandidateValidation list" where
  "extractJiraValidationCandidates lc issue sourceId fieldCandidates =
     dedupeCandidateValidations lc
       (concat (map (\<lambda>txt. concat (map (\<lambda>field.
            if mentions (cf_label field) txt
            then map (\<lambda>rule. \<lparr> cv_sourceId = sourceId, cv_screenId = jira_screen issue,
                        cv_caseId = case_id (jira_screen issue) ''validation'' (cf_semanticKey field),
                        cv_semanticKey = cf_semanticKey field, cv_rule = rule, cv_normalizedRule = normalizeValidationRule rule,
                        cv_targetFieldLabel = Some (cf_label field), cv_sourceKind = ''jira_paste'' \<rparr>)
                   (extractValidationRulesFromText txt)
            else [])
          (keep_first_by cf_semanticKey fieldCandidates)))
        (map jc_text (ji_acceptanceCriteria issue))))"

section \<open>Test-data examples\<close>

definition example_text :: "scan_item list" where
  "example_text = [Run js_space 0 None, Choice [ignoring_case ''is'', exactly ''='', exactly '':'', []], Run js_space 0 None,
     Run quote_mark 0 (Some 1), Keep [Run (\<lambda>c. \<not> quote_mark c \<and> c \<noteq> CHR ''.'' \<and> c \<noteq> CHR 0x0A) 1 (Some 120)],
     Run quote_mark 0 (Some 1)]"

definition label_maybe_quoted :: "string \<Rightarrow> scan_item" where
  "label_maybe_quoted label = Choice
     [exactly [CHR 0x22] @ ignoring_case label @ exactly [CHR 0x22],
      exactly [CHR 0x27] @ ignoring_case label @ exactly [CHR 0x27], ignoring_case label]"

definition example_patterns :: "string \<Rightarrow> scan_item list list" where
  "example_patterns label =
     [[label_maybe_quoted label, Run (\<lambda>c. c \<noteq> CHR 0x0A \<and> c \<noteq> CHR ''.'') 0 (Some 120), Edge]
        @ ignoring_case ''example'' @ [Edge] @ example_text,
      [Edge] @ ignoring_case ''example'' @ [Edge, Run js_space 0 None,
         Choice [ignoring_case ''for'' @ [Run js_space 1 None], []], label_maybe_quoted label] @ example_text]"

definition without_last_mark :: "string \<Rightarrow> string" where
  "without_last_mark s = (if s \<noteq> [] \<and> any_of '';,'' (last s) then butlast s else s)"

definition extractExamplesForField :: "string \<Rightarrow> string \<Rightarrow> string list" where
  "extractExamplesForField txt label =
     js_sort (js_set (filter (\<lambda>v. v \<noteq> [])
       (concat (map (\<lambda>rx. map (without_last_mark \<circ> js_trim \<circ> hd) (match_all rx None txt)) (example_patterns label)))))"

definition dedupeCandidateTestDataExamples ::
  "string comparator \<Rightarrow> CandidateTestDataExample list \<Rightarrow> CandidateTestDataExample list" where
  "dedupeCandidateTestDataExamples lc examples =
     sort_by2 lc ct_caseId ct_normalizedExample
       (keep_first_by (\<lambda>e. (ct_sourceId e, ct_screenId e, ct_semanticKey e, ct_normalizedExample e)) examples)"

definition extractJiraTestDataExampleCandidates ::
  "string comparator \<Rightarrow> JiraIssueIr \<Rightarrow> string \<Rightarrow> CandidateField list \<Rightarrow> CandidateTestDataExample list" where
  "extractJiraTestDataExampleCandidates lc issue sourceId fieldCandidates =
     dedupeCandidateTestDataExamples lc
       (concat (map (\<lambda>field. concat (map (\<lambda>txt.
            map (\<lambda>example. \<lparr> ct_sourceId = sourceId, ct_screenId = jira_screen issue,
                   ct_caseId = case_id (jira_screen issue) ''example'' (cf_semanticKey field), ct_semanticKey = cf_semanticKey field,
                   ct_fieldLabel = cf_label field, ct_example = example, ct_normalizedExample = normalizeText example,
                   ct_sourceKind = ''jira_paste'' \<rparr>)
              (extractExamplesForField txt (cf_label field)))
          (texts_of issue))) fieldCandidates))"

section \<open>Examples\<close>

lemma extraction_samples:
  "map normalizeText [''  A   B '', ''IBAN''] = [''a b'', ''iban'']"
  "stableSlug ''Card-Number (the) 1'' = ''card-number-the-1''" "stableSlug ''!!'' = ''value''"
  "semanticKeyForLabel ''The Pan'' = ''pan''"
  "tailAfterKeyword ''value Regex: [a-z]'' ''regex'' = Some ''[a-z]''"
  by code_simp+

end
