(* ===== verification/Reconciliation.thy ===== *)
theory Reconciliation
  imports CandidateExtraction PolicyInputs
begin

text \<open>
  The reconciliation of several sources into one intent
  (\<^verbatim>\<open>packages/multi-source/src/multi-source-reconciliation.ts\<close>, its second half): the candidates of the
  Jira issues are merged into the fields and validations of the design, disagreements become conflicts
  under the conflict policy, and a report accounts for every source.

  The code mutates the fields it finds through its lookup tables; here a table holds positions in the
  list of fields, which later insertions leave alone. Actions, navigation, business objects and
  redactions pass through unchanged and are JSON values.
\<close>

section \<open>Data\<close>

record IntentTraceRef =
  tr_nodeId :: "string option"
  tr_nodeName :: "string option"
  tr_nodePath :: "string option"
  tr_sourceRefs :: "TestIntentSourceRef list option"
  tr_componentName :: "string option"

record IntentField =
  if_id :: string
  if_screenId :: string
  if_trace :: IntentTraceRef
  if_provenance :: string
  if_confidence :: rat
  if_label :: string
  if_type :: string
  if_defaultValue :: "string option"
  if_ambiguity :: "string option"  \<comment> \<open>the reason of the note\<close>
  if_sourceRefs :: "TestIntentSourceRef list option"
  if_labelSource :: "string option"
  if_labelConfidence :: "rat option"
  if_clusterId :: "string option"

record IntentValidation =
  iv_id :: string
  iv_screenId :: string
  iv_trace :: IntentTraceRef
  iv_provenance :: string
  iv_confidence :: rat
  iv_rule :: string
  iv_targetFieldId :: "string option"
  iv_ambiguity :: "string option"
  iv_sourceRefs :: "TestIntentSourceRef list option"

record BusinessTestIntentScreen =
  sn_screenId :: string
  sn_screenName :: string
  sn_screenPath :: "string option"
  sn_trace :: IntentTraceRef
  sn_locale :: "string option"

record DetailedConflict = MultiSourceConflict +
  dc_detail :: "string option"

record ReconciledIntent =
  mi_source :: BusinessTestIntentIrSource
  mi_screens :: "BusinessTestIntentScreen list"
  mi_detectedFields :: "IntentField list"
  mi_detectedActions :: "json list"
  mi_detectedValidations :: "IntentValidation list"
  mi_detectedNavigation :: "json list"
  mi_inferredBusinessObjects :: "json list"
  mi_risks :: "string list"
  mi_assumptions :: "string list"
  mi_openQuestions :: "string list"
  mi_piiIndicators :: "PiiIndicator list"
  mi_redactions :: "json list"
  mi_sourceEnvelope :: "MultiSourceTestIntentEnvelope option"
  mi_multiSourceConflicts :: "DetailedConflict list option"

record ReconcileMultiSourceIntentInput =
  ri_envelope :: MultiSourceTestIntentEnvelope
  ri_figmaIntent :: "ReconciledIntent option"
  ri_jiraIssues :: "JiraIssueIr list option"
  ri_customContextSources :: "CustomContextSource list option"

record MultiSourceReconciliationTranscriptEntry =
  te_decisionId :: string
  te_sourceIds :: "string list"
  te_action :: string
  te_rationale :: string
  te_affectedElementIds :: "string list"

record MultiSourceReconciliationReport =
  rr_envelopeHash :: string
  rr_conflicts :: "DetailedConflict list"
  rr_unmatchedSources :: "string list"
  rr_contributingSourcesPerCase :: "(string \<times> string list) list"
  rr_policyApplied :: string
  rr_transcript :: "MultiSourceReconciliationTranscriptEntry list"

datatype reconciliation_error = Unknown_sourceId string

text \<open>The collation, the hash of canonical JSON values and Unicode normalisation.\<close>

record reconciliation_host =
  rh_collation :: "string comparator"
  rh_sha256Hex :: "json \<Rightarrow> string"
  rh_nfkc :: "string \<Rightarrow> string"

text \<open>The variables of the function: the elements merged so far and the books it keeps.\<close>

record merge_state =
  ms_fields :: "IntentField list"
  ms_validations :: "IntentValidation list"
  ms_usedSourceIds :: "string list"
  ms_conflicts :: "DetailedConflict list"
  ms_transcript :: "MultiSourceReconciliationTranscriptEntry list"
  ms_cases :: "(string \<times> string list) list"  \<comment> \<open>\<^verbatim>\<open>contributingSourcesPerCase\<close>\<close>

section \<open>Risks\<close>

text \<open>The key of \<^verbatim>\<open>seen\<close> is the source, the category and the text; \<open>out\<close> are the risks of one source so far.\<close>

definition figma_risks :: "ReconciledIntent \<Rightarrow> string \<Rightarrow> CandidateRisk list" where
  "figma_risks intent sourceId =
     (let keyed = List.map_filter (\<lambda>risk. map_option (\<lambda>c. (sourceId @ '':'' @ c @ '':'' @ risk,
                     \<lparr> ck_sourceId = sourceId, ck_category = c, ck_rationale = risk \<rparr>)) (inferRiskFromText risk)) (mi_risks intent);
          kept = keep_first_by fst keyed
      in map snd kept
         @ (if mi_piiIndicators intent \<noteq> [] \<and> sourceId @ '':regulated_data:pii'' \<notin> set (map fst kept)
            then [\<lparr> ck_sourceId = sourceId, ck_category = ''regulated_data'',
                    ck_rationale = ''PII indicators present in Figma-derived intent'' \<rparr>] else []))"

definition extractCandidateRisks :: "string comparator \<Rightarrow> ReconcileMultiSourceIntentInput \<Rightarrow> CandidateRisk list" where
  "extractCandidateRisks lc input =
     sort_by2 lc ck_sourceId ck_category
       (concat (map (\<lambda>ref. case ri_figmaIntent input of
            Some intent \<Rightarrow> if sr_kind ref \<in> set figmaKinds then figma_risks intent (sr_sourceId ref) else []
          | None \<Rightarrow> []) (en_sources (ri_envelope input)))
        @ map (\<lambda>s. \<lparr> ck_sourceId = cx_sourceId s, ck_category = cx_riskCategory s, ck_rationale = cx_reason s \<rparr>)
            (collectCustomContextPolicySignals lc (ri_envelope input)
              (case ri_customContextSources input of None \<Rightarrow> [] | Some cs \<Rightarrow> cs)))"

section \<open>Conflicts and transcript\<close>

definition some_list :: "string list \<Rightarrow> string list option" where
  "some_list xs = (if xs = [] then None else Some xs)"

definition buildConflict ::
  "(json \<Rightarrow> string) \<Rightarrow> string \<Rightarrow> string list \<Rightarrow> string list \<Rightarrow> ConflictResolution \<Rightarrow> string list \<Rightarrow> string list \<Rightarrow> string \<Rightarrow>
   DetailedConflict" where
  "buildConflict sha256Hex kind sourceIds raw resolution elementIds screenIds detail =
     (let participating = sortedUnique sourceIds; vals = sortedUnique raw
      in \<lparr> mc_conflictId = sha256Hex (sortValue (JObj [(''kind'', JStr kind), (''sourceRefs'', JArr (map JStr participating)),
              (''normalizedValues'', JArr (map JStr vals))])),
           mc_kind = kind, mc_participatingSourceIds = participating, mc_normalizedValues = vals, mc_resolution = resolution,
           mc_affectedElementIds = some_list (sortedUnique elementIds),
           mc_affectedScreenIds = some_list (sortedUnique screenIds), dc_detail = Some detail \<rparr>)"

definition buildTranscriptEntry ::
  "(json \<Rightarrow> string) \<Rightarrow> string list \<Rightarrow> string \<Rightarrow> string \<Rightarrow> string list \<Rightarrow> MultiSourceReconciliationTranscriptEntry" where
  "buildTranscriptEntry sha256Hex sourceIds action rationale elementIds =
     \<lparr> te_decisionId = sha256Hex (sortValue (JObj [(''sourceIds'', JArr (map JStr sourceIds)), (''action'', JStr action),
          (''rationale'', JStr rationale), (''affectedElementIds'', JArr (map JStr elementIds))])),
       te_sourceIds = sortedUnique sourceIds, te_action = action, te_rationale = rationale,
       te_affectedElementIds = sortedUnique elementIds \<rparr>"

definition resolutionForPolicy :: "string \<Rightarrow> ConflictResolution" where
  "resolutionForPolicy policy =
     (if policy = ''priority'' then Auto_priority else if policy = ''reviewer_decides'' then Deferred_to_reviewer else Kept_both)"

definition sourceRefForId :: "MultiSourceTestIntentEnvelope \<Rightarrow> string \<Rightarrow> reconciliation_error + TestIntentSourceRef" where
  "sourceRefForId envelope sourceId =
     (case find (\<lambda>r. sr_sourceId r = sourceId) (en_sources envelope) of
        None \<Rightarrow> Inl (Unknown_sourceId sourceId)
      | Some r \<Rightarrow> Inr r)"

definition mergeSourceRefs ::
  "string comparator \<Rightarrow> TestIntentSourceRef list option \<Rightarrow> TestIntentSourceRef list \<Rightarrow> TestIntentSourceRef list" where
  "mergeSourceRefs lc base extra =
     sort_by lc sr_sourceId (map snd (fold (\<lambda>r. AList.update (sr_sourceId r) r)
       ((case base of None \<Rightarrow> [] | Some rs \<Rightarrow> rs) @ extra) []))"

definition ids_of :: "TestIntentSourceRef list option \<Rightarrow> string list" where
  "ids_of refs = (case refs of None \<Rightarrow> [] | Some rs \<Rightarrow> map sr_sourceId rs)"

text \<open>\<^verbatim>\<open>xs.indexOf(x)\<close>\<close>

fun index_of :: "'a \<Rightarrow> 'a list \<Rightarrow> int" where
  "index_of x [] = -1"
| "index_of x (y # ys) = (if x = y then 0 else let i = index_of x ys in if i < 0 then -1 else i + 1)"

definition winnerSourceId :: "string comparator \<Rightarrow> MultiSourceTestIntentEnvelope \<Rightarrow> string list \<Rightarrow> string option" where
  "winnerSourceId lc envelope sourceIds =
     (if en_conflictResolutionPolicy envelope \<noteq> ''priority'' then None
      else let order = (case en_priorityOrder envelope of None \<Rightarrow> [] | Some ks \<Rightarrow> ks);
               refs = List.map_filter (\<lambda>i. find (\<lambda>r. sr_sourceId r = i) (en_sources envelope)) sourceIds
           in case sort_key (\<lambda>r. index_of (sr_kind r) order) (sort_by lc sr_sourceId refs) of
                [] \<Rightarrow> None
              | r # _ \<Rightarrow> Some (sr_sourceId r))"

section \<open>Conflict policies\<close>

definition trace_refs :: "TestIntentSourceRef list \<Rightarrow> IntentTraceRef \<Rightarrow> IntentTraceRef" where
  "trace_refs refs trace = trace\<lparr> tr_sourceRefs := Some refs \<rparr>"

definition field_refs :: "TestIntentSourceRef list \<Rightarrow> IntentField \<Rightarrow> IntentField" where
  "field_refs refs field = field\<lparr> if_sourceRefs := Some refs, if_trace := trace_refs refs (if_trace field) \<rparr>"

definition validation_refs :: "TestIntentSourceRef list \<Rightarrow> IntentValidation \<Rightarrow> IntentValidation" where
  "validation_refs refs validation =
     validation\<lparr> iv_sourceRefs := Some refs, iv_trace := trace_refs refs (iv_trace validation) \<rparr>"

definition merge_field_ref :: "string comparator \<Rightarrow> TestIntentSourceRef \<Rightarrow> IntentField \<Rightarrow> IntentField" where
  "merge_field_ref lc ref field = field_refs (mergeSourceRefs lc (if_sourceRefs field) [ref]) field"

definition merge_validation_ref :: "string comparator \<Rightarrow> TestIntentSourceRef \<Rightarrow> IntentValidation \<Rightarrow> IntentValidation" where
  "merge_validation_ref lc ref validation = validation_refs (mergeSourceRefs lc (iv_sourceRefs validation) [ref]) validation"

definition both_texts :: "string \<Rightarrow> string \<Rightarrow> string \<Rightarrow> string" where
  "both_texts what a b = what @ '' '' @ quoted a @ '' and '' @ quoted b"

text \<open>
  The policies for the label and the example of a field. \<open>ref\<close> is the reference of the candidate's
  source, \<open>current\<close> the text the field has and \<open>other\<close> the candidate's.
\<close>

definition apply_field_policy ::
  "string comparator \<Rightarrow> MultiSourceTestIntentEnvelope \<Rightarrow> TestIntentSourceRef \<Rightarrow> (IntentField \<Rightarrow> IntentField) \<Rightarrow>
   string \<Rightarrow> string \<Rightarrow> IntentField \<Rightarrow> IntentField" where
  "apply_field_policy lc envelope ref take_over kept_text choose_text field =
     (let policy = en_conflictResolutionPolicy envelope
      in if policy = ''priority''
         then (if winnerSourceId lc envelope (ids_of (if_sourceRefs field) @ [sr_sourceId ref]) = Some (sr_sourceId ref)
               then field_refs [ref] (take_over field) else field)\<lparr> if_provenance := ''reconciled'' \<rparr>
         else let noted = field\<lparr> if_provenance := ''reconciled'',
                     if_ambiguity := Some (if policy = ''keep_both'' then kept_text else choose_text) \<rparr>
              in if policy = ''reviewer_decides'' then merge_field_ref lc ref noted else noted)"

definition applyFieldConflictPolicy ::
  "string comparator \<Rightarrow> MultiSourceTestIntentEnvelope \<Rightarrow> TestIntentSourceRef \<Rightarrow> CandidateField \<Rightarrow> IntentField \<Rightarrow> IntentField" where
  "applyFieldConflictPolicy lc envelope ref candidate field =
     apply_field_policy lc envelope ref (\<lambda>f. f\<lparr> if_label := cf_label candidate \<rparr>)
       (both_texts ''Alternative field labels retained:'' (if_label field) (cf_label candidate))
       (both_texts ''Reviewer must choose between field labels'' (if_label field) (cf_label candidate)) field"

definition default_text :: "IntentField \<Rightarrow> string" where
  "default_text field = (case if_defaultValue field of None \<Rightarrow> [] | Some d \<Rightarrow> d)"

definition applyExampleConflictPolicy ::
  "string comparator \<Rightarrow> MultiSourceTestIntentEnvelope \<Rightarrow> TestIntentSourceRef \<Rightarrow> CandidateTestDataExample \<Rightarrow> IntentField \<Rightarrow>
   IntentField" where
  "applyExampleConflictPolicy lc envelope ref candidate field =
     apply_field_policy lc envelope ref (\<lambda>f. f\<lparr> if_defaultValue := Some (ct_example candidate) \<rparr>)
       (both_texts ''Alternative test-data examples retained:'' (default_text field) (ct_example candidate))
       (both_texts ''Reviewer must choose between test-data examples'' (default_text field) (ct_example candidate)) field"

definition applyValidationConflictPolicy ::
  "string comparator \<Rightarrow> MultiSourceTestIntentEnvelope \<Rightarrow> TestIntentSourceRef \<Rightarrow> CandidateValidation \<Rightarrow> IntentValidation \<Rightarrow>
   IntentValidation" where
  "applyValidationConflictPolicy lc envelope ref candidate validation =
     (let policy = en_conflictResolutionPolicy envelope
      in if policy = ''priority''
         then (if winnerSourceId lc envelope (ids_of (iv_sourceRefs validation) @ [sr_sourceId ref]) = Some (sr_sourceId ref)
               then validation_refs [ref] (validation\<lparr> iv_rule := cv_rule candidate \<rparr>) else validation)
              \<lparr> iv_provenance := ''reconciled'' \<rparr>
         else let noted = validation\<lparr> iv_provenance := ''reconciled'',
                     iv_ambiguity := Some (both_texts (if policy = ''keep_both'' then ''Alternative validation rules retained:''
                       else ''Reviewer must choose between validation rules'') (iv_rule validation) (cv_rule candidate)) \<rparr>
              in if policy = ''reviewer_decides'' then merge_validation_ref lc ref noted else noted)"

definition alternative_trace :: "IntentTraceRef \<Rightarrow> string \<Rightarrow> TestIntentSourceRef \<Rightarrow> IntentTraceRef" where
  "alternative_trace trace name ref =
     \<lparr> tr_nodeId = tr_nodeId trace, tr_nodeName = Some name, tr_nodePath = tr_nodePath trace, tr_sourceRefs = Some [ref],
       tr_componentName = None \<rparr>"

definition buildAlternativeField :: "TestIntentSourceRef \<Rightarrow> CandidateField \<Rightarrow> string \<Rightarrow> IntentField \<Rightarrow> IntentField" where
  "buildAlternativeField ref candidate reason field =
     \<lparr> if_id = if_id field @ ''::alternative::'' @ cf_sourceId candidate @ ''::'' @ stableSlug (cf_label candidate)
          @ (case cf_defaultValue candidate of None \<Rightarrow> [] | Some d \<Rightarrow> ''::'' @ stableSlug d),
       if_screenId = if_screenId field, if_trace = alternative_trace (if_trace field) (cf_label candidate) ref,
       if_provenance = ''reconciled'', if_confidence = min (if_confidence field) (7 / 10), if_label = cf_label candidate,
       if_type = if_type field,
       if_defaultValue = (case cf_defaultValue candidate of Some d \<Rightarrow> Some d | None \<Rightarrow> if_defaultValue field),
       if_ambiguity = Some reason, if_sourceRefs = Some [ref],
       if_labelSource = None, if_labelConfidence = None, if_clusterId = None \<rparr>"

definition buildAlternativeValidation ::
  "TestIntentSourceRef \<Rightarrow> CandidateValidation \<Rightarrow> string \<Rightarrow> IntentValidation \<Rightarrow> IntentValidation" where
  "buildAlternativeValidation ref candidate reason validation =
     \<lparr> iv_id = iv_id validation @ ''::alternative::'' @ cv_sourceId candidate @ ''::'' @ stableSlug (cv_rule candidate),
       iv_screenId = iv_screenId validation, iv_trace = alternative_trace (iv_trace validation) (cv_rule candidate) ref,
       iv_provenance = ''reconciled'', iv_confidence = min (iv_confidence validation) (7 / 10), iv_rule = cv_rule candidate,
       iv_targetFieldId = iv_targetFieldId validation, iv_ambiguity = Some reason, iv_sourceRefs = Some [ref] \<rparr>"

section \<open>Book keeping\<close>

definition use_source :: "string \<Rightarrow> merge_state \<Rightarrow> merge_state" where
  "use_source sourceId st = st\<lparr> ms_usedSourceIds := set_add sourceId (ms_usedSourceIds st) \<rparr>"

definition recordContribution :: "string \<Rightarrow> string list \<Rightarrow> merge_state \<Rightarrow> merge_state" where
  "recordContribution caseId sourceIds st =
     st\<lparr> ms_cases := AList.update caseId
           (fold set_add sourceIds (case map_of (ms_cases st) caseId of None \<Rightarrow> [] | Some ids \<Rightarrow> ids)) (ms_cases st) \<rparr>"

definition log_decision ::
  "reconciliation_host \<Rightarrow> string list \<Rightarrow> string \<Rightarrow> string \<Rightarrow> string list \<Rightarrow> merge_state \<Rightarrow> merge_state" where
  "log_decision h sourceIds action rationale elementIds st =
     st\<lparr> ms_transcript := ms_transcript st @ [buildTranscriptEntry (rh_sha256Hex h) sourceIds action rationale elementIds] \<rparr>"

definition report_conflict :: "DetailedConflict \<Rightarrow> merge_state \<Rightarrow> merge_state" where
  "report_conflict conflict st = st\<lparr> ms_conflicts := ms_conflicts st @ [conflict] \<rparr>"

definition put_field :: "nat \<Rightarrow> IntentField \<Rightarrow> merge_state \<Rightarrow> merge_state" where
  "put_field i field st = st\<lparr> ms_fields := (ms_fields st)[i := field] \<rparr>"

definition put_validation :: "nat \<Rightarrow> IntentValidation \<Rightarrow> merge_state \<Rightarrow> merge_state" where
  "put_validation i validation st = st\<lparr> ms_validations := (ms_validations st)[i := validation] \<rparr>"

definition push_field :: "IntentField \<Rightarrow> merge_state \<Rightarrow> merge_state" where
  "push_field field st = st\<lparr> ms_fields := ms_fields st @ [field] \<rparr>"

definition push_validation :: "IntentValidation \<Rightarrow> merge_state \<Rightarrow> merge_state" where
  "push_validation validation st = st\<lparr> ms_validations := ms_validations st @ [validation] \<rparr>"

definition field_case :: "IntentField \<Rightarrow> string" where
  "field_case field = case_id (if_screenId field) ''field'' (stableSlug (if_id field))"

definition validation_case :: "IntentValidation \<Rightarrow> string" where
  "validation_case validation = case_id (iv_screenId validation) ''validation'' (stableSlug (iv_id validation))"

definition push_alternative_field :: "string \<Rightarrow> IntentField option \<Rightarrow> merge_state \<Rightarrow> merge_state" where
  "push_alternative_field sourceId alternative st =
     (case alternative of
        None \<Rightarrow> st
      | Some a \<Rightarrow> if list_ex (\<lambda>f. if_id f = if_id a) (ms_fields st) then st
                  else recordContribution (field_case a) [sourceId] (push_field a st))"

definition push_alternative_validation :: "string \<Rightarrow> IntentValidation option \<Rightarrow> merge_state \<Rightarrow> merge_state" where
  "push_alternative_validation sourceId alternative st =
     (case alternative of
        None \<Rightarrow> st
      | Some a \<Rightarrow> if list_ex (\<lambda>v. iv_id v = iv_id a) (ms_validations st) then st
                  else recordContribution (validation_case a) [sourceId] (push_validation a st))"

text \<open>The elements of the design take over the design's sources where they name none.\<close>

definition adopted :: "TestIntentSourceRef list option \<Rightarrow> TestIntentSourceRef list \<Rightarrow> TestIntentSourceRef list" where
  "adopted own figmaSourceRefs = (case own of Some refs \<Rightarrow> refs | None \<Rightarrow> figmaSourceRefs)"

definition adopt_field :: "TestIntentSourceRef list \<Rightarrow> IntentField \<Rightarrow> IntentField" where
  "adopt_field figmaSourceRefs field =
     (let refs = adopted (if_sourceRefs field) figmaSourceRefs in if refs = [] then field else field_refs refs field)"

definition adopt_validation :: "TestIntentSourceRef list \<Rightarrow> IntentValidation \<Rightarrow> IntentValidation" where
  "adopt_validation figmaSourceRefs validation =
     (let refs = adopted (iv_sourceRefs validation) figmaSourceRefs in if refs = [] then validation else validation_refs refs validation)"

definition account_for :: "string \<Rightarrow> TestIntentSourceRef list option \<Rightarrow> merge_state \<Rightarrow> merge_state" where
  "account_for caseId refs st =
     (if ids_of refs = [] then st else recordContribution caseId (ids_of refs) (fold use_source (ids_of refs) st))"

section \<open>The loops over the candidates\<close>

text \<open>A loop whose body may throw.\<close>

fun fold_or_throw :: "('a \<Rightarrow> 's \<Rightarrow> 'e + 's) \<Rightarrow> 'a list \<Rightarrow> 's \<Rightarrow> 'e + 's" where
  "fold_or_throw f [] s = Inr s"
| "fold_or_throw f (x # xs) s = (case f x s of Inl e \<Rightarrow> Inl e | Inr s' \<Rightarrow> fold_or_throw f xs s')"

definition participants :: "TestIntentSourceRef list option \<Rightarrow> string list \<Rightarrow> string \<Rightarrow> string list" where
  "participants refs figmaSourceIds sourceId =
     (case refs of None \<Rightarrow> figmaSourceIds | Some rs \<Rightarrow> map sr_sourceId rs) @ [sourceId]"

definition keeps_both :: "MultiSourceTestIntentEnvelope \<Rightarrow> bool" where
  "keeps_both envelope \<longleftrightarrow> en_conflictResolutionPolicy envelope = ''keep_both''"

definition conflict_action :: "MultiSourceTestIntentEnvelope \<Rightarrow> string" where
  "conflict_action envelope = (if keeps_both envelope then ''alternative_emitted'' else ''conflict_recorded'')"

definition affected :: "string \<Rightarrow> string option \<Rightarrow> string list" where
  "affected elementId alternativeId = elementId # (case alternativeId of None \<Rightarrow> [] | Some i \<Rightarrow> [i])"

text \<open>One match of a field candidate: the field at position \<open>i\<close>.\<close>

definition label_conflict ::
  "reconciliation_host \<Rightarrow> MultiSourceTestIntentEnvelope \<Rightarrow> string list \<Rightarrow> CandidateField \<Rightarrow> IntentField \<Rightarrow> DetailedConflict" where
  "label_conflict h envelope sourceIds c field =
     buildConflict (rh_sha256Hex h) ''field_label_mismatch'' sourceIds [if_label field, cf_label c]
       (resolutionForPolicy (en_conflictResolutionPolicy envelope)) [if_id field] [if_screenId field]
       (''Figma field '' @ quoted (if_label field) @ '' disagrees with Jira field '' @ quoted (cf_label c))"

definition match_field ::
  "reconciliation_host \<Rightarrow> MultiSourceTestIntentEnvelope \<Rightarrow> string list \<Rightarrow> TestIntentSourceRef \<Rightarrow> CandidateField \<Rightarrow> nat \<Rightarrow>
   merge_state \<Rightarrow> merge_state" where
  "match_field h envelope figmaSourceIds ref c i st =
     (let field = ms_fields st ! i; sourceIds = participants (if_sourceRefs field) figmaSourceIds (cf_sourceId c);
          st1 = recordContribution (field_case field) sourceIds st
      in if normalizeText (if_label field) \<noteq> cf_normalizedLabel c
         then let conflict = label_conflict h envelope sourceIds c field;
                  resolved = applyFieldConflictPolicy (rh_collation h) envelope ref c field;
                  alternative = (if keeps_both envelope
                    then Some (buildAlternativeField ref c (''Alternative Jira label retained for source '' @ cf_sourceId c) resolved) else None)
              in log_decision h sourceIds (conflict_action envelope) (the (dc_detail conflict))
                   (affected (if_id field) (map_option if_id alternative))
                   (push_alternative_field (cf_sourceId c) alternative
                     (put_field i resolved (report_conflict conflict st1)))
         else log_decision h sourceIds ''merged'' (''merged matching field '' @ quoted (if_label field) @ '' across sources'')
                [if_id field] (put_field i (merge_field_ref (rh_collation h) ref field) st1))"

definition accepted_field :: "TestIntentSourceRef \<Rightarrow> CandidateField \<Rightarrow> IntentField" where
  "accepted_field ref c =
     \<lparr> if_id = cf_screenId c @ ''::field::'' @ cf_sourceId c @ ''::'' @ stableSlug (cf_label c), if_screenId = cf_screenId c,
       if_trace = \<lparr> tr_nodeId = Some (cf_screenId c), tr_nodeName = Some (cf_label c), tr_nodePath = None,
                    tr_sourceRefs = Some [ref], tr_componentName = None \<rparr>,
       if_provenance = ''reconciled'', if_confidence = 7 / 10, if_label = cf_label c, if_type = ''text'',
       if_defaultValue = cf_defaultValue c, if_ambiguity = None, if_sourceRefs = Some [ref],
       if_labelSource = None, if_labelConfidence = None, if_clusterId = None \<rparr>"

definition accept_field :: "reconciliation_host \<Rightarrow> TestIntentSourceRef \<Rightarrow> CandidateField \<Rightarrow> merge_state \<Rightarrow> merge_state" where
  "accept_field h ref c st =
     log_decision h [cf_sourceId c] ''accepted''
       (''accepted Jira-derived field '' @ quoted (cf_label c) @ '' without a Figma counterpart'') [if_id (accepted_field ref c)]
       (push_field (accepted_field ref c) st)"

text \<open>Positions of the elements with a semantic key, in the table built before the loops.\<close>

definition positions :: "string list \<Rightarrow> string \<Rightarrow> nat list" where
  "positions keys k = filter (\<lambda>i. keys ! i = k) [0 ..< length keys]"

text \<open>Every branch looks up the reference of the candidate's source, which throws when it is unknown.\<close>

definition field_step ::
  "reconciliation_host \<Rightarrow> MultiSourceTestIntentEnvelope \<Rightarrow> string list \<Rightarrow> string list \<Rightarrow> CandidateField \<Rightarrow> merge_state \<Rightarrow>
   reconciliation_error + merge_state" where
  "field_step h envelope figmaSourceIds keys c st =
     (let st1 = recordContribution (cf_caseId c) [cf_sourceId c] (use_source (cf_sourceId c) st);
          matches = positions keys (cf_semanticKey c)
      in case sourceRefForId envelope (cf_sourceId c) of
           Inl e \<Rightarrow> Inl e
         | Inr ref \<Rightarrow> Inr (if matches = [] then accept_field h ref c st1
                           else fold (match_field h envelope figmaSourceIds ref c) matches st1))"

definition rule_conflict ::
  "reconciliation_host \<Rightarrow> MultiSourceTestIntentEnvelope \<Rightarrow> string list \<Rightarrow> CandidateValidation \<Rightarrow> IntentValidation \<Rightarrow> DetailedConflict" where
  "rule_conflict h envelope sourceIds c validation =
     buildConflict (rh_sha256Hex h) ''validation_rule_mismatch'' sourceIds [iv_rule validation, cv_rule c]
       (resolutionForPolicy (en_conflictResolutionPolicy envelope)) [iv_id validation] [iv_screenId validation]
       (''Figma validation '' @ quoted (iv_rule validation) @ '' disagrees with Jira validation '' @ quoted (cv_rule c))"

definition match_validation ::
  "reconciliation_host \<Rightarrow> MultiSourceTestIntentEnvelope \<Rightarrow> string list \<Rightarrow> TestIntentSourceRef \<Rightarrow> CandidateValidation \<Rightarrow> nat \<Rightarrow>
   merge_state \<Rightarrow> merge_state" where
  "match_validation h envelope figmaSourceIds ref c i st =
     (let validation = ms_validations st ! i;
          sourceIds = participants (iv_sourceRefs validation) figmaSourceIds (cv_sourceId c)
      in if normalizeValidationRule (iv_rule validation) \<noteq> cv_normalizedRule c
         then let conflict = rule_conflict h envelope sourceIds c validation;
                  resolved = applyValidationConflictPolicy (rh_collation h) envelope ref c validation;
                  alternative = (if keeps_both envelope
                    then Some (buildAlternativeValidation ref c
                           (''Alternative Jira validation retained for source '' @ cv_sourceId c) resolved) else None)
              in log_decision h sourceIds (conflict_action envelope) (the (dc_detail conflict))
                   (affected (iv_id validation) (map_option iv_id alternative))
                   (push_alternative_validation (cv_sourceId c) alternative
                     (put_validation i resolved (report_conflict conflict st)))
         else log_decision h sourceIds ''merged'' (''merged matching validation '' @ quoted (iv_rule validation) @ '' across sources'')
                [iv_id validation] (put_validation i (merge_validation_ref (rh_collation h) ref validation) st))"

definition accepted_validation :: "TestIntentSourceRef \<Rightarrow> CandidateValidation \<Rightarrow> string option \<Rightarrow> IntentValidation" where
  "accepted_validation ref c targetFieldId =
     \<lparr> iv_id = cv_screenId c @ ''::validation::'' @ cv_sourceId c @ ''::'' @ stableSlug (cv_rule c), iv_screenId = cv_screenId c,
       iv_trace = \<lparr> tr_nodeId = Some (cv_screenId c), tr_nodeName = Some (cv_rule c), tr_nodePath = None,
                    tr_sourceRefs = Some [ref], tr_componentName = None \<rparr>,
       iv_provenance = ''reconciled'', iv_confidence = 7 / 10, iv_rule = cv_rule c, iv_targetFieldId = targetFieldId,
       iv_ambiguity = None, iv_sourceRefs = Some [ref] \<rparr>"

definition accept_validation ::
  "reconciliation_host \<Rightarrow> TestIntentSourceRef \<Rightarrow> CandidateValidation \<Rightarrow> merge_state \<Rightarrow> merge_state" where
  "accept_validation h ref c st =
     (let target = map_option if_id (find (\<lambda>f. semanticKeyForLabel (if_label f) = cv_semanticKey c) (ms_fields st));
          validation = accepted_validation ref c target
      in log_decision h [cv_sourceId c] ''accepted''
           (''accepted Jira-derived validation '' @ quoted (cv_rule c) @ '' without a Figma counterpart'') [iv_id validation]
           (push_validation validation st))"

definition validation_step ::
  "reconciliation_host \<Rightarrow> MultiSourceTestIntentEnvelope \<Rightarrow> string list \<Rightarrow> string list \<Rightarrow> CandidateValidation \<Rightarrow> merge_state \<Rightarrow>
   reconciliation_error + merge_state" where
  "validation_step h envelope figmaSourceIds keys c st =
     (let st1 = recordContribution (cv_caseId c) [cv_sourceId c] (use_source (cv_sourceId c) st);
          matches = positions keys (cv_semanticKey c)
      in case sourceRefForId envelope (cv_sourceId c) of
           Inl e \<Rightarrow> Inl e
         | Inr ref \<Rightarrow> Inr (if matches = [] then accept_validation h ref c st1
                           else fold (match_validation h envelope figmaSourceIds ref c) matches st1))"

definition example_conflict ::
  "reconciliation_host \<Rightarrow> MultiSourceTestIntentEnvelope \<Rightarrow> string list \<Rightarrow> CandidateTestDataExample \<Rightarrow> IntentField \<Rightarrow> DetailedConflict" where
  "example_conflict h envelope sourceIds c field =
     buildConflict (rh_sha256Hex h) ''test_data_example_mismatch'' sourceIds [default_text field, ct_example c]
       (resolutionForPolicy (en_conflictResolutionPolicy envelope)) [if_id field] [if_screenId field]
       (''Figma example '' @ quoted (default_text field) @ '' disagrees with Jira example '' @ quoted (ct_example c)
        @ '' for field '' @ quoted (if_label field))"

definition example_field :: "CandidateTestDataExample \<Rightarrow> CandidateField" where
  "example_field c =
     \<lparr> cf_sourceId = ct_sourceId c, cf_screenId = ct_screenId c, cf_caseId = ct_caseId c, cf_label = ct_fieldLabel c,
       cf_normalizedLabel = normalizeText (ct_fieldLabel c), cf_semanticKey = ct_semanticKey c,
       cf_defaultValue = Some (ct_example c), cf_sourceKind = ct_sourceKind c \<rparr>"

definition match_example ::
  "reconciliation_host \<Rightarrow> MultiSourceTestIntentEnvelope \<Rightarrow> string list \<Rightarrow> TestIntentSourceRef \<Rightarrow> CandidateTestDataExample \<Rightarrow> nat \<Rightarrow>
   merge_state \<Rightarrow> merge_state" where
  "match_example h envelope figmaSourceIds ref c i st =
     (let field = ms_fields st ! i; sourceIds = participants (if_sourceRefs field) figmaSourceIds (ct_sourceId c);
          st1 = recordContribution (field_case field) sourceIds st;
          merge = merge_field_ref (rh_collation h) ref
      in if default_text field = []
         then log_decision h sourceIds ''accepted''
                (''accepted Jira-derived test-data example '' @ quoted (ct_example c) @ '' for field '' @ quoted (if_label field))
                [if_id field] (put_field i (merge (field\<lparr> if_defaultValue := Some (ct_example c) \<rparr>)) st1)
         else if normalizeText (default_text field) = ct_normalizedExample c
         then log_decision h sourceIds ''merged''
                (''merged matching test-data example for field '' @ quoted (if_label field)) [if_id field]
                (put_field i (merge field) st1)
         else let conflict = example_conflict h envelope sourceIds c field;
                  resolved = applyExampleConflictPolicy (rh_collation h) envelope ref c field;
                  alternative = (if keeps_both envelope
                    then Some (buildAlternativeField ref (example_field c)
                           (''Alternative Jira test-data example retained for source '' @ ct_sourceId c) resolved) else None)
              in log_decision h sourceIds (conflict_action envelope) (the (dc_detail conflict))
                   (affected (if_id field) (map_option if_id alternative))
                   (push_alternative_field (ct_sourceId c) alternative
                     (put_field i resolved (report_conflict conflict st1))))"

text \<open>The fields an example applies to are looked up among all fields merged so far.\<close>

definition example_step ::
  "reconciliation_host \<Rightarrow> MultiSourceTestIntentEnvelope \<Rightarrow> string list \<Rightarrow> CandidateTestDataExample \<Rightarrow> merge_state \<Rightarrow>
   reconciliation_error + merge_state" where
  "example_step h envelope figmaSourceIds c st =
     (let st1 = recordContribution (ct_caseId c) [ct_sourceId c] (use_source (ct_sourceId c) st);
          matches = positions (map (semanticKeyForLabel \<circ> if_label) (ms_fields st)) (ct_semanticKey c)
      in if matches = [] then Inr st1
         else case sourceRefForId envelope (ct_sourceId c) of
                Inl e \<Rightarrow> Inl e
              | Inr ref \<Rightarrow> Inr (fold (match_example h envelope figmaSourceIds ref c) matches st1))"

section \<open>The reconciliation\<close>

text \<open>\<^verbatim>\<open>cloneScreen\<close> copies the listed properties only: the locale and the component name are dropped.\<close>

definition cloneScreen :: "BusinessTestIntentScreen \<Rightarrow> BusinessTestIntentScreen" where
  "cloneScreen screen = screen\<lparr> sn_trace := (sn_trace screen)\<lparr> tr_componentName := None \<rparr>, sn_locale := None \<rparr>"

definition buildJiraOnlyScreen :: "JiraIssueIr \<Rightarrow> BusinessTestIntentScreen" where
  "buildJiraOnlyScreen issue =
     \<lparr> sn_screenId = jira_screen issue, sn_screenName = ji_issueKey issue, sn_screenPath = None,
       sn_trace = \<lparr> tr_nodeId = Some (ji_issueKey issue), tr_nodeName = Some (ji_summary issue), tr_nodePath = None,
                    tr_sourceRefs = None, tr_componentName = None \<rparr>,
       sn_locale = None \<rparr>"

definition issues_of :: "ReconcileMultiSourceIntentInput \<Rightarrow> JiraIssueIr list" where
  "issues_of input = (case ri_jiraIssues input of None \<Rightarrow> [] | Some issues \<Rightarrow> issues)"

definition base_intent :: "string comparator \<Rightarrow> ReconcileMultiSourceIntentInput \<Rightarrow> ReconciledIntent" where
  "base_intent lc input =
     (let envelope = ri_envelope input;
          legacy = (case legacySourceFromMultiSourceEnvelope envelope of
            Some s \<Rightarrow> s | None \<Rightarrow> \<lparr> bs_kind = ''hybrid'', bs_contentHash = en_aggregateContentHash envelope \<rparr>)
      in case ri_figmaIntent input of
           Some intent \<Rightarrow> intent\<lparr> mi_screens := map cloneScreen (mi_screens intent), mi_source := legacy,
             mi_sourceEnvelope := Some envelope \<rparr>
         | None \<Rightarrow>
             \<lparr> mi_source = legacy, mi_screens = sort_by lc sn_screenId (map buildJiraOnlyScreen (issues_of input)),
               mi_detectedFields = [], mi_detectedActions = [], mi_detectedValidations = [], mi_detectedNavigation = [],
               mi_inferredBusinessObjects = [], mi_risks = [], mi_assumptions = [], mi_openQuestions = [],
               mi_piiIndicators = [], mi_redactions = [], mi_sourceEnvelope = Some envelope, mi_multiSourceConflicts = None \<rparr>)"

definition figma_refs :: "ReconcileMultiSourceIntentInput \<Rightarrow> TestIntentSourceRef list" where
  "figma_refs input = filter (\<lambda>r. sr_kind r \<in> set figmaKinds) (en_sources (ri_envelope input))"

definition jira_refs :: "ReconcileMultiSourceIntentInput \<Rightarrow> TestIntentSourceRef list" where
  "jira_refs input = filter (\<lambda>r. sr_kind r \<in> set jiraKinds) (en_sources (ri_envelope input))"

text \<open>The issues of the envelope, with the identifier of their source.\<close>

definition sourced_issues :: "ReconcileMultiSourceIntentInput \<Rightarrow> (JiraIssueIr \<times> string) list" where
  "sourced_issues input = List.map_filter (\<lambda>issue.
     map_option (\<lambda>r. (issue, sr_sourceId r)) (find (\<lambda>r. sr_contentHash r = ji_contentHash issue) (jira_refs input))) (issues_of input)"

definition field_candidates :: "string comparator \<Rightarrow> ReconcileMultiSourceIntentInput \<Rightarrow> CandidateField list" where
  "field_candidates lc input = concat (map (\<lambda>(issue, sourceId). extractJiraFieldCandidates lc issue sourceId
     (case ri_figmaIntent input of None \<Rightarrow> [] | Some intent \<Rightarrow> map if_label (mi_detectedFields intent))) (sourced_issues input))"

definition validation_candidates :: "string comparator \<Rightarrow> ReconcileMultiSourceIntentInput \<Rightarrow> CandidateValidation list" where
  "validation_candidates lc input = concat (map (\<lambda>(issue, sourceId). extractJiraValidationCandidates lc issue sourceId
     (filter (\<lambda>c. cf_sourceId c = sourceId) (field_candidates lc input))) (sourced_issues input))"

definition example_candidates :: "string comparator \<Rightarrow> ReconcileMultiSourceIntentInput \<Rightarrow> CandidateTestDataExample list" where
  "example_candidates lc input = concat (map (\<lambda>(issue, sourceId). extractJiraTestDataExampleCandidates lc issue sourceId
     (filter (\<lambda>c. cf_sourceId c = sourceId) (field_candidates lc input))) (sourced_issues input))"

definition validation_key :: "IntentField list \<Rightarrow> IntentValidation \<Rightarrow> string" where
  "validation_key elements validation =
     (case (case iv_targetFieldId validation of
              None \<Rightarrow> None
            | Some i \<Rightarrow> if i = [] then None else find (\<lambda>f. if_id f = i) elements) of
        Some field \<Rightarrow> semanticKeyForLabel (if_label field)
      | None \<Rightarrow> semanticKeyForLabel (iv_rule validation))"

text \<open>The state before the loops: the elements of the design and the sources they account for.\<close>

definition initial_merge :: "TestIntentSourceRef list \<Rightarrow> ReconciledIntent \<Rightarrow> merge_state" where
  "initial_merge figmaSourceRefs base =
     (let elements = map (adopt_field figmaSourceRefs) (mi_detectedFields base);
          validations = map (adopt_validation figmaSourceRefs) (mi_detectedValidations base)
      in fold (\<lambda>v. account_for (validation_case v) (iv_sourceRefs v)) validations
           (fold (\<lambda>f. account_for (field_case f) (if_sourceRefs f)) elements
             \<lparr> ms_fields = elements, ms_validations = validations, ms_usedSourceIds = [], ms_conflicts = [],
               ms_transcript = [], ms_cases = [] \<rparr>))"

definition merge_candidates ::
  "reconciliation_host \<Rightarrow> ReconcileMultiSourceIntentInput \<Rightarrow> merge_state \<Rightarrow> reconciliation_error + merge_state" where
  "merge_candidates h input st =
     (let lc = rh_collation h; envelope = ri_envelope input; figmaSourceIds = map sr_sourceId (figma_refs input);
          field_keys = map (semanticKeyForLabel \<circ> if_label) (ms_fields st);
          validation_keys = map (validation_key (ms_fields st)) (ms_validations st)
      in case fold_or_throw (field_step h envelope figmaSourceIds field_keys) (field_candidates lc input) st of
           Inl e \<Rightarrow> Inl e
         | Inr st1 \<Rightarrow>
             (case fold_or_throw (validation_step h envelope figmaSourceIds validation_keys) (validation_candidates lc input) st1 of
                Inl e \<Rightarrow> Inl e
              | Inr st2 \<Rightarrow> fold_or_throw (example_step h envelope figmaSourceIds) (example_candidates lc input) st2))"

definition risk_conflicts ::
  "reconciliation_host \<Rightarrow> ReconcileMultiSourceIntentInput \<Rightarrow> CandidateRisk list \<Rightarrow> string list \<Rightarrow> DetailedConflict list" where
  "risk_conflicts h input risks screenIds =
     (let categories = js_sort (js_set (map ck_category risks))
      in if length categories > 1
         then [buildConflict (rh_sha256Hex h) ''risk_category_mismatch'' (map ck_sourceId risks) categories
                 (resolutionForPolicy (en_conflictResolutionPolicy (ri_envelope input))) [] screenIds
                 (''Sources disagree on risk categories: '' @ js_join '', '' categories)] else [])"

text \<open>The texts or keys that occur at least twice, with the sources they come from.\<close>

definition repeated :: "(string \<times> string) list \<Rightarrow> (string \<times> string list) list" where
  "repeated pairs = filter (\<lambda>(k, ids). length ids \<ge> 2)
     (map (\<lambda>k. (k, map snd (filter (\<lambda>p. fst p = k) pairs))) (js_set (map fst pairs)))"

definition acceptance_conflicts :: "reconciliation_host \<Rightarrow> ReconcileMultiSourceIntentInput \<Rightarrow> DetailedConflict list" where
  "acceptance_conflicts h input =
     map (\<lambda>(txt, ids). buildConflict (rh_sha256Hex h) ''duplicate_acceptance_criterion'' ids [txt] Unresolved [] []
            (''Duplicate acceptance criterion detected: '' @ quoted txt))
       (repeated (concat (map (\<lambda>(issue, sourceId). map (\<lambda>c. (normalizeText (jc_text c), sourceId)) (ji_acceptanceCriteria issue))
         (sourced_issues input))))"

definition paste_conflicts :: "reconciliation_host \<Rightarrow> ReconcileMultiSourceIntentInput \<Rightarrow> DetailedConflict list" where
  "paste_conflicts h input =
     map (\<lambda>(issueKey, ids). buildConflict (rh_sha256Hex h) ''paste_collision'' ids [issueKey] Unresolved [] []
            (''Multiple Jira sources resolve to canonical issue key '' @ quoted issueKey))
       (repeated (List.map_filter (\<lambda>r. map_option (\<lambda>k. (k, sr_sourceId r)) (sr_canonicalIssueKey r)) (jira_refs input)))"

definition text_of :: "string list \<Rightarrow> string" where
  "text_of parts = js_join [CHR 0x0A] parts"

definition add_assumptions :: "reconciliation_host \<Rightarrow> JiraIssueIr \<times> string \<Rightarrow> string list \<Rightarrow> string list" where
  "add_assumptions h issue assumptions = sortedUnique (assumptions
     @ buildSourceScopedCalculationAssumptions (rh_nfkc h) (snd issue) (text_of (ji_summary (fst issue) # texts_of (fst issue))))"

definition add_questions :: "reconciliation_host \<Rightarrow> JiraIssueIr \<times> string \<Rightarrow> string list \<Rightarrow> string list" where
  "add_questions h issue questions = sortedUnique (questions
     @ buildSourceScopedValidationOpenQuestions (rh_collation h) (rh_nfkc h) (snd issue) (text_of (texts_of (fst issue))))"

definition conflict_question :: "('a MultiSourceConflict_scheme) \<Rightarrow> string" where
  "conflict_question conflict = ''multi-source conflict '' @ mc_conflictId conflict @ '' requires reviewer attention''"

definition all_conflicts ::
  "reconciliation_host \<Rightarrow> ReconcileMultiSourceIntentInput \<Rightarrow> string list \<Rightarrow> merge_state \<Rightarrow> DetailedConflict list" where
  "all_conflicts h input screenIds st =
     ms_conflicts st @ risk_conflicts h input (extractCandidateRisks (rh_collation h) input) screenIds
       @ acceptance_conflicts h input @ paste_conflicts h input"

definition merged_intent ::
  "reconciliation_host \<Rightarrow> ReconcileMultiSourceIntentInput \<Rightarrow> ReconciledIntent \<Rightarrow> merge_state \<Rightarrow> DetailedConflict list \<Rightarrow> ReconciledIntent" where
  "merged_intent h input base st conflicts =
     (let lc = rh_collation h; risks = extractCandidateRisks lc input; issues = sourced_issues input
      in base\<lparr> mi_detectedFields := sort_by lc if_id (ms_fields st), mi_detectedValidations := sort_by lc iv_id (ms_validations st),
           mi_risks := sortedUnique (mi_risks base @ js_set (map ck_category risks)),
           mi_assumptions := fold (add_assumptions h) issues (mi_assumptions base),
           mi_openQuestions := sortedUnique (fold (add_questions h) issues (mi_openQuestions base)
             @ map conflict_question (filter (\<lambda>c. mc_resolution c \<noteq> Auto_priority) conflicts)),
           mi_multiSourceConflicts := (if conflicts = [] then mi_multiSourceConflicts base
             else Some (sort_by lc mc_conflictId conflicts)) \<rparr>)"

definition reconcileMultiSourceIntent ::
  "reconciliation_host \<Rightarrow> ReconcileMultiSourceIntentInput \<Rightarrow>
   reconciliation_error + ReconciledIntent \<times> MultiSourceReconciliationReport" where
  "reconcileMultiSourceIntent h input =
     (let lc = rh_collation h; envelope = ri_envelope input; base = base_intent lc input
      in case merge_candidates h input (initial_merge (figma_refs input) base) of
           Inl e \<Rightarrow> Inl e
         | Inr merged \<Rightarrow>
             (let conflicts = all_conflicts h input (map sn_screenId (mi_screens base)) merged;
                  st = fold use_source (map ck_sourceId (extractCandidateRisks lc input)) merged;
                  unmatched = js_sort (filter (\<lambda>i. i \<notin> set (ms_usedSourceIds st)) (map sr_sourceId (en_sources envelope)));
                  logged = fold (\<lambda>i. log_decision h [i] ''source_unmatched''
                    (''source '' @ quoted i @ '' contributed no accepted or conflicting elements'') []) unmatched st
              in Inr (merged_intent h input base st conflicts,
                   \<lparr> rr_envelopeHash = en_aggregateContentHash envelope, rr_conflicts = sort_by lc mc_conflictId conflicts,
                     rr_unmatchedSources = unmatched,
                     rr_contributingSourcesPerCase = sort_by lc fst (map (\<lambda>(c, ids). (c, js_sort ids)) (ms_cases st)),
                     rr_policyApplied = en_conflictResolutionPolicy envelope,
                     rr_transcript = sort_by lc te_decisionId (ms_transcript logged) \<rparr>)))"

text \<open>\<^verbatim>\<open>writeMultiSourceReconciliationReport\<close> only writes the report to a file.\<close>

end
