(* ===== verification/ReconciliationProps.thy ===== *)
theory ReconciliationProps
  imports Reconciliation PolicyGateProps
begin

text \<open>
  What the reconciliation guarantees: it never throws, its books balance, no element of the design is
  lost, label disagreements are reported exactly, and the policy gate does not approve an affected
  case. The three loops share one contract, stated as a locale.
\<close>

section \<open>Loops that may throw\<close>

locale merge_loop =
  fixes body :: "'a \<Rightarrow> 's \<Rightarrow> 'e + 's"
    and admissible :: "'a \<Rightarrow> bool"
    and inv :: "'s \<Rightarrow> bool"
    and extends :: "'s \<Rightarrow> 's \<Rightarrow> bool"
  assumes extends_refl: "extends s s"
    and extends_trans: "extends s t \<Longrightarrow> extends t u \<Longrightarrow> extends s u"
    and body_runs: "admissible x \<Longrightarrow> inv s \<Longrightarrow> \<exists>t. body x s = Inr t \<and> inv t \<and> extends s t"
begin

lemma loop_runs: "list_all admissible xs \<Longrightarrow> inv s \<Longrightarrow> \<exists>t. fold_or_throw body xs s = Inr t \<and> inv t \<and> extends s t"
proof (induction xs arbitrary: s)
  case (Cons x xs)
  from body_runs [of x s] Cons.prems obtain t where t: "body x s = Inr t" "inv t" "extends s t" by auto
  from Cons.IH [OF _ t(2)] Cons.prems obtain u where "fold_or_throw body xs t = Inr u" "inv u" "extends t u" by auto
  with t show ?case by (auto intro: extends_trans)
qed (simp add: extends_refl)

end

section \<open>The books\<close>

definition case_sources :: "merge_state \<Rightarrow> string \<Rightarrow> string list" where
  "case_sources st c = (case map_of (ms_cases st) c of None \<Rightarrow> [] | Some ids \<Rightarrow> ids)"

definition contributed :: "merge_state \<Rightarrow> string set" where
  "contributed st = (\<Union>c. set (case_sources st c))"

definition refs_known :: "string list \<Rightarrow> merge_state \<Rightarrow> TestIntentSourceRef list option \<Rightarrow> bool" where
  "refs_known figmaSourceIds st refs \<longleftrightarrow>
     (case refs of None \<Rightarrow> figmaSourceIds = [] | Some rs \<Rightarrow> sr_sourceId ` set rs \<subseteq> set (ms_usedSourceIds st))"

definition books_ok :: "string list \<Rightarrow> merge_state \<Rightarrow> bool" where
  "books_ok figmaSourceIds st \<longleftrightarrow>
     distinct (map fst (ms_cases st)) \<and> contributed st = set (ms_usedSourceIds st)
     \<and> (\<forall>f\<in>set (ms_fields st). refs_known figmaSourceIds st (if_sourceRefs f))
     \<and> (\<forall>v\<in>set (ms_validations st). refs_known figmaSourceIds st (iv_sourceRefs v))"

lemmas step_defs = use_source_def recordContribution_def log_decision_def report_conflict_def put_field_def
  put_validation_def push_field_def push_validation_def

lemma step_simps [simp]:
  "ms_fields (use_source s st) = ms_fields st" "ms_validations (use_source s st) = ms_validations st"
  "ms_cases (use_source s st) = ms_cases st" "ms_conflicts (use_source s st) = ms_conflicts st"
  "set (ms_usedSourceIds (use_source s st)) = insert s (set (ms_usedSourceIds st))"
  "ms_fields (recordContribution c ids st) = ms_fields st" "ms_validations (recordContribution c ids st) = ms_validations st"
  "ms_usedSourceIds (recordContribution c ids st) = ms_usedSourceIds st" "ms_conflicts (recordContribution c ids st) = ms_conflicts st"
  "ms_fields (log_decision h ids a r es st) = ms_fields st" "ms_validations (log_decision h ids a r es st) = ms_validations st"
  "ms_usedSourceIds (log_decision h ids a r es st) = ms_usedSourceIds st" "ms_cases (log_decision h ids a r es st) = ms_cases st"
  "ms_conflicts (log_decision h ids a r es st) = ms_conflicts st"
  "ms_fields (report_conflict k st) = ms_fields st" "ms_validations (report_conflict k st) = ms_validations st"
  "ms_usedSourceIds (report_conflict k st) = ms_usedSourceIds st" "ms_cases (report_conflict k st) = ms_cases st"
  "ms_conflicts (report_conflict k st) = ms_conflicts st @ [k]"
  "ms_fields (put_field n f st) = (ms_fields st)[n := f]" "ms_validations (put_field n f st) = ms_validations st"
  "ms_usedSourceIds (put_field n f st) = ms_usedSourceIds st" "ms_cases (put_field n f st) = ms_cases st"
  "ms_conflicts (put_field n f st) = ms_conflicts st"
  "ms_fields (put_validation n v st) = ms_fields st" "ms_validations (put_validation n v st) = (ms_validations st)[n := v]"
  "ms_usedSourceIds (put_validation n v st) = ms_usedSourceIds st" "ms_cases (put_validation n v st) = ms_cases st"
  "ms_conflicts (put_validation n v st) = ms_conflicts st"
  "ms_fields (push_field f st) = ms_fields st @ [f]" "ms_validations (push_field f st) = ms_validations st"
  "ms_usedSourceIds (push_field f st) = ms_usedSourceIds st" "ms_cases (push_field f st) = ms_cases st"
  "ms_conflicts (push_field f st) = ms_conflicts st"
  "ms_fields (push_validation v st) = ms_fields st" "ms_validations (push_validation v st) = ms_validations st @ [v]"
  "ms_usedSourceIds (push_validation v st) = ms_usedSourceIds st" "ms_cases (push_validation v st) = ms_cases st"
  "ms_conflicts (push_validation v st) = ms_conflicts st"
  by (simp_all add: step_defs)

lemma case_sources_record: "case_sources (recordContribution c ids st) d =
    (if d = c then fold set_add ids (case_sources st c) else case_sources st d)"
  by (simp add: case_sources_def recordContribution_def)

lemma contributed_record [simp]: "contributed (recordContribution c ids st) = contributed st \<union> set ids"
  unfolding contributed_def by (rule set_eqI) (simp add: case_sources_record, metis)

lemma distinct_cases_record: "distinct (map fst (ms_cases st)) \<Longrightarrow> distinct (map fst (ms_cases (recordContribution c ids st)))"
  by (simp add: recordContribution_def distinct_update)

lemma contributed_cong: "ms_cases st' = ms_cases st \<Longrightarrow> contributed st' = contributed st"
  by (simp add: contributed_def case_sources_def)

lemma refs_known_mono:
  "refs_known F st r \<Longrightarrow> set (ms_usedSourceIds st) \<subseteq> set (ms_usedSourceIds st') \<Longrightarrow> refs_known F st' r"
  by (auto simp: refs_known_def split: option.splits)

lemma refs_known_cong: "ms_usedSourceIds st' = ms_usedSourceIds st \<Longrightarrow> refs_known F st' r = refs_known F st r"
  by (cases r) (simp_all add: refs_known_def)

lemma contributed_neutral [simp]:
  "contributed (use_source s st) = contributed st" "contributed (log_decision h ids a r es st) = contributed st"
  "contributed (report_conflict k st) = contributed st" "contributed (put_field n f st) = contributed st"
  "contributed (put_validation n v st) = contributed st" "contributed (push_field f st) = contributed st"
  "contributed (push_validation v st) = contributed st"
  by (rule contributed_cong, simp)+

lemma refs_known_neutral [simp]:
  "refs_known F (recordContribution c ids st) r = refs_known F st r" "refs_known F (log_decision h ids a t es st) r = refs_known F st r"
  "refs_known F (report_conflict k st) r = refs_known F st r" "refs_known F (put_field n f st) r = refs_known F st r"
  "refs_known F (put_validation n v st) r = refs_known F st r" "refs_known F (push_field f st) r = refs_known F st r"
  "refs_known F (push_validation v st) r = refs_known F st r"
  by (rule refs_known_cong, simp)+

text \<open>Every step of the loops keeps the books.\<close>

named_theorems books_intro \<open>steps that keep the books\<close>

lemma books_record [books_intro]:
  "books_ok F st \<Longrightarrow> set ids \<subseteq> set (ms_usedSourceIds st) \<Longrightarrow> books_ok F (recordContribution c ids st)"
  by (auto simp: books_ok_def distinct_cases_record intro: refs_known_mono)

lemma books_enter: "books_ok F st \<Longrightarrow> books_ok F (recordContribution c [i] (use_source i st))"
  by (auto simp: books_ok_def distinct_cases_record intro: refs_known_mono)

lemma books_log [books_intro]: "books_ok F st \<Longrightarrow> books_ok F (log_decision h ids a r es st)"
  by (simp add: books_ok_def)

lemma books_conflict [books_intro]: "books_ok F st \<Longrightarrow> books_ok F (report_conflict k st)"
  by (simp add: books_ok_def)

lemma books_put_field [books_intro]:
  "books_ok F st \<Longrightarrow> refs_known F st (if_sourceRefs f) \<Longrightarrow> books_ok F (put_field n f st)"
  using List.set_update_subset_insert [of "ms_fields st" n f]
  by (auto simp: books_ok_def)

lemma books_put_validation [books_intro]:
  "books_ok F st \<Longrightarrow> refs_known F st (iv_sourceRefs v) \<Longrightarrow> books_ok F (put_validation n v st)"
  using List.set_update_subset_insert [of "ms_validations st" n v]
  by (auto simp: books_ok_def)

lemma books_push_field [books_intro]:
  "books_ok F st \<Longrightarrow> refs_known F st (if_sourceRefs f) \<Longrightarrow> books_ok F (push_field f st)"
  by (auto simp: books_ok_def)

lemma books_push_validation [books_intro]:
  "books_ok F st \<Longrightarrow> refs_known F st (iv_sourceRefs v) \<Longrightarrow> books_ok F (push_validation v st)"
  by (auto simp: books_ok_def)

lemma books_push_alternative_field [books_intro]:
  "books_ok F st \<Longrightarrow> i \<in> set (ms_usedSourceIds st) \<Longrightarrow> pred_option (\<lambda>f. refs_known F st (if_sourceRefs f)) a \<Longrightarrow>
     books_ok F (push_alternative_field i a st)"
  by (auto simp: push_alternative_field_def intro!: books_intro split: option.split)

lemma books_push_alternative_validation [books_intro]:
  "books_ok F st \<Longrightarrow> i \<in> set (ms_usedSourceIds st) \<Longrightarrow> pred_option (\<lambda>v. refs_known F st (iv_sourceRefs v)) a \<Longrightarrow>
     books_ok F (push_alternative_validation i a st)"
  by (auto simp: push_alternative_validation_def intro!: books_intro split: option.split)

section \<open>References of merged elements\<close>

lemma merged_refs: "set (mergeSourceRefs lc base extra) \<subseteq> set (case base of None \<Rightarrow> [] | Some rs \<Rightarrow> rs) \<union> set extra"
proof -
  have "snd ` set (fold (\<lambda>r. AList.update (sr_sourceId r) r) rs al) \<subseteq> set rs \<union> snd ` set al" for rs al
  proof (induction rs arbitrary: al)
    case (Cons r rs)
    have "snd ` set (AList.update (sr_sourceId r) r al) \<subseteq> insert r (snd ` set al)"
      using set_update_subset [of "sr_sourceId r" r al] by force
    then show ?case using Cons [of "AList.update (sr_sourceId r) r al"] unfolding fold_simps list.set by blast
  qed simp
  from this [of "(case base of None \<Rightarrow> [] | Some rs \<Rightarrow> rs) @ extra" "[]"] show ?thesis
    by (simp add: mergeSourceRefs_def)
qed

lemma known_merge:
  "refs_known F st base \<Longrightarrow> sr_sourceId ref \<in> set (ms_usedSourceIds st) \<Longrightarrow>
     refs_known F st (Some (mergeSourceRefs lc base [ref]))"
  using merged_refs [of lc base "[ref]"] by (fastforce simp: refs_known_def split: option.splits)

lemma known_single: "sr_sourceId ref \<in> set (ms_usedSourceIds st) \<Longrightarrow> refs_known F st (Some [ref])"
  by (simp add: refs_known_def)

lemma sources_of_refs [simp]:
  "if_sourceRefs (field_refs refs f) = Some refs" "iv_sourceRefs (validation_refs refs v) = Some refs"
  "if_sourceRefs (merge_field_ref lc ref f) = Some (mergeSourceRefs lc (if_sourceRefs f) [ref])"
  "iv_sourceRefs (merge_validation_ref lc ref v) = Some (mergeSourceRefs lc (iv_sourceRefs v) [ref])"
  by (simp_all add: field_refs_def validation_refs_def merge_field_ref_def merge_validation_ref_def)

lemma known_field_policy:
  assumes "refs_known F st (if_sourceRefs f)" "sr_sourceId ref \<in> set (ms_usedSourceIds st)"
  shows "refs_known F st (if_sourceRefs (apply_field_policy lc env ref t a b f))"
  using assms known_merge [OF assms] known_single [OF assms(2)] by (simp add: apply_field_policy_def Let_def)

lemma known_validation_policy:
  assumes "refs_known F st (iv_sourceRefs v)" "sr_sourceId ref \<in> set (ms_usedSourceIds st)"
  shows "refs_known F st (iv_sourceRefs (applyValidationConflictPolicy lc env ref c v))"
  using assms known_merge [OF assms] known_single [OF assms(2)] by (simp add: applyValidationConflictPolicy_def Let_def)

lemma participants_known:
  "refs_known F st refs \<Longrightarrow> i \<in> set (ms_usedSourceIds st) \<Longrightarrow> set (participants refs F i) \<subseteq> set (ms_usedSourceIds st)"
  by (auto simp: refs_known_def participants_def split: option.splits)

section \<open>Elements are kept\<close>

text \<open>
  What the merge leaves of an element of the design: everything but its provenance, references and
  notes; its label, its example and its rule only change under the policy \<^verbatim>\<open>priority\<close>, and an example
  is filled in where there was none.
\<close>

definition keeps_field :: "string \<Rightarrow> IntentField \<Rightarrow> IntentField \<Rightarrow> bool" where
  "keeps_field policy f g \<longleftrightarrow>
     if_id g = if_id f \<and> if_screenId g = if_screenId f \<and> if_type g = if_type f \<and> if_confidence g = if_confidence f
     \<and> if_labelSource g = if_labelSource f \<and> if_labelConfidence g = if_labelConfidence f \<and> if_clusterId g = if_clusterId f
     \<and> (if policy = ''priority'' then True
        else if_label g = if_label f \<and> (default_text f = [] \<or> default_text g = default_text f))"

definition keeps_validation :: "string \<Rightarrow> IntentValidation \<Rightarrow> IntentValidation \<Rightarrow> bool" where
  "keeps_validation policy v w \<longleftrightarrow>
     iv_id w = iv_id v \<and> iv_screenId w = iv_screenId v \<and> iv_confidence w = iv_confidence v \<and> iv_targetFieldId w = iv_targetFieldId v
     \<and> (if policy = ''priority'' then True else iv_rule w = iv_rule v)"

definition prefix_kept :: "('a \<Rightarrow> 'a \<Rightarrow> bool) \<Rightarrow> 'a list \<Rightarrow> 'a list \<Rightarrow> bool" where
  "prefix_kept K xs ys \<longleftrightarrow> length xs \<le> length ys \<and> (\<forall>n<length xs. K (xs ! n) (ys ! n))"

definition elements_kept :: "string \<Rightarrow> merge_state \<Rightarrow> merge_state \<Rightarrow> bool" where
  "elements_kept policy st st' \<longleftrightarrow>
     prefix_kept (keeps_field policy) (ms_fields st) (ms_fields st')
     \<and> prefix_kept (keeps_validation policy) (ms_validations st) (ms_validations st')"

lemma keeps_field_refl [simp]: "keeps_field p f f"
  by (simp add: keeps_field_def)

lemma keeps_field_trans: "keeps_field p f g \<Longrightarrow> keeps_field p g h \<Longrightarrow> keeps_field p f h"
  by (auto simp: keeps_field_def split: if_splits)

lemma keeps_validation_refl [simp]: "keeps_validation p v v"
  by (simp add: keeps_validation_def)

lemma keeps_validation_trans: "keeps_validation p u v \<Longrightarrow> keeps_validation p v w \<Longrightarrow> keeps_validation p u w"
  by (auto simp: keeps_validation_def split: if_splits)

lemma prefix_kept_trans:
  "(\<And>a b c. K a b \<Longrightarrow> K b c \<Longrightarrow> K a c) \<Longrightarrow> prefix_kept K xs ys \<Longrightarrow> prefix_kept K ys zs \<Longrightarrow> prefix_kept K xs zs"
  unfolding prefix_kept_def by (meson less_le_trans order_trans)

lemma prefix_kept_update: "(\<And>a. K a a) \<Longrightarrow> K (xs ! n) x \<Longrightarrow> prefix_kept K xs (xs[n := x])"
  by (simp add: prefix_kept_def) (metis nth_list_update_eq nth_list_update_neq)

lemma prefix_kept_append: "(\<And>a. K a a) \<Longrightarrow> prefix_kept K xs (xs @ ys)"
  by (auto simp: prefix_kept_def nth_append)

lemma elements_kept_refl: "elements_kept p st st"
  by (simp add: elements_kept_def prefix_kept_def)

lemma elements_kept_trans: "elements_kept p s t \<Longrightarrow> elements_kept p t u \<Longrightarrow> elements_kept p s u"
  unfolding elements_kept_def by (blast intro: prefix_kept_trans keeps_field_trans keeps_validation_trans)

lemma kept_neutral [simp]:
  "elements_kept p st (recordContribution c ids st') = elements_kept p st st'"
  "elements_kept p st (use_source i st') = elements_kept p st st'"
  "elements_kept p st (log_decision h ids a r es st') = elements_kept p st st'"
  "elements_kept p st (report_conflict k st') = elements_kept p st st'"
  by (simp_all add: elements_kept_def)

lemma kept_put_field: "keeps_field p (ms_fields st ! n) f \<Longrightarrow> elements_kept p st (put_field n f st)"
  by (simp add: elements_kept_def prefix_kept_update) (simp add: prefix_kept_def)

lemma kept_put_validation: "keeps_validation p (ms_validations st ! n) v \<Longrightarrow> elements_kept p st (put_validation n v st)"
  by (simp add: elements_kept_def prefix_kept_update) (simp add: prefix_kept_def)

lemma kept_push_field: "elements_kept p st (push_field f st)"
  by (simp add: elements_kept_def prefix_kept_append) (simp add: prefix_kept_def)

lemma kept_push_validation: "elements_kept p st (push_validation v st)"
  by (simp add: elements_kept_def prefix_kept_append) (simp add: prefix_kept_def)

lemma kept_push_alternative: "elements_kept p st (push_alternative_field i a st)" "elements_kept p st (push_alternative_validation i b st)"
  by (auto simp: push_alternative_field_def push_alternative_validation_def elements_kept_refl kept_push_field kept_push_validation
      split: option.split)

lemma keeps_refs [simp]: "keeps_field p f (field_refs refs g) = keeps_field p f g" "keeps_field p f (merge_field_ref lc ref g) = keeps_field p f g"
  "keeps_validation p v (validation_refs refs w) = keeps_validation p v w"
  "keeps_validation p v (merge_validation_ref lc ref w) = keeps_validation p v w"
  by (simp_all add: keeps_field_def keeps_validation_def field_refs_def validation_refs_def merge_field_ref_def merge_validation_ref_def
      default_text_def)

lemma keeps_field_policy:
  assumes "en_conflictResolutionPolicy env = ''priority'' \<Longrightarrow> keeps_field ''priority'' f (take_over f)"
  shows "keeps_field (en_conflictResolutionPolicy env) f (apply_field_policy lc env ref take_over a b f)"
  using assms by (auto simp: apply_field_policy_def Let_def keeps_field_def default_text_def field_refs_def merge_field_ref_def)

lemma keeps_label_policy: "keeps_field (en_conflictResolutionPolicy env) f (applyFieldConflictPolicy lc env ref c f)"
  unfolding applyFieldConflictPolicy_def by (rule keeps_field_policy) (simp add: keeps_field_def)

lemma keeps_example_policy: "keeps_field (en_conflictResolutionPolicy env) f (applyExampleConflictPolicy lc env ref c f)"
  unfolding applyExampleConflictPolicy_def by (rule keeps_field_policy) (simp add: keeps_field_def)

lemma keeps_validation_policy: "keeps_validation (en_conflictResolutionPolicy env) v (applyValidationConflictPolicy lc env ref c v)"
  by (simp add: applyValidationConflictPolicy_def Let_def keeps_validation_def validation_refs_def merge_validation_ref_def)

section \<open>The steps\<close>

text \<open>A step under the source \<open>i\<close>: the books stay balanced, \<open>i\<close> stays known and the elements are kept.\<close>

definition step_ok :: "string list \<Rightarrow> string \<Rightarrow> string \<Rightarrow> merge_state \<Rightarrow> merge_state \<Rightarrow> bool" where
  "step_ok F policy i st st' \<longleftrightarrow>
     (books_ok F st \<and> i \<in> set (ms_usedSourceIds st) \<longrightarrow>
        books_ok F st' \<and> i \<in> set (ms_usedSourceIds st') \<and> elements_kept policy st st')"

lemma step_ok_trans: "step_ok F p i s t \<Longrightarrow> step_ok F p i t u \<Longrightarrow> step_ok F p i s u"
  unfolding step_ok_def by (blast intro: elements_kept_trans)

lemma step_ok_refl: "step_ok F p i s s"
  by (simp add: step_ok_def elements_kept_refl)

lemma used_push_alternative [simp]:
  "ms_usedSourceIds (push_alternative_field i a st) = ms_usedSourceIds st"
  "ms_usedSourceIds (push_alternative_validation i b st) = ms_usedSourceIds st"
  by (simp_all add: push_alternative_field_def push_alternative_validation_def split: option.split)

lemma known_alternative:
  "sr_sourceId ref \<in> set (ms_usedSourceIds st) \<Longrightarrow> refs_known F st (if_sourceRefs (buildAlternativeField ref c r f))"
  "sr_sourceId ref \<in> set (ms_usedSourceIds st) \<Longrightarrow> refs_known F st (iv_sourceRefs (buildAlternativeValidation ref d r v))"
  by (simp_all add: buildAlternativeField_def buildAlternativeValidation_def known_single)

lemmas step_books = books_log books_push_alternative_field books_push_alternative_validation books_put_field books_put_validation
  books_conflict books_record participants_known known_field_policy known_validation_policy known_merge known_alternative

text \<open>The conflict branch of a field, for labels and examples.\<close>

lemma conflict_branch_ok:
  assumes "books_ok F st" "i \<in> set (ms_usedSourceIds st)" "sr_sourceId ref = i" "n < length (ms_fields st)"
    and "refs_known F st (if_sourceRefs g)" "keeps_field p (ms_fields st ! n) g"
    and "ids = participants (if_sourceRefs (ms_fields st ! n)) F i"
  shows "step_ok F p i st (log_decision h ids a r es (push_alternative_field i
     (if b then Some (buildAlternativeField ref c q g) else None) (put_field n g (report_conflict k (recordContribution cs ids st)))))"
proof -
  have "refs_known F st (if_sourceRefs (ms_fields st ! n))" using assms(1,4) by (simp add: books_ok_def)
  then have ids: "set ids \<subseteq> set (ms_usedSourceIds st)" using participants_known assms(2,7) by blast
  let ?s = "put_field n g (report_conflict k (recordContribution cs ids st))"
  have "books_ok F ?s" using assms ids by (simp add: books_intro)
  then have "books_ok F (push_alternative_field i (if b then Some (buildAlternativeField ref c q g) else None) ?s)"
    using assms(2,3) by (intro books_push_alternative_field) (simp_all add: known_alternative)
  moreover have "elements_kept p st ?s"
    using kept_put_field [of p st n g] assms(6) by (simp add: elements_kept_def)
  ultimately show ?thesis using assms(2) elements_kept_trans [OF _ kept_push_alternative(1)]
    by (simp add: step_ok_def books_log)
qed

text \<open>The branches that only merge references.\<close>

lemma merge_branch_ok:
  assumes "books_ok F st" "i \<in> set (ms_usedSourceIds st)" "sr_sourceId ref = i" "n < length (ms_fields st)"
    and "if_sourceRefs g = if_sourceRefs (ms_fields st ! n)" "keeps_field p (ms_fields st ! n) g"
    and "ids = participants (if_sourceRefs (ms_fields st ! n)) F i"
  shows "step_ok F p i st (log_decision h ids a r es (put_field n (merge_field_ref lc ref g) (recordContribution cs ids st)))"
proof -
  have known: "refs_known F st (if_sourceRefs (ms_fields st ! n))" using assms(1,4) by (simp add: books_ok_def)
  then have "set ids \<subseteq> set (ms_usedSourceIds st)" using participants_known assms(2,7) by blast
  moreover have "refs_known F st (Some (mergeSourceRefs lc (if_sourceRefs (ms_fields st ! n)) [ref]))"
    using known_merge known assms(2,3) by simp
  moreover have "elements_kept p st (put_field n (merge_field_ref lc ref g) (recordContribution cs ids st))"
    using kept_put_field [of p "recordContribution cs ids st" n "merge_field_ref lc ref g"] assms(6)
    by (simp add: elements_kept_def)
  ultimately show ?thesis using assms(1,2,5) by (simp add: step_ok_def books_intro)
qed

lemma field_at: "books_ok F st \<Longrightarrow> n < length (ms_fields st) \<Longrightarrow> refs_known F st (if_sourceRefs (ms_fields st ! n))"
  by (simp add: books_ok_def)

lemma validation_at: "books_ok F st \<Longrightarrow> n < length (ms_validations st) \<Longrightarrow> refs_known F st (iv_sourceRefs (ms_validations st ! n))"
  by (simp add: books_ok_def)

lemma step_ok_if: "(b \<Longrightarrow> step_ok F p i s x) \<Longrightarrow> (\<not> b \<Longrightarrow> step_ok F p i s y) \<Longrightarrow> step_ok F p i s (if b then x else y)"
  by simp

lemma match_field_ok:
  assumes "books_ok F st" "cf_sourceId c \<in> set (ms_usedSourceIds st)" "sr_sourceId ref = cf_sourceId c" "n < length (ms_fields st)"
  shows "step_ok F (en_conflictResolutionPolicy env) (cf_sourceId c) st (match_field h env F ref c n st)"
proof -
  have "refs_known F st (if_sourceRefs (applyFieldConflictPolicy (rh_collation h) env ref c (ms_fields st ! n)))"
    unfolding applyFieldConflictPolicy_def using field_at [OF assms(1,4)] assms(2,3) by (simp add: known_field_policy)
  then show ?thesis unfolding match_field_def Let_def
    by (intro step_ok_if conflict_branch_ok merge_branch_ok keeps_label_policy) (simp_all add: assms)
qed

lemma match_example_ok:
  assumes "books_ok F st" "ct_sourceId c \<in> set (ms_usedSourceIds st)" "sr_sourceId ref = ct_sourceId c" "n < length (ms_fields st)"
  shows "step_ok F (en_conflictResolutionPolicy env) (ct_sourceId c) st (match_example h env F ref c n st)"
proof -
  have "refs_known F st (if_sourceRefs (applyExampleConflictPolicy (rh_collation h) env ref c (ms_fields st ! n)))"
    unfolding applyExampleConflictPolicy_def using field_at [OF assms(1,4)] assms(2,3) by (simp add: known_field_policy)
  moreover have "keeps_field p f (f\<lparr> if_defaultValue := Some t \<rparr>)" if "default_text f = []" for p f t
    using that by (simp add: keeps_field_def)
  ultimately show ?thesis unfolding match_example_def Let_def
    by (intro step_ok_if conflict_branch_ok merge_branch_ok keeps_example_policy) (simp_all add: assms)
qed

lemma match_validation_ok:
  assumes "books_ok F st" "cv_sourceId c \<in> set (ms_usedSourceIds st)" "sr_sourceId ref = cv_sourceId c" "n < length (ms_validations st)"
  shows "step_ok F (en_conflictResolutionPolicy env) (cv_sourceId c) st (match_validation h env F ref c n st)"
proof -
  let ?v = "ms_validations st ! n" and ?p = "en_conflictResolutionPolicy env"
  let ?g = "applyValidationConflictPolicy (rh_collation h) env ref c ?v"
  note known = validation_at [OF assms(1,4)]
  have policy: "refs_known F st (iv_sourceRefs ?g)" using known assms(2,3) by (simp add: known_validation_policy)
  have merged: "refs_known F st (Some (mergeSourceRefs lc (iv_sourceRefs ?v) [ref]))" for lc
    using known_merge known assms(2,3) by simp
  define s where "s k = put_validation n ?g (report_conflict k st)" for k
  have "elements_kept ?p st (s k)" for k
    using kept_put_validation [of ?p "report_conflict k st" n ?g] keeps_validation_policy by (simp add: elements_kept_def s_def)
  then have "elements_kept ?p st (push_alternative_validation i a (s k))" for i a k
    using elements_kept_trans kept_push_alternative(2) by blast
  moreover have "elements_kept ?p st (put_validation n (merge_validation_ref lc ref ?v) st)" for lc
    by (rule kept_put_validation) simp
  moreover have "books_ok F (s k)" for k
    using assms(1) policy by (simp add: books_intro s_def)
  then have "books_ok F (push_alternative_validation (cv_sourceId c)
      (if b then Some (buildAlternativeValidation ref c q ?g) else None) (s k))" for b q k
    using assms(2,3) by (intro books_push_alternative_validation) (simp_all add: known_alternative s_def)
  moreover have "books_ok F (put_validation n (merge_validation_ref lc ref ?v) st)" for lc
    using assms(1) merged by (simp add: books_intro)
  ultimately show ?thesis unfolding match_validation_def Let_def
    by (intro step_ok_if) (simp_all add: step_ok_def books_log assms(2) flip: s_def, simp_all add: s_def assms(2))
qed

section \<open>The loops\<close>

lemma kept_lengths:
  "elements_kept p st st' \<Longrightarrow> length (ms_fields st) \<le> length (ms_fields st') \<and> length (ms_validations st) \<le> length (ms_validations st')"
  by (simp add: elements_kept_def prefix_kept_def)

text \<open>The loop over the matches of one candidate.\<close>

lemma fold_matches:
  assumes "books_ok F st" "i \<in> set (ms_usedSourceIds st)"
    and "\<And>n s. n \<in> set ns \<Longrightarrow> books_ok F s \<Longrightarrow> i \<in> set (ms_usedSourceIds s) \<Longrightarrow> elements_kept p st s \<Longrightarrow> step_ok F p i s (f n s)"
  shows "step_ok F p i st (fold f ns st)"
  using assms(3)
proof (induction ns rule: rev_induct)
  case (snoc n ns)
  then have "step_ok F p i st (fold f ns st)" by simp
  moreover from this have "step_ok F p i (fold f ns st) (f n (fold f ns st))"
    using assms(1,2) snoc.prems [of n] unfolding step_ok_def by simp
  ultimately show ?case by (simp add: step_ok_trans)
qed (simp add: step_ok_refl)

lemma sourceRef_known:
  "i \<in> sr_sourceId ` set (en_sources env) \<Longrightarrow> \<exists>ref. sourceRefForId env i = Inr ref \<and> sr_sourceId ref = i"
  by (cases "find (\<lambda>r. sr_sourceId r = i) (en_sources env)")
     (auto simp: sourceRefForId_def find_None_iff dest: find_mem)

lemma position_bound: "n \<in> set (positions keys k) \<Longrightarrow> n < length keys"
  by (simp add: positions_def)

text \<open>Entering the source of a candidate into the books.\<close>

lemma entered:
  assumes "books_ok F st"
  shows "books_ok F (recordContribution c [i] (use_source i st))"
    "i \<in> set (ms_usedSourceIds (recordContribution c [i] (use_source i st)))"
    "elements_kept p (recordContribution c [i] (use_source i st)) s = elements_kept p st s"
  using books_enter [OF assms] by (simp_all add: elements_kept_def)

definition of_envelope :: "MultiSourceTestIntentEnvelope \<Rightarrow> string \<Rightarrow> bool" where
  "of_envelope env i \<longleftrightarrow> i \<in> sr_sourceId ` set (en_sources env)"

interpretation field_loop: merge_loop "field_step h env F keys" "\<lambda>c. of_envelope env (cf_sourceId c)"
  "\<lambda>st. books_ok F st \<and> length keys \<le> length (ms_fields st)" "elements_kept (en_conflictResolutionPolicy env)"
  for h env F keys
proof
  fix c :: CandidateField and st :: merge_state
  let ?p = "en_conflictResolutionPolicy env" and ?s = "recordContribution (cf_caseId c) [cf_sourceId c] (use_source (cf_sourceId c) st)"
  assume c: "of_envelope env (cf_sourceId c)" and st: "books_ok F st \<and> length keys \<le> length (ms_fields st)"
  note s = entered [OF conjunct1 [OF st], where c = "cf_caseId c" and i = "cf_sourceId c"]
  obtain ref where ref: "sourceRefForId env (cf_sourceId c) = Inr ref" "sr_sourceId ref = cf_sourceId c"
    using sourceRef_known c unfolding of_envelope_def by blast
  have "step_ok F ?p (cf_sourceId c) ?s (accept_field h ref c ?s)"
    using s ref(2) kept_push_field by (simp add: step_ok_def accept_field_def accepted_field_def books_intro known_single)
  moreover have "step_ok F ?p (cf_sourceId c) ?s (fold (match_field h env F ref c) (positions keys (cf_semanticKey c)) ?s)"
  proof (rule fold_matches [OF s(1,2)])
    fix n t
    assume "n \<in> set (positions keys (cf_semanticKey c))" "elements_kept ?p ?s t"
    then have "n < length (ms_fields t)" using position_bound kept_lengths st unfolding s(3) by (meson le_trans less_le_trans)
    moreover assume "books_ok F t" "cf_sourceId c \<in> set (ms_usedSourceIds t)"
    ultimately show "step_ok F ?p (cf_sourceId c) t (match_field h env F ref c n t)" using match_field_ok ref(2) by simp
  qed
  ultimately have "\<exists>t. field_step h env F keys c st = Inr t \<and> step_ok F ?p (cf_sourceId c) ?s t"
    by (simp add: field_step_def ref(1) Let_def)
  then show "\<exists>t. field_step h env F keys c st = Inr t \<and> (books_ok F t \<and> length keys \<le> length (ms_fields t)) \<and> elements_kept ?p st t"
    using s st unfolding step_ok_def by (meson kept_lengths le_trans)
qed (blast intro: elements_kept_refl elements_kept_trans)+

interpretation validation_loop: merge_loop "validation_step h env F keys" "\<lambda>c. of_envelope env (cv_sourceId c)"
  "\<lambda>st. books_ok F st \<and> length keys \<le> length (ms_validations st)" "elements_kept (en_conflictResolutionPolicy env)"
  for h env F keys
proof
  fix c :: CandidateValidation and st :: merge_state
  let ?p = "en_conflictResolutionPolicy env" and ?s = "recordContribution (cv_caseId c) [cv_sourceId c] (use_source (cv_sourceId c) st)"
  assume c: "of_envelope env (cv_sourceId c)" and st: "books_ok F st \<and> length keys \<le> length (ms_validations st)"
  note s = entered [OF conjunct1 [OF st], where c = "cv_caseId c" and i = "cv_sourceId c"]
  obtain ref where ref: "sourceRefForId env (cv_sourceId c) = Inr ref" "sr_sourceId ref = cv_sourceId c"
    using sourceRef_known c unfolding of_envelope_def by blast
  have "step_ok F ?p (cv_sourceId c) ?s (accept_validation h ref c ?s)"
    using s ref(2) kept_push_validation
    by (simp add: step_ok_def accept_validation_def accepted_validation_def books_intro known_single Let_def)
  moreover have "step_ok F ?p (cv_sourceId c) ?s (fold (match_validation h env F ref c) (positions keys (cv_semanticKey c)) ?s)"
  proof (rule fold_matches [OF s(1,2)])
    fix n t
    assume "n \<in> set (positions keys (cv_semanticKey c))" "elements_kept ?p ?s t"
    then have "n < length (ms_validations t)" using position_bound kept_lengths st unfolding s(3) by (meson le_trans less_le_trans)
    moreover assume "books_ok F t" "cv_sourceId c \<in> set (ms_usedSourceIds t)"
    ultimately show "step_ok F ?p (cv_sourceId c) t (match_validation h env F ref c n t)" using match_validation_ok ref(2) by simp
  qed
  ultimately have "\<exists>t. validation_step h env F keys c st = Inr t \<and> step_ok F ?p (cv_sourceId c) ?s t"
    by (simp add: validation_step_def ref(1) Let_def)
  then show "\<exists>t. validation_step h env F keys c st = Inr t \<and> (books_ok F t \<and> length keys \<le> length (ms_validations t)) \<and> elements_kept ?p st t"
    using s st unfolding step_ok_def by (meson kept_lengths le_trans)
qed (blast intro: elements_kept_refl elements_kept_trans)+

interpretation example_loop: merge_loop "example_step h env F" "\<lambda>c. of_envelope env (ct_sourceId c)"
  "books_ok F" "elements_kept (en_conflictResolutionPolicy env)"
  for h env F
proof
  fix c :: CandidateTestDataExample and st :: merge_state
  let ?p = "en_conflictResolutionPolicy env" and ?s = "recordContribution (ct_caseId c) [ct_sourceId c] (use_source (ct_sourceId c) st)"
  let ?ns = "positions (map (semanticKeyForLabel \<circ> if_label) (ms_fields st)) (ct_semanticKey c)"
  assume c: "of_envelope env (ct_sourceId c)" and st: "books_ok F st"
  note s = entered [OF st, where c = "ct_caseId c" and i = "ct_sourceId c"]
  obtain ref where ref: "sourceRefForId env (ct_sourceId c) = Inr ref" "sr_sourceId ref = ct_sourceId c"
    using sourceRef_known c unfolding of_envelope_def by blast
  have "step_ok F ?p (ct_sourceId c) ?s (fold (match_example h env F ref c) ?ns ?s)"
  proof (rule fold_matches [OF s(1,2)])
    fix n t
    assume n: "n \<in> set ?ns" and kept: "elements_kept ?p ?s t"
    then have "n < length (ms_fields t)" using position_bound [OF n] kept_lengths [of ?p st t] unfolding s(3) by simp
    moreover assume "books_ok F t" "ct_sourceId c \<in> set (ms_usedSourceIds t)"
    ultimately show "step_ok F ?p (ct_sourceId c) t (match_example h env F ref c n t)" using match_example_ok ref(2) by simp
  qed
  then have "\<exists>t. example_step h env F c st = Inr t \<and> step_ok F ?p (ct_sourceId c) ?s t"
    by (auto simp: example_step_def ref(1) Let_def step_ok_refl)
  then show "\<exists>t. example_step h env F c st = Inr t \<and> books_ok F t \<and> elements_kept ?p st t"
    using s unfolding step_ok_def by meson
qed (blast intro: elements_kept_refl elements_kept_trans)+

section \<open>Before the loops\<close>

lemma account_effect:
  "set (ms_usedSourceIds (account_for c r st)) = set (ms_usedSourceIds st) \<union> set (ids_of r)"
  "contributed (account_for c r st) = contributed st \<union> set (ids_of r)"
  "ms_fields (account_for c r st) = ms_fields st" "ms_validations (account_for c r st) = ms_validations st"
  "distinct (map fst (ms_cases st)) \<Longrightarrow> distinct (map fst (ms_cases (account_for c r st)))"
proof -
  have "set (ms_usedSourceIds (fold use_source ids st)) = set (ms_usedSourceIds st) \<union> set ids
      \<and> contributed (fold use_source ids st) = contributed st \<and> ms_fields (fold use_source ids st) = ms_fields st
      \<and> ms_validations (fold use_source ids st) = ms_validations st \<and> ms_cases (fold use_source ids st) = ms_cases st" for ids
    by (induction ids arbitrary: st) auto
  then show "set (ms_usedSourceIds (account_for c r st)) = set (ms_usedSourceIds st) \<union> set (ids_of r)"
    "contributed (account_for c r st) = contributed st \<union> set (ids_of r)"
    "ms_fields (account_for c r st) = ms_fields st" "ms_validations (account_for c r st) = ms_validations st"
    "distinct (map fst (ms_cases st)) \<Longrightarrow> distinct (map fst (ms_cases (account_for c r st)))"
    by (simp_all add: account_for_def distinct_cases_record)
qed

lemma fold_account:
  fixes st :: merge_state and c :: "'a \<Rightarrow> string" and r :: "'a \<Rightarrow> TestIntentSourceRef list option" and xs :: "'a list"
  defines "st' \<equiv> fold (\<lambda>x. account_for (c x) (r x)) xs st"
  assumes "distinct (map fst (ms_cases st))" "contributed st = set (ms_usedSourceIds st)"
  shows "distinct (map fst (ms_cases st')) \<and> contributed st' = set (ms_usedSourceIds st')
    \<and> set (ms_usedSourceIds st') = set (ms_usedSourceIds st) \<union> (\<Union>x\<in>set xs. set (ids_of (r x)))
    \<and> ms_fields st' = ms_fields st \<and> ms_validations st' = ms_validations st"
  using assms(2,3) unfolding st'_def
proof (induction xs arbitrary: st)
  case (Cons x xs)
  have "contributed (account_for (c x) (r x) st) = set (ms_usedSourceIds (account_for (c x) (r x) st))"
    using Cons.prems by (simp add: account_effect)
  from Cons.IH [OF account_effect(5) [OF Cons.prems(1)] this] show ?case
    by (simp add: account_effect Un_assoc)
qed simp

lemma adopted_refs:
  "(case if_sourceRefs (adopt_field refs f) of None \<Rightarrow> refs = [] | Some rs \<Rightarrow> True)"
  "(case iv_sourceRefs (adopt_validation refs v) of None \<Rightarrow> refs = [] | Some rs \<Rightarrow> True)"
  by (simp_all add: adopt_field_def adopt_validation_def adopted_def Let_def split: option.split)

lemma refs_known_ids:
  "(case r of None \<Rightarrow> refs = [] | Some rs \<Rightarrow> True) \<Longrightarrow> set (ids_of r) \<subseteq> set (ms_usedSourceIds st) \<Longrightarrow>
     refs_known (map sr_sourceId refs) st r"
  by (cases r) (auto simp: refs_known_def ids_of_def)

lemma initial_merge_facts:
  "books_ok (map sr_sourceId refs) (initial_merge refs base)"
  "ms_fields (initial_merge refs base) = map (adopt_field refs) (mi_detectedFields base)"
  "ms_validations (initial_merge refs base) = map (adopt_validation refs) (mi_detectedValidations base)"
proof -
  let ?fs = "map (adopt_field refs) (mi_detectedFields base)" and ?vs = "map (adopt_validation refs) (mi_detectedValidations base)"
  let ?s0 = "\<lparr> ms_fields = ?fs, ms_validations = ?vs, ms_usedSourceIds = [], ms_conflicts = [], ms_transcript = [], ms_cases = [] \<rparr>"
  let ?s1 = "fold (\<lambda>f. account_for (field_case f) (if_sourceRefs f)) ?fs ?s0"
  have s0: "distinct (map fst (ms_cases ?s0))" "contributed ?s0 = set (ms_usedSourceIds ?s0)"
    by (simp_all add: contributed_def case_sources_def)
  note s1 = fold_account [OF s0, where c = field_case and r = if_sourceRefs and xs = ?fs]
  note s2 = fold_account [OF conjunct1 [OF s1] conjunct1 [OF conjunct2 [OF s1]], where c = validation_case and r = iv_sourceRefs and xs = ?vs]
  have eq: "initial_merge refs base = fold (\<lambda>v. account_for (validation_case v) (iv_sourceRefs v)) ?vs ?s1"
    by (simp only: initial_merge_def Let_def)
  show "ms_fields (initial_merge refs base) = ?fs" "ms_validations (initial_merge refs base) = ?vs"
    using s1 s2 unfolding eq by simp_all
  have used: "set (ms_usedSourceIds (initial_merge refs base)) = (\<Union>f\<in>set ?fs. set (ids_of (if_sourceRefs f))) \<union> (\<Union>v\<in>set ?vs. set (ids_of (iv_sourceRefs v)))"
    using s1 s2 unfolding eq by simp
  have "refs_known (map sr_sourceId refs) (initial_merge refs base) (if_sourceRefs f)" if "f \<in> set ?fs" for f
    using that adopted_refs(1) by (intro refs_known_ids) (auto simp: used)
  moreover have "refs_known (map sr_sourceId refs) (initial_merge refs base) (iv_sourceRefs v)" if "v \<in> set ?vs" for v
    using that adopted_refs(2) by (intro refs_known_ids) (auto simp: used)
  ultimately show "books_ok (map sr_sourceId refs) (initial_merge refs base)"
    using s1 s2 unfolding books_ok_def eq by simp
qed

section \<open>Candidates come from the envelope\<close>

lemma keep_first_by_subset: "set (keep_first_by k xs) \<subseteq> set xs"
proof -
  have "set (foldl (\<lambda>acc x. if k x \<in> set (map k acc) then acc else acc @ [x]) acc xs) \<subseteq> set acc \<union> set xs" for acc
  proof (induction xs arbitrary: acc)
    case (Cons x xs)
    then show ?case using Cons [of acc] Cons [of "acc @ [x]"] by auto
  qed simp
  from this [of "[]"] show ?thesis by (simp add: keep_first_by_def)
qed

lemma deduped:
  "x \<in> set (dedupeCandidateFields lc xs) \<Longrightarrow> x \<in> set xs"
  "y \<in> set (dedupeCandidateValidations lc ys) \<Longrightarrow> y \<in> set ys"
  "z \<in> set (dedupeCandidateTestDataExamples lc zs) \<Longrightarrow> z \<in> set zs"
  using keep_first_by_subset by (fastforce simp: dedupeCandidateFields_def dedupeCandidateValidations_def
      dedupeCandidateTestDataExamples_def sort_by2_def)+

lemma map_filter_member: "y \<in> set (List.map_filter f xs) \<longleftrightarrow> (\<exists>x\<in>set xs. f x = Some y)"
  by (induction xs) (auto simp: List.map_filter_simps split: option.split)

lemma sourced_issue_known: "(issue, i) \<in> set (sourced_issues input) \<Longrightarrow> of_envelope (ri_envelope input) i"
  by (auto simp: sourced_issues_def map_filter_member jira_refs_def of_envelope_def dest!: find_mem)

lemma candidates_known:
  "list_all (\<lambda>c. of_envelope (ri_envelope input) (cf_sourceId c)) (field_candidates lc input)"
  "list_all (\<lambda>c. of_envelope (ri_envelope input) (cv_sourceId c)) (validation_candidates lc input)"
  "list_all (\<lambda>c. of_envelope (ri_envelope input) (ct_sourceId c)) (example_candidates lc input)"
proof -
  have "cf_sourceId c = i" if "c \<in> set (extractJiraFieldCandidates lc issue i labels)" for c issue i labels
    using deduped(1) [OF that [unfolded extractJiraFieldCandidates_def]] by (auto simp: field_candidate_def)
  then show "list_all (\<lambda>c. of_envelope (ri_envelope input) (cf_sourceId c)) (field_candidates lc input)"
    using sourced_issue_known by (fastforce simp: list_all_iff field_candidates_def)
  have "cv_sourceId c = i" if "c \<in> set (extractJiraValidationCandidates lc issue i cs)" for c issue i cs
    using deduped(2) [OF that [unfolded extractJiraValidationCandidates_def]] by (auto split: if_split_asm)
  then show "list_all (\<lambda>c. of_envelope (ri_envelope input) (cv_sourceId c)) (validation_candidates lc input)"
    using sourced_issue_known by (fastforce simp: list_all_iff validation_candidates_def)
  have "ct_sourceId c = i" if "c \<in> set (extractJiraTestDataExampleCandidates lc issue i cs)" for c issue i cs
    using deduped(3) [OF that [unfolded extractJiraTestDataExampleCandidates_def]] by auto
  then show "list_all (\<lambda>c. of_envelope (ri_envelope input) (ct_sourceId c)) (example_candidates lc input)"
    using sourced_issue_known by (fastforce simp: list_all_iff example_candidates_def)
qed

section \<open>The whole merge\<close>

lemma merge_runs:
  fixes h input
  defines "start \<equiv> initial_merge (figma_refs input) (base_intent (rh_collation h) input)"
  shows "\<exists>t. merge_candidates h input start = Inr t \<and> books_ok (map sr_sourceId (figma_refs input)) t
    \<and> elements_kept (en_conflictResolutionPolicy (ri_envelope input)) start t"
proof -
  let ?lc = "rh_collation h" and ?env = "ri_envelope input" and ?F = "map sr_sourceId (figma_refs input)"
  let ?fk = "map (semanticKeyForLabel \<circ> if_label) (ms_fields start)" and ?vk = "map (validation_key (ms_fields start)) (ms_validations start)"
  have start: "books_ok ?F start" unfolding start_def by (rule initial_merge_facts)
  obtain s1 where s1: "fold_or_throw (field_step h ?env ?F ?fk) (field_candidates ?lc input) start = Inr s1"
    "books_ok ?F s1" "elements_kept (en_conflictResolutionPolicy ?env) start s1"
    using field_loop.loop_runs [OF candidates_known(1) [where lc = ?lc and input = input], of ?F start ?fk h] start by auto
  have "length ?vk \<le> length (ms_validations s1)" using kept_lengths [OF s1(3)] by simp
  then obtain s2 where s2: "fold_or_throw (validation_step h ?env ?F ?vk) (validation_candidates ?lc input) s1 = Inr s2"
    "books_ok ?F s2" "elements_kept (en_conflictResolutionPolicy ?env) s1 s2"
    using validation_loop.loop_runs [OF candidates_known(2) [where lc = ?lc and input = input], of ?F s1 ?vk h] s1(2) by auto
  obtain s3 where s3: "fold_or_throw (example_step h ?env ?F) (example_candidates ?lc input) s2 = Inr s3"
    "books_ok ?F s3" "elements_kept (en_conflictResolutionPolicy ?env) s2 s3"
    using example_loop.loop_runs [OF candidates_known(3) [where lc = ?lc and input = input] s2(2), of h] by auto
  have "merge_candidates h input start = Inr s3"
    by (simp add: merge_candidates_def Let_def s1(1) s2(1) s3(1))
  then show ?thesis using s3(2) elements_kept_trans [OF s1(3) elements_kept_trans [OF s2(3) s3(3)]] by blast
qed

definition design_fields :: "ReconcileMultiSourceIntentInput \<Rightarrow> IntentField list" where
  "design_fields input = (case ri_figmaIntent input of None \<Rightarrow> [] | Some design \<Rightarrow> mi_detectedFields design)"

definition design_validations :: "ReconcileMultiSourceIntentInput \<Rightarrow> IntentValidation list" where
  "design_validations input = (case ri_figmaIntent input of None \<Rightarrow> [] | Some design \<Rightarrow> mi_detectedValidations design)"

lemma base_elements:
  "mi_detectedFields (base_intent lc input) = design_fields input"
  "mi_detectedValidations (base_intent lc input) = design_validations input"
  by (simp_all add: base_intent_def Let_def design_fields_def design_validations_def split: option.split)

lemma adopt_keeps [simp]: "keeps_field p f (adopt_field refs f)" "keeps_validation p v (adopt_validation refs v)"
  by (simp_all add: adopt_field_def adopt_validation_def Let_def)

definition merge_start :: "reconciliation_host \<Rightarrow> ReconcileMultiSourceIntentInput \<Rightarrow> merge_state" where
  "merge_start h input = initial_merge (figma_refs input) (base_intent (rh_collation h) input)"

lemma start_elements:
  "ms_fields (merge_start h input) = map (adopt_field (figma_refs input)) (design_fields input)"
  "ms_validations (merge_start h input) = map (adopt_validation (figma_refs input)) (design_validations input)"
  by (simp_all add: merge_start_def initial_merge_facts base_elements)

lemma kept_exists: "prefix_kept K xs ys \<Longrightarrow> x \<in> set xs \<Longrightarrow> \<exists>y\<in>set ys. K x y"
  unfolding prefix_kept_def by (metis in_set_conv_nth less_le_trans nth_mem)

text \<open>The result, in terms of the state after the loops.\<close>

lemma reconciled:
  obtains t intent report where "reconcileMultiSourceIntent h input = Inr (intent, report)"
    and "merge_candidates h input (merge_start h input) = Inr t"
    and "books_ok (map sr_sourceId (figma_refs input)) t"
    and "elements_kept (en_conflictResolutionPolicy (ri_envelope input)) (merge_start h input) t"
    and "intent = merged_intent h input (base_intent (rh_collation h) input) t
      (all_conflicts h input (map sn_screenId (mi_screens (base_intent (rh_collation h) input))) t)"
    and "rr_conflicts report = sort_by (rh_collation h) mc_conflictId
      (all_conflicts h input (map sn_screenId (mi_screens (base_intent (rh_collation h) input))) t)"
    and "rr_unmatchedSources report = js_sort (filter (\<lambda>i. i \<notin> contributed t \<union> ck_sourceId ` set (extractCandidateRisks (rh_collation h) input))
      (map sr_sourceId (en_sources (ri_envelope input))))"
    and "set (rr_contributingSourcesPerCase report) = (\<lambda>(c, ids). (c, js_sort ids)) ` set (ms_cases t)"
proof -
  obtain t where t: "merge_candidates h input (merge_start h input) = Inr t"
    "books_ok (map sr_sourceId (figma_refs input)) t"
    "elements_kept (en_conflictResolutionPolicy (ri_envelope input)) (merge_start h input) t"
    using merge_runs [of h input] unfolding merge_start_def by blast
  have entered: "set (ms_usedSourceIds (fold use_source ids s)) = set (ms_usedSourceIds s) \<union> set ids
      \<and> ms_cases (fold use_source ids s) = ms_cases s \<and> ms_fields (fold use_source ids s) = ms_fields s
      \<and> ms_validations (fold use_source ids s) = ms_validations s" for ids s
    by (induction ids arbitrary: s) auto
  note facts = entered [THEN conjunct1] entered [THEN conjunct2, THEN conjunct1] entered [THEN conjunct2, THEN conjunct2, THEN conjunct1]
    entered [THEN conjunct2, THEN conjunct2, THEN conjunct2]
  note run = t(1) [unfolded merge_start_def] and books = t(2) [unfolded books_ok_def, THEN conjunct2, THEN conjunct1]
  obtain intent report where eq: "reconcileMultiSourceIntent h input = Inr (intent, report)"
    by (simp add: reconcileMultiSourceIntent_def Let_def run)
  note parts = eq [unfolded reconcileMultiSourceIntent_def Let_def run sum.case sum.inject prod.inject]
  have report: "rr_conflicts report = sort_by (rh_collation h) mc_conflictId
      (all_conflicts h input (map sn_screenId (mi_screens (base_intent (rh_collation h) input))) t)"
    "rr_unmatchedSources report = js_sort (filter (\<lambda>i. i \<notin> contributed t \<union> ck_sourceId ` set (extractCandidateRisks (rh_collation h) input))
      (map sr_sourceId (en_sources (ri_envelope input))))"
    "set (rr_contributingSourcesPerCase report) = (\<lambda>(c, ids). (c, js_sort ids)) ` set (ms_cases t)"
    unfolding parts [THEN conjunct2, symmetric] MultiSourceReconciliationReport.select_convs
    by (simp_all add: facts books)
  show thesis
    by (rule that [OF eq t _ report], unfold parts [THEN conjunct1, symmetric]) (simp add: merged_intent_def Let_def facts)
qed

lemma contributed_cases:
  assumes "books_ok F st"
  shows "i \<in> contributed st \<longleftrightarrow> (\<exists>c ids. (c, ids) \<in> set (ms_cases st) \<and> i \<in> set ids)"
proof -
  have entry: "(c, ids) \<in> set (ms_cases st) \<longleftrightarrow> map_of (ms_cases st) c = Some ids" for c ids
    using assms by (simp add: books_ok_def)
  have "i \<in> set (case_sources st c) \<longleftrightarrow> (\<exists>ids. map_of (ms_cases st) c = Some ids \<and> i \<in> set ids)" for c
    by (cases "map_of (ms_cases st) c") (simp_all add: case_sources_def)
  then show ?thesis unfolding contributed_def entry by blast
qed

text \<open>
  C20: The reconciliation returns for every input, and its report balances: the unmatched sources are
  exactly the sources of the envelope that contribute to no case of the report and to no risk.
\<close>

theorem reconciliation_books_balance:
  "case reconcileMultiSourceIntent h input of
     Inl e \<Rightarrow> False
   | Inr (intent, report) \<Rightarrow>
       rr_unmatchedSources report = js_sort (filter
         (\<lambda>i. \<not> list_ex (\<lambda>(c, ids). i \<in> set ids) (rr_contributingSourcesPerCase report)
            \<and> i \<notin> ck_sourceId ` set (extractCandidateRisks (rh_collation h) input))
         (map sr_sourceId (en_sources (ri_envelope input))))"
proof (rule reconciled [of h input])
  fix t intent report
  assume eq: "reconcileMultiSourceIntent h input = Inr (intent, report)" and books: "books_ok (map sr_sourceId (figma_refs input)) t"
    and unmatched: "rr_unmatchedSources report = js_sort (filter (\<lambda>i. i \<notin> contributed t \<union> ck_sourceId ` set (extractCandidateRisks (rh_collation h) input))
      (map sr_sourceId (en_sources (ri_envelope input))))"
    and cases: "set (rr_contributingSourcesPerCase report) = (\<lambda>(c, ids). (c, js_sort ids)) ` set (ms_cases t)"
  have "i \<in> contributed t \<longleftrightarrow> list_ex (\<lambda>(c, ids). i \<in> set ids) (rr_contributingSourcesPerCase report)" for i
    unfolding contributed_cases [OF books] list_ex_iff cases by force
  then show ?thesis by (simp add: eq unmatched conj_commute)
qed

text \<open>
  C19: No element of the design is lost: every field and validation of the design is in the merged
  intent with its identity, and its label, rule and filled-in example unless the policy is
  \<^verbatim>\<open>priority\<close>. The screens are those of the design in the same order, each with its id, name, path and
  trace; only the locale and the component name of the trace are lost.
\<close>

theorem design_elements_survive:
  "case (reconcileMultiSourceIntent h input, ri_figmaIntent input) of
     (Inr (intent, report), Some design) \<Rightarrow>
       list_all (\<lambda>f. list_ex (keeps_field (rr_policyApplied report) f) (mi_detectedFields intent)) (mi_detectedFields design)
       \<and> list_all (\<lambda>v. list_ex (keeps_validation (rr_policyApplied report) v) (mi_detectedValidations intent))
           (mi_detectedValidations design)
       \<and> mi_screens intent = map (\<lambda>s. s\<lparr> sn_locale := None, sn_trace := (sn_trace s)\<lparr> tr_componentName := None \<rparr> \<rparr>)
           (mi_screens design)
   | (Inl e, _) \<Rightarrow> False
   | _ \<Rightarrow> True"
proof (rule reconciled [of h input])
  fix t intent report
  let ?p = "en_conflictResolutionPolicy (ri_envelope input)"
  assume eq: "reconcileMultiSourceIntent h input = Inr (intent, report)"
    and kept: "elements_kept ?p (merge_start h input) t"
    and intent: "intent = merged_intent h input (base_intent (rh_collation h) input) t
      (all_conflicts h input (map sn_screenId (mi_screens (base_intent (rh_collation h) input))) t)"
  have policy: "rr_policyApplied report = ?p"
    using eq by (auto simp: reconcileMultiSourceIntent_def Let_def split: sum.split_asm)
  have elements: "set (mi_detectedFields intent) = set (ms_fields t)" "set (mi_detectedValidations intent) = set (ms_validations t)"
    "mi_screens intent = mi_screens (base_intent (rh_collation h) input)"
    unfolding intent by (simp_all add: merged_intent_def Let_def)
  have "\<exists>g\<in>set (mi_detectedFields intent). keeps_field ?p f g" if "f \<in> set (design_fields input)" for f
  proof -
    have "adopt_field (figma_refs input) f \<in> set (ms_fields (merge_start h input))" using that by (simp add: start_elements)
    with kept obtain g where "g \<in> set (ms_fields t)" "keeps_field ?p (adopt_field (figma_refs input) f) g"
      unfolding elements_kept_def by (blast dest: kept_exists)
    then show ?thesis using keeps_field_trans adopt_keeps(1) elements(1) by blast
  qed
  moreover have "\<exists>w\<in>set (mi_detectedValidations intent). keeps_validation ?p v w" if "v \<in> set (design_validations input)" for v
  proof -
    have "adopt_validation (figma_refs input) v \<in> set (ms_validations (merge_start h input))" using that by (simp add: start_elements)
    with kept obtain w where "w \<in> set (ms_validations t)" "keeps_validation ?p (adopt_validation (figma_refs input) v) w"
      unfolding elements_kept_def by (blast dest: kept_exists)
    then show ?thesis using keeps_validation_trans adopt_keeps(2) elements(2) by blast
  qed
  ultimately show ?thesis
    by (auto simp: eq policy list_all_iff list_ex_iff design_fields_def design_validations_def elements(3) base_intent_def Let_def
        cloneScreen_def split: option.split)
qed

section \<open>Label conflicts\<close>

definition label_rows :: "DetailedConflict list \<Rightarrow> (string list option \<times> string list) set" where
  "label_rows conflicts = (\<lambda>k. (mc_affectedElementIds k, mc_normalizedValues k)) `
     {k \<in> set conflicts. mc_kind k = ''field_label_mismatch''}"

definition label_row :: "IntentField \<Rightarrow> CandidateField \<Rightarrow> string list option \<times> string list" where
  "label_row field c = (Some [if_id field], sortedUnique [if_label field, cf_label c])"

definition disputed :: "IntentField \<Rightarrow> CandidateField \<Rightarrow> bool" where
  "disputed field c \<longleftrightarrow> normalizeText (if_label field) \<noteq> cf_normalizedLabel c"

lemma label_rows_append [simp]: "label_rows (xs @ ys) = label_rows xs \<union> label_rows ys"
  by (auto simp: label_rows_def)

lemma label_rows_sort: "label_rows (sort_by lc f xs) = label_rows xs"
  by (simp add: label_rows_def)

lemma sortedUnique_single [simp]: "sortedUnique [x] = [x]"
  by (simp add: sortedUnique_def js_set_def set_add_def js_sort_def)

lemma label_rows_single: "label_rows [k] =
    (if mc_kind k = ''field_label_mismatch'' then {(mc_affectedElementIds k, mc_normalizedValues k)} else {})"
  by (auto simp: label_rows_def)

lemma conflict_rows [simp]:
  "label_rows [label_conflict h env ids c f] = {label_row f c}" "label_rows [rule_conflict h env ids d v] = {}"
  "label_rows [example_conflict h env ids e f] = {}" "label_rows [] = {}"
  by (simp_all add: label_rows_single label_row_def label_conflict_def rule_conflict_def example_conflict_def buildConflict_def
      Let_def some_list_def) (simp add: label_rows_def)

lemma conflicts_push_alternative [simp]:
  "ms_conflicts (push_alternative_field i a st) = ms_conflicts st"
  "ms_conflicts (push_alternative_validation i b st) = ms_conflicts st"
  by (simp_all add: push_alternative_field_def push_alternative_validation_def split: option.split)

lemma match_rows:
  "label_rows (ms_conflicts (match_field h env F ref c n st)) =
     label_rows (ms_conflicts st) \<union> (if disputed (ms_fields st ! n) c then {label_row (ms_fields st ! n) c} else {})"
  "label_rows (ms_conflicts (match_validation h env F ref d n st)) = label_rows (ms_conflicts st)"
  "label_rows (ms_conflicts (match_example h env F ref e n st)) = label_rows (ms_conflicts st)"
  by (simp_all add: match_field_def match_validation_def match_example_def Let_def disputed_def)

lemma kept_label:
  assumes "elements_kept p st st'" "n < length (ms_fields st)" "p \<noteq> ''priority''"
  shows "label_row (ms_fields st' ! n) = label_row (ms_fields st ! n)" "disputed (ms_fields st' ! n) = disputed (ms_fields st ! n)"
  using assms by (auto simp: elements_kept_def prefix_kept_def keeps_field_def label_row_def disputed_def fun_eq_iff)

text \<open>The rows that a candidate adds, read off the fields before the loop.\<close>

definition rows_of :: "IntentField list \<Rightarrow> nat list \<Rightarrow> CandidateField \<Rightarrow> (string list option \<times> string list) set" where
  "rows_of elements ns c = (\<lambda>n. label_row (elements ! n) c) ` {n \<in> set ns. disputed (elements ! n) c}"

lemma fold_match_rows:
  assumes "books_ok F st" "cf_sourceId c \<in> set (ms_usedSourceIds st)" "sr_sourceId ref = cf_sourceId c"
    and "\<forall>n\<in>set ns. n < length (ms_fields st)" "en_conflictResolutionPolicy env \<noteq> ''priority''"
  shows "label_rows (ms_conflicts (fold (match_field h env F ref c) ns st)) =
    label_rows (ms_conflicts st) \<union> rows_of (ms_fields st) ns c"
  using assms(4)
proof (induction ns rule: rev_induct)
  case (snoc n ns)
  let ?t = "fold (match_field h env F ref c) ns st" and ?p = "en_conflictResolutionPolicy env"
  have "step_ok F ?p (cf_sourceId c) st ?t"
  proof (rule fold_matches [OF assms(1,2)])
    fix m s
    assume "m \<in> set ns" "elements_kept ?p st s" "books_ok F s" "cf_sourceId c \<in> set (ms_usedSourceIds s)"
    moreover from this have "m < length (ms_fields s)" using snoc.prems kept_lengths by fastforce
    ultimately show "step_ok F ?p (cf_sourceId c) s (match_field h env F ref c m s)" using match_field_ok assms(3) by blast
  qed
  then have "elements_kept ?p st ?t" using assms(1,2) by (simp add: step_ok_def)
  moreover have "n < length (ms_fields st)" using snoc.prems by simp
  ultimately have "label_row (ms_fields ?t ! n) = label_row (ms_fields st ! n)" "disputed (ms_fields ?t ! n) = disputed (ms_fields st ! n)"
    using kept_label assms(5) by blast+
  then show ?case using snoc by (auto simp: match_rows rows_of_def)
qed (simp add: rows_of_def)

lemma field_step_rows:
  assumes "books_ok F st" "of_envelope env (cf_sourceId c)" "length keys \<le> length (ms_fields st)"
    and "en_conflictResolutionPolicy env \<noteq> ''priority''" "field_step h env F keys c st = Inr t"
  shows "label_rows (ms_conflicts t) = label_rows (ms_conflicts st) \<union> rows_of (ms_fields st) (positions keys (cf_semanticKey c)) c"
proof -
  let ?s = "recordContribution (cf_caseId c) [cf_sourceId c] (use_source (cf_sourceId c) st)"
  note s = entered [OF assms(1), where c = "cf_caseId c" and i = "cf_sourceId c"]
  obtain ref where ref: "sourceRefForId env (cf_sourceId c) = Inr ref" "sr_sourceId ref = cf_sourceId c"
    using sourceRef_known assms(2) unfolding of_envelope_def by blast
  have bound: "\<forall>n\<in>set (positions keys (cf_semanticKey c)). n < length (ms_fields ?s)"
    using position_bound assms(3) by (auto dest!: position_bound)
  have t: "t = (if positions keys (cf_semanticKey c) = [] then accept_field h ref c ?s
      else fold (match_field h env F ref c) (positions keys (cf_semanticKey c)) ?s)"
    using assms(5) by (simp add: field_step_def ref(1) Let_def)
  show ?thesis unfolding t using fold_match_rows [OF s(1,2) ref(2) bound assms(4)]
    by (simp add: accept_field_def rows_of_def)
qed

lemma field_loop_rows:
  assumes "list_all (\<lambda>c. of_envelope env (cf_sourceId c)) cs" "books_ok F st" "length keys \<le> length (ms_fields start)"
    and "elements_kept (en_conflictResolutionPolicy env) start st" "en_conflictResolutionPolicy env \<noteq> ''priority''"
    and "fold_or_throw (field_step h env F keys) cs st = Inr t"
  shows "label_rows (ms_conflicts t) =
    label_rows (ms_conflicts st) \<union> (\<Union>c\<in>set cs. rows_of (ms_fields start) (positions keys (cf_semanticKey c)) c)"
  using assms(1,2,4,6)
proof (induction cs arbitrary: st)
  case (Cons c cs)
  let ?p = "en_conflictResolutionPolicy env" and ?ns = "positions keys (cf_semanticKey c)"
  have len: "length keys \<le> length (ms_fields st)" using Cons.prems(3) assms(3) kept_lengths by fastforce
  obtain s where s: "field_step h env F keys c st = Inr s" "books_ok F s" "elements_kept ?p st s"
    using field_loop.body_runs [of env c F st keys h] Cons.prems(1,2) len by auto
  have "rows_of (ms_fields st) ?ns c = rows_of (ms_fields start) ?ns c"
  proof -
    have "n < length (ms_fields start)" if "n \<in> set ?ns" for n using position_bound [OF that] assms(3) by simp
    note same = kept_label [OF Cons.prems(3) this assms(5)]
    show ?thesis unfolding rows_of_def by (intro image_cong) (auto simp: same)
  qed
  moreover have "label_rows (ms_conflicts s) = label_rows (ms_conflicts st) \<union> rows_of (ms_fields st) ?ns c"
    using field_step_rows [OF Cons.prems(2) _ len assms(5) s(1)] Cons.prems(1) by simp
  moreover have "label_rows (ms_conflicts t) =
      label_rows (ms_conflicts s) \<union> (\<Union>c\<in>set cs. rows_of (ms_fields start) (positions keys (cf_semanticKey c)) c)"
    using Cons.IH [of s] Cons.prems s elements_kept_trans by simp
  ultimately show ?case by auto
qed simp

lemma other_steps_rows:
  "validation_step h env F keys d st = Inr t \<Longrightarrow> label_rows (ms_conflicts t) = label_rows (ms_conflicts st)"
  "example_step h env F e st = Inr t \<Longrightarrow> label_rows (ms_conflicts t) = label_rows (ms_conflicts st)"
proof -
  have v: "label_rows (ms_conflicts (fold (match_validation h env F ref d) ns s)) = label_rows (ms_conflicts s)" for ref ns s
    by (induction ns arbitrary: s) (simp_all add: match_rows)
  have e: "label_rows (ms_conflicts (fold (match_example h env F ref e) ns s)) = label_rows (ms_conflicts s)" for ref ns s
    by (induction ns arbitrary: s) (simp_all add: match_rows)
  show "validation_step h env F keys d st = Inr t \<Longrightarrow> label_rows (ms_conflicts t) = label_rows (ms_conflicts st)"
    by (auto simp: validation_step_def Let_def v accept_validation_def split: sum.split_asm if_split_asm)
  show "example_step h env F e st = Inr t \<Longrightarrow> label_rows (ms_conflicts t) = label_rows (ms_conflicts st)"
    by (auto simp: example_step_def Let_def e split: sum.split_asm if_split_asm)
qed

lemma loop_keeps_rows:
  assumes "\<And>x s t. f x s = Inr t \<Longrightarrow> label_rows (ms_conflicts t) = label_rows (ms_conflicts s)"
  shows "fold_or_throw f xs s = Inr t \<Longrightarrow> label_rows (ms_conflicts t) = label_rows (ms_conflicts s)"
  by (induction xs arbitrary: s) (auto split: sum.split_asm dest: assms)

lemma other_conflicts: "label_rows (risk_conflicts h input rs ids) = {}" "label_rows (acceptance_conflicts h input) = {}"
  "label_rows (paste_conflicts h input) = {}"
  by (auto simp: label_rows_def risk_conflicts_def acceptance_conflicts_def paste_conflicts_def buildConflict_def Let_def)

lemma start_conflicts: "ms_conflicts (merge_start h input) = []"
proof -
  have uses: "ms_conflicts (fold use_source ids st) = ms_conflicts st" for ids st
    by (induction ids arbitrary: st) simp_all
  have account: "ms_conflicts (account_for c r st) = ms_conflicts st" for c r st
    by (simp add: account_for_def uses)
  have accounts: "ms_conflicts (fold (\<lambda>x. account_for (c x) (r x)) xs st) = ms_conflicts st" for c r xs st
    by (induction xs arbitrary: st) (simp_all add: account)
  show ?thesis by (simp add: merge_start_def initial_merge_def Let_def accounts)
qed

text \<open>The pairs of a field of the design and a candidate with the same meaning and another label.\<close>

definition label_disagreements :: "IntentField list \<Rightarrow> CandidateField list \<Rightarrow> (string list option \<times> string list) set" where
  "label_disagreements elements cs = (\<Union>c\<in>set cs. (\<lambda>f. label_row f c) `
     {f \<in> set elements. semanticKeyForLabel (if_label f) = cf_semanticKey c \<and> disputed f c})"

lemma adopt_label: "if_label (adopt_field refs f) = if_label f" "label_row (adopt_field refs f) = label_row f"
  "disputed (adopt_field refs f) = disputed f"
  by (simp_all add: adopt_field_def field_refs_def Let_def label_row_def disputed_def fun_eq_iff)

lemma positions_iff: "n \<in> set (positions (map g xs) k) \<longleftrightarrow> n < length xs \<and> g (xs ! n) = k"
  by (auto simp: positions_def)

lemma rows_of_positions:
  "rows_of elements (positions (map g elements) k) c = (\<lambda>f. label_row f c) ` {f \<in> set elements. g f = k \<and> disputed f c}"
proof -
  have "{f \<in> set elements. g f = k \<and> disputed f c} =
      (!) elements ` {n \<in> set (positions (map g elements) k). disputed (elements ! n) c}"
    unfolding positions_iff by (auto simp: in_set_conv_nth)
  then show ?thesis by (simp add: rows_of_def image_image)
qed

lemma adopted_rows:
  "(\<lambda>f. label_row f c) ` {f \<in> set (map (adopt_field refs) fs). semanticKeyForLabel (if_label f) = k \<and> disputed f c}
     = (\<lambda>f. label_row f c) ` {f \<in> set fs. semanticKeyForLabel (if_label f) = k \<and> disputed f c}"
proof -
  have "{f \<in> set (map (adopt_field refs) fs). semanticKeyForLabel (if_label f) = k \<and> disputed f c}
      = adopt_field refs ` {f \<in> set fs. semanticKeyForLabel (if_label f) = k \<and> disputed f c}"
    by (auto simp: adopt_label)
  then show ?thesis by (simp add: image_image adopt_label)
qed

lemma start_rows:
  fixes h input
  defines "elements \<equiv> ms_fields (merge_start h input)"
  shows "(\<Union>c\<in>set cs. rows_of elements (positions (map (semanticKeyForLabel \<circ> if_label) elements) (cf_semanticKey c)) c)
    = label_disagreements (design_fields input) cs"
  unfolding rows_of_positions elements_def start_elements o_apply adopted_rows label_disagreements_def ..

text \<open>
  C21: Unless the policy is \<^verbatim>\<open>priority\<close>, the report has a label conflict on a field with two labels
  exactly when the field and a candidate of an issue have the same meaning and labels that differ.
\<close>

theorem label_conflicts_exact:
  "case reconcileMultiSourceIntent h input of
     Inl e \<Rightarrow> False
   | Inr (intent, report) \<Rightarrow>
       if rr_policyApplied report = ''priority'' then True
       else label_rows (rr_conflicts report)
         = label_disagreements (design_fields input) (field_candidates (rh_collation h) input)"
proof (rule reconciled [of h input])
  fix t intent report
  let ?env = "ri_envelope input" and ?F = "map sr_sourceId (figma_refs input)" and ?s = "merge_start h input"
  let ?k = "map (semanticKeyForLabel \<circ> if_label) (ms_fields ?s)"
  assume eq: "reconcileMultiSourceIntent h input = Inr (intent, report)" and run: "merge_candidates h input ?s = Inr t"
    and conflicts: "rr_conflicts report = sort_by (rh_collation h) mc_conflictId
      (all_conflicts h input (map sn_screenId (mi_screens (base_intent (rh_collation h) input))) t)"
  have policy: "rr_policyApplied report = en_conflictResolutionPolicy ?env"
    using eq by (auto simp: reconcileMultiSourceIntent_def Let_def split: sum.split_asm)
  have "label_rows (rr_conflicts report) = label_rows (ms_conflicts t)"
    by (simp add: conflicts label_rows_sort all_conflicts_def other_conflicts)
  also have "\<dots> = label_disagreements (design_fields input) (field_candidates (rh_collation h) input)"
    if np: "en_conflictResolutionPolicy ?env \<noteq> ''priority''"
  proof -
    obtain s1 s2 where s1: "fold_or_throw (field_step h ?env ?F ?k) (field_candidates (rh_collation h) input) ?s = Inr s1"
      and s2: "fold_or_throw (validation_step h ?env ?F (map (validation_key (ms_fields ?s)) (ms_validations ?s)))
        (validation_candidates (rh_collation h) input) s1 = Inr s2"
      and s3: "fold_or_throw (example_step h ?env ?F) (example_candidates (rh_collation h) input) s2 = Inr t"
      using run by (auto simp: merge_candidates_def Let_def split: sum.split_asm)
    have "label_rows (ms_conflicts t) = label_rows (ms_conflicts s1)"
      using loop_keeps_rows [OF other_steps_rows(1) s2] loop_keeps_rows [OF other_steps_rows(2) s3] by simp
    also have "\<dots> = label_rows (ms_conflicts ?s) \<union> (\<Union>c\<in>set (field_candidates (rh_collation h) input).
        rows_of (ms_fields ?s) (positions ?k (cf_semanticKey c)) c)"
      by (rule field_loop_rows [OF candidates_known(1) _ _ elements_kept_refl np s1])
        (simp_all add: merge_start_def initial_merge_facts(1))
    finally show ?thesis by (simp add: start_conflicts start_rows)
  qed
  finally show ?thesis by (simp add: eq policy)
qed

section \<open>Conflicts at the policy gate\<close>

text \<open>The parts of the merged intent that the policy gate reads.\<close>

definition gate_intent :: "ReconciledIntent \<Rightarrow> BusinessTestIntentIr" where
  "gate_intent intent =
     \<lparr> bi_detectedFields = map (\<lambda>f. \<lparr> df_id = if_id f, df_screenId = if_screenId f, df_label = if_label f, df_type = if_type f \<rparr>)
         (mi_detectedFields intent),
       bi_detectedValidations = map (\<lambda>v. \<lparr> dv_id = iv_id v, dv_screenId = iv_screenId v, dv_rule = iv_rule v,
         dv_targetFieldId = iv_targetFieldId v \<rparr>) (mi_detectedValidations intent),
       bi_risks = mi_risks intent, bi_piiIndicators = mi_piiIndicators intent,
       bi_multiSourceConflicts = map_option (map MultiSourceConflict.truncate) (mi_multiSourceConflicts intent) \<rparr>"

lemma conflict_present_not_approved:
  assumes "bi_multiSourceConflicts intent = Some ks" "k \<in> set ks" "conflict_affects tc k"
  shows "pd_decision (evaluateCase lc th tc intent profile issues overrides invalid signals refusal required untrusted judges fviol ids
    compliance) \<noteq> ''approved''"
proof -
  have "mc_conflictId k \<in> set (collectMultiSourceConflictIds intent tc)"
    using assms by (simp add: collectMultiSourceConflictIds_def)
  then show ?thesis
    by (auto simp: evaluateCase_eq Let_def decisionFromViolations_eq strongest_approved case_approved_iff)
qed

text \<open>
  C18: Every conflict of the report reaches its reviewers: a case it affects is not approved by the
  policy gate on the merged intent, and unless a priority resolved it the intent asks about it.
\<close>

theorem reported_conflicts_stop_approval:
  "case reconcileMultiSourceIntent h input of
     Inl e \<Rightarrow> False
   | Inr (intent, report) \<Rightarrow> list_all (\<lambda>k.
       (if conflict_affects tc (MultiSourceConflict.truncate k)
        then pd_decision (evaluateCase lc th tc (gate_intent intent) profile issues overrides invalid signals refusal required untrusted
               judges fviol ids compliance) \<noteq> ''approved''
        else True)
       \<and> (mc_resolution k = Auto_priority \<or> conflict_question k \<in> set (mi_openQuestions intent))) (rr_conflicts report)"
proof (rule reconciled [of h input])
  fix t intent report
  let ?ks = "all_conflicts h input (map sn_screenId (mi_screens (base_intent (rh_collation h) input))) t"
  assume eq: "reconcileMultiSourceIntent h input = Inr (intent, report)"
    and intent: "intent = merged_intent h input (base_intent (rh_collation h) input) t ?ks"
    and conflicts: "rr_conflicts report = sort_by (rh_collation h) mc_conflictId ?ks"
  have asked: "mc_resolution k = Auto_priority \<or> conflict_question k \<in> set (mi_openQuestions intent)" if "k \<in> set ?ks" for k
    using that by (auto simp: intent merged_intent_def Let_def sortedUnique_def)
  have "bi_multiSourceConflicts (gate_intent intent) = Some (map MultiSourceConflict.truncate (rr_conflicts report))" if "k \<in> set ?ks" for k
    using that by (auto simp: gate_intent_def intent merged_intent_def Let_def conflicts)
  then have "pd_decision (evaluateCase lc th tc (gate_intent intent) profile issues overrides invalid signals refusal required untrusted
      judges fviol ids compliance) \<noteq> ''approved''" if "k \<in> set ?ks" "conflict_affects tc (MultiSourceConflict.truncate k)" for k
    using conflict_present_not_approved that by (metis conflicts image_eqI set_map set_sort_by)
  then show ?thesis using asked by (simp add: eq list_all_iff conflicts)
qed

text \<open>The screens of the design lose their locale on the way.\<close>

lemma reconciliation_drops_locales:
  "case (reconcileMultiSourceIntent h input, ri_figmaIntent input) of
     (Inr (intent, report), Some design) \<Rightarrow> list_all (\<lambda>s. sn_locale s = None) (mi_screens intent)
   | _ \<Rightarrow> True"
proof (rule reconciled [of h input])
  fix t intent report
  assume "reconcileMultiSourceIntent h input = Inr (intent, report)"
    and "intent = merged_intent h input (base_intent (rh_collation h) input) t
      (all_conflicts h input (map sn_screenId (mi_screens (base_intent (rh_collation h) input))) t)"
  then show ?thesis
    by (simp add: merged_intent_def base_intent_def Let_def list_all_iff cloneScreen_def split: option.split)
qed

end
