(* ===== verification/Spec2Isabelle.thy ===== *)
theory Spec2Isabelle
  imports ExportGate ReviewStoreWrites CircuitBreaker RateLimiter WorkflowGate PolicyPruning RepairLoopProps HumanQueueDisk FinopsProps SourceMixProps IdempotencyProps DisagreementReport DedupeReport CoverageReport ReconciliationProps
begin

text \<open>
  A verification development of \<^verbatim>\<open>test-intelligence\<close>, a pipeline that turns design sources into
  generated test cases, reviews them and exports them. It models the gates every test case passes
  on its way out, and the guards around the pipeline's own services.

  \<^bold>\<open>Parts and how they interact.\<close> A run starts from an envelope of sources, which is validated and
  planned; the sources are reconciled into one intent, whose conflicts the policy gate sees. The run
  produces test cases and reports. A panel of judges votes on
  them; the consensus decides whether they are accepted, repaired or rejected, and the repair loop
  regenerates them within a budget. Cases on which the judges disagree wait in a queue for signed human
  verdicts. Model calls are charged to a FinOps recorder, whose report says whether the job stayed
  within its budget. The policy gate turns
  validation, coverage, quotas, faithfulness verdicts, risks and overrides into one decision per case
  and a job verdict. Its report is pruned by the reviewers' conflict decisions and seeds the review
  store. Reviewers act through the store; each
  action is checked by the review state machine and the four-eyes policy and appended to an event
  log beside a snapshot. Semantic-content overrides are signed notes in the same log. The export
  gate reads snapshot, reports and overrides and either refuses or emits the approved cases and
  stamps the snapshot. The workflow gate checks step sequences against state machines. Coverage,
  duplicate and domain-invariant reports measure the generated cases against the intent. The circuit
  breaker guards the model gateway, whose idempotency cache replays earlier answers; the rate limiter
  guards the HTTP server.

  \<^bold>\<open>Theories and sources\<close> (under \<^verbatim>\<open>src/packages\<close>).
  \<^item> \<^verbatim>\<open>Prelude\<close>: JavaScript strings, sets, numbers and stable sorting; the locales of step machines
    (\<^verbatim>\<open>invariant_machine\<close>, \<^verbatim>\<open>monotone_machine\<close>, \<^verbatim>\<open>refining_machine\<close>), of a region guarded by gates and
    of a file keyed by job.
  \<^item> \<^verbatim>\<open>ReviewMachine\<close>: \<^verbatim>\<open>review/src/review-state-machine.ts\<close>.
  \<^item> \<^verbatim>\<open>FourEyes\<close>: \<^verbatim>\<open>review/src/four-eyes-policy.ts\<close>.
  \<^item> \<^verbatim>\<open>Json\<close>: JSON values and \<^verbatim>\<open>sortValue\<close> of \<^verbatim>\<open>security/src/content-hash.ts\<close>.
  \<^item> \<^verbatim>\<open>ReviewPersistence\<close>, \<^verbatim>\<open>ReviewStore\<close>, \<^verbatim>\<open>ReviewStoreInv\<close>, \<^verbatim>\<open>ReviewStoreRuns\<close>: validators of the
    persisted files, the operations, the invariant, and every sequence of operations of
    \<^verbatim>\<open>production-runner/src/review-store.ts\<close>. The state is \<^verbatim>\<open>review_fs\<close>, the two files of each job, indexed
    by the job id. \<^verbatim>\<open>ReviewStoreWrites\<close>: the same operations with their two writes as steps that may fail.
  \<^item> \<^verbatim>\<open>PolicyConflicts\<close>: \<^verbatim>\<open>pruneResolvedMultiSourceConflictViolations\<close> of \<^verbatim>\<open>policy-gate.ts\<close> and the projection
    of conflict decisions of \<^verbatim>\<open>multi-source/src/inspector-multisource.ts\<close>.
  \<^item> \<^verbatim>\<open>TestCaseData\<close>: generated test cases and coverage plans of \<^verbatim>\<open>contracts/src/index.ts\<close>.
  \<^item> \<^verbatim>\<open>TechniqueQuota\<close>: \<^verbatim>\<open>model-gateway/src/technique-quota.ts\<close> and \<^verbatim>\<open>production-runner/src/p0-risk-coverage.ts\<close>.
  \<^item> \<^verbatim>\<open>FaithfulnessTier\<close>: \<^verbatim>\<open>quality/src/faithfulness-tier-report.ts\<close>.
  \<^item> \<^verbatim>\<open>CoverageDrift\<close>: the evaluation of \<^verbatim>\<open>quality/src/coverage-baseline-drift.ts\<close>.
  \<^item> \<^verbatim>\<open>PolicyRisk\<close>, \<^verbatim>\<open>PolicyInputs\<close>, \<^verbatim>\<open>PolicyGate\<close>: \<^verbatim>\<open>production-runner/src/policy-gate.ts\<close>: risk derivation, inputs
    and self-contained checks, the rules per case and per job and \<^verbatim>\<open>evaluatePolicyGate\<close>.
    \<^verbatim>\<open>PolicyGateProps\<close> and \<^verbatim>\<open>PolicyPruning\<close> hold its lemmas.
  \<^item> \<^verbatim>\<open>JudgeData\<close>, \<^verbatim>\<open>CrossFamily\<close>, \<^verbatim>\<open>HumanReview\<close>, \<^verbatim>\<open>JudgeConsensus\<close>, \<^verbatim>\<open>JudgeConsensusProps\<close>: verdicts and
    length limits, \<^verbatim>\<open>quality/src/cross-family-judge-policy.ts\<close>, \<^verbatim>\<open>production-runner/src/human-review-agent.ts\<close>
    and \<^verbatim>\<open>production-runner/src/judge-consensus.ts\<close>.
  \<^item> \<^verbatim>\<open>RepairData\<close>, \<^verbatim>\<open>RepairLoop\<close>, \<^verbatim>\<open>RepairLoopProps\<close>: \<^verbatim>\<open>production-runner/src/repair-loop.ts\<close>. The loop is a
    recursion over its iterations with the state \<^verbatim>\<open>loop_state\<close>.
  \<^item> \<^verbatim>\<open>HumanQueue\<close>, \<^verbatim>\<open>HumanQueueProps\<close>: \<^verbatim>\<open>review/src/human-review-queue.ts\<close>. The state maps a tenant to its
    directories of items, verdicts and logs. \<^verbatim>\<open>HumanQueueDisk\<close>: the writing operations on resolved paths, with
    the layout and the guards of its path helpers; they refine the former.
  \<^item> \<^verbatim>\<open>SourceEnvelope\<close>, \<^verbatim>\<open>SourceMix\<close>, \<^verbatim>\<open>SourceMixProps\<close>: \<^verbatim>\<open>multi-source-envelope.ts\<close> and \<^verbatim>\<open>source-mix-planner.ts\<close>
    of \<^verbatim>\<open>multi-source/src\<close>. Candidates are JSON values, accepted envelopes records.
  \<^item> \<^verbatim>\<open>Scanner\<close>: back-tracking matching with captures, for expressions whose matched text matters.
  \<^item> \<^verbatim>\<open>SourceStatements\<close>: the text readers of \<^verbatim>\<open>calculation-constraints.ts\<close> and
    \<^verbatim>\<open>unresolved-validation-rules.ts\<close> of \<^verbatim>\<open>core-engine/src\<close>.
  \<^item> \<^verbatim>\<open>CandidateExtraction\<close>, \<^verbatim>\<open>Reconciliation\<close>, \<^verbatim>\<open>ReconciliationProps\<close>: \<^verbatim>\<open>multi-source-reconciliation.ts\<close>
    and \<^verbatim>\<open>custom-context-policy.ts\<close> of \<^verbatim>\<open>multi-source/src\<close>. The state \<^verbatim>\<open>merge_state\<close> holds the elements
    merged so far and the books; the three loops over the candidates share the locale \<^verbatim>\<open>merge_loop\<close>.
  \<^item> \<^verbatim>\<open>FinopsBudget\<close>, \<^verbatim>\<open>FinopsUsage\<close>, \<^verbatim>\<open>FinopsReport\<close>, \<^verbatim>\<open>FinopsProps\<close>: \<^verbatim>\<open>finops-budget.ts\<close>, \<^verbatim>\<open>finops-report.ts\<close> and
    \<^verbatim>\<open>per-source-cost.ts\<close> of \<^verbatim>\<open>model-gateway/src\<close>: budget envelopes, the usage recorder (\<^verbatim>\<open>finops_recorder\<close>)
    and the budget report.
  \<^item> \<^verbatim>\<open>Idempotency\<close>, \<^verbatim>\<open>IdempotencyProps\<close>: \<^verbatim>\<open>model-gateway/src/llm-gateway-idempotency.ts\<close>. The state
    \<^verbatim>\<open>idempotency_cache\<close> holds the table in memory, the files of the directory and the counters.
  \<^item> \<^verbatim>\<open>DisagreementReport\<close>: \<^verbatim>\<open>quality/src/judge-disagreement-report.ts\<close>.
  \<^item> \<^verbatim>\<open>Patterns\<close>: matching of regular expressions by derivatives, for the patterns the sources test.
  \<^item> \<^verbatim>\<open>CoverageTargets\<close>: \<^verbatim>\<open>coverage-relevance.ts\<close> and \<^verbatim>\<open>field-lifecycle-transition-tier.ts\<close> of
    \<^verbatim>\<open>core-engine/src\<close>. \<^verbatim>\<open>CoverageReport\<close>: \<^verbatim>\<open>test-case-coverage.ts\<close> there.
  \<^item> \<^verbatim>\<open>Duplicates\<close>, \<^verbatim>\<open>DedupeReport\<close>: \<^verbatim>\<open>test-case-duplicate.ts\<close> and \<^verbatim>\<open>test-case-dedupe.ts\<close> there.
  \<^item> \<^verbatim>\<open>InvariantRegistry\<close>: registration and evaluation of \<^verbatim>\<open>domain-invariant-registry.ts\<close> there.
  \<^item> \<^verbatim>\<open>SemanticOverrides\<close>: the override half of \<^verbatim>\<open>security/src/semantic-content-sanitization.ts\<close>.
  \<^item> \<^verbatim>\<open>ExportGate\<close>: refusal, selection and stamping of \<^verbatim>\<open>production-runner/src/export-pipeline.ts\<close>.
  \<^item> \<^verbatim>\<open>WorkflowMachine\<close>, \<^verbatim>\<open>WorkflowSearch\<close>, \<^verbatim>\<open>WorkflowValidator\<close>, \<^verbatim>\<open>WorkflowGate\<close>:
    \<^verbatim>\<open>core-engine/src/workflow-state-machine.ts\<close> and \<^verbatim>\<open>workflow-state-machine-validator.ts\<close>.
  \<^item> \<^verbatim>\<open>CircuitBreaker\<close>: \<^verbatim>\<open>model-gateway/src/llm-circuit-breaker.ts\<close>.
  \<^item> \<^verbatim>\<open>RateLimiter\<close>: \<^verbatim>\<open>server/src/rate-limit.ts\<close> and \<^verbatim>\<open>rate-limit-store.ts\<close>.

  \<^bold>\<open>What the lemmas show.\<close> For the review store: over every sequence of operations from empty files
  no operation raises, the log is gap-free and append-only, the counters agree with the entries, a
  refused operation writes nothing, also when writes fail the log is never behind the snapshot, and an
  enforced case is approved only by two distinct principals
  recorded in the log; the export gate adds that no enforced case leaves without them. For
  the policy gate: the decision of a case is characterised rule by rule, a case of regulated risk is
  never approved under any severity override, the report's counters and flags agree with its
  violations, and pruning a report equals evaluating the gate without the resolved conflicts. For
  the judges: the verdict of a panel is characterised, a confident rejection cannot be outvoted, no
  finding is lost and artefacts can be rebuilt from their own panel. For the repair loop: its outcome
  and exceptions are characterised, every run ends within its iterations and the budget guard is
  respected. For the queue: over every sequence of operations stored verdicts are signed and never
  replaced, and no identifier leads out of its tenant's directory. For FinOps: the report of any sequence
  of recordings holds exactly what they charge, in every counter and total, and a job is over budget exactly when a limit is exceeded. For
  sources: validation accepts exactly the well-formed envelopes, the planner plans each of them, and
  hashes ignore the order of the sources. The reconciliation never throws, its report accounts for every
  source, no element of the design is lost (screens lose their locale), label conflicts are reported exactly, and a conflict keeps
  the gate from approving the cases it affects. For
  overrides: a recorded override is honoured, and a signed one cannot be moved to another case. For
  workflows: the breadth-first search returns and finds a shortest path exactly when one exists, and
  clean and blocked rows are characterised by walks of the machine. The circuit breaker refines a
  three-state automaton, and the limiter bounds the accepted requests of every time interval. For the
  idempotency cache: after every sequence of operations a hit returns a value stored under the same
  digest within the lifetime, and the cache behaves as a map. For the reports: buckets
  count exactly the covered ids and an uncovered criterion blocks the gate, duplicates are exactly the
  similar pairs, a failing probe is never reported as executed and never ends the run, the evaluation of invariants is
  characterised, and a built disagreement report can be written exactly when its time is ISO 8601 and no
  judge is repeated.

  \<^bold>\<open>Modelling conventions.\<close> A \<^verbatim>\<open>throw\<close> is the left value of a sum. Loops that are not structurally
  recursive (search, path reconstruction, the compare-and-swap loops of the breaker) are partial
  functions into \<^verbatim>\<open>option\<close>, and the properties prove that they return; no fuel is used. JavaScript
  numbers are rationals or \<^verbatim>\<open>js_number\<close> where NaN or infinities are tested for. Each operation of the review store runs
  under the per-job lock of the code and is one step; \<^verbatim>\<open>ReviewStoreWrites\<close> takes it apart into its writes. Job
  ids, which the code joins to a directory without a guard, are assumed to name distinct directories. \<^verbatim>\<open>localeCompare\<close> is an arbitrary comparator.

  \<^bold>\<open>Parameters.\<close> HMAC, \<^verbatim>\<open>Date.parse\<close> and the clock, event ids, the host's string collation,
  Unicode normalisation of accessibility texts and the text form of fractional numbers (\<^verbatim>\<open>text_host\<close>).
  SHA-256, key import and ed25519 verification, the generator and judges the repair loop calls, failing
  writes, the hash of canonical JSON values, and the redaction of secrets in report labels. The cache's
  secret provider, the embedding provider, the external probe and its context callback in the duplicate report, the square
  root, and the predicates of the domain invariants.
  Strings are lists of 8-bit code units; the arrows of the drift text are their UTF-8 bytes.

  \<^bold>\<open>Not modelled.\<close> Model clients, network and file-system adapters, command line and HTTP glue,
  third-party output formats, exceptions of the callbacks \<^verbatim>\<open>onStateTransition\<close> of the circuit breaker (also its calling
  back into the breaker) and \<^verbatim>\<open>onIterationComplete\<close> of the repair loop, symbolic links and file systems that
  ignore case, the regular expressions of the content detector, and reports that only
  aggregate artefacts on disk, the parsing of Jira and Figma payloads, and the derivation of the test
  design model. Human-readable messages are left out of the workflow issues.
\<close>

end
